(* ===== verification/Libmsr_Prelude.thy ===== *)
theory Libmsr_Prelude
  imports Main "HOL-Library.Word" "HOL-Library.Monad_Syntax"
begin

text \<open>
  Shared ground of the development: the machine-integer types of the C sources, arrays as
  lists with checked access, and loops over a state that may be cut short.

  A computation of the library is a function that returns \<open>Some (result, state)\<close>, or
  \<open>None\<close> where the C program has no defined result: a null, dangling or uninitialised
  pointer is followed, or an array is indexed out of its bounds.
\<close>

unbundle bit_operations_syntax

section \<open>Machine integers\<close>

type_synonym u8 = "8 word"
type_synonym u16 = "16 word"
type_synonym u32 = "32 word"
type_synonym u64 = "64 word"

text \<open>A C \<open>int\<close>: 32 bits read as two's complement where its sign matters.\<close>

type_synonym i32 = "32 word"

section \<open>Collections of facts\<close>

named_theorems array_simps \<open>reads and writes of C arrays\<close>
named_theorems mask_simps \<open>bit fields of a register\<close>
named_theorems batch_defs \<open>definitions of the batch operations\<close>

section \<open>Arrays\<close>

text \<open>An array access outside the array has no defined result.\<close>

definition aget :: "'a list \<Rightarrow> nat \<Rightarrow> 'a option" where
  "aget xs i = (if i < length xs then Some (xs ! i) else None)"

definition aset :: "'a list \<Rightarrow> nat \<Rightarrow> 'a \<Rightarrow> 'a list option" where
  "aset xs i v = (if i < length xs then Some (xs[i := v]) else None)"

lemma aget_Some_iff [array_simps]: "aget xs i = Some v \<longleftrightarrow> i < length xs \<and> xs ! i = v"
  by (auto simp: aget_def)

lemma aset_Some_iff [array_simps]: "aset xs i v = Some ys \<longleftrightarrow> i < length xs \<and> ys = xs[i := v]"
  by (auto simp: aset_def)

lemma aget_in [simp]: "i < length xs \<Longrightarrow> aget xs i = Some (xs ! i)"
  by (simp add: aget_def)

lemma aget_out [simp]: "length xs \<le> i \<Longrightarrow> aget xs i = None"
  by (simp add: aget_def)

lemma aset_in [simp]: "i < length xs \<Longrightarrow> aset xs i v = Some (xs[i := v])"
  by (simp add: aset_def)

lemma aset_out [simp]: "length xs \<le> i \<Longrightarrow> aset xs i v = None"
  by (simp add: aset_def)

lemma aget_aset_same: "aset xs i v = Some ys \<Longrightarrow> aget ys i = Some v"
  by (auto simp: array_simps)

lemma aget_aset_other: "aset xs i v = Some ys \<Longrightarrow> i \<noteq> j \<Longrightarrow> aget ys j = aget xs j"
  by (auto simp: aset_Some_iff aget_def)

text \<open>The same through a pointer that may not have been set to an array yet.\<close>

definition oget :: "'a list option \<Rightarrow> nat \<Rightarrow> 'a option" where
  "oget a i = Option.bind a (\<lambda>xs. aget xs i)"

definition oset :: "'a list option \<Rightarrow> nat \<Rightarrow> 'a \<Rightarrow> 'a list option option" where
  "oset a i v = Option.bind a (\<lambda>xs. map_option Some (aset xs i v))"

lemma oget_Some [simp]: "i < length xs \<Longrightarrow> oget (Some xs) i = Some (xs ! i)"
  by (simp add: oget_def)

lemma oset_Some [simp]: "i < length xs \<Longrightarrow> oset (Some xs) i v = Some (Some (xs[i := v]))"
  by (simp add: oset_def)

lemma oget_None [simp]: "oget None i = None"
  by (simp add: oget_def)

lemma oset_None [simp]: "oset None i v = None"
  by (simp add: oset_def)

section \<open>Loops over a state\<close>

text \<open>
  \<open>foldo f xs s\<close> runs the body \<open>f\<close> for the elements of \<open>xs\<close> in order and stops at
  the first element whose body has no defined result.  A C loop
  \<open>for (i = 0; i < n; i++)\<close> is \<open>foldo body [0..<n]\<close>.
\<close>

fun foldo :: "('a \<Rightarrow> 's \<Rightarrow> 's option) \<Rightarrow> 'a list \<Rightarrow> 's \<Rightarrow> 's option" where
  "foldo f [] s = Some s"
| "foldo f (x # xs) s = Option.bind (f x s) (foldo f xs)"

lemma foldo_append: "foldo f (xs @ ys) s = Option.bind (foldo f xs s) (foldo f ys)"
  by (induction xs arbitrary: s) (auto split: bind_split)

lemma foldo_snoc: "foldo f (xs @ [x]) s = Option.bind (foldo f xs s) (f x)"
proof -
  have "foldo f [x] = f x"
    by (rule ext) (simp add: foldo.simps(1) [abs_def])
  then show ?thesis by (simp add: foldo_append)
qed

text \<open>A property that every iteration keeps holds when the loop has ended.\<close>

lemma foldo_inv:
  assumes "foldo f xs s = Some t" and "P s"
    and "\<And>x s t. x \<in> set xs \<Longrightarrow> P s \<Longrightarrow> f x s = Some t \<Longrightarrow> P t"
  shows "P t"
  using assms
proof (induction xs arbitrary: s)
  case Nil
  then show ?case by simp
next
  case (Cons x xs)
  from Cons.prems(1) obtain u where u: "f x s = Some u" "foldo f xs u = Some t"
    by (auto split: bind_splits)
  show ?case
    using Cons.prems u by (intro Cons.IH [of u]) auto
qed

text \<open>
  A loop over \<open>[0..<n]\<close> with an invariant indexed by the number of iterations done: the
  loop has a defined result, and the invariant holds of it.
\<close>

lemma foldo_upt:
  assumes "P 0 s"
    and "\<And>i s. i < n \<Longrightarrow> P i s \<Longrightarrow> \<exists>t. f i s = Some t \<and> P (Suc i) t"
  shows "\<exists>t. foldo f [0..<n] s = Some t \<and> P n t"
  using assms(2)
proof (induction n)
  case 0
  then show ?case using assms(1) by simp
next
  case (Suc n)
  then obtain t where "foldo f [0..<n] s = Some t" "P n t" by force
  moreover from Suc.prems [of n t] this obtain u where "f n t = Some u" "P (Suc n) u" by auto
  ultimately show ?case by (auto simp: foldo_snoc)
qed

text \<open>A loop with an iteration that has no defined result has none.\<close>

lemma foldo_None: "x \<in> set xs \<Longrightarrow> (\<And>s. f x s = None) \<Longrightarrow> foldo f xs s = None"
  by (induction xs arbitrary: s) (auto split: bind_splits)

text \<open>A loop whose body always has a defined result is an ordinary fold.\<close>

lemma foldo_total: "(\<And>x s. x \<in> set xs \<Longrightarrow> f x s = Some (g x s)) \<Longrightarrow> foldo f xs s = Some (fold g xs s)"
  by (induction xs arbitrary: s) auto

text \<open>A loop that prints: the outputs of the iterations, one after the other.\<close>

definition collect :: "(nat \<Rightarrow> 'a list option) \<Rightarrow> nat \<Rightarrow> 'a list option" where
  "collect f n = foldo (\<lambda>i out. do { x \<leftarrow> f i; Some (out @ x) }) [0..<n] []"

lemma collect_0 [simp]: "collect f 0 = Some []"
  by (simp add: collect_def)

lemma collect_Suc: "collect f (Suc n) = Option.bind (collect f n) (\<lambda>out. map_option ((@) out) (f n))"
  by (cases "f n") (simp_all add: collect_def foldo_snoc map_conv_bind_option)

lemma collect_Some:
  "(\<And>i. i < n \<Longrightarrow> f i = Some (g i)) \<Longrightarrow> collect f n = Some (concat (map g [0..<n]))"
  by (induction n) (simp_all add: collect_Suc)

lemma collect_length:
  assumes "collect f n = Some out" "\<And>i x. i < n \<Longrightarrow> f i = Some x \<Longrightarrow> length x = m"
  shows "length out = n * m"
  using assms
proof (induction n arbitrary: out)
  case 0
  then show ?case by simp
next
  case (Suc n)
  then obtain xs x where "collect f n = Some xs" "f n = Some x" "out = xs @ x"
    by (auto simp: collect_Suc split: bind_splits)
  moreover from this(1) have "length xs = n * m" by (rule Suc.IH) (rule Suc.prems(2), simp_all)
  ultimately show ?case using Suc.prems(2) [of n x] by simp
qed

lemma list_update_upt_map:
  "i \<le> length xs \<Longrightarrow> fold (\<lambda>k ys. ys[k := f k]) [0..<i] xs = map f [0..<i] @ drop i xs"
proof (induction i)
  case 0
  then show ?case by simp
next
  case (Suc i)
  then show ?case
    by (simp add: list_update_append Cons_nth_drop_Suc [symmetric])
qed

text \<open>The \<open>i\<close>-th entry of the \<open>j\<close>-th of \<open>q\<close> rows of length \<open>m\<close>.\<close>

lemma block_index: "j < q \<Longrightarrow> i < m \<Longrightarrow> j * m + i < q * (m :: nat)"
  by (metis add.commute add_less_le_mono mult_Suc mult_le_mono1 Suc_leI less_le_trans nat_add_left_cancel_less)

lemma nth_list_update_neq_len:
  "i \<noteq> j \<Longrightarrow> xs[i := v] ! j = xs ! j \<and> length (xs[i := v]) = length xs"
  by simp

end
