(* ===== verification/Libmsr_Error.thy ===== *)
theory Libmsr_Error
  imports Libmsr_Prelude
begin

text \<open>
  \<open>src/libmsr_error.c\<close> and \<open>include/libmsr_error.h\<close>: the error codes, the table of
  messages, and the bounded copy of a message into the caller's buffer.  In the other
  theories \<open>libmsr_error_handler\<close> appends the code to the log that stands for stderr.
\<close>

section \<open>Codes\<close>

datatype libmsr_error_e =
    LIBMSR_ERROR_RUNTIME
  | LIBMSR_ERROR_PLATFORM_NOT_SUPPORTED
  | LIBMSR_ERROR_ARRAY_BOUNDS
  | LIBMSR_ERROR_MSR_BATCH
  | LIBMSR_ERROR_PLATFORM_ENV
  | LIBMSR_ERROR_MSR_MODULE
  | LIBMSR_ERROR_MSR_OPEN
  | LIBMSR_ERROR_MSR_CLOSE
  | LIBMSR_ERROR_MSR_READ
  | LIBMSR_ERROR_MSR_WRITE
  | LIBMSR_ERROR_RAPL_INIT
  | LIBMSR_ERROR_MSR_INIT
  | LIBMSR_ERROR_INVAL
  | LIBMSR_ERROR_NOT_IMPLEMENTED_YET
  | LIBMSR_ERROR_MEMORY_ALLOCATION
  | LIBMSR_ERROR_CSR_INIT
  | LIBMSR_ERROR_CSR_COUNTERS

fun error_code :: "libmsr_error_e \<Rightarrow> int" where
  "error_code LIBMSR_ERROR_RUNTIME = -1"
| "error_code LIBMSR_ERROR_PLATFORM_NOT_SUPPORTED = -2"
| "error_code LIBMSR_ERROR_ARRAY_BOUNDS = -3"
| "error_code LIBMSR_ERROR_MSR_BATCH = -4"
| "error_code LIBMSR_ERROR_PLATFORM_ENV = -5"
| "error_code LIBMSR_ERROR_MSR_MODULE = -6"
| "error_code LIBMSR_ERROR_MSR_OPEN = -7"
| "error_code LIBMSR_ERROR_MSR_CLOSE = -8"
| "error_code LIBMSR_ERROR_MSR_READ = -9"
| "error_code LIBMSR_ERROR_MSR_WRITE = -10"
| "error_code LIBMSR_ERROR_RAPL_INIT = -11"
| "error_code LIBMSR_ERROR_MSR_INIT = -12"
| "error_code LIBMSR_ERROR_INVAL = -13"
| "error_code LIBMSR_ERROR_NOT_IMPLEMENTED_YET = -14"
| "error_code LIBMSR_ERROR_MEMORY_ALLOCATION = -15"
| "error_code LIBMSR_ERROR_CSR_INIT = -16"
| "error_code LIBMSR_ERROR_CSR_COUNTERS = -17"

lemma error_code_inj: "error_code a = error_code b \<longleftrightarrow> a = b"
  by (cases a; cases b) simp_all

lemma error_code_range: "-17 \<le> error_code e \<and> error_code e \<le> -1"
  by (cases e) simp_all

section \<open>Messages\<close>

text \<open>The text selected by the \<open>switch\<close> of \<open>libmsr_error_message\<close>, in its order.\<close>

definition error_text :: "int \<Rightarrow> string" where
  "error_text err =
     (if err = error_code LIBMSR_ERROR_PLATFORM_NOT_SUPPORTED then ''<libmsr> Feature not supported on this architecture''
      else if err = error_code LIBMSR_ERROR_ARRAY_BOUNDS then ''<libmsr> Accessing element outside allocated bounds''
      else if err = error_code LIBMSR_ERROR_MSR_BATCH then ''<libmsr> Could not perform MSR batch operation''
      else if err = error_code LIBMSR_ERROR_PLATFORM_ENV then ''<libmsr> Invalid or incorrect architecture configuration''
      else if err = error_code LIBMSR_ERROR_MSR_MODULE then ''<libmsr> Could not locate MSR device''
      else if err = error_code LIBMSR_ERROR_MSR_OPEN then ''<libmsr> Could not open MSR device''
      else if err = error_code LIBMSR_ERROR_MSR_CLOSE then ''<libmsr> Could not close MSR device''
      else if err = error_code LIBMSR_ERROR_MSR_READ then ''<libmsr> Could not read MSR device''
      else if err = error_code LIBMSR_ERROR_MSR_WRITE then ''<libmsr> Could not write MSR device''
      else if err = error_code LIBMSR_ERROR_RUNTIME then ''<libmsr> Runtime error''
      else if err = error_code LIBMSR_ERROR_RAPL_INIT then ''<libmsr> Could not initialize RAPL''
      else if err = error_code LIBMSR_ERROR_MSR_INIT then ''<libmsr> Could not initialize MSR''
      else if err = error_code LIBMSR_ERROR_INVAL then ''<libmsr> Invalid value''
      else if err = error_code LIBMSR_ERROR_NOT_IMPLEMENTED_YET then ''<libmsr> This has not yet been implemented by libmsr''
      else if err = error_code LIBMSR_ERROR_MEMORY_ALLOCATION then ''<libmsr> Could not allocate memory''
      else if err = error_code LIBMSR_ERROR_CSR_INIT then ''<libmsr> Could not initialize CSR''
      else if err = error_code LIBMSR_ERROR_CSR_COUNTERS then ''<libmsr> CSR performance counter error.''
      else ''<libmsr> Undefined error code'')"

definition NUL :: char where
  "NUL = CHR 0x00"

text \<open>
  \<open>strncpy(dst, src, n)\<close>: at most \<open>n\<close> characters of \<open>src\<close>, padded with NUL up to
  \<open>n\<close>; the rest of \<open>dst\<close> is untouched.
\<close>

definition strncpy :: "string \<Rightarrow> string \<Rightarrow> nat \<Rightarrow> string" where
  "strncpy dst src n = take n (src @ replicate n NUL) @ drop n dst"

text \<open>
  \<open>libmsr_error_message(err, msg, sz)\<close>; \<open>msg\<close> is the caller's buffer, and a buffer
  shorter than \<open>sz\<close> (the C parameter \<open>size\<close>) is overrun.
\<close>

definition libmsr_error_message :: "int \<Rightarrow> string \<Rightarrow> nat \<Rightarrow> string option" where
  "libmsr_error_message err msg sz =
     (if length msg < sz then None
      else let msg = strncpy msg (error_text err) sz
           in if sz > 0 then aset msg (sz - 1) NUL else Some msg)"

definition NAME_MAX :: nat where
  "NAME_MAX = 1024"

text \<open>\<open>get_libmsr_error_message\<close>: the buffer it allocates holds indeterminate characters.\<close>

definition get_libmsr_error_message :: "string \<Rightarrow> int \<Rightarrow> string option" where
  "get_libmsr_error_message brief_msg err =
     (let err = (if err \<noteq> 0 then err else error_code LIBMSR_ERROR_RUNTIME)
      in libmsr_error_message err brief_msg NAME_MAX)"

text \<open>The C string a buffer holds: everything before its first NUL.\<close>

definition c_string :: "string \<Rightarrow> string" where
  "c_string = takeWhile (\<lambda>c. c \<noteq> NUL)"

section \<open>What a caller gets\<close>

lemma error_text_no_NUL: "NUL \<notin> set (error_text err)"
  by (simp add: error_text_def NUL_def)

lemma error_text_short: "length (error_text err) < NAME_MAX"
  by (simp add: error_text_def NAME_MAX_def)

lemma length_strncpy: "n \<le> length dst \<Longrightarrow> length (strncpy dst src n) = length dst"
  by (simp add: strncpy_def)

lemma c_string_append: "NUL \<notin> set xs \<Longrightarrow> c_string (xs @ NUL # ys) = xs"
  by (induction xs) (auto simp: c_string_def)

text \<open>
  Within the buffer, the message is the table's text cut to \<open>sz - 1\<close> characters, it is
  terminated, and nothing beyond \<open>sz\<close> is written.
\<close>

lemma error_message_spec:
  assumes "0 < sz" "sz \<le> length msg"
  shows "\<exists>out. libmsr_error_message err msg sz = Some out
           \<and> c_string out = take (sz - 1) (error_text err)
           \<and> length out = length msg \<and> drop sz out = drop sz msg"
proof -
  define src where "src = error_text err @ replicate sz NUL"
  define t where "t = take (sz - 1) src"
  have len: "length t = sz - 1" by (simp add: t_def src_def)
  have "take sz src = t @ [src ! (sz - 1)]"
    using assms(1) take_Suc_conv_app_nth [of "sz - 1" src] by (simp add: t_def src_def)
  then have copy: "strncpy msg (error_text err) sz = t @ src ! (sz - 1) # drop sz msg"
    by (simp add: strncpy_def src_def)
  have "(t @ src ! (sz - 1) # drop sz msg)[sz - 1 := NUL] = t @ NUL # drop sz msg"
    unfolding len [symmetric] by (rule list_update_length)
  then have out: "libmsr_error_message err msg sz = Some (t @ NUL # drop sz msg)"
    using assms len by (simp add: libmsr_error_message_def copy Let_def aset_def
        del: list_update_append)
  have "c_string (t @ NUL # drop sz msg) = take (sz - 1) (error_text err)"
  proof (cases "sz - 1 \<le> length (error_text err)")
    case True
    then have "t = take (sz - 1) (error_text err)" by (simp add: t_def src_def)
    moreover have "NUL \<notin> set (take (sz - 1) (error_text err))"
      using error_text_no_NUL [of err] by (blast dest: in_set_takeD)
    ultimately show ?thesis by (simp add: c_string_append)
  next
    case False
    then have "t = error_text err @ replicate (sz - 1 - length (error_text err)) NUL"
      by (simp add: t_def src_def)
    with False obtain k where "t @ NUL # drop sz msg = error_text err @ NUL # k"
      by (cases "sz - 1 - length (error_text err)") auto
    with False error_text_no_NUL [of err] show ?thesis by (simp add: c_string_append)
  qed
  moreover have "length (t @ NUL # drop sz msg) = length msg"
      "drop sz (t @ NUL # drop sz msg) = drop sz msg"
    using assms len by simp_all
  ultimately show ?thesis using out by blast
qed

lemma error_text_inj: "error_text (error_code a) = error_text (error_code b) \<longleftrightarrow> a = b"
  by (cases a; cases b) (simp_all add: error_text_def)

text \<open>\<open>get_libmsr_error_message\<close> never overruns its buffer and always leaves a terminated
  string in it: the whole message of the code, with code 0 taken as a runtime error; two codes of
  the library never share a message.\<close>

theorem error_message_whole:
  assumes "length brief_msg = NAME_MAX"
  shows "\<exists>out. get_libmsr_error_message brief_msg err = Some out \<and> length out = NAME_MAX
    \<and> c_string out = error_text (if err = 0 then error_code LIBMSR_ERROR_RUNTIME else err)
    \<and> (\<forall>a b. error_text (error_code a) = error_text (error_code b) \<longrightarrow> a = b)"
proof -
  let ?e = "if err \<noteq> 0 then err else error_code LIBMSR_ERROR_RUNTIME"
  have "0 < NAME_MAX" by (simp add: NAME_MAX_def)
  from error_message_spec [OF this, of brief_msg ?e] assms obtain out where
    "libmsr_error_message ?e brief_msg NAME_MAX = Some out" "length out = NAME_MAX"
    "c_string out = take (NAME_MAX - 1) (error_text ?e)" by auto
  with error_text_short [of ?e] error_text_inj show ?thesis
    by (auto simp: get_libmsr_error_message_def Let_def)
qed

theorem error_message_witness:
  "\<exists>out. get_libmsr_error_message (replicate NAME_MAX CHR ''x'') 0 = Some out
     \<and> c_string out = ''<libmsr> Runtime error''"
  using error_message_whole [of "replicate NAME_MAX CHR ''x''" 0] by (auto simp: error_text_def)

end
