(* ===== verification/Memhdlr.thy ===== *)
theory Memhdlr
  imports Libmsr_Prelude
begin

text \<open>
  \<open>src/memhdlr.c\<close>: the allocation wrappers and the tracker behind them, which records
  every block the library allocates so that \<open>finalize_msr\<close> can free them all.

  An address is a number, \<open>0\<close> is NULL.  The C allocator is not modelled: what
  \<open>malloc\<close>, \<open>calloc\<close> or \<open>realloc\<close> answers is an argument of the wrapper (\<open>0\<close> for a
  failure), and the set of live blocks is part of the state, so that freeing a block that is
  not live is visible as \<open>Undefined\<close>.
\<close>

section \<open>State\<close>

type_synonym addr = nat

datatype 'a c_run = Returns 'a | Exits int | Undefined

text \<open>The tracking array: not yet allocated, allocated, or freed with the pointer kept.\<close>

datatype tracker = Untracked | Tracking | Dangling

text \<open>
  \<open>arrays\<close> holds the entries below \<open>last\<close>, so \<open>last\<close> is its length; \<open>capacity\<close> is the
  C variable \<open>size\<close>.
\<close>

record mem =
  arrays :: "addr list"
  capacity :: nat
  tracking :: tracker
  live :: "addr set"

definition mem_init :: mem where
  "mem_init = \<lparr>arrays = [], capacity = 16, tracking = Untracked, live = {}\<rparr>"

datatype libmsr_mem_mgmt_e =
  LIBMSR_FREE | LIBMSR_MALLOC | LIBMSR_CALLOC | LIBMSR_REALLOC | LIBMSR_FINALIZE

section \<open>The tracker\<close>

definition c_free :: "addr \<Rightarrow> mem \<Rightarrow> mem c_run" where
  "c_free p m =
     (if p = 0 then Returns m
      else if p \<in> live m then Returns (m\<lparr>live := live m - {p}\<rparr>)
      else Undefined)"

text \<open>The loop of \<open>LIBMSR_FINALIZE\<close>, over the entries.\<close>

fun free_all :: "addr list \<Rightarrow> mem \<Rightarrow> mem c_run" where
  "free_all [] m = Returns m"
| "free_all (p # ps) m =
     (case c_free p m of Returns m \<Rightarrow> free_all ps m | Exits c \<Rightarrow> Exits c | Undefined \<Rightarrow> Undefined)"

text \<open>The loop of \<open>LIBMSR_FREE\<close>: free and clear every entry that holds the address.\<close>

fun free_matching :: "addr \<Rightarrow> addr list \<Rightarrow> mem \<Rightarrow> (addr list \<times> mem) c_run" where
  "free_matching old [] m = Returns ([], m)"
| "free_matching old (p # ps) m =
     (case (if p = old then c_free old m else Returns m) of
        Returns m \<Rightarrow>
          (case free_matching old ps m of
             Returns (qs, m) \<Rightarrow> Returns ((if p = old then 0 else p) # qs, m)
           | Exits c \<Rightarrow> Exits c | Undefined \<Rightarrow> Undefined)
      | Exits c \<Rightarrow> Exits c | Undefined \<Rightarrow> Undefined)"

text \<open>
  \<open>memory_handler(address, oldaddr, type)\<close>.  \<open>grow\<close> says whether the tracker's own
  \<open>malloc\<close> or \<open>realloc\<close> succeeds.  Entries are read only while the array is allocated.
\<close>

fun memory_handler :: "bool \<Rightarrow> addr \<Rightarrow> addr \<Rightarrow> libmsr_mem_mgmt_e \<Rightarrow> mem \<Rightarrow> mem c_run" where
  "memory_handler grow address oldaddr LIBMSR_FINALIZE m =
     (if arrays m \<noteq> [] \<and> tracking m \<noteq> Tracking then Undefined
      else case free_all (arrays m) m of
        Returns m \<Rightarrow>
          (case tracking m of
             Untracked \<Rightarrow> Returns m
           | Tracking \<Rightarrow> Returns (m\<lparr>tracking := Dangling\<rparr>)
           | Dangling \<Rightarrow> Undefined)
      | Exits c \<Rightarrow> Exits c | Undefined \<Rightarrow> Undefined)"
| "memory_handler grow address oldaddr LIBMSR_REALLOC m =
     (if arrays m \<noteq> [] \<and> tracking m \<noteq> Tracking then Undefined
      else Returns (m\<lparr>arrays := map (\<lambda>p. if p = oldaddr then address else p) (arrays m)\<rparr>))"
| "memory_handler grow address oldaddr LIBMSR_FREE m =
     (if arrays m \<noteq> [] \<and> tracking m \<noteq> Tracking then Undefined
      else case free_matching oldaddr (arrays m) m of
        Returns (qs, m) \<Rightarrow> Returns (m\<lparr>arrays := qs\<rparr>)
      | Exits c \<Rightarrow> Exits c | Undefined \<Rightarrow> Undefined)"
| "memory_handler grow address oldaddr alloc m =
     (let full = (length (arrays m) \<ge> capacity m)
      in if tracking m = Dangling then (if full \<or> address \<noteq> 0 then Undefined else Returns m)
      else if (tracking m = Untracked \<or> full) \<and> \<not> grow then Exits (-1)
      else let m = m\<lparr>tracking := Tracking,
                     capacity := (if full then 2 * capacity m else capacity m)\<rparr>
      in if address \<noteq> 0
         then (if length (arrays m) < capacity m
               then Returns (m\<lparr>arrays := arrays m @ [address]\<rparr>) else Undefined)
         else Returns m)"

section \<open>The wrappers\<close>

definition libmsr_malloc :: "addr \<Rightarrow> bool \<Rightarrow> mem \<Rightarrow> mem c_run" where
  "libmsr_malloc result grow m =
     (if result = 0 then Exits (-1)
      else memory_handler grow result 0 LIBMSR_MALLOC (m\<lparr>live := insert result (live m)\<rparr>))"

definition libmsr_calloc :: "addr \<Rightarrow> bool \<Rightarrow> mem \<Rightarrow> mem c_run" where
  "libmsr_calloc result grow m =
     (if result = 0 then Exits (-1)
      else memory_handler grow result 0 LIBMSR_CALLOC (m\<lparr>live := insert result (live m)\<rparr>))"

text \<open>\<open>realloc(addr, size)\<close> moves the block \<open>addr\<close>, which must be live or NULL, to \<open>result\<close>.\<close>

definition libmsr_realloc :: "addr \<Rightarrow> addr \<Rightarrow> bool \<Rightarrow> mem \<Rightarrow> mem c_run" where
  "libmsr_realloc addr result grow m =
     (if addr \<noteq> 0 \<and> addr \<notin> live m then Undefined
      else if result = 0 then Exits (-1)
      else memory_handler grow result addr LIBMSR_REALLOC
             (m\<lparr>live := insert result (live m - {addr})\<rparr>))"

definition libmsr_free :: "addr \<Rightarrow> mem \<Rightarrow> mem c_run" where
  "libmsr_free addr m = memory_handler True 0 addr LIBMSR_FREE m"

definition memhdlr_finalize :: "mem \<Rightarrow> mem c_run" where
  "memhdlr_finalize m = memory_handler True 0 0 LIBMSR_FINALIZE m"

section \<open>Reachable trackers\<close>

text \<open>
  A run of the library: allocations whose result is fresh, reallocations of a block that is
  live, frees of any address.  These are the uses the other files make of the wrappers.
\<close>

inductive mem_step :: "mem \<Rightarrow> mem \<Rightarrow> bool" where
  malloc: "a \<notin> live m \<Longrightarrow> libmsr_malloc a g m = Returns m' \<Longrightarrow> mem_step m m'"
| calloc: "a \<notin> live m \<Longrightarrow> libmsr_calloc a g m = Returns m' \<Longrightarrow> mem_step m m'"
| realloc: "old \<in> live m \<Longrightarrow> a \<notin> live m \<or> a = old \<Longrightarrow> libmsr_realloc old a g m = Returns m' \<Longrightarrow> mem_step m m'"
| free: "libmsr_free a m = Returns m' \<Longrightarrow> mem_step m m'"

inductive mem_reachable :: "mem \<Rightarrow> bool" where
  init: "mem_reachable mem_init"
| step: "mem_reachable m \<Longrightarrow> mem_step m m' \<Longrightarrow> mem_reachable m'"

inductive_cases mem_stepE: "mem_step m m'"

text \<open>The addresses an entry list holds: NULL marks a freed entry.\<close>

definition held :: "addr list \<Rightarrow> addr list" where
  "held ps = filter (\<lambda>p. p \<noteq> 0) ps"

lemma held_simps [simp]:
  "held [] = []" "held (ps @ qs) = held ps @ held qs"
  "held (p # ps) = (if p = 0 then held ps else p # held ps)"
  by (simp_all add: held_def)

lemma set_held [simp]: "set (held ps) = set ps - {0}"
  by (auto simp: held_def)

text \<open>
  The invariant: the tracked addresses are distinct and are exactly the live blocks, there is
  room for the entries, and the array exists as soon as there is an entry.
\<close>

definition mem_inv :: "mem \<Rightarrow> bool" where
  "mem_inv m \<longleftrightarrow> distinct (held (arrays m)) \<and> live m = set (held (arrays m))
     \<and> length (arrays m) \<le> capacity m \<and> 0 < capacity m
     \<and> tracking m \<noteq> Dangling \<and> (arrays m \<noteq> [] \<longrightarrow> tracking m = Tracking)"

lemma mem_inv_init: "mem_inv mem_init"
  by (simp add: mem_inv_def mem_init_def)

lemma alloc_inv:
  assumes inv: "mem_inv m" and new: "a \<notin> live m" "a \<noteq> 0" and t: "t = LIBMSR_MALLOC \<or> t = LIBMSR_CALLOC"
    and r: "memory_handler g a 0 t (m\<lparr>live := insert a (live m)\<rparr>) = Returns m'"
  shows "mem_inv m'"
proof -
  define c where "c = (if capacity m \<le> length (arrays m) then 2 * capacity m else capacity m)"
  have nd: "tracking m \<noteq> Dangling" using inv by (simp add: mem_inv_def)
  have c: "length (arrays m) < c" using inv unfolding c_def mem_inv_def by simp
  have "m' = m\<lparr>live := insert a (live m), tracking := Tracking, capacity := c,
                arrays := arrays m @ [a]\<rparr>"
    using t r new(2) nd c by (elim disjE) (simp_all add: Let_def c_def split: if_splits)
  with inv new c show ?thesis unfolding mem_inv_def by simp
qed

lemma map_replace_held:
  assumes "distinct (held ps)" "a \<notin> set ps \<or> a = old" "a \<noteq> 0" "old \<noteq> 0"
  shows "distinct (held (map (\<lambda>p. if p = old then a else p) ps))"
  using assms by (induction ps) (auto split: if_splits)

lemma set_map_replace:
  "old \<in> set ps \<Longrightarrow> set (map (\<lambda>p. if p = old then a else p) ps) = insert a (set ps - {old})"
  by auto

lemma free_matching_spec:
  assumes "distinct (held ps)" "set (held ps) \<subseteq> live m"
  shows "free_matching old ps m
    = Returns (map (\<lambda>p. if p = old then 0 else p) ps,
               m\<lparr>live := (if old \<in> set ps then live m - ({old} - {0}) else live m)\<rparr>)"
  using assms
proof (induction ps arbitrary: m)
  case Nil
  then show ?case by simp
next
  case (Cons p ps)
  show ?case
  proof (cases "p = old \<and> p \<noteq> 0")
    case True
    with Cons.prems have "old \<notin> set ps" "set (held ps) \<subseteq> live m - {old}" by auto
    with Cons True show ?thesis by (simp add: c_free_def)
  next
    case False
    with Cons.prems have "distinct (held ps)" "set (held ps) \<subseteq> live m" by (auto split: if_splits)
    from Cons.IH [OF this] False show ?thesis by (auto simp: c_free_def)
  qed
qed

lemma held_map_clear:
  "old \<noteq> 0 \<Longrightarrow> held (map (\<lambda>p. if p = old then 0 else p) ps) = filter (\<lambda>p. p \<noteq> old) (held ps)"
  by (induction ps) auto

lemma mem_step_inv:
  assumes "mem_step m m'" "mem_inv m"
  shows "mem_inv m'"
  using assms(1)
proof (cases rule: mem_step.cases)
  case (malloc a g)
  with assms(2) show ?thesis by (auto simp: libmsr_malloc_def split: if_splits intro: alloc_inv)
next
  case (calloc a g)
  with assms(2) show ?thesis by (auto simp: libmsr_calloc_def split: if_splits intro: alloc_inv)
next
  case (realloc old a g)
  from assms(2) realloc have old: "old \<in> set (arrays m)" "old \<noteq> 0" by (auto simp: mem_inv_def)
  from realloc have a: "a \<noteq> 0" by (auto simp: libmsr_realloc_def split: if_splits)
  with assms(2) realloc have fresh: "a \<notin> set (arrays m) \<or> a = old" by (auto simp: mem_inv_def)
  let ?ps = "map (\<lambda>p. if p = old then a else p) (arrays m)"
  have tr: "tracking m = Tracking" using old(1) assms(2) unfolding mem_inv_def by force
  have m': "m' = m\<lparr>live := insert a (live m - {old}), arrays := ?ps\<rparr>"
    using realloc(1,3) a old(2) tr by (simp add: libmsr_realloc_def)
  have "distinct (held ?ps)"
    using assms(2) fresh a old(2) by (intro map_replace_held) (auto simp: mem_inv_def)
  moreover have "set (held ?ps) = insert a (live m - {old})"
    using assms(2) a unfolding set_held set_map_replace [OF old(1)] by (auto simp: mem_inv_def)
  ultimately show ?thesis
    using assms(2) m' tr unfolding mem_inv_def by simp
next
  case (free a)
  have sub: "distinct (held (arrays m))" "set (held (arrays m)) \<subseteq> live m"
    and tr: "\<not> (arrays m \<noteq> [] \<and> tracking m \<noteq> Tracking)"
    using assms(2) unfolding mem_inv_def by blast+
  have m': "m' = m\<lparr>live := (if a \<in> set (arrays m) then live m - ({a} - {0}) else live m),
      arrays := map (\<lambda>p. if p = a then 0 else p) (arrays m)\<rparr>"
    using free tr unfolding libmsr_free_def memory_handler.simps if_not_P [OF tr]
      free_matching_spec [OF sub] by simp
  show ?thesis
  proof (cases "a = 0")
    case True
    then have "map (\<lambda>p. if p = a then 0 else p) (arrays m) = arrays m" by (simp add: map_idI)
    with True assms(2) m' show ?thesis by (simp add: mem_inv_def)
  next
    case False
    have "set (filter (\<lambda>p. p \<noteq> a) (held (arrays m))) = live m - {a}"
      using assms(2) unfolding mem_inv_def by auto
    moreover have "live m - {a} = (if a \<in> set (arrays m) then live m - ({a} - {0}) else live m)"
      using assms(2) False unfolding mem_inv_def by auto
    ultimately show ?thesis
      using assms(2) m' unfolding mem_inv_def
      by (simp add: held_map_clear [OF False] del: set_held)
  qed
qed

lemma mem_reachable_inv: "mem_reachable m \<Longrightarrow> mem_inv m"
  by (induction rule: mem_reachable.induct) (auto simp: mem_inv_init intro: mem_step_inv)

section \<open>Finalisation\<close>

lemma free_all_spec:
  "distinct (held ps) \<Longrightarrow> set (held ps) \<subseteq> live m \<Longrightarrow>
     free_all ps m = Returns (m\<lparr>live := live m - set (held ps)\<rparr>)"
proof (induction ps arbitrary: m)
  case Nil
  then show ?case by simp
next
  case (Cons p ps)
  then show ?case
    by (auto simp: c_free_def Cons.IH subset_Diff_insert split: if_splits intro!: arg_cong [where f = "\<lambda>x. m\<lparr>live := x\<rparr>"])
qed

text \<open>No block is freed twice and none is left behind.\<close>

lemma finalize_inv:
  assumes "mem_inv m"
  shows "memhdlr_finalize m
    = Returns (m\<lparr>live := {}, tracking := (if tracking m = Tracking then Dangling else Untracked)\<rparr>)"
proof -
  have inv: "distinct (held (arrays m))" "live m = set (held (arrays m))"
    and tr: "\<not> (arrays m \<noteq> [] \<and> tracking m \<noteq> Tracking)" and nd: "tracking m \<noteq> Dangling"
    using assms unfolding mem_inv_def by blast+
  from inv have "free_all (arrays m) m = Returns (m\<lparr>live := {}\<rparr>)"
    by (simp add: free_all_spec del: set_held)
  with nd show ?thesis
    unfolding memhdlr_finalize_def memory_handler.simps if_not_P [OF tr]
    by (cases "tracking m") simp_all
qed

text \<open>C7: after any run of allocations, reallocations and frees, \<open>memhdlr_finalize\<close> frees every
  block that is still live, each exactly once; a second finalisation of a library that allocated
  something frees them again.\<close>

theorem finalize_frees_all:
  assumes "mem_reachable m"
  shows "\<exists>m'. memhdlr_finalize m = Returns m' \<and> live m' = {}
    \<and> (tracking m = Tracking \<longrightarrow> memhdlr_finalize m' = Undefined)"
  unfolding finalize_inv [OF mem_reachable_inv [OF assms]] by (simp add: memhdlr_finalize_def)

theorem finalize_frees_all_witness:
  "\<exists>m m'. libmsr_malloc 7 True mem_init = Returns m \<and> live m = {7}
     \<and> memhdlr_finalize m = Returns m' \<and> live m' = {}"
proof -
  obtain m where m: "libmsr_malloc 7 True mem_init = Returns m" "live m = {7}"
    by (simp add: libmsr_malloc_def mem_init_def)
  then have "mem_reachable m"
    using mem_step.malloc [of 7 mem_init True m] mem_reachable.step [OF mem_reachable.init] by (simp add: mem_init_def)
  with m finalize_frees_all show ?thesis by blast
qed

end
