(* ===== verification/Msr_Bits.thy ===== *)
theory Msr_Bits
  imports Libmsr_Prelude
begin

text \<open>
  The bit-field macros of \<open>include/cpuid.h\<close>, the read-modify-write idiom
  \<open>x = (x & ~(m << k)) | (v << k)\<close> that every setter of the library uses, and what they
  do to the bits of a 64-bit register.
\<close>

section \<open>Extraction: the macros of cpuid.h\<close>

definition MASK_RANGE :: "nat \<Rightarrow> nat \<Rightarrow> u64" where
  "MASK_RANGE m n = push_bit n (push_bit (m - n + 1) 1 - 1)"

definition MASK_VAL :: "u64 \<Rightarrow> nat \<Rightarrow> nat \<Rightarrow> u64" where
  "MASK_VAL x m n = drop_bit n (x AND MASK_RANGE m n)"

lemma MASK_RANGE_eq: "MASK_RANGE m n = push_bit n (mask (m - n + 1))"
  by (simp add: MASK_RANGE_def mask_eq_exp_minus_1 push_bit_eq_mult)

lemma bit_MASK_RANGE: "n \<le> m \<Longrightarrow> bit (MASK_RANGE m n) i \<longleftrightarrow> n \<le> i \<and> i \<le> m \<and> i < 64"
  by (auto simp: MASK_RANGE_eq bit_push_bit_iff bit_mask_iff)

lemma bit_MASK_VAL [mask_simps]:
  "n \<le> m \<Longrightarrow> bit (MASK_VAL x m n) i \<longleftrightarrow> i \<le> m - n \<and> bit x (n + i)"
  by (auto simp: MASK_VAL_def bit_drop_bit_eq bit_and_iff bit_MASK_RANGE dest: bit_imp_le_length)

lemma MASK_VAL_take_bit: "n \<le> m \<Longrightarrow> MASK_VAL x m n = take_bit (m - n + 1) (drop_bit n x)"
  by (rule bit_word_eqI) (auto simp: bit_MASK_VAL bit_take_bit_iff bit_drop_bit_eq)

lemma unat_MASK_VAL: "n \<le> m \<Longrightarrow> unat (MASK_VAL x m n) = unat x div 2 ^ n mod 2 ^ (m - n + 1)"
proof -
  have "unat (drop_bit n x) = unat x div 2 ^ n"
    by (simp only: unat_drop_bit_eq) (simp only: drop_bit_eq_div)
  then show "n \<le> m \<Longrightarrow> unat (MASK_VAL x m n) = unat x div 2 ^ n mod 2 ^ (m - n + 1)"
    by (simp only: MASK_VAL_take_bit unsigned_take_bit_eq) (simp only: take_bit_eq_mod)
qed

lemma uint_MASK_VAL: "n \<le> m \<Longrightarrow> uint (MASK_VAL x m n) = uint x div 2 ^ n mod 2 ^ (m - n + 1)"
  using unat_MASK_VAL [of n m x] by (simp add: uint_nat zdiv_int zmod_int del: of_nat_unat)

lemma MASK_VAL_bound: "n \<le> m \<Longrightarrow> unat (MASK_VAL x m n) < 2 ^ (m - n + 1)"
  by (simp add: unat_MASK_VAL)

lemma MASK_VAL_bit: "MASK_VAL x n n = (if bit x n then 1 else 0)"
  by (rule bit_word_eqI) (auto simp: bit_MASK_VAL bit_1_iff)

lemma MASK_VAL_eqI:
  assumes "n \<le> m" "\<And>i. n \<le> i \<Longrightarrow> i \<le> m \<Longrightarrow> bit x i = bit y i"
  shows "MASK_VAL x m n = MASK_VAL y m n"
  using assms by (intro bit_word_eqI) (auto simp: bit_MASK_VAL)

section \<open>Insertion: the read-modify-write idiom\<close>

text \<open>
  \<open>put_int m k v x\<close> is \<open>(x & (~(m << k))) | (v << k)\<close> for an \<open>int\<close> literal \<open>m\<close> and an
  \<open>int\<close> (or promoted \<open>__u8\<close>) value \<open>v\<close>: the shifts and the complement are done at 32 bits,
  and the results are sign-extended to the register's 64 bits.  \<open>put_u64\<close> is the same idiom
  where the operands are 64 bits wide already.
\<close>

definition put_int :: "i32 \<Rightarrow> nat \<Rightarrow> i32 \<Rightarrow> u64 \<Rightarrow> u64" where
  "put_int m k v x = (x AND scast (NOT (push_bit k m))) OR scast (push_bit k v)"

definition put_u64 :: "u64 \<Rightarrow> nat \<Rightarrow> u64 \<Rightarrow> u64 \<Rightarrow> u64" where
  "put_u64 m k v x = (x AND NOT (push_bit k m)) OR push_bit k v"

lemma bit_scast64: "bit (scast (w :: i32) :: u64) i \<longleftrightarrow> i < 64 \<and> bit w (min i 31)"
  by (auto simp: bit_signed_iff min_def dest: bit_imp_le_length)

lemma bit_put_int:
  "bit (put_int m k v x) i \<longleftrightarrow>
     i < 64 \<and> (bit x i \<and> \<not> (k \<le> min i 31 \<and> bit m (min i 31 - k))
               \<or> k \<le> min i 31 \<and> bit v (min i 31 - k))"
  by (auto simp: put_int_def bit_or_iff bit_and_iff bit_scast64 bit_not_iff bit_push_bit_iff
      min_def dest: bit_imp_le_length)

lemma bit_put_u64:
  "bit (put_u64 m k v x) i \<longleftrightarrow>
     i < 64 \<and> (bit x i \<and> \<not> (k \<le> i \<and> bit m (i - k)) \<or> k \<le> i \<and> bit v (i - k))"
  by (auto simp: put_u64_def bit_or_iff bit_and_iff bit_not_iff bit_push_bit_iff
      dest: bit_imp_le_length)

text \<open>A value fits a field of \<open>w\<close> bits when it has no bit at \<open>w\<close> or above.\<close>

definition fits :: "nat \<Rightarrow> 'a::len word \<Rightarrow> bool" where
  "fits w v \<longleftrightarrow> take_bit w v = v"

lemma fits_bit: "fits w v \<Longrightarrow> w \<le> i \<Longrightarrow> \<not> bit v i"
  unfolding fits_def by (metis bit_take_bit_iff leD)

lemma fits_lt: "fits w v \<Longrightarrow> bit v i \<Longrightarrow> i < w"
  using fits_bit not_le by blast

lemma fitsI: "(\<And>i. w \<le> i \<Longrightarrow> \<not> bit v i) \<Longrightarrow> fits w v"
  unfolding fits_def by (rule bit_word_eqI) (auto simp: bit_take_bit_iff intro: leI ccontr)

lemma fits_mono: "fits w v \<Longrightarrow> w \<le> w' \<Longrightarrow> fits w' v"
  by (rule fitsI) (auto dest: fits_lt)

lemma fits_0 [simp]: "fits w 0"
  by (simp add: fits_def)

lemma fits_mask [simp]: "w' \<le> w \<Longrightarrow> fits w (mask w')"
  by (rule fitsI) (auto simp: bit_mask_iff)

lemma fits_1 [simp]: "0 < w \<Longrightarrow> fits w 1"
  by (rule fitsI) (auto simp: bit_1_iff)

lemma fits_MASK_VAL: "n \<le> m \<Longrightarrow> m - n + 1 \<le> w \<Longrightarrow> fits w (MASK_VAL x m n)"
  by (rule fitsI) (auto simp: bit_MASK_VAL)

lemma fits_ucast: "fits w v \<Longrightarrow> fits w (ucast v)"
  by (rule fitsI) (auto simp: bit_ucast_iff dest: fits_lt)

lemma fits_one_bit: "fits 1 v \<longleftrightarrow> v = 0 \<or> v = 1"
  by (auto simp: fits_def take_bit_Suc mod2_eq_if)

lemma fits_unat: "fits w v \<longleftrightarrow> unat v < 2 ^ w"
proof -
  have "fits w v \<longleftrightarrow> take_bit w (unat v) = unat v"
    by (simp add: fits_def word_unat_eq_iff unsigned_take_bit_eq)
  then show ?thesis by (simp add: take_bit_nat_eq_self_iff)
qed

text \<open>Bits below the field are never touched.\<close>

lemma put_int_below: "h < k \<Longrightarrow> k \<le> 31 \<Longrightarrow> n \<le> h \<Longrightarrow> MASK_VAL (put_int m k v x) h n = MASK_VAL x h n"
  by (rule MASK_VAL_eqI) (auto simp: bit_put_int min_def dest: bit_imp_le_length)

text \<open>Bits above the field are untouched when mask and value fit it and the sign bit is clear.\<close>

lemma put_int_frame:
  assumes "fits w m" "fits w v" "k + w \<le> 31" "i < k \<or> k + w \<le> i"
  shows "bit (put_int m k v x) i \<longleftrightarrow> bit x i"
proof (cases "i < k")
  case True
  with assms(3) show ?thesis by (auto simp: bit_put_int dest: bit_imp_le_length)
next
  case False
  with assms have "w \<le> min i 31 - k" by auto
  with assms(1,2) have "\<not> bit m (min i 31 - k)" "\<not> bit v (min i 31 - k)" by (auto dest: fits_bit)
  then show ?thesis by (auto simp: bit_put_int dest: bit_imp_le_length)
qed

lemma put_int_above:
  assumes "fits w m" "fits w v" "k + w \<le> 31" "k + w \<le> n" "n \<le> h"
  shows "MASK_VAL (put_int m k v x) h n = MASK_VAL x h n"
  using assms by (intro MASK_VAL_eqI) (auto simp: put_int_frame)

text \<open>The field itself reads back.\<close>

lemma put_int_same:
  assumes "fits w v" "k + w \<le> 31" "0 < w" "h = k + w - 1"
  shows "MASK_VAL (put_int (mask w) k v x) h k = ucast v"
proof (rule bit_word_eqI)
  fix i assume i: "i < LENGTH(64)"
  have "k \<le> h" using assms by simp
  then show "bit (MASK_VAL (put_int (mask w) k v x) h k) i = bit (ucast v :: u64) i"
    using assms i
    by (auto simp: bit_MASK_VAL bit_put_int bit_ucast_iff bit_mask_iff min_def
        dest: fits_lt bit_imp_le_length)
qed

text \<open>The one-bit instances, as rewrite rules for the flag fields.\<close>

lemma put_flag_same [mask_simps]:
  "fits 1 v \<Longrightarrow> k < 31 \<Longrightarrow> MASK_VAL (put_int 1 k v x) k k = ucast v"
  using put_int_same [of 1 v k k x] by simp

lemma put_flag_above [mask_simps]:
  "fits 1 v \<Longrightarrow> k < 31 \<Longrightarrow> k < n \<Longrightarrow> n \<le> h \<Longrightarrow> MASK_VAL (put_int 1 k v x) h n = MASK_VAL x h n"
  using put_int_above [of 1 1 v k n h x] by simp

lemmas put_flag_below [mask_simps] = put_int_below [where m = 1]

lemma put_u64_frame:
  "fits w m \<Longrightarrow> fits w v \<Longrightarrow> i < k \<or> k + w \<le> i \<Longrightarrow> bit (put_u64 m k v x) i \<longleftrightarrow> bit x i"
  by (auto simp: bit_put_u64 dest: fits_lt bit_imp_le_length)

lemma put_u64_same:
  assumes "fits w v" "k + w \<le> 64" "0 < w" "h = k + w - 1"
  shows "MASK_VAL (put_u64 (mask w) k v x) h k = v"
proof (rule bit_word_eqI)
  fix i assume "i < LENGTH(64)"
  moreover have "k \<le> h" using assms by simp
  ultimately show "bit (MASK_VAL (put_u64 (mask w) k v x) h k) i = bit v i"
    using assms by (auto simp: bit_MASK_VAL bit_put_u64 bit_mask_iff dest: fits_lt)
qed

lemma put_u64_other [mask_simps]:
  assumes "fits w m" "fits w v" "h < k \<or> k + w \<le> n" "n \<le> h"
  shows "MASK_VAL (put_u64 m k v x) h n = MASK_VAL x h n"
  using assms by (intro MASK_VAL_eqI) (auto simp: put_u64_frame)

end
