(* ===== verification/Msr_Topology.thy ===== *)
theory Msr_Topology
  imports Libmsr_Prelude "HOL-Library.Signed_Division"
begin

text \<open>
  The processor topology of \<open>src/msr_core.c\<close>: \<open>core_config\<close> and the cached counts,
  \<open>find_cpu_top\<close> with the thread map, and \<open>devidx\<close>, which turns a (socket, core,
  thread) coordinate into the number of a logical processor.  The hwloc library is a
  parameter: the record of what its queries answer.
\<close>

section \<open>hwloc\<close>

text \<open>
  \<open>nb_sockets\<close>, \<open>nb_cores\<close> and \<open>nb_pus\<close> are the answers of
  \<open>hwloc_get_nbobjs_by_type\<close>; the others describe the \<open>i\<close>-th PU object and the logical
  indices of its core and socket ancestors.
\<close>

record hwloc =
  nb_sockets :: int
  nb_cores :: int
  nb_pus :: int
  pu_os_index :: "nat \<Rightarrow> nat"
  pu_core :: "nat \<Rightarrow> int"
  pu_socket :: "nat \<Rightarrow> int"
  pu_sibling :: "nat \<Rightarrow> int"

section \<open>core_config and the cached counts\<close>

text \<open>The static variables of \<open>core_config\<close>.\<close>

record core_statics =
  cc_init :: bool
  cc_ncores :: int
  cc_nthreads :: int
  cc_nsockets :: int
  cc_hyperthreading :: int

definition core_statics0 :: core_statics where
  "core_statics0 = \<lparr>cc_init = False, cc_ncores = 0, cc_nthreads = 0, cc_nsockets = 0,
                    cc_hyperthreading = 0\<rparr>"

text \<open>C division truncates; dividing by zero has no defined result.\<close>

definition cdiv :: "int \<Rightarrow> int \<Rightarrow> int option" where
  "cdiv a b = (if b = 0 then None else Some (a sdiv b))"

definition detect :: "hwloc \<Rightarrow> core_statics \<Rightarrow> core_statics option" where
  "detect hw s =
     (if cc_init s then Some s
      else do {
        tpc \<leftarrow> cdiv (nb_pus hw) (nb_cores hw);
        Some \<lparr>cc_init = True, cc_ncores = nb_cores hw, cc_nthreads = nb_pus hw,
              cc_nsockets = nb_sockets hw,
              cc_hyperthreading = (if tpc > 1 then 1 else cc_hyperthreading s)\<rparr>
      })"

text \<open>
  An output pointer is an option: \<open>None\<close> for NULL, \<open>Some v\<close> for a variable that holds
  \<open>v\<close>.  \<open>out p r\<close> stores the result of \<open>r\<close> through \<open>p\<close> and evaluates \<open>r\<close> only if
  the pointer is not NULL.
\<close>

definition out :: "'a option \<Rightarrow> 'a option \<Rightarrow> 'a option option" where
  "out p r = (case p of None \<Rightarrow> Some None | Some _ \<Rightarrow> (case r of None \<Rightarrow> None | Some v \<Rightarrow> Some (Some v)))"

definition core_config ::
  "hwloc \<Rightarrow> u64 option \<Rightarrow> u64 option \<Rightarrow> u64 option \<Rightarrow> int option \<Rightarrow> core_statics
   \<Rightarrow> ((u64 option \<times> u64 option \<times> u64 option \<times> int option) \<times> core_statics) option" where
  "core_config hw coresPerSocket threadsPerCore sysSockets HTenabled s =
     do {
       s \<leftarrow> detect hw s;
       c \<leftarrow> out coresPerSocket (map_option of_int (cdiv (cc_ncores s) (cc_nsockets s)));
       n \<leftarrow> out sysSockets (Some (of_int (cc_nsockets s)));
       h \<leftarrow> out HTenabled (Some (cc_hyperthreading s));
       t \<leftarrow> out threadsPerCore (map_option of_int (cdiv (cc_nthreads s) (cc_ncores s)));
       Some ((c, t, n, h), s)
     }"

text \<open>The statics of \<open>num_cores\<close>, \<open>num_sockets\<close>, \<open>num_devs\<close> and \<open>cores_per_socket\<close>.\<close>

record topo_statics =
  cc :: core_statics
  num_cores_c :: "(u64 \<times> u64) option"
  num_sockets_c :: "u64 option"
  num_devs_c :: "(u64 \<times> u64 \<times> u64) option"
  cores_per_socket_c :: "u64 option"

definition topo_statics0 :: topo_statics where
  "topo_statics0 = \<lparr>cc = core_statics0, num_cores_c = None, num_sockets_c = None,
                    num_devs_c = None, cores_per_socket_c = None\<rparr>"

definition num_cores :: "hwloc \<Rightarrow> topo_statics \<Rightarrow> (u64 \<times> topo_statics) option" where
  "num_cores hw s =
     (case num_cores_c s of
        Some (c, n) \<Rightarrow> Some (c * n, s)
      | None \<Rightarrow>
          do {
            ((c, _, n, _), k) \<leftarrow> core_config hw (Some 0) None (Some 0) None (cc s);
            let c = the c; let n = the n;
            Some (c * n, s\<lparr>cc := k, num_cores_c := Some (c, n)\<rparr>)
          })"

definition num_sockets :: "hwloc \<Rightarrow> topo_statics \<Rightarrow> (u64 \<times> topo_statics) option" where
  "num_sockets hw s =
     (case num_sockets_c s of
        Some n \<Rightarrow> Some (n, s)
      | None \<Rightarrow>
          do {
            ((_, _, n, _), k) \<leftarrow> core_config hw None None (Some 0) None (cc s);
            let n = the n;
            Some (n, s\<lparr>cc := k, num_sockets_c := Some n\<rparr>)
          })"

definition num_devs :: "hwloc \<Rightarrow> topo_statics \<Rightarrow> (u64 \<times> topo_statics) option" where
  "num_devs hw s =
     (case num_devs_c s of
        Some (c, t, n) \<Rightarrow> Some (c * t * n, s)
      | None \<Rightarrow>
          do {
            ((c, t, n, _), k) \<leftarrow> core_config hw (Some 0) (Some 0) (Some 0) None (cc s);
            let c = the c; let t = the t; let n = the n;
            Some (c * t * n, s\<lparr>cc := k, num_devs_c := Some (c, t, n)\<rparr>)
          })"

definition cores_per_socket :: "hwloc \<Rightarrow> topo_statics \<Rightarrow> (u64 \<times> topo_statics) option" where
  "cores_per_socket hw s =
     (case cores_per_socket_c s of
        Some c \<Rightarrow> Some (c, s)
      | None \<Rightarrow>
          do {
            ((c, _, _, _), k) \<leftarrow> core_config hw (Some 0) None None None (cc s);
            let c = the c;
            Some (c, s\<lparr>cc := k, cores_per_socket_c := Some c\<rparr>)
          })"

section \<open>The counts, without their caches\<close>

text \<open>
  Every file of the library keeps its own static copies of these counts.  On a machine with at
  least one socket and one core they always hold the values below, so the other theories use
  the values.
\<close>

definition hw_ok :: "hwloc \<Rightarrow> bool" where
  "hw_ok hw \<longleftrightarrow> 0 < nb_sockets hw \<and> 0 < nb_cores hw \<and> 0 \<le> nb_pus hw"

definition sockets :: "hwloc \<Rightarrow> nat" where
  "sockets hw = nat (nb_sockets hw)"

definition coresPerSocket :: "hwloc \<Rightarrow> nat" where
  "coresPerSocket hw = nat (nb_cores hw div nb_sockets hw)"

definition threadsPerCore :: "hwloc \<Rightarrow> nat" where
  "threadsPerCore hw = nat (nb_pus hw div nb_cores hw)"

definition NUM_DEVS :: "hwloc \<Rightarrow> nat" where
  "NUM_DEVS hw = sockets hw * coresPerSocket hw * threadsPerCore hw"

definition statics_ok :: "hwloc \<Rightarrow> topo_statics \<Rightarrow> bool" where
  "statics_ok hw s \<longleftrightarrow>
     (cc_init (cc s) \<longrightarrow> cc_ncores (cc s) = nb_cores hw \<and> cc_nthreads (cc s) = nb_pus hw
                        \<and> cc_nsockets (cc s) = nb_sockets hw)
     \<and> num_cores_c s \<in> {None, Some (of_nat (coresPerSocket hw), of_nat (sockets hw))}
     \<and> num_sockets_c s \<in> {None, Some (of_nat (sockets hw))}
     \<and> num_devs_c s \<in> {None, Some (of_nat (coresPerSocket hw), of_nat (threadsPerCore hw),
                                    of_nat (sockets hw))}
     \<and> cores_per_socket_c s \<in> {None, Some (of_nat (coresPerSocket hw))}"

lemma statics_ok_0: "statics_ok hw topo_statics0"
  by (simp add: statics_ok_def topo_statics0_def core_statics0_def)

lemma cdiv_pos: "0 \<le> a \<Longrightarrow> 0 < b \<Longrightarrow> cdiv a b = Some (a div b)"
  by (cases "a = 0") (auto simp: cdiv_def signed_divide_int_def)

lemma detect_ok:
  assumes "hw_ok hw" "statics_ok hw s"
  shows "\<exists>k. detect hw (cc s) = Some k \<and> cc_init k \<and> cc_ncores k = nb_cores hw
           \<and> cc_nthreads k = nb_pus hw \<and> cc_nsockets k = nb_sockets hw"
  using assms by (auto simp: detect_def hw_ok_def cdiv_pos statics_ok_def)

lemma of_int_of_nat_nat: "0 \<le> i \<Longrightarrow> (of_int i :: u64) = of_nat (nat i)"
  by (metis nat_0_le of_int_of_nat_eq)

lemma out_Some: "out p (Some v) = Some (map_option (\<lambda>_. v) p)"
  by (simp add: out_def split: option.split)

lemma core_config_ok:
  assumes "hw_ok hw" "statics_ok hw s"
  shows "\<exists>k. core_config hw c t n h (cc s)
           = Some ((map_option (\<lambda>_. of_nat (coresPerSocket hw)) c,
                    map_option (\<lambda>_. of_nat (threadsPerCore hw)) t,
                    map_option (\<lambda>_. of_nat (sockets hw)) n,
                    map_option (\<lambda>_. cc_hyperthreading k) h), k)
         \<and> cc_init k \<and> cc_ncores k = nb_cores hw \<and> cc_nthreads k = nb_pus hw
         \<and> cc_nsockets k = nb_sockets hw"
proof -
  from detect_ok [OF assms] obtain k where k: "detect hw (cc s) = Some k" "cc_init k"
    "cc_ncores k = nb_cores hw" "cc_nthreads k = nb_pus hw" "cc_nsockets k = nb_sockets hw"
    by blast
  have pos: "0 \<le> nb_cores hw" "0 < nb_sockets hw" "0 < nb_cores hw" "0 \<le> nb_pus hw"
    using assms(1) by (auto simp: hw_ok_def)
  have nn: "0 \<le> nb_cores hw div nb_sockets hw" "0 \<le> nb_pus hw div nb_cores hw" "0 \<le> nb_sockets hw"
    using pos by (simp_all add: pos_imp_zdiv_nonneg_iff)
  note of = of_int_of_nat_nat [OF nn(1), folded coresPerSocket_def]
    of_int_of_nat_nat [OF nn(2), folded threadsPerCore_def]
    of_int_of_nat_nat [OF nn(3), folded sockets_def]
  have "core_config hw c t n h (cc s)
      = Some ((map_option (\<lambda>_. of_nat (coresPerSocket hw)) c,
               map_option (\<lambda>_. of_nat (threadsPerCore hw)) t,
               map_option (\<lambda>_. of_nat (sockets hw)) n,
               map_option (\<lambda>_. cc_hyperthreading k) h), k)"
    using pos by (simp add: core_config_def k cdiv_pos out_Some of)
  with k show ?thesis by blast
qed

lemma num_cores_ok:
  assumes "hw_ok hw" "statics_ok hw s"
  shows "\<exists>s'. num_cores hw s = Some (of_nat (coresPerSocket hw) * of_nat (sockets hw), s')
           \<and> statics_ok hw s'"
proof (cases "num_cores_c s")
  case None
  from core_config_ok [OF assms, of "Some 0" None "Some 0" None] assms(2) None show ?thesis
    by (auto simp: num_cores_def Let_def statics_ok_def simp del: insert_iff intro!: insertI1 insertI2)
next
  case (Some v)
  with assms(2) show ?thesis by (auto simp: num_cores_def statics_ok_def)
qed

lemma num_sockets_ok:
  assumes "hw_ok hw" "statics_ok hw s"
  shows "\<exists>s'. num_sockets hw s = Some (of_nat (sockets hw), s') \<and> statics_ok hw s'"
proof (cases "num_sockets_c s")
  case None
  from core_config_ok [OF assms, of None None "Some 0" None] assms(2) None show ?thesis
    by (auto simp: num_sockets_def Let_def statics_ok_def simp del: insert_iff intro!: insertI1 insertI2)
next
  case (Some v)
  with assms(2) show ?thesis by (auto simp: num_sockets_def statics_ok_def)
qed

lemma num_devs_ok:
  assumes "hw_ok hw" "statics_ok hw s"
  shows "\<exists>s'. num_devs hw s
           = Some (of_nat (coresPerSocket hw) * of_nat (threadsPerCore hw) * of_nat (sockets hw), s')
           \<and> statics_ok hw s'"
proof (cases "num_devs_c s")
  case None
  from core_config_ok [OF assms, of "Some 0" "Some 0" "Some 0" None] assms(2) None show ?thesis
    by (auto simp: num_devs_def Let_def statics_ok_def simp del: insert_iff intro!: insertI1 insertI2)
next
  case (Some v)
  with assms(2) show ?thesis by (auto simp: num_devs_def statics_ok_def)
qed

lemma cores_per_socket_ok:
  assumes "hw_ok hw" "statics_ok hw s"
  shows "\<exists>s'. cores_per_socket hw s = Some (of_nat (coresPerSocket hw), s') \<and> statics_ok hw s'"
proof (cases "cores_per_socket_c s")
  case None
  from core_config_ok [OF assms, of "Some 0" None None None] assms(2) None show ?thesis
    by (auto simp: cores_per_socket_def Let_def statics_ok_def simp del: insert_iff intro!: insertI1 insertI2)
next
  case (Some v)
  with assms(2) show ?thesis by (auto simp: cores_per_socket_def statics_ok_def)
qed

section \<open>The thread map\<close>

record hwthread =
  apic_id :: int
  thread_id :: int
  core_id :: int
  socket_id :: int
  sibling :: int

text \<open>An entry of the map is \<open>None\<close> until \<open>find_cpu_top\<close> has written it.\<close>

record topo =
  thread_map :: "hwthread option list"
  discontinuous_mapping :: bool

definition hw_thread :: "hwloc \<Rightarrow> nat \<Rightarrow> hwthread" where
  "hw_thread hw i = \<lparr>apic_id = int i, thread_id = int (pu_os_index hw i), core_id = pu_core hw i,
                     socket_id = pu_socket hw i, sibling = pu_sibling hw i\<rparr>"

definition find_cpu_top_body :: "hwloc \<Rightarrow> nat \<Rightarrow> topo \<Rightarrow> topo option" where
  "find_cpu_top_body hw i g =
     do {
       m \<leftarrow> aset (thread_map g) (pu_os_index hw i) (Some (hw_thread hw i));
       let d = (if pu_os_index hw i = 1 \<and> int (pu_os_index hw i) \<noteq> pu_core hw i
                then True else discontinuous_mapping g);
       Some \<lparr>thread_map = m, discontinuous_mapping = d\<rparr>
     }"

text \<open>The flag is only ever set: a second call starts from the value the first one left.\<close>

definition find_cpu_top :: "hwloc \<Rightarrow> topo \<Rightarrow> (int \<times> topo) option" where
  "find_cpu_top hw g =
     do {
       let nthreads = coresPerSocket hw * threadsPerCore hw * sockets hw;
       g \<leftarrow> foldo (find_cpu_top_body hw) [0..<nthreads]
              (g\<lparr>thread_map := replicate nthreads None\<rparr>);
       Some (1, g)
     }"

text \<open>
  The topologies the library is written for: the operating system numbers the hardware
  threads \<open>0, 1, \<dots>\<close> without a gap, and their number fits an \<open>int\<close>.
\<close>

definition hw_wf :: "hwloc \<Rightarrow> bool" where
  "hw_wf hw \<longleftrightarrow> hw_ok hw \<and> NUM_DEVS hw < 2 ^ 31
     \<and> bij_betw (pu_os_index hw) {..<NUM_DEVS hw} {..<NUM_DEVS hw}"

lemma hw_wf_os: "hw_wf hw \<Longrightarrow> i < NUM_DEVS hw \<Longrightarrow> pu_os_index hw i < NUM_DEVS hw"
  unfolding hw_wf_def bij_betw_def by blast

lemma hw_wf_inj:
  "hw_wf hw \<Longrightarrow> i < NUM_DEVS hw \<Longrightarrow> j < NUM_DEVS hw \<Longrightarrow>
     pu_os_index hw i = pu_os_index hw j \<longleftrightarrow> i = j"
  unfolding hw_wf_def bij_betw_def by (auto dest: inj_onD)

lemma find_cpu_top_ok:
  assumes "hw_wf hw"
  shows "\<exists>g'. find_cpu_top hw g = Some (1, g') \<and> length (thread_map g') = NUM_DEVS hw
           \<and> (\<forall>i<NUM_DEVS hw. thread_map g' ! pu_os_index hw i = Some (hw_thread hw i))
           \<and> (discontinuous_mapping g' \<longleftrightarrow> discontinuous_mapping g
                \<or> (\<exists>i<NUM_DEVS hw. pu_os_index hw i = 1 \<and> pu_core hw i \<noteq> 1))"
proof -
  define n where "n = coresPerSocket hw * threadsPerCore hw * sockets hw"
  have n: "n = NUM_DEVS hw" by (simp add: n_def NUM_DEVS_def mult.commute mult.left_commute)
  define P where "P k t \<longleftrightarrow> length (thread_map t) = n
      \<and> (\<forall>i<k. thread_map t ! pu_os_index hw i = Some (hw_thread hw i))
      \<and> (discontinuous_mapping t \<longleftrightarrow> discontinuous_mapping g
           \<or> (\<exists>i<k. pu_os_index hw i = 1 \<and> pu_core hw i \<noteq> 1))" for k :: nat and t :: topo
  have "\<exists>t. foldo (find_cpu_top_body hw) [0..<n] (g\<lparr>thread_map := replicate n None\<rparr>) = Some t \<and> P n t"
  proof (rule foldo_upt)
    show "P 0 (g\<lparr>thread_map := replicate n None\<rparr>)" by (simp add: P_def)
  next
    fix k t assume k: "k < n" and P: "P k t"
    have os: "pu_os_index hw k < n" using hw_wf_os [OF assms] k n by simp
    have ne: "\<forall>i<k. pu_os_index hw i \<noteq> pu_os_index hw k"
      using hw_wf_inj [OF assms] k n by auto
    let ?t = "\<lparr>thread_map = (thread_map t)[pu_os_index hw k := Some (hw_thread hw k)],
      discontinuous_mapping = (if pu_os_index hw k = 1 \<and> int (pu_os_index hw k) \<noteq> pu_core hw k
                then True else discontinuous_mapping t)\<rparr>"
    have "find_cpu_top_body hw k t = Some ?t"
      using os P by (simp add: find_cpu_top_body_def P_def Let_def)
    moreover have "P (Suc k) ?t"
      using P ne os by (auto simp: P_def less_Suc_eq nth_list_update)
    ultimately show "\<exists>t'. find_cpu_top_body hw k t = Some t' \<and> P (Suc k) t'" by blast
  qed
  then show ?thesis by (auto simp: find_cpu_top_def P_def n n_def [symmetric])
qed

section \<open>Coordinates\<close>

text \<open>
  \<open>devidx(socket, core, thread)\<close>: the \<open>int\<close> arguments are converted to \<open>uint64_t\<close> by
  the multiplications.
\<close>

definition devidx :: "hwloc \<Rightarrow> topo \<Rightarrow> i32 \<Rightarrow> i32 \<Rightarrow> i32 \<Rightarrow> u64" where
  "devidx hw g socket core thread =
     (let num_sockets = of_nat (sockets hw); num_cores_per_socket = of_nat (coresPerSocket hw)
      in if \<not> discontinuous_mapping g
         then scast thread * num_sockets * num_cores_per_socket
              + scast socket * num_cores_per_socket + scast core
         else scast thread * num_sockets * num_cores_per_socket
              + scast core * num_sockets + scast socket)"

text \<open>The two numbering schemes on natural numbers.\<close>

definition cont_idx :: "nat \<Rightarrow> nat \<Rightarrow> nat \<Rightarrow> nat \<Rightarrow> nat \<Rightarrow> nat" where
  "cont_idx S C s c t = t * S * C + s * C + c"

definition disc_idx :: "nat \<Rightarrow> nat \<Rightarrow> nat \<Rightarrow> nat \<Rightarrow> nat \<Rightarrow> nat" where
  "disc_idx S C s c t = t * S * C + c * S + s"

text \<open>
  What the rest of the library relies on: every coordinate of the machine has a number of its
  own below the number of logical processors.
\<close>

locale coord_index =
  fixes idx :: "nat \<Rightarrow> nat \<Rightarrow> nat \<Rightarrow> nat"
    and S :: nat and C :: nat and T :: nat
  assumes idx_range: "s < S \<Longrightarrow> c < C \<Longrightarrow> t < T \<Longrightarrow> idx s c t < S * C * T"
    and idx_inj: "s < S \<Longrightarrow> c < C \<Longrightarrow> t < T \<Longrightarrow> s' < S \<Longrightarrow> c' < C \<Longrightarrow> t' < T \<Longrightarrow>
      idx s c t = idx s' c' t' \<Longrightarrow> s = s' \<and> c = c' \<and> t = t'"
begin

text \<open>Counting: with as many coordinates as numbers, every number is the number of one.\<close>

lemma idx_bij: "bij_betw (\<lambda>(s, c, t). idx s c t) ({..<S} \<times> {..<C} \<times> {..<T}) {..<S * C * T}"
proof -
  let ?A = "{..<S} \<times> {..<C} \<times> {..<T}" and ?f = "\<lambda>(s, c, t). idx s c t"
  have inj: "inj_on ?f ?A" by (auto simp: inj_on_def dest: idx_inj)
  have "?f ` ?A \<subseteq> {..<S * C * T}" by (auto intro: idx_range)
  moreover have "card (?f ` ?A) = card {..<S * C * T}"
    by (simp add: card_image [OF inj] card_cartesian_product)
  ultimately have "?f ` ?A = {..<S * C * T}" by (simp add: card_subset_eq)
  with inj show ?thesis by (simp add: bij_betw_def)
qed

lemma idx_surj: "i < S * C * T \<Longrightarrow> \<exists>s c t. s < S \<and> c < C \<and> t < T \<and> idx s c t = i"
proof -
  assume "i < S * C * T"
  then have "i \<in> (\<lambda>(s, c, t). idx s c t) ` ({..<S} \<times> {..<C} \<times> {..<T})"
    using idx_bij by (simp add: bij_betw_def)
  then show ?thesis by auto
qed

end

lemma mixed_radix_bound: "a < A \<Longrightarrow> b < B \<Longrightarrow> a * B + b < A * (B :: nat)"
  by (metis add.commute add_less_le_mono less_imp_le_nat mult_Suc mult_le_mono1 Suc_leI
      le_trans less_le_trans nat_add_left_cancel_less)

lemma mixed_radix_inj: "b < B \<Longrightarrow> b' < B \<Longrightarrow> a * B + b = a' * B + b' \<Longrightarrow> a = a' \<and> b = (b' :: nat)"
  by (metis add.commute div_mult_self3 div_less less_nat_zero_code mod_less mod_mult_self1
      add.left_neutral gr_zeroI)

interpretation cont: coord_index "cont_idx S C" S C T for S C T
proof
  fix s c t assume "s < S" "c < C" "t < T"
  then have "t * (S * C) + (s * C + c) < T * (S * C)" by (intro mixed_radix_bound)
  then show "cont_idx S C s c t < S * C * T" by (simp add: cont_idx_def ac_simps)
next
  fix s c t s' c' t'
  assume b: "s < S" "c < C" "t < T" "s' < S" "c' < C" "t' < T"
    and eq: "cont_idx S C s c t = cont_idx S C s' c' t'"
  have "t = t' \<and> s * C + c = s' * C + c'"
    using eq b by (intro mixed_radix_inj [where B = "S * C"] mixed_radix_bound)
      (simp_all add: cont_idx_def ac_simps)
  with b mixed_radix_inj [of c C c' s s'] show "s = s' \<and> c = c' \<and> t = t'" by simp
qed

interpretation disc: coord_index "disc_idx S C" S C T for S C T
proof
  fix s c t assume "s < S" "c < C" "t < T"
  then have "t * (C * S) + (c * S + s) < T * (C * S)" by (intro mixed_radix_bound)
  then show "disc_idx S C s c t < S * C * T" by (simp add: disc_idx_def ac_simps)
next
  fix s c t s' c' t'
  assume b: "s < S" "c < C" "t < T" "s' < S" "c' < C" "t' < T"
    and eq: "disc_idx S C s c t = disc_idx S C s' c' t'"
  have "t = t' \<and> c * S + s = c' * S + s'"
    using eq b by (intro mixed_radix_inj [where B = "C * S"] mixed_radix_bound)
      (simp_all add: disc_idx_def ac_simps)
  with b mixed_radix_inj [of s S s' c c'] show "s = s' \<and> c = c' \<and> t = t'" by simp
qed

lemma sint_of_nat_i32: "n < 2 ^ 31 \<Longrightarrow> sint (of_nat n :: i32) = int n"
  by (simp add: signed_of_nat signed_take_bit_int_eq_self)

lemma scast_of_nat: "n < 2 ^ 31 \<Longrightarrow> (scast (of_nat n :: i32) :: u64) = of_nat n"
proof -
  assume "n < 2 ^ 31"
  then have "sint (of_nat n :: i32) = int n" by (rule sint_of_nat_i32)
  then show ?thesis by (metis of_int_of_nat_eq of_int_sint)
qed

text \<open>On the coordinates of the machine \<open>devidx\<close> computes one of the two schemes.\<close>

lemma devidx_scheme:
  assumes "s < 2 ^ 31" "c < 2 ^ 31" "t < 2 ^ 31"
  shows "devidx hw g (of_nat s) (of_nat c) (of_nat t)
    = of_nat ((if discontinuous_mapping g then disc_idx else cont_idx)
                (sockets hw) (coresPerSocket hw) s c t)"
  using assms by (simp add: devidx_def scast_of_nat cont_idx_def disc_idx_def Let_def)

end
