(* ===== verification/Msr_Core.thy ===== *)
theory Msr_Core
  imports Msr_Bits Libmsr_Error Msr_Topology
begin

text \<open>
  The register access of \<open>src/msr_core.c\<close>: the machine and operating system the library
  runs on (a parameter), the state the library keeps, the descriptor table, \<open>init_msr\<close>,
  \<open>finalize_msr\<close> and the reads and writes of one register.
\<close>

section \<open>The environment\<close>

text \<open>\<open>struct msr_batch_op\<close>, which the batch interface of the kernel driver shares.\<close>

record msr_batch_op =
  op_cpu :: u16
  op_isrdmsr :: u16
  op_err :: i32
  op_msr :: u32
  op_msrdata :: u64
  op_wmask :: u64

definition msr_batch_op0 :: msr_batch_op where
  "msr_batch_op0 = \<lparr>op_cpu = 0, op_isrdmsr = 0, op_err = 0, op_msr = 0, op_msrdata = 0, op_wmask = 0\<rparr>"

text \<open>
  The system calls and the processor, over a state \<open>'d\<close> of their own.  \<open>os_stat\<close> gives
  the owner's read and write permission; \<open>os_pread fd off buf\<close> the count returned and what
  the 8-byte buffer holds after the call, when it held \<open>buf\<close> before; \<open>os_ioctl\<close> runs a
  batch.  \<open>junk\<close> is what an uninitialised 64-bit variable holds.
\<close>

record 'd env =
  hw :: hwloc
  os_stat :: "string \<Rightarrow> 'd \<Rightarrow> (bool \<times> bool) option"
  os_open :: "string \<Rightarrow> 'd \<Rightarrow> int \<times> 'd"
  os_close :: "int \<Rightarrow> 'd \<Rightarrow> int \<times> 'd"
  os_pread :: "int \<Rightarrow> u64 \<Rightarrow> u64 \<Rightarrow> 'd \<Rightarrow> int \<times> u64 \<times> 'd"
  os_pwrite :: "int \<Rightarrow> u64 \<Rightarrow> u64 \<Rightarrow> 'd \<Rightarrow> int \<times> 'd"
  os_ioctl :: "int \<Rightarrow> msr_batch_op list \<Rightarrow> 'd \<Rightarrow> int \<times> msr_batch_op list \<times> 'd"
  os_time :: "'d \<Rightarrow> int \<times> int \<times> 'd"
  cpuid_insn :: "u64 \<Rightarrow> u64 \<Rightarrow> u64 \<times> u64 \<times> u64 \<times> u64"
  junk :: u64

section \<open>The state of the library\<close>

text \<open>\<open>struct msr_batch_array\<close>; \<open>ops\<close> is the number of a heap block, or NULL.\<close>

record msr_batch_array =
  numops :: nat
  ops :: "nat option"

text \<open>
  The static variables of \<open>msr_core.c\<close>: the topology, those of \<open>core_fd\<close>, \<open>init_msr\<close>
  and \<open>do_batch_op\<close>, and those of \<open>batch_storage\<close> with the heap blocks the batches
  own (a freed block is \<open>None\<close>).  \<open>stderr\<close> is the list of errors reported.
\<close>

record 'd lib =
  dev :: 'd
  g_topo_list :: topo
  fd_init :: bool
  devices :: nat
  file_descriptors :: "int option list"
  msr_inited :: bool
  batchfd :: int
  batch_null :: bool
  arrsize :: nat
  batch :: "msr_batch_array list"
  bsize :: "nat list"
  blocks :: "msr_batch_op list option list"
  stderr :: "libmsr_error_e list"

text \<open>The state at program start, on a machine in state \<open>d\<close>.\<close>

definition lib0 :: "'d \<Rightarrow> 'd lib" where
  "lib0 d = \<lparr>dev = d, g_topo_list = \<lparr>thread_map = [], discontinuous_mapping = False\<rparr>,
     fd_init = False, devices = 0, file_descriptors = [], msr_inited = False, batchfd = 0,
     batch_null = True, arrsize = 1, batch = [], bsize = [], blocks = [], stderr = []\<rparr>"

definition libmsr_error_handler :: "libmsr_error_e \<Rightarrow> ('d, 'z) lib_scheme \<Rightarrow> ('d, 'z) lib_scheme" where
  "libmsr_error_handler e s = s\<lparr>stderr := stderr s @ [e]\<rparr>"

section \<open>Coordinate checks\<close>

text \<open>The assertions compare with \<open>>\<close>, report, and leave the decision to the caller.\<close>

definition sockets_assert :: "'d env \<Rightarrow> u32 \<Rightarrow> ('d, 'z) lib_scheme \<Rightarrow> int \<times> ('d, 'z) lib_scheme" where
  "sockets_assert E socket s =
     (if unat socket > sockets (hw E)
      then (-1, libmsr_error_handler LIBMSR_ERROR_PLATFORM_ENV s) else (0, s))"

definition threads_assert :: "'d env \<Rightarrow> u32 \<Rightarrow> ('d, 'z) lib_scheme \<Rightarrow> int \<times> ('d, 'z) lib_scheme" where
  "threads_assert E thread s =
     (if unat thread > threadsPerCore (hw E)
      then (-1, libmsr_error_handler LIBMSR_ERROR_PLATFORM_ENV s) else (0, s))"

definition cores_assert :: "'d env \<Rightarrow> u32 \<Rightarrow> ('d, 'z) lib_scheme \<Rightarrow> int \<times> ('d, 'z) lib_scheme" where
  "cores_assert E core s =
     (if unat core > coresPerSocket (hw E)
      then (-1, libmsr_error_handler LIBMSR_ERROR_PLATFORM_ENV s) else (0, s))"

section \<open>The descriptor table\<close>

text \<open>
  \<open>core_fd(dev_idx)\<close> returns a pointer into the table, here the index, or NULL.  The
  comparison \<open>dev_idx < devices\<close> converts the \<open>int\<close> to \<open>uint64_t\<close>.
\<close>

definition core_fd :: "'d env \<Rightarrow> i32 \<Rightarrow> ('d, 'z) lib_scheme \<Rightarrow> nat option \<times> ('d, 'z) lib_scheme" where
  "core_fd E dev_idx s =
     (let s = (if fd_init s then s
               else s\<lparr>fd_init := True, devices := NUM_DEVS (hw E),
                      file_descriptors := replicate (NUM_DEVS (hw E)) None\<rparr>)
      in if (scast dev_idx :: u64) < of_nat (devices s)
         then (Some (unat dev_idx), s)
         else (None, libmsr_error_handler LIBMSR_ERROR_ARRAY_BOUNDS s))"

text \<open>\<open>*fileDescriptor\<close>: an entry that was never set has no defined value.\<close>

definition fd_value :: "nat \<Rightarrow> ('d, 'z) lib_scheme \<Rightarrow> int option" where
  "fd_value p s = Option.bind (aget (file_descriptors s) p) id"

definition set_fd :: "nat \<Rightarrow> int \<Rightarrow> ('d, 'z) lib_scheme \<Rightarrow> ('d, 'z) lib_scheme option" where
  "set_fd p v s =
     map_option (\<lambda>t. s\<lparr>file_descriptors := t\<rparr>) (aset (file_descriptors s) p (Some v))"

section \<open>Access by logical processor\<close>

text \<open>\<open>val\<close> is what the caller's buffer holds; the result carries what it holds after.\<close>

definition read_msr_by_idx ::
  "'d env \<Rightarrow> i32 \<Rightarrow> u64 \<Rightarrow> u64 \<Rightarrow> ('d, 'z) lib_scheme \<Rightarrow> (int \<times> u64 \<times> ('d, 'z) lib_scheme) option" where
  "read_msr_by_idx E dev_idx msr val s =
     (case core_fd E dev_idx s of
        (None, s) \<Rightarrow> Some (-1, val, s)
      | (Some p, s) \<Rightarrow>
          do {
            fd \<leftarrow> fd_value p s;
            let (rc, val, d) = os_pread E fd msr val (dev s);
            let s = s\<lparr>dev := d\<rparr>;
            if rc \<noteq> 8 then Some (-1, val, libmsr_error_handler LIBMSR_ERROR_MSR_READ s)
            else Some (0, val, s)
          })"

definition write_msr_by_idx ::
  "'d env \<Rightarrow> i32 \<Rightarrow> u64 \<Rightarrow> u64 \<Rightarrow> ('d, 'z) lib_scheme \<Rightarrow> (int \<times> ('d, 'z) lib_scheme) option" where
  "write_msr_by_idx E dev_idx msr val s =
     (case core_fd E dev_idx s of
        (None, s) \<Rightarrow> Some (-1, s)
      | (Some p, s) \<Rightarrow>
          do {
            fd \<leftarrow> fd_value p s;
            let (rc, d) = os_pwrite E fd msr val (dev s);
            let s = s\<lparr>dev := d\<rparr>;
            if rc \<noteq> 8 then Some (-1, libmsr_error_handler LIBMSR_ERROR_MSR_WRITE s)
            else Some (0, s)
          })"

definition write_msr_by_idx_and_verify ::
  "'d env \<Rightarrow> i32 \<Rightarrow> u64 \<Rightarrow> u64 \<Rightarrow> ('d, 'z) lib_scheme \<Rightarrow> (int \<times> ('d, 'z) lib_scheme) option" where
  "write_msr_by_idx_and_verify E dev_idx msr val s =
     (case core_fd E dev_idx s of
        (None, s) \<Rightarrow> Some (-1, s)
      | (Some p, s) \<Rightarrow>
          do {
            fd \<leftarrow> fd_value p s;
            let (rc, d) = os_pwrite E fd msr val (dev s);
            let s = s\<lparr>dev := d\<rparr>;
            if rc \<noteq> 8 then Some (-1, libmsr_error_handler LIBMSR_ERROR_MSR_WRITE s)
            else
              let (rc, test, d) = os_pread E fd msr 0 (dev s);
                  s = s\<lparr>dev := d\<rparr>
              in if rc = 0 then Some (-1, libmsr_error_handler LIBMSR_ERROR_MSR_WRITE s)
              else if val \<noteq> test then Some (-1, libmsr_error_handler LIBMSR_ERROR_MSR_WRITE s)
              else Some (0, s)
          })"

section \<open>Access by coordinate\<close>

definition check_coord ::
  "'d env \<Rightarrow> u32 \<Rightarrow> u32 \<Rightarrow> u32 \<Rightarrow> ('d, 'z) lib_scheme \<Rightarrow> ('d, 'z) lib_scheme" where
  "check_coord E socket core thread s =
     (let (_, s) = sockets_assert E socket s;
          (_, s) = cores_assert E core s;
          (_, s) = threads_assert E thread s
      in s)"

text \<open>The 64-bit number of \<open>devidx\<close> is passed on as an \<open>int\<close>.\<close>

definition coord_idx :: "'d env \<Rightarrow> u32 \<Rightarrow> u32 \<Rightarrow> u32 \<Rightarrow> ('d, 'z) lib_scheme \<Rightarrow> i32" where
  "coord_idx E socket core thread s = ucast (devidx (hw E) (g_topo_list s) socket core thread)"

definition write_msr_by_coord ::
  "'d env \<Rightarrow> u32 \<Rightarrow> u32 \<Rightarrow> u32 \<Rightarrow> u64 \<Rightarrow> u64 \<Rightarrow> ('d, 'z) lib_scheme
   \<Rightarrow> (int \<times> ('d, 'z) lib_scheme) option" where
  "write_msr_by_coord E socket core thread msr val s =
     (let s = check_coord E socket core thread s
      in write_msr_by_idx E (coord_idx E socket core thread s) msr val s)"

definition read_msr_by_coord ::
  "'d env \<Rightarrow> u32 \<Rightarrow> u32 \<Rightarrow> u32 \<Rightarrow> u64 \<Rightarrow> u64 \<Rightarrow> ('d, 'z) lib_scheme
   \<Rightarrow> (int \<times> u64 \<times> ('d, 'z) lib_scheme) option" where
  "read_msr_by_coord E socket core thread msr val s =
     (let s = check_coord E socket core thread s
      in read_msr_by_idx E (coord_idx E socket core thread s) msr val s)"

section \<open>Opening and closing the devices\<close>

text \<open>\<open>stat_module(filename, &kerneltype, &dev_idx)\<close>; \<open>dev_idx\<close> is not used for the whitelist.\<close>

definition stat_module ::
  "'d env \<Rightarrow> string \<Rightarrow> int \<Rightarrow> int \<Rightarrow> ('d, 'z) lib_scheme \<Rightarrow> int \<times> int \<times> int \<times> ('d, 'z) lib_scheme" where
  "stat_module E filename kerneltype dev_idx s =
     (let st = os_stat E filename (dev s);
          module_error = libmsr_error_handler LIBMSR_ERROR_MSR_MODULE
      in if kerneltype = 3
         then (case st of
                 None \<Rightarrow> (-1, 1, dev_idx, s)
               | Some (r, w) \<Rightarrow> if \<not> r \<or> \<not> w then (-1, 1, dev_idx, s) else (0, 0, dev_idx, s))
         else (case st of
                 None \<Rightarrow>
                   if kerneltype \<noteq> 0 then (-1, kerneltype, dev_idx, module_error s)
                   else (0, 1, -1, module_error s)
               | Some (r, w) \<Rightarrow>
                   if \<not> r \<or> \<not> w then (-1, 1, -1, module_error (module_error s))
                   else (0, kerneltype, dev_idx, s)))"

fun decimal :: "nat \<Rightarrow> string" where
  "decimal n = (if n < 10 then [char_of (48 + n)] else decimal (n div 10) @ [char_of (48 + n mod 10)])"

definition msr_filename :: "int \<Rightarrow> nat \<Rightarrow> string" where
  "msr_filename kerneltype dev_idx =
     ''/dev/cpu/'' @ decimal dev_idx @ (if kerneltype \<noteq> 0 then ''/msr'' else ''/msr_safe'')"

text \<open>A step of the detection keeps the kernel type and the device, or moves on to a type tried later.\<close>

definition kt_rank :: "int \<Rightarrow> nat" where
  "kt_rank k = (if k = 3 then 2 else if k = 0 then 1 else 0)"

lemma stat_module_rank:
  assumes "stat_module E f k (int i) s = (ret, k', i', s')" "\<not> ret < 0"
  shows "k' = k \<and> i' = int i \<or> kt_rank k' < kt_rank k"
  using assms by (auto simp: stat_module_def Let_def kt_rank_def split: if_splits option.splits)

lemma stat_module_rank_nested:
  "(ret, y) = stat_module E f k (int i) s \<Longrightarrow> (k', y') = y \<Longrightarrow> (i', s') = y' \<Longrightarrow> \<not> ret < 0 \<Longrightarrow>
     k' = k \<and> i' = int i \<or> kt_rank k' < kt_rank k"
  using stat_module_rank [of E f k i s ret k' i' s'] by auto

text \<open>
  The loop of \<open>init_msr\<close>.  Falling back from msr_safe to the msr module restarts it from
  the first device, which can happen only once.
\<close>

function init_loop ::
  "'d env \<Rightarrow> nat \<Rightarrow> int \<Rightarrow> nat \<Rightarrow> ('d, 'z) lib_scheme \<Rightarrow> (int \<times> ('d, 'z) lib_scheme) option" where
  "init_loop E numDevs kerneltype dev_idx s =
     (if dev_idx < numDevs then
        let filename = msr_filename kerneltype dev_idx in
        (case stat_module E filename kerneltype (int dev_idx) s of
           (ret, kerneltype, idx, s) \<Rightarrow>
             if ret < 0 then Some (-1, s)
             else if idx < 0 then init_loop E numDevs kerneltype 0 s
             else
               (case core_fd E (of_nat dev_idx) s of
                  (None, s) \<Rightarrow> None
                | (Some p, s) \<Rightarrow>
                    let (fd, d) = os_open E filename (dev s) in
                    (case set_fd p fd (s\<lparr>dev := d\<rparr>) of
                       None \<Rightarrow> None
                     | Some s \<Rightarrow>
                         if fd = -1 then
                           let s = libmsr_error_handler LIBMSR_ERROR_RAPL_INIT s in
                           if kerneltype \<noteq> 0
                           then Some (-1, libmsr_error_handler LIBMSR_ERROR_RAPL_INIT s)
                           else init_loop E numDevs 1 0 s
                         else init_loop E numDevs kerneltype (Suc dev_idx) s)))
      else Some (0, s\<lparr>msr_inited := True\<rparr>))"
  by pat_completeness auto

termination
proof (relation "inv_image (less_than <*lex*> less_than)
    (\<lambda>(E, n, k, i, s). (kt_rank k, n - i))", goal_cases)
  case 1
  show ?case by (rule wf_inv_image) (intro wf_lex_prod wf_less_than)
next
  case 2
  from stat_module_rank_nested [OF 2(3-6)] 2 show ?case by auto
next
  case 3
  from stat_module_rank_nested [OF 3(3-6)] 3 show ?case by (auto simp: kt_rank_def split: if_splits)
next
  case 4
  from stat_module_rank_nested [OF 4(3-6)] 4 show ?case by auto
qed

declare init_loop.simps [simp del]

definition init_msr :: "'d env \<Rightarrow> ('d, 'z) lib_scheme \<Rightarrow> (int \<times> ('d, 'z) lib_scheme) option" where
  "init_msr E s =
     do {
       (ret, g) \<leftarrow> find_cpu_top (hw E) (g_topo_list s);
       let s = s\<lparr>g_topo_list := g\<rparr>;
       if ret < 0 then Some (ret, s)
       else if msr_inited s then Some (0, s)
       else
         let (_, kerneltype, _, s) = stat_module E ''/dev/cpu/msr_whitelist'' 3 0 s
         in init_loop E (NUM_DEVS (hw E)) kerneltype 0 s
     }"

text \<open>
  The loop of \<open>finalize_msr\<close>: \<open>Inl\<close> is its early return.  The \<open>NULL\<close> case of
  \<open>core_fd\<close> skips the device.
\<close>

fun close_loop ::
  "'d env \<Rightarrow> nat list \<Rightarrow> ('d, 'z) lib_scheme \<Rightarrow> (('d, 'z) lib_scheme + ('d, 'z) lib_scheme) option" where
  "close_loop E [] s = Some (Inr s)"
| "close_loop E (i # js) s =
     (case core_fd E (of_nat i) s of
        (None, s) \<Rightarrow> close_loop E js s
      | (Some p, s) \<Rightarrow>
          (case fd_value p s of
             None \<Rightarrow> None
           | Some fd \<Rightarrow>
               let (rc, d) = os_close E fd (dev s); s = s\<lparr>dev := d\<rparr> in
               if rc \<noteq> 0 then Some (Inl (libmsr_error_handler LIBMSR_ERROR_MSR_CLOSE s))
               else (case set_fd p 0 s of None \<Rightarrow> None | Some s \<Rightarrow> close_loop E js s)))"

text \<open>
  \<open>memhdlr_finalize\<close> frees every block the library allocated: the descriptor table, the
  arrays of \<open>batch_storage\<close> and the operations of every batch.  No pointer and no flag is
  reset.
\<close>

definition free_everything :: "('d, 'z) lib_scheme \<Rightarrow> ('d, 'z) lib_scheme" where
  "free_everything s =
     s\<lparr>file_descriptors := [], batch := [], bsize := [], blocks := map (\<lambda>_. None) (blocks s)\<rparr>"

definition finalize_msr :: "'d env \<Rightarrow> ('d, 'z) lib_scheme \<Rightarrow> (int \<times> ('d, 'z) lib_scheme) option" where
  "finalize_msr E s =
     do {
       r \<leftarrow> close_loop E [0..<NUM_DEVS (hw E)] s;
       case r of Inl s \<Rightarrow> Some (-1, s) | Inr s \<Rightarrow> Some (0, free_everything s)
     }"

end
