(* ===== verification/Cpuid.thy ===== *)
theory Cpuid
  imports Msr_Bits Msr_Core
begin

text \<open>
  \<open>src/cpuid.c\<close>: the queries of the processor's identification.  The instruction itself is
  the parameter \<open>cpuid_insn\<close> of the environment, from EAX and ECX to EAX, EBX, ECX and EDX;
  \<open>cpuid\<close> does not load ECX, which then holds what the compiler left there.
\<close>

section \<open>The instruction\<close>

definition cpuid :: "'d env \<Rightarrow> u64 \<Rightarrow> u64 \<times> u64 \<times> u64 \<times> u64" where
  "cpuid E leaf = cpuid_insn E leaf (junk E)"

definition cpuidInput_rax_rcx :: "'d env \<Rightarrow> u64 \<Rightarrow> u64 \<Rightarrow> u64 \<times> u64 \<times> u64 \<times> u64" where
  "cpuidInput_rax_rcx E leafa leafc = cpuid_insn E leafa leafc"

section \<open>Core configuration\<close>

text \<open>
  \<open>siblings\<close> is the outcome of opening and scanning \<open>thread_siblings_list\<close>: \<open>None\<close> when
  the file cannot be opened (the code reports it and still scans the null stream), else the
  number of values scanned.  The result is \<open>coresPerSocket\<close>, \<open>hyperThreads\<close>,
  \<open>sockets\<close>, \<open>HTenabled\<close> and the static flag.
\<close>

definition cpuid_detect_core_conf ::
  "'d env \<Rightarrow> int option \<Rightarrow> i32 \<Rightarrow> bool \<Rightarrow> i32 \<Rightarrow> (u64 \<times> u64 \<times> u64 \<times> i32 \<times> bool) option" where
  "cpuid_detect_core_conf E siblings nprocs_conf init HTenabled =
     do {
       HTenabled \<leftarrow> (if init then Some HTenabled
                     else case siblings of None \<Rightarrow> None
                          | Some ret \<Rightarrow> Some (if ret < 2 \<or> ret = -1 then 0 else 1));
       let (_, rbx, _, _) = cpuid_insn E 0xb 0;
       let hyperThreads = rbx AND 0xFFFF;
       let (_, rbx, _, _) = cpuid_insn E 0xb 1;
       if hyperThreads = 0 then None
       else
         let coresPerSocket = (rbx AND 0xFFFF) div hyperThreads;
             sockets = (if scast nprocs_conf = coresPerSocket * scast (HTenabled + 1) then 1 else 2)
         in Some (coresPerSocket, hyperThreads, sockets, HTenabled, True)
     }"

definition cpuid_get_model :: "'d env \<Rightarrow> u64" where
  "cpuid_get_model E =
     (case cpuid_insn E 1 0 of
        (rax, _, _, _) \<Rightarrow> (drop_bit 4 rax AND 0xF) OR (drop_bit 12 rax AND 0xF0))"

section \<open>Features\<close>

definition cpuid_mperf_and_aperf_avail :: "'d env \<Rightarrow> bool" where
  "cpuid_mperf_and_aperf_avail E \<longleftrightarrow> (case cpuid E 6 of (rax, rbx, rcx, rdx) \<Rightarrow> MASK_VAL rcx 0 0 = 1)"

definition cpuid_timestamp_counter_avail :: "'d env \<Rightarrow> bool" where
  "cpuid_timestamp_counter_avail E \<longleftrightarrow> (case cpuid E 1 of (rax, rbx, rcx, rdx) \<Rightarrow> MASK_VAL rdx 4 4 = 1)"

definition cpuid_num_pmc :: "'d env \<Rightarrow> i32" where
  "cpuid_num_pmc E = (case cpuid E 10 of (rax, rbx, rcx, rdx) \<Rightarrow> ucast (MASK_VAL rax 15 8))"

definition cpuid_num_perfevtsel :: "'d env \<Rightarrow> i32" where
  "cpuid_num_perfevtsel E = (case cpuid E 10 of (rax, rbx, rcx, rdx) \<Rightarrow> ucast (MASK_VAL rax 15 8))"

definition cpuid_perf_global_ctrl_EN_PMC :: "'d env \<Rightarrow> bool" where
  "cpuid_perf_global_ctrl_EN_PMC E \<longleftrightarrow> (case cpuid E 10 of (rax, rbx, rcx, rdx) \<Rightarrow> MASK_VAL rax 7 0 > 0)"

definition cpuid_perf_global_ctrl_EN_FIXED_CTRnum :: "'d env \<Rightarrow> bool" where
  "cpuid_perf_global_ctrl_EN_FIXED_CTRnum E \<longleftrightarrow>
     (case cpuid E 10 of (rax, rbx, rcx, rdx) \<Rightarrow> MASK_VAL rax 7 0 > 1)"

definition cpuid_misc_enable_TurboModeDisable :: "'d env \<Rightarrow> bool" where
  "cpuid_misc_enable_TurboModeDisable E \<longleftrightarrow>
     (case cpuid E 6 of (rax, rbx, rcx, rdx) \<Rightarrow> MASK_VAL rax 1 1 = 1)"

definition cpuid_misc_enable_xTPRMessageDisable :: "'d env \<Rightarrow> bool" where
  "cpuid_misc_enable_xTPRMessageDisable E \<longleftrightarrow>
     (case cpuid E 1 of (rax, rbx, rcx, rdx) \<Rightarrow> MASK_VAL rcx 14 14 = 1)"

text \<open>The leaf is an \<open>int\<close>: 80000001H is negative and is sign-extended.\<close>

definition cpuid_misc_enable_XDBitDisable :: "'d env \<Rightarrow> bool" where
  "cpuid_misc_enable_XDBitDisable E \<longleftrightarrow>
     (case cpuid E (scast (2147483649 :: i32)) of (rax, rbx, rcx, rdx) \<Rightarrow> MASK_VAL rdx 20 20 = 1)"

definition cpuid_enable_ExtendedClockMod :: "'d env \<Rightarrow> bool" where
  "cpuid_enable_ExtendedClockMod E \<longleftrightarrow> (case cpuid E 6 of (rax, rbx, rcx, rdx) \<Rightarrow> MASK_VAL rax 5 5 = 1)"

definition cpuid_therm_status_enable_ThermalThresholds :: "'d env \<Rightarrow> bool" where
  "cpuid_therm_status_enable_ThermalThresholds E \<longleftrightarrow>
     (case cpuid E 1 of (rax, rbx, rcx, rdx) \<Rightarrow> MASK_VAL rcx 8 8 = 1)"

definition cpuid_therm_stat_enable_PowerLimitNotify :: "'d env \<Rightarrow> bool" where
  "cpuid_therm_stat_enable_PowerLimitNotify E \<longleftrightarrow>
     (case cpuid E 6 of (rax, rbx, rcx, rdx) \<Rightarrow> MASK_VAL rax 4 4 = 1)"

definition cpuid_therm_status_enable_DigitalReadout :: "'d env \<Rightarrow> bool" where
  "cpuid_therm_status_enable_DigitalReadout E \<longleftrightarrow>
     (case cpuid E 6 of (rax, rbx, rcx, rdx) \<Rightarrow> MASK_VAL rax 0 0 = 1)"

definition cpuid_therm_interrupt_enable_PowerLimitNotify :: "'d env \<Rightarrow> bool" where
  "cpuid_therm_interrupt_enable_PowerLimitNotify E \<longleftrightarrow>
     (case cpuid E 6 of (rax, rbx, rcx, rdx) \<Rightarrow> MASK_VAL rax 4 4 = 1)"

definition cpuid_pkg_therm_enable_status_and_interrupt :: "'d env \<Rightarrow> bool" where
  "cpuid_pkg_therm_enable_status_and_interrupt E \<longleftrightarrow>
     (case cpuid E 6 of (rax, rbx, rcx, rdx) \<Rightarrow> MASK_VAL rax 6 6 = 1)"

section \<open>General information\<close>

definition cpuid_MaxLeaf :: "'d env \<Rightarrow> u64" where
  "cpuid_MaxLeaf E = (case cpuid E 0 of (rax, rbx, rcx, rdx) \<Rightarrow> rax)"

text \<open>The characters printed: the bytes of EBX, EDX and ECX, low byte first.\<close>

definition cpuid_printVendorID :: "'d env \<Rightarrow> u64 list" where
  "cpuid_printVendorID E =
     (case cpuid E 0 of (rax, rbx, rcx, rdx) \<Rightarrow>
        concat (map (\<lambda>r. map (\<lambda>i. MASK_VAL r (7 + i) (0 + i)) [0, 8, 16, 24]) [rbx, rdx, rcx]))"

definition cpuid_pkg_MaxPhysicalProcessorCores :: "'d env \<Rightarrow> i32" where
  "cpuid_pkg_MaxPhysicalProcessorCores E =
     (case cpuidInput_rax_rcx E 4 0 of (rax, rbx, rcx, rdx) \<Rightarrow> ucast (MASK_VAL rax 31 26 + 1))"

definition cpuid_pkg_MaxLogicalProcessors :: "'d env \<Rightarrow> i32" where
  "cpuid_pkg_MaxLogicalProcessors E = (case cpuid E 1 of (rax, rbx, rcx, rdx) \<Rightarrow> ucast (MASK_VAL rbx 23 16))"

definition cpuid_num_fixed_counters :: "'d env \<Rightarrow> i32" where
  "cpuid_num_fixed_counters E = (case cpuid E 10 of (rax, rbx, rcx, rdx) \<Rightarrow> ucast (MASK_VAL rdx 4 0))"

definition cpuid_width_fixed_counters :: "'d env \<Rightarrow> i32" where
  "cpuid_width_fixed_counters E = (case cpuid E 10 of (rax, rbx, rcx, rdx) \<Rightarrow> ucast (MASK_VAL rdx 12 5))"

section \<open>What the queries answer\<close>

text \<open>A field that fits an \<open>int\<close> keeps its value when it is returned as one.\<close>

lemma sint_ucast_MASK_VAL:
  assumes "n \<le> m" "m - n < 31"
  shows "sint (ucast (MASK_VAL x m n) :: i32) = int (unat x div 2 ^ n mod 2 ^ (m - n + 1))"
proof -
  have "unat (MASK_VAL x m n) < 2 ^ (m - n + 1)" using assms(1) by (rule MASK_VAL_bound)
  also have "\<dots> \<le> (2 :: nat) ^ 31" using assms(2) by (intro power_increasing) auto
  finally have b: "unat (MASK_VAL x m n) < 2 ^ 31" .
  have "(ucast (MASK_VAL x m n) :: i32) = of_nat (unat (MASK_VAL x m n))" by simp
  also have "sint \<dots> = int (unat (MASK_VAL x m n))"
    using b by (simp only: signed_of_nat of_int_eq_id id_apply) (intro signed_take_bit_int_eq_self, simp_all del: of_nat_unat)
  finally show ?thesis using assms(1) by (simp only: unat_MASK_VAL)
qed

text \<open>The model number is the model field (bits 7:4 of EAX) in the low digit and the extended
  model (bits 19:16) in the high digit.\<close>

theorem get_model_digits:
  "unat (cpuid_get_model E)
     = 16 * (unat (fst (cpuid_insn E 1 0)) div 2 ^ 16 mod 16) + unat (fst (cpuid_insn E 1 0)) div 2 ^ 4 mod 16"
proof -
  obtain rax rbx rcx rdx where c: "cpuid_insn E 1 0 = (rax, rbx, rcx, rdx)" by (metis prod_cases4)
  let ?h = "MASK_VAL rax 19 16" and ?l = "MASK_VAL rax 7 4"
  have F: "(0xF :: u64) = mask 4" "(0xF0 :: u64) = push_bit 4 (mask 4)"
    by (simp_all add: mask_eq_exp_minus_1)
  have eq: "cpuid_get_model E = ?l OR push_bit 4 ?h"
    by (rule bit_word_eqI)
      (auto simp: cpuid_get_model_def c bit_MASK_VAL bit_or_iff bit_and_iff bit_drop_bit_eq bit_push_bit_iff bit_mask_iff F)
  have "?l AND push_bit 4 ?h = 0"
    by (rule bit_word_eqI) (auto simp: bit_MASK_VAL bit_and_iff bit_push_bit_iff)
  then have "?l OR push_bit 4 ?h = ?l + push_bit 4 ?h" by (simp add: disjunctive_add_eq_or)
  moreover have "unat ?h < 16" "unat ?l < 16"
    using MASK_VAL_bound [of 16 19 rax] MASK_VAL_bound [of 4 7 rax] by simp_all
  ultimately have "unat (cpuid_get_model E) = unat ?l + 16 * unat ?h"
    by (simp add: eq push_bit_eq_mult unat_word_ariths)
  then show ?thesis by (simp add: unat_MASK_VAL c)
qed

text \<open>On leaf 0AH the counts the counter code indexes its arrays with are read as signed
  integers without loss: at most 255 general counters, as many event selectors, at most 31
  fixed counters of at most 255 bits, each the field the manual names.\<close>

theorem counter_counts:
  "sint (cpuid_num_pmc E) = int (unat (fst (cpuid E 10)) div 2 ^ 8 mod 2 ^ 8)
   \<and> cpuid_num_perfevtsel E = cpuid_num_pmc E
   \<and> sint (cpuid_num_fixed_counters E) = int (unat (snd (snd (snd (cpuid E 10)))) mod 2 ^ 5)
   \<and> sint (cpuid_width_fixed_counters E) = int (unat (snd (snd (snd (cpuid E 10)))) div 2 ^ 5 mod 2 ^ 8)"
  by (cases "cpuid E 10")
    (simp add: cpuid_num_pmc_def cpuid_num_perfevtsel_def cpuid_num_fixed_counters_def
      cpuid_width_fixed_counters_def sint_ucast_MASK_VAL)

end
