(* ===== verification/Msr_Access.thy ===== *)
theory Msr_Access
  imports Msr_Core
begin

text \<open>
  What the rest of the library may rely on when it reads and writes registers: the interface
  \<open>reg_io\<close>, provided by the accesses of \<open>msr_core.c\<close> by number and by coordinate; and what
  \<open>init_msr\<close> and \<open>finalize_msr\<close> leave behind.
\<close>

section \<open>The interface\<close>

text \<open>
  \<open>rd a b s\<close> reads register \<open>a\<close> into a buffer that holds \<open>b\<close>, \<open>wr a v s\<close> writes it; in
  a state of \<open>ok\<close> both succeed, and \<open>reg s\<close> is what the registers hold.
\<close>

locale reg_io =
  fixes rd :: "u64 \<Rightarrow> u64 \<Rightarrow> 's \<Rightarrow> (int \<times> u64 \<times> 's) option"
    and wr :: "u64 \<Rightarrow> u64 \<Rightarrow> 's \<Rightarrow> (int \<times> 's) option"
    and ok :: "'s \<Rightarrow> bool"
    and reg :: "'s \<Rightarrow> u64 \<Rightarrow> u64"
  assumes rd_ok: "ok s \<Longrightarrow> rd a b s = Some (0, reg s a, s)"
    and wr_ok: "ok s \<Longrightarrow> \<exists>s'. wr a v s = Some (0, s') \<and> ok s' \<and> reg s' = (reg s)(a := v)"
begin

text \<open>The read-modify-write step of the setters.\<close>

lemma read_modify_write:
  "ok s \<Longrightarrow> \<exists>s'. Option.bind (rd a b s) (\<lambda>(r, x, s). wr a (f x) s) = Some (0, s')
             \<and> ok s' \<and> reg s' = (reg s)(a := f (reg s a))"
  using wr_ok [of s a "f (reg s a)"] by (auto simp: rd_ok)

lemma write_then_read:
  assumes "ok s" "wr a v s = Some (r, s')"
  shows "rd a b s' = Some (0, v, s')"
  using wr_ok [OF assms(1), of a v] assms(2) by (auto simp: rd_ok)

end

section \<open>The provider\<close>

text \<open>
  The documented behaviour of the msr device files, for the descriptors in \<open>good\<close>: a read
  returns the 8 bytes of the register, a write stores them, and \<open>rg fd a d\<close> is the register
  \<open>a\<close> behind descriptor \<open>fd\<close> on the machine \<open>d\<close>.
\<close>

definition msr_files :: "'d env \<Rightarrow> (int \<Rightarrow> bool) \<Rightarrow> (int \<Rightarrow> u64 \<Rightarrow> 'd \<Rightarrow> u64) \<Rightarrow> bool" where
  "msr_files E good rg \<longleftrightarrow>
     (\<forall>fd a b d. good fd \<longrightarrow> os_pread E fd a b d = (8, rg fd a d, d))
     \<and> (\<forall>fd a v d. good fd \<longrightarrow>
          fst (os_pwrite E fd a v d) = 8
          \<and> (\<forall>fd' a'. rg fd' a' (snd (os_pwrite E fd a v d))
                        = (if fd' = fd \<and> a' = a then v else rg fd' a' d)))"

text \<open>The descriptor table after a successful \<open>init_msr\<close>.\<close>

definition fds_ready :: "'d env \<Rightarrow> (int \<Rightarrow> bool) \<Rightarrow> ('d, 'z) lib_scheme \<Rightarrow> bool" where
  "fds_ready E good s \<longleftrightarrow>
     NUM_DEVS (hw E) < 2 ^ 31 \<and> fd_init s \<and> devices s = NUM_DEVS (hw E)
     \<and> length (file_descriptors s) = NUM_DEVS (hw E)
     \<and> (\<forall>i<NUM_DEVS (hw E). \<exists>fd. file_descriptors s ! i = Some fd \<and> good fd)"

definition fd_of :: "('d, 'z) lib_scheme \<Rightarrow> nat \<Rightarrow> int" where
  "fd_of s i = the (file_descriptors s ! i)"

lemma unat_of_nat_i32: "i < 2 ^ 31 \<Longrightarrow> unat (of_nat i :: i32) = i"
  by (simp add: unsigned_of_nat take_bit_nat_eq_self)

lemma unat_of_nat_u64: "i < 2 ^ 31 \<Longrightarrow> unat (of_nat i :: u64) = i"
  by (simp add: unsigned_of_nat take_bit_nat_eq_self)

lemma of_nat_less_u64: "i < 2 ^ 31 \<Longrightarrow> j < 2 ^ 31 \<Longrightarrow> (of_nat i :: u64) < of_nat j \<longleftrightarrow> i < j"
  by (simp add: word_less_nat_alt unat_of_nat_u64)

lemma core_fd_in:
  "fds_ready E good s \<Longrightarrow> i < NUM_DEVS (hw E) \<Longrightarrow> core_fd E (of_nat i) s = (Some i, s)"
  by (auto simp: core_fd_def fds_ready_def Let_def scast_of_nat of_nat_less_u64 unat_of_nat_i32)

lemma fd_value_in:
  "fds_ready E good s \<Longrightarrow> i < NUM_DEVS (hw E) \<Longrightarrow> fd_value i s = Some (fd_of s i) \<and> good (fd_of s i)"
  by (force simp: fd_value_def fds_ready_def fd_of_def)

lemma fds_ready_dev [simp]: "fds_ready E good (s\<lparr>dev := d\<rparr>) = fds_ready E good s"
  by (simp add: fds_ready_def)

lemma fd_of_dev [simp]: "fd_of (s\<lparr>dev := d\<rparr>) = fd_of s"
  by (rule ext) (simp add: fd_of_def)

interpretation by_idx: reg_io "\<lambda>a b. read_msr_by_idx E (of_nat i) a b" "write_msr_by_idx E (of_nat i)"
    "\<lambda>s. msr_files E good rg \<and> fds_ready E good s \<and> i < NUM_DEVS (hw E)"
    "\<lambda>s a. rg (fd_of s i) a (dev s)"
  for E :: "'d env" and i good rg
proof
  fix s a b assume ok: "msr_files E good rg \<and> fds_ready E good s \<and> i < NUM_DEVS (hw E)"
  then show "read_msr_by_idx E (of_nat i) a b s = Some (0, rg (fd_of s i) a (dev s), s)"
    by (auto simp: read_msr_by_idx_def core_fd_in fd_value_in msr_files_def)
next
  fix s a v assume ok: "msr_files E good rg \<and> fds_ready E good s \<and> i < NUM_DEVS (hw E)"
  let ?d = "snd (os_pwrite E (fd_of s i) a v (dev s))"
  have g: "good (fd_of s i)" using ok fd_value_in by blast
  with ok have w: "os_pwrite E (fd_of s i) a v (dev s) = (8, ?d)"
    unfolding msr_files_def by (metis prod.collapse)
  have rg: "rg fd' a' ?d = (if fd' = fd_of s i \<and> a' = a then v else rg fd' a' (dev s))" for fd' a'
    using ok g unfolding msr_files_def by blast
  have "core_fd E (of_nat i) s = (Some i, s)" "fd_value i s = Some (fd_of s i)"
    using ok core_fd_in fd_value_in by blast+
  with w have "write_msr_by_idx E (of_nat i) a v s = Some (0, s\<lparr>dev := ?d\<rparr>)"
    by (cases "os_pwrite E (fd_of s i) a v (dev s)") (simp add: write_msr_by_idx_def Let_def)
  with ok rg show "\<exists>s'. write_msr_by_idx E (of_nat i) a v s = Some (0, s')
      \<and> (msr_files E good rg \<and> fds_ready E good s' \<and> i < NUM_DEVS (hw E))
      \<and> (\<lambda>a. rg (fd_of s' i) a (dev s')) = (\<lambda>a. rg (fd_of s i) a (dev s))(a := v)"
    by (intro exI [of _ "s\<lparr>dev := ?d\<rparr>"]) auto
qed

text \<open>The number of a coordinate of the machine, in either numbering scheme.\<close>

definition coord_num :: "'d env \<Rightarrow> ('d, 'z) lib_scheme \<Rightarrow> nat \<Rightarrow> nat \<Rightarrow> nat \<Rightarrow> nat" where
  "coord_num E s socket core thread =
     (if discontinuous_mapping (g_topo_list s) then disc_idx else cont_idx)
       (sockets (hw E)) (coresPerSocket (hw E)) socket core thread"

definition coord_ok :: "'d env \<Rightarrow> nat \<Rightarrow> nat \<Rightarrow> nat \<Rightarrow> bool" where
  "coord_ok E socket core thread \<longleftrightarrow>
     socket < sockets (hw E) \<and> core < coresPerSocket (hw E) \<and> thread < threadsPerCore (hw E)"

lemma coord_num_range: "coord_ok E a b c \<Longrightarrow> coord_num E s a b c < NUM_DEVS (hw E)"
  by (simp add: coord_num_def coord_ok_def NUM_DEVS_def cont.idx_range disc.idx_range)

lemma coord_ok_small:
  assumes "coord_ok E a b c" "NUM_DEVS (hw E) < 2 ^ 31"
  shows "a < 2 ^ 31" "b < 2 ^ 31" "c < 2 ^ 31" "sockets (hw E) < 2 ^ 31"
proof -
  have *: "x \<le> NUM_DEVS (hw E)" if "x = sockets (hw E) \<or> x = coresPerSocket (hw E) \<or> x = threadsPerCore (hw E)" for x
    using that assms(1) by (auto simp: NUM_DEVS_def coord_ok_def)
  with assms show "a < 2 ^ 31" "b < 2 ^ 31" "c < 2 ^ 31" "sockets (hw E) < 2 ^ 31"
    by (force simp: coord_ok_def)+
qed

lemma ucast_of_nat: "(ucast (of_nat n :: u64) :: i32) = of_nat n"
  by (simp add: unsigned_of_nat word_of_nat_eq_iff)

lemma coord_idx_num:
  assumes "coord_ok E a b c" "NUM_DEVS (hw E) < 2 ^ 31"
  shows "coord_idx E (of_nat a) (of_nat b) (of_nat c) s = of_nat (coord_num E s a b c)"
  using coord_ok_small [OF assms]
  by (simp add: coord_idx_def devidx_scheme coord_num_def ucast_of_nat)

lemma check_coord_ok:
  assumes "coord_ok E a b c" "NUM_DEVS (hw E) < 2 ^ 31"
  shows "check_coord E (of_nat a) (of_nat b) (of_nat c) s = s"
  using coord_ok_small [OF assms] assms(1)
  by (simp add: check_coord_def sockets_assert_def cores_assert_def threads_assert_def
      unat_of_nat_i32 coord_ok_def)

interpretation by_coord: reg_io "\<lambda>r b. read_msr_by_coord E (of_nat sk) (of_nat c) (of_nat t) r b"
    "write_msr_by_coord E (of_nat sk) (of_nat c) (of_nat t)"
    "\<lambda>s. msr_files E good rg \<and> fds_ready E good s \<and> coord_ok E sk c t"
    "\<lambda>s r. rg (fd_of s (coord_num E s sk c t)) r (dev s)"
  for E :: "'d env" and sk c t good rg
proof
  fix s a b assume ok: "msr_files E good rg \<and> fds_ready E good s \<and> coord_ok E sk c t"
  then have "NUM_DEVS (hw E) < 2 ^ 31" by (simp add: fds_ready_def)
  with ok show "read_msr_by_coord E (of_nat sk) (of_nat c) (of_nat t) a b s
      = Some (0, rg (fd_of s (coord_num E s sk c t)) a (dev s), s)"
    using by_idx.rd_ok [of E good rg s "coord_num E s sk c t" a b]
    by (simp add: read_msr_by_coord_def check_coord_ok coord_idx_num Let_def coord_num_range)
next
  fix s a v assume ok: "msr_files E good rg \<and> fds_ready E good s \<and> coord_ok E sk c t"
  then have small: "NUM_DEVS (hw E) < 2 ^ 31" by (simp add: fds_ready_def)
  define i where "i = coord_num E s sk c t"
  have ok': "msr_files E good rg \<and> fds_ready E good s \<and> i < NUM_DEVS (hw E)"
    using ok by (simp add: i_def coord_num_range)
  obtain s' where w: "write_msr_by_idx E (of_nat i) a v s = Some (0, s')"
      "fds_ready E good s'" "(\<lambda>a. rg (fd_of s' i) a (dev s')) = (\<lambda>a. rg (fd_of s i) a (dev s))(a := v)"
    using by_idx.wr_ok [OF ok', of a v] by blast
  have "g_topo_list s' = g_topo_list s"
    using w(1) ok' by (auto simp: write_msr_by_idx_def core_fd_in fd_value_in
        libmsr_error_handler_def Let_def split: prod.splits if_splits)
  then have "coord_num E s' sk c t = i" by (simp add: coord_num_def i_def)
  with ok w small show "\<exists>s'. write_msr_by_coord E (of_nat sk) (of_nat c) (of_nat t) a v s = Some (0, s')
      \<and> (msr_files E good rg \<and> fds_ready E good s' \<and> coord_ok E sk c t)
      \<and> (\<lambda>r. rg (fd_of s' (coord_num E s' sk c t)) r (dev s'))
          = (\<lambda>r. rg (fd_of s (coord_num E s sk c t)) r (dev s))(a := v)"
    by (auto simp: write_msr_by_coord_def check_coord_ok coord_idx_num Let_def i_def)
qed

lemma write_idx_eq:
  assumes "msr_files E good rg" "fds_ready E good s" "i < NUM_DEVS (hw E)"
  shows "write_msr_by_idx E (of_nat i) a v s = Some (0, s\<lparr>dev := snd (os_pwrite E (fd_of s i) a v (dev s))\<rparr>)"
proof -
  have "fst (os_pwrite E (fd_of s i) a v (dev s)) = 8"
    using assms(1) fd_value_in [OF assms(2,3)] by (simp add: msr_files_def)
  then obtain d where "os_pwrite E (fd_of s i) a v (dev s) = (8, d)" by (metis prod.collapse)
  then show ?thesis
    using core_fd_in [OF assms(2,3)] fd_value_in [OF assms(2,3)] by (simp add: write_msr_by_idx_def Let_def)
qed

lemma coord_num_dev [simp]: "coord_num E (s\<lparr>dev := d\<rparr>) = coord_num E s"
  by (simp add: coord_num_def fun_eq_iff)

text \<open>A write by coordinate, with the state it leads to.\<close>

definition written ::
  "'d env \<Rightarrow> nat \<Rightarrow> nat \<Rightarrow> nat \<Rightarrow> u64 \<Rightarrow> u64 \<Rightarrow> ('d, 'z) lib_scheme \<Rightarrow> ('d, 'z) lib_scheme" where
  "written E sk c t a v s = s\<lparr>dev := snd (os_pwrite E (fd_of s (coord_num E s sk c t)) a v (dev s))\<rparr>"

definition reg_of ::
  "'d env \<Rightarrow> (int \<Rightarrow> u64 \<Rightarrow> 'd \<Rightarrow> u64) \<Rightarrow> nat \<Rightarrow> nat \<Rightarrow> nat \<Rightarrow> u64 \<Rightarrow> ('d, 'z) lib_scheme \<Rightarrow> u64" where
  "reg_of E rg sk c t a s = rg (fd_of s (coord_num E s sk c t)) a (dev s)"

lemma write_coord_eq:
  assumes "msr_files E good rg" "fds_ready E good s" "coord_ok E sk c t"
  shows "write_msr_by_coord E (of_nat sk) (of_nat c) (of_nat t) a v s = Some (0, written E sk c t a v s)"
    and "fds_ready E good (written E sk c t a v s)"
    and "reg_of E rg sk c t a' (written E sk c t a v s) = (if a' = a then v else reg_of E rg sk c t a' s)"
proof -
  have small: "NUM_DEVS (hw E) < 2 ^ 31" using assms(2) by (simp add: fds_ready_def)
  show "write_msr_by_coord E (of_nat sk) (of_nat c) (of_nat t) a v s = Some (0, written E sk c t a v s)"
    using write_idx_eq [OF assms(1,2) coord_num_range [OF assms(3)]] small assms(3)
    by (simp add: write_msr_by_coord_def check_coord_ok coord_idx_num Let_def written_def)
  show "fds_ready E good (written E sk c t a v s)" using assms(2) by (simp add: written_def)
  have "good (fd_of s (coord_num E s sk c t))"
    using fd_value_in [OF assms(2) coord_num_range [OF assms(3)]] by blast
  with assms(1) show "reg_of E rg sk c t a' (written E sk c t a v s) = (if a' = a then v else reg_of E rg sk c t a' s)"
    unfolding msr_files_def reg_of_def written_def by simp
qed

lemma read_coord_eq:
  assumes "msr_files E good rg" "fds_ready E good s" "coord_ok E sk c t"
  shows "read_msr_by_coord E (of_nat sk) (of_nat c) (of_nat t) a b s = Some (0, reg_of E rg sk c t a s, s)"
  using by_coord.rd_ok [of E good rg s sk c t a b] assms by (simp add: reg_of_def)

section \<open>After init_msr\<close>

text \<open>Devices below \<open>i\<close> have an open descriptor.\<close>

definition table_upto :: "'d env \<Rightarrow> nat \<Rightarrow> ('d, 'z) lib_scheme \<Rightarrow> bool" where
  "table_upto E i s \<longleftrightarrow>
     (if fd_init s
      then devices s = NUM_DEVS (hw E) \<and> length (file_descriptors s) = NUM_DEVS (hw E)
           \<and> (\<forall>j<i. \<exists>fd. file_descriptors s ! j = Some fd \<and> fd \<noteq> -1)
      else i = 0)"

lemma stat_module_frame:
  "stat_module E f k i s = (r, k', i', s') \<Longrightarrow> s' = s\<lparr>stderr := stderr s'\<rparr>"
  by (auto simp: stat_module_def Let_def libmsr_error_handler_def split: if_splits option.splits)

lemma stat_module_idx:
  "stat_module E f k (int i) s = (r, k', i', s') \<Longrightarrow> \<not> r < 0 \<Longrightarrow> \<not> i' < 0 \<Longrightarrow> i' = int i"
  by (auto simp: stat_module_def Let_def split: if_splits option.splits)

lemma table_upto_stderr [simp]: "table_upto E i (s\<lparr>stderr := e\<rparr>) = table_upto E i s"
  by (simp add: table_upto_def)

lemma table_upto_0: "table_upto E i s \<Longrightarrow> table_upto E 0 s"
  by (simp add: table_upto_def)

lemma open_step:
  assumes "table_upto E i s" "i < NUM_DEVS (hw E)" "NUM_DEVS (hw E) < 2 ^ 31"
  shows "\<exists>s1 s2. core_fd E (of_nat i) s = (Some i, s1)
           \<and> set_fd i fd (s1\<lparr>dev := d\<rparr>) = Some s2 \<and> table_upto E 0 s2
           \<and> (fd \<noteq> -1 \<longrightarrow> table_upto E (Suc i) s2)"
proof -
  have lt: "(scast (of_nat i :: i32) :: u64) < of_nat (NUM_DEVS (hw E))" and i: "unat (of_nat i :: i32) = i"
    using assms(2,3) by (simp_all add: scast_of_nat of_nat_less_u64 unat_of_nat_i32)
  show ?thesis
  proof (cases "fd_init s")
    case True
    with assms lt i show ?thesis
      by (auto simp: core_fd_def set_fd_def table_upto_def Let_def less_Suc_eq nth_list_update)
  next
    case False
    with assms lt i show ?thesis
      by (auto simp: core_fd_def set_fd_def table_upto_def Let_def)
  qed
qed

lemma init_loop_ok:
  assumes "n = NUM_DEVS (hw E)" "n < 2 ^ 31" "i \<le> n" "table_upto E i s"
  shows "\<exists>r s'. init_loop E n k i s = Some (r, s') \<and> (r = 0 \<or> r = -1)
           \<and> (r = 0 \<longrightarrow> msr_inited s' \<and> table_upto E n s')"
  using assms
proof (induction E n k i s rule: init_loop.induct)
  case (1 E n k i s)
  show ?case
  proof (cases "i < n")
    case False
    then have "init_loop E n k i s = Some (0, s\<lparr>msr_inited := True\<rparr>)"
      by (subst init_loop.simps) simp
    with False "1.prems"(3,4) show ?thesis by (auto simp: table_upto_def)
  next
    case True
    obtain r k' i' s1 where st: "stat_module E (msr_filename k i) k (int i) s = (r, k', i', s1)"
      by (metis prod_cases4)
    have t1: "table_upto E i s1"
      using stat_module_frame [OF st] "1.prems"(4) table_upto_stderr by metis
    have step: "init_loop E n k i s = (if r < 0 then Some (-1, s1)
             else if i' < 0 then init_loop E n k' 0 s1
             else (case core_fd E (of_nat i) s1 of
                  (None, s) \<Rightarrow> None
                | (Some p, s) \<Rightarrow>
                    let (fd, d) = os_open E (msr_filename k i) (dev s) in
                    (case set_fd p fd (s\<lparr>dev := d\<rparr>) of
                       None \<Rightarrow> None
                     | Some s \<Rightarrow>
                         if fd = -1 then
                           let s = libmsr_error_handler LIBMSR_ERROR_RAPL_INIT s in
                           if k' \<noteq> 0
                           then Some (-1, libmsr_error_handler LIBMSR_ERROR_RAPL_INIT s)
                           else init_loop E n 1 0 s
                         else init_loop E n k' (Suc i) s)))"
      using True by (subst init_loop.simps) (simp add: st Let_def)
    note IH = "1.IH"(1) [OF True refl st [symmetric] refl refl]
      "1.IH"(2) [OF True refl st [symmetric] refl refl]
      "1.IH"(3) [OF True refl st [symmetric] refl refl]
    show ?thesis
    proof (cases "r < 0 \<or> i' < 0")
      case True
      then show ?thesis using IH(1) "1.prems"(1,2) table_upto_0 [OF t1] step by auto
    next
      case False
      obtain s2 where c: "core_fd E (of_nat i) s1 = (Some i, s2)"
        using open_step [OF t1] True "1.prems"(1,2) by blast
      obtain fd d where o: "os_open E (msr_filename k i) (dev s2) = (fd, d)" by fastforce
      obtain s3 where f: "set_fd i fd (s2\<lparr>dev := d\<rparr>) = Some s3" "table_upto E 0 s3"
          "fd \<noteq> -1 \<longrightarrow> table_upto E (Suc i) s3"
        using open_step [OF t1, of fd d] True "1.prems"(1,2) c by fastforce
      from False step c o f(1) have step': "init_loop E n k i s =
         (if fd = -1 then
            (if k' \<noteq> 0 then Some (-1, libmsr_error_handler LIBMSR_ERROR_RAPL_INIT
                                        (libmsr_error_handler LIBMSR_ERROR_RAPL_INIT s3))
             else init_loop E n 1 0 (libmsr_error_handler LIBMSR_ERROR_RAPL_INIT s3))
          else init_loop E n k' (Suc i) s3)"
        by (simp add: Let_def)
      have t0: "table_upto E 0 (libmsr_error_handler LIBMSR_ERROR_RAPL_INIT s3)"
        using f(2) by (simp add: libmsr_error_handler_def)
      have "fd = -1 \<Longrightarrow> k' = 0 \<Longrightarrow> ?thesis"
        using IH(2) False c [symmetric] o [symmetric] f(1) t0 "1.prems"(1,2) step' by simp
      moreover have "fd = -1 \<Longrightarrow> k' \<noteq> 0 \<Longrightarrow> ?thesis" using step' by simp
      moreover have "fd \<noteq> -1 \<Longrightarrow> ?thesis"
        using IH(3) False c [symmetric] o [symmetric] f(1,3) True "1.prems"(1,2) step' by simp
      ultimately show ?thesis by blast
    qed
  qed
qed

text \<open>A first \<open>init_msr\<close> always returns, and success means a full descriptor table.\<close>

lemma init_msr_ok:
  assumes "hw_wf (hw E)" "\<not> msr_inited s" "\<not> fd_init s"
  shows "\<exists>r s'. init_msr E s = Some (r, s') \<and> (r = 0 \<or> r = -1)
           \<and> (r = 0 \<longrightarrow> msr_inited s' \<and> table_upto E (NUM_DEVS (hw E)) s')"
proof -
  obtain g where g: "find_cpu_top (hw E) (g_topo_list s) = Some (1, g)"
    using find_cpu_top_ok [OF assms(1)] by blast
  let ?s = "s\<lparr>g_topo_list := g\<rparr>"
  obtain r k i s1 where st: "stat_module E ''/dev/cpu/msr_whitelist'' 3 0 ?s = (r, k, i, s1)"
    by (metis prod_cases4)
  have "table_upto E 0 ?s" using assms(3) by (simp add: table_upto_def)
  then have "table_upto E 0 s1"
    using stat_module_frame [OF st] table_upto_stderr by metis
  moreover have "NUM_DEVS (hw E) < 2 ^ 31" using assms(1) by (simp add: hw_wf_def)
  moreover have "init_msr E s = init_loop E (NUM_DEVS (hw E)) k 0 s1"
    using assms(2) g st by (simp add: init_msr_def)
  ultimately show ?thesis using init_loop_ok [of "NUM_DEVS (hw E)" E 0 s1 k] by simp
qed

lemma table_upto_ready:
  "table_upto E (NUM_DEVS (hw E)) s \<Longrightarrow> 0 < NUM_DEVS (hw E) \<Longrightarrow> NUM_DEVS (hw E) < 2 ^ 31 \<Longrightarrow>
     fds_ready E (\<lambda>fd. fd \<noteq> -1) s"
  by (auto simp: table_upto_def fds_ready_def split: if_splits)

section \<open>After finalize_msr\<close>

lemma close_loop_frame:
  "close_loop E js s = Some (Inr s') \<Longrightarrow> fd_init s \<Longrightarrow>
     fd_init s' \<and> devices s' = devices s \<and> msr_inited s' = msr_inited s"
proof (induction E js s rule: close_loop.induct)
  case (1 E s)
  then show ?case by simp
next
  case (2 E i js s)
  from "2.prems"(2) have c: "core_fd E (of_nat i) s = (None, libmsr_error_handler LIBMSR_ERROR_ARRAY_BOUNDS s)
      \<or> core_fd E (of_nat i) s = (Some (unat (of_nat i :: i32)), s)"
    by (simp add: core_fd_def)
  then show ?case
  proof
    assume "core_fd E (of_nat i) s = (None, libmsr_error_handler LIBMSR_ERROR_ARRAY_BOUNDS s)"
    with 2 show ?thesis by (simp add: libmsr_error_handler_def)
  next
    assume c: "core_fd E (of_nat i) s = (Some (unat (of_nat i :: i32)), s)"
    with "2.prems"(1) obtain fd rc d s2 where
        "fd_value (unat (of_nat i :: i32)) s = Some fd" "os_close E fd (dev s) = (rc, d)" "rc = 0"
        "set_fd (unat (of_nat i :: i32)) 0 (s\<lparr>dev := d\<rparr>) = Some s2" "close_loop E js s2 = Some (Inr s')"
      by (auto simp: Let_def split: option.splits prod.splits if_splits)
    moreover from this have "fd_init s2 = fd_init s" "devices s2 = devices s" "msr_inited s2 = msr_inited s"
      by (auto simp: set_fd_def)
    ultimately show ?thesis using "2.IH"(2) [OF c [symmetric] refl] "2.prems"(2) by simp
  qed
qed

lemma finalize_msr_ok:
  assumes "finalize_msr E s = Some (0, s')" "fd_init s"
  shows "fd_init s' \<and> devices s' = devices s \<and> msr_inited s' = msr_inited s \<and> file_descriptors s' = []"
  using assms close_loop_frame [of E "[0..<NUM_DEVS (hw E)]" s]
  by (auto simp: finalize_msr_def free_everything_def split: Option.bind_splits sum.splits)

lemma read_without_table:
  assumes "fd_init s" "file_descriptors s = []" "i < devices s" "devices s < 2 ^ 31"
  shows "read_msr_by_idx E (of_nat i) a b s = None"
  using assms by (simp add: read_msr_by_idx_def core_fd_def fd_value_def scast_of_nat of_nat_less_u64)

end
