(* ===== verification/Msr_Batch.thy ===== *)
theory Msr_Batch
  imports Msr_Core
begin

text \<open>
  The batch interface of \<open>src/msr_core.c\<close>.  A batch is an array of operations, one per
  register and processor, that the kernel driver runs in one \<open>ioctl\<close>; the other components
  hold pointers to the data field of its operations and see new values after \<open>read_batch\<close>.
  Such a pointer is a \<open>cell\<close>: a heap block and an index into it.
\<close>

section \<open>Cells\<close>

type_synonym cell = "nat \<times> nat"

definition the_block :: "nat \<Rightarrow> ('d, 'z) lib_scheme \<Rightarrow> msr_batch_op list option" where
  "the_block b s = Option.bind (aget (blocks s) b) id"

definition set_block :: "nat \<Rightarrow> msr_batch_op list \<Rightarrow> ('d, 'z) lib_scheme \<Rightarrow> ('d, 'z) lib_scheme" where
  "set_block b xs s = s\<lparr>blocks := (blocks s)[b := Some xs]\<rparr>"

text \<open>\<open>*p\<close> and \<open>*p = v\<close> for a pointer to the data of an operation.\<close>

definition cell_get :: "('d, 'z) lib_scheme \<Rightarrow> cell \<Rightarrow> u64 option" where
  "cell_get s p = do { xs \<leftarrow> the_block (fst p) s; x \<leftarrow> aget xs (snd p); Some (op_msrdata x) }"

definition cell_set :: "cell \<Rightarrow> u64 \<Rightarrow> ('d, 'z) lib_scheme \<Rightarrow> ('d, 'z) lib_scheme option" where
  "cell_set p v s =
     do {
       xs \<leftarrow> the_block (fst p) s;
       x \<leftarrow> aget xs (snd p);
       Some (set_block (fst p) (xs[snd p := x\<lparr>op_msrdata := v\<rparr>]) s)
     }"

text \<open>An entry of a pointer array that was never set cannot be followed.\<close>

definition ptr :: "cell option list \<Rightarrow> nat \<Rightarrow> cell option" where
  "ptr val i = Option.bind (aget val i) id"

section \<open>Storage\<close>

definition batch_array0 :: msr_batch_array where
  "batch_array0 = \<lparr>numops = 0, ops = None\<rparr>"

text \<open>
  \<open>batch_storage\<close>: the arrays are created on first use and grown when a larger batch number
  is asked for.  Its callers then work on \<open>batch[batchnum]\<close> and \<open>size[batchnum]\<close>, and all
  pass one of the constants of \<open>libmsr_data_type_e\<close>.  Using the arrays after they were freed
  has no defined result.
\<close>

definition batch_storage :: "nat \<Rightarrow> ('d, 'z) lib_scheme \<Rightarrow> ('d, 'z) lib_scheme option" where
  "batch_storage batchnum s =
     (let s = (if batch_null s
               then let n = (if batchnum + 1 > arrsize s then batchnum + 1 else arrsize s)
                    in s\<lparr>batch_null := False, arrsize := n, batch := replicate n batch_array0,
                         bsize := replicate n 0\<rparr>
               else s)
      in if length (batch s) < arrsize s then None
      else if batchnum + 1 > arrsize s
      then Some (s\<lparr>arrsize := batchnum + 1,
                   batch := batch s @ replicate (batchnum + 1 - arrsize s) batch_array0,
                   bsize := bsize s @ replicate (batchnum + 1 - arrsize s) 0\<rparr>)
      else Some s)"

definition clear_err :: "nat \<Rightarrow> msr_batch_op list \<Rightarrow> msr_batch_op list" where
  "clear_err i xs = xs[i := (xs ! i)\<lparr>op_err := 0\<rparr>]"

definition allocate_batch :: "nat \<Rightarrow> nat \<Rightarrow> ('d, 'z) lib_scheme \<Rightarrow> (int \<times> ('d, 'z) lib_scheme) option" where
  "allocate_batch batchnum sz s =
     do {
       s \<leftarrow> batch_storage batchnum s;
       b \<leftarrow> aget (batch s) batchnum;
       z \<leftarrow> aset (bsize s) batchnum sz;
       let s = s\<lparr>bsize := z\<rparr>;
       let s = (if ops b \<noteq> None then libmsr_error_handler LIBMSR_ERROR_MSR_BATCH s else s);
       let new_ops = fold clear_err [numops b..<sz] (replicate sz msr_batch_op0);
       let s = s\<lparr>batch := (batch s)[batchnum := b\<lparr>ops := Some (length (blocks s))\<rparr>],
                 blocks := blocks s @ [Some new_ops]\<rparr>;
       Some (0, s)
     }"

text \<open>
  \<open>free_batch\<close> indexes with \<open>batchnum\<close> the pointers that \<open>batch_storage\<close> has already
  advanced by \<open>batchnum\<close>, so it reaches the entry \<open>2 * batchnum\<close>.
\<close>

definition free_batch :: "nat \<Rightarrow> ('d, 'z) lib_scheme \<Rightarrow> (int \<times> ('d, 'z) lib_scheme) option" where
  "free_batch batchnum s =
     do {
       s \<leftarrow> batch_storage batchnum s;
       z \<leftarrow> aset (bsize s) (batchnum + batchnum) 0;
       b \<leftarrow> aget (batch s) (batchnum + batchnum);
       let s = s\<lparr>bsize := z\<rparr>;
       (case ops b of
          None \<Rightarrow> Some (0, s)
        | Some k \<Rightarrow> Some (0, s\<lparr>blocks := (blocks s)[k := None]\<rparr>))
     }"

definition create_batch_op ::
  "u64 \<Rightarrow> u64 \<Rightarrow> nat \<Rightarrow> ('d, 'z) lib_scheme \<Rightarrow> (int \<times> cell option \<times> ('d, 'z) lib_scheme) option" where
  "create_batch_op msr cpu batchnum s =
     do {
       s \<leftarrow> batch_storage batchnum s;
       b \<leftarrow> aget (batch s) batchnum;
       sz \<leftarrow> aget (bsize s) batchnum;
       if numops b > sz then Some (-1, None, libmsr_error_handler LIBMSR_ERROR_MSR_BATCH s)
       else do {
         let n = numops b;
         k \<leftarrow> ops b;
         xs \<leftarrow> the_block k s;
         x \<leftarrow> aget xs n;
         let x = x\<lparr>op_msr := ucast msr, op_cpu := ucast cpu, op_isrdmsr := 1, op_err := 0\<rparr>;
         let s = set_block k (xs[n := x]) s;
         Some (0, Some (k, n), s\<lparr>batch := (batch s)[batchnum := b\<lparr>numops := n + 1\<rparr>]\<rparr>)
       }
     }"

section \<open>Running a batch\<close>

datatype libmsr_batch_op_type_e = BATCH_LOAD | BATCH_WRITE | BATCH_READ

text \<open>One iteration of \<open>compatibility_batch\<close>; the result of the access is ignored.\<close>

definition compatibility_op ::
  "'d env \<Rightarrow> libmsr_batch_op_type_e \<Rightarrow> nat \<Rightarrow> nat \<Rightarrow> ('d, 'z) lib_scheme \<Rightarrow> ('d, 'z) lib_scheme option" where
  "compatibility_op E type k i s =
     do {
       xs \<leftarrow> the_block k s;
       x \<leftarrow> aget xs i;
       if type = BATCH_READ then do {
         (_, v, s) \<leftarrow> read_msr_by_idx E (ucast (op_cpu x)) (ucast (op_msr x)) (op_msrdata x) s;
         cell_set (k, i) v s
       } else do {
         (_, s) \<leftarrow> write_msr_by_idx E (ucast (op_cpu x)) (ucast (op_msr x)) (op_msrdata x) s;
         Some s
       }
     }"

definition compatibility_batch ::
  "'d env \<Rightarrow> nat \<Rightarrow> libmsr_batch_op_type_e \<Rightarrow> ('d, 'z) lib_scheme \<Rightarrow> (int \<times> ('d, 'z) lib_scheme) option" where
  "compatibility_batch E batchnum type s =
     do {
       s \<leftarrow> batch_storage batchnum s;
       b \<leftarrow> aget (batch s) batchnum;
       if numops b = 0 then Some (0, s)
       else do {
         k \<leftarrow> ops b;
         s \<leftarrow> foldo (compatibility_op E type k) [0..<numops b] s;
         Some (0, s)
       }
     }"

definition set_flags :: "u16 \<Rightarrow> nat \<Rightarrow> msr_batch_op list \<Rightarrow> msr_batch_op list" where
  "set_flags readflag n xs = map (\<lambda>x. x\<lparr>op_isrdmsr := readflag\<rparr>) (take n xs) @ drop n xs"

text \<open>The parts of \<open>do_batch_op\<close>: opening the driver on the first call, and the \<open>ioctl\<close>.\<close>

definition open_batch :: "'d env \<Rightarrow> ('d, 'z) lib_scheme \<Rightarrow> ('d, 'z) lib_scheme" where
  "open_batch E s =
     (if batchfd s = 0
      then let (fd, d) = os_open E ''/dev/cpu/msr_batch'' (dev s)
           in s\<lparr>dev := d, batchfd := (if fd < 0 then -1 else fd)\<rparr>
      else s)"

definition ioctl_batch ::
  "'d env \<Rightarrow> nat \<Rightarrow> libmsr_batch_op_type_e \<Rightarrow> ('d, 'z) lib_scheme \<Rightarrow> (int \<times> ('d, 'z) lib_scheme) option" where
  "ioctl_batch E batchnum type s =
     do {
       s \<leftarrow> batch_storage batchnum s;
       b \<leftarrow> aget (batch s) batchnum;
       if numops b \<le> 0 then Some (-1, libmsr_error_handler LIBMSR_ERROR_MSR_BATCH s)
       else do {
         k \<leftarrow> ops b;
         xs \<leftarrow> the_block k s;
         x \<leftarrow> aget xs 0;
         if length xs < numops b then None
         else
           let xs = (if (type = BATCH_WRITE \<and> op_isrdmsr x \<noteq> 0) \<or> (type = BATCH_READ \<and> op_isrdmsr x = 0)
                     then set_flags (if type = BATCH_READ then 1 else 0) (numops b) xs else xs);
               (res, ys, d) = os_ioctl E (batchfd s) (take (numops b) xs) (dev s);
               s = set_block k (ys @ drop (numops b) xs) (s\<lparr>dev := d\<rparr>)
           in Some (res, if res < 0 then libmsr_error_handler LIBMSR_ERROR_MSR_BATCH s else s)
       }
     }"

definition do_batch_op ::
  "'d env \<Rightarrow> nat \<Rightarrow> libmsr_batch_op_type_e \<Rightarrow> ('d, 'z) lib_scheme \<Rightarrow> (int \<times> ('d, 'z) lib_scheme) option" where
  "do_batch_op E batchnum type s =
     (let s = open_batch E s
      in if batchfd s < 0 then compatibility_batch E batchnum type s
         else ioctl_batch E batchnum type s)"

definition read_batch :: "'d env \<Rightarrow> nat \<Rightarrow> ('d, 'z) lib_scheme \<Rightarrow> (int \<times> ('d, 'z) lib_scheme) option" where
  "read_batch E batchnum s = do_batch_op E batchnum BATCH_READ s"

definition write_batch :: "'d env \<Rightarrow> nat \<Rightarrow> ('d, 'z) lib_scheme \<Rightarrow> (int \<times> ('d, 'z) lib_scheme) option" where
  "write_batch E batchnum s = do_batch_op E batchnum BATCH_WRITE s"

section \<open>Loading a batch\<close>

text \<open>
  \<open>create_batch_op(msr, dev_idx, &val[i], batchnum)\<close> with its result ignored: the pointer is
  stored when the operation was created.
\<close>

definition load_op ::
  "u64 \<Rightarrow> nat \<Rightarrow> nat \<Rightarrow> nat \<Rightarrow> cell option list \<times> ('d, 'z) lib_scheme
   \<Rightarrow> (cell option list \<times> ('d, 'z) lib_scheme) option" where
  "load_op msr dev_idx i batchnum vs =
     (case vs of (val, s) \<Rightarrow>
        do {
          (_, c, s) \<leftarrow> create_batch_op msr (of_nat dev_idx) batchnum s;
          (case c of None \<Rightarrow> Some (val, s) | Some p \<Rightarrow> do { val \<leftarrow> aset val i (Some p); Some (val, s) })
        })"

text \<open>The inner search loop: the first device of \<open>ds\<close> whose map entry satisfies \<open>P\<close>.\<close>

fun first_dev :: "(hwthread \<Rightarrow> bool) \<Rightarrow> hwthread option list \<Rightarrow> nat list \<Rightarrow> nat option option" where
  "first_dev P m [] = Some None"
| "first_dev P m (d # ds) =
     (case Option.bind (aget m d) id of
        None \<Rightarrow> None
      | Some h \<Rightarrow> if P h then Some (Some d) else first_dev P m ds)"

definition load_matching ::
  "'d env \<Rightarrow> u64 \<Rightarrow> (nat \<Rightarrow> hwthread \<Rightarrow> bool) \<Rightarrow> nat \<Rightarrow> nat \<Rightarrow> cell option list \<times> ('d, 'z) lib_scheme
   \<Rightarrow> (cell option list \<times> ('d, 'z) lib_scheme) option" where
  "load_matching E msr P batchnum val_idx vs =
     do {
       r \<leftarrow> first_dev (P val_idx) (thread_map (g_topo_list (snd vs))) [0..<NUM_DEVS (hw E)];
       (case r of None \<Rightarrow> Some vs | Some dev_idx \<Rightarrow> load_op msr dev_idx val_idx batchnum vs)
     }"

text \<open>\<open>val\<close> is the array of pointers, \<open>None\<close> for NULL.\<close>

definition load_socket_batch ::
  "'d env \<Rightarrow> u64 \<Rightarrow> cell option list option \<Rightarrow> nat \<Rightarrow> ('d, 'z) lib_scheme
   \<Rightarrow> (int \<times> cell option list option \<times> ('d, 'z) lib_scheme) option" where
  "load_socket_batch E msr val batchnum s =
     (case val of
        None \<Rightarrow> Some (-1, None, libmsr_error_handler LIBMSR_ERROR_MSR_BATCH s)
      | Some val \<Rightarrow>
          do {
            (val, s) \<leftarrow> foldo (load_matching E msr (\<lambda>i h. socket_id h = int i) batchnum)
                          [0..<sockets (hw E)] (val, s);
            Some (0, Some val, s)
          })"

definition load_core_batch ::
  "'d env \<Rightarrow> u64 \<Rightarrow> cell option list option \<Rightarrow> nat \<Rightarrow> ('d, 'z) lib_scheme
   \<Rightarrow> (int \<times> cell option list option \<times> ('d, 'z) lib_scheme) option" where
  "load_core_batch E msr val batchnum s =
     (case val of
        None \<Rightarrow> Some (-1, None, libmsr_error_handler LIBMSR_ERROR_MSR_BATCH s)
      | Some val \<Rightarrow>
          do {
            (val, s) \<leftarrow> foldo (load_matching E msr (\<lambda>i h. core_id h = int i) batchnum)
                          [0..<sockets (hw E) * coresPerSocket (hw E)] (val, s);
            Some (0, Some val, s)
          })"

definition load_thread_batch ::
  "'d env \<Rightarrow> u64 \<Rightarrow> cell option list option \<Rightarrow> nat \<Rightarrow> ('d, 'z) lib_scheme
   \<Rightarrow> (int \<times> cell option list option \<times> ('d, 'z) lib_scheme) option" where
  "load_thread_batch E msr val batchnum s =
     (case val of
        None \<Rightarrow> Some (-1, None, libmsr_error_handler LIBMSR_ERROR_MSR_BATCH s)
      | Some val \<Rightarrow>
          do {
            (val, s) \<leftarrow> foldo (\<lambda>i. load_op msr i i batchnum) [0..<NUM_DEVS (hw E)] (val, s);
            Some (0, Some val, s)
          })"

definition read_msr_by_coord_batch ::
  "'d env \<Rightarrow> u32 \<Rightarrow> u32 \<Rightarrow> u32 \<Rightarrow> u64 \<Rightarrow> nat \<Rightarrow> ('d, 'z) lib_scheme
   \<Rightarrow> (int \<times> cell option \<times> ('d, 'z) lib_scheme) option" where
  "read_msr_by_coord_batch E socket core thread msr batchnum s =
     (let s = check_coord E socket core thread s
      in do {
        (_, c, s) \<leftarrow> create_batch_op msr (devidx (hw E) (g_topo_list s) socket core thread) batchnum s;
        Some (0, c, s)
      })"

end
