(* ===== verification/Msr_Sim.thy ===== *)
theory Msr_Sim
  imports Msr_Access Msr_Batch
begin

text \<open>
  A concrete machine: two sockets with one core of two threads each, register files behind
  descriptors 10 to 13, a clock that advances at every reading, and optionally the batch
  driver of msr-safe.  It meets every assumption the other theories make of the operating
  system, and the concrete instances of their theorems run on it.
\<close>

record sim =
  sregs :: "int \<Rightarrow> u64 \<Rightarrow> u64"
  clock :: nat

definition sim0 :: sim where
  "sim0 = \<lparr>sregs = (\<lambda>_ _. 0), clock = 0\<rparr>"

definition sim_hw :: hwloc where
  "sim_hw = \<lparr>nb_sockets = 2, nb_cores = 2, nb_pus = 4, pu_os_index = (\<lambda>i. i mod 2 * 2 + i div 2),
     pu_core = (\<lambda>i. int (i div 2)), pu_socket = (\<lambda>i. int (i div 2)),
     pu_sibling = (\<lambda>i. int (i mod 2))\<rparr>"

definition sim_open :: "bool \<Rightarrow> string \<Rightarrow> int" where
  "sim_open drv f =
     (if f = ''/dev/cpu/msr_batch'' then (if drv then 3 else -1)
      else if length f \<ge> 10 then of_char (f ! 9) - 38 else -1)"

fun sim_batch :: "msr_batch_op list \<Rightarrow> sim \<Rightarrow> msr_batch_op list \<times> sim" where
  "sim_batch [] d = ([], d)"
| "sim_batch (x # xs) d =
     (let fd = 10 + int (unat (op_cpu x)); a = ucast (op_msr x) in
      if op_isrdmsr x \<noteq> 0
      then (case sim_batch xs d of (ys, d) \<Rightarrow> (x\<lparr>op_msrdata := sregs d fd a\<rparr> # ys, d))
      else (case sim_batch xs (d\<lparr>sregs := (sregs d)(fd := (sregs d fd)(a := op_msrdata x))\<rparr>) of
              (ys, d) \<Rightarrow> (x # ys, d)))"

definition sim_env :: "bool \<Rightarrow> sim env" where
  "sim_env drv = \<lparr>hw = sim_hw,
     os_stat = (\<lambda>f d. if f = ''/dev/cpu/msr_whitelist'' then None else Some (True, True)),
     os_open = (\<lambda>f d. (sim_open drv f, d)),
     os_close = (\<lambda>fd d. (0, d)),
     os_pread = (\<lambda>fd a b d. (8, sregs d fd a, d)),
     os_pwrite = (\<lambda>fd a v d. (8, d\<lparr>sregs := (sregs d)(fd := (sregs d fd)(a := v))\<rparr>)),
     os_ioctl = (\<lambda>fd xs d. case sim_batch xs d of (ys, d) \<Rightarrow> (0, ys, d)),
     os_time = (\<lambda>d. (int (clock d), 0, d\<lparr>clock := Suc (clock d)\<rparr>)),
     cpuid_insn = (\<lambda>leaf sub. (leaf, 0, sub, 0)),
     junk = 0xDEAD\<rparr>"

text \<open>The library on it, after \<open>init_msr\<close>; \<open>z\<close> holds the fields a component adds.\<close>

definition sim_lib :: "'z \<Rightarrow> (sim, 'z) lib_scheme" where
  "sim_lib z = \<lparr>dev = sim0,
     g_topo_list = \<lparr>thread_map = map (\<lambda>i. Some (hw_thread sim_hw i)) [0, 2, 1, 3],
                   discontinuous_mapping = False\<rparr>,
     fd_init = True, devices = 4, file_descriptors = map Some [10, 11, 12, 13],
     msr_inited = True, batchfd = 0, batch_null = True, arrsize = 1, batch = [], bsize = [],
     blocks = [], stderr = [], \<dots> = z\<rparr>"

definition sim_good :: "int \<Rightarrow> bool" where
  "sim_good fd \<longleftrightarrow> fd \<noteq> -1"

definition sim_rg :: "int \<Rightarrow> u64 \<Rightarrow> sim \<Rightarrow> u64" where
  "sim_rg fd a d = sregs d fd a"

lemma sim_counts [simp]:
  "sockets sim_hw = 2" "coresPerSocket sim_hw = 1" "threadsPerCore sim_hw = 2" "NUM_DEVS sim_hw = 4"
  by (simp_all add: sockets_def coresPerSocket_def threadsPerCore_def NUM_DEVS_def sim_hw_def)

lemma sim_env_hw [simp]: "hw (sim_env b) = sim_hw"
  by (simp add: sim_env_def)

lemma sim_hw_wf: "hw_wf sim_hw"
proof -
  have "{..<4} = {0, 1, 2, 3 :: nat}" by auto
  then have "bij_betw (pu_os_index sim_hw) {..<4} {..<4}"
    by (auto simp: bij_betw_def inj_on_def sim_hw_def)
  then show ?thesis by (simp add: hw_wf_def) (simp add: hw_ok_def sim_hw_def)
qed

lemma sim_msr_files: "msr_files (sim_env b) sim_good sim_rg"
  by (simp add: msr_files_def sim_env_def sim_rg_def)

lemma sim_lib_simps [simp]:
  "dev (sim_lib z) = sim0" "fd_init (sim_lib z)" "devices (sim_lib z) = 4"
  "file_descriptors (sim_lib z) = map Some [10, 11, 12, 13]" "msr_inited (sim_lib z)"
  "batchfd (sim_lib z) = 0" "batch_null (sim_lib z)" "arrsize (sim_lib z) = 1"
  "batch (sim_lib z) = []" "bsize (sim_lib z) = []" "blocks (sim_lib z) = []"
  "stderr (sim_lib z) = []" "lib.more (sim_lib z) = z" "\<not> discontinuous_mapping (g_topo_list (sim_lib z))"
  by (simp_all add: sim_lib_def)

lemma sim_fds_ready: "fds_ready (sim_env b) sim_good (sim_lib z)"
  by (simp add: fds_ready_def sim_good_def) (simp add: numeral_eq_Suc less_Suc_eq all_conj_distrib imp_disjL)

end
