(* ===== verification/Msr_Core_Props.thy ===== *)
theory Msr_Core_Props
  imports Msr_Sim
begin

text \<open>
  The correctness of the register access of \<open>src/msr_core.c\<close>: topology and numbering, the
  life of the descriptor table, and reads and writes; with the places where the checks of the
  code admit what they are meant to refuse.
\<close>

section \<open>Topology\<close>

text \<open>The static caches of the four count functions, as calls of them leave them.\<close>

inductive counts_reach :: "hwloc \<Rightarrow> topo_statics \<Rightarrow> bool" for h where
  start: "counts_reach h topo_statics0"
| cores: "counts_reach h s \<Longrightarrow> num_cores h s = Some (v, s') \<Longrightarrow> counts_reach h s'"
| socks: "counts_reach h s \<Longrightarrow> num_sockets h s = Some (v, s') \<Longrightarrow> counts_reach h s'"
| devs: "counts_reach h s \<Longrightarrow> num_devs h s = Some (v, s') \<Longrightarrow> counts_reach h s'"
| per_socket: "counts_reach h s \<Longrightarrow> cores_per_socket h s = Some (v, s') \<Longrightarrow> counts_reach h s'"

lemma counts_reach_ok: "counts_reach h s \<Longrightarrow> hw_ok h \<Longrightarrow> statics_ok h s"
proof (induction rule: counts_reach.induct)
  case start
  show ?case by (rule statics_ok_0)
next
  case (cores s v s')
  with num_cores_ok [of h s] show ?case by auto
next
  case (socks s v s')
  with num_sockets_ok [of h s] show ?case by auto
next
  case (devs s v s')
  with num_devs_ok [of h s] show ?case by auto
next
  case (per_socket s v s')
  with cores_per_socket_ok [of h s] show ?case by auto
qed

text \<open>Whatever calls of the cached counts came before, each returns the count that hwloc
  reports: no call sees a cache of another or an uninitialised one.\<close>

theorem counts_cached:
  assumes "hw_ok h" "counts_reach h s"
  shows "map_option fst (num_cores h s) = Some (of_nat (coresPerSocket h * sockets h))
    \<and> map_option fst (num_sockets h s) = Some (of_nat (sockets h))
    \<and> map_option fst (num_devs h s) = Some (of_nat (NUM_DEVS h))
    \<and> map_option fst (cores_per_socket h s) = Some (of_nat (coresPerSocket h))"
proof -
  note ok = assms(1) counts_reach_ok [OF assms(2,1)]
  obtain s1 s2 s3 s4 where
    "num_cores h s = Some (of_nat (coresPerSocket h) * of_nat (sockets h), s1)"
    "num_sockets h s = Some (of_nat (sockets h), s2)"
    "num_devs h s = Some (of_nat (coresPerSocket h) * of_nat (threadsPerCore h) * of_nat (sockets h), s3)"
    "cores_per_socket h s = Some (of_nat (coresPerSocket h), s4)"
    using num_cores_ok [OF ok] num_sockets_ok [OF ok] num_devs_ok [OF ok] cores_per_socket_ok [OF ok] by metis
  then show ?thesis by (simp add: NUM_DEVS_def mult.commute mult.left_commute)
qed

theorem counts_cached_witness:
  "map_option fst (num_devs sim_hw topo_statics0) = Some 4"
  using counts_cached [of sim_hw topo_statics0] sim_hw_wf counts_reach.start [of sim_hw]
  by (simp add: hw_wf_def)

text \<open>on a machine whose logical processors are numbered without gaps, \<open>find_cpu_top\<close>
  fills the whole thread map: the entry of every processor number describes the hardware thread
  that has this number.\<close>

theorem find_cpu_top_complete:
  assumes "hw_wf h"
  shows "\<exists>g'. find_cpu_top h g = Some (1, g') \<and> length (thread_map g') = NUM_DEVS h
     \<and> (\<forall>d<NUM_DEVS h. \<exists>i<NUM_DEVS h. pu_os_index h i = d
          \<and> thread_map g' ! d = Some (hw_thread h i) \<and> thread_id (hw_thread h i) = int d)"
proof -
  obtain g' where g': "find_cpu_top h g = Some (1, g')" "length (thread_map g') = NUM_DEVS h"
    "\<forall>i<NUM_DEVS h. thread_map g' ! pu_os_index h i = Some (hw_thread h i)"
    using find_cpu_top_ok [OF assms, of g] by (elim exE conjE) (rule that)
  have "\<exists>i<NUM_DEVS h. pu_os_index h i = d \<and> thread_map g' ! d = Some (hw_thread h i)
      \<and> thread_id (hw_thread h i) = int d" if d: "d < NUM_DEVS h" for d
  proof -
    have "pu_os_index h ` {..<NUM_DEVS h} = {..<NUM_DEVS h}"
      using assms by (simp add: hw_wf_def bij_betw_def)
    with d have "d \<in> pu_os_index h ` {..<NUM_DEVS h}" by simp
    then obtain i where i: "i < NUM_DEVS h" "pu_os_index h i = d" by auto
    with g'(3) have "thread_map g' ! d = Some (hw_thread h i)" by blast
    with i show ?thesis by (intro exI [of _ i]) (simp add: hw_thread_def)
  qed
  then show ?thesis by (intro exI [of _ g'] conjI g'(1,2)) simp
qed

theorem find_cpu_top_witness:
  "\<exists>g'. find_cpu_top sim_hw \<lparr>thread_map = [], discontinuous_mapping = False\<rparr> = Some (1, g')
     \<and> length (thread_map g') = 4"
  using find_cpu_top_complete [OF sim_hw_wf] by auto

text \<open>C6: \<open>devidx\<close> is a bijection between the coordinates of the machine and the numbers of
  its logical processors, whichever of the two numbering schemes is in force.\<close>

theorem devidx_bijective:
  fixes E :: "'d env"
  assumes "NUM_DEVS (hw E) < 2 ^ 31"
  shows "bij_betw (\<lambda>(sk, c, t). unat (devidx (hw E) g (of_nat sk) (of_nat c) (of_nat t)))
     ({..<sockets (hw E)} \<times> {..<coresPerSocket (hw E)} \<times> {..<threadsPerCore (hw E)}) {..<NUM_DEVS (hw E)}"
    (is "bij_betw ?f ?A ?B")
proof -
  define idx where "idx = (if discontinuous_mapping g then disc_idx else cont_idx)"
  have eq: "?f x = (case x of (sk, c, t) \<Rightarrow> idx (sockets (hw E)) (coresPerSocket (hw E)) sk c t)" if x: "x \<in> ?A" for x
  proof -
    obtain sk c t where xx: "x = (sk, c, t)" by (metis prod_cases3)
    have ok: "coord_ok E sk c t" using x by (simp add: xx coord_ok_def)
    have "idx (sockets (hw E)) (coresPerSocket (hw E)) sk c t < NUM_DEVS (hw E)"
      using ok unfolding idx_def NUM_DEVS_def coord_ok_def
      by (cases "discontinuous_mapping g") (simp_all add: cont.idx_range disc.idx_range)
    from less_trans [OF this assms] have "idx (sockets (hw E)) (coresPerSocket (hw E)) sk c t < 2 ^ 31" .
    then show ?thesis
      using coord_ok_small(1-3) [OF ok assms]
      by (simp only: xx case_prod_conv devidx_scheme idx_def [symmetric] unat_of_nat_u64)
  qed
  let ?g = "\<lambda>(sk, c, t). idx (sockets (hw E)) (coresPerSocket (hw E)) sk c t"
  have "bij_betw ?g ?A ?B"
    unfolding NUM_DEVS_def idx_def by (cases "discontinuous_mapping g") (simp_all add: cont.idx_bij disc.idx_bij)
  moreover have "bij_betw ?f ?A ?B \<longleftrightarrow> bij_betw ?g ?A ?B"
    by (rule bij_betw_cong) (rule eq)
  ultimately show ?thesis by (rule iffD2 [rotated])
qed

theorem devidx_witness:
  "unat (devidx sim_hw \<lparr>thread_map = [], discontinuous_mapping = True\<rparr> 1 0 1) \<in> {..<4}"
proof -
  have "(1, 0, 1) \<in> {..<sockets (hw (sim_env False))} \<times> {..<coresPerSocket (hw (sim_env False))}
      \<times> {..<threadsPerCore (hw (sim_env False))}" by simp
  from bij_betwE [OF devidx_bijective [of "sim_env False"], rule_format, OF _ this] show ?thesis by simp
qed

section \<open>The descriptor table\<close>

text \<open>\<open>core_fd\<close> answers exactly for the numbers of existing processors: a negative number is
  refused too, because the comparison converts it to a huge unsigned one.\<close>

theorem core_fd_bounds:
  assumes "fd_init s" "devices s < 2 ^ 31"
  shows "core_fd E i s
    = (if 0 \<le> sint i \<and> sint i < int (devices s) then (Some (nat (sint i)), s)
       else (None, libmsr_error_handler LIBMSR_ERROR_ARRAY_BOUNDS s))"
proof -
  have r: "- (2 ^ 31) \<le> sint i" "sint i < 2 ^ 31"
    using sint_greater_eq [of i] sint_less [of i] by simp_all
  have u: "uint (scast i :: u64) = take_bit 64 (sint i)"
    using uint_word_of_int_eq [of "sint i", where 'a = 64] by simp
  have n: "uint (of_nat (devices s) :: u64) = int (devices s)"
    using assms(2) by (metis unat_of_nat_u64 uint_nat)
  have "(scast i :: u64) < of_nat (devices s) \<longleftrightarrow> take_bit 64 (sint i) < int (devices s)"
    by (simp only: word_less_def u n)
  also have "\<dots> \<longleftrightarrow> 0 \<le> sint i \<and> sint i < int (devices s)"
  proof (cases "0 \<le> sint i")
    case True
    with r(2) show ?thesis by (simp add: take_bit_int_eq_self)
  next
    case False
    with r(1) have "take_bit 64 (sint i) = sint i + 2 ^ 64"
      using mod_pos_pos_trivial [of "sint i + 2 ^ 64" "2 ^ 64"] by (simp add: take_bit_eq_mod)
    with False r(1) assms(2) show ?thesis by simp
  qed
  finally have c: "(scast i :: u64) < of_nat (devices s) \<longleftrightarrow> 0 \<le> sint i \<and> sint i < int (devices s)" .
  have "unat i = nat (sint i)" if "0 \<le> sint i"
    using that r(2) uint_sint [of i] by (simp add: take_bit_int_eq_self nat_uint_eq [symmetric])
  with c assms(1) show ?thesis by (simp add: core_fd_def)
qed

theorem core_fd_bounds_witness:
  "core_fd (sim_env False) (-1) (sim_lib ())
     = (None, libmsr_error_handler LIBMSR_ERROR_ARRAY_BOUNDS (sim_lib ()))"
  using core_fd_bounds [of "sim_lib ()" "sim_env False" "-1"] by simp

text \<open>C4: the first call of \<open>init_msr\<close> always returns, whatever the device files do, and when
  it returns 0 every processor has an open descriptor: the table is ready for every access.\<close>

theorem init_msr_opens_all:
  assumes "hw_wf (hw E)" "0 < NUM_DEVS (hw E)" "\<not> msr_inited s" "\<not> fd_init s"
  shows "\<exists>r s'. init_msr E s = Some (r, s') \<and> (r = 0 \<or> r = -1)
    \<and> (r = 0 \<longrightarrow> msr_inited s' \<and> fds_ready E (\<lambda>fd. fd \<noteq> -1) s')"
proof -
  obtain r s' where "init_msr E s = Some (r, s')" "r = 0 \<or> r = -1"
    "r = 0 \<longrightarrow> msr_inited s' \<and> table_upto E (NUM_DEVS (hw E)) s'"
    using init_msr_ok [OF assms(1,3,4)] by metis
  moreover have "NUM_DEVS (hw E) < 2 ^ 31" using assms(1) by (simp add: hw_wf_def)
  ultimately show ?thesis using table_upto_ready [OF _ assms(2)] by metis
qed

theorem init_msr_witness:
  "\<exists>r s'. init_msr (sim_env False) (lib0 sim0) = Some (r, s') \<and> (r = 0 \<or> r = -1)"
  using init_msr_opens_all [of "sim_env False" "lib0 sim0"] sim_hw_wf by (auto simp: lib0_def)

lemma close_loop_closes:
  assumes "\<forall>fd d. fst (os_close E fd d) = 0"
  shows "fds_ready E good s \<Longrightarrow> good 0 \<Longrightarrow> set js \<subseteq> {..<NUM_DEVS (hw E)} \<Longrightarrow> \<exists>s'. close_loop E js s = Some (Inr s')"
proof (induction js arbitrary: s)
  case Nil
  then show ?case by simp
next
  case (Cons i js)
  obtain d where c: "os_close E (fd_of s i) (dev s) = (0, d)"
    using assms by (metis fst_conv surj_pair)
  let ?s = "s\<lparr>dev := d, file_descriptors := (file_descriptors s)[i := Some 0]\<rparr>"
  have i: "i < NUM_DEVS (hw E)" using Cons.prems by simp
  have "fds_ready E good ?s" using Cons.prems(1,2) i by (auto simp: fds_ready_def nth_list_update)
  with Cons obtain s' where "close_loop E js ?s = Some (Inr s')" by force
  moreover have "set_fd i 0 (s\<lparr>dev := d\<rparr>) = Some ?s"
    using Cons.prems(1) i by (simp add: set_fd_def fds_ready_def)
  ultimately show ?case
    using core_fd_in [OF Cons.prems(1) i] fd_value_in [OF Cons.prems(1) i] c by (simp add: Let_def)
qed

lemma finalize_closes:
  assumes "fds_ready E good s" "good 0" "\<forall>fd d. fst (os_close E fd d) = 0"
  shows "\<exists>s'. finalize_msr E s = Some (0, s')"
  using close_loop_closes [OF assms(3,1,2), of "[0..<NUM_DEVS (hw E)]"]
  by (auto simp: finalize_msr_def atLeast0LessThan)

text \<open>C8: a library that was finalised cannot be used again.  \<open>init_msr\<close> keeps its static flag,
  so after \<open>finalize_msr\<close> it reports success without opening anything, and the next read follows a
  descriptor table that was freed.\<close>

theorem reinit_after_finalize:
  assumes "hw_wf (hw E)" "msr_inited s" "fd_init s" "devices s = NUM_DEVS (hw E)"
    and "finalize_msr E s = Some (0, s1)" "i < NUM_DEVS (hw E)"
  shows "\<exists>s2. init_msr E s1 = Some (0, s2) \<and> read_msr_by_idx E (of_nat i) a b s2 = None"
proof -
  have s1: "fd_init s1" "devices s1 = devices s" "msr_inited s1" "file_descriptors s1 = []"
    using finalize_msr_ok [OF assms(5,3)] assms(2) by auto
  obtain g where g: "find_cpu_top (hw E) (g_topo_list s1) = Some (1, g)"
    using find_cpu_top_ok [OF assms(1), of "g_topo_list s1"] by (elim exE conjE) (rule that)
  let ?s2 = "s1\<lparr>g_topo_list := g\<rparr>"
  have "init_msr E s1 = Some (0, ?s2)" using g s1(3) by (simp add: init_msr_def)
  moreover have "read_msr_by_idx E (of_nat i) a b ?s2 = None"
    using s1 assms(1,4,6) by (intro read_without_table) (simp_all add: hw_wf_def)
  ultimately show ?thesis by blast
qed

theorem reinit_witness:
  "\<exists>s1 s2. finalize_msr (sim_env False) (sim_lib ()) = Some (0, s1) \<and> init_msr (sim_env False) s1 = Some (0, s2)
     \<and> read_msr_by_idx (sim_env False) 0 0x10 0 s2 = None"
proof -
  obtain s1 where f: "finalize_msr (sim_env False) (sim_lib ()) = Some (0, s1)"
    using finalize_closes [OF sim_fds_ready [of False "()"]] by (auto simp: sim_good_def sim_env_def)
  from reinit_after_finalize [OF _ _ _ _ f, of 0 "0x10" 0] sim_hw_wf show ?thesis
    using f by auto
qed

section \<open>Module detection\<close>

text \<open>\<open>stat_module\<close> falls back from the msr-safe to the stock module only when the device file
  of the former does not exist; a device file without read and write permission is a failure in
  every case, although its own fallback branch is written for it.\<close>

theorem stat_module_outcome:
  assumes "k \<noteq> 3"
  shows "(case stat_module E f k i s of (ret, k', i', _) \<Rightarrow> (ret, k', i'))
    = (case os_stat E f (dev s) of
         None \<Rightarrow> if k = 0 then (0, 1, -1) else (-1, k, i)
       | Some (r, w) \<Rightarrow> if r \<and> w then (0, k, i) else (-1, 1, -1))"
  using assms by (auto simp: stat_module_def Let_def split: option.splits)

theorem stat_module_witness:
  "(case stat_module ((sim_env False)\<lparr>os_stat := (\<lambda>_ _. Some (False, True))\<rparr>) ''/dev/cpu/0/msr_safe'' 0 0 (sim_lib ())
    of (ret, k', i', _) \<Rightarrow> (ret, k', i')) = (-1, 1, -1)"
  using stat_module_outcome [of 0 "(sim_env False)\<lparr>os_stat := (\<lambda>_ _. Some (False, True))\<rparr>"
      "''/dev/cpu/0/msr_safe''" 0 "sim_lib ()"] by simp

section \<open>Reads and writes\<close>

lemma coord_num_inj:
  assumes "coord_ok E sk c t" "coord_ok E sk' c' t'" "coord_num E s sk c t = coord_num E s sk' c' t'"
  shows "sk = sk' \<and> c = c' \<and> t = t'"
proof (cases "discontinuous_mapping (g_topo_list s)")
  case True
  with assms show ?thesis
    using disc.idx_inj [of sk "sockets (hw E)" c "coresPerSocket (hw E)" t "threadsPerCore (hw E)" sk' c' t']
    by (simp add: coord_num_def coord_ok_def)
next
  case False
  with assms show ?thesis
    using cont.idx_inj [of sk "sockets (hw E)" c "coresPerSocket (hw E)" t "threadsPerCore (hw E)" sk' c' t']
    by (simp add: coord_num_def coord_ok_def)
qed

text \<open>C3: on open device files, a write by coordinate succeeds and changes one register of one
  logical processor: every later read, at whatever coordinate and register, returns the value
  written there and the old content everywhere else.\<close>

theorem write_read_by_coord:
  assumes "msr_files E good rg" "fds_ready E good s" "coord_ok E sk c t"
    and "inj_on (fd_of s) {..<NUM_DEVS (hw E)}"
  shows "\<exists>s'. write_msr_by_coord E (of_nat sk) (of_nat c) (of_nat t) a v s = Some (0, s')
    \<and> (\<forall>sk' c' t' a'. coord_ok E sk' c' t' \<longrightarrow>
         read_msr_by_coord E (of_nat sk') (of_nat c') (of_nat t') a' b s'
           = Some (0, if (sk', c', t', a') = (sk, c, t, a) then v
                      else rg (fd_of s (coord_num E s sk' c' t')) a' (dev s), s'))"
proof -
  have small: "NUM_DEVS (hw E) < 2 ^ 31" using assms(2) by (simp add: fds_ready_def)
  let ?n = "coord_num E s"
  let ?d = "snd (os_pwrite E (fd_of s (?n sk c t)) a v (dev s))"
  have good: "good (fd_of s (?n sk c t))" using fd_value_in [OF assms(2) coord_num_range [OF assms(3)]] by blast
  have rg: "rg fd a' ?d = (if fd = fd_of s (?n sk c t) \<and> a' = a then v else rg fd a' (dev s))" for fd a'
    using assms(1) good unfolding msr_files_def by blast
  have "write_msr_by_coord E (of_nat sk) (of_nat c) (of_nat t) a v s = Some (0, s\<lparr>dev := ?d\<rparr>)"
    using write_idx_eq [OF assms(1,2) coord_num_range [OF assms(3)]] small assms(3)
    by (simp add: write_msr_by_coord_def check_coord_ok coord_idx_num Let_def)
  moreover have "read_msr_by_coord E (of_nat sk') (of_nat c') (of_nat t') a' b (s\<lparr>dev := ?d\<rparr>)
      = Some (0, if (sk', c', t', a') = (sk, c, t, a) then v
                 else rg (fd_of s (?n sk' c' t')) a' (dev s), s\<lparr>dev := ?d\<rparr>)"
    if ok: "coord_ok E sk' c' t'" for sk' c' t' a'
  proof -
    have "fd_of s (?n sk' c' t') = fd_of s (?n sk c t) \<longleftrightarrow> (sk', c', t') = (sk, c, t)"
      using inj_onD [OF assms(4)] coord_num_range [OF ok, of s] coord_num_range [OF assms(3), of s]
        coord_num_inj [OF ok assms(3), of s] by auto
    then show ?thesis
      using by_coord.rd_ok [of E good rg "s\<lparr>dev := ?d\<rparr>" sk' c' t' a' b] assms(1,2) ok
      by (auto simp: rg)
  qed
  ultimately show ?thesis by blast
qed

theorem write_read_by_coord_witness:
  "\<exists>s'. write_msr_by_coord (sim_env False) 1 0 1 0x1A0 7 (sim_lib ()) = Some (0, s')
     \<and> read_msr_by_coord (sim_env False) 1 0 1 0x1A0 0 s' = Some (0, 7, s')
     \<and> read_msr_by_coord (sim_env False) 0 0 1 0x1A0 0 s' = Some (0, 0, s')"
proof -
  have "inj_on (fd_of (sim_lib ())) {..<NUM_DEVS (hw (sim_env False))}"
    by (auto simp: inj_on_def fd_of_def sim_lib_def numeral_eq_Suc less_Suc_eq)
  from write_read_by_coord [OF sim_msr_files sim_fds_ready _ this, of 1 0 1 "0x1A0" 7 0]
  obtain s' where w: "write_msr_by_coord (sim_env False) 1 0 1 0x1A0 7 (sim_lib ()) = Some (0, s')"
    and r: "\<And>sk c t a. coord_ok (sim_env False) sk c t \<Longrightarrow>
        read_msr_by_coord (sim_env False) (of_nat sk) (of_nat c) (of_nat t) a 0 s'
          = Some (0, if (sk, c, t, a) = (1, 0, 1, 0x1A0) then 7
                     else sim_rg (fd_of (sim_lib ()) (coord_num (sim_env False) (sim_lib ()) sk c t)) a (dev (sim_lib ())), s')"
    by (auto simp: coord_ok_def)
  show ?thesis
    using w r [of 1 0 1 "0x1A0"] r [of 0 0 1 "0x1A0"] by (auto simp: coord_ok_def sim_rg_def sim0_def)
qed

text \<open>the coordinate check does not refuse the first socket number past the end: on a machine
  numbered contiguously, socket \<open>S\<close> of \<open>S\<close> sockets, thread 0, is silently the second hardware
  thread of the same core of socket 0.\<close>

theorem socket_past_end_aliases:
  assumes "\<not> discontinuous_mapping (g_topo_list s)" "sockets (hw E) < 2 ^ 31" "c < coresPerSocket (hw E)"
    "c < 2 ^ 31" "0 < threadsPerCore (hw E)"
  shows "read_msr_by_coord E (of_nat (sockets (hw E))) (of_nat c) 0 a b s
       = read_msr_by_coord E 0 (of_nat c) 1 a b s"
proof -
  have "check_coord E (of_nat (sockets (hw E))) (of_nat c) 0 s = s" "check_coord E 0 (of_nat c) 1 s = s"
    using assms by (simp_all add: check_coord_def sockets_assert_def cores_assert_def threads_assert_def unat_of_nat_i32)
  moreover have "coord_idx E (of_nat (sockets (hw E))) (of_nat c) 0 s = coord_idx E 0 (of_nat c) 1 s"
    using assms devidx_scheme [of "sockets (hw E)" c 0] devidx_scheme [of 0 c 1]
    by (simp add: coord_idx_def cont_idx_def)
  ultimately show ?thesis by (simp add: read_msr_by_coord_def Let_def)
qed

theorem socket_past_end_witness:
  "read_msr_by_coord (sim_env False) 2 0 0 0x10 0 (sim_lib ())
     = read_msr_by_coord (sim_env False) 0 0 1 0x10 0 (sim_lib ())"
  using socket_past_end_aliases [of "sim_lib ()" "sim_env False" 0 "0x10" 0] by simp

text \<open>\<open>write_msr_by_idx_and_verify\<close> reports success exactly when the write was complete and
  the buffer of the verifying read, which starts at 0, ends up equal to the value, provided that
  read did not return 0 bytes; a read that fails with -1 is not noticed, so writing 0 is always
  reported as verified.\<close>

theorem verify_outcome:
  assumes "core_fd E i s = (Some p, s)" "fd_value p s = Some fd"
    "os_pwrite E fd a v (dev s) = (8, d)" "os_pread E fd a 0 d = (rc, t, d')"
  shows "\<exists>s'. write_msr_by_idx_and_verify E i a v s = Some ((if rc \<noteq> 0 \<and> t = v then 0 else -1), s') \<and> dev s' = d'"
  using assms by (simp add: write_msr_by_idx_and_verify_def libmsr_error_handler_def Let_def)

theorem verify_witness:
  "\<exists>s'. write_msr_by_idx_and_verify ((sim_env False)\<lparr>os_pread := (\<lambda>_ _ b d. (-1, b, d))\<rparr>) 0 0x1A0 0 (sim_lib ())
     = Some (0, s')"
proof -
  let ?E = "(sim_env False)\<lparr>os_pread := (\<lambda>_ _ b d. (-1, b, d))\<rparr>"
  have "core_fd ?E 0 (sim_lib ()) = (Some 0, sim_lib ())" by (simp add: core_fd_def)
  moreover have "fd_value 0 (sim_lib ()) = Some 10" by (simp add: fd_value_def)
  ultimately show ?thesis
    using verify_outcome [of ?E 0 "sim_lib ()" 0 10 "0x1A0" 0] by (fastforce simp: sim_env_def)
qed

end
