(* ===== verification/Msr_Batch_Props.thy ===== *)
theory Msr_Batch_Props
  imports Msr_Sim
begin

text \<open>
  What the components rely on when they load registers into a batch: the interface
  \<open>op_buffer\<close> of a bounded array of operations to which one can be added, the client's loop
  over it, and its provider \<open>create_batch_op\<close>.  Then the functional behaviour of the loaders
  and of \<open>read_batch\<close>, and what happens outside the capacity.
\<close>

section \<open>The interface\<close>

text \<open>
  \<open>add x s\<close> appends the operation \<open>x\<close> and answers its handle; \<open>view x\<close> is what of it is
  stored, and \<open>frame s\<close> the part of the state that does not belong to the array.
\<close>

locale op_buffer =
  fixes ok :: "'s \<Rightarrow> bool"
    and len :: "'s \<Rightarrow> nat"
    and cap :: "'s \<Rightarrow> nat"
    and item :: "'s \<Rightarrow> nat \<Rightarrow> 'v"
    and handle :: "'s \<Rightarrow> nat \<Rightarrow> 'c"
    and frame :: "'s \<Rightarrow> 'f"
    and view :: "'x \<Rightarrow> 'v"
    and add :: "'x \<Rightarrow> 's \<Rightarrow> (int \<times> 'c option \<times> 's) option"
  assumes add_ok: "ok s \<Longrightarrow> len s < cap s \<Longrightarrow>
      \<exists>s'. add x s = Some (0, Some (handle s (len s)), s') \<and> ok s' \<and> len s' = Suc (len s)
         \<and> cap s' = cap s \<and> frame s' = frame s \<and> handle s' = handle s
         \<and> item s' (len s) = view x \<and> (\<forall>i<len s. item s' i = item s i)"
begin

text \<open>Add one operation and store its handle in the \<open>i\<close>-th entry of an array of pointers.\<close>

definition store :: "'x \<Rightarrow> nat \<Rightarrow> 'c option list \<times> 's \<Rightarrow> ('c option list \<times> 's) option" where
  "store x i vs =
     (case vs of (val, s) \<Rightarrow>
        do {
          (_, c, s) \<leftarrow> add x s;
          (case c of None \<Rightarrow> Some (val, s) | Some p \<Rightarrow> do { val \<leftarrow> aset val i (Some p); Some (val, s) })
        })"

definition stored :: "(nat \<Rightarrow> 'x) \<Rightarrow> 'c option list \<Rightarrow> 's \<Rightarrow> nat \<Rightarrow> 'c option list \<times> 's \<Rightarrow> bool" where
  "stored x val s m vs \<longleftrightarrow>
     (case vs of (val', s') \<Rightarrow> ok s' \<and> len s' = len s + m \<and> cap s' = cap s \<and> frame s' = frame s
        \<and> handle s' = handle s \<and> length val' = length val
        \<and> (\<forall>i<m. val' ! i = Some (handle s (len s + i)) \<and> item s' (len s + i) = view (x i))
        \<and> (\<forall>i<len s. item s' i = item s i) \<and> (\<forall>i. m \<le> i \<longrightarrow> val' ! i = val ! i))"

lemma store_all:
  assumes "ok s" "len s + m \<le> cap s" "m \<le> length val"
    and body: "\<And>i val s'. i < m \<Longrightarrow> frame s' = frame s \<Longrightarrow> body i (val, s') = store (x i) i (val, s')"
  shows "\<exists>vs. foldo body [0..<m] (val, s) = Some vs \<and> stored x val s m vs"
proof (rule foldo_upt)
  show "stored x val s 0 (val, s)" using assms(1) by (simp add: stored_def)
next
  fix i vs assume i: "i < m" and st: "stored x val s i vs"
  obtain val1 s1 where vs: "vs = (val1, s1)" by fastforce
  have ok1: "ok s1" "len s1 < cap s1" "i < length val1" "frame s1 = frame s"
    and h1: "handle s1 = handle s" "len s1 = len s + i"
    using st i assms(2,3) by (auto simp: vs stored_def)
  from add_ok [OF ok1(1,2), of "x i"] obtain s2 where
    a: "add (x i) s1 = Some (0, Some (handle s (len s + i)), s2)"
    and s2: "ok s2" "len s2 = len s + Suc i" "cap s2 = cap s1" "frame s2 = frame s1" "handle s2 = handle s"
      "item s2 (len s + i) = view (x i)" "\<forall>j<len s + i. item s2 j = item s1 j"
    unfolding h1 by auto
  let ?v = "val1[i := Some (handle s (len s + i))]"
  have "body i vs = Some (?v, s2)"
    using body [OF i ok1(4)] a ok1(3) by (simp add: vs store_def)
  moreover have "stored x val s (Suc i) (?v, s2)"
    using st s2 ok1(3) by (auto simp: stored_def vs less_Suc_eq nth_list_update)
  ultimately show "\<exists>t. body i vs = Some t \<and> stored x val s (Suc i) t" by blast
qed

end

section \<open>The provider: create_batch_op\<close>

text \<open>Batch \<open>n\<close> is allocated, in block \<open>k\<close>, and holds no more operations than it has room for.\<close>

definition batch_ready :: "nat \<Rightarrow> nat \<Rightarrow> ('d, 'z) lib_scheme \<Rightarrow> bool" where
  "batch_ready n k s \<longleftrightarrow>
     \<not> batch_null s \<and> length (batch s) = arrsize s \<and> length (bsize s) = arrsize s
     \<and> n < arrsize s \<and> ops (batch s ! n) = Some k \<and> k < length (blocks s)
     \<and> (\<exists>xs. blocks s ! k = Some xs \<and> length xs = bsize s ! n) \<and> numops (batch s ! n) \<le> bsize s ! n"

definition op_at :: "nat \<Rightarrow> ('d, 'z) lib_scheme \<Rightarrow> nat \<Rightarrow> msr_batch_op" where
  "op_at k s i = the (blocks s ! k) ! i"

text \<open>What the addition of an operation leaves alone: everything but the batch arrays.\<close>

definition off_batch :: "('d, 'z) lib_scheme \<Rightarrow> ('d, 'z) lib_scheme" where
  "off_batch s = s\<lparr>batch_null := False, arrsize := 0, batch := [], bsize := [], blocks := []\<rparr>"

text \<open>The part of the batch arrays that does not belong to batch \<open>n\<close> in block \<open>k\<close>.\<close>

definition other_batches ::
  "nat \<Rightarrow> nat \<Rightarrow> ('d, 'z) lib_scheme
   \<Rightarrow> nat \<times> bool \<times> msr_batch_array list \<times> nat list \<times> msr_batch_op list option list" where
  "other_batches n k s =
     (arrsize s, batch_null s, (batch s)[n := batch_array0], bsize s, (blocks s)[k := None])"

lemma batch_storage_ready: "batch_ready n k s \<Longrightarrow> batch_storage n s = Some s"
  by (simp add: batch_storage_def batch_ready_def Let_def)

lemma create_batch_op_ready:
  assumes r: "batch_ready n k s" and lt: "numops (batch s ! n) < bsize s ! n"
  shows "\<exists>s'. create_batch_op a c n s = Some (0, Some (k, numops (batch s ! n)), s')
     \<and> batch_ready n k s' \<and> numops (batch s' ! n) = Suc (numops (batch s ! n))
     \<and> bsize s' = bsize s \<and> off_batch s' = off_batch s \<and> other_batches n k s' = other_batches n k s
     \<and> op_at k s' (numops (batch s ! n))
         = (op_at k s (numops (batch s ! n)))\<lparr>op_msr := ucast a, op_cpu := ucast c, op_isrdmsr := 1, op_err := 0\<rparr>
     \<and> (\<forall>i. i \<noteq> numops (batch s ! n) \<longrightarrow> op_at k s' i = op_at k s i)"
proof -
  let ?n = "numops (batch s ! n)"
  from r obtain xs where xs: "blocks s ! k = Some xs" "length xs = bsize s ! n"
    unfolding batch_ready_def by blast
  let ?x = "(xs ! ?n)\<lparr>op_msr := ucast a, op_cpu := ucast c, op_isrdmsr := 1, op_err := 0\<rparr>"
  let ?s = "s\<lparr>blocks := (blocks s)[k := Some (xs[?n := ?x])], batch := (batch s)[n := (batch s ! n)\<lparr>numops := ?n + 1\<rparr>]\<rparr>"
  have k: "k < length (blocks s)" "n < length (batch s)" "n < length (bsize s)" "ops (batch s ! n) = Some k"
    using r by (auto simp: batch_ready_def)
  have "the_block k s = Some xs" using k xs by (simp add: the_block_def)
  moreover have "?n < length xs" using lt xs by simp
  ultimately have "create_batch_op a c n s = Some (0, Some (k, ?n), ?s)"
    using k lt by (simp add: create_batch_op_def batch_storage_ready [OF r] set_block_def Let_def)
  moreover have "batch_ready n k ?s" using r k xs lt by (auto simp: batch_ready_def)
  moreover have "off_batch ?s = off_batch s \<and> other_batches n k ?s = other_batches n k s"
    by (simp add: off_batch_def other_batches_def)
  moreover have "op_at k ?s i = (if i = ?n then ?x else op_at k s i)" for i
    using k xs \<open>?n < length xs\<close> by (simp add: op_at_def)
  ultimately show ?thesis using k xs by (intro exI [of _ ?s]) (simp add: op_at_def)
qed

interpretation msr_ops: op_buffer "batch_ready n k" "\<lambda>s. numops (batch s ! n)" "\<lambda>s. bsize s ! n"
    "\<lambda>s i. (op_msr (op_at k s i), op_cpu (op_at k s i), op_isrdmsr (op_at k s i))" "\<lambda>s i. (k, i)"
    "\<lambda>s. (off_batch s, other_batches n k s)"
    "\<lambda>(a, c). (ucast a, ucast c, 1)" "\<lambda>(a, c). create_batch_op a c n"
  for n k
proof
  fix s :: "('a, 'b) lib_scheme" and x :: "u64 \<times> u64"
  assume r: "batch_ready n k s" "numops (batch s ! n) < bsize s ! n"
  obtain a c where x: "x = (a, c)" by fastforce
  from create_batch_op_ready [OF r, of a c] show
    "\<exists>s'. (case x of (a, c) \<Rightarrow> create_batch_op a c n) s = Some (0, Some (k, numops (batch s ! n)), s')
       \<and> batch_ready n k s' \<and> numops (batch s' ! n) = Suc (numops (batch s ! n))
       \<and> bsize s' ! n = bsize s ! n
       \<and> (off_batch s', other_batches n k s') = (off_batch s, other_batches n k s)
       \<and> (\<lambda>i. (k, i)) = (\<lambda>i. (k, i))
       \<and> (op_msr (op_at k s' (numops (batch s ! n))), op_cpu (op_at k s' (numops (batch s ! n))),
          op_isrdmsr (op_at k s' (numops (batch s ! n)))) = (case x of (a, c) \<Rightarrow> (ucast a, ucast c, 1))
       \<and> (\<forall>i<numops (batch s ! n). (op_msr (op_at k s' i), op_cpu (op_at k s' i), op_isrdmsr (op_at k s' i))
            = (op_msr (op_at k s i), op_cpu (op_at k s i), op_isrdmsr (op_at k s i)))"
    by (fastforce simp: x)
qed

lemma load_op_store: "load_op a d i n vs = msr_ops.store n (a, of_nat d) i vs"
  by (simp add: load_op_def msr_ops.store_def)

lemma off_batch_eqD:
  assumes "off_batch s' = off_batch s"
  shows "dev s' = dev s" "g_topo_list s' = g_topo_list s" "fd_init s' = fd_init s" "devices s' = devices s"
    "file_descriptors s' = file_descriptors s" "stderr s' = stderr s" "batchfd s' = batchfd s"
    "msr_inited s' = msr_inited s" "lib.more s' = lib.more s"
  using arg_cong [OF assms, of dev] arg_cong [OF assms, of g_topo_list] arg_cong [OF assms, of fd_init]
    arg_cong [OF assms, of devices] arg_cong [OF assms, of file_descriptors] arg_cong [OF assms, of stderr]
    arg_cong [OF assms, of batchfd] arg_cong [OF assms, of msr_inited] arg_cong [OF assms, of lib.more]
  by (simp_all add: off_batch_def)

section \<open>Loading registers\<close>

text \<open>\<open>find_cpu_top\<close> has written every entry of the thread map.\<close>

definition map_ready :: "'d env \<Rightarrow> ('d, 'z) lib_scheme \<Rightarrow> bool" where
  "map_ready E s \<longleftrightarrow> length (thread_map (g_topo_list s)) = NUM_DEVS (hw E)
     \<and> (\<forall>d<NUM_DEVS (hw E). thread_map (g_topo_list s) ! d \<noteq> None)"

definition hwthread_of :: "('d, 'z) lib_scheme \<Rightarrow> nat \<Rightarrow> hwthread" where
  "hwthread_of s d = the (thread_map (g_topo_list s) ! d)"

lemma first_dev_found:
  assumes "map_ready E s" "\<exists>d\<in>set ds. P (hwthread_of s d)" "set ds \<subseteq> {..<NUM_DEVS (hw E)}"
  shows "\<exists>d. first_dev P (thread_map (g_topo_list s)) ds = Some (Some d) \<and> d \<in> set ds \<and> P (hwthread_of s d)"
  using assms(2,3)
proof (induction ds)
  case Nil
  then show ?case by simp
next
  case (Cons d ds)
  from Cons.prems(2) assms(1) obtain h where "thread_map (g_topo_list s) ! d = Some h"
    "d < length (thread_map (g_topo_list s))"
    by (auto simp: map_ready_def)
  with Cons show ?case by (auto simp: hwthread_of_def)
qed

text \<open>
  One operation for every index \<open>i < m\<close>, on a processor that satisfies \<open>P i\<close>, and the
  pointers to them; \<open>loaded\<close> is what the loaders establish.
\<close>

definition loaded ::
  "'d env \<Rightarrow> (nat \<Rightarrow> hwthread \<Rightarrow> bool) \<Rightarrow> u64 \<Rightarrow> nat \<Rightarrow> nat \<Rightarrow> nat \<Rightarrow> nat \<Rightarrow> cell option list
   \<Rightarrow> ('d, 'z) lib_scheme \<Rightarrow> bool" where
  "loaded E P a n k n0 m val s \<longleftrightarrow>
     batch_ready n k s \<and> numops (batch s ! n) = n0 + m
     \<and> (\<forall>i<m. val ! i = Some (k, n0 + i)
          \<and> op_msr (op_at k s (n0 + i)) = ucast a \<and> op_isrdmsr (op_at k s (n0 + i)) = 1
          \<and> (\<exists>d<NUM_DEVS (hw E). op_cpu (op_at k s (n0 + i)) = of_nat d \<and> P i (hwthread_of s d)))"

lemma stored_loaded:
  assumes st: "msr_ops.stored n k (\<lambda>i. (a, of_nat (d i))) val s m (val', s')"
    and d: "\<And>i. i < m \<Longrightarrow> d i < NUM_DEVS (hw E) \<and> P i (hwthread_of s (d i))"
  shows "loaded E P a n k (numops (batch s ! n)) m val' s' \<and> off_batch s' = off_batch s
    \<and> other_batches n k s' = other_batches n k s
    \<and> length val' = length val \<and> bsize s' ! n = bsize s ! n \<and> (\<forall>i. m \<le> i \<longrightarrow> val' ! i = val ! i)"
proof -
  from st have s': "batch_ready n k s'" "numops (batch s' ! n) = numops (batch s ! n) + m"
    "bsize s' ! n = bsize s ! n" "off_batch s' = off_batch s" "length val' = length val"
    "other_batches n k s' = other_batches n k s"
    "\<forall>i. m \<le> i \<longrightarrow> val' ! i = val ! i"
    and it: "\<And>i. i < m \<Longrightarrow> val' ! i = Some (k, numops (batch s ! n) + i)
        \<and> op_msr (op_at k s' (numops (batch s ! n) + i)) = ucast a
        \<and> op_cpu (op_at k s' (numops (batch s ! n) + i)) = ucast (of_nat (d i) :: u64)
        \<and> op_isrdmsr (op_at k s' (numops (batch s ! n) + i)) = 1"
    by (simp_all add: msr_ops.stored_def)
  have "hwthread_of s' = hwthread_of s"
    using off_batch_eqD(2) [OF s'(4)] by (simp add: hwthread_of_def fun_eq_iff)
  moreover have "(ucast (of_nat x :: u64) :: u16) = of_nat x" for x
    by (simp add: unsigned_of_nat word_of_nat_eq_iff)
  ultimately have "loaded E P a n k (numops (batch s ! n)) m val' s'"
    using s'(1,2) it d unfolding loaded_def by metis
  with s' show ?thesis by simp
qed

lemma load_loop:
  assumes r: "batch_ready n k s" "numops (batch s ! n) + m \<le> bsize s ! n" "m \<le> length val"
    and d: "\<And>i. i < m \<Longrightarrow> d i < NUM_DEVS (hw E) \<and> P i (hwthread_of s (d i))"
    and body: "\<And>i val s'. i < m \<Longrightarrow> off_batch s' = off_batch s \<Longrightarrow> body i (val, s') = load_op a (d i) i n (val, s')"
  shows "\<exists>val' s'. foldo body [0..<m] (val, s) = Some (val', s')
    \<and> loaded E P a n k (numops (batch s ! n)) m val' s' \<and> off_batch s' = off_batch s
    \<and> other_batches n k s' = other_batches n k s
    \<and> length val' = length val \<and> bsize s' ! n = bsize s ! n \<and> (\<forall>i. m \<le> i \<longrightarrow> val' ! i = val ! i)"
proof -
  have "\<exists>vs. foldo body [0..<m] (val, s) = Some vs \<and> msr_ops.stored n k (\<lambda>i. (a, of_nat (d i))) val s m vs"
    by (rule msr_ops.store_all) (use r body in \<open>auto simp: load_op_store\<close>)
  then obtain val' s' where f: "foldo body [0..<m] (val, s) = Some (val', s')"
    and st: "msr_ops.stored n k (\<lambda>i. (a, of_nat (d i))) val s m (val', s')" by auto
  from stored_loaded [where P = P and E = E, OF st] d f show ?thesis by blast
qed

lemma load_matching_loop:
  assumes r: "batch_ready n k s" "numops (batch s ! n) + m \<le> bsize s ! n" "m \<le> length val"
    and mp: "map_ready E s" and ex: "\<And>i. i < m \<Longrightarrow> \<exists>d<NUM_DEVS (hw E). P i (hwthread_of s d)"
  shows "\<exists>val' s'. foldo (load_matching E a P n) [0..<m] (val, s) = Some (val', s')
    \<and> loaded E P a n k (numops (batch s ! n)) m val' s' \<and> off_batch s' = off_batch s
    \<and> other_batches n k s' = other_batches n k s
    \<and> length val' = length val \<and> bsize s' ! n = bsize s ! n \<and> (\<forall>i. m \<le> i \<longrightarrow> val' ! i = val ! i)"
proof -
  define Q where "Q i d \<longleftrightarrow> first_dev (P i) (thread_map (g_topo_list s)) [0..<NUM_DEVS (hw E)] = Some (Some d)
      \<and> d < NUM_DEVS (hw E) \<and> P i (hwthread_of s d)" for i d
  have "\<exists>d. Q i d" if "i < m" for i
  proof -
    from ex [OF that] have "\<exists>d\<in>set [0..<NUM_DEVS (hw E)]. P i (hwthread_of s d)" by auto
    from first_dev_found [OF mp this] show ?thesis by (auto simp: Q_def atLeast0LessThan)
  qed
  then obtain d where d: "\<And>i. i < m \<Longrightarrow> Q i (d i)" by metis
  show ?thesis
  proof (rule load_loop [OF r, where d = d])
    show "d i < NUM_DEVS (hw E) \<and> P i (hwthread_of s (d i))" if "i < m" for i
      using d [OF that] by (simp add: Q_def)
    show "load_matching E a P n i (val, s') = load_op a (d i) i n (val, s')"
      if "i < m" "off_batch s' = off_batch s" for i val s'
      using d [OF that(1)] off_batch_eqD(2) [OF that(2)] by (simp add: Q_def load_matching_def)
  qed
qed

text \<open>C5: loading a register for all logical processors adds one read operation per processor to
  the batch, in order, and points the \<open>i\<close>-th entry of the caller's array at the data of
  the \<open>i\<close>-th one; nothing outside the batch arrays changes.\<close>

theorem load_thread_batch_all:
  assumes "batch_ready n k s" "numops (batch s ! n) + NUM_DEVS (hw E) \<le> bsize s ! n"
    "NUM_DEVS (hw E) \<le> length val"
  shows "\<exists>val' s'. load_thread_batch E a (Some val) n s = Some (0, Some val', s')
    \<and> batch_ready n k s' \<and> numops (batch s' ! n) = numops (batch s ! n) + NUM_DEVS (hw E)
    \<and> off_batch s' = off_batch s
    \<and> (\<forall>i<NUM_DEVS (hw E). val' ! i = Some (k, numops (batch s ! n) + i)
         \<and> op_msr (op_at k s' (numops (batch s ! n) + i)) = ucast a
         \<and> op_cpu (op_at k s' (numops (batch s ! n) + i)) = of_nat i
         \<and> op_isrdmsr (op_at k s' (numops (batch s ! n) + i)) = 1)"
proof -
  let ?m = "NUM_DEVS (hw E)"
  have "\<exists>vs. foldo (\<lambda>i. load_op a i i n) [0..<?m] (val, s) = Some vs
      \<and> msr_ops.stored n k (\<lambda>i. (a, of_nat i)) val s ?m vs"
    by (rule msr_ops.store_all) (use assms in \<open>auto simp: load_op_store\<close>)
  moreover have "(ucast (of_nat x :: u64) :: u16) = of_nat x" for x
    by (simp add: unsigned_of_nat word_of_nat_eq_iff)
  ultimately show ?thesis by (auto simp: load_thread_batch_def msr_ops.stored_def)
qed

text \<open>loading a register once per socket picks, for every socket, a logical processor that
  belongs to it.\<close>

theorem load_socket_batch_all:
  assumes "batch_ready n k s" "numops (batch s ! n) + sockets (hw E) \<le> bsize s ! n"
    "sockets (hw E) \<le> length val" "map_ready E s"
    and "\<And>i. i < sockets (hw E) \<Longrightarrow> \<exists>d<NUM_DEVS (hw E). socket_id (hwthread_of s d) = int i"
  shows "\<exists>val' s'. load_socket_batch E a (Some val) n s = Some (0, Some val', s')
    \<and> off_batch s' = off_batch s
    \<and> loaded E (\<lambda>i h. socket_id h = int i) a n k (numops (batch s ! n)) (sockets (hw E)) val' s'"
  using load_matching_loop [OF assms(1-3,4), where P = "\<lambda>i h. socket_id h = int i" and a = a] assms(5)
  by (fastforce simp: load_socket_batch_def)

text \<open>Loading a register once per core picks, for every core of the machine, a logical
  processor that belongs to it.\<close>

theorem load_core_batch_all:
  assumes "batch_ready n k s" "numops (batch s ! n) + sockets (hw E) * coresPerSocket (hw E) \<le> bsize s ! n"
    "sockets (hw E) * coresPerSocket (hw E) \<le> length val" "map_ready E s"
    and "\<And>i. i < sockets (hw E) * coresPerSocket (hw E) \<Longrightarrow>
           \<exists>d<NUM_DEVS (hw E). core_id (hwthread_of s d) = int i"
  shows "\<exists>val' s'. load_core_batch E a (Some val) n s = Some (0, Some val', s')
    \<and> off_batch s' = off_batch s
    \<and> loaded E (\<lambda>i h. core_id h = int i) a n k (numops (batch s ! n))
          (sockets (hw E) * coresPerSocket (hw E)) val' s'"
  using load_matching_loop [OF assms(1-3,4), where P = "\<lambda>i h. core_id h = int i" and a = a] assms(5)
  by (fastforce simp: load_core_batch_def)

text \<open>C9: \<open>create_batch_op\<close> lets one operation too many through: its check is
  \<open>numops > size\<close>, so on a full batch it writes one element past the end of the array.\<close>

theorem create_batch_op_overrun:
  assumes "batch_ready n k s"
  shows "create_batch_op a c n s = None \<longleftrightarrow> numops (batch s ! n) = bsize s ! n"
proof (cases "numops (batch s ! n) = bsize s ! n")
  case True
  with assms show ?thesis
    by (auto simp: create_batch_op_def batch_storage_ready [OF assms] batch_ready_def the_block_def)
next
  case False
  with assms have "numops (batch s ! n) < bsize s ! n" by (simp add: batch_ready_def)
  from create_batch_op_ready [OF assms this, of a c] False show ?thesis by auto
qed

section \<open>Reading a batch\<close>

text \<open>
  The documented behaviour of the batch driver, for the descriptors in \<open>drv\<close>: an \<open>ioctl\<close>
  on operations that all have their read flag set stores, in the data of each, the register
  \<open>rg\<close> of its processor.  Opening the device touches no register.
\<close>

definition batch_dev :: string where
  "batch_dev = ''/dev/cpu/msr_batch''"

definition fetched :: "(int \<Rightarrow> u64 \<Rightarrow> 'd \<Rightarrow> u64) \<Rightarrow> (nat \<Rightarrow> int) \<Rightarrow> 'd \<Rightarrow> msr_batch_op \<Rightarrow> msr_batch_op" where
  "fetched rg fd d x = x\<lparr>op_msrdata := rg (fd (unat (op_cpu x))) (ucast (op_msr x)) d\<rparr>"

definition batch_driver ::
  "'d env \<Rightarrow> (int \<Rightarrow> bool) \<Rightarrow> (int \<Rightarrow> u64 \<Rightarrow> 'd \<Rightarrow> u64) \<Rightarrow> (nat \<Rightarrow> int) \<Rightarrow> bool" where
  "batch_driver E drv rg fd \<longleftrightarrow>
     (\<forall>d. (0 \<le> fst (os_open E batch_dev d) \<longrightarrow> drv (fst (os_open E batch_dev d)))
        \<and> (\<forall>f a. rg f a (snd (os_open E batch_dev d)) = rg f a d))
     \<and> (\<forall>f xs d. drv f \<longrightarrow> (\<forall>x\<in>set xs. op_isrdmsr x \<noteq> 0 \<and> unat (op_cpu x) < NUM_DEVS (hw E)) \<longrightarrow>
          os_ioctl E f xs d = (0, map (fetched rg fd d) xs, d))"

definition ops_of :: "nat \<Rightarrow> nat \<Rightarrow> ('d, 'z) lib_scheme \<Rightarrow> msr_batch_op list" where
  "ops_of n k s = take (numops (batch s ! n)) (the (blocks s ! k))"

lemma set_block_frame [simp]:
  "fds_ready E good (set_block k xs s) = fds_ready E good s" "fd_of (set_block k xs s) = fd_of s"
  "dev (set_block k xs s) = dev s" "batch (set_block k xs s) = batch s"
  "batchfd (set_block k xs s) = batchfd s" "bsize (set_block k xs s) = bsize s"
  "set_block k ys (set_block k xs s) = set_block k ys s"
  by (simp_all add: set_block_def fds_ready_def fd_of_def fun_eq_iff)

lemma the_block_set_block [simp]: "k < length (blocks s) \<Longrightarrow> the_block k (set_block k xs s) = Some xs"
  by (simp add: the_block_def set_block_def)

lemma dev_self [simp]: "s\<lparr>dev := dev s\<rparr> = s"
  by simp

lemma compatibility_read_loop:
  assumes f: "msr_files E good rg" "fds_ready E good s"
    and b: "the_block k s = Some xs" "k < length (blocks s)" "n \<le> length xs"
    and cpu: "\<And>x. x \<in> set (take n xs) \<Longrightarrow> unat (op_cpu x) < NUM_DEVS (hw E)"
  shows "foldo (compatibility_op E BATCH_READ k) [0..<n] s
    = Some (set_block k (map (fetched rg (fd_of s) (dev s)) (take n xs) @ drop n xs) s)"
proof -
  let ?f = "fetched rg (fd_of s) (dev s)"
  define st where "st i = set_block k (map ?f (take i xs) @ drop i xs) s" for i
  have "blocks s ! k = Some xs" using b(1,2) by (simp add: the_block_def)
  then have "(blocks s)[k := Some xs] = blocks s" by (metis list_update_id)
  then have s: "s = set_block k xs s" by (simp add: set_block_def)
  have "\<exists>t. foldo (compatibility_op E BATCH_READ k) [0..<n] s = Some t \<and> t = st n"
  proof (rule foldo_upt)
    show "s = st 0" using s by (simp add: st_def)
  next
    fix i t assume i: "i < n" and t: "t = st i"
    have x: "(map ?f (take i xs) @ drop i xs) ! i = xs ! i" "i < length xs" using i b(3) by (simp_all add: nth_append)
    have "xs ! i \<in> set (take n xs)" using i b(3) by (simp add: in_set_conv_nth) (rule exI [of _ i], simp)
    then have c: "unat (op_cpu (xs ! i)) < NUM_DEVS (hw E)" by (rule cpu)
    have e: "(ucast (op_cpu (xs ! i)) :: i32) = of_nat (unat (op_cpu (xs ! i)))" by simp
    have "read_msr_by_idx E (ucast (op_cpu (xs ! i))) (ucast (op_msr (xs ! i))) (op_msrdata (xs ! i)) t
        = Some (0, op_msrdata (?f (xs ! i)), t)"
      unfolding e using by_idx.rd_ok [of E good rg t "unat (op_cpu (xs ! i))"] f c
      by (simp add: t st_def fetched_def del: of_nat_unat)
    moreover have "(map ?f (take i xs) @ drop i xs)[i := ?f (xs ! i)] = map ?f (take (Suc i) xs) @ drop (Suc i) xs"
      using x(2) by (simp add: take_Suc_conv_app_nth Cons_nth_drop_Suc [symmetric] list_update_append)
    ultimately have "compatibility_op E BATCH_READ k i t = Some (st (Suc i))"
      using x b(2) by (simp add: compatibility_op_def t st_def cell_set_def fetched_def)
    then show "\<exists>t'. compatibility_op E BATCH_READ k i t = Some t' \<and> t' = st (Suc i)" by simp
  qed
  then show ?thesis by (simp add: st_def)
qed

text \<open>
  What \<open>open_batch\<close> leaves alone, and the block a successful \<open>read_batch\<close> leaves behind: the
  operations with the registers fetched, their read flags set when the driver ran them.
\<close>

lemma open_batch_if:
  "open_batch E s = (if batchfd s = 0
      then s\<lparr>dev := snd (os_open E batch_dev (dev s)),
             batchfd := (if fst (os_open E batch_dev (dev s)) < 0 then -1 else fst (os_open E batch_dev (dev s)))\<rparr>
      else s)"
  by (simp add: open_batch_def batch_dev_def split: prod.split)

lemma open_batch_frame [simp]:
  "fds_ready E good (open_batch E s) = fds_ready E good s" "fd_of (open_batch E s) = fd_of s"
  "batch_ready n k (open_batch E s) = batch_ready n k s" "blocks (open_batch E s) = blocks s"
  "batch (open_batch E s) = batch s" "bsize (open_batch E s) = bsize s"
  "the_block k (open_batch E s) = the_block k s" "g_topo_list (open_batch E s) = g_topo_list s"
  "lib.more (open_batch E s) = lib.more s"
  by (simp_all add: open_batch_if fds_ready_def fd_of_def fun_eq_iff batch_ready_def the_block_def)

lemma open_batch_regs:
  assumes "batch_driver E drv rg fd"
  shows "rg f a (dev (open_batch E s)) = rg f a (dev s)"
    and "batchfd s \<le> 0 \<or> drv (batchfd s) \<Longrightarrow> batchfd (open_batch E s) < 0 \<or> drv (batchfd (open_batch E s))"
  using assms by (auto simp: open_batch_if batch_driver_def)

definition same_ops :: "msr_batch_op list \<Rightarrow> msr_batch_op list \<Rightarrow> bool" where
  "same_ops xs ys \<longleftrightarrow> length ys = length xs
     \<and> (\<forall>i<length xs. op_cpu (ys ! i) = op_cpu (xs ! i) \<and> op_msr (ys ! i) = op_msr (xs ! i)
          \<and> op_msrdata (ys ! i) = op_msrdata (xs ! i))"

lemma same_ops_refl [simp]: "same_ops xs xs"
  by (simp add: same_ops_def)

lemma same_ops_flags: "m \<le> length xs \<Longrightarrow> same_ops xs (set_flags r m xs)"
  by (auto simp: same_ops_def set_flags_def nth_append)

lemma same_ops_cpu:
  assumes "same_ops xs ys" "m \<le> length xs" "x \<in> set (take m ys)"
  shows "\<exists>i<m. op_cpu x = op_cpu (xs ! i)"
proof -
  from assms(3) obtain i where "i < m" "i < length ys" "x = ys ! i" by (auto simp: in_set_conv_nth)
  with assms(1) show ?thesis by (auto simp: same_ops_def)
qed

definition flags_agree :: "nat \<Rightarrow> msr_batch_op list \<Rightarrow> bool" where
  "flags_agree m xs \<longleftrightarrow> (\<forall>i<m. op_isrdmsr (xs ! i) = op_isrdmsr (xs ! 0))"

text \<open>The flags \<open>do_batch_op\<close> hands to the driver, for a batch whose flags agree.\<close>

lemma flags_agreeD: "flags_agree m xs \<Longrightarrow> i < m \<Longrightarrow> op_isrdmsr (xs ! i) = op_isrdmsr (xs ! 0)"
  unfolding flags_agree_def by blast

lemma set_flags_nth:
  "m \<le> length xs \<Longrightarrow> i < m \<Longrightarrow> set_flags r m xs ! i = (xs ! i)\<lparr>op_isrdmsr := r\<rparr>"
  by (simp add: set_flags_def nth_append)

lemma flags_set:
  assumes "flags_agree m xs" "m \<le> length xs" "0 < m"
    and ys: "ys = (if w \<and> op_isrdmsr (xs ! 0) \<noteq> 0 \<or> \<not> w \<and> op_isrdmsr (xs ! 0) = 0
               then set_flags (if w then 0 else 1) m xs else xs)"
  shows "same_ops xs ys" "flags_agree m ys" "\<forall>x\<in>set (take m ys). (op_isrdmsr x = 0) = w"
proof -
  have *: "op_isrdmsr (ys ! i) = (if w then 0 else if op_isrdmsr (xs ! 0) = 0 then 1 else op_isrdmsr (xs ! 0))"
    if "i < m" for i
  proof -
    from flags_agreeD [OF assms(1) that] show ?thesis
      using assms(2) that by (cases "op_isrdmsr (xs ! 0) = 0"; cases w) (simp_all add: ys set_flags_nth)
  qed
  show "flags_agree m ys" unfolding flags_agree_def
  proof (intro allI impI)
    fix i assume "i < m"
    show "op_isrdmsr (ys ! i) = op_isrdmsr (ys ! 0)" unfolding * [OF \<open>i < m\<close>] * [OF assms(3)] ..
  qed
  show s: "same_ops xs ys" using assms(2) by (simp add: ys same_ops_flags)
  show "\<forall>x\<in>set (take m ys). (op_isrdmsr x = 0) = w"
  proof
    fix x assume "x \<in> set (take m ys)"
    then obtain i where "i < m" "x = ys ! i" by (auto simp: in_set_conv_nth)
    with * [of i] show "(op_isrdmsr x = 0) = w" by simp
  qed
qed

lemma ioctl_batch_eq:
  assumes r: "batch_ready n k s" "0 < numops (batch s ! n)" and xs: "the_block k s = Some xs"
    and ys: "ys = (if type = BATCH_WRITE \<and> op_isrdmsr (xs ! 0) \<noteq> 0 \<or> type = BATCH_READ \<and> op_isrdmsr (xs ! 0) = 0
               then set_flags (if type = BATCH_READ then 1 else 0) (numops (batch s ! n)) xs else xs)"
    and io: "os_ioctl E (batchfd s) (take (numops (batch s ! n)) ys) (dev s) = (0, zs, d)"
  shows "ioctl_batch E n type s = Some (0, set_block k (zs @ drop (numops (batch s ! n)) ys) (s\<lparr>dev := d\<rparr>))"
proof -
  have k: "n < length (batch s)" "ops (batch s ! n) = Some k" "numops (batch s ! n) \<le> length xs"
    using r(1) xs by (auto simp: batch_ready_def the_block_def)
  then have "aget xs 0 = Some (xs ! 0)" using r(2) by (intro aget_in) linarith
  with k r(2) xs io show ?thesis
    by (simp add: ioctl_batch_def batch_storage_ready [OF r(1)] Let_def flip: ys)
qed

lemma read_batch_run:
  assumes "msr_files E good rg" "fds_ready E good s" and drv: "batch_driver E drv rg (fd_of s)"
    and fd: "batchfd s \<le> 0 \<or> drv (batchfd s)"
    and r: "batch_ready n k s" "0 < numops (batch s ! n)" and xs: "the_block k s = Some xs"
    and cpu: "\<And>i. i < numops (batch s ! n) \<Longrightarrow> unat (op_cpu (xs ! i)) < NUM_DEVS (hw E)"
    and flags: "flags_agree (numops (batch s ! n)) xs"
  shows "\<exists>ys. read_batch E n s = Some (0, set_block k
        (map (fetched rg (fd_of s) (dev (open_batch E s))) (take (numops (batch s ! n)) ys)
           @ drop (numops (batch s ! n)) ys) (open_batch E s))
    \<and> same_ops xs ys \<and> flags_agree (numops (batch s ! n)) ys"
proof -
  let ?n = "numops (batch s ! n)"
  define s1 where "s1 = open_batch E s"
  have k: "k < length (blocks s)" "n < length (batch s)" "ops (batch s ! n) = Some k" and "?n \<le> length xs"
    using r(1) xs by (auto simp: batch_ready_def the_block_def)
  with r(2) have len: "?n \<le> length xs" "0 < length xs" by linarith+
  have s1: "fds_ready E good s1" "batch_ready n k s1" "the_block k s1 = Some xs" "k < length (blocks s1)"
    using assms k by (simp_all add: s1_def)
  show ?thesis
  proof (cases "batchfd s1 < 0")
    case True
    have "unat (op_cpu x) < NUM_DEVS (hw E)" if "x \<in> set (take ?n xs)" for x
      using that cpu len by (auto simp: in_set_conv_nth)
    from compatibility_read_loop [OF assms(1) s1(1,3,4) len(1) this]
    have "read_batch E n s = Some (0, set_block k (map (fetched rg (fd_of s) (dev s1)) (take ?n xs) @ drop ?n xs) s1)"
      using True k r(2) batch_storage_ready [OF s1(2)]
      by (simp add: read_batch_def do_batch_op_def compatibility_batch_def flip: s1_def) (simp add: s1_def)
    with flags show ?thesis by (auto simp: s1_def)
  next
    case False
    define ys where "ys = (if op_isrdmsr (xs ! 0) = 0 then set_flags 1 ?n xs else xs)"
    have "ys = (if False \<and> op_isrdmsr (xs ! 0) \<noteq> 0 \<or> \<not> False \<and> op_isrdmsr (xs ! 0) = 0
               then set_flags (if False then 0 else 1) ?n xs else xs)"
      unfolding ys_def by simp
    note ys = flags_set [OF flags len(1) r(2) this]
    have "unat (op_cpu x) < NUM_DEVS (hw E)" if "x \<in> set (take ?n ys)" for x
    proof -
      from same_ops_cpu [OF ys(1) len(1) that] obtain i where "i < ?n" "op_cpu x = op_cpu (xs ! i)" by blast
      with cpu show ?thesis by simp
    qed
    with ys(3) have "\<forall>x\<in>set (take ?n ys). op_isrdmsr x \<noteq> 0 \<and> unat (op_cpu x) < NUM_DEVS (hw E)" by blast
    then have io: "os_ioctl E (batchfd s1) (take ?n ys) (dev s1)
        = (0, map (fetched rg (fd_of s) (dev s1)) (take ?n ys), dev s1)"
      using drv open_batch_regs(2) [OF drv fd] False unfolding batch_driver_def s1_def by blast
    have m: "numops (batch s1 ! n) = ?n" by (simp add: s1_def)
    have "ioctl_batch E n BATCH_READ s1 = Some (0, set_block k
        (map (fetched rg (fd_of s) (dev s1)) (take ?n ys) @ drop ?n ys) (s1\<lparr>dev := dev s1\<rparr>))"
      using ioctl_batch_eq [OF s1(2) _ s1(3), of ys BATCH_READ, unfolded m, OF r(2) _ io]
      by (simp add: ys_def)
    then have "read_batch E n s = Some (0, set_block k
        (map (fetched rg (fd_of s) (dev s1)) (take ?n ys) @ drop ?n ys) s1)"
      using False by (simp add: read_batch_def do_batch_op_def flip: s1_def)
    with ys show ?thesis by (auto simp: s1_def)
  qed
qed

lemma flags_agreeI:
  assumes "\<And>x. x \<in> set (take m xs) \<Longrightarrow> op_isrdmsr x = op_isrdmsr (hd (take m xs))" "m \<le> length xs" "0 < m"
  shows "flags_agree m xs"
proof -
  have "hd (take m xs) = xs ! 0" using assms(2,3) by (cases xs) auto
  moreover have "xs ! i \<in> set (take m xs)" if "i < m" for i
    using that assms(2) by (simp add: in_set_conv_nth) (rule exI [of _ i], simp)
  ultimately show ?thesis using assms(1) unfolding flags_agree_def by metis
qed

text \<open>C1: after a successful \<open>read_batch\<close> every pointer into the batch sees the present content of
  the register of its operation, and the two ways of running it, one \<open>ioctl\<close> of the batch
  driver and the compatibility loop of single reads, give the same values.\<close>

theorem read_batch_fetches:
  assumes "msr_files E good rg" "fds_ready E good s" "batch_driver E drv rg (fd_of s)"
    and "batchfd s \<le> 0 \<or> drv (batchfd s)"
    and r: "batch_ready n k s" "0 < numops (batch s ! n)"
    and cpu: "\<And>x. x \<in> set (ops_of n k s) \<Longrightarrow> unat (op_cpu x) < NUM_DEVS (hw E)"
    and flags: "\<And>x. x \<in> set (ops_of n k s) \<Longrightarrow> op_isrdmsr x = op_isrdmsr (hd (ops_of n k s))"
  shows "\<exists>s'. read_batch E n s = Some (0, s')
    \<and> (\<forall>i<numops (batch s ! n). cell_get s' (k, i)
         = Some (rg (fd_of s (unat (op_cpu (op_at k s i)))) (ucast (op_msr (op_at k s i))) (dev s)))"
proof -
  let ?n = "numops (batch s ! n)"
  from r obtain xs where xs: "the_block k s = Some xs" "?n \<le> length xs" "k < length (blocks s)"
    and ops: "ops_of n k s = take ?n xs" and op: "\<And>i. op_at k s i = xs ! i"
    by (auto simp: batch_ready_def the_block_def ops_of_def op_at_def)
  have c: "unat (op_cpu (xs ! i)) < NUM_DEVS (hw E)" if "i < ?n" for i
    using cpu [of "xs ! i"] that xs(2) unfolding ops by (force simp: in_set_conv_nth)
  have "flags_agree ?n xs"
    by (rule flags_agreeI) (use flags xs(2) r(2) in \<open>simp_all add: ops\<close>)
  from read_batch_run [OF assms(1-6) xs(1) c this] obtain ys where
    ys: "same_ops xs ys" and rd: "read_batch E n s = Some (0, set_block k
        (map (fetched rg (fd_of s) (dev (open_batch E s))) (take ?n ys) @ drop ?n ys) (open_batch E s))" by blast
  have "cell_get (set_block k (map (fetched rg (fd_of s) (dev (open_batch E s))) (take ?n ys) @ drop ?n ys)
        (open_batch E s)) (k, i) = Some (rg (fd_of s (unat (op_cpu (xs ! i)))) (ucast (op_msr (xs ! i))) (dev s))"
    if "i < ?n" for i
    using that ys xs(2,3) open_batch_regs(1) [OF assms(3)]
    by (simp add: cell_get_def same_ops_def nth_append fetched_def)
  with rd op show ?thesis by auto
qed

section \<open>Instances\<close>

text \<open>A batch with room for four operations on the concrete machine, empty and loaded.\<close>

definition sim_empty_batch :: "'z \<Rightarrow> (sim, 'z) lib_scheme" where
  "sim_empty_batch z = (sim_lib z)\<lparr>batch_null := False, arrsize := 1,
     batch := [\<lparr>numops = 0, ops = Some 0\<rparr>], bsize := [4], blocks := [Some (replicate 4 msr_batch_op0)]\<rparr>"

definition sim_op :: "nat \<Rightarrow> msr_batch_op" where
  "sim_op i = msr_batch_op0\<lparr>op_cpu := of_nat i, op_msr := 0x10, op_isrdmsr := 1\<rparr>"

definition sim_full_batch :: "'z \<Rightarrow> (sim, 'z) lib_scheme" where
  "sim_full_batch z = (sim_lib z)\<lparr>batch_null := False, arrsize := 1,
     batch := [\<lparr>numops = 4, ops = Some 0\<rparr>], bsize := [4], blocks := [Some (map sim_op [0, 1, 2, 3])]\<rparr>"

lemma sim_batches_ready:
  "batch_ready 0 0 (sim_empty_batch z)" "batch_ready 0 0 (sim_full_batch z)"
  by (simp_all add: batch_ready_def sim_empty_batch_def sim_full_batch_def)

lemma less_4: "(i :: nat) < 4 \<longleftrightarrow> i = 0 \<or> i = 1 \<or> i = 2 \<or> i = 3"
  by auto

lemma sim_map_ready: "map_ready (sim_env b) (sim_empty_batch z)"
  by (auto simp: map_ready_def sim_empty_batch_def sim_lib_def less_4)

lemma sim_hwthread:
  "hwthread_of (sim_empty_batch z) 0 = hw_thread sim_hw 0"
  "hwthread_of (sim_empty_batch z) 1 = hw_thread sim_hw 2"
  by (simp_all add: hwthread_of_def sim_empty_batch_def sim_lib_def)

theorem load_thread_batch_witness:
  "\<exists>val' s'. load_thread_batch (sim_env False) 0x10 (Some (replicate 4 None)) 0 (sim_empty_batch ())
      = Some (0, Some val', s') \<and> val' ! 3 = Some (0, 3) \<and> op_cpu (op_at 0 s' 3) = 3"
  using load_thread_batch_all [OF sim_batches_ready(1) [where z = "()"], where E = "sim_env False"
      and val = "replicate 4 None" and a = "0x10"]
  by (auto simp: sim_empty_batch_def)

theorem load_socket_batch_witness:
  "\<exists>val' s'. load_socket_batch (sim_env False) 0x10 (Some (replicate 2 None)) 0 (sim_empty_batch ())
      = Some (0, Some val', s') \<and> val' ! 1 = Some (0, 1)"
proof -
  have "\<exists>d<4. socket_id (hwthread_of (sim_empty_batch ()) d) = int i" if "i < 2" for i
    using that sim_hwthread [of "()"]
    by (intro exI [of _ i]) (auto simp: less_2_cases_iff hw_thread_def sim_hw_def)
  then show ?thesis
    using load_socket_batch_all [OF sim_batches_ready(1) [where z = "()"] _ _ sim_map_ready [of False],
        where val = "replicate 2 None" and a = "0x10"]
    by (auto simp: sim_empty_batch_def loaded_def)
qed

theorem load_core_batch_witness:
  "\<exists>val' s'. load_core_batch (sim_env False) 0x10 (Some (replicate 2 None)) 0 (sim_empty_batch ())
      = Some (0, Some val', s') \<and> val' ! 1 = Some (0, 1)"
proof -
  have "\<exists>d<4. core_id (hwthread_of (sim_empty_batch ()) d) = int i" if "i < 2" for i
    using that sim_hwthread [of "()"]
    by (intro exI [of _ i]) (auto simp: less_2_cases_iff hw_thread_def sim_hw_def)
  then show ?thesis
    using load_core_batch_all [OF sim_batches_ready(1) [where z = "()"] _ _ sim_map_ready [of False],
        where val = "replicate 2 None" and a = "0x10"]
    by (auto simp: sim_empty_batch_def loaded_def)
qed

theorem create_batch_op_overrun_witness: "create_batch_op 0x10 0 0 (sim_full_batch ()) = None"
  using create_batch_op_overrun [OF sim_batches_ready(2), of "0x10" 0 "()"]
  by (simp add: sim_full_batch_def)

lemma sim_fd_of: "i < 4 \<Longrightarrow> fd_of (sim_lib z) i = 10 + int i"
  by (auto simp: fd_of_def sim_lib_def less_4)

lemma sim_batch_reads:
  "\<forall>x\<in>set xs. op_isrdmsr x \<noteq> 0 \<and> unat (op_cpu x) < 4 \<Longrightarrow>
     sim_batch xs d = (map (fetched sim_rg (fd_of (sim_lib z)) d) xs, d)"
  by (induction xs) (auto simp: fetched_def sim_rg_def sim_fd_of)

lemma sim_batch_driver:
  "batch_driver (sim_env b) (\<lambda>fd. 0 \<le> fd) sim_rg (fd_of (sim_lib z))"
  using sim_batch_reads [where z = z] by (auto simp: batch_driver_def sim_env_def sim_rg_def)

text \<open>The same batch through the driver and without it.\<close>

theorem read_batch_witness:
  "\<forall>b. \<exists>s'. read_batch (sim_env b) 0 (sim_full_batch ()) = Some (0, s') \<and> cell_get s' (0, 3) = Some 0"
proof
  fix b
  have fd: "fd_of (sim_full_batch ()) = fd_of (sim_lib ())"
    by (simp add: fd_of_def fun_eq_iff sim_full_batch_def)
  have "fds_ready (sim_env b) sim_good (sim_full_batch ())"
    using sim_fds_ready [of b "()"] by (simp add: fds_ready_def sim_full_batch_def)
  note * = read_batch_fetches [OF sim_msr_files this, where drv = "\<lambda>fd. 0 \<le> fd" and n = 0 and k = 0, unfolded fd,
      OF sim_batch_driver _ sim_batches_ready(2)]
  have "ops_of 0 0 (sim_full_batch ()) = map sim_op [0, 1, 2, 3]" "numops (batch (sim_full_batch ()) ! 0) = 4"
    by (simp_all add: ops_of_def sim_full_batch_def)
  with * show "\<exists>s'. read_batch (sim_env b) 0 (sim_full_batch ()) = Some (0, s') \<and> cell_get s' (0, 3) = Some 0"
    by (force simp: sim_op_def msr_batch_op0_def sim_rg_def sim_full_batch_def sim0_def)
qed

text \<open>\<open>free_batch\<close> works on entry \<open>2 * batchnum\<close> instead of \<open>batchnum\<close>: freeing a
  batch whose number lies in the upper half of the arrays reaches outside them, and freeing a
  lower one (other than batch 0) leaves it allocated.\<close>

theorem free_batch_wrong_entry:
  assumes "batch_ready n k s"
  shows "(arrsize s \<le> 2 * n \<longrightarrow> free_batch n s = None)
    \<and> (0 < n \<longrightarrow> 2 * n < arrsize s \<longrightarrow> ops (batch s ! (2 * n)) \<noteq> Some k \<longrightarrow>
        (\<exists>s'. free_batch n s = Some (0, s') \<and> batch_ready n k s'))
    \<and> (n = 0 \<longrightarrow> (\<exists>s'. free_batch n s = Some (0, s') \<and> the_block k s' = None \<and> ops (batch s' ! 0) = Some k))"
proof -
  have e: "free_batch n s = do {
         z \<leftarrow> aset (bsize s) (2 * n) 0;
         b \<leftarrow> aget (batch s) (2 * n);
         (case ops b of
            None \<Rightarrow> Some (0, s\<lparr>bsize := z\<rparr>)
          | Some k \<Rightarrow> Some (0, s\<lparr>bsize := z, blocks := (blocks s)[k := None]\<rparr>))
       }"
    by (simp add: free_batch_def batch_storage_ready [OF assms] mult_2 Let_def cong: option.case_cong)
  have "n = 0 \<longrightarrow> (\<exists>s'. free_batch n s = Some (0, s') \<and> the_block k s' = None \<and> ops (batch s' ! 0) = Some k)"
    using assms e by (auto simp: batch_ready_def the_block_def)
  moreover have "\<exists>s'. free_batch n s = Some (0, s') \<and> batch_ready n k s'"
    if "0 < n" "2 * n < arrsize s" "ops (batch s ! (2 * n)) \<noteq> Some k"
    using assms that by (cases "ops (batch s ! (2 * n))") (auto simp: e batch_ready_def nth_list_update)
  ultimately show ?thesis
    using assms by (auto simp: e batch_ready_def)
qed

theorem free_batch_witness:
  "\<exists>s'. free_batch 0 (sim_full_batch ()) = Some (0, s') \<and> the_block 0 s' = None"
  using free_batch_wrong_entry [OF sim_batches_ready(2), of "()"] by blast

end
