(* ===== verification/Platform.thy ===== *)
theory Platform
  imports Libmsr_Prelude
begin

text \<open>
  The register addresses of \<open>platform_headers/Intel3F.h\<close>, the header the build installs as
  \<open>master.h\<close> on a Haswell machine, and the batch numbers of \<open>libmsr_data_type_e\<close> in
  \<open>include/msr_core.h\<close>.
\<close>

section \<open>Registers\<close>

text \<open>The addresses are only unfolded where two of them must be told apart.\<close>

named_theorems msr_addrs \<open>addresses of the registers\<close>

definition IA32_MPERF :: u64 where [msr_addrs]: "IA32_MPERF = 0xE7"
definition IA32_APERF :: u64 where [msr_addrs]: "IA32_APERF = 0xE8"
definition IA32_TIME_STAMP_COUNTER :: u64 where [msr_addrs]: "IA32_TIME_STAMP_COUNTER = 0x10"
definition IA32_CLOCK_MODULATION :: u64 where [msr_addrs]: "IA32_CLOCK_MODULATION = 0x19A"
definition IA32_PERF_STATUS :: u64 where [msr_addrs]: "IA32_PERF_STATUS = 0x198"
definition IA32_PERF_CTL :: u64 where [msr_addrs]: "IA32_PERF_CTL = 0x199"
definition IA32_FIXED_CTR_CTRL :: u64 where [msr_addrs]: "IA32_FIXED_CTR_CTRL = 0x38D"
definition IA32_PERF_GLOBAL_CTRL :: u64 where [msr_addrs]: "IA32_PERF_GLOBAL_CTRL = 0x38F"
definition IA32_PERF_GLOBAL_OVF_CTRL :: u64 where [msr_addrs]: "IA32_PERF_GLOBAL_OVF_CTRL = 0x390"
definition IA32_FIXED_CTR0 :: u64 where [msr_addrs]: "IA32_FIXED_CTR0 = 0x309"
definition IA32_FIXED_CTR1 :: u64 where [msr_addrs]: "IA32_FIXED_CTR1 = 0x30A"
definition IA32_FIXED_CTR2 :: u64 where [msr_addrs]: "IA32_FIXED_CTR2 = 0x30B"
definition IA32_PMC0 :: u64 where [msr_addrs]: "IA32_PMC0 = 0xC1"
definition IA32_PMC1 :: u64 where [msr_addrs]: "IA32_PMC1 = 0xC2"
definition IA32_PMC2 :: u64 where [msr_addrs]: "IA32_PMC2 = 0xC3"
definition IA32_PMC3 :: u64 where [msr_addrs]: "IA32_PMC3 = 0xC4"
definition IA32_PMC4 :: u64 where [msr_addrs]: "IA32_PMC4 = 0xC5"
definition IA32_PMC5 :: u64 where [msr_addrs]: "IA32_PMC5 = 0xC6"
definition IA32_PMC6 :: u64 where [msr_addrs]: "IA32_PMC6 = 0xC7"
definition IA32_PMC7 :: u64 where [msr_addrs]: "IA32_PMC7 = 0xC8"
definition IA32_PERFEVTSEL0 :: u64 where [msr_addrs]: "IA32_PERFEVTSEL0 = 0x186"
definition IA32_PERFEVTSEL1 :: u64 where [msr_addrs]: "IA32_PERFEVTSEL1 = 0x187"
definition IA32_PERFEVTSEL2 :: u64 where [msr_addrs]: "IA32_PERFEVTSEL2 = 0x188"
definition IA32_PERFEVTSEL3 :: u64 where [msr_addrs]: "IA32_PERFEVTSEL3 = 0x189"
definition IA32_PERFEVTSEL4 :: u64 where [msr_addrs]: "IA32_PERFEVTSEL4 = 0x18A"
definition IA32_PERFEVTSEL5 :: u64 where [msr_addrs]: "IA32_PERFEVTSEL5 = 0x18B"
definition IA32_PERFEVTSEL6 :: u64 where [msr_addrs]: "IA32_PERFEVTSEL6 = 0x18C"
definition IA32_PERFEVTSEL7 :: u64 where [msr_addrs]: "IA32_PERFEVTSEL7 = 0x18D"
definition MSR_PCU_PMON_EVNTSEL0 :: u64 where [msr_addrs]: "MSR_PCU_PMON_EVNTSEL0 = 0x711"
definition MSR_PCU_PMON_EVNTSEL1 :: u64 where [msr_addrs]: "MSR_PCU_PMON_EVNTSEL1 = 0x712"
definition MSR_PCU_PMON_EVNTSEL2 :: u64 where [msr_addrs]: "MSR_PCU_PMON_EVNTSEL2 = 0x713"
definition MSR_PCU_PMON_EVNTSEL3 :: u64 where [msr_addrs]: "MSR_PCU_PMON_EVNTSEL3 = 0x714"
definition MSR_PCU_PMON_CTR0 :: u64 where [msr_addrs]: "MSR_PCU_PMON_CTR0 = 0x717"
definition MSR_PCU_PMON_CTR1 :: u64 where [msr_addrs]: "MSR_PCU_PMON_CTR1 = 0x718"
definition MSR_PCU_PMON_CTR2 :: u64 where [msr_addrs]: "MSR_PCU_PMON_CTR2 = 0x719"
definition MSR_PCU_PMON_CTR3 :: u64 where [msr_addrs]: "MSR_PCU_PMON_CTR3 = 0x71A"
definition IA32_MISC_ENABLE :: u64 where [msr_addrs]: "IA32_MISC_ENABLE = 0x1A0"
definition MSR_PKG_C2_RESIDENCY :: u64 where [msr_addrs]: "MSR_PKG_C2_RESIDENCY = 0x60D"
definition MSR_PKG_C3_RESIDENCY :: u64 where [msr_addrs]: "MSR_PKG_C3_RESIDENCY = 0x3F8"
definition MSR_PKG_C6_RESIDENCY :: u64 where [msr_addrs]: "MSR_PKG_C6_RESIDENCY = 0x3F9"
definition MSR_PKG_C7_RESIDENCY :: u64 where [msr_addrs]: "MSR_PKG_C7_RESIDENCY = 0x3FA"
definition MSR_CORE_C3_RESIDENCY :: u64 where [msr_addrs]: "MSR_CORE_C3_RESIDENCY = 0x3FC"
definition MSR_CORE_C6_RESIDENCY :: u64 where [msr_addrs]: "MSR_CORE_C6_RESIDENCY = 0x3FD"
definition MSR_CORE_C7_RESIDENCY :: u64 where [msr_addrs]: "MSR_CORE_C7_RESIDENCY = 0x3FE"
definition MSR_RAPL_POWER_UNIT :: u64 where [msr_addrs]: "MSR_RAPL_POWER_UNIT = 0x606"
definition MSR_PKG_POWER_LIMIT :: u64 where [msr_addrs]: "MSR_PKG_POWER_LIMIT = 0x610"
definition MSR_PKG_ENERGY_STATUS :: u64 where [msr_addrs]: "MSR_PKG_ENERGY_STATUS = 0x611"
definition MSR_PKG_POWER_INFO :: u64 where [msr_addrs]: "MSR_PKG_POWER_INFO = 0x614"
definition MSR_PKG_PERF_STATUS :: u64 where [msr_addrs]: "MSR_PKG_PERF_STATUS = 0x613"
definition MSR_DRAM_POWER_LIMIT :: u64 where [msr_addrs]: "MSR_DRAM_POWER_LIMIT = 0x618"
definition MSR_DRAM_ENERGY_STATUS :: u64 where [msr_addrs]: "MSR_DRAM_ENERGY_STATUS = 0x619"
definition MSR_DRAM_PERF_STATUS :: u64 where [msr_addrs]: "MSR_DRAM_PERF_STATUS = 0x61B"
definition MSR_DRAM_POWER_INFO :: u64 where [msr_addrs]: "MSR_DRAM_POWER_INFO = 0x61C"
definition IA32_THERM_STATUS :: u64 where [msr_addrs]: "IA32_THERM_STATUS = 0x19C"
definition MSR_THERM2_CTL :: u64 where [msr_addrs]: "MSR_THERM2_CTL = 0x19D"
definition IA32_THERM_INTERRUPT :: u64 where [msr_addrs]: "IA32_THERM_INTERRUPT = 0x19B"
definition IA32_PACKAGE_THERM_STATUS :: u64 where [msr_addrs]: "IA32_PACKAGE_THERM_STATUS = 0x1B1"
definition IA32_PACKAGE_THERM_INTERRUPT :: u64 where [msr_addrs]: "IA32_PACKAGE_THERM_INTERRUPT = 0x1B2"
definition MSR_TEMPERATURE_TARGET :: u64 where [msr_addrs]: "MSR_TEMPERATURE_TARGET = 0x1A2"
definition MSR_TURBO_ACTIVATION_RATIO :: u64 where [msr_addrs]: "MSR_TURBO_ACTIVATION_RATIO = 0x64C"
definition MSR_TURBO_RATIO_LIMIT :: u64 where [msr_addrs]: "MSR_TURBO_RATIO_LIMIT = 0x1AD"
definition MSR_TURBO_RATIO_LIMIT1 :: u64 where [msr_addrs]: "MSR_TURBO_RATIO_LIMIT1 = 0x1AE"

section \<open>Batch numbers\<close>

definition RAPL_DATA :: nat where "RAPL_DATA = 0"
definition RAPL_UNIT :: nat where "RAPL_UNIT = 1"
definition FIXED_COUNTERS_DATA :: nat where "FIXED_COUNTERS_DATA = 2"
definition FIXED_COUNTERS_CTR_DATA :: nat where "FIXED_COUNTERS_CTR_DATA = 3"
definition COUNTERS_DATA :: nat where "COUNTERS_DATA = 4"
definition COUNTERS_CTRL :: nat where "COUNTERS_CTRL = 5"
definition CLOCKS_DATA :: nat where "CLOCKS_DATA = 6"
definition PERF_DATA :: nat where "PERF_DATA = 7"
definition THERM_STAT :: nat where "THERM_STAT = 8"
definition THERM_INTERR :: nat where "THERM_INTERR = 9"
definition PKG_THERM_STAT :: nat where "PKG_THERM_STAT = 10"
definition PKG_THERM_INTERR :: nat where "PKG_THERM_INTERR = 11"
definition TEMP_TARGET :: nat where "TEMP_TARGET = 12"
definition PERF_CTL :: nat where "PERF_CTL = 13"
definition PKG_CRES :: nat where "PKG_CRES = 14"
definition CORE_CRES :: nat where "CORE_CRES = 15"
definition UNCORE_EVTSEL :: nat where "UNCORE_EVTSEL = 16"
definition UNCORE_COUNT :: nat where "UNCORE_COUNT = 17"

end
