(* ===== verification/Rapl_Flags.thy ===== *)
theory Rapl_Flags
  imports Complex_Main Cpuid Platform Msr_Batch
begin

text \<open>
  The state of \<open>src/msr_rapl.c\<close> and \<open>src/msr_turbo.c\<close>, the table of the RAPL registers each
  processor model has, and \<open>rapl_storage\<close>.

  A \<open>double\<close> is a real number: rounding is not modelled.  A conversion of a \<open>double\<close> to
  \<open>uint64_t\<close> outside the range of the latter has no defined result.
\<close>

section \<open>Flags\<close>

definition POWER_UNIT :: u64 where "POWER_UNIT = 0x1"
definition PKG_POWER_LIMIT :: u64 where "PKG_POWER_LIMIT = 0x2"
definition PKG_ENERGY_STATUS :: u64 where "PKG_ENERGY_STATUS = 0x4"
definition PKG_PERF_STATUS :: u64 where "PKG_PERF_STATUS = 0x8"
definition PKG_POWER_INFO :: u64 where "PKG_POWER_INFO = 0x10"
definition DRAM_POWER_LIMIT :: u64 where "DRAM_POWER_LIMIT = 0x20"
definition DRAM_ENERGY_STATUS :: u64 where "DRAM_ENERGY_STATUS = 0x40"
definition DRAM_PERF_STATUS :: u64 where "DRAM_PERF_STATUS = 0x80"
definition DRAM_POWER_INFO :: u64 where "DRAM_POWER_INFO = 0x100"
definition TURBO_ACTIVATION_RATIO :: u64 where "TURBO_ACTIVATION_RATIO = 0x200"
definition TURBO_RATIO_LIMIT :: u64 where "TURBO_RATIO_LIMIT = 0x4000"
definition TURBO_RATIO_LIMIT1 :: u64 where "TURBO_RATIO_LIMIT1 = 0x8000"

lemmas rapl_flag_defs = POWER_UNIT_def PKG_POWER_LIMIT_def PKG_ENERGY_STATUS_def PKG_PERF_STATUS_def
  PKG_POWER_INFO_def DRAM_POWER_LIMIT_def DRAM_ENERGY_STATUS_def DRAM_PERF_STATUS_def
  DRAM_POWER_INFO_def TURBO_ACTIVATION_RATIO_def TURBO_RATIO_LIMIT_def TURBO_RATIO_LIMIT1_def

text \<open>The \<open>MF_06_*\<close> table, by model number.\<close>

definition MF_06 :: "(u64 \<times> u64) list" where
  "MF_06 = [(0x37, 0x407), (0x4A, 0x407), (0x5A, 0x407), (0x4D, 0x20003), (0x4C, 0x607),
     (0x2A, 0xFE17), (0x2D, 0x7FF), (0x3A, 0xFE17), (0x3E, 0x6007F7), (0x3C, 0x1CEE17),
     (0x45, 0x1CFE17), (0x46, 0x1CFE17), (0x3F, 0x1C01FF), (0x3D, 0x1CFE17), (0x47, 0x1CFE17),
     (0x4F, 0x177), (0x56, 0x1CFE17), (0x4E, 0x1EFE17), (0x5E, 0x1EFE17), (0x55, 0x177),
     (0x57, 0x507FF)]"

section \<open>Data\<close>

record rapl_units =
  msr_rapl_power_unit :: u64
  joules :: real
  seconds :: real
  watts :: real

text \<open>
  The arrays of \<open>struct rapl_data\<close> are allocated by \<open>create_rapl_data_batch\<close>; until then the
  pointers are indeterminate, which is \<open>None\<close>.
\<close>

record rapl_data =
  now :: "int \<times> int"
  old_now :: "int \<times> int"
  elapsed :: real
  pkg_bits :: "cell option list option"
  old_pkg_bits :: "u64 list option"
  pkg_joules :: "real list option"
  old_pkg_joules :: "real list option"
  pkg_delta_joules :: "real list option"
  pkg_delta_bits :: "u64 list option"
  pkg_watts :: "real list option"
  pkg_perf_count :: "cell option list option"
  dram_bits :: "cell option list option"
  old_dram_bits :: "u64 list option"
  dram_joules :: "real list option"
  old_dram_joules :: "real list option"
  dram_delta_joules :: "real list option"
  dram_watts :: "real list option"
  dram_perf_count :: "cell option list option"

definition rapl_data0 :: rapl_data where
  "rapl_data0 = \<lparr>now = (0, 0), old_now = (0, 0), elapsed = 0, pkg_bits = None, old_pkg_bits = None,
     pkg_joules = None, old_pkg_joules = None, pkg_delta_joules = None, pkg_delta_bits = None,
     pkg_watts = None, pkg_perf_count = None, dram_bits = None, old_dram_bits = None,
     dram_joules = None, old_dram_joules = None, dram_delta_joules = None, dram_watts = None,
     dram_perf_count = None\<rparr>"

text \<open>
  The statics: \<open>rapl_ready\<close> is \<open>init\<close> of \<open>rapl_storage\<close>, whose block of flags and first
  \<open>struct rapl_data\<close> are \<open>rapl_flags\<close> and \<open>rapl\<close>; \<open>unit_val\<close> belongs to
  \<open>get_rapl_power_unit\<close>, \<open>ru\<close> to \<open>translate\<close>, \<open>read_init\<close> and \<open>delta_init\<close> to the two
  halves of \<open>poll_rapl_data\<close>, \<open>perf_ctl\<close> to \<open>turbo_storage\<close>.

  Most functions keep a static copy of the pointers \<open>rapl_storage\<close> hands out and ask for them
  only while the copy is NULL.  Once \<open>rapl_storage\<close> has handed them out it does nothing but
  hand out the same pointers, so the copies are not modelled and it is called every time.
\<close>

record 'd rapl_lib = "'d lib" +
  rapl_ready :: bool
  rapl_flags :: u64
  rapl :: rapl_data
  unit_val :: "cell option list option"
  ru :: "rapl_units list option"
  read_init :: bool
  delta_init :: bool
  perf_ctl :: "cell option list option"

section \<open>rapl_storage\<close>

text \<open>
  \<open>setflags\<close>: for an unknown model the flags keep what the block held; the caller passes a
  fresh block of \<open>malloc\<close>.
\<close>

definition setflags :: "'d env \<Rightarrow> ('d, 'z) rapl_lib_scheme \<Rightarrow> int \<times> ('d, 'z) rapl_lib_scheme" where
  "setflags E s =
     (case map_of MF_06 (cpuid_get_model E) of
        None \<Rightarrow> (-1, libmsr_error_handler LIBMSR_ERROR_PLATFORM_NOT_SUPPORTED s)
      | Some flags \<Rightarrow>
          let s = s\<lparr>rapl_flags := flags\<rparr> in
          if rapl_flags s AND POWER_UNIT = 0
          then (-1, libmsr_error_handler LIBMSR_ERROR_PLATFORM_NOT_SUPPORTED s)
          else (0, s))"

definition rapl_storage :: "'d env \<Rightarrow> ('d, 'z) rapl_lib_scheme \<Rightarrow> int \<times> ('d, 'z) rapl_lib_scheme" where
  "rapl_storage E s =
     (if \<not> rapl_ready s
      then let s = s\<lparr>rapl_ready := True, rapl := rapl_data0, rapl_flags := junk E\<rparr>;
               (r, s) = setflags E s
           in if r \<noteq> 0 then (-1, s) else (0, s)
      else (0, s))"

definition has :: "u64 \<Rightarrow> ('d, 'z) rapl_lib_scheme \<Rightarrow> bool" where
  "has flag s \<longleftrightarrow> rapl_flags s AND flag \<noteq> 0"

text \<open>\<open>print_available_rapl\<close>, with the lines it prints.\<close>

definition print_available_rapl ::
  "'d env \<Rightarrow> ('d, 'z) rapl_lib_scheme \<Rightarrow> int \<times> string list \<times> ('d, 'z) rapl_lib_scheme" where
  "print_available_rapl E s =
     (case rapl_storage E s of (r, s) \<Rightarrow>
        if r \<noteq> 0 then (-1, [], libmsr_error_handler LIBMSR_ERROR_RAPL_INIT s)
        else (0,
          (if has POWER_UNIT s then [''MSR_RAPL_POWER_UNIT, 606h''] else [])
          @ (if has PKG_POWER_LIMIT s then [''MSR_PKG_POWER_LIMIT, 610h''] else [])
          @ (if has PKG_ENERGY_STATUS s then [''MSR_PKG_ENERGY_STATUS, 611h''] else [])
          @ (if has PKG_PERF_STATUS s then [''MSR_PKG_PERF_STATUS, 613h''] else [])
          @ (if has PKG_POWER_INFO s then [''MSR_PKG_POWER_INFO, 614h''] else [])
          @ (if has DRAM_POWER_LIMIT s then [''MSR_DRAM_POWER_LIMIT, 618h''] else [])
          @ (if has DRAM_ENERGY_STATUS s then [''MSR_DRAM_ENERGY_STATUS, 619h''] else [])
          @ (if has DRAM_PERF_STATUS s then [''MSR_DRAM_PERF_STATUS, 61Bh''] else [])
          @ (if has DRAM_POWER_INFO s then [''MSR_DRAM_POWER_INFO, 61Ch''] else []), s))"

text \<open>\<open>rapl_data_batch_size\<close> counts the package energy register twice.\<close>

definition rapl_data_batch_size :: "('d, 'z) rapl_lib_scheme \<Rightarrow> nat" where
  "rapl_data_batch_size s =
     (if has PKG_PERF_STATUS s then 1 else 0) + (if has PKG_ENERGY_STATUS s then 1 else 0)
     + (if has DRAM_ENERGY_STATUS s then 1 else 0) + (if has PKG_ENERGY_STATUS s then 1 else 0)"

section \<open>Properties\<close>

lemma rapl_storage_ready: "rapl_ready s \<Longrightarrow> rapl_storage E s = (0, s)"
  by (simp add: rapl_storage_def)

text \<open>The registers whose loading the size of the batch must provide for.\<close>

definition rapl_data_loads :: "('d, 'z) rapl_lib_scheme \<Rightarrow> nat" where
  "rapl_data_loads s =
     (if has PKG_ENERGY_STATUS s then 1 else 0) + (if has PKG_PERF_STATUS s then 1 else 0)
     + (if has DRAM_ENERGY_STATUS s then 1 else 0) + (if has DRAM_PERF_STATUS s then 1 else 0)"

text \<open>on every supported processor the batch for the energy data is large enough for the
  registers that are loaded into it, although its size counts one register twice and leaves
  another out.\<close>

theorem rapl_batch_large_enough:
  assumes "(m, rapl_flags s) \<in> set MF_06"
  shows "rapl_data_loads s \<le> rapl_data_batch_size s"
  using assms by (auto simp: MF_06_def rapl_data_loads_def rapl_data_batch_size_def has_def rapl_flag_defs)

end
