(* ===== verification/Rapl_Units.thy ===== *)
theory Rapl_Units
  imports Rapl_Flags Msr_Batch_Props
begin

text \<open>
  Units: \<open>get_rapl_power_unit\<close>, which decodes the unit register of every socket, and
  \<open>translate\<close>, which converts between register fields and watts, joules and seconds.
\<close>

section \<open>get_rapl_power_unit\<close>

text \<open>\<open>(double)(1 << n)\<close>: the shift is done on an \<open>int\<close>.\<close>

definition shl1 :: "u64 \<Rightarrow> real" where
  "shl1 n = real_of_int (sint (push_bit (unat n) (1 :: i32)))"

definition decode_units :: "u64 \<Rightarrow> rapl_units" where
  "decode_units v = \<lparr>msr_rapl_power_unit = v,
     joules = shl1 (MASK_VAL v 12 8),
     seconds = shl1 (MASK_VAL v 19 16),
     watts = 1 / shl1 (MASK_VAL v 3 0)\<rparr>"

text \<open>
  One round of the consistency check: the register is read again into \<open>tmp\<close>, but what is
  compared with the units of the socket is decoded from the value the units came from.
\<close>

definition check_units ::
  "'d env \<Rightarrow> rapl_units list \<Rightarrow> nat \<Rightarrow> u64 \<times> ('d, 'z) rapl_lib_scheme \<Rightarrow> (u64 \<times> ('d, 'z) rapl_lib_scheme) option" where
  "check_units E us i ts =
     do {
       let (tmp, s) = ts;
       (_, tmp, s) \<leftarrow> read_msr_by_coord E (of_nat i) 0 0 MSR_RAPL_POWER_UNIT tmp s;
       u \<leftarrow> aget us i;
       let v = decode_units (msr_rapl_power_unit u);
       Some (tmp, if joules v \<noteq> joules u \<or> watts v \<noteq> watts u \<or> seconds v \<noteq> seconds u
                  then libmsr_error_handler LIBMSR_ERROR_RUNTIME s else s)
     }"

definition get_rapl_power_unit ::
  "'d env \<Rightarrow> ('d, 'z) rapl_lib_scheme \<Rightarrow> (rapl_units list \<times> ('d, 'z) rapl_lib_scheme) option" where
  "get_rapl_power_unit E s =
     do {
       s \<leftarrow> (if unit_val s = None
             then do {
               (_, s) \<leftarrow> allocate_batch RAPL_UNIT (sockets (hw E)) s;
               (_, val, s) \<leftarrow> load_socket_batch E MSR_RAPL_POWER_UNIT
                               (Some (replicate (sockets (hw E)) None)) RAPL_UNIT s;
               Some (s\<lparr>unit_val := val\<rparr>)
             }
             else Some s);
       (_, s) \<leftarrow> read_batch E RAPL_UNIT s;
       val \<leftarrow> unit_val s;
       us \<leftarrow> those (map (\<lambda>i. do { p \<leftarrow> ptr val i; v \<leftarrow> cell_get s p; Some (decode_units v) })
                  [0..<sockets (hw E)]);
       (_, s) \<leftarrow> foldo (check_units E us) [0..<sockets (hw E)] (0, s);
       Some (us, s)
     }"

section \<open>translate\<close>

datatype libmsr_unit_conversions_e =
    BITS_TO_WATTS | WATTS_TO_BITS | BITS_TO_JOULES | JOULES_TO_BITS | BITS_TO_SECONDS_STD
  | SECONDS_TO_BITS_STD | BITS_TO_SECONDS_HASWELL | SECONDS_TO_BITS_HASWELL | BITS_TO_JOULES_DRAM

definition STD_ENERGY_UNIT :: real where
  "STD_ENERGY_UNIT = 65536"

text \<open>\<open>(uint64_t)x\<close> and \<open>(double)b\<close>.\<close>

definition to_u64 :: "real \<Rightarrow> u64 option" where
  "to_u64 x = (if -1 < x \<and> x < 2 ^ 64 then Some (of_int (if 0 \<le> x then \<lfloor>x\<rfloor> else 0)) else None)"

definition dbl :: "u64 \<Rightarrow> real" where
  "dbl b = real (unat b)"

definition bits_to_seconds :: "rapl_units \<Rightarrow> u64 \<Rightarrow> real" where
  "bits_to_seconds u bits =
     (let timeval_y = bits AND 0x1F; timeval_z = drop_bit 5 (bits AND 0x60)
      in ((1 + 0.25 * dbl timeval_z) * 2 ^ unat timeval_y) / seconds u)"

text \<open>The logarithm of a number that is not positive cannot be converted to an integer.\<close>

definition seconds_to_bits :: "rapl_units \<Rightarrow> real \<Rightarrow> u64 option" where
  "seconds_to_bits u units =
     (if units * seconds u \<le> 0 then None
      else do {
        timeval_y \<leftarrow> to_u64 (log 2 (units * seconds u));
        let logremainder = log 2 (units * seconds u) - dbl timeval_y;
        let timeval_z = (if logremainder > 0.15 \<and> logremainder \<le> 0.45 then 1
                         else if logremainder > 0.45 \<and> logremainder \<le> 0.7 then 2
                         else if logremainder > 0.7 then 3 else 0);
        Some (timeval_y OR push_bit 5 timeval_z)
      })"

definition dram_fixed_unit :: "'d env \<Rightarrow> bool" where
  "dram_fixed_unit E \<longleftrightarrow> cpuid_get_model E \<in> {0x3F, 0x4F, 0x55}"

definition translate ::
  "'d env \<Rightarrow> u32 \<Rightarrow> u64 \<Rightarrow> real \<Rightarrow> libmsr_unit_conversions_e \<Rightarrow> ('d, 'z) rapl_lib_scheme
   \<Rightarrow> (int \<times> u64 \<times> real \<times> ('d, 'z) rapl_lib_scheme) option" where
  "translate E socket bits units type s =
     do {
       let (_, s) = sockets_assert E socket s;
       (us, s) \<leftarrow> (case ru s of
                     Some us \<Rightarrow> Some (us, s)
                   | None \<Rightarrow> do { (us, s) \<leftarrow> get_rapl_power_unit E s; Some (us, s\<lparr>ru := Some us\<rparr>) });
       let u = aget us (unat socket);
       (case type of
          BITS_TO_WATTS \<Rightarrow> do { u \<leftarrow> u; Some (0, bits, dbl bits * watts u, s) }
        | BITS_TO_JOULES_DRAM \<Rightarrow>
            if dram_fixed_unit E then Some (0, bits, dbl bits / STD_ENERGY_UNIT, s)
            else do { u \<leftarrow> u; Some (0, bits, dbl bits / joules u, s) }
        | BITS_TO_JOULES \<Rightarrow> do { u \<leftarrow> u; Some (0, bits, dbl bits / joules u, s) }
        | WATTS_TO_BITS \<Rightarrow> do { u \<leftarrow> u; b \<leftarrow> to_u64 (units / watts u); Some (0, b, units, s) }
        | JOULES_TO_BITS \<Rightarrow> do { u \<leftarrow> u; b \<leftarrow> to_u64 (units * joules u); Some (0, b, units, s) }
        | BITS_TO_SECONDS_STD \<Rightarrow> do { u \<leftarrow> u; Some (0, bits, bits_to_seconds u bits, s) }
        | SECONDS_TO_BITS_STD \<Rightarrow> do { u \<leftarrow> u; b \<leftarrow> seconds_to_bits u units; Some (0, b, units, s) }
        | _ \<Rightarrow> Some (0, -1, -1, s))
     }"

section \<open>The time window\<close>

lemma shl1_pow: "unat n < 31 \<Longrightarrow> shl1 n = 2 ^ unat n"
proof -
  assume "unat n < 31"
  then have "(2 :: nat) ^ unat n < 2 ^ 31" by (intro power_strict_increasing) simp_all
  from sint_of_nat_i32 [OF this] have "sint ((2 :: i32) ^ unat n) = 2 ^ unat n" by simp
  then show ?thesis by (simp add: shl1_def push_bit_eq_mult)
qed

lemma decode_units_pos: "0 < seconds (decode_units v)" "0 < watts (decode_units v)"
proof -
  have "unat (MASK_VAL v 19 16) < 16" "unat (MASK_VAL v 3 0) < 16"
    using MASK_VAL_bound [of 16 19 v] MASK_VAL_bound [of 0 3 v] by simp_all
  then show "0 < seconds (decode_units v)" "0 < watts (decode_units v)"
    by (simp_all add: decode_units_def shl1_pow)
qed

text \<open>The bounds the encoder uses separate the logarithms of 1, 5/4, 3/2 and 7/4.\<close>

lemma log_power_less: "0 < c \<Longrightarrow> 2 ^ a < c ^ n \<Longrightarrow> 0 < n \<Longrightarrow> real a / real n < log 2 c"
proof -
  assume c: "0 < c" "2 ^ a < c ^ n" "0 < n"
  then have "log 2 (2 ^ a) < log 2 (c ^ n)" by (subst log_less_cancel_iff) simp_all
  with c show ?thesis by (simp add: log_nat_power divide_less_eq mult.commute)
qed

lemma log_power_greater: "0 < c \<Longrightarrow> c ^ n < 2 ^ a \<Longrightarrow> 0 < n \<Longrightarrow> log 2 c < real a / real n"
proof -
  assume c: "0 < c" "c ^ n < 2 ^ a" "0 < n"
  then have "log 2 (c ^ n) < log 2 (2 ^ a)" by (subst log_less_cancel_iff) simp_all
  with c show ?thesis by (simp add: log_nat_power less_divide_eq mult.commute)
qed

lemma quarter_logs:
  "0.15 < log 2 (5 / 4)" "log 2 (5 / 4) < 0.45" "0.45 < log 2 (3 / 2)" "log 2 (3 / 2) < 0.7"
  "0.7 < log 2 (7 / 4)" "log 2 (7 / 4) < 1"
  using log_power_less [of "5 / 4" 3 20] log_power_greater [of "5 / 4" 20 9]
    log_power_less [of "3 / 2" 9 20] log_power_greater [of "3 / 2" 10 7]
    log_power_less [of "7 / 4" 7 10] log_power_greater [of "7 / 4" 1 1]
  by (simp_all add: power_divide)

lemma to_u64_floor: "real n \<le> x \<Longrightarrow> x < real n + 1 \<Longrightarrow> n < 2 ^ 63 \<Longrightarrow> to_u64 x = Some (of_nat n)"
proof -
  assume n: "real n \<le> x" "x < real n + 1" "n < 2 ^ 63"
  then have "\<lfloor>x\<rfloor> = int n" by (simp add: floor_eq_iff)
  moreover have "real n < 2 ^ 63" using n(3) by (metis of_nat_less_iff of_nat_numeral of_nat_power)
  ultimately show ?thesis using n by (simp add: to_u64_def)
qed

lemma window_parts:
  "unat b < 2 ^ 7 \<Longrightarrow> (b AND 0x1F) OR push_bit 5 (drop_bit 5 (b AND 0x60)) = (b :: u64)"
proof -
  assume "unat b < 2 ^ 7"
  then have b: "fits 7 b" by (simp add: fits_unat)
  have m: "(0x1F :: u64) = mask 5" "(0x60 :: u64) = push_bit 5 (mask 2)" by (simp_all add: mask_eq_exp_minus_1)
  show ?thesis unfolding m
    by (rule bit_word_eqI)
      (auto simp: bit_or_iff bit_and_iff bit_push_bit_iff bit_drop_bit_eq bit_mask_iff dest: fits_lt [OF b])
qed

lemma window_digit: "unat (drop_bit 5 (b AND 0x60 :: u64)) < 4"
proof -
  have m: "(0x60 :: u64) = push_bit 5 (mask 2)" by (simp add: mask_eq_exp_minus_1)
  have "fits 2 (drop_bit 5 (b AND 0x60))" unfolding m
    by (rule fitsI) (auto simp: bit_and_iff bit_push_bit_iff bit_drop_bit_eq bit_mask_iff)
  then show ?thesis by (simp add: fits_unat)
qed

lemma seconds_roundtrip:
  assumes "0 < seconds u" "unat b < 2 ^ 7"
  shows "seconds_to_bits u (bits_to_seconds u b) = Some b"
proof -
  define y where "y = unat (b AND 0x1F)"
  define z where "z = unat (drop_bit 5 (b AND 0x60))"
  define c :: real where "c = 1 + 0.25 * real z"
  have z: "z = 0 \<or> z = 1 \<or> z = 2 \<or> z = 3" using window_digit [of b] unfolding z_def by linarith
  have y: "y < 2 ^ 63"
    using word_and_le1 [of b "0x1F"] by (simp add: y_def word_le_nat_alt)
  have x: "bits_to_seconds u b * seconds u = c * 2 ^ y"
    using assms(1) by (simp add: bits_to_seconds_def c_def y_def z_def dbl_def)
  have c: "0 < c" "0 \<le> log 2 c" "log 2 c < 1"
    using z quarter_logs by (auto simp: c_def)
  have l: "log 2 (c * 2 ^ y) = log 2 c + real y" using c(1) by (simp add: log_mult)
  have "to_u64 (log 2 (c * 2 ^ y)) = Some (of_nat y)" unfolding l by (rule to_u64_floor) (use c y in auto)
  moreover have "dbl (of_nat y) = real y" by (simp add: dbl_def y_def)
  ultimately have "seconds_to_bits u (bits_to_seconds u b)
      = Some (of_nat y OR push_bit 5 (if log 2 c > 0.15 \<and> log 2 c \<le> 0.45 then 1
                         else if log 2 c > 0.45 \<and> log 2 c \<le> 0.7 then 2
                         else if log 2 c > 0.7 then 3 else 0))"
    using c(1) by (simp add: seconds_to_bits_def x l not_le)
  also have "(if log 2 c > 0.15 \<and> log 2 c \<le> 0.45 then 1 else if log 2 c > 0.45 \<and> log 2 c \<le> 0.7 then 2
      else if log 2 c > 0.7 then 3 else 0) = (of_nat z :: u64)"
    using z quarter_logs by (auto simp: c_def)
  finally show ?thesis using window_parts [OF assms(2)] by (simp add: y_def z_def)
qed

text \<open>The units of a socket are known; then \<open>translate\<close> is a pure conversion.\<close>

definition units_ready :: "'d env \<Rightarrow> u32 \<Rightarrow> rapl_units \<Rightarrow> ('d, 'z) rapl_lib_scheme \<Rightarrow> bool" where
  "units_ready E socket u s \<longleftrightarrow> unat socket < sockets (hw E)
     \<and> (\<exists>us. ru s = Some us \<and> unat socket < length us \<and> us ! unat socket = u)"

lemma sockets_assert_in: "unat socket < sockets (hw E) \<Longrightarrow> sockets_assert E socket s = (0, s)"
  by (simp add: sockets_assert_def)

lemma translate_ready:
  assumes "units_ready E socket u s"
  shows
    "translate E socket x y BITS_TO_WATTS s = Some (0, x, dbl x * watts u, s)"
    "translate E socket x y BITS_TO_JOULES s = Some (0, x, dbl x / joules u, s)"
    "translate E socket x y BITS_TO_JOULES_DRAM s
       = Some (0, x, dbl x / (if dram_fixed_unit E then STD_ENERGY_UNIT else joules u), s)"
    "translate E socket x y WATTS_TO_BITS s = map_option (\<lambda>b. (0, b, y, s)) (to_u64 (y / watts u))"
    "translate E socket x y BITS_TO_SECONDS_STD s = Some (0, x, bits_to_seconds u x, s)"
    "translate E socket x y SECONDS_TO_BITS_STD s = map_option (\<lambda>b. (0, b, y, s)) (seconds_to_bits u y)"
  using assms
  by (auto simp: units_ready_def translate_def sockets_assert_in map_option_case split: option.split)

text \<open>C13: every one of the 128 time windows a power limit can hold survives the conversion to
  seconds and back: the thresholds of the encoder's logarithm are well chosen.\<close>

theorem time_window_roundtrip:
  assumes "units_ready E socket u s" "0 < seconds u" "unat b < 2 ^ 7"
  shows "\<exists>t. translate E socket b t0 BITS_TO_SECONDS_STD s = Some (0, b, t, s)
    \<and> translate E socket b0 t SECONDS_TO_BITS_STD s = Some (0, b, t, s)"
  using seconds_roundtrip [OF assms(2,3)] by (simp add: translate_ready [OF assms(1)])

end
