(* ===== verification/Msr_Turbo.thy ===== *)
theory Msr_Turbo
  imports Rapl_Flags
begin

text \<open>
  \<open>src/msr_turbo.c\<close>: the turbo bit of IA32_PERF_CTL and the ratio registers.  The printed
  lines are left out; where a printed value comes from a register it is part of the result.
\<close>

section \<open>The turbo bit\<close>

text \<open>\<open>turbo_storage\<close> hands out an array of pointers that \<open>malloc\<close> left uninitialised.\<close>

definition turbo_storage :: "'d env \<Rightarrow> ('d, 'z) rapl_lib_scheme \<Rightarrow> cell option list \<times> ('d, 'z) rapl_lib_scheme" where
  "turbo_storage E s =
     (case perf_ctl s of
        Some val \<Rightarrow> (val, s)
      | None \<Rightarrow> (let val = replicate (NUM_DEVS (hw E)) None in (val, s\<lparr>perf_ctl := Some val\<rparr>)))"

text \<open>\<open>*val[j] = f(*val[j])\<close> for every logical processor.\<close>

definition update_all ::
  "'d env \<Rightarrow> (u64 \<Rightarrow> u64) \<Rightarrow> cell option list \<Rightarrow> ('d, 'z) lib_scheme \<Rightarrow> ('d, 'z) lib_scheme option" where
  "update_all E f val s =
     foldo (\<lambda>j s. do { p \<leftarrow> ptr val j; v \<leftarrow> cell_get s p; cell_set p (f v) s }) [0..<NUM_DEVS (hw E)] s"

definition enable_turbo :: "'d env \<Rightarrow> ('d, 'z) rapl_lib_scheme \<Rightarrow> ('d, 'z) rapl_lib_scheme option" where
  "enable_turbo E s =
     do {
       let (val, s) = turbo_storage E s;
       (_, s) \<leftarrow> read_batch E PERF_CTL s;
       s \<leftarrow> update_all E (\<lambda>v. v AND NOT (push_bit 32 1)) val s;
       (_, s) \<leftarrow> write_batch E PERF_CTL s;
       Some s
     }"

definition disable_turbo :: "'d env \<Rightarrow> ('d, 'z) rapl_lib_scheme \<Rightarrow> ('d, 'z) rapl_lib_scheme option" where
  "disable_turbo E s =
     do {
       let (val, s) = turbo_storage E s;
       (_, s) \<leftarrow> read_batch E PERF_CTL s;
       s \<leftarrow> update_all E (\<lambda>v. v OR push_bit 32 1) val s;
       (_, s) \<leftarrow> write_batch E PERF_CTL s;
       Some s
     }"

text \<open>The two masked words \<open>dump_turbo\<close> prints for every processor; \<open>val\<close> is a local.\<close>

definition dump_turbo :: "'d env \<Rightarrow> ('d, 'z) lib_scheme \<Rightarrow> ((u64 \<times> u64) list \<times> ('d, 'z) lib_scheme) option" where
  "dump_turbo E s =
     map_option (\<lambda>(out, _, s). (out, s))
       (foldo (\<lambda>core (out, val, s). do {
            (_, val, s) \<leftarrow> read_msr_by_idx E (of_nat core) IA32_MISC_ENABLE val s;
            let a = val AND push_bit 38 1;
            (_, val, s) \<leftarrow> read_msr_by_idx E (of_nat core) IA32_PERF_CTL val s;
            Some (out @ [(a, val AND push_bit 32 1)], val, s)
          }) [0..<NUM_DEVS (hw E)] ([], junk E, s))"

section \<open>Ratios\<close>

record turbo_activation_ratio_data =
  tar_bits :: u64
  max_non_turbo_ratio :: real

record turbo_limit_data =
  tld_bits :: u64
  max_1c :: real
  max_2c :: real
  max_3c :: real
  max_4c :: real
  max_5c :: real
  max_6c :: real
  max_7c :: real
  max_8c :: real

definition calc_max_non_turbo ::
  "'d env \<Rightarrow> u32 \<Rightarrow> turbo_activation_ratio_data \<Rightarrow> ('d, 'z) lib_scheme
   \<Rightarrow> turbo_activation_ratio_data \<times> ('d, 'z) lib_scheme" where
  "calc_max_non_turbo E socket info s =
     (let (_, s) = sockets_assert E socket s
      in (info\<lparr>max_non_turbo_ratio := real (unat (MASK_VAL (tar_bits info) 7 0)) * 100\<rparr>, s))"

definition get_max_turbo_activation_ratio ::
  "'d env \<Rightarrow> u32 \<Rightarrow> turbo_activation_ratio_data \<Rightarrow> ('d, 'z) rapl_lib_scheme
   \<Rightarrow> (int \<times> turbo_activation_ratio_data \<times> ('d, 'z) rapl_lib_scheme) option" where
  "get_max_turbo_activation_ratio E socket info s =
     (let (_, s) = sockets_assert E socket s;
          (r, s) = rapl_storage E s
      in if r \<noteq> 0 then Some (-1, info, s)
         else if has TURBO_ACTIVATION_RATIO s
         then do {
           (_, b, s) \<leftarrow> read_msr_by_coord E socket 0 0 MSR_TURBO_ACTIVATION_RATIO (tar_bits info) s;
           let (info, s) = calc_max_non_turbo E socket (info\<lparr>tar_bits := b\<rparr>) s;
           Some (0, info, s)
         }
         else Some (-1, info, libmsr_error_handler LIBMSR_ERROR_PLATFORM_NOT_SUPPORTED s))"

definition ratios :: "turbo_limit_data \<Rightarrow> turbo_limit_data" where
  "ratios info = info\<lparr>
     max_1c := real (unat (MASK_VAL (tld_bits info) 7 0)) * 100,
     max_2c := real (unat (MASK_VAL (tld_bits info) 15 8)) * 100,
     max_3c := real (unat (MASK_VAL (tld_bits info) 23 16)) * 100,
     max_4c := real (unat (MASK_VAL (tld_bits info) 31 24)) * 100,
     max_5c := real (unat (MASK_VAL (tld_bits info) 39 32)) * 100,
     max_6c := real (unat (MASK_VAL (tld_bits info) 47 40)) * 100,
     max_7c := real (unat (MASK_VAL (tld_bits info) 55 48)) * 100,
     max_8c := real (unat (MASK_VAL (tld_bits info) 63 56)) * 100\<rparr>"

text \<open>A NULL argument is \<open>None\<close>; the second one is only looked at when the first is NULL.\<close>

definition calc_max_turbo_ratio ::
  "'d env \<Rightarrow> u32 \<Rightarrow> turbo_limit_data option \<Rightarrow> turbo_limit_data option \<Rightarrow> ('d, 'z) lib_scheme
   \<Rightarrow> turbo_limit_data option \<times> turbo_limit_data option \<times> ('d, 'z) lib_scheme" where
  "calc_max_turbo_ratio E socket info info2 s =
     (let (_, s) = sockets_assert E socket s
      in if info \<noteq> None then (map_option ratios info, info2, s)
         else if info2 \<noteq> None then (info, map_option ratios info2, s)
         else (info, info2, s))"

definition get_turbo_ratio_limit ::
  "'d env \<Rightarrow> u32 \<Rightarrow> turbo_limit_data \<Rightarrow> turbo_limit_data \<Rightarrow> ('d, 'z) rapl_lib_scheme
   \<Rightarrow> (int \<times> turbo_limit_data \<times> turbo_limit_data \<times> ('d, 'z) rapl_lib_scheme) option" where
  "get_turbo_ratio_limit E socket info info2 s =
     (let (_, s) = sockets_assert E socket s;
          (r, s) = rapl_storage E s
      in if r \<noteq> 0 then Some (-1, info, info2, s)
         else if \<not> has TURBO_RATIO_LIMIT s
         then Some (-1, info, info2, libmsr_error_handler LIBMSR_ERROR_PLATFORM_NOT_SUPPORTED s)
         else do {
           (_, b, s) \<leftarrow> read_msr_by_coord E socket 0 0 MSR_TURBO_RATIO_LIMIT (tld_bits info) s;
           let (i1, _, s) = calc_max_turbo_ratio E socket (Some (info\<lparr>tld_bits := b\<rparr>)) None s;
           let info = the i1;
           if \<not> has TURBO_RATIO_LIMIT1 s
           then Some (-1, info, info2, libmsr_error_handler LIBMSR_ERROR_PLATFORM_NOT_SUPPORTED s)
           else do {
             (_, b, s) \<leftarrow> read_msr_by_coord E socket 0 0 MSR_TURBO_RATIO_LIMIT1 (tld_bits info2) s;
             let (_, i2, s) = calc_max_turbo_ratio E socket None (Some (info2\<lparr>tld_bits := b\<rparr>)) s;
             Some (0, info, the i2, s)
           }
         })"

section \<open>Properties\<close>

text \<open>\<open>enable_turbo\<close> and \<open>disable_turbo\<close> never work: nothing loads their batch or points
  their array at it, so on every machine they follow an uninitialised pointer.\<close>

theorem turbo_switch_undefined:
  assumes "0 < NUM_DEVS (hw E)" "perf_ctl s = None"
  shows "enable_turbo E s = None \<and> disable_turbo E s = None"
proof -
  have "update_all E f (replicate (NUM_DEVS (hw E)) None) t = None" for f and t :: "('a, 'b) rapl_lib_scheme"
    using assms(1) by (simp add: update_all_def ptr_def upt_conv_Cons)
  then show ?thesis
    using assms(2) by (auto simp: enable_turbo_def disable_turbo_def turbo_storage_def Let_def split: bind_split prod.splits)
qed

end
