(* ===== verification/Rapl_Limits.thy ===== *)
theory Rapl_Limits
  imports Rapl_Units Msr_Turbo
begin

text \<open>
  Power limits of \<open>src/msr_rapl.c\<close>: the conversion between a \<open>struct rapl_limit\<close> and its
  register fields, reading and setting the limits of the package and the memory, the power
  ranges, and the check for locked registers at initialisation.
\<close>

section \<open>Limits and their fields\<close>

record rapl_limit =
  bits :: u64
  l_watts :: real
  l_seconds :: real

definition calc_rapl_from_bits ::
  "'d env \<Rightarrow> u32 \<Rightarrow> rapl_limit \<Rightarrow> nat \<Rightarrow> ('d, 'z) rapl_lib_scheme
   \<Rightarrow> (int \<times> rapl_limit \<times> ('d, 'z) rapl_lib_scheme) option" where
  "calc_rapl_from_bits E socket limit offset s =
     do {
       let (_, s) = sockets_assert E socket s;
       let watts_bits = MASK_VAL (bits limit) (14 + offset) (0 + offset);
       let seconds_bits = MASK_VAL (bits limit) (23 + offset) (17 + offset);
       (ret, _, w, s) \<leftarrow> translate E socket watts_bits (l_watts limit) BITS_TO_WATTS s;
       let limit = limit\<lparr>l_watts := w\<rparr>;
       (ret, limit, s) \<leftarrow>
         (if offset < 32
          then do {
            (r, _, t, s) \<leftarrow> translate E socket seconds_bits (l_seconds limit) BITS_TO_SECONDS_STD s;
            Some (ret + r, limit\<lparr>l_seconds := t\<rparr>, s)
          }
          else Some (ret, limit\<lparr>l_seconds := dbl seconds_bits\<rparr>, s));
       if ret < 0 then Some (ret, limit, libmsr_error_handler LIBMSR_ERROR_RAPL_INIT s)
       else Some (0, limit, s)
     }"

text \<open>\<open>x <<= n\<close> on \<open>uint64_t\<close>; a shift of 64 or more does not occur.\<close>

definition calc_rapl_bits ::
  "'d env \<Rightarrow> u32 \<Rightarrow> rapl_limit \<Rightarrow> nat \<Rightarrow> ('d, 'z) rapl_lib_scheme
   \<Rightarrow> (int \<times> rapl_limit \<times> ('d, 'z) rapl_lib_scheme) option" where
  "calc_rapl_bits E socket limit offset s =
     do {
       let (_, s) = sockets_assert E socket s;
       let watts_bits = MASK_VAL (bits limit) (14 + offset) (0 + offset);
       let seconds_bits = MASK_VAL (bits limit) (23 + offset) (17 + offset);
       (seconds_bits, s) \<leftarrow>
         (if offset \<ge> 32 then do { b \<leftarrow> to_u64 (l_seconds limit); Some (b, s) }
          else do {
            (_, b, _, s) \<leftarrow> translate E socket seconds_bits (l_seconds limit) SECONDS_TO_BITS_STD s;
            Some (b, s)
          });
       (_, watts_bits, _, s) \<leftarrow> translate E socket watts_bits (l_watts limit) WATTS_TO_BITS s;
       if dbl watts_bits > 2 ^ 15 - 1
       then Some (-1, limit, libmsr_error_handler LIBMSR_ERROR_INVAL s)
       else Some (0, limit\<lparr>bits := bits limit OR push_bit (0 + offset) watts_bits
                                          OR push_bit (17 + offset) seconds_bits\<rparr>, s)
     }"

text \<open>One limit: from its bits when they are not zero, else from its watts and seconds.\<close>

definition calc_one ::
  "'d env \<Rightarrow> u32 \<Rightarrow> rapl_limit \<Rightarrow> nat \<Rightarrow> ('d, 'z) rapl_lib_scheme
   \<Rightarrow> (int \<times> rapl_limit \<times> ('d, 'z) rapl_lib_scheme) option" where
  "calc_one E socket limit offset s =
     (if bits limit \<noteq> 0 then calc_rapl_from_bits E socket limit offset s
      else calc_rapl_bits E socket limit offset s)"

definition calc_pkg_rapl_limit ::
  "'d env \<Rightarrow> u32 \<Rightarrow> rapl_limit option \<Rightarrow> rapl_limit option \<Rightarrow> ('d, 'z) rapl_lib_scheme
   \<Rightarrow> (int \<times> rapl_limit option \<times> rapl_limit option \<times> ('d, 'z) rapl_lib_scheme) option" where
  "calc_pkg_rapl_limit E socket limit1 limit2 s =
     do {
       let (_, s) = sockets_assert E socket s;
       (r, limit1, s) \<leftarrow> (case limit1 of None \<Rightarrow> Some (0, None, s)
          | Some l \<Rightarrow> do { (r, l, s) \<leftarrow> calc_one E socket l 0 s; Some (r, Some l, s) });
       if r \<noteq> 0 then Some (-1, limit1, limit2, s)
       else do {
         (r, limit2, s) \<leftarrow> (case limit2 of None \<Rightarrow> Some (0, None, s)
            | Some l \<Rightarrow> do { (r, l, s) \<leftarrow> calc_one E socket l 32 s; Some (r, Some l, s) });
         if r \<noteq> 0 then Some (-1, limit1, limit2, s) else Some (0, limit1, limit2, s)
       }
     }"

definition calc_std_rapl_limit ::
  "'d env \<Rightarrow> u32 \<Rightarrow> rapl_limit \<Rightarrow> ('d, 'z) rapl_lib_scheme
   \<Rightarrow> (int \<times> rapl_limit \<times> ('d, 'z) rapl_lib_scheme) option" where
  "calc_std_rapl_limit E socket limit s =
     do {
       let (_, s) = sockets_assert E socket s;
       (r, limit, s) \<leftarrow> calc_one E socket limit 0 s;
       if r \<noteq> 0 then Some (-1, limit, s) else Some (0, limit, s)
     }"

section \<open>Setting limits\<close>

definition set_pkg_rapl_limit ::
  "'d env \<Rightarrow> u32 \<Rightarrow> rapl_limit option \<Rightarrow> rapl_limit option \<Rightarrow> ('d, 'z) rapl_lib_scheme
   \<Rightarrow> (int \<times> rapl_limit option \<times> rapl_limit option \<times> ('d, 'z) rapl_lib_scheme) option" where
  "set_pkg_rapl_limit E socket limit1 limit2 s =
     (let (_, s) = sockets_assert E socket s;
          (r, s) = rapl_storage E s
      in if r \<noteq> 0 then Some (-1, limit1, limit2, s)
         else if \<not> has PKG_POWER_LIMIT s
         then Some (-1, limit1, limit2, libmsr_error_handler LIBMSR_ERROR_PLATFORM_NOT_SUPPORTED s)
         else do {
           (ret, pkg_limit, s) \<leftarrow>
             (if limit1 = None then do {
                (ret, v, s) \<leftarrow> read_msr_by_coord E socket 0 0 MSR_PKG_POWER_LIMIT 0 s;
                Some (ret, v AND 0x00000000FFFFFFFF, s)
              }
              else if limit2 = None then do {
                (ret, v, s) \<leftarrow> read_msr_by_coord E socket 0 0 MSR_PKG_POWER_LIMIT 0 s;
                Some (ret, v AND 0xFFFFFFFF00000000, s)
              }
              else Some (0, 0, s));
           (r, limit1, limit2, s) \<leftarrow> calc_pkg_rapl_limit E socket limit1 limit2 s;
           if r \<noteq> 0 then Some (-1, limit1, limit2, s)
           else
             let pkg_limit = (case limit1 of None \<Rightarrow> pkg_limit
                              | Some l \<Rightarrow> pkg_limit OR (bits l OR push_bit 15 1 OR push_bit 16 1));
                 pkg_limit = (case limit2 of None \<Rightarrow> pkg_limit
                              | Some l \<Rightarrow> pkg_limit OR (bits l OR push_bit 47 1 OR push_bit 48 1))
             in if limit1 \<noteq> None \<or> limit2 \<noteq> None
                then do {
                  (r, s) \<leftarrow> write_msr_by_coord E socket 0 0 MSR_PKG_POWER_LIMIT pkg_limit s;
                  Some (ret + r, limit1, limit2, s)
                }
                else Some (ret, limit1, limit2, s)
         })"

text \<open>The result of the write is ignored.\<close>

definition set_dram_rapl_limit ::
  "'d env \<Rightarrow> u32 \<Rightarrow> rapl_limit option \<Rightarrow> ('d, 'z) rapl_lib_scheme
   \<Rightarrow> (int \<times> rapl_limit option \<times> ('d, 'z) rapl_lib_scheme) option" where
  "set_dram_rapl_limit E socket limit s =
     (let (_, s) = sockets_assert E socket s;
          (r, s) = rapl_storage E s
      in if r \<noteq> 0 then Some (-1, limit, s)
         else if \<not> has DRAM_POWER_LIMIT s
         then Some (-1, limit, libmsr_error_handler LIBMSR_ERROR_PLATFORM_NOT_SUPPORTED s)
         else (case limit of
                 None \<Rightarrow> Some (0, None, s)
               | Some l \<Rightarrow>
                   do {
                     (r, l, s) \<leftarrow> calc_std_rapl_limit E socket l s;
                     if r \<noteq> 0 then Some (-1, Some l, s)
                     else do {
                       (_, s) \<leftarrow> write_msr_by_coord E socket 0 0 MSR_DRAM_POWER_LIMIT
                                  (bits l OR push_bit 15 1) s;
                       Some (0, Some l, s)
                     }
                   }))"

section \<open>Reading limits\<close>

text \<open>A failed read leaves the bits of the limit as they were.\<close>

definition read_limit ::
  "'d env \<Rightarrow> u32 \<Rightarrow> u64 \<Rightarrow> rapl_limit option \<Rightarrow> ('d, 'z) rapl_lib_scheme
   \<Rightarrow> (rapl_limit option \<times> ('d, 'z) rapl_lib_scheme) option" where
  "read_limit E socket a limit s =
     (case limit of None \<Rightarrow> Some (None, s)
      | Some l \<Rightarrow> do { (_, v, s) \<leftarrow> read_msr_by_coord E socket 0 0 a (bits l) s; Some (Some (l\<lparr>bits := v\<rparr>), s) })"

definition get_pkg_rapl_limit ::
  "'d env \<Rightarrow> u32 \<Rightarrow> rapl_limit option \<Rightarrow> rapl_limit option \<Rightarrow> ('d, 'z) rapl_lib_scheme
   \<Rightarrow> (int \<times> rapl_limit option \<times> rapl_limit option \<times> ('d, 'z) rapl_lib_scheme) option" where
  "get_pkg_rapl_limit E socket limit1 limit2 s =
     (let (_, s) = sockets_assert E socket s;
          (r, s) = rapl_storage E s
      in if r \<noteq> 0 then Some (-1, limit1, limit2, s)
         else if \<not> has PKG_POWER_LIMIT s
         then Some (-1, limit1, limit2, libmsr_error_handler LIBMSR_ERROR_PLATFORM_NOT_SUPPORTED s)
         else do {
           (limit1, s) \<leftarrow> read_limit E socket MSR_PKG_POWER_LIMIT limit1 s;
           (limit2, s) \<leftarrow> read_limit E socket MSR_PKG_POWER_LIMIT limit2 s;
           (_, limit1, limit2, s) \<leftarrow> calc_pkg_rapl_limit E socket limit1 limit2 s;
           Some (0, limit1, limit2, s)
         })"

definition get_dram_rapl_limit ::
  "'d env \<Rightarrow> u32 \<Rightarrow> rapl_limit option \<Rightarrow> ('d, 'z) rapl_lib_scheme
   \<Rightarrow> (int \<times> rapl_limit option \<times> ('d, 'z) rapl_lib_scheme) option" where
  "get_dram_rapl_limit E socket limit s =
     (let (_, s) = sockets_assert E socket s;
          (r, s) = rapl_storage E s
      in if r \<noteq> 0 then Some (-1, limit, s)
         else if limit \<noteq> None \<and> has DRAM_POWER_LIMIT s
         then do {
           (limit, s) \<leftarrow> read_limit E socket MSR_DRAM_POWER_LIMIT limit s;
           (_, l, s) \<leftarrow> calc_std_rapl_limit E socket (the limit) s;
           Some (0, Some l, s)
         }
         else if limit \<noteq> None
         then Some (-1, limit, libmsr_error_handler LIBMSR_ERROR_PLATFORM_NOT_SUPPORTED s)
         else Some (0, limit, s))"

section \<open>Power ranges\<close>

record rapl_power_info =
  msr_pkg_power_info :: u64
  pkg_max_power :: real
  pkg_min_power :: real
  pkg_max_window :: real
  pkg_therm_power :: real
  msr_dram_power_info :: u64
  dram_max_power :: real
  dram_min_power :: real
  dram_max_window :: real
  dram_therm_power :: real

text \<open>The four conversions of an info register: window, maximum, minimum and thermal power.\<close>

definition decode_info ::
  "'d env \<Rightarrow> u32 \<Rightarrow> u64 \<Rightarrow> ('d, 'z) rapl_lib_scheme
   \<Rightarrow> ((real \<times> real \<times> real \<times> real) \<times> ('d, 'z) rapl_lib_scheme) option" where
  "decode_info E socket v s =
     do {
       (_, _, win, s) \<leftarrow> translate E socket (MASK_VAL v 54 48) 0 BITS_TO_SECONDS_STD s;
       (_, _, hi, s) \<leftarrow> translate E socket (MASK_VAL v 46 32) 0 BITS_TO_WATTS s;
       (_, _, lo, s) \<leftarrow> translate E socket (MASK_VAL v 30 16) 0 BITS_TO_WATTS s;
       (_, _, th, s) \<leftarrow> translate E socket (MASK_VAL v 14 0) 0 BITS_TO_WATTS s;
       Some ((win, hi, lo, th), s)
     }"

definition get_rapl_power_info ::
  "'d env \<Rightarrow> u32 \<Rightarrow> rapl_power_info \<Rightarrow> ('d, 'z) rapl_lib_scheme
   \<Rightarrow> (int \<times> rapl_power_info \<times> ('d, 'z) rapl_lib_scheme) option" where
  "get_rapl_power_info E socket info s =
     (let (_, s) = sockets_assert E socket s;
          (r, s) = rapl_storage E s
      in if r \<noteq> 0 then Some (-1, info, libmsr_error_handler LIBMSR_ERROR_RAPL_INIT s)
         else do {
           (info, s) \<leftarrow>
             (if has PKG_POWER_INFO s then do {
                (_, v, s) \<leftarrow> read_msr_by_coord E socket 0 0 MSR_PKG_POWER_INFO (msr_pkg_power_info info) s;
                ((win, hi, lo, th), s) \<leftarrow> decode_info E socket v s;
                Some (info\<lparr>msr_pkg_power_info := v, pkg_max_window := win, pkg_max_power := hi,
                          pkg_min_power := lo, pkg_therm_power := th\<rparr>, s)
              } else Some (info, s));
           (info, s) \<leftarrow>
             (if has DRAM_POWER_INFO s then do {
                (_, v, s) \<leftarrow> read_msr_by_coord E socket 0 0 MSR_DRAM_POWER_INFO (msr_dram_power_info info) s;
                ((win, hi, lo, th), s) \<leftarrow> decode_info E socket v s;
                Some (info\<lparr>msr_dram_power_info := v, dram_max_window := win, dram_max_power := hi,
                          dram_min_power := lo, dram_therm_power := th\<rparr>, s)
              } else Some (info, s));
           Some (0, info, s)
         })"

section \<open>Initialisation\<close>

definition lock :: u64 where
  "lock = 0x80000000"

definition clear_flag :: "u64 \<Rightarrow> ('d, 'z) rapl_lib_scheme \<Rightarrow> ('d, 'z) rapl_lib_scheme" where
  "clear_flag f s = s\<lparr>rapl_flags := rapl_flags s AND NOT f\<rparr>"

definition check_dram_lock ::
  "'d env \<Rightarrow> nat \<Rightarrow> int \<times> rapl_limit \<times> ('d, 'z) rapl_lib_scheme
   \<Rightarrow> (int \<times> rapl_limit \<times> ('d, 'z) rapl_lib_scheme) option" where
  "check_dram_lock E i st =
     (case st of (numlocked, rl1, s) \<Rightarrow>
        if has DRAM_POWER_LIMIT s
        then do {
          (_, l, s) \<leftarrow> get_dram_rapl_limit E (of_nat i) (Some rl1) s;
          let rl1 = the l;
          if bits rl1 AND lock \<noteq> 0
          then Some (numlocked + 1, rl1, clear_flag DRAM_POWER_LIMIT s)
          else Some (numlocked, rl1, s)
        }
        else Some (numlocked, rl1, s))"

definition check_turbo_lock ::
  "'d env \<Rightarrow> nat \<Rightarrow> int \<times> turbo_activation_ratio_data \<times> ('d, 'z) rapl_lib_scheme
   \<Rightarrow> (int \<times> turbo_activation_ratio_data \<times> ('d, 'z) rapl_lib_scheme) option" where
  "check_turbo_lock E i st =
     (case st of (numlocked, tar, s) \<Rightarrow>
        if has TURBO_ACTIVATION_RATIO s
        then do {
          (_, tar, s) \<leftarrow> get_max_turbo_activation_ratio E (of_nat i) tar s;
          if tar_bits tar AND lock \<noteq> 0
          then Some (numlocked + 1, tar, clear_flag TURBO_ACTIVATION_RATIO s)
          else Some (numlocked, tar, s)
        }
        else Some (numlocked, tar, s))"

text \<open>
  One round of \<open>check_for_locks\<close>.  \<open>rl1\<close>, \<open>rl2\<close> and \<open>tar\<close> are locals of the function
  without initial values; they keep what the last round left.
\<close>

definition check_locks_socket ::
  "'d env \<Rightarrow> nat
   \<Rightarrow> int \<times> rapl_limit \<times> rapl_limit \<times> turbo_activation_ratio_data \<times> ('d, 'z) rapl_lib_scheme
   \<Rightarrow> (int \<times> rapl_limit \<times> rapl_limit \<times> turbo_activation_ratio_data \<times> ('d, 'z) rapl_lib_scheme) option" where
  "check_locks_socket E i st =
     (case st of (numlocked, rl1, rl2, tar, s) \<Rightarrow>
        do {
          (numlocked, rl1, rl2, s) \<leftarrow>
            (if has PKG_POWER_LIMIT s
             then do {
               (_, l1, l2, s) \<leftarrow> get_pkg_rapl_limit E (of_nat i) (Some rl1) (Some rl2) s;
               Some (if bits (the l1) AND push_bit 32 lock \<noteq> 0 then numlocked + 1 else numlocked,
                     the l1, the l2, s)
             }
             else Some (numlocked, rl1, rl2, s));
          let numlocked = (if bits rl2 AND lock \<noteq> 0 then numlocked + 1 else numlocked);
          let s = (if bits rl1 AND lock \<noteq> 0 \<and> bits rl2 AND lock \<noteq> 0
                   then clear_flag PKG_POWER_LIMIT s else s);
          (numlocked, rl1, s) \<leftarrow> check_dram_lock E i (numlocked, rl1, s);
          (numlocked, tar, s) \<leftarrow> check_turbo_lock E i (numlocked, tar, s);
          Some (numlocked, rl1, rl2, tar, s)
        })"

definition junk_limit :: "'d env \<Rightarrow> rapl_limit" where
  "junk_limit E = \<lparr>bits = junk E, l_watts = 0, l_seconds = 0\<rparr>"

definition check_for_locks :: "'d env \<Rightarrow> ('d, 'z) rapl_lib_scheme \<Rightarrow> (int \<times> ('d, 'z) rapl_lib_scheme) option" where
  "check_for_locks E s =
     (let (r, s) = rapl_storage E s
      in if r \<noteq> 0 then Some (-1, s)
         else do {
           (numlocked, _, _, _, s) \<leftarrow> foldo (check_locks_socket E) [0..<sockets (hw E)]
              (0, junk_limit E, junk_limit E, \<lparr>tar_bits = junk E, max_non_turbo_ratio = 0\<rparr>, s);
           Some (numlocked, s)
         })"

text \<open>The warning about a second initialisation changes nothing.\<close>

definition rapl_init :: "'d env \<Rightarrow> ('d, 'z) rapl_lib_scheme \<Rightarrow> (int \<times> ('d, 'z) rapl_lib_scheme) option" where
  "rapl_init E s =
     (case rapl_storage E s of (r, s) \<Rightarrow> if r \<noteq> 0 then Some (-1, s) else check_for_locks E s)"

section \<open>Fields of the package limit register\<close>

lemma high_half: "(0xFFFFFFFF00000000 :: u64) = push_bit 32 (mask 32)"
  by (simp add: mask_eq_exp_minus_1)

lemma low_half: "(0x00000000FFFFFFFF :: u64) = mask 32"
  by (simp add: mask_eq_exp_minus_1)

lemma lower_limit_fields:
  assumes "unat wb < 2 ^ 15" "unat tb < 2 ^ 7"
    and v: "v = (old AND 0xFFFFFFFF00000000) OR (push_bit 0 wb OR push_bit 17 tb OR push_bit 15 1 OR push_bit 16 1)"
  shows "MASK_VAL v 14 0 = wb" "MASK_VAL v 23 17 = tb" "MASK_VAL v 63 32 = MASK_VAL old 63 32" "bit v 15" "bit v 16"
proof -
  have f: "fits 15 wb" "fits 7 tb" using assms by (simp_all add: fits_unat)
  have b: "bit v i \<longleftrightarrow> (32 \<le> i \<and> bit old i) \<or> bit wb i \<or> (17 \<le> i \<and> bit tb (i - 17)) \<or> i = 15 \<or> i = 16"
    if "i < 64" for i
    using that unfolding v high_half bit_or_iff bit_and_iff bit_push_bit_iff bit_mask_iff bit_1_iff by auto
  note out = fits_bit [OF f(1)] fits_bit [OF f(2)]
  show "MASK_VAL v 14 0 = wb"
  proof (rule bit_word_eqI)
    fix i show "bit (MASK_VAL v 14 0) i = bit wb i"
      by (cases "i < 15") (auto simp: bit_MASK_VAL b out)
  qed
  show "MASK_VAL v 23 17 = tb"
  proof (rule bit_word_eqI)
    fix i show "bit (MASK_VAL v 23 17) i = bit tb i"
      by (cases "i < 7") (auto simp: bit_MASK_VAL b out)
  qed
  show "MASK_VAL v 63 32 = MASK_VAL old 63 32"
    by (rule MASK_VAL_eqI) (auto simp: b out)
  show "bit v 15" "bit v 16" by (simp_all add: b)
qed

lemma upper_limit_fields:
  assumes "unat wb < 2 ^ 15" "unat tb < 2 ^ 7"
    and v: "v = (old AND 0x00000000FFFFFFFF) OR (push_bit 32 wb OR push_bit 49 tb OR push_bit 47 1 OR push_bit 48 1)"
  shows "MASK_VAL v 46 32 = wb" "MASK_VAL v 55 49 = tb" "MASK_VAL v 31 0 = MASK_VAL old 31 0" "bit v 47" "bit v 48"
proof -
  have f: "fits 15 wb" "fits 7 tb" using assms by (simp_all add: fits_unat)
  have b: "bit v i \<longleftrightarrow> (i < 32 \<and> bit old i) \<or> (32 \<le> i \<and> bit wb (i - 32)) \<or> (49 \<le> i \<and> bit tb (i - 49)) \<or> i = 47 \<or> i = 48"
    if "i < 64" for i
    using that unfolding v low_half bit_or_iff bit_and_iff bit_push_bit_iff bit_mask_iff bit_1_iff by auto
  note out = fits_bit [OF f(1)] fits_bit [OF f(2)]
  show "MASK_VAL v 46 32 = wb"
  proof (rule bit_word_eqI)
    fix i show "bit (MASK_VAL v 46 32) i = bit wb i"
      by (cases "i < 15") (auto simp: bit_MASK_VAL b out)
  qed
  show "MASK_VAL v 55 49 = tb"
  proof (rule bit_word_eqI)
    fix i show "bit (MASK_VAL v 55 49) i = bit tb i"
      by (cases "i < 7") (auto simp: bit_MASK_VAL b out)
  qed
  show "MASK_VAL v 31 0 = MASK_VAL old 31 0"
    by (rule MASK_VAL_eqI) (auto simp: b out)
  show "bit v 47" "bit v 48" by (simp_all add: b)
qed

end
