(* ===== verification/Rapl_Data.thy ===== *)
theory Rapl_Data
  imports Rapl_Limits
begin

text \<open>
  Energy measurements of \<open>src/msr_rapl.c\<close>: \<open>read_rapl_data\<close> samples the counters of every
  socket, \<open>delta_rapl_data\<close> turns two samples into power, \<open>poll_rapl_data\<close> does both; and the
  lines the \<open>dump_*\<close> functions print.
\<close>

section \<open>Sampling\<close>

abbreviation set_rapl :: "(rapl_data \<Rightarrow> rapl_data) \<Rightarrow> ('d, 'z) rapl_lib_scheme \<Rightarrow> ('d, 'z) rapl_lib_scheme" where
  "set_rapl f s \<equiv> s\<lparr>rapl := f (rapl s)\<rparr>"

text \<open>\<open>load_socket_batch\<close> into a fresh array of pointers.\<close>

definition load_new ::
  "'d env \<Rightarrow> u64 \<Rightarrow> ('d, 'z) rapl_lib_scheme \<Rightarrow> (cell option list option \<times> ('d, 'z) rapl_lib_scheme) option" where
  "load_new E a s =
     map_option (\<lambda>(_, val, s). (val, s))
       (load_socket_batch E a (Some (replicate (sockets (hw E)) None)) RAPL_DATA s)"

definition create_rapl_data_batch :: "'d env \<Rightarrow> ('d, 'z) rapl_lib_scheme \<Rightarrow> ('d, 'z) rapl_lib_scheme option" where
  "create_rapl_data_batch E s =
     do {
       let n = sockets (hw E);
       (_, s) \<leftarrow> allocate_batch RAPL_DATA (rapl_data_batch_size s * n) s;
       s \<leftarrow> (if has PKG_ENERGY_STATUS s then do {
               let s = set_rapl (\<lambda>r. r\<lparr>pkg_joules := Some (replicate n 0), old_pkg_bits := Some (replicate n 0),
                   old_pkg_joules := Some (replicate n 0), pkg_delta_joules := Some (replicate n 0),
                   pkg_delta_bits := Some (replicate n 0), pkg_watts := Some (replicate n 0)\<rparr>) s;
               (val, s) \<leftarrow> load_new E MSR_PKG_ENERGY_STATUS s;
               Some (set_rapl (\<lambda>r. r\<lparr>pkg_bits := val\<rparr>) s)
             } else Some s);
       s \<leftarrow> (if has PKG_PERF_STATUS s then do {
               (val, s) \<leftarrow> load_new E MSR_PKG_PERF_STATUS s;
               Some (set_rapl (\<lambda>r. r\<lparr>pkg_perf_count := val\<rparr>) s)
             } else Some s);
       s \<leftarrow> (if has DRAM_ENERGY_STATUS s then do {
               let s = set_rapl (\<lambda>r. r\<lparr>old_dram_bits := Some (replicate n 0), dram_joules := Some (replicate n 0),
                   old_dram_joules := Some (replicate n 0), dram_delta_joules := Some (replicate n 0),
                   dram_watts := Some (replicate n 0)\<rparr>) s;
               (val, s) \<leftarrow> load_new E MSR_DRAM_ENERGY_STATUS s;
               Some (set_rapl (\<lambda>r. r\<lparr>dram_bits := val\<rparr>) s)
             } else Some s);
       (if has DRAM_PERF_STATUS s then do {
          (val, s) \<leftarrow> load_new E MSR_DRAM_PERF_STATUS s;
          Some (set_rapl (\<lambda>r. r\<lparr>dram_perf_count := val\<rparr>) s)
        } else Some s)
     }"

text \<open>The loop that clears the energies, for the package and the memory unconditionally.\<close>

definition zero_joules :: "nat \<Rightarrow> ('d, 'z) rapl_lib_scheme \<Rightarrow> ('d, 'z) rapl_lib_scheme option" where
  "zero_joules i s =
     do {
       a \<leftarrow> oset (pkg_joules (rapl s)) i 0;
       b \<leftarrow> oset (old_pkg_joules (rapl s)) i 0;
       c \<leftarrow> oset (dram_joules (rapl s)) i 0;
       d \<leftarrow> oset (old_dram_joules (rapl s)) i 0;
       Some (set_rapl (\<lambda>r. r\<lparr>pkg_joules := a, old_pkg_joules := b, dram_joules := c, old_dram_joules := d\<rparr>) s)
     }"

text \<open>\<open>*p[i]\<close> for one of the arrays of pointers.\<close>

definition deref :: "cell option list option \<Rightarrow> nat \<Rightarrow> ('d, 'z) lib_scheme \<Rightarrow> u64 option" where
  "deref a i s = do { val \<leftarrow> a; p \<leftarrow> ptr val i; cell_get s p }"

definition save_old :: "nat \<Rightarrow> ('d, 'z) rapl_lib_scheme \<Rightarrow> ('d, 'z) rapl_lib_scheme option" where
  "save_old i s =
     do {
       s \<leftarrow> (if has PKG_ENERGY_STATUS s then do {
               v \<leftarrow> deref (pkg_bits (rapl s)) i s;
               a \<leftarrow> oset (old_pkg_bits (rapl s)) i v;
               j \<leftarrow> oget (pkg_joules (rapl s)) i;
               b \<leftarrow> oset (old_pkg_joules (rapl s)) i j;
               Some (set_rapl (\<lambda>r. r\<lparr>old_pkg_bits := a, old_pkg_joules := b\<rparr>) s)
             } else Some s);
       let s = (if has PKG_PERF_STATUS s then libmsr_error_handler LIBMSR_ERROR_NOT_IMPLEMENTED_YET s else s);
       s \<leftarrow> (if has DRAM_ENERGY_STATUS s then do {
               v \<leftarrow> deref (dram_bits (rapl s)) i s;
               a \<leftarrow> oset (old_dram_bits (rapl s)) i v;
               j \<leftarrow> oget (dram_joules (rapl s)) i;
               b \<leftarrow> oset (old_dram_joules (rapl s)) i j;
               Some (set_rapl (\<lambda>r. r\<lparr>old_dram_bits := a, old_dram_joules := b\<rparr>) s)
             } else Some s);
       Some (if has DRAM_PERF_STATUS s then libmsr_error_handler LIBMSR_ERROR_NOT_IMPLEMENTED_YET s else s)
     }"

definition convert_joules :: "'d env \<Rightarrow> nat \<Rightarrow> ('d, 'z) rapl_lib_scheme \<Rightarrow> ('d, 'z) rapl_lib_scheme option" where
  "convert_joules E i s =
     do {
       s \<leftarrow> (if has DRAM_ENERGY_STATUS s then do {
               v \<leftarrow> deref (dram_bits (rapl s)) i s;
               j \<leftarrow> oget (dram_joules (rapl s)) i;
               (_, _, j, s) \<leftarrow> translate E (of_nat i) v j BITS_TO_JOULES_DRAM s;
               a \<leftarrow> oset (dram_joules (rapl s)) i j;
               Some (set_rapl (\<lambda>r. r\<lparr>dram_joules := a\<rparr>) s)
             } else Some s);
       (if has PKG_ENERGY_STATUS s then do {
          v \<leftarrow> deref (pkg_bits (rapl s)) i s;
          j \<leftarrow> oget (pkg_joules (rapl s)) i;
          (_, _, j, s) \<leftarrow> translate E (of_nat i) v j BITS_TO_JOULES s;
          a \<leftarrow> oset (pkg_joules (rapl s)) i j;
          Some (set_rapl (\<lambda>r. r\<lparr>pkg_joules := a\<rparr>) s)
        } else Some s)
     }"

definition stamp :: "'d env \<Rightarrow> ('d, 'z) rapl_lib_scheme \<Rightarrow> ('d, 'z) rapl_lib_scheme" where
  "stamp E s =
     (case os_time E (dev s) of (sec, usec, d) \<Rightarrow>
        set_rapl (\<lambda>r. r\<lparr>old_now := now r, now := (sec, usec)\<rparr>) (s\<lparr>dev := d\<rparr>))"

definition measure_elapsed :: "('d, 'z) rapl_lib_scheme \<Rightarrow> ('d, 'z) rapl_lib_scheme" where
  "measure_elapsed s =
     (let r = rapl s;
          e = of_int (fst (now r) - fst (old_now r)) + of_int (snd (now r) - snd (old_now r)) / 1000000;
          s = set_rapl (\<lambda>r. r\<lparr>elapsed := e\<rparr>) s
      in if e < 0 then libmsr_error_handler LIBMSR_ERROR_INVAL s else s)"

definition read_rapl_data :: "'d env \<Rightarrow> ('d, 'z) rapl_lib_scheme \<Rightarrow> (int \<times> ('d, 'z) rapl_lib_scheme) option" where
  "read_rapl_data E s =
     (let (ret, s) = (if read_init s then (0, s) else rapl_storage E s)
      in if ret \<noteq> 0 then Some (-1, s)
         else do {
           let init = read_init s;
           s \<leftarrow> (if init then Some s
                 else do {
                   s \<leftarrow> create_rapl_data_batch E s;
                   let s = set_rapl (\<lambda>r. r\<lparr>now := (0, 0), old_now := (0, 0), elapsed := 0\<rparr>) s;
                   foldo zero_joules [0..<sockets (hw E)] s
                 });
           let s = stamp E s;
           s \<leftarrow> (if init then foldo save_old [0..<sockets (hw E)] (measure_elapsed s) else Some s);
           (_, s) \<leftarrow> read_batch E RAPL_DATA s;
           s \<leftarrow> foldo (convert_joules E) [0..<sockets (hw E)] s;
           Some (0, s\<lparr>read_init := True\<rparr>)
         })"

section \<open>Differences\<close>

definition UINT_MAX :: nat where
  "UINT_MAX = 2 ^ 32 - 1"

text \<open>
  The energy of the package since the last sample: the wrap-around of the 32-bit counter is
  corrected on its bits.
\<close>

definition delta_pkg :: "'d env \<Rightarrow> nat \<Rightarrow> ('d, 'z) rapl_lib_scheme \<Rightarrow> ('d, 'z) rapl_lib_scheme option" where
  "delta_pkg E i s =
     do {
       v \<leftarrow> deref (pkg_bits (rapl s)) i s;
       old \<leftarrow> oget (old_pkg_bits (rapl s)) i;
       s \<leftarrow> (if dbl v - dbl old < 0 then do {
               let b = v + of_nat UINT_MAX - old;
               a \<leftarrow> oset (pkg_delta_bits (rapl s)) i b;
               j \<leftarrow> oget (pkg_delta_joules (rapl s)) i;
               (_, _, j, s) \<leftarrow> translate E (of_nat i) b j BITS_TO_JOULES s;
               c \<leftarrow> oset (pkg_delta_joules (rapl s)) i j;
               Some (set_rapl (\<lambda>r. r\<lparr>pkg_delta_bits := a, pkg_delta_joules := c\<rparr>) s)
             }
             else do {
               j \<leftarrow> oget (pkg_joules (rapl s)) i;
               o' \<leftarrow> oget (old_pkg_joules (rapl s)) i;
               c \<leftarrow> oset (pkg_delta_joules (rapl s)) i (j - o');
               Some (set_rapl (\<lambda>r. r\<lparr>pkg_delta_joules := c\<rparr>) s)
             });
       j \<leftarrow> oget (pkg_delta_joules (rapl s)) i;
       Some (if j < 0 then libmsr_error_handler LIBMSR_ERROR_INVAL s else s)
     }"

text \<open>The memory's is corrected on the joules.\<close>

definition delta_dram :: "nat \<Rightarrow> ('d, 'z) rapl_lib_scheme \<Rightarrow> ('d, 'z) rapl_lib_scheme option" where
  "delta_dram i s =
     do {
       j \<leftarrow> oget (dram_joules (rapl s)) i;
       o' \<leftarrow> oget (old_dram_joules (rapl s)) i;
       c \<leftarrow> oset (dram_delta_joules (rapl s)) i (if j - o' < 0 then j + real UINT_MAX - o' else j - o');
       Some (set_rapl (\<lambda>r. r\<lparr>dram_delta_joules := c\<rparr>) s)
     }"

definition set_pkg_watts :: "nat \<Rightarrow> real \<Rightarrow> ('d, 'z) rapl_lib_scheme \<Rightarrow> ('d, 'z) rapl_lib_scheme option" where
  "set_pkg_watts i w s = map_option (\<lambda>a. set_rapl (\<lambda>r. r\<lparr>pkg_watts := a\<rparr>) s) (oset (pkg_watts (rapl s)) i w)"

definition set_dram_watts :: "nat \<Rightarrow> real \<Rightarrow> ('d, 'z) rapl_lib_scheme \<Rightarrow> ('d, 'z) rapl_lib_scheme option" where
  "set_dram_watts i w s = map_option (\<lambda>a. set_rapl (\<lambda>r. r\<lparr>dram_watts := a\<rparr>) s) (oset (dram_watts (rapl s)) i w)"

definition delta_socket :: "'d env \<Rightarrow> nat \<Rightarrow> ('d, 'z) rapl_lib_scheme \<Rightarrow> ('d, 'z) rapl_lib_scheme option" where
  "delta_socket E i s =
     do {
       s \<leftarrow> (if has PKG_ENERGY_STATUS s then delta_pkg E i s else Some s);
       s \<leftarrow> (if has DRAM_ENERGY_STATUS s then delta_dram i s else Some s);
       if elapsed (rapl s) > 0 then do {
         s \<leftarrow> (if has PKG_ENERGY_STATUS s then do {
                 j \<leftarrow> oget (pkg_delta_joules (rapl s)) i;
                 set_pkg_watts i (j / elapsed (rapl s)) s
               } else Some s);
         (if has DRAM_ENERGY_STATUS s then do {
            j \<leftarrow> oget (dram_delta_joules (rapl s)) i;
            set_dram_watts i (j / elapsed (rapl s)) s
          } else Some s)
       }
       else do {
         s \<leftarrow> set_pkg_watts i 0 s;
         (if has DRAM_ENERGY_STATUS s then set_dram_watts i 0 s else Some s)
       }
     }"

definition delta_rapl_data :: "'d env \<Rightarrow> ('d, 'z) rapl_lib_scheme \<Rightarrow> (int \<times> ('d, 'z) rapl_lib_scheme) option" where
  "delta_rapl_data E s =
     (if \<not> delta_init s
      then (case rapl_storage E s of (r, s) \<Rightarrow>
              if r \<noteq> 0 then Some (-1, s)
              else do {
                s \<leftarrow> foldo (\<lambda>i s. do {
                       s \<leftarrow> (if has PKG_ENERGY_STATUS s then set_pkg_watts i 0 s else Some s);
                       (if has DRAM_ENERGY_STATUS s then set_dram_watts i 0 s else Some s)
                     }) [0..<sockets (hw E)] s;
                Some (0, set_rapl (\<lambda>r. r\<lparr>elapsed := 0\<rparr>) (s\<lparr>delta_init := True\<rparr>))
              })
      else do {
        s \<leftarrow> foldo (delta_socket E) [0..<sockets (hw E)] s;
        Some (0, s)
      })"

definition poll_rapl_data :: "'d env \<Rightarrow> ('d, 'z) rapl_lib_scheme \<Rightarrow> (int \<times> ('d, 'z) rapl_lib_scheme) option" where
  "poll_rapl_data E s =
     (case rapl_storage E s of (r, s) \<Rightarrow>
        if r \<noteq> 0 then Some (-1, s)
        else do {
          (_, s) \<leftarrow> read_rapl_data E s;
          (_, s) \<leftarrow> delta_rapl_data E s;
          Some (0, s)
        })"

section \<open>Printing\<close>

text \<open>The columns of the abbreviated print-out: their labels, and their values.\<close>

definition dump_rapl_data_terse_label ::
  "'d env \<Rightarrow> ('d, 'z) rapl_lib_scheme \<Rightarrow> int \<times> string list \<times> ('d, 'z) rapl_lib_scheme" where
  "dump_rapl_data_terse_label E s =
     (case rapl_storage E s of (r, s) \<Rightarrow>
        if r \<noteq> 0 then (-1, [], s)
        else (0, concat (map (\<lambda>i. (if has PKG_ENERGY_STATUS s then [''pkgW'' @ decimal i] else [])
                                @ (if has DRAM_ENERGY_STATUS s then [''dramW'' @ decimal i] else []))
                         [0..<sockets (hw E)]), s))"

definition terse_columns :: "nat \<Rightarrow> ('d, 'z) rapl_lib_scheme \<Rightarrow> real list option" where
  "terse_columns i s =
     do {
       a \<leftarrow> (if has PKG_ENERGY_STATUS s then map_option (\<lambda>w. [w]) (oget (pkg_watts (rapl s)) i) else Some []);
       b \<leftarrow> (if has DRAM_ENERGY_STATUS s then map_option (\<lambda>w. [w]) (oget (dram_watts (rapl s)) i) else Some []);
       Some (a @ b)
     }"

definition dump_rapl_data_terse ::
  "'d env \<Rightarrow> ('d, 'z) rapl_lib_scheme \<Rightarrow> (int \<times> real list \<times> ('d, 'z) rapl_lib_scheme) option" where
  "dump_rapl_data_terse E s =
     (case rapl_storage E s of (r, s) \<Rightarrow>
        if r \<noteq> 0 then Some (-1, [], s)
        else do {
          (_, s) \<leftarrow> read_rapl_data E s;
          (_, s) \<leftarrow> delta_rapl_data E s;
          cols \<leftarrow> those (map (\<lambda>i. terse_columns i s) [0..<sockets (hw E)]);
          Some (0, concat cols, s)
        })"

text \<open>The four values printed for the package and for the memory of every socket.\<close>

definition dump_rapl_power_info ::
  "'d env \<Rightarrow> ('d, 'z) rapl_lib_scheme \<Rightarrow> (int \<times> (nat \<times> real list) list \<times> ('d, 'z) rapl_lib_scheme) option" where
  "dump_rapl_power_info E s =
     (case rapl_storage E s of (r, s) \<Rightarrow>
        if r \<noteq> 0 then Some (-1, [], s)
        else
          map_option (\<lambda>(out, _, s). (0, out, s))
            (foldo (\<lambda>i (out, info, s). do {
                 (_, info, s) \<leftarrow> get_rapl_power_info E (of_nat i) info s;
                 Some (out
                   @ (if has PKG_POWER_INFO s
                      then [(i, [pkg_max_power info, pkg_min_power info, pkg_max_window info, pkg_therm_power info])] else [])
                   @ (if has DRAM_POWER_INFO s
                      then [(i, [dram_max_power info, dram_min_power info, dram_max_window info, dram_therm_power info])] else []),
                   info, s)
               }) [0..<sockets (hw E)]
               ([], \<lparr>msr_pkg_power_info = junk E, pkg_max_power = 0, pkg_min_power = 0, pkg_max_window = 0,
                     pkg_therm_power = 0, msr_dram_power_info = junk E, dram_max_power = 0, dram_min_power = 0,
                     dram_max_window = 0, dram_therm_power = 0\<rparr>, s)))"

end
