(* ===== verification/Rapl_Limits_Props.thy ===== *)
theory Rapl_Limits_Props
  imports Rapl_Limits
begin

text \<open>
  What setting and reading power limits does to the registers, and when the check for locked
  registers gives up the package limit.
\<close>

lemma written_rapl [simp]:
  "rapl_ready (written E sk c t a v s) = rapl_ready s" "rapl_flags (written E sk c t a v s) = rapl_flags s"
  "ru (written E sk c t a v s) = ru s"
  by (simp_all add: written_def)

lemma written_ready [simp]:
  "units_ready E socket u (written E sk c t a v s) = units_ready E socket u s"
  "has f (written E sk c t a v s) = has f s"
  by (simp_all add: units_ready_def has_def)

lemma units_ready_socket: "units_ready E socket u s \<Longrightarrow> sockets_assert E socket t = (0, t)"
  by (simp add: units_ready_def sockets_assert_in)

lemma to_u64_nonneg:
  assumes "0 \<le> x" "x < 2 ^ n" "n < 64"
  shows "\<exists>b. to_u64 x = Some b \<and> unat b < 2 ^ n \<and> dbl b = real_of_int \<lfloor>x\<rfloor>"
proof -
  have "(2 :: real) ^ n \<le> 2 ^ 64" using assms(3) by (intro power_increasing) auto
  then have x: "x < 2 ^ 64" using assms(2) by linarith
  have fl: "0 \<le> \<lfloor>x\<rfloor>" "\<lfloor>x\<rfloor> < 2 ^ n" using assms(1,2) by (simp_all add: floor_less_iff)
  have "(2 :: int) ^ n \<le> 2 ^ 63" using assms(3) by (intro power_increasing) auto
  from less_le_trans [OF fl(2) this] have "\<lfloor>x\<rfloor> < 2 ^ 64" by simp
  with fl(1) have "uint (of_int \<lfloor>x\<rfloor> :: u64) = \<lfloor>x\<rfloor>" by (simp add: uint_word_of_int_eq take_bit_int_eq_self)
  then have i: "int (unat (of_int \<lfloor>x\<rfloor> :: u64)) = \<lfloor>x\<rfloor>" by simp
  from fl(2) have "unat (of_int \<lfloor>x\<rfloor> :: u64) < 2 ^ n"
    by (subst (asm) i [symmetric]) (metis of_nat_less_iff of_nat_numeral of_nat_power)
  moreover have "dbl (of_int \<lfloor>x\<rfloor>) = real_of_int \<lfloor>x\<rfloor>"
    using arg_cong [OF i, of real_of_int] by (simp only: dbl_def of_int_of_nat_eq)
  ultimately have "unat (of_int \<lfloor>x\<rfloor> :: u64) < 2 ^ n" "dbl (of_int \<lfloor>x\<rfloor>) = real_of_int \<lfloor>x\<rfloor>" .
  with assms(1) x show ?thesis by (simp add: to_u64_def)
qed

lemma watts_fit: "unat wb < 2 ^ 15 \<Longrightarrow> \<not> dbl wb > 2 ^ 15 - 1"
proof -
  assume "unat wb < 2 ^ 15"
  then have "real (unat wb) \<le> real (2 ^ 15 - 1)" by (subst of_nat_le_iff) simp
  then show ?thesis by (simp add: dbl_def)
qed

text \<open>A new limit, given in watts and seconds.\<close>

definition wanted :: "real \<Rightarrow> real \<Rightarrow> rapl_limit" where
  "wanted w t = \<lparr>bits = 0, l_watts = w, l_seconds = t\<rparr>"

lemma calc_lower:
  assumes "units_ready E socket u s" "to_u64 (w / watts u) = Some wb" "unat wb < 2 ^ 15"
    "seconds_to_bits u t = Some tb"
  shows "calc_pkg_rapl_limit E socket (Some (wanted w t)) None s
    = Some (0, Some (\<lparr>bits = push_bit 0 wb OR push_bit 17 tb, l_watts = w, l_seconds = t\<rparr>), None, s)"
  using watts_fit [OF assms(3)] assms(2,4)
  by (simp add: calc_pkg_rapl_limit_def calc_one_def calc_rapl_bits_def units_ready_socket [OF assms(1)]
      translate_ready [OF assms(1)] wanted_def)

lemma calc_upper:
  assumes "units_ready E socket u s" "to_u64 (w / watts u) = Some wb" "unat wb < 2 ^ 15" "to_u64 t = Some tb"
  shows "calc_pkg_rapl_limit E socket None (Some (wanted w t)) s
    = Some (0, None, Some (\<lparr>bits = push_bit 32 wb OR push_bit 49 tb, l_watts = w, l_seconds = t\<rparr>), s)"
  using watts_fit [OF assms(3)] assms(2,4)
  by (simp add: calc_pkg_rapl_limit_def calc_one_def calc_rapl_bits_def units_ready_socket [OF assms(1)]
      translate_ready [OF assms(1)] wanted_def)

lemma get_lower:
  assumes "msr_files E good rg" "fds_ready E good s" "coord_ok E sk 0 0" "rapl_ready s" "has PKG_POWER_LIMIT s"
    "units_ready E (of_nat sk) u s" "reg_of E rg sk 0 0 MSR_PKG_POWER_LIMIT s = v" "v \<noteq> 0"
  shows "get_pkg_rapl_limit E (of_nat sk) (Some x) None s
    = Some (0, Some \<lparr>bits = v, l_watts = dbl (MASK_VAL v 14 0) * watts u,
                     l_seconds = bits_to_seconds u (MASK_VAL v 23 17)\<rparr>, None, s)"
  using assms(4,5,7,8) read_coord_eq [OF assms(1-3)]
  by (cases x) (simp add: get_pkg_rapl_limit_def units_ready_socket [OF assms(6)] rapl_storage_ready read_limit_def
      calc_pkg_rapl_limit_def calc_one_def calc_rapl_from_bits_def translate_ready [OF assms(6)])

text \<open>C12: setting the lower package limit to watts and seconds keeps the upper limit's half of
  the register, enables and clamps the limit, and reading the limit back gives the watts rounded
  down to the power unit and the window that was encoded.\<close>

theorem set_get_lower_limit:
  assumes "msr_files E good rg" "fds_ready E good s" "coord_ok E sk 0 0" "rapl_ready s" "has PKG_POWER_LIMIT s"
    "units_ready E (of_nat sk) u s" "0 \<le> w / watts u" "w / watts u < 2 ^ 15"
    "seconds_to_bits u t = Some tb" "unat tb < 2 ^ 7"
  shows "\<exists>l s'. set_pkg_rapl_limit E (of_nat sk) (Some (wanted w t)) None s = Some (0, Some l, None, s')
    \<and> MASK_VAL (reg_of E rg sk 0 0 MSR_PKG_POWER_LIMIT s') 63 32
        = MASK_VAL (reg_of E rg sk 0 0 MSR_PKG_POWER_LIMIT s) 63 32
    \<and> bit (reg_of E rg sk 0 0 MSR_PKG_POWER_LIMIT s') 15 \<and> bit (reg_of E rg sk 0 0 MSR_PKG_POWER_LIMIT s') 16
    \<and> (\<forall>x. \<exists>a. get_pkg_rapl_limit E (of_nat sk) (Some x) None s' = Some (0, Some a, None, s')
         \<and> l_watts a = real_of_int \<lfloor>w / watts u\<rfloor> * watts u \<and> l_seconds a = bits_to_seconds u tb)"
proof -
  obtain wb where wb: "to_u64 (w / watts u) = Some wb" "unat wb < 2 ^ 15" "dbl wb = real_of_int \<lfloor>w / watts u\<rfloor>"
    using to_u64_nonneg [OF assms(7,8)] by auto
  define old where "old = reg_of E rg sk 0 0 MSR_PKG_POWER_LIMIT s"
  define v where "v = (old AND 0xFFFFFFFF00000000) OR (push_bit 0 wb OR push_bit 17 tb OR push_bit 15 1 OR push_bit 16 1)"
  let ?l = "\<lparr>bits = push_bit 0 wb OR push_bit 17 tb, l_watts = w, l_seconds = t\<rparr>"
  let ?s = "written E sk 0 0 MSR_PKG_POWER_LIMIT v s"
  note fields = lower_limit_fields [OF wb(2) assms(10) v_def]
  have "set_pkg_rapl_limit E (of_nat sk) (Some (wanted w t)) None s = Some (0, Some ?l, None, ?s)"
    using assms(4,5) read_coord_eq [OF assms(1-3)] write_coord_eq(1) [OF assms(1-3)]
      calc_lower [OF assms(6) wb(1,2) assms(9)]
    by (simp add: set_pkg_rapl_limit_def units_ready_socket [OF assms(6)] rapl_storage_ready v_def old_def or.assoc)
  moreover have r: "reg_of E rg sk 0 0 MSR_PKG_POWER_LIMIT ?s = v"
    using write_coord_eq(3) [OF assms(1-3)] by simp
  moreover have "v \<noteq> 0" using fields(4) by auto
  ultimately show ?thesis
    using get_lower [OF assms(1) write_coord_eq(2) [OF assms(1-3)] assms(3) _ _ _ r] fields wb(3) assms(4-6)
    by (intro exI [of _ ?l] exI [of _ ?s]) (simp add: old_def)
qed

text \<open>Setting the upper package limit keeps the lower limit's half of the register and stores the
  watts and the raw window in their fields, enabled and clamped.\<close>

theorem set_upper_limit:
  assumes "msr_files E good rg" "fds_ready E good s" "coord_ok E sk 0 0" "rapl_ready s" "has PKG_POWER_LIMIT s"
    "units_ready E (of_nat sk) u s" "0 \<le> w / watts u" "w / watts u < 2 ^ 15" "0 \<le> t" "t < 2 ^ 7"
  shows "\<exists>l s' v. set_pkg_rapl_limit E (of_nat sk) None (Some (wanted w t)) s = Some (0, None, Some l, s')
    \<and> reg_of E rg sk 0 0 MSR_PKG_POWER_LIMIT s' = v
    \<and> MASK_VAL v 31 0 = MASK_VAL (reg_of E rg sk 0 0 MSR_PKG_POWER_LIMIT s) 31 0
    \<and> dbl (MASK_VAL v 46 32) = real_of_int \<lfloor>w / watts u\<rfloor> \<and> dbl (MASK_VAL v 55 49) = real_of_int \<lfloor>t\<rfloor>
    \<and> bit v 47 \<and> bit v 48"
proof -
  obtain wb where wb: "to_u64 (w / watts u) = Some wb" "unat wb < 2 ^ 15" "dbl wb = real_of_int \<lfloor>w / watts u\<rfloor>"
    using to_u64_nonneg [OF assms(7,8)] by auto
  obtain tb where tb: "to_u64 t = Some tb" "unat tb < 2 ^ 7" "dbl tb = real_of_int \<lfloor>t\<rfloor>"
    using to_u64_nonneg [OF assms(9,10)] by auto
  define old where "old = reg_of E rg sk 0 0 MSR_PKG_POWER_LIMIT s"
  define v where "v = (old AND 0x00000000FFFFFFFF) OR (push_bit 32 wb OR push_bit 49 tb OR push_bit 47 1 OR push_bit 48 1)"
  let ?l = "\<lparr>bits = push_bit 32 wb OR push_bit 49 tb, l_watts = w, l_seconds = t\<rparr>"
  let ?s = "written E sk 0 0 MSR_PKG_POWER_LIMIT v s"
  note fields = upper_limit_fields [OF wb(2) tb(2) v_def]
  have "set_pkg_rapl_limit E (of_nat sk) None (Some (wanted w t)) s = Some (0, None, Some ?l, ?s)"
    using assms(4,5) read_coord_eq [OF assms(1-3)] write_coord_eq(1) [OF assms(1-3)]
      calc_upper [OF assms(6) wb(1,2) tb(1)]
    by (simp add: set_pkg_rapl_limit_def units_ready_socket [OF assms(6)] rapl_storage_ready v_def old_def or.assoc)
  moreover have r: "reg_of E rg sk 0 0 MSR_PKG_POWER_LIMIT ?s = v"
    using write_coord_eq(3) [OF assms(1-3)] by simp
  ultimately show ?thesis using fields wb(3) tb(3) by (intro exI [of _ ?l] exI [of _ ?s]) (simp add: old_def)
qed

end
