(* ===== verification/Msr_Frame.thy ===== *)
theory Msr_Frame
  imports Msr_Batch
begin

text \<open>
  What the register access and the batches leave alone: the fields a component adds to the
  state of the library (\<open>lib.more\<close>), and the topology.
\<close>

named_theorems more_frame \<open>operations of msr_core.c keep the fields of the components\<close>

definition same_more :: "('d, 'z) lib_scheme \<Rightarrow> ('d, 'z) lib_scheme \<Rightarrow> bool" where
  "same_more s t \<longleftrightarrow> lib.more s = lib.more t \<and> g_topo_list s = g_topo_list t"

lemma same_more_refl [simp]: "same_more s s"
  by (simp add: same_more_def)

lemma same_more_trans: "same_more s t \<Longrightarrow> same_more t u \<Longrightarrow> same_more s u"
  by (simp add: same_more_def)

lemma same_more_upd [simp]:
  "same_more s (t\<lparr>dev := d\<rparr>) = same_more s t" "same_more s (t\<lparr>stderr := e\<rparr>) = same_more s t"
  "same_more s (t\<lparr>blocks := bl\<rparr>) = same_more s t" "same_more s (t\<lparr>batch := b\<rparr>) = same_more s t"
  "same_more s (t\<lparr>bsize := z\<rparr>) = same_more s t" "same_more s (t\<lparr>arrsize := n\<rparr>) = same_more s t"
  "same_more s (t\<lparr>batch_null := p\<rparr>) = same_more s t" "same_more s (t\<lparr>batchfd := f\<rparr>) = same_more s t"
  "same_more s (t\<lparr>fd_init := p\<rparr>) = same_more s t" "same_more s (t\<lparr>devices := n\<rparr>) = same_more s t"
  "same_more s (t\<lparr>file_descriptors := fs\<rparr>) = same_more s t"
  by (simp_all add: same_more_def)

lemma same_more_error [simp]: "same_more s (libmsr_error_handler e t) = same_more s t"
  by (simp add: libmsr_error_handler_def)

lemma same_more_block [simp]: "same_more s (set_block k xs t) = same_more s t"
  by (simp add: set_block_def)

lemma same_more_foldo:
  assumes "foldo f xs s = Some t" "\<And>x s t. f x s = Some t \<Longrightarrow> same_more s t"
  shows "same_more s t"
  by (rule foldo_inv [OF assms(1), of "same_more s"]) (auto intro: same_more_trans assms(2))

lemma core_fd_more [more_frame]: "core_fd E i s = (p, t) \<Longrightarrow> same_more s t"
  by (auto simp: core_fd_def Let_def split: if_splits)

lemma read_idx_more [more_frame]: "read_msr_by_idx E i a b s = Some (r, v, t) \<Longrightarrow> same_more s t"
  using core_fd_more [of E i s]
  by (auto simp: read_msr_by_idx_def Let_def split: option.splits prod.splits if_splits bind_splits)

lemma write_idx_more [more_frame]: "write_msr_by_idx E i a v s = Some (r, t) \<Longrightarrow> same_more s t"
  using core_fd_more [of E i s]
  by (auto simp: write_msr_by_idx_def Let_def split: option.splits prod.splits if_splits bind_splits)

lemma check_coord_more: "same_more s (check_coord E a b c s)"
  by (simp add: check_coord_def sockets_assert_def cores_assert_def threads_assert_def)

lemma read_coord_more [more_frame]: "read_msr_by_coord E sk c th a b s = Some (r, v, t) \<Longrightarrow> same_more s t"
  using read_idx_more same_more_trans [OF check_coord_more] by (force simp: read_msr_by_coord_def Let_def)

lemma write_coord_more [more_frame]: "write_msr_by_coord E sk c th a v s = Some (r, t) \<Longrightarrow> same_more s t"
  using write_idx_more same_more_trans [OF check_coord_more] by (force simp: write_msr_by_coord_def Let_def)

lemma batch_storage_more [more_frame]: "batch_storage n s = Some t \<Longrightarrow> same_more s t"
  by (auto simp: batch_storage_def Let_def split: if_splits)

lemma allocate_batch_more [more_frame]: "allocate_batch n z s = Some (r, t) \<Longrightarrow> same_more s t"
  using batch_storage_more [of n s]
  by (auto simp: allocate_batch_def Let_def split: if_splits bind_splits)

lemma create_batch_op_more [more_frame]: "create_batch_op a c n s = Some (r, p, t) \<Longrightarrow> same_more s t"
  using batch_storage_more [of n s]
  by (auto simp: create_batch_op_def Let_def split: if_splits bind_splits)

lemma load_op_more: "load_op a d i n (val, s) = Some (val', t) \<Longrightarrow> same_more s t"
  using create_batch_op_more
  by (fastforce simp: load_op_def split: bind_splits option.splits prod.splits)

lemma load_matching_more: "load_matching E a P n i (val, s) = Some (val', t) \<Longrightarrow> same_more s t"
  using load_op_more by (auto simp: load_matching_def split: bind_splits option.splits)

lemma foldo_more_snd:
  assumes "foldo f xs vs = Some wt" "\<And>x v s w t. f x (v, s) = Some (w, t) \<Longrightarrow> same_more s t"
  shows "same_more (snd vs) (snd wt)"
proof (rule foldo_inv [OF assms(1), of "\<lambda>w. same_more (snd vs) (snd w)"])
  show "same_more (snd vs) (snd vs)" by simp
next
  fix x u w assume "same_more (snd vs) (snd u)" "f x u = Some w"
  then show "same_more (snd vs) (snd w)"
    using assms(2) [of x "fst u" "snd u" "fst w" "snd w"] by (auto intro: same_more_trans)
qed

lemma load_socket_batch_more [more_frame]: "load_socket_batch E a val n s = Some (r, val', t) \<Longrightarrow> same_more s t"
  using foldo_more_snd [OF _ load_matching_more]
  by (fastforce simp: load_socket_batch_def split: option.splits bind_splits)

lemma load_core_batch_more [more_frame]: "load_core_batch E a val n s = Some (r, val', t) \<Longrightarrow> same_more s t"
  using foldo_more_snd [OF _ load_matching_more]
  by (fastforce simp: load_core_batch_def split: option.splits bind_splits)

lemma load_thread_batch_more [more_frame]: "load_thread_batch E a val n s = Some (r, val', t) \<Longrightarrow> same_more s t"
  using foldo_more_snd [OF _ load_op_more]
  by (fastforce simp: load_thread_batch_def split: option.splits bind_splits)

lemma cell_set_more [more_frame]: "cell_set p v s = Some t \<Longrightarrow> same_more s t"
  by (auto simp: cell_set_def split: bind_splits)

lemma compatibility_op_more:
  assumes "compatibility_op E ty k i s = Some t"
  shows "same_more s t"
proof (cases "ty = BATCH_READ")
  case True
  with assms obtain j a b r v s1 where "read_msr_by_idx E j a b s = Some (r, v, s1)" "cell_set (k, i) v s1 = Some t"
    by (auto simp: compatibility_op_def split: bind_splits)
  with read_idx_more cell_set_more same_more_trans show ?thesis by blast
next
  case False
  with assms show ?thesis
    by (auto simp: compatibility_op_def split: bind_splits dest: write_idx_more)
qed

lemma compatibility_batch_more: "compatibility_batch E n ty s = Some (r, t) \<Longrightarrow> same_more s t"
  using batch_storage_more same_more_foldo [OF _ compatibility_op_more]
  by (fastforce simp: compatibility_batch_def split: bind_splits if_splits intro: same_more_trans)

lemma open_batch_more: "same_more s (open_batch E s)"
  by (simp add: open_batch_def split: prod.split)

lemma ioctl_batch_more: "ioctl_batch E n ty s = Some (r, t) \<Longrightarrow> same_more s t"
  using batch_storage_more
  by (fastforce simp: ioctl_batch_def Let_def split: bind_splits if_splits prod.splits)

lemma do_batch_op_more [more_frame]: "do_batch_op E n ty s = Some (r, t) \<Longrightarrow> same_more s t"
  using same_more_trans [OF open_batch_more] compatibility_batch_more ioctl_batch_more
  by (fastforce simp: do_batch_op_def Let_def split: if_splits)

lemma read_batch_more [more_frame]: "read_batch E n s = Some (r, t) \<Longrightarrow> same_more s t"
  by (simp add: read_batch_def do_batch_op_more)

lemma write_batch_more [more_frame]: "write_batch E n s = Some (r, t) \<Longrightarrow> same_more s t"
  by (simp add: write_batch_def do_batch_op_more)

end
