(* ===== verification/Rapl_Data_Props.thy ===== *)
theory Rapl_Data_Props
  imports Rapl_Data Rapl_Limits_Props Msr_Frame
begin

text \<open>
  What sampling and differencing compute, on which processors the first sample is undefined,
  and the failure path of \<open>rapl_storage\<close>.
\<close>

section \<open>The state of the component is kept by the register access\<close>

lemma same_more_rapl:
  assumes "same_more s t"
  shows "rapl_ready t = rapl_ready s" "rapl_flags t = rapl_flags s" "rapl t = rapl s"
    "unit_val t = unit_val s" "ru t = ru s" "read_init t = read_init s" "delta_init t = delta_init s"
    "perf_ctl t = perf_ctl s"
  using assms by (cases s; cases t; simp add: same_more_def)+

lemma same_more_has: "same_more s t \<Longrightarrow> has f t = has f s"
  by (simp add: has_def same_more_rapl(2))

section \<open>Samples without memory counters\<close>

lemma load_new_more: "load_new E a s = Some (val, t) \<Longrightarrow> same_more s t"
  by (auto simp: load_new_def dest: load_socket_batch_more)

text \<open>Without the memory's energy counter its arrays are never allocated.\<close>

lemma create_rapl_no_dram:
  assumes c: "create_rapl_data_batch E s = Some t" and f: "\<not> has DRAM_ENERGY_STATUS s" "dram_joules (rapl s) = None"
  shows "dram_joules (rapl t) = None"
proof -
  define ok where "ok u \<longleftrightarrow> rapl_flags u = rapl_flags s \<and> dram_joules (rapl u) = None" for u :: "('a, 'b) rapl_lib_scheme"
  have load: "load_new E a u = Some (val, w) \<Longrightarrow> ok u \<Longrightarrow> ok w" for a u val w
    by (drule load_new_more) (simp add: ok_def same_more_rapl)
  have "ok s" using f(2) by (simp add: ok_def)
  moreover have "allocate_batch n z u = Some (r, w) \<Longrightarrow> ok u \<Longrightarrow> ok w" for n z u r w
    by (drule allocate_batch_more) (simp add: ok_def same_more_rapl)
  moreover have nd: "ok u \<Longrightarrow> \<not> has DRAM_ENERGY_STATUS u" for u
    using f(1) by (simp add: ok_def has_def)
  moreover have "ok u \<Longrightarrow> ok (set_rapl (\<lambda>r. r\<lparr>pkg_bits := v\<rparr>) u)" "ok u \<Longrightarrow> ok (set_rapl (\<lambda>r. r\<lparr>pkg_perf_count := v\<rparr>) u)"
    "ok u \<Longrightarrow> ok (set_rapl (\<lambda>r. r\<lparr>dram_perf_count := v\<rparr>) u)"
    "ok u \<Longrightarrow> ok (set_rapl (\<lambda>r. r\<lparr>pkg_joules := a1, old_pkg_bits := a2, old_pkg_joules := a3,
        pkg_delta_joules := a4, pkg_delta_bits := a5, pkg_watts := a6\<rparr>) u)" for u v a1 a2 a3 a4 a5 a6
    by (simp_all add: ok_def)
  ultimately have "ok t"
    using c load by (auto simp: create_rapl_data_batch_def Let_def split: bind_splits if_splits)
  then show ?thesis by (simp add: ok_def)
qed

text \<open>on every processor without the memory energy counter, which is most client models, the
  first sample writes through a pointer that was never allocated.\<close>

theorem first_sample_undefined:
  assumes "rapl_ready s" "\<not> read_init s" "\<not> has DRAM_ENERGY_STATUS s" "dram_joules (rapl s) = None"
    "0 < sockets (hw E)"
  shows "read_rapl_data E s = None"
proof -
  have "foldo zero_joules [0..<sockets (hw E)] (set_rapl (\<lambda>r. r\<lparr>now := (0, 0), old_now := (0, 0), elapsed := 0\<rparr>) t) = None"
    if "create_rapl_data_batch E s = Some t" for t
    using create_rapl_no_dram [OF that assms(3,4)] assms(5)
    by (simp add: upt_conv_Cons zero_joules_def split: bind_split)
  then show ?thesis
    using assms(1,2) by (simp add: read_rapl_data_def rapl_storage_ready split: bind_split)
qed

section \<open>Energy between two samples\<close>

lemma error_handler_rapl [simp]:
  "rapl (libmsr_error_handler e s) = rapl s" "rapl_flags (libmsr_error_handler e s) = rapl_flags s"
  by (simp_all add: libmsr_error_handler_def)

lemma no_wrap: "b \<le> a \<Longrightarrow> a < m \<Longrightarrow> (a + m - b) mod m = a - (b :: nat)"
proof -
  assume "b \<le> a" "a < m"
  then have "a + m - b = (a - b) + m" and lt: "a - b < m" by simp_all
  then have "(a + m - b) mod m = (a - b) mod m" by (simp only: mod_add_self2)
  then show ?thesis using lt by simp
qed

text \<open>between two samples of the 32-bit package counter the energy is the difference of the
  counts divided by the unit; when the counter wrapped, one unit is lost, because the code adds the
  largest count instead of the number of counts.\<close>

theorem delta_pkg_energy:
  assumes "units_ready E (of_nat i) u s" "i < 2 ^ 31" "0 < joules u"
    "deref (pkg_bits (rapl s)) i s = Some v" "old_pkg_bits (rapl s) = Some obs" "i < length obs" "obs ! i = old"
    "pkg_joules (rapl s) = Some js" "i < length js" "js ! i = dbl v / joules u"
    "old_pkg_joules (rapl s) = Some ojs" "i < length ojs" "ojs ! i = dbl old / joules u"
    "pkg_delta_bits (rapl s) = Some db" "i < length db" "pkg_delta_joules (rapl s) = Some dj" "i < length dj"
    "unat v < 2 ^ 32" "unat old < 2 ^ 32"
  shows "\<exists>s'. delta_pkg E i s = Some s' \<and>
    oget (pkg_delta_joules (rapl s')) i
      = Some (real ((unat v + 2 ^ 32 - unat old) mod 2 ^ 32 - (if unat v < unat old then 1 else 0)) / joules u)"
proof (cases "unat v < unat old")
  case True
  define b where "b = v + of_nat UINT_MAX - old"
  have "b = of_nat (unat v + UINT_MAX - unat old)"
    using assms(18,19) by (simp add: b_def of_nat_diff UINT_MAX_def)
  moreover have "unat v + UINT_MAX - unat old < 2 ^ 64" using assms(18) by (simp add: UINT_MAX_def)
  ultimately have "unat b = unat v + UINT_MAX - unat old"
    by (simp only: unsigned_of_nat) (simp add: take_bit_nat_eq_self)
  then have m: "(unat v + 2 ^ 32 - unat old) mod 2 ^ 32 - 1 = unat b"
    using True assms(18,19) by (simp add: UINT_MAX_def)
  have "dbl v - dbl old < 0" using True by (simp add: dbl_def del: of_nat_unat)
  moreover have "dbl b = real ((unat v + 2 ^ 32 - unat old) mod 2 ^ 32 - 1)" by (simp only: m dbl_def)
  ultimately show ?thesis
    using assms True by (simp add: delta_pkg_def translate_ready [OF assms(1)] b_def)
next
  case False
  then have "(unat v + 2 ^ 32 - unat old) mod 2 ^ 32 = unat v - unat old"
    using assms(18) by (intro no_wrap) simp_all
  moreover have "\<not> dbl v - dbl old < 0" using False by (simp add: dbl_def del: of_nat_unat)
  ultimately show ?thesis
    using False assms by (simp add: delta_pkg_def dbl_def diff_divide_distrib of_nat_diff)
qed

text \<open>C14: when the memory counter wrapped, the code adds the largest count to an energy in joules:
  the result exceeds the true energy by \<open>2^32 - 1\<close> joules less the energy of one full count.\<close>

theorem delta_dram_energy:
  assumes "0 < unit_j" "dram_joules (rapl s) = Some js" "i < length js" "js ! i = dbl v / unit_j"
    "old_dram_joules (rapl s) = Some ojs" "i < length ojs" "ojs ! i = dbl old / unit_j"
    "dram_delta_joules (rapl s) = Some dj" "i < length dj" "unat v < 2 ^ 32" "unat old < 2 ^ 32"
  shows "\<exists>s'. delta_dram i s = Some s' \<and>
    oget (dram_delta_joules (rapl s')) i
      = Some (real ((unat v + 2 ^ 32 - unat old) mod 2 ^ 32) / unit_j
              + (if unat v < unat old then 2 ^ 32 - 1 - 2 ^ 32 / unit_j else 0))"
proof -
  have lt: "js ! i - ojs ! i < 0 \<longleftrightarrow> unat v < unat old"
    using assms(1) by (simp add: assms(4,7) dbl_def divide_less_cancel del: of_nat_unat)
  have val: "(if unat v < unat old then js ! i + real UINT_MAX - ojs ! i else js ! i - ojs ! i)
      = real ((unat v + 2 ^ 32 - unat old) mod 2 ^ 32) / unit_j
        + (if unat v < unat old then 2 ^ 32 - 1 - 2 ^ 32 / unit_j else 0)"
  proof (cases "unat v < unat old")
    case True
    have "real ((unat v + 2 ^ 32 - unat old) mod 2 ^ 32) = dbl v + 2 ^ 32 - dbl old"
      using True assms(10,11) by (simp add: dbl_def of_nat_diff)
    then show ?thesis
      using True by (simp add: assms(4,7) UINT_MAX_def diff_divide_distrib add_divide_distrib)
  next
    case False
    then have "(unat v + 2 ^ 32 - unat old) mod 2 ^ 32 = unat v - unat old"
      using assms(10) by (intro no_wrap) simp_all
    then have "real ((unat v + 2 ^ 32 - unat old) mod 2 ^ 32) = dbl v - dbl old"
      using False by (simp add: dbl_def of_nat_diff del: of_nat_unat)
    with False show ?thesis by (simp only: if_False assms(4,7) diff_divide_distrib)
  qed
  have "\<exists>s'. delta_dram i s = Some s' \<and> oget (dram_delta_joules (rapl s')) i
      = Some (if unat v < unat old then js ! i + real UINT_MAX - ojs ! i else js ! i - ojs ! i)"
    using lt assms(2,3,5,6,8,9) by (auto simp: delta_dram_def)
  then show ?thesis by (simp only: val)
qed

section \<open>Storage and printing\<close>

text \<open>C15: on a processor without RAPL the first \<open>rapl_storage\<close> fails, but every later call reports
  success and hands out flags that were never set.\<close>

theorem rapl_storage_fails_once:
  assumes "\<not> rapl_ready s" "map_of MF_06 (cpuid_get_model E) = None"
  shows "\<exists>s1. rapl_storage E s = (-1, s1) \<and> rapl_storage E s1 = (0, s1) \<and> rapl_flags s1 = junk E"
  using assms by (simp add: rapl_storage_def setflags_def libmsr_error_handler_def)

end
