(* ===== verification/Rapl_Witness.thy ===== *)
theory Rapl_Witness
  imports Rapl_Data_Props
begin

text \<open>
  The RAPL theorems on the concrete machine: flags of a Haswell server, power unit 1/8 W, energy
  unit 1/16384 J, time unit 1/1024 s on both sockets.
\<close>

definition sim_units :: rapl_units where
  "sim_units = decode_units 0xA0E03"

definition sim_data :: rapl_data where
  "sim_data = rapl_data0\<lparr>pkg_bits := Some [Some (0, 0)], old_pkg_bits := Some [0xFFFFFFFF],
     pkg_joules := Some [0], old_pkg_joules := Some [dbl 0xFFFFFFFF / joules sim_units],
     pkg_delta_bits := Some [0], pkg_delta_joules := Some [0],
     dram_joules := Some [0], old_dram_joules := Some [dbl 0xFFFFFFFF / joules sim_units],
     dram_delta_joules := Some [0]\<rparr>"

definition sim_rapl :: "u64 \<Rightarrow> rapl_data \<Rightarrow> (sim, unit) rapl_lib_scheme" where
  "sim_rapl flags r = sim_lib (rapl_lib.fields True flags r None (Some [sim_units, sim_units]) False False None)"

lemma sim_rapl_simps [simp]:
  "rapl_ready (sim_rapl f r)" "rapl_flags (sim_rapl f r) = f" "rapl (sim_rapl f r) = r"
  "ru (sim_rapl f r) = Some [sim_units, sim_units]" "\<not> read_init (sim_rapl f r)" "perf_ctl (sim_rapl f r) = None"
  by (simp_all add: sim_rapl_def sim_lib_def rapl_lib.defs)

lemma sim_units_values: "joules sim_units = 16384" "seconds sim_units = 1024" "watts sim_units = 1 / 8"
proof -
  have v: "unat (MASK_VAL 0xA0E03 12 8) = 14" "unat (MASK_VAL 0xA0E03 19 16) = 10" "unat (MASK_VAL 0xA0E03 3 0) = 3"
    by (simp_all add: unat_MASK_VAL)
  show "joules sim_units = 16384" "seconds sim_units = 1024" "watts sim_units = 1 / 8"
    by (simp_all add: sim_units_def decode_units_def shl1_pow v)
qed

lemma sim_units_ready: "i < 2 \<Longrightarrow> units_ready (sim_env b) (of_nat i) sim_units (sim_rapl f r)"
  by (auto simp: units_ready_def less_2_cases_iff)

lemma sim_rapl_ready: "fds_ready (sim_env b) sim_good (sim_rapl f r)"
  by (simp add: sim_rapl_def sim_fds_ready)

lemma sim_coord: "coord_ok (sim_env b) 1 0 0"
  by (simp add: coord_ok_def)

theorem time_window_witness:
  "\<exists>t. translate (sim_env False) 1 0x6A 0 BITS_TO_SECONDS_STD (sim_rapl 0x177 rapl_data0)
         = Some (0, 0x6A, t, sim_rapl 0x177 rapl_data0)
     \<and> translate (sim_env False) 1 0 t SECONDS_TO_BITS_STD (sim_rapl 0x177 rapl_data0)
         = Some (0, 0x6A, t, sim_rapl 0x177 rapl_data0)"
  using time_window_roundtrip [OF sim_units_ready [of 1 False "0x177" rapl_data0], of "0x6A" 0 0] sim_units_values
  by simp

theorem turbo_switch_witness: "enable_turbo (sim_env False) (sim_rapl 0x177 rapl_data0) = None"
  using turbo_switch_undefined [of "sim_env False" "sim_rapl 0x177 rapl_data0"] by simp

theorem rapl_batch_witness: "rapl_data_loads (sim_rapl 0x1C01FF rapl_data0) \<le> rapl_data_batch_size (sim_rapl 0x1C01FF rapl_data0)"
  by (rule rapl_batch_large_enough [of "0x3F"]) (simp add: MF_06_def)

lemma sim_window: "seconds_to_bits sim_units 1 = Some 10"
  using seconds_roundtrip [of sim_units 10] sim_units_values
  by (simp add: bits_to_seconds_def dbl_def)

theorem set_get_lower_witness:
  "\<exists>l s'. set_pkg_rapl_limit (sim_env False) 1 (Some (wanted 50.3 1)) None (sim_rapl 0x177 rapl_data0) = Some (0, Some l, None, s')
     \<and> (\<exists>a. get_pkg_rapl_limit (sim_env False) 1 (Some (wanted 0 0)) None s' = Some (0, Some a, None, s') \<and> l_watts a = 50.25)"
proof -
  let ?s = "sim_rapl 0x177 rapl_data0"
  have "has PKG_POWER_LIMIT ?s" by (simp add: has_def PKG_POWER_LIMIT_def)
  moreover have "\<lfloor>50.3 / watts sim_units\<rfloor> = (402 :: int)" by (simp add: sim_units_values floor_eq_iff)
  ultimately show ?thesis
    using set_get_lower_limit [OF sim_msr_files sim_rapl_ready [of False "0x177" rapl_data0] sim_coord _ _ sim_units_ready [of 1 False],
        of "50.3" 1 10]
    by (fastforce simp: sim_units_values sim_window)
qed

theorem set_upper_witness:
  "\<exists>l s'. set_pkg_rapl_limit (sim_env False) 1 None (Some (wanted 60 3)) (sim_rapl 0x177 rapl_data0) = Some (0, None, Some l, s')
     \<and> bit (reg_of (sim_env False) sim_rg 1 0 0 MSR_PKG_POWER_LIMIT s') 47"
proof -
  let ?s = "sim_rapl 0x177 rapl_data0"
  have "has PKG_POWER_LIMIT ?s" by (simp add: has_def PKG_POWER_LIMIT_def)
  then show ?thesis
    using set_upper_limit [OF sim_msr_files sim_rapl_ready [of False "0x177" rapl_data0] sim_coord _ _ sim_units_ready [of 1 False],
        of 60 3]
    by (auto simp: sim_units_values)
qed

theorem first_sample_witness: "read_rapl_data (sim_env False) (sim_rapl 0xFE17 rapl_data0) = None"
  using first_sample_undefined [of "sim_rapl 0xFE17 rapl_data0" "sim_env False"]
  by (simp add: has_def DRAM_ENERGY_STATUS_def rapl_data0_def)

definition sim_sampled :: "(sim, unit) rapl_lib_scheme" where
  "sim_sampled = (sim_rapl 0x177 sim_data)\<lparr>batch_null := False, arrsize := 1,
     batch := [\<lparr>numops = 1, ops = Some 0\<rparr>], bsize := [1], blocks := [Some [sim_op 0]]\<rparr>"

lemma sim_sampled_simps [simp]:
  "rapl sim_sampled = sim_data" "rapl_flags sim_sampled = 0x177" "blocks sim_sampled = [Some [sim_op 0]]"
  by (simp_all add: sim_sampled_def)

lemma sim_sampled_ready: "units_ready (sim_env b) (of_nat 0) sim_units sim_sampled"
  using sim_units_ready [of 0 b] by (simp add: units_ready_def sim_sampled_def)

text \<open>The counter went from its largest value to 0: one count, taken for none.\<close>

theorem delta_pkg_witness:
  "\<exists>s'. delta_pkg (sim_env False) 0 sim_sampled = Some s' \<and> oget (pkg_delta_joules (rapl s')) 0 = Some 0"
  using delta_pkg_energy [OF sim_sampled_ready [of False], of 0 "[0xFFFFFFFF]" "0xFFFFFFFF" "[0]"
      "[dbl 0xFFFFFFFF / joules sim_units]" "[0]" "[0]"]
  by (simp add: sim_units_values sim_data_def deref_def ptr_def cell_get_def the_block_def sim_op_def msr_batch_op0_def dbl_def)

theorem delta_dram_witness:
  "\<exists>s'. delta_dram 0 sim_sampled = Some s'
     \<and> oget (dram_delta_joules (rapl s')) 0 = Some (1 / 16384 + (2 ^ 32 - 1 - 2 ^ 32 / 16384))"
  using delta_dram_energy [of 16384 sim_sampled "[0]" 0 0 "[dbl 0xFFFFFFFF / joules sim_units]" "0xFFFFFFFF" "[0]"]
  by (simp add: sim_units_values sim_data_def dbl_def)

theorem rapl_storage_witness:
  "\<exists>s1. rapl_storage ((sim_env False)\<lparr>cpuid_insn := (\<lambda>_ _. (0, 0, 0, 0))\<rparr>) ((sim_rapl 0 rapl_data0)\<lparr>rapl_ready := False\<rparr>) = (-1, s1)
     \<and> rapl_flags s1 = 0xDEAD"
proof -
  let ?E = "(sim_env False)\<lparr>cpuid_insn := (\<lambda>_ _. (0, 0, 0, 0))\<rparr>"
  have "cpuid_get_model ?E = 0" by (simp add: cpuid_get_model_def)
  then have "map_of MF_06 (cpuid_get_model ?E) = None" by (simp add: MF_06_def)
  moreover have "junk ?E = 0xDEAD" by (simp add: sim_env_def)
  ultimately show ?thesis
    using rapl_storage_fails_once [of "(sim_rapl 0 rapl_data0)\<lparr>rapl_ready := False\<rparr>" ?E] by auto
qed

end
