(* ===== verification/Msr_Batch_IO.thy ===== *)
theory Msr_Batch_IO
  imports Msr_Batch_Props Msr_Frame
begin

text \<open>
  Writing a batch, and the interface \<open>batch_regs\<close> the setters of the components rely on: a
  batch is a window on some registers of the machine; reading it refreshes the window,
  writing it stores the window, and nothing else changes.
\<close>

section \<open>The generic getter and setter\<close>

text \<open>
  The loops every component runs over an array \<open>raw\<close> of pointers into a batch: decode each
  register into the \<open>i\<close>-th entry of an array, or change each by the \<open>i\<close>-th entry.
\<close>

definition decode_all ::
  "(u64 \<Rightarrow> 'r) \<Rightarrow> nat \<Rightarrow> cell option list \<Rightarrow> ('d, 'z) lib_scheme \<Rightarrow> 'r list \<Rightarrow> 'r list option" where
  "decode_all dec n raw s vals =
     foldo (\<lambda>i vals. do { p \<leftarrow> ptr raw i; v \<leftarrow> cell_get s p; aset vals i (dec v) }) [0..<n] vals"

definition encode_all ::
  "('r \<Rightarrow> u64 \<Rightarrow> u64) \<Rightarrow> nat \<Rightarrow> cell option list \<Rightarrow> 'r list \<Rightarrow> ('d, 'z) lib_scheme
   \<Rightarrow> ('d, 'z) lib_scheme option" where
  "encode_all enc n raw vals s =
     foldo (\<lambda>i s. do { p \<leftarrow> ptr raw i; v \<leftarrow> cell_get s p; x \<leftarrow> aget vals i; cell_set p (enc x v) s }) [0..<n] s"

definition batch_get ::
  "'d env \<Rightarrow> nat \<Rightarrow> (u64 \<Rightarrow> 'r) \<Rightarrow> nat \<Rightarrow> cell option list \<Rightarrow> 'r list \<Rightarrow> ('d, 'z) lib_scheme
   \<Rightarrow> ('r list \<times> ('d, 'z) lib_scheme) option" where
  "batch_get E b dec n raw vals s =
     do {
       (_, s) \<leftarrow> read_batch E b s;
       vals \<leftarrow> decode_all dec n raw s vals;
       Some (vals, s)
     }"

definition batch_set ::
  "'d env \<Rightarrow> nat \<Rightarrow> ('r \<Rightarrow> u64 \<Rightarrow> u64) \<Rightarrow> nat \<Rightarrow> cell option list \<Rightarrow> 'r list \<Rightarrow> ('d, 'z) lib_scheme
   \<Rightarrow> ('d, 'z) lib_scheme option" where
  "batch_set E b enc n raw vals s =
     do {
       (_, s) \<leftarrow> read_batch E b s;
       s \<leftarrow> encode_all enc n raw vals s;
       (_, s) \<leftarrow> write_batch E b s;
       Some s
     }"

section \<open>Running a batch of writes\<close>

type_synonym regs = "int \<Rightarrow> u64 \<Rightarrow> u64"

definition regs_of :: "(int \<Rightarrow> u64 \<Rightarrow> 'd \<Rightarrow> u64) \<Rightarrow> 'd \<Rightarrow> regs" where
  "regs_of rg d = (\<lambda>f a. rg f a d)"

definition reg_write :: "(nat \<Rightarrow> int) \<Rightarrow> msr_batch_op \<Rightarrow> regs \<Rightarrow> regs" where
  "reg_write fd x r =
     (\<lambda>f a. if f = fd (unat (op_cpu x)) \<and> a = ucast (op_msr x) then op_msrdata x else r f a)"

text \<open>
  The documented behaviour of the driver on operations whose read flag is clear: the data of
  each is stored in the register, in order.
\<close>

definition batch_writer ::
  "'d env \<Rightarrow> (int \<Rightarrow> bool) \<Rightarrow> (int \<Rightarrow> u64 \<Rightarrow> 'd \<Rightarrow> u64) \<Rightarrow> (nat \<Rightarrow> int) \<Rightarrow> bool" where
  "batch_writer E drv rg fd \<longleftrightarrow>
     (\<forall>f xs d. drv f \<longrightarrow> (\<forall>x\<in>set xs. op_isrdmsr x = 0 \<and> unat (op_cpu x) < NUM_DEVS (hw E)) \<longrightarrow>
        (\<exists>d'. os_ioctl E f xs d = (0, xs, d') \<and> regs_of rg d' = fold (reg_write fd) xs (regs_of rg d)))"

lemma compatibility_write_op:
  assumes "msr_files E good rg" "fds_ready E good s" "the_block k s = Some xs" "i < length xs"
    "unat (op_cpu (xs ! i)) < NUM_DEVS (hw E)"
  shows "\<exists>d. compatibility_op E BATCH_WRITE k i s = Some (s\<lparr>dev := d\<rparr>)
    \<and> regs_of rg d = reg_write (fd_of s) (xs ! i) (regs_of rg (dev s))"
proof -
  let ?x = "xs ! i"
  have "good (fd_of s (unat (op_cpu ?x)))" using fd_value_in [OF assms(2,5)] by blast
  then have "regs_of rg (snd (os_pwrite E (fd_of s (unat (op_cpu ?x))) (ucast (op_msr ?x)) (op_msrdata ?x) (dev s)))
      = reg_write (fd_of s) ?x (regs_of rg (dev s))"
    using assms(1) by (intro ext) (simp add: msr_files_def regs_of_def reg_write_def)
  then show ?thesis
    using write_idx_eq [OF assms(1,2,5), of "ucast (op_msr ?x)" "op_msrdata ?x"] assms(3,4)
    by (auto simp: compatibility_op_def)
qed

lemma compatibility_write_loop:
  assumes f: "msr_files E good rg" "fds_ready E good s"
    and b: "the_block k s = Some xs" "m \<le> length xs"
    and cpu: "\<And>i. i < m \<Longrightarrow> unat (op_cpu (xs ! i)) < NUM_DEVS (hw E)"
  shows "\<exists>d. foldo (compatibility_op E BATCH_WRITE k) [0..<m] s = Some (s\<lparr>dev := d\<rparr>)
    \<and> regs_of rg d = fold (reg_write (fd_of s)) (take m xs) (regs_of rg (dev s))"
proof -
  let ?P = "\<lambda>i t. \<exists>d. t = s\<lparr>dev := d\<rparr> \<and> regs_of rg d = fold (reg_write (fd_of s)) (take i xs) (regs_of rg (dev s))"
  have "\<exists>t. foldo (compatibility_op E BATCH_WRITE k) [0..<m] s = Some t \<and> ?P m t"
  proof (rule foldo_upt)
    show "?P 0 s" by (intro exI [of _ "dev s"]) simp
  next
    fix i t assume i: "i < m" and "?P i t"
    then obtain d where t: "t = s\<lparr>dev := d\<rparr>"
      and d: "regs_of rg d = fold (reg_write (fd_of s)) (take i xs) (regs_of rg (dev s))" by blast
    have "the_block k t = Some xs" "fds_ready E good t" using b(1) f(2) by (simp_all add: t the_block_def)
    from compatibility_write_op [OF f(1) this(2,1) _ cpu [OF i]] i b(2) obtain d' where
      "compatibility_op E BATCH_WRITE k i t = Some (t\<lparr>dev := d'\<rparr>)"
      "regs_of rg d' = reg_write (fd_of s) (xs ! i) (regs_of rg d)" by (auto simp: t)
    then show "\<exists>u. compatibility_op E BATCH_WRITE k i t = Some u \<and> ?P (Suc i) u"
      using i b(2) d by (auto simp: t take_Suc_conv_app_nth intro!: exI [of _ d'])
  qed
  then show ?thesis by blast
qed

lemma reg_write_same:
  "same_ops xs ys \<Longrightarrow> m \<le> length xs \<Longrightarrow> fold (reg_write fd) (take m ys) = fold (reg_write fd) (take m xs)"
proof (induction m)
  case 0
  then show ?case by simp
next
  case (Suc m)
  then show ?case
    by (simp add: take_Suc_conv_app_nth same_ops_def) (simp add: fun_eq_iff reg_write_def)
qed

lemma set_block_id: "the_block k s = Some xs \<Longrightarrow> set_block k xs s = s"
proof -
  assume "the_block k s = Some xs"
  then have "(blocks s)[k := Some xs] = blocks s"
    by (cases "k < length (blocks s)") (auto simp: the_block_def list_update_same_conv)
  then show ?thesis by (simp add: set_block_def)
qed

lemma write_batch_run:
  assumes "msr_files E good rg" "fds_ready E good s"
    and drv: "batch_driver E drv rg (fd_of s)" "batch_writer E drv rg (fd_of s)"
    and fd: "batchfd s \<le> 0 \<or> drv (batchfd s)"
    and r: "batch_ready n k s" "0 < numops (batch s ! n)" and xs: "the_block k s = Some xs"
    and cpu: "\<And>i. i < numops (batch s ! n) \<Longrightarrow> unat (op_cpu (xs ! i)) < NUM_DEVS (hw E)"
    and flags: "flags_agree (numops (batch s ! n)) xs"
  shows "\<exists>ys d. write_batch E n s = Some (0, set_block k ys (open_batch E s\<lparr>dev := d\<rparr>))
    \<and> same_ops xs ys \<and> flags_agree (numops (batch s ! n)) ys
    \<and> regs_of rg d = fold (reg_write (fd_of s)) (take (numops (batch s ! n)) xs) (regs_of rg (dev s))"
proof -
  let ?n = "numops (batch s ! n)"
  define s1 where "s1 = open_batch E s"
  have len: "?n \<le> length xs" and k: "n < length (batch s)" "ops (batch s ! n) = Some k"
    using r(1) xs by (auto simp: batch_ready_def the_block_def)
  have s1: "fds_ready E good s1" "batch_ready n k s1" "the_block k s1 = Some xs" "numops (batch s1 ! n) = ?n"
    using assms by (simp_all add: s1_def)
  have rg: "regs_of rg (dev s1) = regs_of rg (dev s)"
    by (simp add: regs_of_def s1_def fun_eq_iff open_batch_regs(1) [OF drv(1)])
  show ?thesis
  proof (cases "batchfd s1 < 0")
    case True
    from compatibility_write_loop [OF assms(1) s1(1,3) len cpu] obtain d where
      l: "foldo (compatibility_op E BATCH_WRITE k) [0..<?n] s1 = Some (s1\<lparr>dev := d\<rparr>)"
      and d: "regs_of rg d = fold (reg_write (fd_of s1)) (take ?n xs) (regs_of rg (dev s1))" by blast
    have "write_batch E n s = Some (0, s1\<lparr>dev := d\<rparr>)"
      using True k r(2) l batch_storage_ready [OF s1(2)]
      by (simp add: write_batch_def do_batch_op_def compatibility_batch_def flip: s1_def) (simp add: s1_def)
    moreover have "set_block k xs (s1\<lparr>dev := d\<rparr>) = s1\<lparr>dev := d\<rparr>"
      using s1(3) by (intro set_block_id) (simp add: the_block_def)
    ultimately have "write_batch E n s = Some (0, set_block k xs (s1\<lparr>dev := d\<rparr>))" by simp
    then show ?thesis using flags d rg unfolding s1_def by (intro exI conjI) simp_all
  next
    case False
    define ys where "ys = (if op_isrdmsr (xs ! 0) \<noteq> 0 then set_flags 0 ?n xs else xs)"
    have "ys = (if True \<and> op_isrdmsr (xs ! 0) \<noteq> 0 \<or> \<not> True \<and> op_isrdmsr (xs ! 0) = 0
               then set_flags (if True then 0 else 1) ?n xs else xs)"
      unfolding ys_def by simp
    note ys = flags_set [OF flags len r(2) this]
    have "unat (op_cpu x) < NUM_DEVS (hw E)" if "x \<in> set (take ?n ys)" for x
    proof -
      from same_ops_cpu [OF ys(1) len that] obtain i where "i < ?n" "op_cpu x = op_cpu (xs ! i)" by blast
      with cpu show ?thesis by simp
    qed
    with ys(3) have "\<forall>x\<in>set (take ?n ys). op_isrdmsr x = 0 \<and> unat (op_cpu x) < NUM_DEVS (hw E)" by blast
    then obtain d where io: "os_ioctl E (batchfd s1) (take ?n ys) (dev s1) = (0, take ?n ys, d)"
      and d: "regs_of rg d = fold (reg_write (fd_of s)) (take ?n ys) (regs_of rg (dev s1))"
      using drv(2) open_batch_regs(2) [OF drv(1) fd] False unfolding batch_writer_def s1_def by blast
    have "ioctl_batch E n BATCH_WRITE s1 = Some (0, set_block k (take ?n ys @ drop ?n ys) (s1\<lparr>dev := d\<rparr>))"
      using ioctl_batch_eq [OF s1(2) _ s1(3), of ys BATCH_WRITE, unfolded s1(4), OF r(2) _ io]
      by (simp add: ys_def)
    then have "write_batch E n s = Some (0, set_block k ys (s1\<lparr>dev := d\<rparr>))"
      using False by (simp add: write_batch_def do_batch_op_def flip: s1_def)
    then show ?thesis using ys(1,2) d reg_write_same [OF ys(1) len] rg
      unfolding s1_def by (intro exI conjI) (simp_all only:)
  qed
qed

section \<open>The interface: a batch as a window on registers\<close>

text \<open>
  \<open>cell s i\<close> is the data of the \<open>i\<close>-th operation, \<open>reg s i\<close> the register it stands for;
  \<open>frame\<close> is everything else.
\<close>

locale batch_regs =
  fixes ok :: "'s \<Rightarrow> bool"
    and m :: "'s \<Rightarrow> nat"
    and cell :: "'s \<Rightarrow> nat \<Rightarrow> u64"
    and reg :: "'s \<Rightarrow> nat \<Rightarrow> u64"
    and frame :: "'s \<Rightarrow> 'f"
    and rd :: "'s \<Rightarrow> (int \<times> 's) option"
    and wr :: "'s \<Rightarrow> (int \<times> 's) option"
    and put :: "nat \<Rightarrow> u64 \<Rightarrow> 's \<Rightarrow> 's option"
  assumes rd_ok: "ok s \<Longrightarrow> \<exists>s'. rd s = Some (0, s') \<and> ok s' \<and> m s' = m s \<and> frame s' = frame s
      \<and> (\<forall>i<m s. cell s' i = reg s i \<and> reg s' i = reg s i)"
    and wr_ok: "ok s \<Longrightarrow> \<exists>s'. wr s = Some (0, s') \<and> ok s' \<and> m s' = m s \<and> frame s' = frame s
      \<and> (\<forall>i<m s. cell s' i = cell s i \<and> reg s' i = cell s i)"
    and put_ok: "ok s \<Longrightarrow> i < m s \<Longrightarrow> \<exists>s'. put i v s = Some s' \<and> ok s' \<and> m s' = m s \<and> frame s' = frame s
      \<and> (\<forall>j<m s. cell s' j = (if j = i then v else cell s j) \<and> reg s' j = reg s j)"
begin

lemma put_all:
  assumes "ok s" "\<And>i. i < l \<Longrightarrow> idx i < m s" "inj_on idx {..<l}"
    and body: "\<And>i t. i < l \<Longrightarrow> ok t \<Longrightarrow> m t = m s \<Longrightarrow> frame t = frame s
      \<Longrightarrow> body i t = put (idx i) (f i (cell t (idx i))) t"
  shows "\<exists>t. foldo body [0..<l] s = Some t \<and> ok t \<and> m t = m s \<and> frame t = frame s
    \<and> (\<forall>j<m s. reg t j = reg s j) \<and> (\<forall>i<l. cell t (idx i) = f i (cell s (idx i)))
    \<and> (\<forall>j<m s. j \<notin> idx ` {..<l} \<longrightarrow> cell t j = cell s j)"
proof -
  let ?P = "\<lambda>n t. ok t \<and> m t = m s \<and> frame t = frame s \<and> (\<forall>j<m s. reg t j = reg s j)
      \<and> (\<forall>i<n. cell t (idx i) = f i (cell s (idx i)))
      \<and> (\<forall>j<m s. j \<notin> idx ` {..<n} \<longrightarrow> cell t j = cell s j)"
  have "\<exists>t. foldo body [0..<l] s = Some t \<and> ?P l t"
  proof (rule foldo_upt)
    show "?P 0 s" using assms(1) by simp
  next
    fix i t assume i: "i < l" and t: "?P i t"
    have new: "idx i \<notin> idx ` {..<i}" using inj_onD [OF assms(3)] i by fastforce
    then have c: "cell t (idx i) = cell s (idx i)" using t assms(2) [OF i] by blast
    obtain u where u: "put (idx i) (f i (cell s (idx i))) t = Some u" "ok u" "m u = m t" "frame u = frame t"
      "\<forall>j<m s. cell u j = (if j = idx i then f i (cell s (idx i)) else cell t j) \<and> reg u j = reg t j"
      using put_ok [of t "idx i" "f i (cell s (idx i))"] t assms(2) [OF i] by auto
    have "body i t = Some u" using body [OF i] t u(1) c by simp
    moreover have "cell u (idx j) = f j (cell s (idx j))" if "j < Suc i" for j
    proof (cases "j = i")
      case True
      then show ?thesis using u(5) assms(2) [OF i] by simp
    next
      case False
      with that have "j < i" by simp
      moreover from this have "idx j \<noteq> idx i" using new by (metis imageI lessThan_iff)
      ultimately show ?thesis using u(5) t assms(2) [of j] i by simp
    qed
    moreover have "cell u j = cell s j" if "j < m s" "j \<notin> idx ` {..<Suc i}" for j
      using that u(5) t by (auto simp: lessThan_Suc)
    ultimately show "\<exists>u. body i t = Some u \<and> ?P (Suc i) u" using t u by (intro exI [of _ u]) simp
  qed
  then show ?thesis .
qed

text \<open>Refresh, change the window entry by entry, store: the registers are changed accordingly.\<close>

lemma read_put_write:
  assumes "ok s" "\<And>i. i < l \<Longrightarrow> idx i < m s" "inj_on idx {..<l}"
    and body: "\<And>i t. i < l \<Longrightarrow> ok t \<Longrightarrow> m t = m s \<Longrightarrow> frame t = frame s
      \<Longrightarrow> body i t = put (idx i) (f i (cell t (idx i))) t"
  shows "\<exists>t. Option.bind (rd s) (\<lambda>(_, s). Option.bind (foldo body [0..<l] s)
        (\<lambda>s. Option.bind (wr s) (\<lambda>(_, s). Some s))) = Some t
    \<and> ok t \<and> m t = m s \<and> frame t = frame s \<and> (\<forall>i<l. reg t (idx i) = f i (reg s (idx i)))
    \<and> (\<forall>j<m s. j \<notin> idx ` {..<l} \<longrightarrow> reg t j = reg s j)"
proof -
  obtain s1 where s1: "rd s = Some (0, s1)" "ok s1" "m s1 = m s" "frame s1 = frame s"
    "\<forall>i<m s. cell s1 i = reg s i \<and> reg s1 i = reg s i"
    using rd_ok [OF assms(1)] by blast
  obtain s2 where s2: "foldo body [0..<l] s1 = Some s2" "ok s2" "m s2 = m s1" "frame s2 = frame s1"
    "\<forall>i<l. cell s2 (idx i) = f i (cell s1 (idx i))"
    "\<forall>j<m s1. j \<notin> idx ` {..<l} \<longrightarrow> cell s2 j = cell s1 j"
    using put_all [OF s1(2), of l idx body f] assms(2,3) body s1(3,4) by auto
  obtain s3 where s3: "wr s2 = Some (0, s3)" "ok s3" "m s3 = m s2" "frame s3 = frame s2"
    "\<forall>i<m s2. reg s3 i = cell s2 i"
    using wr_ok [OF s2(2)] by blast
  have "\<forall>i<l. reg s3 (idx i) = f i (reg s (idx i))"
    using s3(5) s2(3,5) s1(3,5) assms(2) by simp
  moreover have "\<forall>j<m s. j \<notin> idx ` {..<l} \<longrightarrow> reg s3 j = reg s j"
    using s3(5) s2(3,6) s1(3,5) by simp
  ultimately show ?thesis using s1 s2 s3 by auto
qed

end

section \<open>The provider: read_batch and write_batch\<close>

text \<open>The operating system gives access to the registers, one by one and in batches.\<close>

definition batch_env ::
  "'d env \<Rightarrow> (int \<Rightarrow> bool) \<Rightarrow> (int \<Rightarrow> bool) \<Rightarrow> (int \<Rightarrow> u64 \<Rightarrow> 'd \<Rightarrow> u64) \<Rightarrow> (nat \<Rightarrow> int) \<Rightarrow> bool" where
  "batch_env E good drv rg fd \<longleftrightarrow>
     msr_files E good rg \<and> batch_driver E drv rg fd \<and> batch_writer E drv rg fd"

definition reg_key :: "(nat \<Rightarrow> int) \<Rightarrow> msr_batch_op \<Rightarrow> int \<times> u64" where
  "reg_key fd x = (fd (unat (op_cpu x)), ucast (op_msr x))"

text \<open>Batch \<open>n\<close> is loaded and can be run: no register occurs twice in it.\<close>

definition batch_live ::
  "'d env \<Rightarrow> (int \<Rightarrow> bool) \<Rightarrow> (int \<Rightarrow> bool) \<Rightarrow> (int \<Rightarrow> u64 \<Rightarrow> 'd \<Rightarrow> u64) \<Rightarrow> nat \<Rightarrow> nat
   \<Rightarrow> ('d, 'z) lib_scheme \<Rightarrow> bool" where
  "batch_live E good drv rg n k s \<longleftrightarrow>
     batch_env E good drv rg (fd_of s) \<and> fds_ready E good s \<and> (batchfd s \<le> 0 \<or> drv (batchfd s))
     \<and> batch_ready n k s \<and> 0 < numops (batch s ! n)
     \<and> (\<forall>i<numops (batch s ! n). unat (op_cpu (op_at k s i)) < NUM_DEVS (hw E))
     \<and> flags_agree (numops (batch s ! n)) (the (blocks s ! k))
     \<and> distinct (map (reg_key (fd_of s)) (ops_of n k s))"

definition op_data :: "nat \<Rightarrow> ('d, 'z) lib_scheme \<Rightarrow> nat \<Rightarrow> u64" where
  "op_data k s i = op_msrdata (op_at k s i)"

definition op_reg ::
  "(int \<Rightarrow> u64 \<Rightarrow> 'd \<Rightarrow> u64) \<Rightarrow> nat \<Rightarrow> ('d, 'z) lib_scheme \<Rightarrow> nat \<Rightarrow> u64" where
  "op_reg rg k s i = (case reg_key (fd_of s) (op_at k s i) of (f, a) \<Rightarrow> rg f a (dev s))"

text \<open>
  What running a batch or writing into its cells leaves alone: the components' data, the
  topology, the descriptors, the arrays of the batches, the other batches, the registers the
  operations stand for, and the content of all other registers.
\<close>

definition batch_frame ::
  "(int \<Rightarrow> u64 \<Rightarrow> 'd \<Rightarrow> u64) \<Rightarrow> nat \<Rightarrow> nat \<Rightarrow> ('d, 'z) lib_scheme
   \<Rightarrow> 'z \<times> topo \<times> (nat \<Rightarrow> int) \<times> msr_batch_array list \<times> nat list \<times> msr_batch_op list option list
      \<times> (int \<times> u64) list \<times> regs" where
  "batch_frame rg n k s =
     (let keys = map (reg_key (fd_of s)) (ops_of n k s) in
      (lib.more s, g_topo_list s, fd_of s, batch s, bsize s, (blocks s)[k := None], keys,
       (\<lambda>f a. if (f, a) \<in> set keys then 0 else rg f a (dev s))))"

text \<open>A state that differs from \<open>s\<close> only in the driver, the machine and the block of batch \<open>n\<close>.\<close>

lemma batch_live_step:
  assumes live: "batch_live E good drv rg n k s" and xs: "the_block k s = Some xs"
    and t: "lib.more t = lib.more s" "g_topo_list t = g_topo_list s" "fd_init t = fd_init s"
      "devices t = devices s" "file_descriptors t = file_descriptors s" "batch t = batch s"
      "bsize t = bsize s" "arrsize t = arrsize s" "batch_null t = batch_null s"
      "blocks t = (blocks s)[k := Some ys]" "batchfd t \<le> 0 \<or> drv (batchfd t)"
    and ys: "length ys = length xs" "flags_agree (numops (batch s ! n)) ys"
      "\<And>i. i < numops (batch s ! n) \<Longrightarrow> op_cpu (ys ! i) = op_cpu (xs ! i) \<and> op_msr (ys ! i) = op_msr (xs ! i)"
    and rg: "\<And>f a. (f, a) \<notin> set (map (reg_key (fd_of s)) (ops_of n k s)) \<Longrightarrow> rg f a (dev t) = rg f a (dev s)"
  shows "batch_live E good drv rg n k t" "batch_frame rg n k t = batch_frame rg n k s"
    "\<And>i. i < numops (batch s ! n) \<Longrightarrow> reg_key (fd_of t) (op_at k t i) = reg_key (fd_of s) (op_at k s i)"
    "\<And>i. op_at k t i = ys ! i"
proof -
  let ?n = "numops (batch s ! n)"
  have k: "k < length (blocks s)" "blocks s ! k = Some xs" "?n \<le> length xs" "batch_ready n k s"
    using live xs by (auto simp: batch_live_def batch_ready_def the_block_def)
  have fd: "fd_of t = fd_of s" by (simp add: fd_of_def fun_eq_iff t)
  have at: "op_at k t i = ys ! i" "op_at k s i = xs ! i" for i
    using k by (simp_all add: op_at_def t)
  then show "\<And>i. op_at k t i = ys ! i" by blast
  show key: "reg_key (fd_of t) (op_at k t i) = reg_key (fd_of s) (op_at k s i)" if "i < ?n" for i
    using ys(3) [OF that] by (simp add: reg_key_def fd at)
  have ops: "ops_of n k t = take ?n ys" "ops_of n k s = take ?n xs"
    using k by (simp_all add: ops_of_def t)
  have keys: "map (reg_key (fd_of t)) (ops_of n k t) = map (reg_key (fd_of s)) (ops_of n k s)"
    using key k(3) ys(1) by (intro nth_equalityI) (simp_all add: ops at)
  show "batch_frame rg n k t = batch_frame rg n k s"
    unfolding batch_frame_def Let_def keys using rg by (auto simp: t fd intro!: ext)
  have "fds_ready E good t" using live by (simp add: batch_live_def fds_ready_def t)
  moreover have "batch_ready n k t" using k ys(1) by (simp add: batch_ready_def t)
  moreover have "unat (op_cpu (op_at k t i)) < NUM_DEVS (hw E)" if "i < ?n" for i
    using live ys(3) [OF that] that by (simp add: batch_live_def at)
  ultimately show "batch_live E good drv rg n k t"
    using live t(11) ys(2) k unfolding batch_live_def keys by (simp add: t fd)
qed

lemma flags_agree_cong:
  assumes "flags_agree m ys" "0 < m" "\<And>i. i < m \<Longrightarrow> op_isrdmsr (zs ! i) = op_isrdmsr (ys ! i)"
  shows "flags_agree m zs"
  unfolding flags_agree_def using assms(3) flags_agreeD [OF assms(1)] assms(2) by metis

lemma open_batch_fields [simp]:
  "fd_init (open_batch E s) = fd_init s" "devices (open_batch E s) = devices s"
  "file_descriptors (open_batch E s) = file_descriptors s" "arrsize (open_batch E s) = arrsize s"
  "batch_null (open_batch E s) = batch_null s"
  by (simp_all add: open_batch_if)

lemma fold_reg_write_other:
  "(f, a) \<notin> set (map (reg_key fd) xs) \<Longrightarrow> fold (reg_write fd) xs r f a = r f a"
  by (induction xs arbitrary: r) (auto simp: reg_key_def reg_write_def)

lemma fold_reg_write:
  assumes "distinct (map (reg_key fd) xs)" "i < length xs" "reg_key fd (xs ! i) = (f, a)"
  shows "fold (reg_write fd) xs r f a = op_msrdata (xs ! i)"
  using assms
proof (induction xs arbitrary: r i)
  case Nil
  then show ?case by simp
next
  case (Cons x xs)
  show ?case
  proof (cases i)
    case 0
    with Cons.prems(1,3) have "(f, a) \<notin> set (map (reg_key fd) xs)" by auto
    with 0 Cons.prems(3) show ?thesis
      by (simp add: fold_reg_write_other) (simp add: reg_write_def reg_key_def)
  next
    case (Suc j)
    with Cons show ?thesis by simp
  qed
qed

lemma batch_live_block:
  assumes "batch_live E good drv rg n k s"
  obtains xs where "the_block k s = Some xs" "numops (batch s ! n) \<le> length xs" "k < length (blocks s)"
    "n < length (batch s)" "\<And>i. op_at k s i = xs ! i" "ops_of n k s = take (numops (batch s ! n)) xs"
    "flags_agree (numops (batch s ! n)) xs" "0 < numops (batch s ! n)"
    "\<And>i. i < numops (batch s ! n) \<Longrightarrow> unat (op_cpu (xs ! i)) < NUM_DEVS (hw E)"
  using assms that by (auto simp: batch_live_def batch_ready_def the_block_def op_at_def ops_of_def)

lemma read_batch_live:
  assumes live: "batch_live E good drv rg n k s"
  shows "\<exists>s'. read_batch E n s = Some (0, s') \<and> batch_live E good drv rg n k s'
    \<and> numops (batch s' ! n) = numops (batch s ! n) \<and> batch_frame rg n k s' = batch_frame rg n k s
    \<and> (\<forall>i<numops (batch s ! n). op_data k s' i = op_reg rg k s i \<and> op_reg rg k s' i = op_reg rg k s i)"
proof -
  let ?n = "numops (batch s ! n)" and ?s1 = "open_batch E s"
  obtain xs where xs: "the_block k s = Some xs" "?n \<le> length xs" "k < length (blocks s)"
    and at: "\<And>i. op_at k s i = xs ! i" and fl: "flags_agree ?n xs" and pos: "0 < ?n"
    and cpu: "\<And>i. i < ?n \<Longrightarrow> unat (op_cpu (xs ! i)) < NUM_DEVS (hw E)"
    using batch_live_block [OF live] by metis
  have e: "msr_files E good rg" "batch_driver E drv rg (fd_of s)" "fds_ready E good s"
    "batchfd s \<le> 0 \<or> drv (batchfd s)" "batch_ready n k s"
    using live by (simp_all add: batch_live_def batch_env_def)
  from read_batch_run [OF e(1,3,2,4,5) pos xs(1) cpu fl] obtain ys where
    ys: "same_ops xs ys" "flags_agree ?n ys" and rd: "read_batch E n s = Some (0, set_block k
        (map (fetched rg (fd_of s) (dev ?s1)) (take ?n ys) @ drop ?n ys) ?s1)" by blast
  define zs where "zs = map (fetched rg (fd_of s) (dev ?s1)) (take ?n ys) @ drop ?n ys"
  have len: "length ys = length xs" using ys(1) by (simp add: same_ops_def)
  have zs: "zs ! i = fetched rg (fd_of s) (dev ?s1) (ys ! i)" if "i < ?n" for i
    using that xs(2) len by (simp add: zs_def nth_append)
  have z: "length zs = length xs" "flags_agree ?n zs"
    "\<And>i. i < ?n \<Longrightarrow> op_cpu (zs ! i) = op_cpu (xs ! i) \<and> op_msr (zs ! i) = op_msr (xs ! i)"
    using flags_agree_cong [OF ys(2) pos, of zs] xs(2) len ys(1) zs
    by (simp_all add: fetched_def same_ops_def) (simp add: zs_def)
  have regs: "rg f a (dev ?s1) = rg f a (dev s)" for f a by (rule open_batch_regs(1) [OF e(2)])
  let ?t = "set_block k zs ?s1"
  have "batchfd ?t \<le> 0 \<or> drv (batchfd ?t)" using open_batch_regs(2) [OF e(2,4)] by auto
  then have st: "batch_live E good drv rg n k ?t" "batch_frame rg n k ?t = batch_frame rg n k s"
    and key: "\<And>i. i < ?n \<Longrightarrow> reg_key (fd_of ?t) (op_at k ?t i) = reg_key (fd_of s) (op_at k s i)"
    and at': "\<And>i. op_at k ?t i = zs ! i"
    using batch_live_step [OF live xs(1), of ?t zs] z regs by (simp_all add: set_block_def)
  have "op_data k ?t i = op_reg rg k s i \<and> op_reg rg k ?t i = op_reg rg k s i" if "i < ?n" for i
    using key [OF that] zs [OF that] that ys(1) xs(2) regs
    by (simp add: op_data_def op_reg_def at' at fetched_def same_ops_def reg_key_def)
  with rd st show ?thesis by (intro exI [of _ ?t]) (simp flip: zs_def)
qed

lemma write_batch_live:
  assumes live: "batch_live E good drv rg n k s"
  shows "\<exists>s'. write_batch E n s = Some (0, s') \<and> batch_live E good drv rg n k s'
    \<and> numops (batch s' ! n) = numops (batch s ! n) \<and> batch_frame rg n k s' = batch_frame rg n k s
    \<and> (\<forall>i<numops (batch s ! n). op_data k s' i = op_data k s i \<and> op_reg rg k s' i = op_data k s i)"
proof -
  let ?n = "numops (batch s ! n)" and ?s1 = "open_batch E s"
  obtain xs where xs: "the_block k s = Some xs" "?n \<le> length xs" "k < length (blocks s)"
    and at: "\<And>i. op_at k s i = xs ! i" and fl: "flags_agree ?n xs" and pos: "0 < ?n"
    and cpu: "\<And>i. i < ?n \<Longrightarrow> unat (op_cpu (xs ! i)) < NUM_DEVS (hw E)" and ops: "ops_of n k s = take ?n xs"
    using batch_live_block [OF live] by metis
  have e: "msr_files E good rg" "batch_driver E drv rg (fd_of s)" "batch_writer E drv rg (fd_of s)"
    "fds_ready E good s" "batchfd s \<le> 0 \<or> drv (batchfd s)" "batch_ready n k s"
    using live by (simp_all add: batch_live_def batch_env_def)
  have dist: "distinct (map (reg_key (fd_of s)) (take ?n xs))"
    using live by (simp add: batch_live_def flip: ops)
  from write_batch_run [OF e(1,4,2,3,5,6) pos xs(1) cpu fl] obtain ys d where
    ys: "same_ops xs ys" "flags_agree ?n ys" and wr: "write_batch E n s = Some (0, set_block k ys (?s1\<lparr>dev := d\<rparr>))"
    and d: "regs_of rg d = fold (reg_write (fd_of s)) (take ?n xs) (regs_of rg (dev s))" by blast
  let ?t = "set_block k ys (?s1\<lparr>dev := d\<rparr>)"
  have y: "length ys = length xs"
    "\<And>i. i < ?n \<Longrightarrow> op_cpu (ys ! i) = op_cpu (xs ! i) \<and> op_msr (ys ! i) = op_msr (xs ! i)"
    "\<And>i. i < ?n \<Longrightarrow> op_msrdata (ys ! i) = op_msrdata (xs ! i)"
    using ys(1) xs(2) by (simp_all add: same_ops_def)
  have rgd: "rg f a d = fold (reg_write (fd_of s)) (take ?n xs) (regs_of rg (dev s)) f a" for f a
    using d by (simp add: regs_of_def fun_eq_iff)
  have other: "rg f a (dev ?t) = rg f a (dev s)" if "(f, a) \<notin> set (map (reg_key (fd_of s)) (ops_of n k s))" for f a
    using fold_reg_write_other [OF that, of "regs_of rg (dev s)"] by (simp add: rgd ops) (simp add: regs_of_def)
  have "batchfd ?t \<le> 0 \<or> drv (batchfd ?t)"
    using open_batch_regs(2) [OF e(2,5)] by (auto simp: set_block_def)
  then have st: "batch_live E good drv rg n k ?t" "batch_frame rg n k ?t = batch_frame rg n k s"
    and key: "\<And>i. i < ?n \<Longrightarrow> reg_key (fd_of ?t) (op_at k ?t i) = reg_key (fd_of s) (op_at k s i)"
    and at': "\<And>i. op_at k ?t i = ys ! i"
    using batch_live_step [OF live xs(1), of ?t ys] y(1,2) ys(2) other by (simp_all add: set_block_def)
  have "op_data k ?t i = op_data k s i \<and> op_reg rg k ?t i = op_data k s i" if "i < ?n" for i
  proof -
    obtain f a where fa: "reg_key (fd_of s) (xs ! i) = (f, a)" by fastforce
    from fold_reg_write [OF dist, of i f a "regs_of rg (dev s)"] that xs(2) fa
    have "rg f a d = op_msrdata (xs ! i)" by (simp add: rgd)
    then show ?thesis using key [OF that] y(3) [OF that] fa by (simp add: op_data_def op_reg_def at' at)
  qed
  with wr st show ?thesis by (intro exI [of _ ?t]) simp
qed

lemma cell_set_live:
  assumes live: "batch_live E good drv rg n k s" and i: "i < numops (batch s ! n)"
  shows "\<exists>s'. cell_set (k, i) v s = Some s' \<and> batch_live E good drv rg n k s'
    \<and> numops (batch s' ! n) = numops (batch s ! n) \<and> batch_frame rg n k s' = batch_frame rg n k s
    \<and> (\<forall>j<numops (batch s ! n). op_data k s' j = (if j = i then v else op_data k s j)
         \<and> op_reg rg k s' j = op_reg rg k s j)"
proof -
  let ?n = "numops (batch s ! n)"
  obtain xs where xs: "the_block k s = Some xs" "?n \<le> length xs" "k < length (blocks s)"
    and at: "\<And>i. op_at k s i = xs ! i" and fl: "flags_agree ?n xs" and pos: "0 < ?n"
    using batch_live_block [OF live] by metis
  define ys where "ys = xs[i := (xs ! i)\<lparr>op_msrdata := v\<rparr>]"
  let ?t = "set_block k ys s"
  have y: "length ys = length xs"
    "\<And>j. j < ?n \<Longrightarrow> op_cpu (ys ! j) = op_cpu (xs ! j) \<and> op_msr (ys ! j) = op_msr (xs ! j)
       \<and> op_isrdmsr (ys ! j) = op_isrdmsr (xs ! j)
       \<and> op_msrdata (ys ! j) = (if j = i then v else op_msrdata (xs ! j))"
    using xs(2) i by (auto simp: ys_def nth_list_update)
  have "flags_agree ?n ys" by (rule flags_agree_cong [OF fl pos]) (simp add: y)
  moreover have "batchfd s \<le> 0 \<or> drv (batchfd s)" using live by (simp add: batch_live_def)
  ultimately have st: "batch_live E good drv rg n k ?t" "batch_frame rg n k ?t = batch_frame rg n k s"
    and key: "\<And>i. i < ?n \<Longrightarrow> reg_key (fd_of ?t) (op_at k ?t i) = reg_key (fd_of s) (op_at k s i)"
    and at': "\<And>i. op_at k ?t i = ys ! i"
    using batch_live_step [OF live xs(1), of ?t ys] y by (simp_all add: set_block_def)
  have "cell_set (k, i) v s = Some ?t" using xs(1,2) i by (simp add: cell_set_def ys_def)
  moreover have "op_reg rg k ?t j = op_reg rg k s j" if "j < ?n" for j
    using key [OF that] by (simp add: op_reg_def)
  ultimately show ?thesis using st y(2) by (intro exI [of _ ?t]) (simp add: op_data_def at' at)
qed

interpretation window: batch_regs "batch_live E good drv rg n k" "\<lambda>s. numops (batch s ! n)" "op_data k"
    "op_reg rg k" "batch_frame rg n k" "read_batch E n" "write_batch E n" "\<lambda>i. cell_set (k, i)"
  for E good drv rg n k
  by unfold_locales (rule read_batch_live write_batch_live cell_set_live; assumption)+

lemma batch_frameD:
  assumes "batch_frame rg n k t = batch_frame rg n k s"
  shows "lib.more t = lib.more s" "g_topo_list t = g_topo_list s" "fd_of t = fd_of s" "batch t = batch s"
    "bsize t = bsize s" "(blocks t)[k := None] = (blocks s)[k := None]"
    and "map (reg_key (fd_of t)) (ops_of n k t) = map (reg_key (fd_of s)) (ops_of n k s)"
    and "(f, a) \<notin> set (map (reg_key (fd_of s)) (ops_of n k s)) \<Longrightarrow> rg f a (dev t) = rg f a (dev s)"
proof -
  let ?keys = "\<lambda>u. map (reg_key (fd_of u)) (ops_of n k u)"
  have *: "lib.more t = lib.more s \<and> g_topo_list t = g_topo_list s \<and> fd_of t = fd_of s \<and> batch t = batch s
      \<and> bsize t = bsize s \<and> (blocks t)[k := None] = (blocks s)[k := None] \<and> ?keys t = ?keys s
      \<and> (\<lambda>f a. if (f, a) \<in> set (?keys t) then 0 else rg f a (dev t))
        = (\<lambda>f a. if (f, a) \<in> set (?keys s) then 0 else rg f a (dev s))"
    using assms unfolding batch_frame_def Let_def prod.inject by blast
  then show "lib.more t = lib.more s" "g_topo_list t = g_topo_list s" "fd_of t = fd_of s" "batch t = batch s"
    "bsize t = bsize s" "(blocks t)[k := None] = (blocks s)[k := None]" "?keys t = ?keys s"
    by blast+
  show "rg f a (dev t) = rg f a (dev s)" if n: "(f, a) \<notin> set (?keys s)"
  proof -
    from * have k: "?keys t = ?keys s" and r: "(\<lambda>f a. if (f, a) \<in> set (?keys t) then 0 else rg f a (dev t))
        = (\<lambda>f a. if (f, a) \<in> set (?keys s) then 0 else rg f a (dev s))" by blast+
    from fun_cong [OF fun_cong [OF r, of f], of a] show ?thesis
      unfolding k if_not_P [OF n] .
  qed
qed

text \<open>C16: after a successful \<open>write_batch\<close> the register of every operation holds the data of the
  operation, and every other register of the machine what it held before.\<close>

theorem write_batch_stores:
  assumes "batch_live E good drv rg n k s"
  shows "\<exists>s'. write_batch E n s = Some (0, s')
    \<and> (\<forall>i<numops (batch s ! n). \<forall>f a. reg_key (fd_of s) (op_at k s i) = (f, a) \<longrightarrow>
          rg f a (dev s') = op_msrdata (op_at k s i))
    \<and> (\<forall>f a. (f, a) \<notin> set (map (reg_key (fd_of s)) (ops_of n k s)) \<longrightarrow> rg f a (dev s') = rg f a (dev s))"
proof -
  obtain s' where w: "write_batch E n s = Some (0, s')" "batch_live E good drv rg n k s'"
    "batch_frame rg n k s' = batch_frame rg n k s" "numops (batch s' ! n) = numops (batch s ! n)"
    "\<forall>i<numops (batch s ! n). op_data k s' i = op_data k s i \<and> op_reg rg k s' i = op_data k s i"
    using window.wr_ok [OF assms] by blast
  note fr = batch_frameD [OF w(3)]
  have "reg_key (fd_of s') (op_at k s' i) = reg_key (fd_of s) (op_at k s i)" if "i < numops (batch s ! n)" for i
  proof -
    obtain xs ys where "ops_of n k s = take (numops (batch s ! n)) xs" "\<And>i. op_at k s i = xs ! i"
      "numops (batch s ! n) \<le> length xs" "ops_of n k s' = take (numops (batch s ! n)) ys"
      "\<And>i. op_at k s' i = ys ! i" "numops (batch s ! n) \<le> length ys"
      using batch_live_block [OF assms] batch_live_block [OF w(2)] unfolding w(4) by metis
    with arg_cong [OF fr(7), of "\<lambda>xs. xs ! i"] that show ?thesis by simp
  qed
  with w(5) have "rg f a (dev s') = op_msrdata (op_at k s i)"
    if "i < numops (batch s ! n)" "reg_key (fd_of s) (op_at k s i) = (f, a)" for i f a
    using that by (force simp: op_reg_def op_data_def)
  with w(1) fr(8) show ?thesis by (intro exI [of _ s']) blast
qed

section \<open>Getters and setters over the window\<close>

text \<open>The pointers \<open>raw\<close> lead to \<open>l\<close> consecutive operations, as the loaders leave them.\<close>

definition wired :: "nat \<Rightarrow> nat \<Rightarrow> nat \<Rightarrow> cell option list \<Rightarrow> bool" where
  "wired k n0 l raw \<longleftrightarrow> l \<le> length raw \<and> (\<forall>i<l. raw ! i = Some (k, n0 + i))"

lemma ptr_wired: "wired k n0 l raw \<Longrightarrow> i < l \<Longrightarrow> ptr raw i = Some (k, n0 + i)"
  by (simp add: wired_def ptr_def)

lemma cell_get_live:
  assumes "batch_live E good drv rg n k s" "i < numops (batch s ! n)"
  shows "cell_get s (k, i) = Some (op_data k s i)"
proof -
  obtain xs where "the_block k s = Some xs" "numops (batch s ! n) \<le> length xs" "\<And>i. op_at k s i = xs ! i"
    using batch_live_block [OF assms(1)] by metis
  with assms(2) show ?thesis by (simp add: cell_get_def op_data_def)
qed

lemma batch_set_live:
  assumes live: "batch_live E good drv rg n k s" and raw: "wired k n0 l raw"
    and l: "n0 + l \<le> numops (batch s ! n)" "l \<le> length vals"
  shows "\<exists>t. batch_set E n enc l raw vals s = Some t \<and> batch_live E good drv rg n k t
    \<and> numops (batch t ! n) = numops (batch s ! n) \<and> batch_frame rg n k t = batch_frame rg n k s
    \<and> (\<forall>i<l. op_reg rg k t (n0 + i) = enc (vals ! i) (op_reg rg k s (n0 + i)))
    \<and> (\<forall>j<numops (batch s ! n). j \<notin> {n0..<n0 + l} \<longrightarrow> op_reg rg k t j = op_reg rg k s j)"
proof -
  let ?body = "\<lambda>i s. do { p \<leftarrow> ptr raw i; v \<leftarrow> cell_get s p; x \<leftarrow> aget vals i; cell_set p (enc x v) s }"
  have body: "?body i t = cell_set (k, n0 + i) (enc (vals ! i) (op_data k t (n0 + i))) t"
    if "i < l" "batch_live E good drv rg n k t" "numops (batch t ! n) = numops (batch s ! n)"
      "batch_frame rg n k t = batch_frame rg n k s" for i t
    using that l ptr_wired [OF raw that(1)] cell_get_live [OF that(2), of "n0 + i"] by simp
  have img: "(\<lambda>i. n0 + i) ` {..<l} = {n0..<n0 + l}"
    using image_add_atLeastLessThan [of n0 0 l] by (simp add: atLeast0LessThan add.commute)
  have idx: "n0 + i < numops (batch s ! n)" if "i < l" for i using that l(1) by simp
  have "inj_on (\<lambda>i. n0 + i) {..<l}" by (simp add: inj_on_def)
  from window.read_put_write [OF live idx this body] show ?thesis
    unfolding batch_set_def encode_all_def img .
qed

lemma decode_all_live:
  assumes "batch_live E good drv rg n k s" "wired k n0 l raw"
    and "n0 + l \<le> numops (batch s ! n)" "l \<le> length vals"
  shows "decode_all dec l raw s vals = Some (map (\<lambda>i. dec (op_data k s (n0 + i))) [0..<l] @ drop l vals)"
proof -
  let ?f = "\<lambda>i. dec (op_data k s (n0 + i))"
  have "\<exists>vs. decode_all dec l raw s vals = Some vs \<and> vs = map ?f [0..<l] @ drop l vals"
    unfolding decode_all_def
  proof (rule foldo_upt)
    show "vals = map ?f [0..<0] @ drop 0 vals" by simp
  next
    fix i vs assume i: "i < l" and vs: "vs = map ?f [0..<i] @ drop i vals"
    have "aset vs i (?f i) = Some (map ?f [0..<Suc i] @ drop (Suc i) vals)"
      using i assms(4) by (simp add: vs list_update_append Cons_nth_drop_Suc [symmetric])
    then show "\<exists>t. do { p \<leftarrow> ptr raw i; v \<leftarrow> cell_get s p; aset vs i (dec v) } = Some t
        \<and> t = map ?f [0..<Suc i] @ drop (Suc i) vals"
      using ptr_wired [OF assms(2) i] cell_get_live [OF assms(1), of "n0 + i"] assms(3) i by simp
  qed
  then show ?thesis by simp
qed

lemma batch_get_live:
  assumes live: "batch_live E good drv rg n k s" and raw: "wired k n0 l raw"
    and l: "n0 + l \<le> numops (batch s ! n)" "l \<le> length vals"
  shows "\<exists>t. batch_get E n dec l raw vals s
      = Some (map (\<lambda>i. dec (op_reg rg k s (n0 + i))) [0..<l] @ drop l vals, t)
    \<and> batch_live E good drv rg n k t \<and> numops (batch t ! n) = numops (batch s ! n)
    \<and> batch_frame rg n k t = batch_frame rg n k s
    \<and> (\<forall>i<numops (batch s ! n). op_reg rg k t i = op_reg rg k s i)"
proof -
  obtain t where t: "read_batch E n s = Some (0, t)" "batch_live E good drv rg n k t"
    "numops (batch t ! n) = numops (batch s ! n)" "batch_frame rg n k t = batch_frame rg n k s"
    and c: "\<forall>i<numops (batch s ! n). op_data k t i = op_reg rg k s i \<and> op_reg rg k t i = op_reg rg k s i"
    using window.rd_ok [OF live] by blast
  have "map (\<lambda>i. dec (op_data k t (n0 + i))) [0..<l] = map (\<lambda>i. dec (op_reg rg k s (n0 + i))) [0..<l]"
    using c l(1) by simp
  with decode_all_live [OF t(2) raw, of vals dec] l t(3)
  have "batch_get E n dec l raw vals s
      = Some (map (\<lambda>i. dec (op_reg rg k s (n0 + i))) [0..<l] @ drop l vals, t)"
    by (simp add: batch_get_def t(1))
  with t c show ?thesis by blast
qed

section \<open>The interface: a register codec\<close>

text \<open>
  \<open>dec\<close> reads the fields of a register, \<open>enc\<close> changes a register by the fields: what a
  setter writes, the getter reads back, and the other bits stay.
\<close>

locale reg_codec =
  fixes dec :: "u64 \<Rightarrow> 'r"
    and enc :: "'r \<Rightarrow> u64 \<Rightarrow> u64"
    and valid :: "'r \<Rightarrow> bool"
    and fields :: "'r \<Rightarrow> 'f"
    and rest :: "u64 \<Rightarrow> 'g"
  assumes dec_enc: "valid r \<Longrightarrow> fields (dec (enc r v)) = fields r"
    and kept: "valid r \<Longrightarrow> rest (enc r v) = rest v"
begin

lemma set_get:
  assumes live: "batch_live E good drv rg n k s" and raw: "wired k n0 l raw"
    and l: "n0 + l \<le> numops (batch s ! n)" "l \<le> length vals" "l \<le> length vals0"
    and ok: "\<And>i. i < l \<Longrightarrow> valid (vals ! i)"
  shows "\<exists>t vals' u. batch_set E n enc l raw vals s = Some t \<and> batch_get E n dec l raw vals0 t = Some (vals', u)
    \<and> (\<forall>i<l. fields (vals' ! i) = fields (vals ! i)
          \<and> rest (op_reg rg k u (n0 + i)) = rest (op_reg rg k s (n0 + i)))
    \<and> batch_live E good drv rg n k u \<and> batch_frame rg n k u = batch_frame rg n k s
    \<and> numops (batch u ! n) = numops (batch s ! n)"
proof -
  obtain t where t: "batch_set E n enc l raw vals s = Some t" "batch_live E good drv rg n k t"
    "numops (batch t ! n) = numops (batch s ! n)" "batch_frame rg n k t = batch_frame rg n k s"
    and r: "\<forall>i<l. op_reg rg k t (n0 + i) = enc (vals ! i) (op_reg rg k s (n0 + i))"
    using batch_set_live [OF live raw l(1,2)] by blast
  obtain u where u: "batch_get E n dec l raw vals0 t
      = Some (map (\<lambda>i. dec (op_reg rg k t (n0 + i))) [0..<l] @ drop l vals0, u)"
    "batch_live E good drv rg n k u" "numops (batch u ! n) = numops (batch t ! n)"
    "batch_frame rg n k u = batch_frame rg n k t"
    and ru: "\<forall>i<numops (batch t ! n). op_reg rg k u i = op_reg rg k t i"
    using batch_get_live [OF t(2) raw, of vals0] l t(3) by auto
  have "\<forall>i<l. rest (op_reg rg k u (n0 + i)) = rest (op_reg rg k s (n0 + i))"
    using ru r ok kept l(1) t(3) by simp
  moreover have "\<forall>i<l. fields ((map (\<lambda>i. dec (op_reg rg k t (n0 + i))) [0..<l] @ drop l vals0) ! i)
      = fields (vals ! i)"
    using r ok dec_enc by (simp add: nth_append)
  ultimately show ?thesis using t u by auto
qed

end

end
