(* ===== verification/Reg_Array.thy ===== *)
theory Reg_Array
  imports Msr_Batch_IO
begin

text \<open>
  The data structures of the register components, e.g. \<open>struct therm_stat\<close> of
  \<open>include/msr_thermal.h\<close>: an array \<open>raw\<close> of pointers into a batch and one array per field,
  all of the same length and allocated together.  The field arrays are one array of records.
  Their initialisation is shared: allocate the arrays, allocate the batch, load the register.
\<close>

record 'r reg_array =
  raw :: "cell option list"
  vals :: "'r list"

text \<open>\<open>malloc\<close> leaves the field arrays with arbitrary content \<open>v0\<close>.\<close>

definition init_reg_array ::
  "(u64 \<Rightarrow> cell option list option \<Rightarrow> nat \<Rightarrow> ('d, 'z) lib_scheme
      \<Rightarrow> (int \<times> cell option list option \<times> ('d, 'z) lib_scheme) option)
   \<Rightarrow> u64 \<Rightarrow> nat \<Rightarrow> nat \<Rightarrow> 'r \<Rightarrow> ('d, 'z) lib_scheme \<Rightarrow> ('r reg_array \<times> ('d, 'z) lib_scheme) option" where
  "init_reg_array load a b n v0 s =
     do {
       (_, s) \<leftarrow> allocate_batch b n s;
       (_, val, s) \<leftarrow> load a (Some (replicate n None)) b s;
       val \<leftarrow> val;
       Some (\<lparr>raw = val, vals = replicate n v0\<rparr>, s)
     }"

text \<open>The getter and the setter of such a structure.\<close>

definition get_reg_array ::
  "'d env \<Rightarrow> nat \<Rightarrow> (u64 \<Rightarrow> 'r) \<Rightarrow> nat \<Rightarrow> 'r reg_array \<Rightarrow> ('d, 'z) lib_scheme
   \<Rightarrow> ('r reg_array \<times> ('d, 'z) lib_scheme) option" where
  "get_reg_array E b dec n ra s =
     do { (vs, s) \<leftarrow> batch_get E b dec n (raw ra) (vals ra) s; Some (ra\<lparr>vals := vs\<rparr>, s) }"

definition set_reg_array ::
  "'d env \<Rightarrow> nat \<Rightarrow> ('r \<Rightarrow> u64 \<Rightarrow> u64) \<Rightarrow> nat \<Rightarrow> 'r reg_array \<Rightarrow> ('d, 'z) lib_scheme
   \<Rightarrow> ('d, 'z) lib_scheme option" where
  "set_reg_array E b enc n ra s = batch_set E b enc n (raw ra) (vals ra) s"

section \<open>Initialisation\<close>

text \<open>Batch \<open>n\<close> has not been used: nothing was allocated or created in it.\<close>

definition batch_fresh :: "nat \<Rightarrow> ('d, 'z) lib_scheme \<Rightarrow> bool" where
  "batch_fresh n s \<longleftrightarrow>
     (\<not> batch_null s \<longrightarrow> length (batch s) = arrsize s \<and> length (bsize s) = arrsize s)
     \<and> (\<not> batch_null s \<longrightarrow> n < arrsize s \<longrightarrow> batch s ! n = batch_array0)"

lemma batch_storage_fresh:
  assumes "batch_fresh n s"
  shows "\<exists>s'. batch_storage n s = Some s' \<and> \<not> batch_null s' \<and> n < arrsize s'
    \<and> length (batch s') = arrsize s' \<and> length (bsize s') = arrsize s' \<and> batch s' ! n = batch_array0
    \<and> blocks s' = blocks s \<and> off_batch s' = off_batch s
    \<and> (\<not> batch_null s \<longrightarrow> arrsize s \<le> arrsize s'
         \<and> (\<forall>m<arrsize s. batch s' ! m = batch s ! m \<and> bsize s' ! m = bsize s ! m))
    \<and> (\<forall>m<arrsize s'. batch_null s \<or> arrsize s \<le> m \<longrightarrow> batch s' ! m = batch_array0)"
proof -
  have c: "(x # replicate j x) ! m = x" if "m < Suc j" for x :: msr_batch_array and m j
    using that nth_replicate [of m "Suc j" x] by (simp del: nth_replicate)
  show ?thesis
  proof (cases "batch_null s")
    case True
    then show ?thesis by (auto simp: batch_storage_def off_batch_def c Let_def)
  next
    case False
    with assms show ?thesis
      by (auto simp: batch_fresh_def batch_storage_def off_batch_def nth_append Let_def)
  qed
qed

lemma allocate_batch_fresh:
  assumes "batch_fresh n s"
  shows "\<exists>s'. allocate_batch n l s = Some (0, s') \<and> batch_ready n (length (blocks s)) s'
    \<and> numops (batch s' ! n) = 0 \<and> bsize s' ! n = l \<and> off_batch s' = off_batch s
    \<and> length (blocks s') = Suc (length (blocks s))"
proof -
  obtain t where t: "batch_storage n s = Some t" "\<not> batch_null t" "n < arrsize t"
    "length (batch t) = arrsize t" "length (bsize t) = arrsize t" "batch t ! n = batch_array0"
    "blocks t = blocks s" "off_batch t = off_batch s"
    using batch_storage_fresh [OF assms] by blast
  define new where "new = fold clear_err [0..<l] (replicate l msr_batch_op0)"
  have new: "length new = l"
  proof -
    have "length (fold clear_err is xs) = length xs" for "is" and xs
      by (induction "is" arbitrary: xs) (simp_all add: clear_err_def)
    then show ?thesis by (simp add: new_def)
  qed
  let ?t = "t\<lparr>bsize := (bsize t)[n := l], batch := (batch t)[n := \<lparr>numops = 0, ops = Some (length (blocks s))\<rparr>],
              blocks := blocks s @ [Some new]\<rparr>"
  have "allocate_batch n l s = Some (0, ?t)"
    using t by (simp add: allocate_batch_def batch_array0_def new_def)
  moreover have "batch_ready n (length (blocks s)) ?t" using t new by (simp add: batch_ready_def)
  moreover have "off_batch ?t = off_batch s" using t(8) by (simp add: off_batch_def)
  ultimately show ?thesis using t by (intro exI [of _ ?t]) simp
qed

lemma ucast_32_inj: "(ucast (v :: u32) :: u64) = ucast w \<Longrightarrow> v = w"
  by (rule bit_word_eqI) (drule_tac f = "\<lambda>x. bit x n" in arg_cong, simp add: bit_ucast_iff)

text \<open>Batch \<open>m\<close> and its block are as they were.\<close>

definition batch_kept :: "nat \<Rightarrow> nat \<Rightarrow> ('d, 'z) lib_scheme \<Rightarrow> ('d, 'z) lib_scheme \<Rightarrow> bool" where
  "batch_kept m k s t \<longleftrightarrow> batch_ready m k t \<and> batch t ! m = batch s ! m \<and> blocks t ! k = blocks s ! k"

text \<open>No two batches own the same block.\<close>

definition blocks_own :: "('d, 'z) lib_scheme \<Rightarrow> bool" where
  "blocks_own s \<longleftrightarrow> (\<not> batch_null s \<longrightarrow>
     (\<forall>m<length (batch s). \<forall>k. ops (batch s ! m) = Some k \<longrightarrow>
        k < length (blocks s) \<and> (\<forall>j<length (batch s). ops (batch s ! j) = Some k \<longrightarrow> j = m)))"

lemma blocks_ownD: "blocks_own s \<Longrightarrow> batch_ready m k s \<Longrightarrow> batch_ready n k s \<Longrightarrow> m = n"
  by (auto simp: blocks_own_def batch_ready_def)

lemma blocks_own_cong:
  assumes "blocks_own s" "batch_null t = batch_null s" "length (batch t) = length (batch s)"
    "length (blocks t) = length (blocks s)" "\<And>m. m < length (batch s) \<Longrightarrow> ops (batch t ! m) = ops (batch s ! m)"
  shows "blocks_own t"
  unfolding blocks_own_def assms(2-4)
proof (intro impI allI conjI)
  fix m k assume m: "\<not> batch_null s" "m < length (batch s)" "ops (batch t ! m) = Some k"
  then have om: "ops (batch s ! m) = Some k" using assms(5) by simp
  with m assms(1) show "k < length (blocks s)" unfolding blocks_own_def by blast
  fix j assume j: "j < length (batch s)" "ops (batch t ! j) = Some k"
  then have "ops (batch s ! j) = Some k" using assms(5) by simp
  with om j m assms(1) show "j = m" unfolding blocks_own_def by blast
qed

lemma batch_kept_trans:
  "batch_kept m k s t \<Longrightarrow> batch_kept m k t u \<Longrightarrow> batch_kept m k s u"
  by (simp add: batch_kept_def)

lemma other_batches_kept:
  assumes "other_batches n k' t = other_batches n k' s" "m \<noteq> n"
  shows "k \<noteq> k' \<Longrightarrow> batch_ready m k s \<Longrightarrow> batch_kept m k s t" "batch_fresh m s \<Longrightarrow> batch_fresh m t"
    "blocks_own s \<Longrightarrow> batch_ready n k' s \<Longrightarrow> batch_ready n k' t \<Longrightarrow> blocks_own t"
proof -
  from assms(1) have o: "arrsize t = arrsize s" "batch_null t = batch_null s" "bsize t = bsize s"
    "(batch t)[n := batch_array0] = (batch s)[n := batch_array0]" "(blocks t)[k' := None] = (blocks s)[k' := None]"
    by (simp_all add: other_batches_def)
  have b: "length (batch t) = length (batch s)" "batch t ! m = batch s ! m"
    using arg_cong [OF o(4), of length] arg_cong [OF o(4), of "\<lambda>xs. xs ! m"] assms(2) by simp_all
  have l: "length (blocks t) = length (blocks s)" using arg_cong [OF o(5), of length] by simp
  show "batch_kept m k s t" if "k \<noteq> k'" "batch_ready m k s"
  proof -
    have "blocks t ! k = blocks s ! k" using arg_cong [OF o(5), of "\<lambda>xs. xs ! k"] that(1) by simp
    with that b l o(1-3) show ?thesis by (simp add: batch_kept_def batch_ready_def)
  qed
  show "batch_fresh m t" if "batch_fresh m s" using that b o(1-3) by (simp add: batch_fresh_def)
  have e: "batch t ! j = batch s ! j" if "j \<noteq> n" for j
    using arg_cong [OF o(4), of "\<lambda>xs. xs ! j"] that by simp
  show "blocks_own t" if "blocks_own s" "batch_ready n k' s" "batch_ready n k' t"
  proof (rule blocks_own_cong [OF that(1) o(2) b(1) l])
    fix j
    show "ops (batch t ! j) = ops (batch s ! j)"
      using e [of j] that(2,3) by (cases "j = n") (simp_all add: batch_ready_def)
  qed
qed

lemma allocate_batch_kept:
  assumes "batch_fresh n s" "allocate_batch n l s = Some (r, t)" "m \<noteq> n"
  shows "batch_ready m k s \<Longrightarrow> batch_kept m k s t" "batch_fresh m s \<Longrightarrow> batch_fresh m t"
    "blocks_own s \<Longrightarrow> blocks_own t"
proof -
  obtain u where u: "batch_storage n s = Some u" "\<not> batch_null u" "n < arrsize u"
    "length (batch u) = arrsize u" "length (bsize u) = arrsize u" "batch u ! n = batch_array0" "blocks u = blocks s"
    and old: "\<not> batch_null s \<longrightarrow> arrsize s \<le> arrsize u
         \<and> (\<forall>m<arrsize s. batch u ! m = batch s ! m \<and> bsize u ! m = bsize s ! m)"
    and new: "\<forall>m<arrsize u. batch_null s \<or> arrsize s \<le> m \<longrightarrow> batch u ! m = batch_array0"
    using batch_storage_fresh [OF assms(1)] by blast
  obtain xs where t: "t = u\<lparr>bsize := (bsize u)[n := l],
      batch := (batch u)[n := \<lparr>numops = 0, ops = Some (length (blocks s))\<rparr>], blocks := blocks s @ [Some xs]\<rparr>"
    using assms(2) u by (auto simp: allocate_batch_def batch_array0_def Let_def)
  show "batch_kept m k s t" if "batch_ready m k s"
    using that old u(2-5) assms(3) by (auto simp: batch_kept_def batch_ready_def t nth_append)
  show "batch_fresh m t" if "batch_fresh m s"
    using that old new u(2-5) assms(3) by (cases "batch_null s \<or> arrsize s \<le> m") (auto simp: batch_fresh_def t)
  have o: "ops (batch u ! j) = Some k \<Longrightarrow> j < arrsize u \<Longrightarrow> \<not> batch_null s \<and> j < length (batch s)
      \<and> ops (batch s ! j) = Some k" for j k
    using old new assms(1) by (cases "batch_null s \<or> arrsize s \<le> j") (auto simp: batch_array0_def batch_fresh_def)
  show "blocks_own t" if own: "blocks_own s"
  proof -
    have *: "j = n \<and> k = length (blocks s)
        \<or> j \<noteq> n \<and> j < length (batch s) \<and> ops (batch s ! j) = Some k \<and> \<not> batch_null s \<and> k < length (blocks s)"
      if "j < length (batch t)" "ops (batch t ! j) = Some k" for j k
    proof (cases "j = n")
      case True
      with that u(3,4) show ?thesis by (simp add: t)
    next
      case False
      with that o [of j k] u(4) have "\<not> batch_null s \<and> j < length (batch s) \<and> ops (batch s ! j) = Some k"
        by (simp add: t)
      with own False show ?thesis unfolding blocks_own_def by blast
    qed
    show ?thesis unfolding blocks_own_def
    proof (intro impI allI conjI)
      fix j k assume j: "j < length (batch t)" "ops (batch t ! j) = Some k"
      show "k < length (blocks t)" using * [OF j] by (auto simp: t)
      fix i assume i: "i < length (batch t)" "ops (batch t ! i) = Some k"
      from * [OF i] * [OF j] own show "i = j" unfolding blocks_own_def by auto
    qed
  qed
qed

text \<open>A batch loaded with one operation per index, each on a processor of its own, can be run.\<close>

definition machine_ready ::
  "'d env \<Rightarrow> (int \<Rightarrow> bool) \<Rightarrow> (int \<Rightarrow> bool) \<Rightarrow> (int \<Rightarrow> u64 \<Rightarrow> 'd \<Rightarrow> u64) \<Rightarrow> ('d, 'z) lib_scheme \<Rightarrow> bool" where
  "machine_ready E good drv rg s \<longleftrightarrow>
     batch_env E good drv rg (fd_of s) \<and> fds_ready E good s \<and> (batchfd s \<le> 0 \<or> drv (batchfd s))
     \<and> inj_on (fd_of s) {..<NUM_DEVS (hw E)} \<and> NUM_DEVS (hw E) < 2 ^ 16 \<and> map_ready E s"

lemma off_batch_machine:
  assumes "off_batch t = off_batch s"
  shows "machine_ready E good drv rg t = machine_ready E good drv rg s" "fd_of t = fd_of s"
    "hwthread_of t = hwthread_of s" "map_ready E t = map_ready E s"
proof -
  note o = off_batch_eqD [OF assms]
  show fd: "fd_of t = fd_of s" by (simp add: fd_of_def fun_eq_iff o)
  show "hwthread_of t = hwthread_of s" by (simp add: hwthread_of_def fun_eq_iff o)
  show m: "map_ready E t = map_ready E s" by (simp add: map_ready_def o)
  show "machine_ready E good drv rg t = machine_ready E good drv rg s"
    by (simp add: machine_ready_def fd m) (simp add: fds_ready_def o)
qed

lemma loaded_live:
  assumes ld: "loaded E P a n k 0 l val t" and mr: "machine_ready E good drv rg t" and "0 < l"
    and P: "\<And>i j h. P i h \<Longrightarrow> P j h \<Longrightarrow> i = j"
  shows "batch_live E good drv rg n k t" "numops (batch t ! n) = l"
proof -
  from ld have r: "batch_ready n k t" and m: "numops (batch t ! n) = l"
    and op: "\<And>i. i < l \<Longrightarrow> op_msr (op_at k t i) = ucast a \<and> op_isrdmsr (op_at k t i) = 1
      \<and> (\<exists>d<NUM_DEVS (hw E). op_cpu (op_at k t i) = of_nat d \<and> P i (hwthread_of t d))"
    by (simp_all add: loaded_def)
  show "numops (batch t ! n) = l" by (rule m)
  from op obtain d where d: "\<And>i. i < l \<Longrightarrow> d i < NUM_DEVS (hw E) \<and> op_cpu (op_at k t i) = of_nat (d i)
      \<and> P i (hwthread_of t (d i))" by metis
  have small: "NUM_DEVS (hw E) < 2 ^ 16" and inj: "inj_on (fd_of t) {..<NUM_DEVS (hw E)}"
    using mr by (simp_all add: machine_ready_def)
  have cpu: "unat (op_cpu (op_at k t i)) = d i" if "i < l" for i
    using d [OF that] small by (simp add: unsigned_of_nat take_bit_nat_eq_self)
  obtain xs where xs: "blocks t ! k = Some xs" "l \<le> length xs"
    using r m by (auto simp: batch_ready_def)
  then have at: "op_at k t i = xs ! i" and ops: "ops_of n k t = take l xs" for i
    by (simp_all add: op_at_def ops_of_def m)
  have "distinct (map (reg_key (fd_of t)) (ops_of n k t))"
    unfolding distinct_conv_nth
  proof (intro allI impI)
    fix i j assume ij: "i < length (map (reg_key (fd_of t)) (ops_of n k t))"
      "j < length (map (reg_key (fd_of t)) (ops_of n k t))" "i \<noteq> j"
    then have l: "i < l" "j < l" using xs(2) by (simp_all add: ops)
    have "d i \<noteq> d j" using d [OF l(1)] d [OF l(2)] P ij(3) by metis
    then have "fd_of t (d i) \<noteq> fd_of t (d j)" using inj d l by (auto dest: inj_onD)
    then show "map (reg_key (fd_of t)) (ops_of n k t) ! i \<noteq> map (reg_key (fd_of t)) (ops_of n k t) ! j"
      using l xs(2) cpu [OF l(1)] cpu [OF l(2)] by (simp add: ops reg_key_def at)
  qed
  moreover have "flags_agree l xs" using op \<open>0 < l\<close> unfolding flags_agree_def at by metis
  ultimately show "batch_live E good drv rg n k t"
    using mr r \<open>0 < l\<close> cpu d by (simp add: batch_live_def machine_ready_def m xs(1))
qed

text \<open>
  The structure \<open>ra\<close> stands on batch \<open>n\<close>, one pointer and one record for each of the \<open>l\<close>
  operations.
\<close>

definition array_live ::
  "'d env \<Rightarrow> (int \<Rightarrow> bool) \<Rightarrow> (int \<Rightarrow> bool) \<Rightarrow> (int \<Rightarrow> u64 \<Rightarrow> 'd \<Rightarrow> u64) \<Rightarrow> nat \<Rightarrow> nat \<Rightarrow> nat
   \<Rightarrow> 'r reg_array \<Rightarrow> ('d, 'z) lib_scheme \<Rightarrow> bool" where
  "array_live E good drv rg n k l ra s \<longleftrightarrow>
     batch_live E good drv rg n k s \<and> numops (batch s ! n) = l \<and> wired k 0 l (raw ra) \<and> l \<le> length (vals ra)"

lemma loaded_array:
  assumes "loaded E P a n k 0 l val t" "machine_ready E good drv rg t" "0 < l"
    and "\<And>i j h. P i h \<Longrightarrow> P j h \<Longrightarrow> i = j" "length val = l"
  shows "array_live E good drv rg n k l \<lparr>raw = val, vals = replicate l v0\<rparr> t"
  using loaded_live [OF assms(1-4)] assms(1,5) by (simp add: array_live_def wired_def loaded_def)

lemma array_frame:
  assumes "array_live E good drv rg n k l ra s" "batch_live E good drv rg n k t"
    "batch_frame rg n k t = batch_frame rg n k s" "length vs = length (vals ra)"
  shows "array_live E good drv rg n k l (ra\<lparr>vals := vs\<rparr>) t"
  using assms batch_frameD(4) [OF assms(3)] by (simp add: array_live_def)

lemma set_reg_array_live:
  assumes "array_live E good drv rg n k l ra s"
  shows "\<exists>t. set_reg_array E n enc l ra s = Some t \<and> array_live E good drv rg n k l ra t
    \<and> batch_frame rg n k t = batch_frame rg n k s
    \<and> (\<forall>i<l. op_reg rg k t i = enc (vals ra ! i) (op_reg rg k s i))"
proof -
  from assms have live: "batch_live E good drv rg n k s" "wired k 0 l (raw ra)"
    "0 + l \<le> numops (batch s ! n)" "l \<le> length (vals ra)"
    by (auto simp: array_live_def)
  from batch_set_live [OF this, of enc] obtain t where
    t: "batch_set E n enc l (raw ra) (vals ra) s = Some t" "batch_live E good drv rg n k t"
      "batch_frame rg n k t = batch_frame rg n k s"
      "\<forall>i<l. op_reg rg k t i = enc (vals ra ! i) (op_reg rg k s i)" by auto
  have "array_live E good drv rg n k l (ra\<lparr>vals := vals ra\<rparr>) t"
    by (rule array_frame [OF assms t(2,3)]) simp
  with t show ?thesis unfolding set_reg_array_def by auto
qed

lemma get_reg_array_live:
  assumes "array_live E good drv rg n k l ra s"
  shows "\<exists>vs t. get_reg_array E n dec l ra s = Some (ra\<lparr>vals := vs\<rparr>, t) \<and> length vs = length (vals ra)
    \<and> (\<forall>i<l. vs ! i = dec (op_reg rg k s i)) \<and> array_live E good drv rg n k l (ra\<lparr>vals := vs\<rparr>) t
    \<and> batch_frame rg n k t = batch_frame rg n k s \<and> (\<forall>i<l. op_reg rg k t i = op_reg rg k s i)"
proof -
  from assms have live: "batch_live E good drv rg n k s" "wired k 0 l (raw ra)"
    "0 + l \<le> numops (batch s ! n)" "l \<le> length (vals ra)"
    by (auto simp: array_live_def)
  let ?vs = "map (\<lambda>i. dec (op_reg rg k s i)) [0..<l] @ drop l (vals ra)"
  from batch_get_live [OF live, of dec] obtain t where
    t: "batch_get E n dec l (raw ra) (vals ra) s = Some (?vs, t)" "batch_live E good drv rg n k t"
      "batch_frame rg n k t = batch_frame rg n k s"
      "\<forall>i<numops (batch s ! n). op_reg rg k t i = op_reg rg k s i" by auto
  have "array_live E good drv rg n k l (ra\<lparr>vals := ?vs\<rparr>) t"
    by (rule array_frame [OF assms t(2,3)]) (use live(4) in simp)
  with t live show ?thesis unfolding get_reg_array_def
    by (intro exI [of _ ?vs] exI [of _ t]) (auto simp: nth_append)
qed

context reg_codec
begin

lemma set_get_array:
  assumes live: "array_live E good drv rg n k l ra s" and ok: "\<And>i. i < l \<Longrightarrow> valid (vals ra ! i)"
  shows "\<exists>t vs u. set_reg_array E n enc l ra s = Some t \<and> get_reg_array E n dec l ra t = Some (ra\<lparr>vals := vs\<rparr>, u)
    \<and> (\<forall>i<l. fields (vs ! i) = fields (vals ra ! i) \<and> rest (op_reg rg k u i) = rest (op_reg rg k s i))
    \<and> array_live E good drv rg n k l (ra\<lparr>vals := vs\<rparr>) u \<and> batch_frame rg n k u = batch_frame rg n k s"
proof -
  from assms have l: "batch_live E good drv rg n k s" "wired k 0 l (raw ra)" "0 + l \<le> numops (batch s ! n)"
    "l \<le> length (vals ra)" "l \<le> length (vals ra)"
    by (auto simp: array_live_def)
  from set_get [OF l ok] obtain t vs u where
    s: "batch_set E n enc l (raw ra) (vals ra) s = Some t" "batch_get E n dec l (raw ra) (vals ra) t = Some (vs, u)"
      "\<forall>i<l. fields (vs ! i) = fields (vals ra ! i) \<and> rest (op_reg rg k u i) = rest (op_reg rg k s i)"
      "batch_live E good drv rg n k u" "batch_frame rg n k u = batch_frame rg n k s" by auto
  obtain t' where t': "set_reg_array E n enc l ra s = Some t'" "array_live E good drv rg n k l ra t'"
    using set_reg_array_live [OF live] by blast
  with s(1) have "t' = t" by (simp add: set_reg_array_def)
  with get_reg_array_live [OF t'(2), of dec] s(2) have "length vs = length (vals ra)"
    by (auto simp: get_reg_array_def dest: arg_cong [where f = vals])
  with s array_frame [OF live s(4,5), of vs] show ?thesis
    by (auto simp: set_reg_array_def get_reg_array_def)
qed

end

section \<open>A new structure is live\<close>

text \<open>
  The loaders \<open>load_socket_batch\<close> and \<open>load_core_batch\<close> both run \<open>load_matching\<close>, with the
  socket or the core of a logical processor as the key.
\<close>

lemma init_reg_array_live:
  assumes load: "\<And>val s. load a (Some val) n s =
      do { (val, s) \<leftarrow> foldo (load_matching E a (\<lambda>i h. key h = int i) n) [0..<l] (val, s); Some (0, Some val, s) }"
    and mr: "machine_ready E good drv rg s" and fresh: "batch_fresh n s" and "0 < l"
    and ex: "\<And>i. i < l \<Longrightarrow> \<exists>d<NUM_DEVS (hw E). key (hwthread_of s d) = int i"
  shows "\<exists>ra t. init_reg_array load a n l v0 s = Some (ra, t) \<and> off_batch t = off_batch s
    \<and> array_live E good drv rg n (length (blocks s)) l ra t
    \<and> (\<forall>m k. m \<noteq> n \<longrightarrow> batch_ready m k s \<longrightarrow> batch_kept m k s t)
    \<and> (\<forall>m. m \<noteq> n \<longrightarrow> batch_fresh m s \<longrightarrow> batch_fresh m t) \<and> (blocks_own s \<longrightarrow> blocks_own t)"
proof -
  let ?k = "length (blocks s)" and ?P = "\<lambda>i h. key h = int i"
  obtain s1 where s1: "allocate_batch n l s = Some (0, s1)" "batch_ready n ?k s1" "numops (batch s1 ! n) = 0"
    "bsize s1 ! n = l" "off_batch s1 = off_batch s"
    using allocate_batch_fresh [OF fresh] by metis
  note o1 = off_batch_machine [OF s1(5)]
  have mp: "map_ready E s1" using mr o1(4) by (simp add: machine_ready_def)
  have ex1: "\<exists>d<NUM_DEVS (hw E). ?P i (hwthread_of s1 d)" if "i < l" for i using ex [OF that] o1(3) by simp
  have fits: "numops (batch s1 ! n) + l \<le> bsize s1 ! n" "l \<le> length (replicate l None :: cell option list)"
    using s1(3,4) by simp_all
  obtain val t where t: "foldo (load_matching E a ?P n) [0..<l] (replicate l None, s1) = Some (val, t)"
    "loaded E ?P a n ?k (numops (batch s1 ! n)) l val t" "off_batch t = off_batch s1"
    "length val = length (replicate l None :: cell option list)" "other_batches n ?k t = other_batches n ?k s1"
    using load_matching_loop [where P = ?P, OF s1(2) fits mp ex1] by metis
  have "machine_ready E good drv rg t"
    using mr o1(1) off_batch_machine(1) [OF t(3)] by simp
  from loaded_array [where P = ?P, OF t(2) [unfolded s1(3)] this \<open>0 < l\<close>] t(4)
  have "array_live E good drv rg n ?k l \<lparr>raw = val, vals = replicate l v0\<rparr> t" by simp
  moreover have "init_reg_array load a n l v0 s = Some (\<lparr>raw = val, vals = replicate l v0\<rparr>, t)"
    using s1(1) t(1) by (simp add: init_reg_array_def load)
  moreover have "batch_kept m k s t" if "m \<noteq> n" "batch_ready m k s" for m k
  proof -
    have "k \<noteq> ?k" using that(2) by (simp add: batch_ready_def)
    have k1: "batch_kept m k s s1" by (rule allocate_batch_kept(1) [OF fresh s1(1) that])
    then have "batch_ready m k s1" by (simp add: batch_kept_def)
    from batch_kept_trans [OF k1 other_batches_kept(1) [OF t(5) that(1) \<open>k \<noteq> ?k\<close> this]] show ?thesis .
  qed
  moreover have "batch_fresh m t" if "m \<noteq> n" "batch_fresh m s" for m
    using allocate_batch_kept(2) [OF fresh s1(1) that] other_batches_kept(2) [OF t(5) that(1)] by blast
  moreover have "blocks_own t" if "blocks_own s"
  proof -
    have "batch_ready n ?k t" using t(2) by (simp add: loaded_def)
    from other_batches_kept(3) [OF t(5) _ _ s1(2) this, of "Suc n"] allocate_batch_kept(3) [OF fresh s1(1) _ that, of "Suc n"]
    show ?thesis by simp
  qed
  ultimately show ?thesis using t(3) s1(5) by auto
qed

lemma init_core_array_live:
  assumes "machine_ready E good drv rg s" "batch_fresh n s" "0 < sockets (hw E) * coresPerSocket (hw E)"
    "\<And>i. i < sockets (hw E) * coresPerSocket (hw E) \<Longrightarrow> \<exists>d<NUM_DEVS (hw E). core_id (hwthread_of s d) = int i"
  shows "\<exists>ra t. init_reg_array (load_core_batch E) a n (sockets (hw E) * coresPerSocket (hw E)) v0 s = Some (ra, t)
    \<and> off_batch t = off_batch s
    \<and> array_live E good drv rg n (length (blocks s)) (sockets (hw E) * coresPerSocket (hw E)) ra t
    \<and> (\<forall>m k. m \<noteq> n \<longrightarrow> batch_ready m k s \<longrightarrow> batch_kept m k s t)
    \<and> (\<forall>m. m \<noteq> n \<longrightarrow> batch_fresh m s \<longrightarrow> batch_fresh m t) \<and> (blocks_own s \<longrightarrow> blocks_own t)"
  by (rule init_reg_array_live [where E = E and key = core_id])
    (use assms in \<open>simp_all add: load_core_batch_def\<close>)

lemma init_socket_array_live:
  assumes "machine_ready E good drv rg s" "batch_fresh n s" "0 < sockets (hw E)"
    "\<And>i. i < sockets (hw E) \<Longrightarrow> \<exists>d<NUM_DEVS (hw E). socket_id (hwthread_of s d) = int i"
  shows "\<exists>ra t. init_reg_array (load_socket_batch E) a n (sockets (hw E)) v0 s = Some (ra, t)
    \<and> off_batch t = off_batch s \<and> array_live E good drv rg n (length (blocks s)) (sockets (hw E)) ra t
    \<and> (\<forall>m k. m \<noteq> n \<longrightarrow> batch_ready m k s \<longrightarrow> batch_kept m k s t)
    \<and> (\<forall>m. m \<noteq> n \<longrightarrow> batch_fresh m s \<longrightarrow> batch_fresh m t) \<and> (blocks_own s \<longrightarrow> blocks_own t)"
  by (rule init_reg_array_live [where E = E and key = socket_id])
    (use assms in \<open>simp_all add: load_socket_batch_def\<close>)

end
