(* ===== verification/Reg_Slots.thy ===== *)
theory Reg_Slots
  imports Reg_Array
begin

text \<open>
  Several structures side by side: each static variable that holds one is a slot, with a batch
  of its own.  The operations on one slot keep the others usable.
\<close>

text \<open>The machine can be accessed, and no two batches share a block.\<close>

definition batches_ok ::
  "'d env \<Rightarrow> (int \<Rightarrow> bool) \<Rightarrow> (int \<Rightarrow> bool) \<Rightarrow> (int \<Rightarrow> u64 \<Rightarrow> 'd \<Rightarrow> u64) \<Rightarrow> ('d, 'z) lib_scheme \<Rightarrow> bool" where
  "batches_ok E good drv rg s \<longleftrightarrow> machine_ready E good drv rg s \<and> blocks_own s"

text \<open>The slot of batch \<open>b\<close>: not initialised, and the batch unused; or live, with \<open>l\<close> registers.\<close>

definition slot_ok ::
  "'d env \<Rightarrow> (int \<Rightarrow> bool) \<Rightarrow> (int \<Rightarrow> bool) \<Rightarrow> (int \<Rightarrow> u64 \<Rightarrow> 'd \<Rightarrow> u64) \<Rightarrow> nat \<Rightarrow> nat
   \<Rightarrow> 'r reg_array option \<Rightarrow> ('d, 'z) lib_scheme \<Rightarrow> bool" where
  "slot_ok E good drv rg b l ra s \<longleftrightarrow>
     (case ra of None \<Rightarrow> batch_fresh b s
      | Some ra \<Rightarrow> (\<exists>k. array_live E good drv rg b k l ra s) \<and> length (vals ra) = l)"

lemma slot_ok_simps:
  "slot_ok E good drv rg b l None s = batch_fresh b s"
  "slot_ok E good drv rg b l (Some ra) s \<longleftrightarrow>
     (\<exists>k. array_live E good drv rg b k l ra s) \<and> length (vals ra) = l"
  by (simp_all add: slot_ok_def)

text \<open>What an operation on the slot of batch \<open>b\<close> preserves.\<close>

definition slot_step ::
  "'d env \<Rightarrow> (int \<Rightarrow> bool) \<Rightarrow> (int \<Rightarrow> bool) \<Rightarrow> (int \<Rightarrow> u64 \<Rightarrow> 'd \<Rightarrow> u64) \<Rightarrow> nat
   \<Rightarrow> ('d, 'z) lib_scheme \<Rightarrow> ('d, 'z) lib_scheme \<Rightarrow> bool" where
  "slot_step E good drv rg b s t \<longleftrightarrow>
     batches_ok E good drv rg t \<and> lib.more t = lib.more s \<and> g_topo_list t = g_topo_list s
     \<and> (\<forall>m. m \<noteq> b \<longrightarrow> batch_fresh m s \<longrightarrow> batch_fresh m t)
     \<and> (\<forall>m k. m \<noteq> b \<longrightarrow> batch_live E good drv rg m k s \<longrightarrow> batch_live E good drv rg m k t \<and> batch t ! m = batch s ! m)"

lemma slot_step_other:
  assumes "slot_step E good drv rg b s t" "m \<noteq> b" "slot_ok E good drv rg m l ra s"
  shows "slot_ok E good drv rg m l ra t"
proof (cases ra)
  case None
  with assms show ?thesis by (simp add: slot_ok_def slot_step_def)
next
  case (Some r)
  with assms(3) obtain k where "array_live E good drv rg m k l r s" "length (vals r) = l"
    by (auto simp: slot_ok_def)
  moreover from this(1) have "batch_live E good drv rg m k t \<and> batch t ! m = batch s ! m"
    using assms(1,2) unfolding slot_step_def array_live_def by blast
  ultimately have "array_live E good drv rg m k l r t \<and> length (vals r) = l" by (simp add: array_live_def)
  with Some show ?thesis unfolding slot_ok_def by auto
qed

lemma batch_kept_live:
  assumes "batch_live E good drv rg m k s" "batch_kept m k s t" "machine_ready E good drv rg t" "fd_of t = fd_of s"
  shows "batch_live E good drv rg m k t"
  using assms
  by (simp add: batch_live_def machine_ready_def batch_kept_def op_at_def ops_of_def)

text \<open>Running the batch of one slot.\<close>

lemma batch_frame_step:
  assumes ok: "batches_ok E good drv rg s" and r: "batch_live E good drv rg n k s" "batch_live E good drv rg n k t"
    and fr: "batch_frame rg n k t = batch_frame rg n k s"
  shows "slot_step E good drv rg n s t"
proof -
  note f = batch_frameD [OF fr]
  have rs: "batch_ready n k s" "batch_ready n k t" using r by (simp_all add: batch_live_def)
  then have same: "arrsize t = arrsize s" "batch_null t = batch_null s"
    using f(4) by (simp_all add: batch_ready_def)
  have lb: "length (blocks t) = length (blocks s)" using arg_cong [OF f(6), of length] by simp
  have m: "machine_ready E good drv rg t"
    using ok r(2) f(1-3) by (simp add: batches_ok_def machine_ready_def batch_live_def map_ready_def)
  moreover have "blocks_own t"
    by (rule blocks_own_cong [of s]) (use ok f(4) same lb in \<open>simp_all add: batches_ok_def\<close>)
  moreover have "batch_fresh j t" if "batch_fresh j s" for j
    using that f(4,5) same by (simp add: batch_fresh_def)
  moreover have "batch_live E good drv rg j i t" if "j \<noteq> n" "batch_live E good drv rg j i s" for j i
  proof (rule batch_kept_live [OF that(2) _ m f(3)])
    have "batch_ready j i s" using that(2) by (simp add: batch_live_def)
    then have "i \<noteq> k" using blocks_ownD [of s j k n] rs(1) ok that(1) by (auto simp: batches_ok_def)
    then have "blocks t ! i = blocks s ! i" using arg_cong [OF f(6), of "\<lambda>xs. xs ! i"] by simp
    with \<open>batch_ready j i s\<close> f(4,5) same lb show "batch_kept j i s t"
      by (simp add: batch_kept_def batch_ready_def)
  qed
  ultimately show ?thesis using f(1,2,4) by (simp add: slot_step_def batches_ok_def)
qed

lemma get_slot:
  assumes "batches_ok E good drv rg s" "slot_ok E good drv rg b l (Some ra) s"
  shows "\<exists>ra' t. get_reg_array E b dec l ra s = Some (ra', t) \<and> slot_ok E good drv rg b l (Some ra') t
    \<and> slot_step E good drv rg b s t"
proof -
  from assms(2) obtain k where k: "array_live E good drv rg b k l ra s" "length (vals ra) = l"
    by (auto simp: slot_ok_def)
  from get_reg_array_live [OF k(1), of dec] obtain vs t where
    t: "get_reg_array E b dec l ra s = Some (ra\<lparr>vals := vs\<rparr>, t)" "length vs = length (vals ra)"
      "array_live E good drv rg b k l (ra\<lparr>vals := vs\<rparr>) t" "batch_frame rg b k t = batch_frame rg b k s" by blast
  have "slot_step E good drv rg b s t"
    by (rule batch_frame_step [OF assms(1) _ _ t(4)]) (use k t in \<open>simp_all add: array_live_def\<close>)
  moreover have "slot_ok E good drv rg b l (Some (ra\<lparr>vals := vs\<rparr>)) t" using t k(2) by (auto simp: slot_ok_def)
  ultimately show ?thesis using t(1) by blast
qed

lemma set_slot:
  assumes "batches_ok E good drv rg s" "slot_ok E good drv rg b l (Some ra) s"
  shows "\<exists>t. set_reg_array E b enc l ra s = Some t \<and> slot_ok E good drv rg b l (Some ra) t
    \<and> slot_step E good drv rg b s t"
proof -
  from assms(2) obtain k where k: "array_live E good drv rg b k l ra s" "length (vals ra) = l"
    by (auto simp: slot_ok_def)
  from set_reg_array_live [OF k(1), of enc] obtain t where
    t: "set_reg_array E b enc l ra s = Some t" "array_live E good drv rg b k l ra t"
      "batch_frame rg b k t = batch_frame rg b k s" by blast
  have "slot_step E good drv rg b s t"
    by (rule batch_frame_step [OF assms(1) _ _ t(3)]) (use k t in \<open>simp_all add: array_live_def\<close>)
  moreover have "slot_ok E good drv rg b l (Some ra) t" using t k(2) by (auto simp: slot_ok_def)
  ultimately show ?thesis using t(1) by blast
qed

text \<open>Initialising a slot.\<close>

lemma init_slot:
  assumes ok: "batches_ok E good drv rg s"
    and init: "init_reg_array load a b l v0 s = Some (ra, t)" "off_batch t = off_batch s"
      "array_live E good drv rg b (length (blocks s)) l ra t"
      "\<forall>m k. m \<noteq> b \<longrightarrow> batch_ready m k s \<longrightarrow> batch_kept m k s t"
      "\<forall>m. m \<noteq> b \<longrightarrow> batch_fresh m s \<longrightarrow> batch_fresh m t" "blocks_own s \<longrightarrow> blocks_own t"
  shows "slot_ok E good drv rg b l (Some ra) t" "slot_step E good drv rg b s t"
proof -
  have "length (vals ra) = l" using init(1) by (auto simp: init_reg_array_def split: bind_splits)
  with init(3) show "slot_ok E good drv rg b l (Some ra) t" by (auto simp: slot_ok_def)
  note o = off_batch_machine [OF init(2)] and q = off_batch_eqD [OF init(2)]
  have m: "machine_ready E good drv rg t" using ok o(1) by (simp add: batches_ok_def)
  have "batch_live E good drv rg j i t \<and> batch t ! j = batch s ! j"
    if "j \<noteq> b" "batch_live E good drv rg j i s" for j i
  proof -
    have "batch_ready j i s" using that(2) by (simp add: batch_live_def)
    with init(4) that(1) have "batch_kept j i s t" by blast
    from batch_kept_live [OF that(2) this m o(2)] this show ?thesis by (simp add: batch_kept_def)
  qed
  with ok m init(5,6) q show "slot_step E good drv rg b s t" by (simp add: slot_step_def batches_ok_def)
qed

text \<open>The sockets and the cores of the machine have logical processors.\<close>

definition sockets_mapped :: "'d env \<Rightarrow> ('d, 'z) lib_scheme \<Rightarrow> bool" where
  "sockets_mapped E s \<longleftrightarrow> 0 < sockets (hw E)
     \<and> (\<forall>i < sockets (hw E). \<exists>d<NUM_DEVS (hw E). socket_id (hwthread_of s d) = int i)"

definition cores_mapped :: "'d env \<Rightarrow> ('d, 'z) lib_scheme \<Rightarrow> bool" where
  "cores_mapped E s \<longleftrightarrow> 0 < sockets (hw E) * coresPerSocket (hw E)
     \<and> (\<forall>i < sockets (hw E) * coresPerSocket (hw E). \<exists>d<NUM_DEVS (hw E). core_id (hwthread_of s d) = int i)"

lemma init_socket_slot:
  assumes ok: "batches_ok E good drv rg s" and "slot_ok E good drv rg b (sockets (hw E)) None s" "sockets_mapped E s"
  shows "\<exists>ra t. init_reg_array (load_socket_batch E) a b (sockets (hw E)) v0 s = Some (ra, t)
    \<and> slot_ok E good drv rg b (sockets (hw E)) (Some ra) t \<and> slot_step E good drv rg b s t"
proof -
  have c: "machine_ready E good drv rg s" "batch_fresh b s" "0 < sockets (hw E)"
    "\<And>i. i < sockets (hw E) \<Longrightarrow> \<exists>d<NUM_DEVS (hw E). socket_id (hwthread_of s d) = int i"
    using assms by (simp_all add: batches_ok_def slot_ok_simps sockets_mapped_def)
  from init_socket_array_live [OF c, of a v0] obtain ra t where
    "init_reg_array (load_socket_batch E) a b (sockets (hw E)) v0 s = Some (ra, t)" "off_batch t = off_batch s"
    "array_live E good drv rg b (length (blocks s)) (sockets (hw E)) ra t"
    "\<forall>m k. m \<noteq> b \<longrightarrow> batch_ready m k s \<longrightarrow> batch_kept m k s t"
    "\<forall>m. m \<noteq> b \<longrightarrow> batch_fresh m s \<longrightarrow> batch_fresh m t" "blocks_own s \<longrightarrow> blocks_own t" by blast
  with init_slot [OF ok this] show ?thesis by blast
qed

lemma init_core_slot:
  assumes ok: "batches_ok E good drv rg s" and l: "l = sockets (hw E) * coresPerSocket (hw E)"
    and "slot_ok E good drv rg b l None s" "cores_mapped E s"
  shows "\<exists>ra t. init_reg_array (load_core_batch E) a b l v0 s = Some (ra, t)
    \<and> slot_ok E good drv rg b l (Some ra) t \<and> slot_step E good drv rg b s t"
proof -
  have c: "machine_ready E good drv rg s" "batch_fresh b s" "0 < sockets (hw E) * coresPerSocket (hw E)"
    "\<And>i. i < sockets (hw E) * coresPerSocket (hw E) \<Longrightarrow> \<exists>d<NUM_DEVS (hw E). core_id (hwthread_of s d) = int i"
    using assms by (simp_all add: batches_ok_def slot_ok_simps cores_mapped_def)
  from init_core_array_live [OF c, of a v0] obtain ra t where
    "init_reg_array (load_core_batch E) a b l v0 s = Some (ra, t)" "off_batch t = off_batch s"
    "array_live E good drv rg b (length (blocks s)) l ra t"
    "\<forall>m k. m \<noteq> b \<longrightarrow> batch_ready m k s \<longrightarrow> batch_kept m k s t"
    "\<forall>m. m \<noteq> b \<longrightarrow> batch_fresh m s \<longrightarrow> batch_fresh m t" "blocks_own s \<longrightarrow> blocks_own t"
    unfolding l by blast
  with init_slot [OF ok this] show ?thesis by blast
qed

lemma mapped_topo:
  "g_topo_list t = g_topo_list s \<Longrightarrow> cores_mapped E t = cores_mapped E s"
  "g_topo_list t = g_topo_list s \<Longrightarrow> sockets_mapped E t = sockets_mapped E s"
  by (simp_all add: cores_mapped_def sockets_mapped_def hwthread_of_def)

section \<open>The fields of a component\<close>

text \<open>Two states of the library that differ at most in what a component adds.\<close>

definition same_lib :: "('d, 'z) lib_scheme \<Rightarrow> ('d, 'y) lib_scheme \<Rightarrow> bool" where
  "same_lib s t \<longleftrightarrow> dev s = dev t \<and> g_topo_list s = g_topo_list t \<and> fd_init s = fd_init t \<and> devices s = devices t
     \<and> file_descriptors s = file_descriptors t \<and> batchfd s = batchfd t \<and> batch_null s = batch_null t
     \<and> arrsize s = arrsize t \<and> batch s = batch t \<and> bsize s = bsize t \<and> blocks s = blocks t"

lemma same_lib_ok:
  assumes "same_lib s t"
  shows "batch_live E good drv rg n k s = batch_live E good drv rg n k t"
    "slot_ok E good drv rg n l ra s = slot_ok E good drv rg n l ra t"
    "batches_ok E good drv rg s = batches_ok E good drv rg t"
    "cores_mapped E s = cores_mapped E t" "sockets_mapped E s = sockets_mapped E t"
    "op_reg rg k s = op_reg rg k t" "array_live E good drv rg n k l r s = array_live E good drv rg n k l r t"
proof -
  have f: "fd_of s = fd_of t" "op_at k s = op_at k t" "ops_of n k s = ops_of n k t" "hwthread_of s = hwthread_of t"
    for k n
    using assms by (simp_all add: same_lib_def fd_of_def op_at_def ops_of_def hwthread_of_def fun_eq_iff)
  have r: "fds_ready E good s = fds_ready E good t" "batch_ready n k s = batch_ready n k t" for n k
    using assms by (simp_all add: same_lib_def fds_ready_def batch_ready_def)
  show l: "batch_live E good drv rg n k s = batch_live E good drv rg n k t" for n k
    using assms by (simp add: batch_live_def f r) (simp add: same_lib_def)
  show a: "array_live E good drv rg n k l r s = array_live E good drv rg n k l r t" for n k l r
    using assms by (simp add: array_live_def l) (simp add: same_lib_def)
  have "batch_fresh n s = batch_fresh n t" using assms by (simp add: batch_fresh_def same_lib_def)
  then show "slot_ok E good drv rg n l ra s = slot_ok E good drv rg n l ra t"
    by (cases ra) (simp_all add: slot_ok_def a)
  show "batches_ok E good drv rg s = batches_ok E good drv rg t"
    using assms by (simp add: batches_ok_def machine_ready_def f r) (simp add: same_lib_def blocks_own_def map_ready_def)
  show "cores_mapped E s = cores_mapped E t" "sockets_mapped E s = sockets_mapped E t"
    by (simp_all add: cores_mapped_def sockets_mapped_def f)
  show "op_reg rg k s = op_reg rg k t" using assms by (simp add: fun_eq_iff op_reg_def f) (simp add: same_lib_def)
qed

end
