(* ===== verification/Reg_Group.thy ===== *)
theory Reg_Group
  imports Reg_Slots
begin

text \<open>
  Several registers in one batch, as the counters, the clocks and the residencies use them:
  allocate a batch for all of them, then load one register after the other.
\<close>

definition load_group ::
  "(u64 \<Rightarrow> cell option list option \<Rightarrow> nat \<Rightarrow> ('d, 'z) lib_scheme
      \<Rightarrow> (int \<times> cell option list option \<times> ('d, 'z) lib_scheme) option)
   \<Rightarrow> nat \<Rightarrow> u64 list \<Rightarrow> nat \<Rightarrow> ('d, 'z) lib_scheme \<Rightarrow> (cell option list list \<times> ('d, 'z) lib_scheme) option" where
  "load_group load b regs l s =
     foldo (\<lambda>a (vs, s). do {
         (_, v, s) \<leftarrow> load a (Some (replicate l None)) b s;
         v \<leftarrow> v;
         Some (vs @ [v], s)
       }) regs ([], s)"

definition alloc_group ::
  "(u64 \<Rightarrow> cell option list option \<Rightarrow> nat \<Rightarrow> ('d, 'z) lib_scheme
      \<Rightarrow> (int \<times> cell option list option \<times> ('d, 'z) lib_scheme) option)
   \<Rightarrow> nat \<Rightarrow> u64 list \<Rightarrow> nat \<Rightarrow> ('d, 'z) lib_scheme \<Rightarrow> (cell option list list \<times> ('d, 'z) lib_scheme) option" where
  "alloc_group load b regs l s =
     do {
       (_, s) \<leftarrow> allocate_batch b (length regs * l) s;
       load_group load b regs l s
     }"

text \<open>
  After it: the \<open>j\<close>-th array of pointers leads to the operations \<open>j * l\<close> to
  \<open>j * l + l - 1\<close>, which read the \<open>j\<close>-th register on the processors 0 to \<open>l - 1\<close>.
\<close>

definition group_loaded ::
  "nat \<Rightarrow> nat \<Rightarrow> u64 list \<Rightarrow> nat \<Rightarrow> cell option list list \<Rightarrow> ('d, 'z) lib_scheme \<Rightarrow> bool" where
  "group_loaded n k regs l vs s \<longleftrightarrow>
     batch_ready n k s \<and> numops (batch s ! n) = length regs * l \<and> length vs = length regs
     \<and> (\<forall>j<length regs. wired k (j * l) l (vs ! j)
          \<and> (\<forall>i<l. op_msr (op_at k s (j * l + i)) = ucast (regs ! j) \<and> op_cpu (op_at k s (j * l + i)) = of_nat i
                 \<and> op_isrdmsr (op_at k s (j * l + i)) = 1))"

lemma thread_step:
  assumes g: "group_loaded n k rs l vs s" and l: "l = NUM_DEVS (hw E)"
    and cap: "numops (batch s ! n) + l \<le> bsize s ! n"
  shows "\<exists>v t. load_thread_batch E a (Some (replicate l None)) n s = Some (0, Some v, t)
    \<and> group_loaded n k (rs @ [a]) l (vs @ [v]) t \<and> off_batch t = off_batch s
    \<and> other_batches n k t = other_batches n k s \<and> bsize t = bsize s"
proof -
  let ?val = "replicate l None :: cell option list"
  have r: "batch_ready n k s" and m: "numops (batch s ! n) = length rs * l" using g by (simp_all add: group_loaded_def)
  have "\<exists>vt. foldo (\<lambda>i. load_op a i i n) [0..<l] (?val, s) = Some vt
      \<and> msr_ops.stored n k (\<lambda>i. (a, of_nat i)) ?val s l vt"
    by (rule msr_ops.store_all) (use r cap in \<open>auto simp: load_op_store\<close>)
  then obtain v t where ld: "foldo (\<lambda>i. load_op a i i n) [0..<l] (?val, s) = Some (v, t)"
    and st: "batch_ready n k t" "numops (batch t ! n) = length rs * l + l" "off_batch t = off_batch s"
      "other_batches n k t = other_batches n k s" "length v = l"
      "\<And>i. i < l \<Longrightarrow> v ! i = Some (k, length rs * l + i)"
      "\<And>i. i < l \<Longrightarrow> op_msr (op_at k t (length rs * l + i)) = ucast a
         \<and> op_cpu (op_at k t (length rs * l + i)) = ucast (of_nat i :: u64) \<and> op_isrdmsr (op_at k t (length rs * l + i)) = 1"
      "\<And>i. i < length rs * l \<Longrightarrow> op_msr (op_at k t i) = op_msr (op_at k s i)
         \<and> op_cpu (op_at k t i) = op_cpu (op_at k s i) \<and> op_isrdmsr (op_at k t i) = op_isrdmsr (op_at k s i)"
    unfolding msr_ops.stored_def m by auto
  have u: "(ucast (of_nat x :: u64) :: u16) = of_nat x" for x
    by (simp add: unsigned_of_nat word_of_nat_eq_iff)
  have "wired k (j * l) l ((vs @ [v]) ! j)
      \<and> (\<forall>i<l. op_msr (op_at k t (j * l + i)) = ucast ((rs @ [a]) ! j) \<and> op_cpu (op_at k t (j * l + i)) = of_nat i
             \<and> op_isrdmsr (op_at k t (j * l + i)) = 1)" if "j < Suc (length rs)" for j
  proof (cases "j = length rs")
    case True
    then show ?thesis using st(5-7) g u by (simp add: group_loaded_def wired_def nth_append)
  next
    case False
    with that have j: "j < length rs" by simp
    have "j * l + i < length rs * l" if "i < l" for i
      using j that by (rule block_index)
    with j st(8) g show ?thesis by (simp add: group_loaded_def nth_append)
  qed
  then have "group_loaded n k (rs @ [a]) l (vs @ [v]) t"
    using st(1,2) g by (simp add: group_loaded_def)
  moreover have "bsize t = bsize s" using st(4) by (simp add: other_batches_def)
  ultimately show ?thesis using ld st(3,4) l by (auto simp: load_thread_batch_def)
qed

lemma thread_group:
  assumes g: "group_loaded n k [] l [] s" and l: "l = NUM_DEVS (hw E)" and cap: "length regs * l \<le> bsize s ! n"
  shows "\<exists>vs t. load_group (load_thread_batch E) n regs l s = Some (vs, t) \<and> group_loaded n k regs l vs t
    \<and> off_batch t = off_batch s \<and> other_batches n k t = other_batches n k s"
proof -
  have "\<exists>vs t. load_group (load_thread_batch E) n regs l s = Some (vs, t) \<and> group_loaded n k regs l vs t
    \<and> off_batch t = off_batch s \<and> other_batches n k t = other_batches n k s \<and> bsize t = bsize s"
    using cap
  proof (induction regs rule: rev_induct)
    case Nil
    then show ?case using g by (simp add: load_group_def)
  next
    case (snoc a rs)
    then obtain vs t where t: "load_group (load_thread_batch E) n rs l s = Some (vs, t)" "group_loaded n k rs l vs t"
      "off_batch t = off_batch s" "other_batches n k t = other_batches n k s" "bsize t = bsize s"
      by fastforce
    have "numops (batch t ! n) + l \<le> bsize t ! n" using t(2,5) snoc.prems by (simp add: group_loaded_def)
    from thread_step [OF t(2) l this, of a] obtain v u where
      u: "load_thread_batch E a (Some (replicate l None)) n t = Some (0, Some v, u)"
      "group_loaded n k (rs @ [a]) l (vs @ [v]) u" "off_batch u = off_batch t"
      "other_batches n k u = other_batches n k t" "bsize u = bsize t" by blast
    with t show ?case by (simp add: load_group_def foldo_snoc)
  qed
  then show ?thesis by blast
qed

lemma group_index:
  assumes "i < m * l" shows "i div l < m" "i mod l < (l :: nat)" "i div l * l + i mod l = i"
proof -
  show "i div l < m" using assms by (simp add: less_mult_imp_div_less)
  show "i mod l < l" using assms by (cases l) simp_all
qed simp

lemma group_live:
  assumes g: "group_loaded n k regs l vs t" and mr: "machine_ready E good drv rg t"
    and l: "l = NUM_DEVS (hw E)" "0 < l" and regs: "regs \<noteq> []" "distinct (map (\<lambda>a. ucast a :: u32) regs)"
  shows "batch_live E good drv rg n k t"
proof -
  have r: "batch_ready n k t" and m: "numops (batch t ! n) = length regs * l" using g by (simp_all add: group_loaded_def)
  have small: "l < 2 ^ 16" and inj: "inj_on (fd_of t) {..<l}" using mr l by (simp_all add: machine_ready_def)
  have op: "op_msr (op_at k t i) = ucast (regs ! (i div l)) \<and> unat (op_cpu (op_at k t i)) = i mod l
      \<and> op_isrdmsr (op_at k t i) = 1" if "i < length regs * l" for i
  proof -
    note d = group_index [OF that]
    from d(2) small have "unat (of_nat (i mod l) :: u16) = i mod l" by (simp add: unsigned_of_nat take_bit_nat_eq_self)
    with g d show ?thesis unfolding group_loaded_def by (metis (no_types, lifting))
  qed
  obtain xs where xs: "blocks t ! k = Some xs" "length regs * l \<le> length xs"
    using r m by (auto simp: batch_ready_def)
  then have at: "op_at k t i = xs ! i" and ops: "ops_of n k t = take (length regs * l) xs" for i
    by (simp_all add: op_at_def ops_of_def m)
  have "distinct (map (reg_key (fd_of t)) (ops_of n k t))"
    unfolding distinct_conv_nth
  proof (intro allI impI)
    fix i j assume ij: "i < length (map (reg_key (fd_of t)) (ops_of n k t))"
      "j < length (map (reg_key (fd_of t)) (ops_of n k t))" "i \<noteq> j"
    then have b: "i < length regs * l" "j < length regs * l" using xs(2) by (simp_all add: ops)
    have key: "reg_key (fd_of t) (xs ! i) = (fd_of t (i mod l), ucast (ucast (regs ! (i div l)) :: u32))"
      if "i < length regs * l" for i
      using op [OF that] by (simp add: reg_key_def at)
    have "reg_key (fd_of t) (xs ! i) \<noteq> reg_key (fd_of t) (xs ! j)"
    proof
      assume "reg_key (fd_of t) (xs ! i) = reg_key (fd_of t) (xs ! j)"
      then have e: "fd_of t (i mod l) = fd_of t (j mod l)"
        "(ucast (ucast (regs ! (i div l)) :: u32) :: u64) = ucast (ucast (regs ! (j div l)) :: u32)"
        using key [OF b(1)] key [OF b(2)] by simp_all
      have "i mod l = j mod l"
        using inj_onD [OF inj e(1)] group_index(2) [OF b(1)] group_index(2) [OF b(2)] by simp
      moreover have "i div l = j div l"
        using ucast_32_inj [OF e(2)] regs(2) group_index(1) [OF b(1)] group_index(1) [OF b(2)]
        by (simp add: distinct_conv_nth) metis
      ultimately have "i = j" by (metis div_mult_mod_eq)
      with ij(3) show False by simp
    qed
    with b xs(2) show "map (reg_key (fd_of t)) (ops_of n k t) ! i \<noteq> map (reg_key (fd_of t)) (ops_of n k t) ! j"
      by (simp add: ops)
  qed
  moreover have "0 < length regs * l" using l(2) regs(1) by simp
  moreover from this have "flags_agree (length regs * l) xs" unfolding flags_agree_def using op at by metis
  ultimately show ?thesis using mr r op group_index(2) l(1)
    by (simp add: batch_live_def machine_ready_def m xs(1))
qed

lemma alloc_thread_group:
  assumes mr: "machine_ready E good drv rg s" and fresh: "batch_fresh n s" and l: "l = NUM_DEVS (hw E)" "0 < l"
    and regs: "regs \<noteq> []" "distinct (map (\<lambda>a. ucast a :: u32) regs)"
  shows "\<exists>vs t. alloc_group (load_thread_batch E) n regs l s = Some (vs, t)
    \<and> batch_live E good drv rg n (length (blocks s)) t \<and> group_loaded n (length (blocks s)) regs l vs t
    \<and> off_batch t = off_batch s
    \<and> (\<forall>m k. m \<noteq> n \<longrightarrow> batch_ready m k s \<longrightarrow> batch_kept m k s t)
    \<and> (\<forall>m. m \<noteq> n \<longrightarrow> batch_fresh m s \<longrightarrow> batch_fresh m t) \<and> (blocks_own s \<longrightarrow> blocks_own t)"
proof -
  let ?k = "length (blocks s)"
  obtain s1 where s1: "allocate_batch n (length regs * l) s = Some (0, s1)" "batch_ready n ?k s1"
    "numops (batch s1 ! n) = 0" "bsize s1 ! n = length regs * l" "off_batch s1 = off_batch s"
    using allocate_batch_fresh [OF fresh] by metis
  have "group_loaded n ?k [] l [] s1" using s1 by (simp add: group_loaded_def)
  from thread_group [OF this l(1), of regs] s1(4) obtain vs t where
    t: "load_group (load_thread_batch E) n regs l s1 = Some (vs, t)" "group_loaded n ?k regs l vs t"
    "off_batch t = off_batch s1" "other_batches n ?k t = other_batches n ?k s1" by auto
  have off: "off_batch t = off_batch s" using t(3) s1(5) by simp
  have "batch_live E good drv rg n ?k t"
    by (rule group_live [OF t(2) _ l regs]) (use mr off_batch_machine(1) [OF off] in simp)
  moreover have "batch_kept m k s t" if "m \<noteq> n" "batch_ready m k s" for m k
  proof -
    have "k \<noteq> ?k" using that(2) by (simp add: batch_ready_def)
    have k1: "batch_kept m k s s1" by (rule allocate_batch_kept(1) [OF fresh s1(1) that])
    then have "batch_ready m k s1" by (simp add: batch_kept_def)
    from batch_kept_trans [OF k1 other_batches_kept(1) [OF t(4) that(1) \<open>k \<noteq> ?k\<close> this]] show ?thesis .
  qed
  moreover have "batch_fresh m t" if "m \<noteq> n" "batch_fresh m s" for m
    using allocate_batch_kept(2) [OF fresh s1(1) that] other_batches_kept(2) [OF t(4) that(1)] by blast
  moreover have "blocks_own t" if "blocks_own s"
  proof -
    have "batch_ready n ?k t" using t(2) by (simp add: group_loaded_def)
    from other_batches_kept(3) [OF t(4) _ _ s1(2) this, of "Suc n"]
      allocate_batch_kept(3) [OF fresh s1(1) _ that, of "Suc n"]
    show ?thesis by simp
  qed
  ultimately show ?thesis using t(1,2) off s1(1) by (auto simp: alloc_group_def)
qed

end
