(* ===== verification/Batch_View.thy ===== *)
theory Batch_View
  imports Reg_Group
begin

text \<open>
  Operations that work on several batches at once, in terms of cells and registers only:
  \<open>cell_get s p\<close> for the data behind a pointer, \<open>keys n k s\<close> for the registers of batch
  \<open>n\<close>, and \<open>at rg s\<close> for what the registers hold.
\<close>

definition keys :: "nat \<Rightarrow> nat \<Rightarrow> ('d, 'z) lib_scheme \<Rightarrow> (int \<times> u64) list" where
  "keys n k s = map (reg_key (fd_of s)) (ops_of n k s)"

definition at :: "(int \<Rightarrow> u64 \<Rightarrow> 'd \<Rightarrow> u64) \<Rightarrow> ('d, 'z) lib_scheme \<Rightarrow> int \<times> u64 \<Rightarrow> u64" where
  "at rg s = (\<lambda>(f, a). rg f a (dev s))"

lemma keys_nth:
  assumes "batch_live E good drv rg n k s" "i < numops (batch s ! n)"
  shows "keys n k s ! i = reg_key (fd_of s) (op_at k s i)" "length (keys n k s) = numops (batch s ! n)"
    "op_reg rg k s i = at rg s (keys n k s ! i)"
proof -
  obtain xs where "ops_of n k s = take (numops (batch s ! n)) xs" "\<And>i. op_at k s i = xs ! i"
    "numops (batch s ! n) \<le> length xs"
    using batch_live_block [OF assms(1)] by metis
  with assms(2) show k: "keys n k s ! i = reg_key (fd_of s) (op_at k s i)" "length (keys n k s) = numops (batch s ! n)"
    by (simp_all add: keys_def)
  show "op_reg rg k s i = at rg s (keys n k s ! i)" unfolding k by (simp add: op_reg_def at_def)
qed

lemma keys_distinct: "batch_live E good drv rg n k s \<Longrightarrow> distinct (keys n k s)"
  by (simp add: keys_def batch_live_def)

text \<open>The registers of a batch loaded by \<open>alloc_group\<close>, for the processors 0 to \<open>l - 1\<close>.\<close>

definition group_keys :: "(nat \<Rightarrow> int) \<Rightarrow> nat \<Rightarrow> u64 list \<Rightarrow> (int \<times> u64) list" where
  "group_keys fd l regs = concat (map (\<lambda>a. map (\<lambda>i. (fd i, a)) [0..<l]) regs)"

lemma group_keys_nth:
  "j < length regs \<Longrightarrow> i < l \<Longrightarrow> group_keys fd l regs ! (j * l + i) = (fd i, regs ! j)"
  "length (group_keys fd l regs) = length regs * l"
proof -
  show len: "length (group_keys fd l regs) = length regs * l" for regs
    by (induction regs) (simp_all add: group_keys_def)
  show "group_keys fd l regs ! (j * l + i) = (fd i, regs ! j)" if "j < length regs" "i < l"
    using that
  proof (induction regs arbitrary: j)
    case Nil
    then show ?case by simp
  next
    case (Cons a regs)
    then show ?case by (cases j) (auto simp: group_keys_def nth_append)
  qed
qed

lemma group_loaded_keys:
  assumes "group_loaded n k regs l vs s" "\<forall>a\<in>set regs. ucast (ucast a :: u32) = a" "l < 2 ^ 16"
  shows "keys n k s = group_keys (fd_of s) l regs"
proof -
  obtain xs where xs: "blocks s ! k = Some xs" "length regs * l \<le> length xs" "numops (batch s ! n) = length regs * l"
    using assms(1) by (auto simp: group_loaded_def batch_ready_def)
  then have at: "op_at k s i = xs ! i" and ops: "ops_of n k s = take (length regs * l) xs" for i
    by (simp_all add: op_at_def ops_of_def)
  show ?thesis
  proof (rule nth_equalityI)
    show len: "length (keys n k s) = length (group_keys (fd_of s) l regs)"
      using xs(2) by (simp add: keys_def ops group_keys_nth(2))
    fix i assume "i < length (keys n k s)"
    then have i: "i < length regs * l" using xs(2) by (simp add: keys_def ops)
    note d = group_index [OF i]
    have "op_msr (op_at k s (i div l * l + i mod l)) = ucast (regs ! (i div l))"
      "op_cpu (op_at k s (i div l * l + i mod l)) = of_nat (i mod l)"
      using assms(1) d(1,2) unfolding group_loaded_def by blast+
    moreover have "unat (of_nat (i mod l) :: u16) = i mod l"
      using d(2) assms(3) by (simp add: unsigned_of_nat take_bit_nat_eq_self)
    moreover have "ucast (ucast (regs ! (i div l)) :: u32) = regs ! (i div l)"
      using assms(2) d(1) by simp
    ultimately have "keys n k s ! i = (fd_of s (i mod l), regs ! (i div l))"
      using xs(2) i by (simp add: keys_def ops reg_key_def at del: div_mult_mod_eq)
    with group_keys_nth(1) [OF d(1,2), of "fd_of s"] show "keys n k s ! i = group_keys (fd_of s) l regs ! i"
      by (simp add: d(3))
  qed
qed

section \<open>Writing a cell\<close>

lemma cell_set_iff: "(\<exists>t. cell_set p v s = Some t) \<longleftrightarrow> cell_get s p \<noteq> None"
  by (auto simp: cell_set_def cell_get_def split: bind_splits)

lemma cell_set_any:
  assumes "cell_set p v s = Some t"
  shows "cell_get t = (cell_get s)(p \<mapsto> v)" "at rg t = at rg s" "keys n k t = keys n k s"
    "batch_live E good drv rg n k s \<Longrightarrow> batch_live E good drv rg n k t"
    "batches_ok E good drv rg s \<Longrightarrow> batches_ok E good drv rg t"
    "lib.more t = lib.more s" "batch t = batch s" "g_topo_list t = g_topo_list s" "fd_of t = fd_of s"
proof -
  obtain xs where xs: "the_block (fst p) s = Some xs" "snd p < length xs"
    and t: "t = set_block (fst p) (xs[snd p := (xs ! snd p)\<lparr>op_msrdata := v\<rparr>]) s"
    using assms by (auto simp: cell_set_def aget_Some_iff split: bind_splits)
  define ys where "ys = xs[snd p := (xs ! snd p)\<lparr>op_msrdata := v\<rparr>]"
  have k: "fst p < length (blocks s)" "blocks s ! fst p = Some xs"
    using xs(1) by (auto simp: the_block_def aget_Some_iff split: bind_splits)
  have bl: "blocks t = (blocks s)[fst p := Some ys]" by (simp add: t set_block_def ys_def)
  show "lib.more t = lib.more s" "batch t = batch s" "g_topo_list t = g_topo_list s"
    by (simp_all add: t set_block_def)
  show "at rg t = at rg s" by (simp add: t at_def)
  show "cell_get t = (cell_get s)(p \<mapsto> v)"
  proof
    fix q
    show "cell_get t q = ((cell_get s)(p \<mapsto> v)) q"
    proof (cases "fst q = fst p")
      case True
      with k xs(2) show ?thesis
        by (cases "snd q = snd p"; cases "snd q < length xs")
          (auto simp: cell_get_def the_block_def bl ys_def prod_eq_iff)
    next
      case False
      then show ?thesis by (auto simp: cell_get_def the_block_def bl aget_def)
    qed
  qed
  have same: "length ys = length xs" "op_cpu (ys ! i) = op_cpu (xs ! i)" "op_msr (ys ! i) = op_msr (xs ! i)"
    "op_isrdmsr (ys ! i) = op_isrdmsr (xs ! i)" for i
    using xs(2) by (cases "i = snd p"; simp add: ys_def)+
  have op: "op_cpu (op_at k t i) = op_cpu (op_at k s i)" "op_msr (op_at k t i) = op_msr (op_at k s i)"
    "op_isrdmsr (op_at k t i) = op_isrdmsr (op_at k s i)" for k i
    using k same by (cases "k = fst p"; simp add: op_at_def bl)+
  show fd: "fd_of t = fd_of s" by (simp add: t)
  show ky: "keys n k t = keys n k s" for n k
  proof (cases "k = fst p")
    case True
    then have "ops_of n k t = take (numops (batch s ! n)) ys" "ops_of n k s = take (numops (batch s ! n)) xs"
      using k by (simp_all add: ops_of_def bl) (simp add: t)
    then show ?thesis by (intro nth_equalityI) (simp_all add: keys_def fd same reg_key_def)
  next
    case False
    then show ?thesis by (simp add: keys_def fd ops_of_def bl) (simp add: t)
  qed
  have rd: "batch_ready n k t = batch_ready n k s" for n k
    using k same(1) by (cases "k = fst p") (auto simp: batch_ready_def bl t set_block_def nth_list_update)
  have fdr: "fds_ready E good t = fds_ready E good s" by (simp add: t)
  show "batch_live E good drv rg n k t" if "batch_live E good drv rg n k s"
  proof -
    have "flags_agree (numops (batch s ! n)) (the (blocks t ! k))"
    proof (cases "k = fst p")
      case True
      with k that have "flags_agree (numops (batch s ! n)) xs" "0 < numops (batch s ! n)" by (simp_all add: batch_live_def)
      with True k show ?thesis using same(4) by (auto simp: bl intro: flags_agree_cong)
    next
      case False
      with that show ?thesis by (simp add: bl batch_live_def)
    qed
    moreover have "distinct (map (reg_key (fd_of t)) (ops_of n k t))"
      using keys_distinct [OF that] ky [of n k] unfolding keys_def by metis
    moreover have b: "batch t = batch s" "batchfd t = batchfd s" by (simp_all add: t set_block_def)
    moreover have "\<forall>i<numops (batch s ! n). unat (op_cpu (op_at k t i)) < NUM_DEVS (hw E)"
      using that unfolding op batch_live_def by blast
    ultimately show ?thesis
      using that unfolding batch_live_def fd rd fdr b by blast
  qed
  show "batches_ok E good drv rg t" if "batches_ok E good drv rg s"
  proof -
    have "blocks_own t"
      by (rule blocks_own_cong [of s]) (use that in \<open>simp_all add: t set_block_def batches_ok_def\<close>)
    moreover have "map_ready E t = map_ready E s" "batchfd t = batchfd s"
      by (simp_all add: t set_block_def map_ready_def)
    ultimately show ?thesis using that unfolding batches_ok_def machine_ready_def fd fdr by simp
  qed
qed

text \<open>What any number of writes to cells leave alone.\<close>

definition cells_only ::
  "'d env \<Rightarrow> (int \<Rightarrow> bool) \<Rightarrow> (int \<Rightarrow> bool) \<Rightarrow> (int \<Rightarrow> u64 \<Rightarrow> 'd \<Rightarrow> u64)
   \<Rightarrow> ('d, 'z) lib_scheme \<Rightarrow> ('d, 'z) lib_scheme \<Rightarrow> bool" where
  "cells_only E good drv rg s t \<longleftrightarrow>
     at rg t = at rg s \<and> lib.more t = lib.more s \<and> batch t = batch s \<and> fd_of t = fd_of s \<and> (\<forall>n k. keys n k t = keys n k s)
     \<and> (\<forall>n k. batch_live E good drv rg n k s \<longrightarrow> batch_live E good drv rg n k t)
     \<and> (batches_ok E good drv rg s \<longrightarrow> batches_ok E good drv rg t)"

lemma cells_only_refl: "cells_only E good drv rg s s"
  by (simp add: cells_only_def)

lemma cells_only_set: "cell_set p v s = Some t \<Longrightarrow> cells_only E good drv rg s t"
  by (simp add: cells_only_def cell_set_any)

lemma cells_only_trans:
  "cells_only E good drv rg s t \<Longrightarrow> cells_only E good drv rg t u \<Longrightarrow> cells_only E good drv rg s u"
  by (simp add: cells_only_def)

lemma cell_set_next:
  assumes "cell_get s p \<noteq> None"
  shows "\<exists>t. cell_set p v s = Some t \<and> cell_get t = (cell_get s)(p \<mapsto> v) \<and> cells_only E good drv rg s t"
  using assms cell_set_iff [of p v s] cell_set_any(1) cells_only_set by blast

section \<open>Running a batch\<close>

lemma frame_cells:
  assumes "batch_frame rg n k t = batch_frame rg n k s" "fst p \<noteq> k"
  shows "cell_get t p = cell_get s p"
proof -
  note b = batch_frameD(6) [OF assms(1)]
  have "length (blocks t) = length (blocks s)" using arg_cong [OF b, of length] by simp
  moreover have "blocks t ! fst p = blocks s ! fst p"
    using arg_cong [OF b, of "\<lambda>xs. xs ! fst p"] assms(2) by simp
  ultimately show ?thesis by (simp add: cell_get_def the_block_def aget_def)
qed

lemma frame_keys:
  assumes "batch_frame rg n k t = batch_frame rg n k s" "k' \<noteq> k \<or> n' = n \<and> k' = k"
  shows "keys n' k' t = keys n' k' s"
proof (cases "k' = k")
  case True
  then show ?thesis using assms batch_frameD(7) [OF assms(1)] by (simp add: keys_def)
next
  case False
  note f = batch_frameD [OF assms(1)]
  have "blocks t ! k' = blocks s ! k'" using arg_cong [OF f(6), of "\<lambda>xs. xs ! k'"] False by simp
  then show ?thesis by (simp add: keys_def ops_of_def f(3,4))
qed

lemma read_view:
  assumes live: "batch_live E good drv rg n k s" and ok: "batches_ok E good drv rg s"
  shows "\<exists>t. read_batch E n s = Some (0, t) \<and> batch_live E good drv rg n k t \<and> slot_step E good drv rg n s t
    \<and> batch_frame rg n k t = batch_frame rg n k s
    \<and> (\<forall>i<numops (batch s ! n). cell_get t (k, i) = Some (at rg s (keys n k s ! i)))
    \<and> (\<forall>x. at rg t x = at rg s x)"
proof -
  obtain t where t: "read_batch E n s = Some (0, t)" "batch_live E good drv rg n k t"
    "numops (batch t ! n) = numops (batch s ! n)" "batch_frame rg n k t = batch_frame rg n k s"
    "\<forall>i<numops (batch s ! n). op_data k t i = op_reg rg k s i \<and> op_reg rg k t i = op_reg rg k s i"
    using window.rd_ok [OF live] by blast
  note ky = frame_keys [OF t(4), of k n]
  have "cell_get t (k, i) = Some (at rg s (keys n k s ! i))" if "i < numops (batch s ! n)" for i
    using cell_get_live [OF t(2), of i] t(3,5) that keys_nth(3) [OF live that] by simp
  moreover have "at rg t x = at rg s x" for x
  proof (cases "x \<in> set (keys n k s)")
    case True
    then obtain i where i: "i < numops (batch s ! n)" "x = keys n k s ! i"
      using keys_nth(2) [OF live] live by (auto simp: in_set_conv_nth batch_live_def)
    have "op_reg rg k t i = op_reg rg k s i" using t(5) i(1) by blast
    with keys_nth(3) [OF live i(1)] keys_nth(3) [OF t(2), of i] i t(3) ky show ?thesis by simp
  next
    case False
    with batch_frameD(8) [OF t(4), of "fst x" "snd x"] show ?thesis
      by (cases x) (simp add: keys_def at_def)
  qed
  ultimately show ?thesis using t batch_frame_step [OF ok live t(2,4)] by blast
qed

lemma write_view:
  assumes live: "batch_live E good drv rg n k s" and ok: "batches_ok E good drv rg s"
  shows "\<exists>t. write_batch E n s = Some (0, t) \<and> batch_live E good drv rg n k t \<and> slot_step E good drv rg n s t
    \<and> batch_frame rg n k t = batch_frame rg n k s
    \<and> (\<forall>i<numops (batch s ! n). Some (at rg t (keys n k s ! i)) = cell_get s (k, i))
    \<and> (\<forall>x. x \<notin> set (keys n k s) \<longrightarrow> at rg t x = at rg s x)"
proof -
  obtain t where t: "write_batch E n s = Some (0, t)" "batch_live E good drv rg n k t"
    "numops (batch t ! n) = numops (batch s ! n)" "batch_frame rg n k t = batch_frame rg n k s"
    "\<forall>i<numops (batch s ! n). op_data k t i = op_data k s i \<and> op_reg rg k t i = op_data k s i"
    using window.wr_ok [OF live] by blast
  have "Some (at rg t (keys n k s ! i)) = cell_get s (k, i)" if "i < numops (batch s ! n)" for i
    using cell_get_live [OF live that] t(3,5) that keys_nth(3) [OF t(2), of i] frame_keys [OF t(4), of k n] by simp
  moreover have "at rg t x = at rg s x" if "x \<notin> set (keys n k s)" for x
    using that batch_frameD(8) [OF t(4), of "fst x" "snd x"] by (cases x) (simp add: keys_def at_def)
  ultimately show ?thesis using t batch_frame_step [OF ok live t(2,4)] by blast
qed

section \<open>Several registers of all threads in a new batch\<close>

lemma thread_group_view:
  assumes ok: "batches_ok E good drv rg s" and fresh: "batch_fresh n s" and n: "0 < NUM_DEVS (hw E)"
    and regs: "regs \<noteq> []" "distinct (map (\<lambda>a. ucast a :: u32) regs)" "\<forall>a\<in>set regs. ucast (ucast a :: u32) = a"
  shows "\<exists>vs t. alloc_group (load_thread_batch E) n regs (NUM_DEVS (hw E)) s = Some (vs, t)
    \<and> slot_step E good drv rg n s t \<and> batch_live E good drv rg n (length (blocks s)) t
    \<and> keys n (length (blocks s)) t = group_keys (fd_of s) (NUM_DEVS (hw E)) regs \<and> length vs = length regs
    \<and> (\<forall>j<length regs. wired (length (blocks s)) (j * NUM_DEVS (hw E)) (NUM_DEVS (hw E)) (vs ! j))
    \<and> dev t = dev s \<and> fd_of t = fd_of s \<and> length (blocks s) < length (blocks t)
    \<and> (\<forall>m k. m \<noteq> n \<longrightarrow> batch_ready m k s \<longrightarrow> batch_kept m k s t)"
proof -
  let ?n = "NUM_DEVS (hw E)" and ?k = "length (blocks s)"
  have mr: "machine_ready E good drv rg s" and small: "?n < 2 ^ 16" using ok by (simp_all add: batches_ok_def machine_ready_def)
  obtain vs t where t: "alloc_group (load_thread_batch E) n regs ?n s = Some (vs, t)" "batch_live E good drv rg n ?k t"
    "group_loaded n ?k regs ?n vs t" "off_batch t = off_batch s"
    and kept: "\<forall>m k. m \<noteq> n \<longrightarrow> batch_ready m k s \<longrightarrow> batch_kept m k s t"
    and fr: "\<forall>m. m \<noteq> n \<longrightarrow> batch_fresh m s \<longrightarrow> batch_fresh m t" "blocks_own s \<longrightarrow> blocks_own t"
    using alloc_thread_group [OF mr fresh refl n regs(1,2)] by blast
  note o = off_batch_machine [OF t(4)] and q = off_batch_eqD [OF t(4)]
  have m: "machine_ready E good drv rg t" using mr o(1) by simp
  have "batch_live E good drv rg j i t \<and> batch t ! j = batch s ! j"
    if "j \<noteq> n" "batch_live E good drv rg j i s" for j i
  proof -
    have "batch_ready j i s" using that(2) by (simp add: batch_live_def)
    with kept that(1) have "batch_kept j i s t" by blast
    from batch_kept_live [OF that(2) this m o(2)] this show ?thesis by (simp add: batch_kept_def)
  qed
  with ok m fr q have "slot_step E good drv rg n s t" by (simp add: slot_step_def batches_ok_def)
  moreover have "keys n ?k t = group_keys (fd_of s) ?n regs"
    using group_loaded_keys [OF t(3) regs(3) small] o(2) by simp
  moreover have "?k < length (blocks t)" using t(3) by (auto simp: group_loaded_def batch_ready_def)
  moreover have "length vs = length regs" "\<forall>j<length regs. wired ?k (j * ?n) ?n (vs ! j)"
    using t(3) by (simp_all add: group_loaded_def)
  ultimately show ?thesis using t(1,2) q(1) o(2) kept by blast
qed

text \<open>The fields that a component adds do not matter.\<close>

lemma same_lib_view:
  assumes "same_lib s t"
  shows "keys n k s = keys n k t" "batch_fresh n s = batch_fresh n t" "fd_of s = fd_of t" "at rg s = at rg t"
    "cell_get s = cell_get t" "batch_ready n k s = batch_ready n k t"
proof -
  show f: "fd_of s = fd_of t" using assms by (simp add: same_lib_def fd_of_def fun_eq_iff)
  show "keys n k s = keys n k t" using assms by (simp add: keys_def f) (simp add: same_lib_def ops_of_def)
  show "batch_fresh n s = batch_fresh n t" using assms by (simp add: batch_fresh_def same_lib_def)
  show "at rg s = at rg t" using assms by (simp add: at_def same_lib_def)
  show "cell_get s = cell_get t" using assms by (simp add: fun_eq_iff cell_get_def the_block_def same_lib_def)
  show "batch_ready n k s = batch_ready n k t" using assms by (simp add: batch_ready_def same_lib_def)
qed

end
