(* ===== verification/Sim_Window.thy ===== *)
theory Sim_Window
  imports Reg_Slots
begin

text \<open>
  A loaded batch on the concrete machine of \<open>Msr_Sim\<close>: batch \<open>n\<close> holds one read operation for
  each processor and register of a list.
\<close>

definition window_op :: "nat \<times> u64 \<Rightarrow> msr_batch_op" where
  "window_op p = msr_batch_op0\<lparr>op_cpu := of_nat (fst p), op_msr := ucast (snd p), op_isrdmsr := 1\<rparr>"

definition sim_window :: "nat \<Rightarrow> (nat \<times> u64) list \<Rightarrow> 'z \<Rightarrow> (sim, 'z) lib_scheme" where
  "sim_window n xs z = (sim_lib z)\<lparr>batch_null := False, arrsize := Suc n,
     batch := replicate n batch_array0 @ [\<lparr>numops = length xs, ops = Some 0\<rparr>],
     bsize := replicate n 0 @ [length xs], blocks := [Some (map window_op xs)]\<rparr>"

abbreviation sim_drv :: "int \<Rightarrow> bool" where
  "sim_drv \<equiv> \<lambda>fd. 0 \<le> fd"

definition sim_fd :: "nat \<Rightarrow> int" where
  "sim_fd i = the (map Some [10, 11, 12, 13] ! i)"

lemma sim_fd_num: "i < 4 \<Longrightarrow> sim_fd i = 10 + int i"
  by (auto simp: sim_fd_def less_4)

lemma sim_reads:
  "\<forall>x\<in>set xs. op_isrdmsr x \<noteq> 0 \<and> unat (op_cpu x) < 4 \<Longrightarrow>
     sim_batch xs d = (map (fetched sim_rg sim_fd d) xs, d)"
  by (induction xs) (auto simp: fetched_def sim_rg_def sim_fd_num)

lemma sim_writes:
  "\<forall>x\<in>set xs. op_isrdmsr x = 0 \<and> unat (op_cpu x) < 4 \<Longrightarrow>
     \<exists>d'. sim_batch xs d = (xs :: msr_batch_op list, d') \<and> regs_of sim_rg d' = fold (reg_write sim_fd) xs (regs_of sim_rg d)"
proof (induction xs arbitrary: d)
  case Nil
  then show ?case by simp
next
  case (Cons x xs)
  let ?d = "d\<lparr>sregs := (sregs d)(10 + int (unat (op_cpu x)) :=
      (sregs d (10 + int (unat (op_cpu x))))(ucast (op_msr x) := op_msrdata x))\<rparr>"
  have "regs_of sim_rg ?d = reg_write sim_fd x (regs_of sim_rg d)"
    using Cons.prems by (auto simp: regs_of_def sim_rg_def reg_write_def sim_fd_num fun_eq_iff)
  moreover obtain d' where "sim_batch xs ?d = (xs, d')"
    "regs_of sim_rg d' = fold (reg_write sim_fd) xs (regs_of sim_rg ?d)"
    using Cons.IH [of ?d] Cons.prems by auto
  ultimately show ?case using Cons.prems by (auto simp: Let_def)
qed

lemma sim_batch_env: "batch_env (sim_env b) sim_good sim_drv sim_rg sim_fd"
proof -
  have "batch_driver (sim_env b) sim_drv sim_rg sim_fd"
    by (auto simp: batch_driver_def sim_env_def sim_rg_def sim_reads)
  moreover have "batch_writer (sim_env b) sim_drv sim_rg sim_fd"
    unfolding batch_writer_def
  proof (intro allI impI)
    fix f and xs :: "msr_batch_op list" and d
    assume "\<forall>x\<in>set xs. op_isrdmsr x = 0 \<and> unat (op_cpu x) < NUM_DEVS (hw (sim_env b))"
    with sim_writes [of xs d] show "\<exists>d'. os_ioctl (sim_env b) f xs d = (0, xs, d')
        \<and> regs_of sim_rg d' = fold (reg_write sim_fd) xs (regs_of sim_rg d)"
      by (auto simp: sim_env_def)
  qed
  ultimately show ?thesis by (simp add: batch_env_def sim_msr_files)
qed

lemma small_cpu: "c < 4 \<Longrightarrow> unat (of_nat c :: u16) = c"
  by (simp add: unsigned_of_nat take_bit_nat_eq_self)

lemma sim_window_fd: "fd_of (sim_window n xs z) = sim_fd"
  by (rule ext) (simp add: fd_of_def sim_window_def sim_fd_def del: list.map)

lemma sim_window_live:
  assumes "xs \<noteq> []" "\<forall>p\<in>set xs. fst p < 4" "distinct (map (\<lambda>p. (fst p, ucast (snd p) :: 32 word)) xs)"
  shows "batch_live (sim_env b) sim_good sim_drv sim_rg n 0 (sim_window n xs z)"
proof -
  let ?s = "sim_window n xs z"
  have "batch_env (sim_env b) sim_good sim_drv sim_rg (fd_of ?s)"
    unfolding sim_window_fd by (rule sim_batch_env)
  moreover have "fds_ready (sim_env b) sim_good ?s"
    using sim_fds_ready [of b z] by (simp add: fds_ready_def sim_window_def)
  moreover have "batch_ready n 0 ?s" by (simp add: batch_ready_def sim_window_def nth_append)
  moreover have at: "op_at 0 ?s i = window_op (xs ! i)" if "i < length xs" for i
    using that by (simp add: op_at_def sim_window_def)
  then have "\<forall>i<length xs. unat (op_cpu (op_at 0 ?s i)) < NUM_DEVS (hw (sim_env b))"
    using assms(2) by (simp add: window_op_def small_cpu)
  moreover have "flags_agree (length xs) (map window_op xs)"
    using assms(1) by (simp add: flags_agree_def window_op_def)
  moreover have "distinct (map (reg_key sim_fd) (map window_op xs))"
  proof -
    have "inj_on (reg_key sim_fd \<circ> window_op) (set xs)"
    proof (rule inj_onI)
      fix p q assume pq: "p \<in> set xs" "q \<in> set xs" "(reg_key sim_fd \<circ> window_op) p = (reg_key sim_fd \<circ> window_op) q"
      then have "fst p < 4" "fst q < 4" using assms(2) by auto
      with pq(3) have "fst p = fst q" "(ucast (snd p) :: 32 word) = ucast (snd q)"
        by (auto simp: reg_key_def window_op_def sim_fd_num small_cpu dest: ucast_32_inj)
      with pq(1,2) assms(3) show "p = q" by (auto simp: distinct_map dest: inj_onD)
    qed
    moreover have "distinct xs" using assms(3) by (simp add: distinct_map)
    ultimately show ?thesis by (simp add: distinct_map comp_inj_on_iff)
  qed
  ultimately show ?thesis using assms(1)
    by (simp add: batch_live_def sim_window_fd) (simp add: sim_window_def nth_append ops_of_def)
qed

text \<open>A structure over it with the same entry everywhere.\<close>

definition sim_array :: "nat \<Rightarrow> 'r \<Rightarrow> 'r reg_array" where
  "sim_array l v = \<lparr>raw = map (\<lambda>i. Some (0, i)) [0..<l], vals = replicate l v\<rparr>"

lemma sim_window_numops [simp]: "numops (batch (sim_window n xs z) ! n) = length xs"
  by (simp add: sim_window_def nth_append)

lemma sim_window_ops: "ops_of n 0 (sim_window n xs z) = map window_op xs"
  by (simp add: ops_of_def) (simp add: sim_window_def)

lemma sim_array_live:
  assumes "xs \<noteq> []" "\<forall>p\<in>set xs. fst p < 4" "distinct (map (\<lambda>p. (fst p, ucast (snd p) :: 32 word)) xs)"
    and "l = length xs"
  shows "array_live (sim_env b) sim_good sim_drv sim_rg n 0 l (sim_array l v) (sim_window n xs z)"
  using sim_window_live [OF assms(1-3)] assms(4)
  by (simp add: array_live_def wired_def sim_array_def)

text \<open>All registers of the machine hold 0.\<close>

lemma sim_window_reg: "op_reg sim_rg k (sim_window n xs z) i = 0"
  by (simp add: op_reg_def sim_rg_def sim_window_def sim0_def split: prod.split)

text \<open>The machine of \<open>Msr_Sim\<close> before any batch is used.\<close>

lemma sim_machine_ready: "machine_ready (sim_env b) sim_good sim_drv sim_rg (sim_lib z)"
proof -
  have fd: "fd_of (sim_lib z) = sim_fd"
    by (rule ext) (simp add: fd_of_def sim_fd_def del: list.map)
  have "inj_on sim_fd {..<4}" by (auto simp: inj_on_def sim_fd_num)
  moreover have "map_ready (sim_env b) (sim_lib z)"
    by (auto simp: map_ready_def sim_lib_def less_4)
  ultimately show ?thesis
    using sim_batch_env [of b] sim_fds_ready [of b z] by (simp add: machine_ready_def fd)
qed

lemma sim_batch_fresh: "batch_fresh n (sim_lib z)"
  by (simp add: batch_fresh_def)

lemma sim_lib_thread:
  "i < 2 \<Longrightarrow> core_id (hwthread_of (sim_lib z) i) = int i \<and> socket_id (hwthread_of (sim_lib z) i) = int i"
  by (auto simp: hwthread_of_def sim_lib_def less_2_cases_iff hw_thread_def sim_hw_def)

lemma sim_batches_ok: "batches_ok (sim_env b) sim_good sim_drv sim_rg (sim_lib z)"
  using sim_machine_ready by (simp add: batches_ok_def blocks_own_def)

lemma sim_window_batches_ok: "batches_ok (sim_env b) sim_good sim_drv sim_rg (sim_window n xs z)"
proof -
  have fd: "fd_of (sim_window n xs z) = fd_of (sim_lib z)"
    by (rule ext) (simp add: fd_of_def sim_window_def del: list.map)
  have "machine_ready (sim_env b) sim_good sim_drv sim_rg (sim_window n xs z)"
    using sim_machine_ready [of b z] by (simp add: machine_ready_def fd) (simp add: sim_window_def fds_ready_def map_ready_def)
  moreover have "blocks_own (sim_window n xs z)"
    by (auto simp: blocks_own_def sim_window_def nth_append less_Suc_eq batch_array0_def)
  ultimately show ?thesis by (simp add: batches_ok_def)
qed

end
