(* ===== verification/Rapl_Poll.thy ===== *)
theory Rapl_Poll
  imports Rapl_Witness Batch_View Sim_Window
begin

text \<open>
  One \<open>poll_rapl_data\<close> from end to end: the clock, the copies of the last sample, the batch, the
  conversion, and the energy and power of every socket.
\<close>

section \<open>Arrays of the structure\<close>

definition arr :: "nat \<Rightarrow> 'a list option \<Rightarrow> bool" where
  "arr n a \<longleftrightarrow> (\<exists>xs. a = Some xs \<and> length xs = n)"

lemma arr_simps [simp]:
  "arr n (Some xs) \<longleftrightarrow> length xs = n"
  "arr n a \<Longrightarrow> length (the a) = n"
  "arr n a \<Longrightarrow> i < n \<Longrightarrow> oget a i = Some (the a ! i)"
  "arr n a \<Longrightarrow> i < n \<Longrightarrow> oset a i v = Some (Some ((the a)[i := v]))"
  "arr n a \<Longrightarrow> Some (the a) = a"
  by (auto simp: arr_def)

text \<open>A list whose first \<open>j\<close> elements have been replaced.\<close>

definition upto :: "(nat \<Rightarrow> 'a) \<Rightarrow> nat \<Rightarrow> 'a list \<Rightarrow> 'a list" where
  "upto f j xs = map f [0..<j] @ drop j xs"

lemma upto_simps [simp]:
  "upto f 0 xs = xs" "length xs = n \<Longrightarrow> upto f n xs = map f [0..<n]"
  "j \<le> length xs \<Longrightarrow> length (upto f j xs) = length xs"
  "j < length xs \<Longrightarrow> (upto f j xs)[j := f j] = upto f (Suc j) xs"
  by (simp_all add: upto_def list_update_append Cons_nth_drop_Suc [symmetric])

text \<open>Pointers into the first \<open>m\<close> operations of block \<open>k\<close>.\<close>

definition points :: "nat \<Rightarrow> nat \<Rightarrow> nat \<Rightarrow> cell option list option \<Rightarrow> bool" where
  "points k m n a \<longleftrightarrow> (\<exists>ps. a = Some ps \<and> length ps = n \<and> (\<forall>i<n. \<exists>j<m. ps ! i = Some (k, j)))"

lemma deref_points:
  assumes "points k m n a" "i < n" "\<And>j. j < m \<Longrightarrow> cell_get s (k, j) \<noteq> None"
  shows "\<exists>v. deref a i s = Some v"
proof -
  obtain ps j where "a = Some ps" "length ps = n" "ps ! i = Some (k, j)" "j < m"
    using assms(1,2) by (auto simp: points_def)
  with assms(2) assms(3) [of j] show ?thesis by (auto simp: deref_def ptr_def aget_def)
qed

text \<open>The structure of \<open>n\<close> sockets; the arrays of the memory exist where it is measured.\<close>

definition rapl_wf :: "nat \<Rightarrow> nat \<Rightarrow> nat \<Rightarrow> bool \<Rightarrow> rapl_data \<Rightarrow> bool" where
  "rapl_wf n k m dram r \<longleftrightarrow>
     n \<le> m \<and> pkg_bits r = Some (map (\<lambda>i. Some (k, i)) [0..<n])
     \<and> arr n (pkg_joules r) \<and> arr n (old_pkg_bits r) \<and> arr n (old_pkg_joules r) \<and> arr n (pkg_delta_joules r)
     \<and> arr n (pkg_delta_bits r) \<and> arr n (pkg_watts r)
     \<and> (dram \<longrightarrow> points k m n (dram_bits r) \<and> arr n (old_dram_bits r) \<and> arr n (dram_joules r) \<and> arr n (old_dram_joules r)
          \<and> arr n (dram_delta_joules r) \<and> arr n (dram_watts r))"

definition no_dram :: "rapl_data \<Rightarrow> rapl_data" where
  "no_dram r = r\<lparr>old_dram_bits := None, dram_joules := None, old_dram_joules := None, dram_delta_joules := None,
     dram_watts := None\<rparr>"

lemma no_dram_simps [simp]:
  "no_dram (r\<lparr>old_dram_bits := a\<rparr>) = no_dram r" "no_dram (r\<lparr>dram_joules := b\<rparr>) = no_dram r"
  "no_dram (r\<lparr>old_dram_joules := b\<rparr>) = no_dram r" "no_dram (r\<lparr>dram_delta_joules := b\<rparr>) = no_dram r"
  "no_dram (r\<lparr>dram_watts := b\<rparr>) = no_dram r"
  by (simp_all add: no_dram_def)

lemma no_dram_eqD:
  assumes "no_dram r = no_dram q"
  shows "pkg_joules r = pkg_joules q" "old_pkg_bits r = old_pkg_bits q" "old_pkg_joules r = old_pkg_joules q"
    "pkg_delta_joules r = pkg_delta_joules q" "pkg_delta_bits r = pkg_delta_bits q" "pkg_watts r = pkg_watts q"
    "elapsed r = elapsed q" "pkg_bits r = pkg_bits q" "now r = now q"
  using assms by (simp_all add: no_dram_def) (cases r; cases q; simp)+

section \<open>Steps that change the structure only\<close>

definition only_rapl :: "('d, 'z) rapl_lib_scheme \<Rightarrow> ('d, 'z) rapl_lib_scheme \<Rightarrow> bool" where
  "only_rapl s t \<longleftrightarrow> (\<exists>r e. t = s\<lparr>rapl := r, stderr := e\<rparr>)"

lemma only_raplI: "t = s\<lparr>rapl := r, stderr := e\<rparr> \<Longrightarrow> only_rapl s t"
  unfolding only_rapl_def by blast

lemma only_rapl_refl: "only_rapl s s"
  by (rule only_raplI [where r = "rapl s" and e = "stderr s"]) simp

lemma only_rapl_trans: "only_rapl s t \<Longrightarrow> only_rapl t u \<Longrightarrow> only_rapl s u"
proof -
  assume "only_rapl s t" "only_rapl t u"
  then obtain r e q f where "t = s\<lparr>rapl := r, stderr := e\<rparr>" "u = t\<lparr>rapl := q, stderr := f\<rparr>"
    unfolding only_rapl_def by blast
  then have "u = s\<lparr>rapl := q, stderr := f\<rparr>" by simp
  then show ?thesis by (rule only_raplI)
qed

lemma only_rapl_set: "only_rapl s (s\<lparr>rapl := r\<rparr>)"
  by (rule only_raplI [where r = r and e = "stderr s"]) simp

lemma only_rapl_error: "only_rapl s (libmsr_error_handler e s)"
  by (rule only_raplI [where r = "rapl s" and e = "stderr s @ [e]"]) (simp add: libmsr_error_handler_def)

lemmas only_rapl_next = only_rapl_trans [OF _ only_rapl_set] only_rapl_trans [OF _ only_rapl_error]

lemma only_raplD:
  assumes "only_rapl s t"
  shows "has f t = has f s" "cell_get t = cell_get s" "ru t = ru s" "same_lib t s"
    "rapl_ready t = rapl_ready s" "read_init t = read_init s" "delta_init t = delta_init s" "batch t = batch s"
    "units_ready E sk u t = units_ready E sk u s"
  using assms
  by (auto simp: only_rapl_def has_def cell_get_def the_block_def same_lib_def units_ready_def fun_eq_iff)

section \<open>The loops\<close>

text \<open>The operations of the batch can be read through their pointers.\<close>

definition cells_ready :: "nat \<Rightarrow> nat \<Rightarrow> ('d, 'z) lib_scheme \<Rightarrow> bool" where
  "cells_ready k m s \<longleftrightarrow> (\<forall>j<m. cell_get s (k, j) \<noteq> None)"

definition cell_val :: "('d, 'z) lib_scheme \<Rightarrow> nat \<Rightarrow> nat \<Rightarrow> u64" where
  "cell_val s k i = the (cell_get s (k, i))"

lemma deref_pkg:
  assumes "rapl_wf n k m dram (rapl s)" "cells_ready k m s" "i < n"
  shows "deref (pkg_bits (rapl s)) i s = Some (cell_val s k i)"
  using assms by (auto simp: rapl_wf_def cells_ready_def cell_val_def deref_def ptr_def aget_def)

lemma deref_frame:
  "deref a i (s\<lparr>rapl := r\<rparr>) = deref a i s" "deref a i (s\<lparr>stderr := e\<rparr>) = deref a i s"
  by (simp_all add: deref_def cell_get_def the_block_def)

lemma has_frame: "has f (s\<lparr>rapl := r\<rparr>) = has f s" "has f (s\<lparr>stderr := e\<rparr>) = has f s"
  by (simp_all add: has_def)

lemma deref_dram:
  assumes "rapl_wf n k m True (rapl s)" "cells_ready k m s" "i < n"
  shows "\<exists>v. deref (dram_bits (rapl s)) i s = Some v"
  using assms deref_points [of k m n "dram_bits (rapl s)" i s] by (auto simp: rapl_wf_def cells_ready_def)

lemma rapl_wfE:
  assumes "rapl_wf n k m dram r"
  obtains js ob oj dj db w and a b c d e where "pkg_joules r = Some js" "length js = n" "old_pkg_bits r = Some ob" "length ob = n"
    "old_pkg_joules r = Some oj" "length oj = n" "pkg_delta_joules r = Some dj" "length dj = n"
    "pkg_delta_bits r = Some db" "length db = n" "pkg_watts r = Some w" "length w = n"
    "dram \<Longrightarrow> old_dram_bits r = Some a \<and> length a = n" "dram \<Longrightarrow> dram_joules r = Some b \<and> length b = n"
    "dram \<Longrightarrow> old_dram_joules r = Some c \<and> length c = n" "dram \<Longrightarrow> dram_delta_joules r = Some d \<and> length d = n"
    "dram \<Longrightarrow> dram_watts r = Some e \<and> length e = n" "n \<le> m" "pkg_bits r = Some (map (\<lambda>i. Some (k, i)) [0..<n])"
    "dram \<Longrightarrow> points k m n (dram_bits r)"
proof -
  have "arr n (pkg_joules r)" "arr n (old_pkg_bits r)" "arr n (old_pkg_joules r)" "arr n (pkg_delta_joules r)"
    "arr n (pkg_delta_bits r)" "arr n (pkg_watts r)"
    using assms by (simp_all add: rapl_wf_def)
  then obtain js ob oj dj db w where p: "pkg_joules r = Some js" "length js = n" "old_pkg_bits r = Some ob" "length ob = n"
    "old_pkg_joules r = Some oj" "length oj = n" "pkg_delta_joules r = Some dj" "length dj = n"
    "pkg_delta_bits r = Some db" "length db = n" "pkg_watts r = Some w" "length w = n"
    unfolding arr_def by (elim exE conjE) (rule that)
  have d: "dram \<Longrightarrow> arr n (old_dram_bits r)" "dram \<Longrightarrow> arr n (dram_joules r)" "dram \<Longrightarrow> arr n (old_dram_joules r)"
    "dram \<Longrightarrow> arr n (dram_delta_joules r)" "dram \<Longrightarrow> arr n (dram_watts r)"
    using assms by (simp_all add: rapl_wf_def)
  show ?thesis
    by (rule that [OF p, of "the (old_dram_bits r)" "the (dram_joules r)" "the (old_dram_joules r)"
          "the (dram_delta_joules r)" "the (dram_watts r)"])
      (use d assms in \<open>auto simp: arr_def rapl_wf_def\<close>)
qed

lemma wf_upd:
  assumes "rapl_wf n k m d r"
  shows "length a = n \<Longrightarrow> rapl_wf n k m d (r\<lparr>old_pkg_bits := Some a\<rparr>)"
    "length a = n \<Longrightarrow> rapl_wf n k m d (r\<lparr>pkg_delta_bits := Some a\<rparr>)"
    "length a = n \<Longrightarrow> rapl_wf n k m d (r\<lparr>old_dram_bits := Some a\<rparr>)"
    "length b = n \<Longrightarrow> rapl_wf n k m d (r\<lparr>pkg_joules := Some b\<rparr>)"
    "length b = n \<Longrightarrow> rapl_wf n k m d (r\<lparr>old_pkg_joules := Some b\<rparr>)"
    "length b = n \<Longrightarrow> rapl_wf n k m d (r\<lparr>pkg_delta_joules := Some b\<rparr>)"
    "length b = n \<Longrightarrow> rapl_wf n k m d (r\<lparr>pkg_watts := Some b\<rparr>)"
    "length b = n \<Longrightarrow> rapl_wf n k m d (r\<lparr>dram_joules := Some b\<rparr>)"
    "length b = n \<Longrightarrow> rapl_wf n k m d (r\<lparr>old_dram_joules := Some b\<rparr>)"
    "length b = n \<Longrightarrow> rapl_wf n k m d (r\<lparr>dram_delta_joules := Some b\<rparr>)"
    "length b = n \<Longrightarrow> rapl_wf n k m d (r\<lparr>dram_watts := Some b\<rparr>)"
  using assms by (simp_all add: rapl_wf_def)

lemma save_old_step:
  assumes wf: "rapl_wf n k m (has DRAM_ENERGY_STATUS s) (rapl s)" and c: "cells_ready k m s" "has PKG_ENERGY_STATUS s" "i < n"
  shows "\<exists>t. save_old i s = Some t \<and> only_rapl s t \<and> rapl_wf n k m (has DRAM_ENERGY_STATUS s) (rapl t)
    \<and> no_dram (rapl t) = (no_dram (rapl s))\<lparr>old_pkg_bits := Some ((the (old_pkg_bits (rapl s)))[i := cell_val s k i]),
        old_pkg_joules := Some ((the (old_pkg_joules (rapl s)))[i := the (pkg_joules (rapl s)) ! i])\<rparr>"
proof (rule rapl_wfE [OF wf])
  fix js ob oj dj db w a b c' d e
  assume r: "pkg_joules (rapl s) = Some js" "length js = n" "old_pkg_bits (rapl s) = Some ob" "length ob = n"
    "old_pkg_joules (rapl s) = Some oj" "length oj = n"
    and dram: "has DRAM_ENERGY_STATUS s \<Longrightarrow> old_dram_bits (rapl s) = Some a \<and> length a = n"
      "has DRAM_ENERGY_STATUS s \<Longrightarrow> dram_joules (rapl s) = Some b \<and> length b = n"
      "has DRAM_ENERGY_STATUS s \<Longrightarrow> old_dram_joules (rapl s) = Some c' \<and> length c' = n"
  define r1 where "r1 = (rapl s)\<lparr>old_pkg_bits := Some (ob[i := cell_val s k i]), old_pkg_joules := Some (oj[i := js ! i])\<rparr>"
  define s2 where "s2 = (if has PKG_PERF_STATUS (s\<lparr>rapl := r1\<rparr>)
    then libmsr_error_handler LIBMSR_ERROR_NOT_IMPLEMENTED_YET (s\<lparr>rapl := r1\<rparr>) else s\<lparr>rapl := r1\<rparr>)"
  have o2: "only_rapl s s2" "rapl s2 = r1" by (simp_all add: s2_def only_rapl_set only_rapl_next)
  have w1: "rapl_wf n k m (has DRAM_ENERGY_STATUS s) r1" unfolding r1_def using r c by (intro wf_upd wf) simp_all
  obtain v where v: "has DRAM_ENERGY_STATUS s \<Longrightarrow> deref (dram_bits (rapl s)) i s = Some v"
    using deref_dram [of n k m s i] wf c by (cases "has DRAM_ENERGY_STATUS s") auto
  define s3 where "s3 = (if has DRAM_ENERGY_STATUS s
    then set_rapl (\<lambda>r. r\<lparr>old_dram_bits := Some (a[i := v]), old_dram_joules := Some (c'[i := b ! i])\<rparr>) s2 else s2)"
  define s4 where "s4 = (if has DRAM_PERF_STATUS s then libmsr_error_handler LIBMSR_ERROR_NOT_IMPLEMENTED_YET s3 else s3)"
  have o4: "only_rapl s s4" by (simp add: s4_def s3_def only_rapl_next o2(1))
  have r4: "rapl s4 = (if has DRAM_ENERGY_STATUS s
      then r1\<lparr>old_dram_bits := Some (a[i := v]), old_dram_joules := Some (c'[i := b ! i])\<rparr> else r1)"
    by (simp add: s4_def s3_def o2(2))
  have h: "has f s2 = has f s" "has f s3 = has f s" "deref ps i s2 = deref ps i s" for f ps
    using only_raplD(1,2) [OF o2(1)] by (simp_all add: s3_def has_frame deref_def)
  have "save_old i s = Some s4"
    using c r deref_pkg [OF wf c(1,3)] dram v h o2(2)
    by (cases "has DRAM_ENERGY_STATUS s")
      (simp_all add: save_old_def r1_def [symmetric] s2_def [symmetric] Let_def, simp_all add: s4_def s3_def r1_def)
  moreover have "rapl_wf n k m (has DRAM_ENERGY_STATUS s) (rapl s4)"
    unfolding r4 using dram w1 by (cases "has DRAM_ENERGY_STATUS s") (simp_all add: wf_upd)
  ultimately show ?thesis using o4 r by (intro exI [of _ s4]) (simp add: r4, simp add: r1_def no_dram_def)
qed

lemma convert_step:
  assumes wf: "rapl_wf n k m (has DRAM_ENERGY_STATUS s) (rapl s)" and c: "cells_ready k m s" "has PKG_ENERGY_STATUS s" "i < n"
    and u: "units_ready E (of_nat i) u s"
  shows "\<exists>t. convert_joules E i s = Some t \<and> only_rapl s t \<and> rapl_wf n k m (has DRAM_ENERGY_STATUS s) (rapl t)
    \<and> no_dram (rapl t) = (no_dram (rapl s))\<lparr>pkg_joules := Some ((the (pkg_joules (rapl s)))[i := dbl (cell_val s k i) / joules u])\<rparr>"
proof (rule rapl_wfE [OF wf])
  fix js ob oj dj db w a b c' d e
  assume r: "pkg_joules (rapl s) = Some js" "length js = n"
    and dram: "has DRAM_ENERGY_STATUS s \<Longrightarrow> dram_joules (rapl s) = Some b \<and> length b = n"
  obtain v where v: "has DRAM_ENERGY_STATUS s \<Longrightarrow> deref (dram_bits (rapl s)) i s = Some v"
    using deref_dram [of n k m s i] wf c by (cases "has DRAM_ENERGY_STATUS s") auto
  obtain x where x: "translate E (of_nat i) v (b ! i) BITS_TO_JOULES_DRAM s = Some (0, v, x, s)"
    using translate_ready(3) [OF u] by blast
  define s1 where "s1 = (if has DRAM_ENERGY_STATUS s then set_rapl (\<lambda>r. r\<lparr>dram_joules := Some (b[i := x])\<rparr>) s else s)"
  define s2 where "s2 = set_rapl (\<lambda>r. r\<lparr>pkg_joules := Some (js[i := dbl (cell_val s k i) / joules u])\<rparr>) s1"
  have o1: "only_rapl s s1" by (simp add: s1_def only_rapl_set only_rapl_refl)
  have r1: "pkg_joules (rapl s1) = Some js" "no_dram (rapl s1) = no_dram (rapl s)" "pkg_bits (rapl s1) = pkg_bits (rapl s)"
    using r by (simp_all add: s1_def)
  note h = only_raplD [OF o1]
  have p: "deref (pkg_bits (rapl s1)) i s1 = Some (cell_val s k i)"
    using deref_pkg [OF wf c(1,3)] by (simp add: r1(3) deref_def h(2))
  have "units_ready E (of_nat i) u s1" using u h(9) by simp
  note tr = translate_ready(2) [OF this]
  have "convert_joules E i s = (if has PKG_ENERGY_STATUS s1 then do {
          v \<leftarrow> deref (pkg_bits (rapl s1)) i s1;
          j \<leftarrow> oget (pkg_joules (rapl s1)) i;
          (_, _, j, s) \<leftarrow> translate E (of_nat i) v j BITS_TO_JOULES s1;
          a \<leftarrow> oset (pkg_joules (rapl s)) i j;
          Some (set_rapl (\<lambda>r. r\<lparr>pkg_joules := a\<rparr>) s)
        } else Some s1)"
    using dram v x c(3) by (cases "has DRAM_ENERGY_STATUS s") (simp_all add: convert_joules_def s1_def)
  then have "convert_joules E i s = Some s2" using p tr r1 r c h(1) by (simp add: s2_def)
  moreover have "rapl_wf n k m (has DRAM_ENERGY_STATUS s) (rapl s1)"
    using wf dram by (auto simp: s1_def intro: wf_upd)
  then have "rapl_wf n k m (has DRAM_ENERGY_STATUS s) (rapl s2)" unfolding s2_def using r by (simp add: wf_upd)
  moreover have "no_dram (rapl s2) = (no_dram (rapl s1))\<lparr>pkg_joules := Some (js[i := dbl (cell_val s k i) / joules u])\<rparr>"
    by (simp add: s2_def no_dram_def)
  ultimately show ?thesis using o1 r by (intro exI [of _ s2]) (simp add: s2_def only_rapl_next r1(2))
qed

text \<open>The energy of one socket: what \<open>delta_pkg\<close> changes, and the value it computes.\<close>

definition energy :: "u64 \<Rightarrow> u64 \<Rightarrow> real \<Rightarrow> real" where
  "energy old new jo =
     real ((unat new + 2 ^ 32 - unat old) mod 2 ^ 32 - (if unat new < unat old then 1 else 0)) / jo"

lemma delta_pkg_exact:
  assumes wf: "rapl_wf n k m d (rapl s)" and c: "cells_ready k m s" "i < n" "i < 2 ^ 31"
    and u: "units_ready E (of_nat i) u s" "0 < joules u"
    and v: "the (pkg_joules (rapl s)) ! i = dbl (cell_val s k i) / joules u"
      "the (old_pkg_joules (rapl s)) ! i = dbl (the (old_pkg_bits (rapl s)) ! i) / joules u"
      "unat (cell_val s k i) < 2 ^ 32" "unat (the (old_pkg_bits (rapl s)) ! i) < 2 ^ 32"
  shows "\<exists>t db. delta_pkg E i s = Some t \<and> only_rapl s t \<and> length db = n
    \<and> rapl t = (rapl s)\<lparr>pkg_delta_bits := Some db, pkg_delta_joules := Some ((the (pkg_delta_joules (rapl s)))
        [i := energy (the (old_pkg_bits (rapl s)) ! i) (cell_val s k i) (joules u)])\<rparr>"
proof (rule rapl_wfE [OF wf])
  fix js ob oj dj db w a b c' d e
  assume r: "pkg_joules (rapl s) = Some js" "length js = n" "old_pkg_bits (rapl s) = Some ob" "length ob = n"
    "old_pkg_joules (rapl s) = Some oj" "length oj = n" "pkg_delta_joules (rapl s) = Some dj" "length dj = n"
    "pkg_delta_bits (rapl s) = Some db" "length db = n"
  let ?v = "cell_val s k i" let ?b = "?v + of_nat UINT_MAX - ob ! i"
  note p = deref_pkg [OF wf c(1,2)]
  define wrapped where "wrapped \<longleftrightarrow> dbl ?v < dbl (ob ! i)"
  define x where "x = (if wrapped then dbl ?b / joules u else js ! i - oj ! i)"
  define s1 where "s1 = (if wrapped then set_rapl (\<lambda>r. r\<lparr>pkg_delta_bits := Some (db[i := ?b]), pkg_delta_joules := Some (dj[i := x])\<rparr>) s
    else set_rapl (\<lambda>r. r\<lparr>pkg_delta_joules := Some (dj[i := x])\<rparr>) s)"
  define s2 where "s2 = (if x < 0 then libmsr_error_handler LIBMSR_ERROR_INVAL s1 else s1)"
  have r1: "pkg_delta_joules (rapl s1) = Some (dj[i := x])" by (simp add: s1_def)
  have e: "delta_pkg E i s = Some s2"
    using p r c(2) translate_ready(2) [OF u(1)] r1
    by (cases wrapped) (simp_all add: delta_pkg_def wrapped_def [symmetric] Let_def s2_def s1_def x_def)
  have o: "only_rapl s s2" by (simp add: s2_def s1_def only_rapl_set only_rapl_next)
  obtain t where "delta_pkg E i s = Some t" "oget (pkg_delta_joules (rapl t)) i = Some (energy (ob ! i) ?v (joules u))"
    using delta_pkg_energy [OF u(1) c(3) u(2) p, of ob "ob ! i" js oj db dj] r v c(2) by (auto simp: energy_def)
  moreover have "pkg_delta_joules (rapl s2) = Some (dj[i := x])" using r1 by (simp add: s2_def)
  ultimately have x: "x = energy (ob ! i) ?v (joules u)" using e r c(2) by simp
  have "rapl s2 = (rapl s)\<lparr>pkg_delta_bits := Some (if wrapped then db[i := ?b] else db), pkg_delta_joules := Some (dj[i := x])\<rparr>"
    using r by (simp add: s2_def s1_def)
  with e o x r show ?thesis by (intro exI [of _ s2] exI [of _ "if wrapped then db[i := ?b] else db"]) simp
qed

lemma delta_dram_exact:
  assumes wf: "rapl_wf n k m True (rapl s)" and i: "i < n"
  shows "\<exists>x. delta_dram i s = Some (set_rapl (\<lambda>r. r\<lparr>dram_delta_joules := Some x\<rparr>) s) \<and> length x = n"
proof (rule rapl_wfE [OF wf])
  fix js ob oj dj db w a b c' d e
  assume "True \<Longrightarrow> dram_joules (rapl s) = Some b \<and> length b = n" "True \<Longrightarrow> old_dram_joules (rapl s) = Some c' \<and> length c' = n"
    "True \<Longrightarrow> dram_delta_joules (rapl s) = Some d \<and> length d = n"
  with i show ?thesis by (auto simp: delta_dram_def)
qed

lemma delta_socket_step:
  assumes wf: "rapl_wf n k m (has DRAM_ENERGY_STATUS s) (rapl s)" and p: "has PKG_ENERGY_STATUS s"
    and c: "cells_ready k m s" "i < n" "i < 2 ^ 31"
    and u: "units_ready E (of_nat i) u s" "0 < joules u"
    and v: "the (pkg_joules (rapl s)) ! i = dbl (cell_val s k i) / joules u"
      "the (old_pkg_joules (rapl s)) ! i = dbl (the (old_pkg_bits (rapl s)) ! i) / joules u"
      "unat (cell_val s k i) < 2 ^ 32" "unat (the (old_pkg_bits (rapl s)) ! i) < 2 ^ 32"
    and j: "j = energy (the (old_pkg_bits (rapl s)) ! i) (cell_val s k i) (joules u)"
  shows "\<exists>t db. delta_socket E i s = Some t \<and> only_rapl s t \<and> rapl_wf n k m (has DRAM_ENERGY_STATUS s) (rapl t) \<and> length db = n
    \<and> no_dram (rapl t) = (no_dram (rapl s))\<lparr>pkg_delta_bits := Some db,
        pkg_delta_joules := Some ((the (pkg_delta_joules (rapl s)))[i := j]),
        pkg_watts := Some ((the (pkg_watts (rapl s)))[i := if 0 < elapsed (rapl s) then j / elapsed (rapl s) else 0])\<rparr>"
proof (rule rapl_wfE [OF wf])
  fix js ob oj dj db w a b c' d e
  assume r: "pkg_delta_joules (rapl s) = Some dj" "length dj = n" "pkg_watts (rapl s) = Some w" "length w = n"
    and dram: "has DRAM_ENERGY_STATUS s \<Longrightarrow> dram_watts (rapl s) = Some e \<and> length e = n"
  define D where "D \<longleftrightarrow> has DRAM_ENERGY_STATUS s"
  obtain s1 db' where s1: "delta_pkg E i s = Some s1" "only_rapl s s1" "length db' = n"
    "rapl s1 = (rapl s)\<lparr>pkg_delta_bits := Some db', pkg_delta_joules := Some (dj[i := j])\<rparr>"
    using delta_pkg_exact [OF wf c u v] j r by auto
  have w1: "rapl_wf n k m D (rapl s1)" unfolding s1(4) D_def using r(2) s1(3) wf by (simp add: wf_upd)
  obtain x where x: "D \<Longrightarrow> delta_dram i s1 = Some (set_rapl (\<lambda>r. r\<lparr>dram_delta_joules := Some x\<rparr>) s1)" "D \<Longrightarrow> length x = n"
    using delta_dram_exact [of n k m s1 i] w1 c(2) by (cases D) auto
  define s2 where "s2 = (if D then set_rapl (\<lambda>r. r\<lparr>dram_delta_joules := Some x\<rparr>) s1 else s1)"
  have o2: "only_rapl s s2" using s1(2) by (simp add: s2_def only_rapl_next)
  have h: "has PKG_ENERGY_STATUS s1" "has DRAM_ENERGY_STATUS s1 = D" "has PKG_ENERGY_STATUS s2" "has DRAM_ENERGY_STATUS s2 = D"
    using only_raplD(1) [OF s1(2)] only_raplD(1) [OF o2] p by (simp_all add: D_def)
  have r2: "pkg_delta_joules (rapl s2) = Some (dj[i := j])" "pkg_watts (rapl s2) = Some w" "elapsed (rapl s2) = elapsed (rapl s)"
    "D \<Longrightarrow> dram_watts (rapl s2) = Some e" "D \<Longrightarrow> dram_delta_joules (rapl s2) = Some x"
    using r dram s1(4) by (simp_all add: s2_def D_def)
  have w2: "rapl_wf n k m D (rapl s2)" using w1 x(2) by (cases D) (simp_all add: s2_def wf_upd)
  define pw where "pw = (if 0 < elapsed (rapl s) then j / elapsed (rapl s) else 0)"
  define dw where "dw = (if 0 < elapsed (rapl s) then x ! i / elapsed (rapl s) else 0)"
  define s3 where "s3 = set_rapl (\<lambda>r. r\<lparr>pkg_watts := Some (w[i := pw])\<rparr>) s2"
  define s4 where "s4 = (if D then set_rapl (\<lambda>r. r\<lparr>dram_watts := Some (e[i := dw])\<rparr>) s3 else s3)"
  have o4: "only_rapl s s4" using o2 by (simp add: s4_def s3_def only_rapl_next)
  have le: "D \<Longrightarrow> length e = n" using dram by (simp add: D_def)
  have e1: "(if has PKG_ENERGY_STATUS s then delta_pkg E i s else Some s) = Some s1" using p s1(1) by simp
  have e2: "(if has DRAM_ENERGY_STATUS s1 then delta_dram i s1 else Some s1) = Some s2"
    using x h(2) by (cases D) (simp_all add: s2_def)
  have h3: "has DRAM_ENERGY_STATUS s3 = D" using h(4) by (simp add: s3_def has_frame)
  have e3: "set_pkg_watts i pw s2 = Some s3" using r2(2) r c(2) by (simp add: set_pkg_watts_def s3_def)
  have e4: "D \<Longrightarrow> oget (dram_delta_joules (rapl s3)) i = Some (x ! i)" "D \<Longrightarrow> set_dram_watts i dw s3 = Some s4"
    "elapsed (rapl s3) = elapsed (rapl s)" "\<not> D \<Longrightarrow> s4 = s3"
    using r2 x(2) le c(2) by (simp_all add: set_dram_watts_def s4_def s3_def)
  have "delta_socket E i s = Some s4"
    unfolding delta_socket_def e1 e2 Option.bind.bind_lunit
    using e3 e4 h h3 r2 r c(2) by (cases "0 < elapsed (rapl s)"; cases D) (simp_all add: pw_def dw_def)
  moreover have "rapl_wf n k m D (rapl s4)" using w2 r le by (cases D) (simp_all add: s4_def s3_def wf_upd)
  moreover have "no_dram (rapl s4) = (no_dram (rapl s))\<lparr>pkg_delta_bits := Some db',
        pkg_delta_joules := Some (dj[i := j]), pkg_watts := Some (w[i := pw])\<rparr>"
    using s1(4) by (simp add: s4_def s3_def s2_def no_dram_def)
  ultimately show ?thesis using o4 s1(3) r unfolding D_def [symmetric] pw_def by auto
qed

lemma no_dram_sel:
  "pkg_joules (no_dram r) = pkg_joules r" "old_pkg_bits (no_dram r) = old_pkg_bits r"
  "old_pkg_joules (no_dram r) = old_pkg_joules r" "pkg_delta_joules (no_dram r) = pkg_delta_joules r"
  "pkg_watts (no_dram r) = pkg_watts r" "elapsed (no_dram r) = elapsed r" "now (no_dram r) = now r"
  by (simp_all add: no_dram_def)

lemma cell_val_frame: "only_rapl s t \<Longrightarrow> cell_val t = cell_val s" "only_rapl s t \<Longrightarrow> cells_ready k m t = cells_ready k m s"
  by (simp_all add: cell_val_def cells_ready_def only_raplD(2) fun_eq_iff)

lemma save_old_loop:
  assumes wf: "rapl_wf n k m (has DRAM_ENERGY_STATUS s) (rapl s)" and c: "cells_ready k m s" "has PKG_ENERGY_STATUS s"
  shows "\<exists>t. foldo save_old [0..<n] s = Some t \<and> only_rapl s t \<and> rapl_wf n k m (has DRAM_ENERGY_STATUS s) (rapl t)
    \<and> no_dram (rapl t) = (no_dram (rapl s))\<lparr>old_pkg_bits := Some (map (cell_val s k) [0..<n]), old_pkg_joules := pkg_joules (rapl s)\<rparr>"
proof (rule rapl_wfE [OF wf])
  fix js ob oj dj db w a b c' d e
  assume r: "pkg_joules (rapl s) = Some js" "length js = n" "old_pkg_bits (rapl s) = Some ob" "length ob = n"
    "old_pkg_joules (rapl s) = Some oj" "length oj = n"
  define P where "P j t \<longleftrightarrow> only_rapl s t \<and> rapl_wf n k m (has DRAM_ENERGY_STATUS s) (rapl t)
    \<and> no_dram (rapl t) = (no_dram (rapl s))\<lparr>old_pkg_bits := Some (upto (cell_val s k) j ob), old_pkg_joules := Some (upto ((!) js) j oj)\<rparr>" for j t
  have "\<exists>t. foldo save_old [0..<n] s = Some t \<and> P n t"
  proof (rule foldo_upt)
    show "P 0 s" using wf r by (simp add: P_def only_rapl_refl) (simp add: no_dram_def)
  next
    fix j t assume j: "j < n" and P: "P j t"
    then have o: "only_rapl s t" and nd: "no_dram (rapl t) = (no_dram (rapl s))\<lparr>old_pkg_bits := Some (upto (cell_val s k) j ob),
        old_pkg_joules := Some (upto ((!) js) j oj)\<rparr>" by (simp_all add: P_def)
    note h = only_raplD(1) [OF o] and f = cell_val_frame [OF o]
    have sel: "old_pkg_bits (rapl t) = Some (upto (cell_val s k) j ob)" "old_pkg_joules (rapl t) = Some (upto ((!) js) j oj)"
      "pkg_joules (rapl t) = Some js"
      using arg_cong [OF nd, of old_pkg_bits] arg_cong [OF nd, of old_pkg_joules] arg_cong [OF nd, of pkg_joules] r
      by (simp_all add: no_dram_sel)
    obtain u where u: "save_old j t = Some u" "only_rapl t u" "rapl_wf n k m (has DRAM_ENERGY_STATUS s) (rapl u)"
      "no_dram (rapl u) = (no_dram (rapl t))\<lparr>old_pkg_bits := Some ((upto (cell_val s k) j ob)[j := cell_val s k j]),
        old_pkg_joules := Some ((upto ((!) js) j oj)[j := js ! j])\<rparr>"
      using save_old_step [of n k m t j] P c j by (auto simp: P_def h f sel)
    have "P (Suc j) u" using u o j r by (simp add: P_def nd only_rapl_trans [OF o])
    with u(1) show "\<exists>u. save_old j t = Some u \<and> P (Suc j) u" by blast
  qed
  moreover have "map ((!) js) [0..<n] = js" using r(2) by (metis map_nth)
  ultimately show ?thesis using r by (auto simp: P_def)
qed

lemma convert_loop:
  assumes wf: "rapl_wf n k m (has DRAM_ENERGY_STATUS s) (rapl s)" and c: "cells_ready k m s" "has PKG_ENERGY_STATUS s"
    and u: "\<And>i. i < n \<Longrightarrow> units_ready E (of_nat i) (us ! i) s"
  shows "\<exists>t. foldo (convert_joules E) [0..<n] s = Some t \<and> only_rapl s t \<and> rapl_wf n k m (has DRAM_ENERGY_STATUS s) (rapl t)
    \<and> no_dram (rapl t) = (no_dram (rapl s))\<lparr>pkg_joules := Some (map (\<lambda>i. dbl (cell_val s k i) / joules (us ! i)) [0..<n])\<rparr>"
proof (rule rapl_wfE [OF wf])
  fix js ob oj dj db w a b c' d e
  assume r: "pkg_joules (rapl s) = Some js" "length js = n"
  let ?f = "\<lambda>i. dbl (cell_val s k i) / joules (us ! i)"
  define P where "P j t \<longleftrightarrow> only_rapl s t \<and> rapl_wf n k m (has DRAM_ENERGY_STATUS s) (rapl t)
    \<and> no_dram (rapl t) = (no_dram (rapl s))\<lparr>pkg_joules := Some (upto ?f j js)\<rparr>" for j t
  have "\<exists>t. foldo (convert_joules E) [0..<n] s = Some t \<and> P n t"
  proof (rule foldo_upt)
    show "P 0 s" using wf r by (simp add: P_def only_rapl_refl) (simp add: no_dram_def)
  next
    fix j t assume j: "j < n" and P: "P j t"
    then have o: "only_rapl s t" and nd: "no_dram (rapl t) = (no_dram (rapl s))\<lparr>pkg_joules := Some (upto ?f j js)\<rparr>"
      by (simp_all add: P_def)
    note h = only_raplD(1) [OF o] and f = cell_val_frame [OF o]
    have sel: "pkg_joules (rapl t) = Some (upto ?f j js)" using arg_cong [OF nd, of pkg_joules] by (simp add: no_dram_sel)
    have "units_ready E (of_nat j) (us ! j) t" using u [OF j] only_raplD(9) [OF o] by simp
    then obtain v where v: "convert_joules E j t = Some v" "only_rapl t v" "rapl_wf n k m (has DRAM_ENERGY_STATUS s) (rapl v)"
      "no_dram (rapl v) = (no_dram (rapl t))\<lparr>pkg_joules := Some ((upto ?f j js)[j := ?f j])\<rparr>"
      using convert_step [of n k m t j E "us ! j"] P c j by (auto simp: P_def h f sel)
    have "P (Suc j) v" using v o j r upto_simps(4) [of j js ?f] by (simp add: P_def nd only_rapl_trans [OF o])
    with v(1) show "\<exists>v. convert_joules E j t = Some v \<and> P (Suc j) v" by blast
  qed
  then show ?thesis using r by (auto simp: P_def)
qed

lemma delta_loop:
  assumes wf: "rapl_wf n k m (has DRAM_ENERGY_STATUS s) (rapl s)" and c: "cells_ready k m s" "has PKG_ENERGY_STATUS s" "n < 2 ^ 31"
    and u: "\<And>i. i < n \<Longrightarrow> units_ready E (of_nat i) (us ! i) s \<and> 0 < joules (us ! i)"
    and v: "\<And>i. i < n \<Longrightarrow> the (pkg_joules (rapl s)) ! i = dbl (cell_val s k i) / joules (us ! i)
        \<and> the (old_pkg_joules (rapl s)) ! i = dbl (the (old_pkg_bits (rapl s)) ! i) / joules (us ! i)
        \<and> unat (cell_val s k i) < 2 ^ 32 \<and> unat (the (old_pkg_bits (rapl s)) ! i) < 2 ^ 32"
    and J: "J = (\<lambda>i. energy (the (old_pkg_bits (rapl s)) ! i) (cell_val s k i) (joules (us ! i)))"
    and W: "W = (\<lambda>i. if 0 < elapsed (rapl s) then J i / elapsed (rapl s) else 0)"
  shows "\<exists>t. foldo (delta_socket E) [0..<n] s = Some t \<and> only_rapl s t \<and> rapl_wf n k m (has DRAM_ENERGY_STATUS s) (rapl t)
    \<and> pkg_delta_joules (rapl t) = Some (map J [0..<n]) \<and> pkg_watts (rapl t) = Some (map W [0..<n])
    \<and> pkg_joules (rapl t) = pkg_joules (rapl s) \<and> elapsed (rapl t) = elapsed (rapl s)"
proof (rule rapl_wfE [OF wf])
  fix js ob oj dj db w a b c' d e
  assume r: "pkg_delta_joules (rapl s) = Some dj" "length dj = n" "pkg_watts (rapl s) = Some w" "length w = n"
    "pkg_delta_bits (rapl s) = Some db" "length db = n"
  define P where "P j t \<longleftrightarrow> only_rapl s t \<and> rapl_wf n k m (has DRAM_ENERGY_STATUS s) (rapl t)
    \<and> (\<exists>x. length x = n \<and> no_dram (rapl t) = (no_dram (rapl s))\<lparr>pkg_delta_bits := Some x,
          pkg_delta_joules := Some (upto J j dj), pkg_watts := Some (upto W j w)\<rparr>)" for j t
  have "\<exists>t. foldo (delta_socket E) [0..<n] s = Some t \<and> P n t"
  proof (rule foldo_upt)
    have "no_dram (rapl s) = (no_dram (rapl s))\<lparr>pkg_delta_bits := Some db, pkg_delta_joules := Some dj, pkg_watts := Some w\<rparr>"
      using r by (simp add: no_dram_def)
    then show "P 0 s" using wf r(6) by (auto simp: P_def only_rapl_refl)
  next
    fix j t assume j: "j < n" and P: "P j t"
    then obtain x where o: "only_rapl s t" and x: "length x = n" and nd: "no_dram (rapl t) = (no_dram (rapl s))\<lparr>pkg_delta_bits := Some x,
          pkg_delta_joules := Some (upto J j dj), pkg_watts := Some (upto W j w)\<rparr>" by (auto simp: P_def)
    note h = only_raplD(1) [OF o] and f = cell_val_frame [OF o]
    have sel: "pkg_joules (rapl t) = pkg_joules (rapl s)" "old_pkg_bits (rapl t) = old_pkg_bits (rapl s)"
      "old_pkg_joules (rapl t) = old_pkg_joules (rapl s)" "elapsed (rapl t) = elapsed (rapl s)"
      "pkg_delta_joules (rapl t) = Some (upto J j dj)" "pkg_watts (rapl t) = Some (upto W j w)"
      using arg_cong [OF nd, of pkg_joules] arg_cong [OF nd, of old_pkg_bits] arg_cong [OF nd, of old_pkg_joules]
        arg_cong [OF nd, of elapsed] arg_cong [OF nd, of pkg_delta_joules] arg_cong [OF nd, of pkg_watts]
      by (simp_all add: no_dram_sel)
    have ut: "units_ready E (of_nat j) (us ! j) t" "0 < joules (us ! j)" using u [OF j] only_raplD(9) [OF o] by simp_all
    have wt: "rapl_wf n k m (has DRAM_ENERGY_STATUS t) (rapl t)" "has PKG_ENERGY_STATUS t" "cells_ready k m t"
      using P c by (simp_all add: P_def h f)
    have j31: "j < 2 ^ 31" using j c(3) by simp
    obtain v y where v: "delta_socket E j t = Some v" "only_rapl t v" "rapl_wf n k m (has DRAM_ENERGY_STATUS s) (rapl v)" "length y = n"
      "no_dram (rapl v) = (no_dram (rapl t))\<lparr>pkg_delta_bits := Some y,
        pkg_delta_joules := Some ((upto J j dj)[j := J j]), pkg_watts := Some ((upto W j w)[j := W j])\<rparr>"
      using delta_socket_step [OF wt j j31 ut, of "J j"] v [OF j] by (auto simp: h f sel J W)
    have "P (Suc j) v" using v j r by (auto simp: P_def nd only_rapl_trans [OF o])
    with v(1) show "\<exists>v. delta_socket E j t = Some v \<and> P (Suc j) v" by blast
  qed
  then obtain t x where t: "foldo (delta_socket E) [0..<n] s = Some t" "only_rapl s t" "rapl_wf n k m (has DRAM_ENERGY_STATUS s) (rapl t)"
    and nd: "no_dram (rapl t) = (no_dram (rapl s))\<lparr>pkg_delta_bits := Some x,
          pkg_delta_joules := Some (upto J n dj), pkg_watts := Some (upto W n w)\<rparr>" by (auto simp: P_def)
  show ?thesis
    using t r arg_cong [OF nd, of pkg_joules] arg_cong [OF nd, of elapsed] arg_cong [OF nd, of pkg_delta_joules] arg_cong [OF nd, of pkg_watts]
    by (auto simp: no_dram_sel)
qed

section \<open>The poll\<close>

text \<open>Reading the clock does not change registers.\<close>

definition clock_only :: "'d env \<Rightarrow> (int \<Rightarrow> u64 \<Rightarrow> 'd \<Rightarrow> u64) \<Rightarrow> bool" where
  "clock_only E rg \<longleftrightarrow> (\<forall>d fd a. rg fd a (snd (snd (os_time E d))) = rg fd a d)"

text \<open>
  After the first poll: the batch holds an operation for every socket first, the units are known,
  and the energies of the structure belong to the last values read, of 32 bits.
\<close>

definition poll_ready ::
  "'d env \<Rightarrow> (int \<Rightarrow> bool) \<Rightarrow> (int \<Rightarrow> bool) \<Rightarrow> (int \<Rightarrow> u64 \<Rightarrow> 'd \<Rightarrow> u64) \<Rightarrow> nat \<Rightarrow> rapl_units list
   \<Rightarrow> ('d, 'z) rapl_lib_scheme \<Rightarrow> bool" where
  "poll_ready E good drv rg k us s \<longleftrightarrow>
     batch_live E good drv rg RAPL_DATA k s \<and> batches_ok E good drv rg s
     \<and> rapl_ready s \<and> read_init s \<and> delta_init s \<and> has PKG_ENERGY_STATUS s
     \<and> ru s = Some us \<and> length us = sockets (hw E) \<and> (\<forall>i < sockets (hw E). 0 < joules (us ! i)) \<and> sockets (hw E) < 2 ^ 31
     \<and> rapl_wf (sockets (hw E)) k (numops (batch s ! RAPL_DATA)) (has DRAM_ENERGY_STATUS s) (rapl s)
     \<and> (\<forall>i < sockets (hw E). snd (keys RAPL_DATA k s ! i) = MSR_PKG_ENERGY_STATUS
          \<and> the (pkg_joules (rapl s)) ! i = dbl (cell_val s k i) / joules (us ! i) \<and> unat (cell_val s k i) < 2 ^ 32)"

lemma poll_live_cells: "batch_live E good drv rg n k s \<Longrightarrow> cells_ready k (numops (batch s ! n)) s"
  by (simp add: cells_ready_def cell_get_live)

lemma live_dev:
  "batch_live E good drv rg n k (s\<lparr>dev := d\<rparr>) = batch_live E good drv rg n k s"
  "batches_ok E good drv rg (s\<lparr>dev := d\<rparr>) = batches_ok E good drv rg s"
  "keys n k (s\<lparr>dev := d\<rparr>) = keys n k s" "cell_get (s\<lparr>dev := d\<rparr>) = cell_get s"
  by (simp_all add: batch_live_def batches_ok_def machine_ready_def blocks_own_def map_ready_def fds_ready_def batch_ready_def
      fd_of_def op_at_def ops_of_def keys_def cell_get_def the_block_def fun_eq_iff)

lemma units_ready_list:
  assumes "ru s = Some us" "length us = sockets (hw E)" "i < sockets (hw E)" "sockets (hw E) < 2 ^ 31"
  shows "units_ready E (of_nat i) (us ! i) s"
proof -
  have "unat (of_nat i :: u32) = i" using assms(3,4) by (simp add: unsigned_of_nat take_bit_nat_eq_self)
  with assms show ?thesis by (simp add: units_ready_def)
qed

definition elapsed_since :: "int \<times> int \<Rightarrow> int \<times> int \<Rightarrow> real" where
  "elapsed_since old new = of_int (fst new - fst old) + of_int (snd new - snd old) / 1000000"

text \<open>The first half: the time, the copies of the last sample.\<close>

lemma poll_saved:
  assumes p: "poll_ready E good drv rg k us s" and c: "clock_only E rg" and t: "os_time E (dev s) = (sec, usec, d)"
  shows "\<exists>t. foldo save_old [0..<sockets (hw E)] (measure_elapsed (stamp E s)) = Some t \<and> only_rapl (s\<lparr>dev := d\<rparr>) t
    \<and> rapl_wf (sockets (hw E)) k (numops (batch s ! RAPL_DATA)) (has DRAM_ENERGY_STATUS s) (rapl t)
    \<and> old_pkg_bits (rapl t) = Some (map (cell_val s k) [0..<sockets (hw E)]) \<and> old_pkg_joules (rapl t) = pkg_joules (rapl s)
    \<and> elapsed (rapl t) = elapsed_since (now (rapl s)) (sec, usec) \<and> (\<forall>x. Batch_View.at rg t x = Batch_View.at rg s x)"
proof -
  let ?n = "sockets (hw E)" and ?m = "numops (batch s ! RAPL_DATA)"
  define s1 where "s1 = measure_elapsed (stamp E s)"
  have o: "only_rapl (s\<lparr>dev := d\<rparr>) s1"
    by (simp add: s1_def measure_elapsed_def stamp_def t Let_def only_rapl_set only_rapl_next)
  have r1: "rapl s1 = (rapl s)\<lparr>old_now := now (rapl s), now := (sec, usec), elapsed := elapsed_since (now (rapl s)) (sec, usec)\<rparr>"
    by (simp add: s1_def measure_elapsed_def stamp_def t Let_def elapsed_since_def)
  have h: "has f s1 = has f s" for f using only_raplD(1) [OF o] by (simp add: has_def)
  have cv: "cell_val s1 k = cell_val s k" "cells_ready k ?m s1 = cells_ready k ?m s"
    using cell_val_frame [OF o] by (simp_all add: cell_val_def cells_ready_def live_dev fun_eq_iff)
  have wf: "rapl_wf ?n k ?m (has DRAM_ENERGY_STATUS s1) (rapl s1)" "cells_ready k ?m s1" "has PKG_ENERGY_STATUS s1"
    using p poll_live_cells by (auto simp: poll_ready_def rapl_wf_def r1 h cv)
  obtain u where u: "foldo save_old [0..<?n] s1 = Some u" "only_rapl s1 u" "rapl_wf ?n k ?m (has DRAM_ENERGY_STATUS s1) (rapl u)"
    and nd: "no_dram (rapl u) = (no_dram (rapl s1))\<lparr>old_pkg_bits := Some (map (cell_val s1 k) [0..<?n]), old_pkg_joules := pkg_joules (rapl s1)\<rparr>"
    using save_old_loop [OF wf] by blast
  have ou: "only_rapl (s\<lparr>dev := d\<rparr>) u" by (rule only_rapl_trans [OF o u(2)])
  have "rg fd a d = rg fd a (dev s)" for fd a using c t unfolding clock_only_def by (metis snd_conv)
  then have "Batch_View.at rg u x = Batch_View.at rg s x" for x
    using only_raplD(4) [OF ou] by (cases x) (simp add: same_lib_def at_def)
  with u ou show ?thesis unfolding s1_def [symmetric]
    using arg_cong [OF nd, of old_pkg_bits] arg_cong [OF nd, of old_pkg_joules] arg_cong [OF nd, of elapsed]
    by (simp add: no_dram_sel cv h r1)
qed

text \<open>The second half: the batch and the conversion.\<close>

lemma poll_converted:
  assumes live: "batch_live E good drv rg RAPL_DATA k s" and ok: "batches_ok E good drv rg s"
    and wf: "rapl_wf n k (numops (batch s ! RAPL_DATA)) (has DRAM_ENERGY_STATUS s) (rapl s)" "has PKG_ENERGY_STATUS s"
    and u: "ru s = Some us" "length us = sockets (hw E)" "sockets (hw E) < 2 ^ 31" "n = sockets (hw E)"
  shows "\<exists>s1 t. read_batch E RAPL_DATA s = Some (0, s1) \<and> foldo (convert_joules E) [0..<n] s1 = Some t
    \<and> batch_live E good drv rg RAPL_DATA k t \<and> batches_ok E good drv rg t
    \<and> (\<forall>x. Batch_View.at rg t x = Batch_View.at rg s x) \<and> keys RAPL_DATA k t = keys RAPL_DATA k s \<and> batch t = batch s
    \<and> (\<forall>i < n. cell_get t (k, i) = Some (Batch_View.at rg s (keys RAPL_DATA k s ! i)))
    \<and> same_more s s1 \<and> only_rapl s1 t \<and> rapl_wf n k (numops (batch s ! RAPL_DATA)) (has DRAM_ENERGY_STATUS s) (rapl t)
    \<and> no_dram (rapl t) = (no_dram (rapl s))\<lparr>pkg_joules := Some (map (\<lambda>i. dbl (cell_val t k i) / joules (us ! i)) [0..<n])\<rparr>"
proof -
  let ?m = "numops (batch s ! RAPL_DATA)"
  obtain s1 where s1: "read_batch E RAPL_DATA s = Some (0, s1)" "batch_live E good drv rg RAPL_DATA k s1"
    "slot_step E good drv rg RAPL_DATA s s1" "batch_frame rg RAPL_DATA k s1 = batch_frame rg RAPL_DATA k s"
    "\<forall>i<?m. cell_get s1 (k, i) = Some (Batch_View.at rg s (keys RAPL_DATA k s ! i))"
    "\<forall>x. Batch_View.at rg s1 x = Batch_View.at rg s x"
    using read_view [OF live ok] by blast
  have sm: "same_more s s1" using s1(3) by (simp add: slot_step_def same_more_def)
  note f = same_more_rapl [OF sm] and h = same_more_has [OF sm] and b = batch_frameD(4) [OF s1(4)]
  have "ru s1 = Some us" using u(1) f(5) by simp
  then have ur: "\<And>i. i < n \<Longrightarrow> units_ready E (of_nat i) (us ! i) s1" using units_ready_list u by blast
  have w1: "rapl_wf n k ?m (has DRAM_ENERGY_STATUS s1) (rapl s1)" "cells_ready k ?m s1" "has PKG_ENERGY_STATUS s1"
    using wf poll_live_cells [OF s1(2)] by (simp_all add: f h b)
  obtain t where t: "foldo (convert_joules E) [0..<n] s1 = Some t" "only_rapl s1 t"
    "rapl_wf n k ?m (has DRAM_ENERGY_STATUS s1) (rapl t)"
    "no_dram (rapl t) = (no_dram (rapl s1))\<lparr>pkg_joules := Some (map (\<lambda>i. dbl (cell_val s1 k i) / joules (us ! i)) [0..<n])\<rparr>"
    using convert_loop [where us = us, OF w1 ur] by blast
  note o = only_raplD [OF t(2)] and sl = same_lib_ok [OF only_raplD(4) [OF t(2)]] same_lib_view [OF only_raplD(4) [OF t(2)]]
  have "n \<le> ?m" using wf(1) by (simp add: rapl_wf_def)
  then have cells: "\<forall>i < n. cell_get t (k, i) = Some (Batch_View.at rg s (keys RAPL_DATA k s ! i))"
    using s1(5) o(2) by simp
  have "batches_ok E good drv rg t" using s1(3) sl by (simp add: slot_step_def)
  moreover have "keys RAPL_DATA k t = keys RAPL_DATA k s" using frame_keys [OF s1(4), of k RAPL_DATA] sl by simp
  ultimately show ?thesis
    using s1 t sm cells o(8) b h sl f(3) cell_val_frame(1) [OF t(2)] by (intro exI [of _ s1] exI [of _ t]) simp
qed

text \<open>What \<open>read_rapl_data\<close> leaves for \<open>delta_rapl_data\<close>.\<close>

lemma poll_sampled:
  assumes p: "poll_ready E good drv rg k us s" and c: "clock_only E rg" and t: "os_time E (dev s) = (sec, usec, d)"
    and n: "n = sockets (hw E)" and m: "m = numops (batch s ! RAPL_DATA)" and D: "D \<longleftrightarrow> has DRAM_ENERGY_STATUS s"
    and e: "e = elapsed_since (now (rapl s)) (sec, usec)"
  shows "\<exists>s5. read_rapl_data E s = Some (0, s5) \<and> batch_live E good drv rg RAPL_DATA k s5 \<and> batches_ok E good drv rg s5
    \<and> (\<forall>x. Batch_View.at rg s5 x = Batch_View.at rg s x) \<and> keys RAPL_DATA k s5 = keys RAPL_DATA k s \<and> batch s5 = batch s
    \<and> (\<forall>i < n. cell_val s5 k i = Batch_View.at rg s (keys RAPL_DATA k s ! i)) \<and> rapl_wf n k m D (rapl s5)
    \<and> (\<forall>f. has f s5 = has f s) \<and> rapl_ready s5 \<and> read_init s5 \<and> delta_init s5 \<and> ru s5 = Some us
    \<and> old_pkg_bits (rapl s5) = Some (map (cell_val s k) [0..<n]) \<and> old_pkg_joules (rapl s5) = pkg_joules (rapl s)
    \<and> elapsed (rapl s5) = e \<and> pkg_joules (rapl s5) = Some (map (\<lambda>i. dbl (cell_val s5 k i) / joules (us ! i)) [0..<n])"
proof -
  note q = p [unfolded poll_ready_def, folded n]
  obtain s3 where s3: "foldo save_old [0..<n] (measure_elapsed (stamp E s)) = Some s3" "only_rapl (s\<lparr>dev := d\<rparr>) s3"
    "rapl_wf n k m D (rapl s3)" "old_pkg_bits (rapl s3) = Some (map (cell_val s k) [0..<n])"
    "old_pkg_joules (rapl s3) = pkg_joules (rapl s)" "elapsed (rapl s3) = e" "\<forall>x. Batch_View.at rg s3 x = Batch_View.at rg s x"
    using poll_saved [OF p c t] unfolding n m D e by blast
  note o3 = only_raplD [OF s3(2)] and sl = same_lib_ok [OF only_raplD(4) [OF s3(2)]] same_lib_view [OF only_raplD(4) [OF s3(2)]]
  have h3: "has f s3 = has f s" for f using o3(1) by (simp add: has_def)
  have k3: "keys RAPL_DATA k s3 = keys RAPL_DATA k s" using sl by (simp add: live_dev)
  have live3: "batch_live E good drv rg RAPL_DATA k s3" "batches_ok E good drv rg s3" "ru s3 = Some us" "batch s3 = batch s"
    using q sl o3(3,8) by (simp_all add: live_dev)
  obtain s4 s5 where s4: "read_batch E RAPL_DATA s3 = Some (0, s4)" "same_more s3 s4"
    and s5: "foldo (convert_joules E) [0..<n] s4 = Some s5" "batch_live E good drv rg RAPL_DATA k s5" "batches_ok E good drv rg s5"
      "\<forall>x. Batch_View.at rg s5 x = Batch_View.at rg s x" "keys RAPL_DATA k s5 = keys RAPL_DATA k s" "batch s5 = batch s"
      "\<forall>i < n. cell_get s5 (k, i) = Some (Batch_View.at rg s (keys RAPL_DATA k s ! i))" "only_rapl s4 s5" "rapl_wf n k m D (rapl s5)"
      "no_dram (rapl s5) = (no_dram (rapl s3))\<lparr>pkg_joules := Some (map (\<lambda>i. dbl (cell_val s5 k i) / joules (us ! i)) [0..<n])\<rparr>"
    using poll_converted [OF live3(1,2) _ _ live3(3), of n] q s3(3,7) unfolding live3(4) h3 k3 m [symmetric] D [symmetric]
    by (auto simp: n)
  note o5 = only_raplD [OF s5(8)] and f4 = same_more_rapl [OF s4(2)]
  have h5: "has f s5 = has f s" for f using o5(1) same_more_has [OF s4(2)] h3 by simp
  have flags: "rapl_ready s5" "read_init s5" "delta_init s5" "ru s5 = Some us"
    using q o3(5-7) f4 o5(3,5-7) live3(3) by simp_all
  have sel: "old_pkg_bits (rapl s5) = Some (map (cell_val s k) [0..<n])" "old_pkg_joules (rapl s5) = pkg_joules (rapl s)"
    "elapsed (rapl s5) = e" "pkg_joules (rapl s5) = Some (map (\<lambda>i. dbl (cell_val s5 k i) / joules (us ! i)) [0..<n])"
    using s3(4-6) arg_cong [OF s5(10), of old_pkg_bits] arg_cong [OF s5(10), of old_pkg_joules]
      arg_cong [OF s5(10), of elapsed] arg_cong [OF s5(10), of pkg_joules]
    by (simp_all add: no_dram_sel)
  have new: "cell_val s5 k i = Batch_View.at rg s (keys RAPL_DATA k s ! i)" if "i < n" for i
    using s5(7) that by (simp add: cell_val_def)
  have "s5\<lparr>read_init := True\<rparr> = s5" using flags(2) by simp
  then have "read_rapl_data E s = Some (0, s5)"
    using q s3(1) s4(1) s5(1) by (simp add: read_rapl_data_def n)
  with s5(2-6,9) new h5 flags sel show ?thesis by (intro exI [of _ s5]) simp
qed

text \<open>The whole poll.\<close>

lemma poll_outcome:
  assumes p: "poll_ready E good drv rg k us s" and c: "clock_only E rg" and t: "os_time E (dev s) = (sec, usec, d)"
    and counters: "\<forall>i < sockets (hw E). unat (Batch_View.at rg s (keys RAPL_DATA k s ! i)) < 2 ^ 32"
    and e: "e = elapsed_since (now (rapl s)) (sec, usec)"
    and j: "\<And>i. j i = energy (cell_val s k i) (Batch_View.at rg s (keys RAPL_DATA k s ! i)) (joules (us ! i))"
  shows "\<exists>u. poll_rapl_data E s = Some (0, u) \<and> poll_ready E good drv rg k us u
    \<and> (\<forall>x. Batch_View.at rg u x = Batch_View.at rg s x) \<and> elapsed (rapl u) = e
    \<and> (\<forall>i < sockets (hw E). cell_val u k i = Batch_View.at rg s (keys RAPL_DATA k s ! i))
    \<and> pkg_delta_joules (rapl u) = Some (map j [0..<sockets (hw E)])
    \<and> pkg_watts (rapl u) = Some (map (\<lambda>i. if 0 < e then j i / e else 0) [0..<sockets (hw E)])"
proof -
  define n where "n = sockets (hw E)"
  note q = p [unfolded poll_ready_def, folded n_def]
  define m where "m = numops (batch s ! RAPL_DATA)"
  define D where "D \<longleftrightarrow> has DRAM_ENERGY_STATUS s"
  obtain s5 where s5: "read_rapl_data E s = Some (0, s5)" "batch_live E good drv rg RAPL_DATA k s5" "batches_ok E good drv rg s5"
      "\<forall>x. Batch_View.at rg s5 x = Batch_View.at rg s x" "keys RAPL_DATA k s5 = keys RAPL_DATA k s" "batch s5 = batch s"
      "\<forall>i < n. cell_val s5 k i = Batch_View.at rg s (keys RAPL_DATA k s ! i)" "rapl_wf n k m D (rapl s5)"
    and h5: "\<And>f. has f s5 = has f s" and flags: "rapl_ready s5" "read_init s5" "delta_init s5" "ru s5 = Some us"
    and sel: "old_pkg_bits (rapl s5) = Some (map (cell_val s k) [0..<n])" "old_pkg_joules (rapl s5) = pkg_joules (rapl s)"
      "elapsed (rapl s5) = e" "pkg_joules (rapl s5) = Some (map (\<lambda>i. dbl (cell_val s5 k i) / joules (us ! i)) [0..<n])"
    using poll_sampled [OF p c t n_def m_def D_def e] by blast
  have new: "cell_val s5 k i = Batch_View.at rg s (keys RAPL_DATA k s ! i)" if "i < n" for i using s5(7) that by blast
  define J where "J = (\<lambda>i. energy (the (old_pkg_bits (rapl s5)) ! i) (cell_val s5 k i) (joules (us ! i)))"
  have J: "i < n \<Longrightarrow> J i = j i" for i by (simp add: J_def j sel(1) new)
  have w5: "rapl_wf n k m (has DRAM_ENERGY_STATUS s5) (rapl s5)" "cells_ready k m s5" "has PKG_ENERGY_STATUS s5" "n < 2 ^ 31"
    using s5(8) poll_live_cells [OF s5(2)] q by (simp_all add: h5 D_def s5(6) m_def)
  have u5: "units_ready E (of_nat i) (us ! i) s5 \<and> 0 < joules (us ! i)" if "i < n" for i
    using units_ready_list [OF flags(4)] q that by (simp add: n_def)
  have v5: "the (pkg_joules (rapl s5)) ! i = dbl (cell_val s5 k i) / joules (us ! i)
        \<and> the (old_pkg_joules (rapl s5)) ! i = dbl (the (old_pkg_bits (rapl s5)) ! i) / joules (us ! i)
        \<and> unat (cell_val s5 k i) < 2 ^ 32 \<and> unat (the (old_pkg_bits (rapl s5)) ! i) < 2 ^ 32" if "i < n" for i
    using q counters that new [OF that] by (simp add: sel n_def)
  obtain u where u: "foldo (delta_socket E) [0..<n] s5 = Some u" "only_rapl s5 u" "rapl_wf n k m D (rapl u)"
    "pkg_delta_joules (rapl u) = Some (map J [0..<n])"
    "pkg_watts (rapl u) = Some (map (\<lambda>i. if 0 < elapsed (rapl s5) then J i / elapsed (rapl s5) else 0) [0..<n])"
    "pkg_joules (rapl u) = pkg_joules (rapl s5)" "elapsed (rapl u) = e"
    using delta_loop [OF w5 u5 v5 J_def refl] by (auto simp: h5 D_def sel(3))
  note s5(1)
  moreover have "delta_rapl_data E s5 = Some (0, u)" using flags(3) u(1) by (simp add: delta_rapl_data_def n_def)
  ultimately have "poll_rapl_data E s = Some (0, u)" using q by (simp add: poll_rapl_data_def rapl_storage_ready)
  moreover note ou = only_raplD [OF u(2)] and su = same_lib_ok [OF only_raplD(4) [OF u(2)]] same_lib_view [OF only_raplD(4) [OF u(2)]]
  have cu: "cell_val u = cell_val s5" by (rule cell_val_frame(1) [OF u(2)])
  have "poll_ready E good drv rg k us u"
    unfolding poll_ready_def n_def [symmetric]
    using q s5(2,3,5,6) flags u(3) v5 ou su sel(4) by (simp add: h5 D_def m_def u(6) cu)
  moreover have "map J [0..<n] = map j [0..<n]" "map (\<lambda>i. if 0 < e then J i / e else 0) [0..<n] = map (\<lambda>i. if 0 < e then j i / e else 0) [0..<n]"
    by (simp_all add: J)
  ultimately show ?thesis using u(4,5,7) s5(4) su new unfolding n_def [symmetric]
    by (intro exI [of _ u]) (simp add: cu sel(3))
qed


section \<open>The energy over a run\<close>

text \<open>
  The energy counter of socket \<open>i\<close> counts \<open>T\<close> units, of which the register shows the lower 32
  bits.  Between two polls anything may happen to the machine, as long as the counter does not
  count a full turn.  \<open>metered\<close> holds of the state after a poll, the count at the first sample, the
  count at the last poll and the sum of the energies of all polls.
\<close>

definition displays :: "'d env \<Rightarrow> (int \<Rightarrow> u64 \<Rightarrow> 'd \<Rightarrow> u64) \<Rightarrow> nat \<Rightarrow> nat \<Rightarrow> nat \<Rightarrow> ('d, 'z) rapl_lib_scheme \<Rightarrow> bool" where
  "displays E rg k i T s \<longleftrightarrow> unat (Batch_View.at rg s (keys RAPL_DATA k s ! i)) = T mod 2 ^ 32
     \<and> (\<forall>j < sockets (hw E). unat (Batch_View.at rg s (keys RAPL_DATA k s ! j)) < 2 ^ 32)"

inductive metered ::
  "'d env \<Rightarrow> (int \<Rightarrow> bool) \<Rightarrow> (int \<Rightarrow> bool) \<Rightarrow> (int \<Rightarrow> u64 \<Rightarrow> 'd \<Rightarrow> u64) \<Rightarrow> nat \<Rightarrow> rapl_units list \<Rightarrow> nat
   \<Rightarrow> ('d, 'z) rapl_lib_scheme \<Rightarrow> nat \<Rightarrow> nat \<Rightarrow> real \<Rightarrow> bool"
  for E good drv rg k us i where
  start: "poll_ready E good drv rg k us s \<Longrightarrow> unat (cell_val s k i) = T mod 2 ^ 32
    \<Longrightarrow> metered E good drv rg k us i s T T 0"
| turn: "metered E good drv rg k us i s T0 T tot \<Longrightarrow> T \<le> T' \<Longrightarrow> T' < T + 2 ^ 32 \<Longrightarrow> displays E rg k i T' (s\<lparr>dev := d\<rparr>)
    \<Longrightarrow> poll_rapl_data E (s\<lparr>dev := d\<rparr>) = Some (r, u)
    \<Longrightarrow> metered E good drv rg k us i u T0 T' (tot + the (pkg_delta_joules (rapl u)) ! i)"

inductive_cases metered_turn: "metered E good drv rg k us i u T0 T tot"

text \<open>The wraps of the counter between two counts.\<close>

definition wraps :: "nat \<Rightarrow> nat \<Rightarrow> nat" where
  "wraps T0 T = T div 2 ^ 32 - T0 div 2 ^ 32"

lemma energy_counts:
  assumes "unat old = T mod 2 ^ 32" "unat new = T' mod 2 ^ 32" "T \<le> T'" "T' < T + 2 ^ 32"
  shows "energy old new jo = real (T' - T - wraps T T') / jo" "wraps T T' \<le> T' - T"
proof -
  define M :: nat where "M = 2 ^ 32"
  have M: "0 < M" by (simp add: M_def)
  have wd: "wraps T T' = T' div M - T div M" by (simp add: wraps_def M_def)
  define q a where "q = T div M" and "a = T mod M"
  have T: "T = q * M + a" "a < M" using M by (simp_all add: q_def a_def)
  define x where "x = T' - T"
  have x: "T' = q * M + (a + x)" "x < M" using assms(3,4) T(1) by (simp_all add: x_def M_def)
  have "T' div M = q + (a + x) div M" "T' mod M = (a + x) mod M" using M by (simp_all add: x(1))
  moreover have "(a + x) div M = (if a + x < M then 0 else 1)" "(a + x) mod M = (if a + x < M then a + x else a + x - M)"
    using T(2) x(2) M by (simp_all add: div_nat_eqI mod_if)
  ultimately have d: "wraps T T' = (if a + x < M then 0 else 1)" "T' mod M = (if a + x < M then a + x else a + x - M)"
    by (simp_all add: wd q_def)
  have "((if a + x < M then a + x else a + x - M) + M - a) mod M = x"
    using T(2) x(2) by (auto simp: mod_if)
  with d T(2) x(2) have "(unat new + M - unat old) mod M - (if unat new < unat old then 1 else 0) = x - wraps T T'"
    unfolding assms(1,2) M_def [symmetric] a_def [symmetric] by auto
  then show "energy old new jo = real (T' - T - wraps T T') / jo" by (simp add: energy_def M_def x_def)
  show "wraps T T' \<le> T' - T" using T(2) d(1) by (auto simp: x_def [symmetric])
qed

lemma poll_turn:
  assumes p: "poll_ready E good drv rg k us s" and c: "clock_only E rg" and i: "i < sockets (hw E)"
    and T: "unat (cell_val s k i) = T mod 2 ^ 32" "T \<le> T'" "T' < T + 2 ^ 32" "displays E rg k i T' (s\<lparr>dev := d\<rparr>)"
  shows "\<exists>u. poll_rapl_data E (s\<lparr>dev := d\<rparr>) = Some (0, u) \<and> poll_ready E good drv rg k us u
    \<and> unat (cell_val u k i) = T' mod 2 ^ 32
    \<and> the (pkg_delta_joules (rapl u)) ! i = real (T' - T - wraps T T') / joules (us ! i)"
proof -
  let ?s = "s\<lparr>dev := d\<rparr>"
  have ps: "poll_ready E good drv rg k us ?s"
    using p by (simp add: poll_ready_def live_dev cell_val_def has_def)
  obtain sec usec d' where t: "os_time E (dev ?s) = (sec, usec, d')" by (metis prod_cases3)
  let ?new = "Batch_View.at rg ?s (keys RAPL_DATA k ?s ! i)"
  have b: "\<forall>j < sockets (hw E). unat (Batch_View.at rg ?s (keys RAPL_DATA k ?s ! j)) < 2 ^ 32" and new: "unat ?new = T' mod 2 ^ 32"
    using T(4) by (simp_all add: displays_def)
  have old: "unat (cell_val ?s k i) = T mod 2 ^ 32" using T(1) by (simp add: cell_val_def live_dev)
  obtain u where u: "poll_rapl_data E ?s = Some (0, u)" "poll_ready E good drv rg k us u" "cell_val u k i = ?new"
    "pkg_delta_joules (rapl u) = Some (map (\<lambda>i. energy (cell_val ?s k i) (Batch_View.at rg ?s (keys RAPL_DATA k ?s ! i)) (joules (us ! i)))
        [0..<sockets (hw E)])"
    using poll_outcome [OF ps c t b refl refl] i by blast
  with energy_counts(1) [OF old new T(2,3)] new i show ?thesis by (intro exI [of _ u]) simp
qed

text \<open>C11: over any number of polls the reported energies of a socket add up to the energy it
  really used, less one unit of the counter for every wrap; and every further poll succeeds,
  whatever has happened to the machine in between, as long as the counter has not made a full
  turn.
\<close>

theorem energy_over_run:
  assumes c: "clock_only E rg" "i < sockets (hw E)" and r: "metered E good drv rg k us i s T0 T tot"
  shows "tot = real (T - T0 - wraps T0 T) / joules (us ! i)
    \<and> (\<forall>d T'. T \<le> T' \<and> T' < T + 2 ^ 32 \<and> displays E rg k i T' (s\<lparr>dev := d\<rparr>) \<longrightarrow>
         (\<exists>u. poll_rapl_data E (s\<lparr>dev := d\<rparr>) = Some (0, u)))"
proof -
  have "poll_ready E good drv rg k us s \<and> unat (cell_val s k i) = T mod 2 ^ 32 \<and> T0 \<le> T \<and> wraps T0 T \<le> T - T0
    \<and> tot = real (T - T0 - wraps T0 T) / joules (us ! i)"
    using r
  proof (induction rule: metered.induct)
    case (start s T)
    then show ?case by (simp add: wraps_def)
  next
    case (turn s T0 T tot T' d r u)
    note w = energy_counts(2) [OF _ _ turn.hyps(2,3), of "cell_val s k i" "of_nat (T' mod 2 ^ 32)"]
    obtain v where v: "poll_rapl_data E (s\<lparr>dev := d\<rparr>) = Some (0, v)" "poll_ready E good drv rg k us v"
      "unat (cell_val v k i) = T' mod 2 ^ 32"
      "the (pkg_delta_joules (rapl v)) ! i = real (T' - T - wraps T T') / joules (us ! i)"
      using poll_turn [OF _ c(1,2) _ turn.hyps(2-4)] turn.IH by blast
    have "unat (of_nat (T' mod 2 ^ 32) :: u64) = T' mod 2 ^ 32"
    proof -
      have "T' mod 2 ^ 32 < 2 ^ 64" by (rule less_trans [OF mod_less_divisor]) simp_all
      then show ?thesis by (simp add: unsigned_of_nat take_bit_nat_eq_self)
    qed
    then have "wraps T T' \<le> T' - T" using w turn.IH by simp
    moreover have "wraps T0 T' = wraps T0 T + wraps T T'"
      using turn.IH turn.hyps(2) div_le_mono [of T0 T "2 ^ 32"] div_le_mono [of T T' "2 ^ 32"] by (simp add: wraps_def)
    moreover have ih: "T0 \<le> T" "wraps T0 T \<le> T - T0" using turn.IH by blast+
    ultimately have a: "wraps T0 T' \<le> T' - T0"
      "T' - T0 - wraps T0 T' = (T - T0 - wraps T0 T) + (T' - T - wraps T T')"
      using ih turn.hyps(2) by linarith+
    have "u = v" using turn.hyps(5) v(1) by simp
    moreover have "tot + real (T' - T - wraps T T') / joules (us ! i) = real (T' - T0 - wraps T0 T') / joules (us ! i)"
      using turn.IH unfolding a(2) of_nat_add add_divide_distrib by simp
    ultimately show ?case using turn.IH turn.hyps(2) v(2-4) a(1) by simp
  qed
  with poll_turn [OF _ c, of good drv k us s T] show ?thesis by blast
qed

text \<open>
  Two sockets whose counters have gone from 0 to 3 joules in 2 seconds: a processor without memory
  counters.
\<close>

definition sim_polled :: "(sim, unit) rapl_lib_scheme" where
  "sim_polled = (sim_window RAPL_DATA [(0, MSR_PKG_ENERGY_STATUS), (1, MSR_PKG_ENERGY_STATUS)]
     (rapl_lib.fields True 0x5
       (rapl_data0\<lparr>pkg_bits := Some [Some (0, 0), Some (0, 1)], pkg_joules := Some [0, 0], old_pkg_bits := Some [0, 0],
          old_pkg_joules := Some [0, 0], pkg_delta_joules := Some [0, 0], pkg_delta_bits := Some [0, 0], pkg_watts := Some [0, 0]\<rparr>)
       None (Some [sim_units, sim_units]) True True None))\<lparr>dev := \<lparr>sregs = \<lambda>_ _. 49152, clock = 2\<rparr>\<rparr>"

lemma sim_polled_keys:
  "i < 2 \<Longrightarrow> snd (keys RAPL_DATA 0 sim_polled ! i) = MSR_PKG_ENERGY_STATUS"
  by (auto simp: keys_def sim_polled_def live_dev ops_of_def sim_window_def reg_key_def window_op_def less_2_cases_iff
      RAPL_DATA_def MSR_PKG_ENERGY_STATUS_def)

lemma sim_polled_ready: "poll_ready (sim_env False) sim_good sim_drv sim_rg 0 [sim_units, sim_units] sim_polled"
proof -
  let ?xs = "[(0, MSR_PKG_ENERGY_STATUS), (1, MSR_PKG_ENERGY_STATUS)] :: (nat \<times> u64) list"
  have xs: "?xs \<noteq> []" "\<forall>p\<in>set ?xs. fst p < 4" "distinct (map (\<lambda>p. (fst p, ucast (snd p) :: 32 word)) ?xs)" by simp_all
  have live: "batch_live (sim_env False) sim_good sim_drv sim_rg RAPL_DATA 0 sim_polled"
    "batches_ok (sim_env False) sim_good sim_drv sim_rg sim_polled"
    unfolding sim_polled_def live_dev by (rule sim_window_live [OF xs], rule sim_window_batches_ok)
  have cells: "i < 2 \<Longrightarrow> cell_val sim_polled 0 i = 0" for i
    by (auto simp: cell_val_def sim_polled_def live_dev cell_get_def the_block_def sim_window_def window_op_def
        msr_batch_op0_def less_2_cases_iff)
  have f: "rapl_ready sim_polled" "read_init sim_polled" "delta_init sim_polled" "ru sim_polled = Some [sim_units, sim_units]"
    "rapl_flags sim_polled = 0x5" "numops (batch sim_polled ! RAPL_DATA) = 2"
    "rapl sim_polled = rapl_data0\<lparr>pkg_bits := Some [Some (0, 0), Some (0, 1)], pkg_joules := Some [0, 0], old_pkg_bits := Some [0, 0],
          old_pkg_joules := Some [0, 0], pkg_delta_joules := Some [0, 0], pkg_delta_bits := Some [0, 0], pkg_watts := Some [0, 0]\<rparr>"
    by (simp_all add: sim_polled_def sim_window_def sim_lib_def rapl_lib.defs RAPL_DATA_def)
  have h: "has PKG_ENERGY_STATUS sim_polled" "\<not> has DRAM_ENERGY_STATUS sim_polled"
    by (simp_all add: has_def f PKG_ENERGY_STATUS_def DRAM_ENERGY_STATUS_def)
  have "rapl_wf 2 0 2 False (rapl sim_polled)" by (simp add: rapl_wf_def f(7) upt_rec)
  moreover have u: "\<forall>i < 2. 0 < joules ([sim_units, sim_units] ! i)" by (auto simp: less_2_cases_iff sim_units_values)
  ultimately show ?thesis
    using live h f(1-6) cells sim_polled_keys
    by (simp add: poll_ready_def) (auto simp: f(7) less_2_cases_iff dbl_def)
qed


theorem energy_over_run_witness:
  "\<exists>u v tot. poll_rapl_data (sim_env False) sim_polled = Some (0, u)
     \<and> metered (sim_env False) sim_good sim_drv sim_rg 0 [sim_units, sim_units] 1 u 0 49152 tot \<and> tot = 3
     \<and> poll_rapl_data (sim_env False) (u\<lparr>dev := \<lparr>sregs = \<lambda>_ _. 65536, clock = 9\<rparr>\<rparr>) = Some (0, v)"
proof -
  let ?E = "sim_env False" and ?d = "dev sim_polled" and ?us = "[sim_units, sim_units]"
  have c: "clock_only ?E sim_rg" "1 < sockets (hw ?E)" by (simp_all add: clock_only_def sim_env_def sim_rg_def)
  have z: "unat (cell_val sim_polled 0 1) = 0 mod 2 ^ 32"
    by (simp add: cell_val_def sim_polled_def live_dev cell_get_def the_block_def sim_window_def window_op_def msr_batch_op0_def)
  have same: "sim_polled\<lparr>dev := ?d\<rparr> = sim_polled" by simp
  have at: "Batch_View.at sim_rg (s\<lparr>dev := \<lparr>sregs = \<lambda>_ _. r, clock = t\<rparr>\<rparr>) x = r" for s :: "(sim, unit) rapl_lib_scheme" and r t x
    by (cases x) (simp add: Batch_View.at_def sim_rg_def)
  have "?d = \<lparr>sregs = \<lambda>_ _. 49152, clock = 2\<rparr>" by (simp add: sim_polled_def)
  then have sh: "displays ?E sim_rg 0 1 49152 (sim_polled\<lparr>dev := ?d\<rparr>)" by (simp add: displays_def at)
  obtain u where u: "poll_rapl_data ?E (sim_polled\<lparr>dev := ?d\<rparr>) = Some (0, u)"
    "the (pkg_delta_joules (rapl u)) ! 1 = real (49152 - 0 - wraps 0 49152) / joules (?us ! 1)"
    using poll_turn [OF sim_polled_ready c z _ _ sh] by auto
  have "metered ?E sim_good sim_drv sim_rg 0 ?us 1 u 0 49152 (0 + the (pkg_delta_joules (rapl u)) ! 1)"
    by (rule metered.turn [OF metered.start [OF sim_polled_ready z] _ _ sh u(1)]) simp_all
  note m = this energy_over_run [OF c this]
  have n: "displays ?E sim_rg 0 1 65536 (u\<lparr>dev := \<lparr>sregs = \<lambda>_ _. 65536, clock = 9\<rparr>\<rparr>)" by (simp add: displays_def at)
  obtain v where v: "poll_rapl_data ?E (u\<lparr>dev := \<lparr>sregs = \<lambda>_ _. 65536, clock = 9\<rparr>\<rparr>) = Some (0, v)"
    using conjunct2 [OF m(2), rule_format, OF conjI [OF _ conjI [OF _ n]]] by auto
  have "real (49152 - 0 - wraps 0 49152) / joules (?us ! 1) = 3" by (simp add: wraps_def sim_units_values)
  then have "0 + the (pkg_delta_joules (rapl u)) ! 1 = 3" unfolding u(2) add_0 .
  with u(1) m(1) v show ?thesis unfolding same by blast
qed

end
