(* ===== verification/Rapl_Dump.thy ===== *)
theory Rapl_Dump
  imports Rapl_Poll
begin

text \<open>
  The print-outs of \<open>src/msr_rapl.c\<close> that are not in columns: \<open>dump_rapl_limit\<close>,
  \<open>dump_rapl_power_unit\<close> and \<open>dump_rapl_data\<close>, each with the numbers it prints in order.
\<close>

section \<open>Limits and units\<close>

definition dump_rapl_limit :: "rapl_limit \<Rightarrow> u64 \<times> real \<times> real" where
  "dump_rapl_limit l = (bits l, l_seconds l, l_watts l)"

text \<open>The raw units of a socket, and the same as watts, joules and seconds.\<close>

definition unit_lines :: "rapl_units \<Rightarrow> (real \<times> real \<times> real) \<times> (real \<times> real \<times> real)" where
  "unit_lines u = ((watts u, joules u, seconds u), (watts u, 1 / joules u, 1 / seconds u))"

definition dump_rapl_power_unit ::
  "'d env \<Rightarrow> ('d, 'z) rapl_lib_scheme \<Rightarrow> ((nat \<times> (real \<times> real \<times> real) \<times> (real \<times> real \<times> real)) list \<times> ('d, 'z) rapl_lib_scheme) option" where
  "dump_rapl_power_unit E s =
     do {
       (us, s) \<leftarrow> get_rapl_power_unit E s;
       out \<leftarrow> those (map (\<lambda>i. do { u \<leftarrow> aget us i; Some (i, unit_lines u) }) [0..<sockets (hw E)]);
       Some (out, s)
     }"

section \<open>Energy\<close>

text \<open>
  The statics of \<open>dump_rapl_data\<close>: \<open>dump_init\<close> is \<open>init\<close>, \<open>dump_start\<close> is \<open>start\<close>, and
  \<open>dump_ptrs\<close> says whether \<open>r\<close> and \<open>rapl_flags\<close> point to what \<open>rapl_storage\<close> hands out.
\<close>

record 'd dump_lib = "'d rapl_lib" +
  dump_init :: bool
  dump_start :: "int \<times> int"
  dump_ptrs :: bool

datatype dump_line = Dump_socket nat | Dump_pkg real real real | Dump_dram real real real

definition gettimeofday :: "'d env \<Rightarrow> ('d, 'z) lib_scheme \<Rightarrow> (int \<times> int) \<times> ('d, 'z) lib_scheme" where
  "gettimeofday E s = (case os_time E (dev s) of (sec, usec, d) \<Rightarrow> ((sec, usec), s\<lparr>dev := d\<rparr>))"

definition socket_lines :: "real \<Rightarrow> nat \<Rightarrow> ('d, 'z) rapl_lib_scheme \<Rightarrow> dump_line list option" where
  "socket_lines ts i s =
     do {
       a \<leftarrow> (if has PKG_ENERGY_STATUS s
             then map_option (\<lambda>w. [Dump_pkg w (elapsed (rapl s)) ts]) (oget (pkg_watts (rapl s)) i) else Some []);
       b \<leftarrow> (if has DRAM_ENERGY_STATUS s
             then map_option (\<lambda>w. [Dump_dram w (elapsed (rapl s)) ts]) (oget (dram_watts (rapl s)) i) else Some []);
       Some (Dump_socket i # a @ b)
     }"

definition dump_rapl_data :: "'d env \<Rightarrow> ('d, 'z) dump_lib_scheme \<Rightarrow> (int \<times> dump_line list \<times> ('d, 'z) dump_lib_scheme) option" where
  "dump_rapl_data E s =
     (let (r, s) = (if \<not> dump_init s
                    then case gettimeofday E s of (t, s) \<Rightarrow>
                         case rapl_storage E (s\<lparr>dump_init := True, dump_start := t\<rparr>) of (r, s) \<Rightarrow> (r, s\<lparr>dump_ptrs := (r = 0)\<rparr>)
                    else (0, s))
      in if r \<noteq> 0 then Some (-1, [], s)
         else case gettimeofday E s of ((sec, usec), s) \<Rightarrow>
           if \<not> dump_ptrs s \<and> 0 < sockets (hw E) then None
           else do {
             let ts = of_int (sec - fst (dump_start s)) + of_int (usec - snd (dump_start s)) / 1000000;
             out \<leftarrow> those (map (\<lambda>i. socket_lines ts i s) [0..<sockets (hw E)]);
             Some (0, concat out, s)
           })"

section \<open>What is printed\<close>

lemma those_map: "(\<And>x. x \<in> set xs \<Longrightarrow> f x = Some (g x)) \<Longrightarrow> those (map f xs) = Some (map g xs)"
  by (induction xs) auto

text \<open>
  After a poll, the print-out shows for every socket the power that the poll has computed: the
  energy since the poll before, over the time between the two.
\<close>

theorem dump_shows_poll:
  assumes w: "pkg_watts (rapl s) = Some (map j [0..<sockets (hw E)])" "has PKG_ENERGY_STATUS s" "\<not> has DRAM_ENERGY_STATUS s"
    and d: "dump_init s" "dump_ptrs s" "os_time E (dev s) = (sec, usec, d)"
  shows "dump_rapl_data E s = Some (0, concat (map (\<lambda>i. [Dump_socket i, Dump_pkg (j i) (elapsed (rapl s))
      (of_int (sec - fst (dump_start s)) + of_int (usec - snd (dump_start s)) / 1000000)]) [0..<sockets (hw E)]), s\<lparr>dev := d\<rparr>)"
proof -
  let ?ts = "of_int (sec - fst (dump_start s)) + of_int (usec - snd (dump_start s)) / 1000000 :: real"
  have h: "has f (s\<lparr>dev := d\<rparr>) = has f s" for f by (simp add: has_def)
  have "those (map (\<lambda>i. socket_lines ?ts i (s\<lparr>dev := d\<rparr>)) [0..<sockets (hw E)])
      = Some (map (\<lambda>i. [Dump_socket i, Dump_pkg (j i) (elapsed (rapl s)) ?ts]) [0..<sockets (hw E)])"
    by (rule those_map) (simp add: socket_lines_def h w)
  with d show ?thesis by (simp add: dump_rapl_data_def gettimeofday_def)
qed

text \<open>
  The mark \<open>init\<close> is set before \<open>rapl_storage\<close> has succeeded: on a processor without RAPL the
  first call fails as it should, and the second follows a pointer that was never set.
\<close>

theorem dump_rapl_data_twice:
  assumes "\<not> dump_init s" "\<not> rapl_ready s" "map_of MF_06 (cpuid_get_model E) = None" "0 < sockets (hw E)"
  shows "\<exists>s1. dump_rapl_data E s = Some (-1, [], s1) \<and> dump_rapl_data E s1 = None"
proof -
  obtain sec usec d where t: "os_time E (dev s) = (sec, usec, d)" by (metis prod_cases3)
  let ?s = "s\<lparr>dev := d, dump_init := True, dump_start := (sec, usec)\<rparr>"
  obtain s1 where s1: "rapl_storage E ?s = (-1, s1)" "dump_init s1"
    using assms(2,3) by (simp add: rapl_storage_def setflags_def libmsr_error_handler_def)
  have "dump_rapl_data E s = Some (-1, [], s1\<lparr>dump_ptrs := False\<rparr>)"
    using assms(1) s1 t by (simp add: dump_rapl_data_def gettimeofday_def)
  moreover have "dump_rapl_data E (s1\<lparr>dump_ptrs := False\<rparr>) = None"
    using s1(2) assms(4) by (simp add: dump_rapl_data_def gettimeofday_def split: prod.splits)
  ultimately show ?thesis by blast
qed

end
