(* ===== verification/Msr_Thermal.thy ===== *)
theory Msr_Thermal
  imports Platform Msr_Bits Reg_Array
begin

text \<open>
  \<open>src/msr_thermal.c\<close>: the thermal status and interrupt registers of the cores and packages
  and the temperature target, their getters, setters and dumps.
\<close>

section \<open>Data\<close>

text \<open>One entry of the arrays of each structure of \<open>include/msr_thermal.h\<close>.\<close>

record therm_stat =
  ts_status :: i32
  ts_status_log :: i32
  PROCHOT_or_FORCEPR_event :: i32
  PROCHOT_or_FORCEPR_log :: i32
  ts_crit_temp_status :: i32
  ts_crit_temp_log :: i32
  ts_therm_thresh1_status :: i32
  ts_therm_thresh1_log :: i32
  ts_therm_thresh2_status :: i32
  ts_therm_thresh2_log :: i32
  ts_power_limit_status :: i32
  ts_power_notification_log :: i32
  ts_readout :: i32
  resolution_deg_celsius :: i32
  readout_valid :: i32

record therm_interrupt =
  ti_high_temp_enable :: i32
  ti_low_temp_enable :: i32
  ti_PROCHOT_enable :: i32
  FORCEPR_enable :: i32
  ti_crit_temp_enable :: i32
  ti_thresh1_val :: i32
  ti_thresh1_enable :: i32
  ti_thresh2_val :: i32
  ti_thresh2_enable :: i32
  ti_pwr_limit_notification_enable :: i32

record pkg_therm_stat =
  ps_status :: i32
  ps_status_log :: i32
  PROCHOT_event :: i32
  PROCHOT_log :: i32
  ps_crit_temp_status :: i32
  ps_crit_temp_log :: i32
  ps_therm_thresh1_status :: i32
  ps_therm_thresh1_log :: i32
  ps_therm_thresh2_status :: i32
  ps_therm_thresh2_log :: i32
  ps_power_limit_status :: i32
  ps_power_notification_log :: i32
  ps_readout :: i32

record pkg_therm_interrupt =
  pi_high_temp_enable :: i32
  pi_low_temp_enable :: i32
  pi_PROCHOT_enable :: i32
  pi_crit_temp_enable :: i32
  pi_thresh1_val :: i32
  pi_thresh1_enable :: i32
  pi_thresh2_val :: i32
  pi_thresh2_enable :: i32
  pi_pwr_limit_notification_enable :: i32

text \<open>
  The statics: the structure of each \<open>store_*\<close> function, \<open>None\<close> until its first call; \<open>init\<close>
  of \<open>is_init\<close>; the array of \<open>therm2_ctl_storage\<close>.
\<close>

record 'd therm_lib = "'d lib" +
  t_target :: "u64 reg_array option"
  t_stat :: "therm_stat reg_array option"
  t_interrupt :: "therm_interrupt reg_array option"
  pkg_stat :: "pkg_therm_stat reg_array option"
  pkg_interrupt :: "pkg_therm_interrupt reg_array option"
  target_init :: bool
  thermctl :: "u64 list option"

definition num_cores_of :: "'d env \<Rightarrow> nat" where
  "num_cores_of E = sockets (hw E) * coresPerSocket (hw E)"

section \<open>The fields of the registers\<close>

text \<open>The bodies of the loops of the getters: the value assigned to an \<open>int\<close> is truncated.\<close>

definition field :: "u64 \<Rightarrow> nat \<Rightarrow> nat \<Rightarrow> i32" where
  "field x m n = ucast (MASK_VAL x m n)"

definition temp_target_of :: "u64 \<Rightarrow> u64" where
  "temp_target_of x = MASK_VAL x 23 16"

definition therm_stat_of :: "u64 \<Rightarrow> therm_stat" where
  "therm_stat_of x = \<lparr>ts_status = field x 0 0, ts_status_log = field x 1 1,
     PROCHOT_or_FORCEPR_event = field x 2 2, PROCHOT_or_FORCEPR_log = field x 3 3,
     ts_crit_temp_status = field x 4 4, ts_crit_temp_log = field x 5 5,
     ts_therm_thresh1_status = field x 6 6, ts_therm_thresh1_log = field x 7 7,
     ts_therm_thresh2_status = field x 8 8, ts_therm_thresh2_log = field x 9 9,
     ts_power_limit_status = field x 10 10, ts_power_notification_log = field x 11 11,
     ts_readout = field x 22 16, resolution_deg_celsius = field x 30 27, readout_valid = field x 31 31\<rparr>"

definition therm_interrupt_of :: "u64 \<Rightarrow> therm_interrupt" where
  "therm_interrupt_of x = \<lparr>ti_high_temp_enable = field x 0 0, ti_low_temp_enable = field x 1 1,
     ti_PROCHOT_enable = field x 2 2, FORCEPR_enable = field x 3 3, ti_crit_temp_enable = field x 4 4,
     ti_thresh1_val = field x 14 8, ti_thresh1_enable = field x 15 15,
     ti_thresh2_val = field x 22 16, ti_thresh2_enable = field x 23 23,
     ti_pwr_limit_notification_enable = field x 24 24\<rparr>"

definition pkg_therm_stat_of :: "u64 \<Rightarrow> pkg_therm_stat" where
  "pkg_therm_stat_of x = \<lparr>ps_status = field x 0 0, ps_status_log = field x 1 1,
     PROCHOT_event = field x 2 2, PROCHOT_log = field x 3 3,
     ps_crit_temp_status = field x 4 4, ps_crit_temp_log = field x 5 5,
     ps_therm_thresh1_status = field x 6 6, ps_therm_thresh1_log = field x 7 7,
     ps_therm_thresh2_status = field x 8 8, ps_therm_thresh2_log = field x 9 9,
     ps_power_limit_status = field x 10 10, ps_power_notification_log = field x 11 11,
     ps_readout = field x 22 16\<rparr>"

definition pkg_therm_interrupt_of :: "u64 \<Rightarrow> pkg_therm_interrupt" where
  "pkg_therm_interrupt_of x = \<lparr>pi_high_temp_enable = field x 0 0, pi_low_temp_enable = field x 1 1,
     pi_PROCHOT_enable = field x 2 2, pi_crit_temp_enable = field x 4 4,
     pi_thresh1_val = field x 14 8, pi_thresh1_enable = field x 15 15,
     pi_thresh2_val = field x 22 16, pi_thresh2_enable = field x 23 23,
     pi_pwr_limit_notification_enable = field x 24 24\<rparr>"

text \<open>
  The bodies of the loops of the setters.  \<open>clear_or k v x\<close> is
  \<open>(x & (~(1<<k))) | (v << 1)\<close>, the form every line of \<open>set_therm_stat\<close> has.
\<close>

definition clear_or :: "nat \<Rightarrow> i32 \<Rightarrow> u64 \<Rightarrow> u64" where
  "clear_or k v x = (x AND scast (NOT (push_bit k (1 :: i32)))) OR scast (push_bit 1 v)"

definition set_therm_stat_bits :: "therm_stat \<Rightarrow> u64 \<Rightarrow> u64" where
  "set_therm_stat_bits r x =
     (let x = clear_or 1 (ts_status_log r) x;
          x = clear_or 3 (PROCHOT_or_FORCEPR_log r) x;
          x = clear_or 5 (ts_crit_temp_log r) x;
          x = clear_or 7 (ts_therm_thresh1_log r) x;
          x = clear_or 9 (ts_therm_thresh2_log r) x
      in clear_or 11 (ts_power_notification_log r) x)"

definition set_therm_interrupt_bits :: "therm_interrupt \<Rightarrow> u64 \<Rightarrow> u64" where
  "set_therm_interrupt_bits r x =
     (let x = put_int 1 0 (ti_high_temp_enable r) x;
          x = put_int 1 1 (ti_low_temp_enable r) x;
          x = put_int 1 2 (ti_PROCHOT_enable r) x;
          x = put_int 1 3 (FORCEPR_enable r) x;
          x = put_int 1 4 (ti_crit_temp_enable r) x;
          x = put_int 7 8 (ti_thresh1_val r) x;
          x = put_int 1 15 (ti_thresh1_enable r) x;
          x = put_int 7 16 (ti_thresh2_val r) x;
          x = put_int 1 23 (ti_thresh2_enable r) x
      in put_int 1 24 (ti_pwr_limit_notification_enable r) x)"

definition set_pkg_therm_stat_bits :: "pkg_therm_stat \<Rightarrow> u64 \<Rightarrow> u64" where
  "set_pkg_therm_stat_bits r x =
     (let x = put_int 1 1 (ps_status_log r) x;
          x = put_int 1 3 (PROCHOT_log r) x;
          x = put_int 1 5 (ps_crit_temp_log r) x;
          x = put_int 1 7 (ps_therm_thresh1_log r) x;
          x = put_int 1 9 (ps_therm_thresh2_log r) x
      in put_int 1 11 (ps_power_notification_log r) x)"

definition set_pkg_therm_interrupt_bits :: "pkg_therm_interrupt \<Rightarrow> u64 \<Rightarrow> u64" where
  "set_pkg_therm_interrupt_bits r x =
     (let x = put_int 1 0 (pi_high_temp_enable r) x;
          x = put_int 1 1 (pi_low_temp_enable r) x;
          x = put_int 1 2 (pi_PROCHOT_enable r) x;
          x = put_int 1 4 (pi_crit_temp_enable r) x;
          x = put_int 7 8 (pi_thresh1_val r) x;
          x = put_int 1 15 (pi_thresh1_enable r) x;
          x = put_int 7 16 (pi_thresh2_val r) x;
          x = put_int 1 23 (pi_thresh2_enable r) x
      in put_int 1 24 (pi_pwr_limit_notification_enable r) x)"

section \<open>Storage\<close>

definition init_temp_target ::
  "'d env \<Rightarrow> ('d, 'z) lib_scheme \<Rightarrow> (u64 reg_array \<times> ('d, 'z) lib_scheme) option" where
  "init_temp_target E s =
     init_reg_array (load_socket_batch E) MSR_TEMPERATURE_TARGET TEMP_TARGET (sockets (hw E)) (junk E) s"

definition init_therm_stat ::
  "'d env \<Rightarrow> ('d, 'z) lib_scheme \<Rightarrow> (therm_stat reg_array \<times> ('d, 'z) lib_scheme) option" where
  "init_therm_stat E s =
     init_reg_array (load_core_batch E) IA32_THERM_STATUS THERM_STAT (num_cores_of E) (therm_stat_of (junk E)) s"

definition init_therm_interrupt ::
  "'d env \<Rightarrow> ('d, 'z) lib_scheme \<Rightarrow> (therm_interrupt reg_array \<times> ('d, 'z) lib_scheme) option" where
  "init_therm_interrupt E s =
     init_reg_array (load_core_batch E) IA32_THERM_INTERRUPT THERM_INTERR (num_cores_of E)
       (therm_interrupt_of (junk E)) s"

definition init_pkg_therm_stat ::
  "'d env \<Rightarrow> ('d, 'z) lib_scheme \<Rightarrow> (pkg_therm_stat reg_array \<times> ('d, 'z) lib_scheme) option" where
  "init_pkg_therm_stat E s =
     init_reg_array (load_socket_batch E) IA32_PACKAGE_THERM_STATUS PKG_THERM_STAT (sockets (hw E))
       (pkg_therm_stat_of (junk E)) s"

definition init_pkg_therm_interrupt ::
  "'d env \<Rightarrow> ('d, 'z) lib_scheme \<Rightarrow> (pkg_therm_interrupt reg_array \<times> ('d, 'z) lib_scheme) option" where
  "init_pkg_therm_interrupt E s =
     init_reg_array (load_socket_batch E) IA32_PACKAGE_THERM_INTERRUPT PKG_THERM_INTERR (sockets (hw E))
       (pkg_therm_interrupt_of (junk E)) s"

definition store_temp_target ::
  "'d env \<Rightarrow> ('d, 'z) therm_lib_scheme \<Rightarrow> (u64 reg_array \<times> ('d, 'z) therm_lib_scheme) option" where
  "store_temp_target E s =
     (case t_target s of Some tt \<Rightarrow> Some (tt, s)
      | None \<Rightarrow> do { (tt, s) \<leftarrow> init_temp_target E s; Some (tt, s\<lparr>t_target := Some tt\<rparr>) })"

definition store_therm_stat ::
  "'d env \<Rightarrow> ('d, 'z) therm_lib_scheme \<Rightarrow> (therm_stat reg_array \<times> ('d, 'z) therm_lib_scheme) option" where
  "store_therm_stat E s =
     (case t_stat s of Some ts \<Rightarrow> Some (ts, s)
      | None \<Rightarrow> do { (ts, s) \<leftarrow> init_therm_stat E s; Some (ts, s\<lparr>t_stat := Some ts\<rparr>) })"

definition store_therm_interrupt ::
  "'d env \<Rightarrow> ('d, 'z) therm_lib_scheme \<Rightarrow> (therm_interrupt reg_array \<times> ('d, 'z) therm_lib_scheme) option" where
  "store_therm_interrupt E s =
     (case t_interrupt s of Some ti \<Rightarrow> Some (ti, s)
      | None \<Rightarrow> do { (ti, s) \<leftarrow> init_therm_interrupt E s; Some (ti, s\<lparr>t_interrupt := Some ti\<rparr>) })"

definition store_pkg_therm_stat ::
  "'d env \<Rightarrow> ('d, 'z) therm_lib_scheme \<Rightarrow> (pkg_therm_stat reg_array \<times> ('d, 'z) therm_lib_scheme) option" where
  "store_pkg_therm_stat E s =
     (case pkg_stat s of Some ps \<Rightarrow> Some (ps, s)
      | None \<Rightarrow> do { (ps, s) \<leftarrow> init_pkg_therm_stat E s; Some (ps, s\<lparr>pkg_stat := Some ps\<rparr>) })"

definition store_pkg_therm_interrupt ::
  "'d env \<Rightarrow> ('d, 'z) therm_lib_scheme
   \<Rightarrow> (pkg_therm_interrupt reg_array \<times> ('d, 'z) therm_lib_scheme) option" where
  "store_pkg_therm_interrupt E s =
     (case pkg_interrupt s of Some p \<Rightarrow> Some (p, s)
      | None \<Rightarrow> do { (p, s) \<leftarrow> init_pkg_therm_interrupt E s; Some (p, s\<lparr>pkg_interrupt := Some p\<rparr>) })"

section \<open>Getters and setters\<close>

text \<open>They work on the structure whose pointer they are given.\<close>

definition get_temp_target ::
  "'d env \<Rightarrow> u64 reg_array \<Rightarrow> ('d, 'z) lib_scheme \<Rightarrow> (u64 reg_array \<times> ('d, 'z) lib_scheme) option" where
  "get_temp_target E = get_reg_array E TEMP_TARGET temp_target_of (sockets (hw E))"

definition get_therm_stat ::
  "'d env \<Rightarrow> therm_stat reg_array \<Rightarrow> ('d, 'z) lib_scheme
   \<Rightarrow> (therm_stat reg_array \<times> ('d, 'z) lib_scheme) option" where
  "get_therm_stat E = get_reg_array E THERM_STAT therm_stat_of (num_cores_of E)"

definition get_therm_interrupt ::
  "'d env \<Rightarrow> therm_interrupt reg_array \<Rightarrow> ('d, 'z) lib_scheme
   \<Rightarrow> (therm_interrupt reg_array \<times> ('d, 'z) lib_scheme) option" where
  "get_therm_interrupt E = get_reg_array E THERM_INTERR therm_interrupt_of (num_cores_of E)"

definition get_pkg_therm_stat ::
  "'d env \<Rightarrow> pkg_therm_stat reg_array \<Rightarrow> ('d, 'z) lib_scheme
   \<Rightarrow> (pkg_therm_stat reg_array \<times> ('d, 'z) lib_scheme) option" where
  "get_pkg_therm_stat E = get_reg_array E PKG_THERM_STAT pkg_therm_stat_of (sockets (hw E))"

definition get_pkg_therm_interrupt ::
  "'d env \<Rightarrow> pkg_therm_interrupt reg_array \<Rightarrow> ('d, 'z) lib_scheme
   \<Rightarrow> (pkg_therm_interrupt reg_array \<times> ('d, 'z) lib_scheme) option" where
  "get_pkg_therm_interrupt E = get_reg_array E PKG_THERM_INTERR pkg_therm_interrupt_of (sockets (hw E))"

definition set_therm_stat ::
  "'d env \<Rightarrow> therm_stat reg_array \<Rightarrow> ('d, 'z) lib_scheme \<Rightarrow> ('d, 'z) lib_scheme option" where
  "set_therm_stat E = set_reg_array E THERM_STAT set_therm_stat_bits (num_cores_of E)"

definition set_therm_interrupt ::
  "'d env \<Rightarrow> therm_interrupt reg_array \<Rightarrow> ('d, 'z) lib_scheme \<Rightarrow> ('d, 'z) lib_scheme option" where
  "set_therm_interrupt E = set_reg_array E THERM_INTERR set_therm_interrupt_bits (num_cores_of E)"

definition set_pkg_therm_stat ::
  "'d env \<Rightarrow> pkg_therm_stat reg_array \<Rightarrow> ('d, 'z) lib_scheme \<Rightarrow> ('d, 'z) lib_scheme option" where
  "set_pkg_therm_stat E = set_reg_array E PKG_THERM_STAT set_pkg_therm_stat_bits (sockets (hw E))"

definition set_pkg_therm_interrupt ::
  "'d env \<Rightarrow> pkg_therm_interrupt reg_array \<Rightarrow> ('d, 'z) lib_scheme \<Rightarrow> ('d, 'z) lib_scheme option" where
  "set_pkg_therm_interrupt E =
     set_reg_array E PKG_THERM_INTERR set_pkg_therm_interrupt_bits (sockets (hw E))"

text \<open>The temperature target is fetched once.\<close>

definition is_init :: "'d env \<Rightarrow> ('d, 'z) therm_lib_scheme \<Rightarrow> ('d, 'z) therm_lib_scheme option" where
  "is_init E s =
     do {
       (tt, s) \<leftarrow> store_temp_target E s;
       if target_init s then Some s
       else do {
         (tt, s) \<leftarrow> get_temp_target E tt s;
         Some (s\<lparr>t_target := Some tt, target_init := True\<rparr>)
       }
     }"

section \<open>MSR_THERM2_CTL\<close>

definition therm2_ctl_storage ::
  "'d env \<Rightarrow> ('d, 'z) therm_lib_scheme \<Rightarrow> int \<times> u64 list \<times> ('d, 'z) therm_lib_scheme" where
  "therm2_ctl_storage E s =
     (case thermctl s of
        Some v \<Rightarrow> (0, v, s)
      | None \<Rightarrow> let v = replicate (sockets (hw E)) (junk E) in (0, v, s\<lparr>thermctl := Some v\<rparr>))"

text \<open>The loop returns at the first read that fails, which keeps what was read so far.\<close>

definition get_pkg_therm2_ctl ::
  "'d env \<Rightarrow> ('d, 'z) therm_lib_scheme \<Rightarrow> (int \<times> ('d, 'z) therm_lib_scheme) option" where
  "get_pkg_therm2_ctl E s =
     (let (_, v, s) = therm2_ctl_storage E s in
      foldo (\<lambda>i (ret, s).
          if ret \<noteq> 0 then Some (ret, s)
          else do {
            v \<leftarrow> thermctl s;
            b \<leftarrow> aget v i;
            (ret, b, s) \<leftarrow> read_msr_by_coord E (of_nat i) 0 0 MSR_THERM2_CTL b s;
            Some (ret, s\<lparr>thermctl := Some (v[i := b])\<rparr>)
          }) [0..<sockets (hw E)] (0, s))"

text \<open>The dump: the printed values and the result.\<close>

definition dump_therm2_ctl ::
  "'d env \<Rightarrow> ('d, 'z) therm_lib_scheme \<Rightarrow> (u64 list \<times> int \<times> ('d, 'z) therm_lib_scheme) option" where
  "dump_therm2_ctl E s =
     do {
       (ret, s) \<leftarrow> get_pkg_therm2_ctl E s;
       let (r2, v, s) = therm2_ctl_storage E s;
       let ret = ret + r2;
       out \<leftarrow> foldo (\<lambda>i out. do { x \<leftarrow> aget v i; Some (out @ [x]) }) [0..<sockets (hw E)] [];
       Some (out, if ret < 0 then ret else 0, s)
     }"

end
