(* ===== verification/Thermal_Dump.thy ===== *)
theory Thermal_Dump
  imports Msr_Thermal
begin

text \<open>
  The dumps of \<open>src/msr_thermal.c\<close>.  A printed number is an integer; a dump is the list of the
  numbers it prints in order, and a label dump the list of the labels, each with the socket
  and the core that are printed into it.
\<close>

text \<open>\<open>actTemp = target - readout\<close>: computed in \<open>uint64_t\<close> and assigned to an \<open>int\<close>.\<close>

definition act_temp :: "u64 \<Rightarrow> i32 \<Rightarrow> i32" where
  "act_temp target v = ucast (target - scast v)"

section \<open>Terse\<close>

definition dump_therm_data_terse_label :: "'d env \<Rightarrow> (nat \<times> nat) list" where
  "dump_therm_data_terse_label E =
     List.product [0..<sockets (hw E)] [0..<coresPerSocket (hw E)]"

text \<open>The readout is taken from the entry \<open>core\<close> of the array over all cores, for every socket.\<close>

definition dump_therm_data_terse ::
  "'d env \<Rightarrow> ('d, 'z) therm_lib_scheme \<Rightarrow> (int list \<times> ('d, 'z) therm_lib_scheme) option" where
  "dump_therm_data_terse E s =
     do {
       s \<leftarrow> is_init E s;
       (ts, s) \<leftarrow> store_therm_stat E s;
       (tt, s) \<leftarrow> store_temp_target E s;
       (ts, s) \<leftarrow> get_therm_stat E ts s;
       let s = s\<lparr>t_stat := Some ts\<rparr>;
       out \<leftarrow> collect (\<lambda>socket. collect (\<lambda>core. do {
           t \<leftarrow> aget (vals tt) socket;
           r \<leftarrow> aget (vals ts) core;
           Some [sint (act_temp t (ts_readout r))]
         }) (coresPerSocket (hw E))) (sockets (hw E));
       Some (out, s)
     }"

section \<open>Verbose\<close>

definition socket_labels :: "string list" where
  "socket_labels = [''status'', ''log'', ''PROCHOT_event'', ''PROCHOT_log'', ''crit_temp_status'',
     ''crit_temp_log'', ''therm_thresh1_status'', ''therm_thresh1_log'', ''therm_thresh2_status'',
     ''therm_thresh2_log'', ''power_limit_status'', ''power_notification_log'', ''readout'', ''TempC'',
     ''high_temp_enable'', ''low_temp_enable'', ''PROCHOT_enable'', ''crit_temp_enable'', ''thresh1_val'',
     ''thresh1_actual_tempC'', ''thresh1_enable'', ''thresh2_val'', ''thresh2_actual_tempC'',
     ''thresh2_enable'', ''pwr_limit_notification_enable'']"

definition core_labels :: "string list" where
  "core_labels = [''status'', ''status_log'', ''PROCHOT_or_FORCEPR_event'', ''PROCHOT_or_FORCEPR_log'',
     ''crit_temp_status'', ''crit_temp_log'', ''therm_thresh1_status'', ''therm_thresh1_log'',
     ''therm_thresh2_status'', ''therm_thresh2_log'', ''power_limit_status'', ''power_notification_log'',
     ''readout'', ''TempC'', ''resolution_deg_celsius'', ''readout_valid'', ''high_temp_enable'',
     ''low_temp_enable'', ''PROCHOT_enable'', ''FORCEPR_enable'', ''crit_temp_enable'', ''thresh1_val'',
     ''thresh1_actual_tempC'', ''thresh1_enable'', ''thresh2_val'', ''thresh2_actual_tempC'',
     ''thresh2_enable'', ''pwr_limit_notification_enable'']"

text \<open>A label with its numbers: \<open>(name, socket, None)\<close> or \<open>(name, socket, Some core)\<close>.\<close>

definition dump_therm_data_verbose_label :: "'d env \<Rightarrow> (string \<times> nat \<times> nat option) list" where
  "dump_therm_data_verbose_label E =
     concat (map (\<lambda>socket. map (\<lambda>l. (l, socket, None)) socket_labels
         @ concat (map (\<lambda>core. map (\<lambda>l. (l, socket, Some core)) core_labels) [0..<coresPerSocket (hw E)]))
       [0..<sockets (hw E)])"

definition socket_stat_values :: "u64 \<Rightarrow> pkg_therm_stat \<Rightarrow> i32 list" where
  "socket_stat_values t r = [ps_status r, ps_status_log r, PROCHOT_event r, PROCHOT_log r,
     ps_crit_temp_status r, ps_crit_temp_log r, ps_therm_thresh1_status r, ps_therm_thresh1_log r,
     ps_therm_thresh2_status r, ps_therm_thresh2_log r, ps_power_limit_status r,
     ps_power_notification_log r, ps_readout r, act_temp t (ps_readout r)]"

text \<open>In the column of the second threshold the first one is printed.\<close>

definition socket_interrupt_values :: "u64 \<Rightarrow> pkg_therm_interrupt \<Rightarrow> i32 list" where
  "socket_interrupt_values t r = [pi_high_temp_enable r, pi_low_temp_enable r, pi_PROCHOT_enable r,
     pi_crit_temp_enable r, pi_thresh1_val r, act_temp t (pi_thresh1_val r), pi_thresh1_enable r,
     pi_thresh1_val r, act_temp t (pi_thresh2_val r), pi_thresh2_enable r,
     pi_pwr_limit_notification_enable r]"

definition core_stat_values :: "u64 \<Rightarrow> therm_stat \<Rightarrow> i32 list" where
  "core_stat_values t r = [ts_status r, ts_status_log r, PROCHOT_or_FORCEPR_event r,
     PROCHOT_or_FORCEPR_log r, ts_crit_temp_status r, ts_crit_temp_log r, ts_therm_thresh1_status r,
     ts_therm_thresh1_log r, ts_therm_thresh2_status r, ts_therm_thresh2_log r, ts_power_limit_status r,
     ts_power_notification_log r, ts_readout r, act_temp t (ts_readout r), resolution_deg_celsius r,
     readout_valid r]"

definition core_interrupt_values :: "u64 \<Rightarrow> therm_interrupt \<Rightarrow> i32 list" where
  "core_interrupt_values t r = [ti_high_temp_enable r, ti_low_temp_enable r, ti_PROCHOT_enable r,
     FORCEPR_enable r, ti_crit_temp_enable r, ti_thresh1_val r, act_temp t (ti_thresh1_val r),
     ti_thresh1_enable r, ti_thresh2_val r, act_temp t (ti_thresh2_val r), ti_thresh2_enable r,
     ti_pwr_limit_notification_enable r]"

text \<open>What the readings below share: everything is fetched, in the order of the code.\<close>

record therm_all =
  all_ts :: "therm_stat list"
  all_ti :: "therm_interrupt list"
  all_ps :: "pkg_therm_stat list"
  all_pi :: "pkg_therm_interrupt list"
  all_tt :: "u64 list"

definition get_all_therm ::
  "'d env \<Rightarrow> therm_stat reg_array \<Rightarrow> therm_interrupt reg_array \<Rightarrow> pkg_therm_stat reg_array
   \<Rightarrow> pkg_therm_interrupt reg_array \<Rightarrow> u64 reg_array \<Rightarrow> ('d, 'z) therm_lib_scheme
   \<Rightarrow> (therm_all \<times> ('d, 'z) therm_lib_scheme) option" where
  "get_all_therm E ts ti ps pin tt s =
     do {
       (ts, s) \<leftarrow> get_therm_stat E ts s;
       let s = s\<lparr>t_stat := Some ts\<rparr>;
       (ti, s) \<leftarrow> get_therm_interrupt E ti s;
       let s = s\<lparr>t_interrupt := Some ti\<rparr>;
       (ps, s) \<leftarrow> get_pkg_therm_stat E ps s;
       let s = s\<lparr>pkg_stat := Some ps\<rparr>;
       (pin, s) \<leftarrow> get_pkg_therm_interrupt E pin s;
       let s = s\<lparr>pkg_interrupt := Some pin\<rparr>;
       (tt, s) \<leftarrow> get_temp_target E tt s;
       let s = s\<lparr>t_target := Some tt\<rparr>;
       Some (\<lparr>all_ts = vals ts, all_ti = vals ti, all_ps = vals ps, all_pi = vals pin, all_tt = vals tt\<rparr>, s)
     }"

text \<open>The two loops of \<open>dump_therm_data_verbose\<close>: what is printed for a core and for a socket.\<close>

definition core_row :: "therm_all \<Rightarrow> u64 \<Rightarrow> nat \<Rightarrow> int list option" where
  "core_row a t core =
     do {
       c \<leftarrow> aget (all_ts a) core;
       i \<leftarrow> aget (all_ti a) core;
       Some (map sint (core_stat_values t c @ core_interrupt_values t i))
     }"

definition socket_row :: "'d env \<Rightarrow> therm_all \<Rightarrow> nat \<Rightarrow> int list option" where
  "socket_row E a socket =
     do {
       t \<leftarrow> aget (all_tt a) socket;
       p \<leftarrow> aget (all_ps a) socket;
       q \<leftarrow> aget (all_pi a) socket;
       cores \<leftarrow> collect (core_row a t) (coresPerSocket (hw E));
       Some (map sint (socket_stat_values t p @ socket_interrupt_values t q) @ cores)
     }"

definition dump_therm_data_verbose ::
  "'d env \<Rightarrow> ('d, 'z) therm_lib_scheme \<Rightarrow> (int list \<times> ('d, 'z) therm_lib_scheme) option" where
  "dump_therm_data_verbose E s =
     do {
       s \<leftarrow> is_init E s;
       (ts, s) \<leftarrow> store_therm_stat E s;
       (ti, s) \<leftarrow> store_therm_interrupt E s;
       (pin, s) \<leftarrow> store_pkg_therm_interrupt E s;
       (ps, s) \<leftarrow> store_pkg_therm_stat E s;
       (tt, s) \<leftarrow> store_temp_target E s;
       (a, s) \<leftarrow> get_all_therm E ts ti ps pin tt s;
       out \<leftarrow> collect (socket_row E a) (sockets (hw E));
       Some (out, s)
     }"

text \<open>\<open>dump_therm_temp_reading\<close>: a line of four numbers per socket, then one per core.\<close>

definition dump_therm_temp_reading ::
  "'d env \<Rightarrow> ('d, 'z) therm_lib_scheme \<Rightarrow> (int list list \<times> ('d, 'z) therm_lib_scheme) option" where
  "dump_therm_temp_reading E s =
     do {
       s \<leftarrow> is_init E s;
       (ts, s) \<leftarrow> store_therm_stat E s;
       (ti, s) \<leftarrow> store_therm_interrupt E s;
       (ps, s) \<leftarrow> store_pkg_therm_stat E s;
       (tt, s) \<leftarrow> store_temp_target E s;
       (pin, s) \<leftarrow> store_pkg_therm_interrupt E s;
       (a, s) \<leftarrow> get_all_therm E ts ti ps pin tt s;
       out \<leftarrow> collect (\<lambda>i. do {
           p \<leftarrow> aget (all_ps a) i;
           t \<leftarrow> aget (all_tt a) i;
           rest \<leftarrow> collect (\<lambda>j. do {
               c \<leftarrow> aget (all_ts a) j;
               Some [[int j, sint (ts_readout c), sint (act_temp t (ts_readout c)), sint (readout_valid c)]]
             }) (num_cores_of E);
           Some ([int i, sint (ps_readout p), sint (act_temp t (ps_readout p)), uint t] # rest)
         }) (sockets (hw E));
       Some (out, s)
     }"

section \<open>Columns\<close>

lemma value_lengths [simp]:
  "length (socket_stat_values t p @ socket_interrupt_values t q) = length socket_labels"
  "length (core_stat_values t c @ core_interrupt_values t i) = length core_labels"
  by (simp_all add: socket_stat_values_def socket_interrupt_values_def core_stat_values_def
      core_interrupt_values_def socket_labels_def core_labels_def)

lemma length_concat_upt: "(\<And>i. i < n \<Longrightarrow> length (f i) = m) \<Longrightarrow> length (concat (map f [0..<n])) = n * m"
  by (induction n) simp_all

lemma verbose_label_length:
  "length (dump_therm_data_verbose_label E)
     = sockets (hw E) * (length socket_labels + coresPerSocket (hw E) * length core_labels)"
  unfolding dump_therm_data_verbose_label_def by (rule length_concat_upt) (simp add: length_concat_upt)

lemma core_row_length: "core_row a t core = Some x \<Longrightarrow> length x = length core_labels"
  by (auto simp: core_row_def simp del: length_append map_append split: bind_splits)

lemma socket_row_length:
  "socket_row E a socket = Some x
     \<Longrightarrow> length x = length socket_labels + coresPerSocket (hw E) * length core_labels"
  using collect_length [OF _ core_row_length]
  by (auto simp: socket_row_def length_append [of "map sint _"] simp del: length_append map_append split: bind_splits)

end
