(* ===== verification/Thermal_Ok.thy ===== *)
theory Thermal_Ok
  imports Thermal_Dump Reg_Slots
begin

text \<open>
  The state invariant of \<open>src/msr_thermal.c\<close>: each of its five structures is a slot.  Every
  operation has a defined result in such a state and leads to such a state.
\<close>

section \<open>The invariant\<close>

definition therm_ok ::
  "'d env \<Rightarrow> (int \<Rightarrow> bool) \<Rightarrow> (int \<Rightarrow> bool) \<Rightarrow> (int \<Rightarrow> u64 \<Rightarrow> 'd \<Rightarrow> u64) \<Rightarrow> ('d, 'z) therm_lib_scheme \<Rightarrow> bool" where
  "therm_ok E good drv rg s \<longleftrightarrow>
     batches_ok E good drv rg s \<and> cores_mapped E s \<and> sockets_mapped E s
     \<and> slot_ok E good drv rg TEMP_TARGET (sockets (hw E)) (t_target s) s
     \<and> slot_ok E good drv rg THERM_STAT (num_cores_of E) (t_stat s) s
     \<and> slot_ok E good drv rg THERM_INTERR (num_cores_of E) (t_interrupt s) s
     \<and> slot_ok E good drv rg PKG_THERM_STAT (sockets (hw E)) (pkg_stat s) s
     \<and> slot_ok E good drv rg PKG_THERM_INTERR (sockets (hw E)) (pkg_interrupt s) s"

lemma therm_more:
  "lib.more t = lib.more s \<Longrightarrow> t_target t = t_target s \<and> t_stat t = t_stat s \<and> t_interrupt t = t_interrupt s
     \<and> pkg_stat t = pkg_stat s \<and> pkg_interrupt t = pkg_interrupt s \<and> target_init t = target_init s"
  by (cases s; cases t) simp

lemma same_lib_fields:
  "same_lib (s\<lparr>t_target := a\<rparr>) s"
  "same_lib (s\<lparr>t_stat := b\<rparr>) s"
  "same_lib (s\<lparr>t_interrupt := c\<rparr>) s"
  "same_lib (s\<lparr>pkg_stat := d\<rparr>) s"
  "same_lib (s\<lparr>pkg_interrupt := e\<rparr>) s"
  "same_lib (s\<lparr>target_init := f\<rparr>) s"
  by (simp_all add: same_lib_def)

lemmas therm_fields [simp] = same_lib_fields [THEN same_lib_ok(2)] same_lib_fields [THEN same_lib_ok(3)]
  same_lib_fields [THEN same_lib_ok(4)] same_lib_fields [THEN same_lib_ok(5)]
  same_lib_fields [THEN same_lib_ok(6)] same_lib_fields [THEN same_lib_ok(7)]

lemmas therm_batches = TEMP_TARGET_def THERM_STAT_def THERM_INTERR_def PKG_THERM_STAT_def PKG_THERM_INTERR_def

text \<open>An operation on one slot, whose structure is then put back.\<close>

lemma therm_ok_step:
  assumes ok: "therm_ok E good drv rg s" and st: "slot_step E good drv rg b s t"
  shows "b = TEMP_TARGET \<Longrightarrow> slot_ok E good drv rg b (sockets (hw E)) ra1 t \<Longrightarrow> therm_ok E good drv rg (t\<lparr>t_target := ra1\<rparr>)"
    and "b = THERM_STAT \<Longrightarrow> slot_ok E good drv rg b (num_cores_of E) ra2 t \<Longrightarrow> therm_ok E good drv rg (t\<lparr>t_stat := ra2\<rparr>)"
    and "b = THERM_INTERR \<Longrightarrow> slot_ok E good drv rg b (num_cores_of E) ra3 t \<Longrightarrow> therm_ok E good drv rg (t\<lparr>t_interrupt := ra3\<rparr>)"
    and "b = PKG_THERM_STAT \<Longrightarrow> slot_ok E good drv rg b (sockets (hw E)) ra4 t \<Longrightarrow> therm_ok E good drv rg (t\<lparr>pkg_stat := ra4\<rparr>)"
    and "b = PKG_THERM_INTERR \<Longrightarrow> slot_ok E good drv rg b (sockets (hw E)) ra5 t
      \<Longrightarrow> therm_ok E good drv rg (t\<lparr>pkg_interrupt := ra5\<rparr>)"
proof -
  from st have t: "batches_ok E good drv rg t" "lib.more t = lib.more s" "g_topo_list t = g_topo_list s"
    by (simp_all add: slot_step_def)
  note keep = slot_step_other [OF st] and fld = therm_more [OF t(2)] and mp = mapped_topo [OF t(3)]
  have other: "slot_ok E good drv rg m l ra s \<Longrightarrow> slot_ok E good drv rg m l ra t"
    if "m \<noteq> b" for m l and ra :: "'x reg_array option"
    using keep [OF that] by blast
  show "b = TEMP_TARGET \<Longrightarrow> slot_ok E good drv rg b (sockets (hw E)) ra1 t \<Longrightarrow> therm_ok E good drv rg (t\<lparr>t_target := ra1\<rparr>)"
    "b = THERM_STAT \<Longrightarrow> slot_ok E good drv rg b (num_cores_of E) ra2 t \<Longrightarrow> therm_ok E good drv rg (t\<lparr>t_stat := ra2\<rparr>)"
    "b = THERM_INTERR \<Longrightarrow> slot_ok E good drv rg b (num_cores_of E) ra3 t \<Longrightarrow> therm_ok E good drv rg (t\<lparr>t_interrupt := ra3\<rparr>)"
    "b = PKG_THERM_STAT \<Longrightarrow> slot_ok E good drv rg b (sockets (hw E)) ra4 t \<Longrightarrow> therm_ok E good drv rg (t\<lparr>pkg_stat := ra4\<rparr>)"
    "b = PKG_THERM_INTERR \<Longrightarrow> slot_ok E good drv rg b (sockets (hw E)) ra5 t
      \<Longrightarrow> therm_ok E good drv rg (t\<lparr>pkg_interrupt := ra5\<rparr>)"
    using ok t(1) by (simp_all add: therm_ok_def fld mp therm_batches keep)
qed

section \<open>Storage\<close>

lemma therm_okD:
  assumes "therm_ok E good drv rg s"
  shows "batches_ok E good drv rg s" "cores_mapped E s" "sockets_mapped E s"
    "slot_ok E good drv rg TEMP_TARGET (sockets (hw E)) (t_target s) s"
    "slot_ok E good drv rg THERM_STAT (num_cores_of E) (t_stat s) s"
    "slot_ok E good drv rg THERM_INTERR (num_cores_of E) (t_interrupt s) s"
    "slot_ok E good drv rg PKG_THERM_STAT (sockets (hw E)) (pkg_stat s) s"
    "slot_ok E good drv rg PKG_THERM_INTERR (sockets (hw E)) (pkg_interrupt s) s"
  using assms by (simp_all add: therm_ok_def)

lemma more_update:
  assumes "lib.more t = lib.more s"
  shows "lib.more (t\<lparr>t_target := a\<rparr>) = lib.more (s\<lparr>t_target := a\<rparr>)"
    "lib.more (t\<lparr>t_stat := b\<rparr>) = lib.more (s\<lparr>t_stat := b\<rparr>)"
    "lib.more (t\<lparr>t_interrupt := c\<rparr>) = lib.more (s\<lparr>t_interrupt := c\<rparr>)"
    "lib.more (t\<lparr>pkg_stat := d\<rparr>) = lib.more (s\<lparr>pkg_stat := d\<rparr>)"
    "lib.more (t\<lparr>pkg_interrupt := e\<rparr>) = lib.more (s\<lparr>pkg_interrupt := e\<rparr>)"
  using assms by (cases s; cases t; simp)+

text \<open>
  The five structures are alike: the slot is initialised on the first call, and the invariant
  holds again when the structure is stored in its static variable.
\<close>

lemma store_temp_target_ok:
  assumes ok: "therm_ok E good drv rg s"
  shows "\<exists>ra t. store_temp_target E s = Some (ra, t) \<and> therm_ok E good drv rg t \<and> t_target t = Some ra
    \<and> lib.more t = lib.more (s\<lparr>t_target := Some ra\<rparr>)"
proof (cases "t_target s")
  case (Some ra)
  then have "lib.more s = lib.more (s\<lparr>t_target := Some ra\<rparr>)" by (cases s) simp
  with Some ok show ?thesis unfolding store_temp_target_def by auto
next
  case None
  note n = therm_okD(4) [OF ok, unfolded None]
  obtain ra t where t: "init_temp_target E s = Some (ra, t)" "slot_ok E good drv rg TEMP_TARGET (sockets (hw E)) (Some ra) t"
    "slot_step E good drv rg TEMP_TARGET s t"
    using init_socket_slot [OF therm_okD(1) [OF ok] _ therm_okD(3) [OF ok], of TEMP_TARGET, OF n,
        of MSR_TEMPERATURE_TARGET "junk E"] unfolding init_temp_target_def by blast
  have "therm_ok E good drv rg (t\<lparr>t_target := Some ra\<rparr>)" by (rule therm_ok_step(1) [OF ok t(3) refl t(2)])
  moreover have "lib.more t = lib.more s" using t(3) by (simp add: slot_step_def)
  ultimately show ?thesis using None t(1) more_update unfolding store_temp_target_def by auto
qed

lemma store_therm_stat_ok:
  assumes ok: "therm_ok E good drv rg s"
  shows "\<exists>ra t. store_therm_stat E s = Some (ra, t) \<and> therm_ok E good drv rg t \<and> t_stat t = Some ra
    \<and> lib.more t = lib.more (s\<lparr>t_stat := Some ra\<rparr>)"
proof (cases "t_stat s")
  case (Some ra)
  then have "lib.more s = lib.more (s\<lparr>t_stat := Some ra\<rparr>)" by (cases s) simp
  with Some ok show ?thesis unfolding store_therm_stat_def by auto
next
  case None
  note n = therm_okD(5) [OF ok, unfolded None]
  obtain ra t where t: "init_therm_stat E s = Some (ra, t)" "slot_ok E good drv rg THERM_STAT (num_cores_of E) (Some ra) t"
    "slot_step E good drv rg THERM_STAT s t"
    using init_core_slot [OF therm_okD(1) [OF ok] num_cores_of_def _ therm_okD(2) [OF ok], of THERM_STAT, OF n,
        of IA32_THERM_STATUS "therm_stat_of (junk E)"] unfolding init_therm_stat_def by blast
  have "therm_ok E good drv rg (t\<lparr>t_stat := Some ra\<rparr>)" by (rule therm_ok_step(2) [OF ok t(3) refl t(2)])
  moreover have "lib.more t = lib.more s" using t(3) by (simp add: slot_step_def)
  ultimately show ?thesis using None t(1) more_update unfolding store_therm_stat_def by auto
qed

lemma store_therm_interrupt_ok:
  assumes ok: "therm_ok E good drv rg s"
  shows "\<exists>ra t. store_therm_interrupt E s = Some (ra, t) \<and> therm_ok E good drv rg t \<and> t_interrupt t = Some ra
    \<and> lib.more t = lib.more (s\<lparr>t_interrupt := Some ra\<rparr>)"
proof (cases "t_interrupt s")
  case (Some ra)
  then have "lib.more s = lib.more (s\<lparr>t_interrupt := Some ra\<rparr>)" by (cases s) simp
  with Some ok show ?thesis unfolding store_therm_interrupt_def by auto
next
  case None
  note n = therm_okD(6) [OF ok, unfolded None]
  obtain ra t where t: "init_therm_interrupt E s = Some (ra, t)" "slot_ok E good drv rg THERM_INTERR (num_cores_of E) (Some ra) t"
    "slot_step E good drv rg THERM_INTERR s t"
    using init_core_slot [OF therm_okD(1) [OF ok] num_cores_of_def _ therm_okD(2) [OF ok], of THERM_INTERR, OF n,
        of IA32_THERM_INTERRUPT "therm_interrupt_of (junk E)"] unfolding init_therm_interrupt_def by blast
  have "therm_ok E good drv rg (t\<lparr>t_interrupt := Some ra\<rparr>)" by (rule therm_ok_step(3) [OF ok t(3) refl t(2)])
  moreover have "lib.more t = lib.more s" using t(3) by (simp add: slot_step_def)
  ultimately show ?thesis using None t(1) more_update unfolding store_therm_interrupt_def by auto
qed

lemma store_pkg_therm_stat_ok:
  assumes ok: "therm_ok E good drv rg s"
  shows "\<exists>ra t. store_pkg_therm_stat E s = Some (ra, t) \<and> therm_ok E good drv rg t \<and> pkg_stat t = Some ra
    \<and> lib.more t = lib.more (s\<lparr>pkg_stat := Some ra\<rparr>)"
proof (cases "pkg_stat s")
  case (Some ra)
  then have "lib.more s = lib.more (s\<lparr>pkg_stat := Some ra\<rparr>)" by (cases s) simp
  with Some ok show ?thesis unfolding store_pkg_therm_stat_def by auto
next
  case None
  note n = therm_okD(7) [OF ok, unfolded None]
  obtain ra t where t: "init_pkg_therm_stat E s = Some (ra, t)" "slot_ok E good drv rg PKG_THERM_STAT (sockets (hw E)) (Some ra) t"
    "slot_step E good drv rg PKG_THERM_STAT s t"
    using init_socket_slot [OF therm_okD(1) [OF ok] _ therm_okD(3) [OF ok], of PKG_THERM_STAT, OF n,
        of IA32_PACKAGE_THERM_STATUS "pkg_therm_stat_of (junk E)"] unfolding init_pkg_therm_stat_def by blast
  have "therm_ok E good drv rg (t\<lparr>pkg_stat := Some ra\<rparr>)" by (rule therm_ok_step(4) [OF ok t(3) refl t(2)])
  moreover have "lib.more t = lib.more s" using t(3) by (simp add: slot_step_def)
  ultimately show ?thesis using None t(1) more_update unfolding store_pkg_therm_stat_def by auto
qed

lemma store_pkg_therm_interrupt_ok:
  assumes ok: "therm_ok E good drv rg s"
  shows "\<exists>ra t. store_pkg_therm_interrupt E s = Some (ra, t) \<and> therm_ok E good drv rg t \<and> pkg_interrupt t = Some ra
    \<and> lib.more t = lib.more (s\<lparr>pkg_interrupt := Some ra\<rparr>)"
proof (cases "pkg_interrupt s")
  case (Some ra)
  then have "lib.more s = lib.more (s\<lparr>pkg_interrupt := Some ra\<rparr>)" by (cases s) simp
  with Some ok show ?thesis unfolding store_pkg_therm_interrupt_def by auto
next
  case None
  note n = therm_okD(8) [OF ok, unfolded None]
  obtain ra t where t: "init_pkg_therm_interrupt E s = Some (ra, t)" "slot_ok E good drv rg PKG_THERM_INTERR (sockets (hw E)) (Some ra) t"
    "slot_step E good drv rg PKG_THERM_INTERR s t"
    using init_socket_slot [OF therm_okD(1) [OF ok] _ therm_okD(3) [OF ok], of PKG_THERM_INTERR, OF n,
        of IA32_PACKAGE_THERM_INTERRUPT "pkg_therm_interrupt_of (junk E)"] unfolding init_pkg_therm_interrupt_def by blast
  have "therm_ok E good drv rg (t\<lparr>pkg_interrupt := Some ra\<rparr>)" by (rule therm_ok_step(5) [OF ok t(3) refl t(2)])
  moreover have "lib.more t = lib.more s" using t(3) by (simp add: slot_step_def)
  ultimately show ?thesis using None t(1) more_update unfolding store_pkg_therm_interrupt_def by auto
qed

section \<open>Getters and setters\<close>

lemma get_temp_target_ok:
  assumes ok: "therm_ok E good drv rg s" and ra: "t_target s = Some ra"
  shows "\<exists>ra' t. get_temp_target E ra s = Some (ra', t) \<and> therm_ok E good drv rg (t\<lparr>t_target := Some ra'\<rparr>)
    \<and> length (vals ra') = sockets (hw E) \<and> lib.more t = lib.more s"
proof -
  have "slot_ok E good drv rg TEMP_TARGET (sockets (hw E)) (Some ra) s" using therm_okD(4) [OF ok] ra by simp
  from get_slot [OF therm_okD(1) [OF ok] this] obtain ra' t where t: "get_temp_target E ra s = Some (ra', t)"
    "slot_ok E good drv rg TEMP_TARGET (sockets (hw E)) (Some ra') t" "slot_step E good drv rg TEMP_TARGET s t"
    unfolding get_temp_target_def by blast
  with therm_ok_step(1) [OF ok t(3) refl t(2)] show ?thesis by (auto simp: slot_ok_simps slot_step_def)
qed

lemma get_therm_stat_ok:
  assumes ok: "therm_ok E good drv rg s" and ra: "t_stat s = Some ra"
  shows "\<exists>ra' t. get_therm_stat E ra s = Some (ra', t) \<and> therm_ok E good drv rg (t\<lparr>t_stat := Some ra'\<rparr>)
    \<and> length (vals ra') = num_cores_of E \<and> lib.more t = lib.more s"
proof -
  have "slot_ok E good drv rg THERM_STAT (num_cores_of E) (Some ra) s" using therm_okD(5) [OF ok] ra by simp
  from get_slot [OF therm_okD(1) [OF ok] this] obtain ra' t where t: "get_therm_stat E ra s = Some (ra', t)"
    "slot_ok E good drv rg THERM_STAT (num_cores_of E) (Some ra') t" "slot_step E good drv rg THERM_STAT s t"
    unfolding get_therm_stat_def by blast
  with therm_ok_step(2) [OF ok t(3) refl t(2)] show ?thesis by (auto simp: slot_ok_simps slot_step_def)
qed

lemma get_therm_interrupt_ok:
  assumes ok: "therm_ok E good drv rg s" and ra: "t_interrupt s = Some ra"
  shows "\<exists>ra' t. get_therm_interrupt E ra s = Some (ra', t) \<and> therm_ok E good drv rg (t\<lparr>t_interrupt := Some ra'\<rparr>)
    \<and> length (vals ra') = num_cores_of E \<and> lib.more t = lib.more s"
proof -
  have "slot_ok E good drv rg THERM_INTERR (num_cores_of E) (Some ra) s" using therm_okD(6) [OF ok] ra by simp
  from get_slot [OF therm_okD(1) [OF ok] this] obtain ra' t where t: "get_therm_interrupt E ra s = Some (ra', t)"
    "slot_ok E good drv rg THERM_INTERR (num_cores_of E) (Some ra') t" "slot_step E good drv rg THERM_INTERR s t"
    unfolding get_therm_interrupt_def by blast
  with therm_ok_step(3) [OF ok t(3) refl t(2)] show ?thesis by (auto simp: slot_ok_simps slot_step_def)
qed

lemma get_pkg_therm_stat_ok:
  assumes ok: "therm_ok E good drv rg s" and ra: "pkg_stat s = Some ra"
  shows "\<exists>ra' t. get_pkg_therm_stat E ra s = Some (ra', t) \<and> therm_ok E good drv rg (t\<lparr>pkg_stat := Some ra'\<rparr>)
    \<and> length (vals ra') = sockets (hw E) \<and> lib.more t = lib.more s"
proof -
  have "slot_ok E good drv rg PKG_THERM_STAT (sockets (hw E)) (Some ra) s" using therm_okD(7) [OF ok] ra by simp
  from get_slot [OF therm_okD(1) [OF ok] this] obtain ra' t where t: "get_pkg_therm_stat E ra s = Some (ra', t)"
    "slot_ok E good drv rg PKG_THERM_STAT (sockets (hw E)) (Some ra') t" "slot_step E good drv rg PKG_THERM_STAT s t"
    unfolding get_pkg_therm_stat_def by blast
  with therm_ok_step(4) [OF ok t(3) refl t(2)] show ?thesis by (auto simp: slot_ok_simps slot_step_def)
qed

lemma get_pkg_therm_interrupt_ok:
  assumes ok: "therm_ok E good drv rg s" and ra: "pkg_interrupt s = Some ra"
  shows "\<exists>ra' t. get_pkg_therm_interrupt E ra s = Some (ra', t) \<and> therm_ok E good drv rg (t\<lparr>pkg_interrupt := Some ra'\<rparr>)
    \<and> length (vals ra') = sockets (hw E) \<and> lib.more t = lib.more s"
proof -
  have "slot_ok E good drv rg PKG_THERM_INTERR (sockets (hw E)) (Some ra) s" using therm_okD(8) [OF ok] ra by simp
  from get_slot [OF therm_okD(1) [OF ok] this] obtain ra' t where t: "get_pkg_therm_interrupt E ra s = Some (ra', t)"
    "slot_ok E good drv rg PKG_THERM_INTERR (sockets (hw E)) (Some ra') t" "slot_step E good drv rg PKG_THERM_INTERR s t"
    unfolding get_pkg_therm_interrupt_def by blast
  with therm_ok_step(5) [OF ok t(3) refl t(2)] show ?thesis by (auto simp: slot_ok_simps slot_step_def)
qed

section \<open>Dumps\<close>

lemma is_init_ok:
  assumes ok: "therm_ok E good drv rg s"
  shows "\<exists>t. is_init E s = Some t \<and> therm_ok E good drv rg t"
proof -
  obtain tt t where t: "store_temp_target E s = Some (tt, t)" "therm_ok E good drv rg t" "t_target t = Some tt"
    using store_temp_target_ok [OF ok] by blast
  obtain tt' u where u: "get_temp_target E tt t = Some (tt', u)" "therm_ok E good drv rg (u\<lparr>t_target := Some tt'\<rparr>)"
    using get_temp_target_ok [OF t(2,3)] by blast
  then have "therm_ok E good drv rg (u\<lparr>t_target := Some tt', target_init := True\<rparr>)" by (simp add: therm_ok_def)
  with t u show ?thesis by (simp add: is_init_def)
qed

definition all_lengths :: "'d env \<Rightarrow> therm_all \<Rightarrow> bool" where
  "all_lengths E a \<longleftrightarrow> length (all_ts a) = num_cores_of E \<and> length (all_ti a) = num_cores_of E
     \<and> length (all_ps a) = sockets (hw E) \<and> length (all_pi a) = sockets (hw E) \<and> length (all_tt a) = sockets (hw E)"

lemma get_all_therm_ok:
  assumes ok: "therm_ok E good drv rg s" and st: "t_stat s = Some ts" "t_interrupt s = Some ti"
    "pkg_stat s = Some ps" "pkg_interrupt s = Some pin" "t_target s = Some tt"
  shows "\<exists>a t. get_all_therm E ts ti ps pin tt s = Some (a, t) \<and> therm_ok E good drv rg t \<and> all_lengths E a"
proof -
  obtain ts' s1 where 1: "get_therm_stat E ts s = Some (ts', s1)" "therm_ok E good drv rg (s1\<lparr>t_stat := Some ts'\<rparr>)"
    "length (vals ts') = num_cores_of E" "lib.more s1 = lib.more s"
    using get_therm_stat_ok [OF ok st(1)] by blast
  obtain ti' s2 where 2: "get_therm_interrupt E ti (s1\<lparr>t_stat := Some ts'\<rparr>) = Some (ti', s2)"
    "therm_ok E good drv rg (s2\<lparr>t_interrupt := Some ti'\<rparr>)" "length (vals ti') = num_cores_of E"
    "lib.more s2 = lib.more (s1\<lparr>t_stat := Some ts'\<rparr>)"
    using get_therm_interrupt_ok [OF 1(2), of ti] st therm_more [OF 1(4)] by auto
  obtain ps' s3 where 3: "get_pkg_therm_stat E ps (s2\<lparr>t_interrupt := Some ti'\<rparr>) = Some (ps', s3)"
    "therm_ok E good drv rg (s3\<lparr>pkg_stat := Some ps'\<rparr>)" "length (vals ps') = sockets (hw E)"
    "lib.more s3 = lib.more (s2\<lparr>t_interrupt := Some ti'\<rparr>)"
    using get_pkg_therm_stat_ok [OF 2(2), of ps] st therm_more [OF 1(4)] therm_more [OF 2(4)] by auto
  obtain pin' s4 where 4: "get_pkg_therm_interrupt E pin (s3\<lparr>pkg_stat := Some ps'\<rparr>) = Some (pin', s4)"
    "therm_ok E good drv rg (s4\<lparr>pkg_interrupt := Some pin'\<rparr>)" "length (vals pin') = sockets (hw E)"
    "lib.more s4 = lib.more (s3\<lparr>pkg_stat := Some ps'\<rparr>)"
    using get_pkg_therm_interrupt_ok [OF 3(2), of pin] st therm_more [OF 1(4)] therm_more [OF 2(4)] therm_more [OF 3(4)]
    by auto
  obtain tt' s5 where 5: "get_temp_target E tt (s4\<lparr>pkg_interrupt := Some pin'\<rparr>) = Some (tt', s5)"
    "therm_ok E good drv rg (s5\<lparr>t_target := Some tt'\<rparr>)" "length (vals tt') = sockets (hw E)"
    using get_temp_target_ok [OF 4(2), of tt] st therm_more [OF 1(4)] therm_more [OF 2(4)] therm_more [OF 3(4)]
      therm_more [OF 4(4)] by auto
  show ?thesis using 1(1,3) 2(1,3) 3(1,3) 4(1,3) 5 by (simp add: get_all_therm_def all_lengths_def)
qed

text \<open>All five structures, whatever the order they are asked for in.\<close>

lemma store_all_ok:
  assumes ok: "therm_ok E good drv rg s"
  shows "\<exists>ts s1 ti s2 pin s3 ps s4 tt s5.
      store_therm_stat E s = Some (ts, s1) \<and> store_therm_interrupt E s1 = Some (ti, s2)
      \<and> store_pkg_therm_interrupt E s2 = Some (pin, s3) \<and> store_pkg_therm_stat E s3 = Some (ps, s4)
      \<and> store_temp_target E s4 = Some (tt, s5) \<and> therm_ok E good drv rg s5
      \<and> t_stat s5 = Some ts \<and> t_interrupt s5 = Some ti \<and> pkg_stat s5 = Some ps \<and> pkg_interrupt s5 = Some pin
      \<and> t_target s5 = Some tt"
proof -
  obtain ts s1 where 1: "store_therm_stat E s = Some (ts, s1)" "therm_ok E good drv rg s1" "t_stat s1 = Some ts"
    using store_therm_stat_ok [OF ok] by blast
  obtain ti s2 where 2: "store_therm_interrupt E s1 = Some (ti, s2)" "therm_ok E good drv rg s2"
    "lib.more s2 = lib.more (s1\<lparr>t_interrupt := Some ti\<rparr>)"
    using store_therm_interrupt_ok [OF 1(2)] by blast
  obtain pin s3 where 3: "store_pkg_therm_interrupt E s2 = Some (pin, s3)" "therm_ok E good drv rg s3"
    "lib.more s3 = lib.more (s2\<lparr>pkg_interrupt := Some pin\<rparr>)"
    using store_pkg_therm_interrupt_ok [OF 2(2)] by blast
  obtain ps s4 where 4: "store_pkg_therm_stat E s3 = Some (ps, s4)" "therm_ok E good drv rg s4"
    "lib.more s4 = lib.more (s3\<lparr>pkg_stat := Some ps\<rparr>)"
    using store_pkg_therm_stat_ok [OF 3(2)] by blast
  obtain tt s5 where 5: "store_temp_target E s4 = Some (tt, s5)" "therm_ok E good drv rg s5"
    "lib.more s5 = lib.more (s4\<lparr>t_target := Some tt\<rparr>)"
    using store_temp_target_ok [OF 4(2)] by blast
  show ?thesis
    using 1 2(1) 3(1) 4(1) 5(1,2) therm_more [OF 2(3)] therm_more [OF 3(3)] therm_more [OF 4(3)] therm_more [OF 5(3)]
    by (intro exI conjI) (assumption | simp)+
qed

lemma core_in_machine: "c < coresPerSocket (hw E) \<Longrightarrow> j < sockets (hw E) \<Longrightarrow> c < num_cores_of E"
  by (cases "sockets (hw E)") (simp_all add: num_cores_of_def trans_less_add1)

lemma socket_row_total:
  assumes "all_lengths E a" "j < sockets (hw E)"
  shows "\<exists>x. socket_row E a j = Some x"
proof -
  have "core_row a t c = Some (map sint (core_stat_values t (all_ts a ! c) @ core_interrupt_values t (all_ti a ! c)))"
    if "c < coresPerSocket (hw E)" for t c
    using assms core_in_machine [OF that assms(2)] by (simp add: core_row_def all_lengths_def)
  from collect_Some [OF this] show ?thesis using assms by (simp add: socket_row_def all_lengths_def)
qed

lemma collect_total: "(\<And>i. i < n \<Longrightarrow> \<exists>x. f i = Some x) \<Longrightarrow> \<exists>xs. collect f n = Some xs"
  by (induction n) (auto simp: collect_Suc)

text \<open>C19: on a machine whose structures are intact, initialised or not, the verbose dump
  initialises what is missing, reads all registers, prints exactly one number under every label
  of its header, and leaves the structures intact.\<close>

theorem verbose_columns:
  assumes "therm_ok E good drv rg s"
  shows "\<exists>xs s'. dump_therm_data_verbose E s = Some (xs, s') \<and> therm_ok E good drv rg s'
    \<and> length xs = length (dump_therm_data_verbose_label E)"
proof -
  obtain s0 where 0: "is_init E s = Some s0" "therm_ok E good drv rg s0" using is_init_ok [OF assms] by blast
  obtain ts s1 ti s2 pin s3 ps s4 tt s5 where st: "store_therm_stat E s0 = Some (ts, s1)"
    "store_therm_interrupt E s1 = Some (ti, s2)" "store_pkg_therm_interrupt E s2 = Some (pin, s3)"
    "store_pkg_therm_stat E s3 = Some (ps, s4)" "store_temp_target E s4 = Some (tt, s5)" "therm_ok E good drv rg s5"
    "t_stat s5 = Some ts" "t_interrupt s5 = Some ti" "pkg_stat s5 = Some ps" "pkg_interrupt s5 = Some pin"
    "t_target s5 = Some tt"
    using store_all_ok [OF 0(2)] by blast
  obtain a s6 where a: "get_all_therm E ts ti ps pin tt s5 = Some (a, s6)" "therm_ok E good drv rg s6" "all_lengths E a"
    using get_all_therm_ok [OF st(6-11)] by blast
  have "\<exists>xs. collect (socket_row E a) (sockets (hw E)) = Some xs"
    by (rule collect_total) (rule socket_row_total [OF a(3)])
  then obtain xs where xs: "collect (socket_row E a) (sockets (hw E)) = Some xs" by blast
  have "length xs = length (dump_therm_data_verbose_label E)"
    using collect_length [OF xs socket_row_length] by (simp add: verbose_label_length)
  with 0 st(1-5) a(1,2) xs show ?thesis by (simp add: dump_therm_data_verbose_def)
qed

text \<open>The terse dump likewise: one number per label.\<close>

lemma terse_columns:
  assumes "therm_ok E good drv rg s"
  shows "\<exists>xs s'. dump_therm_data_terse E s = Some (xs, s') \<and> therm_ok E good drv rg s'
    \<and> length xs = length (dump_therm_data_terse_label E)"
proof -
  obtain s0 where 0: "is_init E s = Some s0" "therm_ok E good drv rg s0" using is_init_ok [OF assms] by blast
  obtain ts s1 where 1: "store_therm_stat E s0 = Some (ts, s1)" "therm_ok E good drv rg s1" "t_stat s1 = Some ts"
    using store_therm_stat_ok [OF 0(2)] by blast
  obtain tt s2 where 2: "store_temp_target E s1 = Some (tt, s2)" "therm_ok E good drv rg s2" "t_target s2 = Some tt"
    "lib.more s2 = lib.more (s1\<lparr>t_target := Some tt\<rparr>)"
    using store_temp_target_ok [OF 1(2)] by blast
  obtain ts' s3 where 3: "get_therm_stat E ts s2 = Some (ts', s3)" "therm_ok E good drv rg (s3\<lparr>t_stat := Some ts'\<rparr>)"
    "length (vals ts') = num_cores_of E"
    using get_therm_stat_ok [OF 2(2), of ts] therm_more [OF 2(4)] 1(3) by auto
  have tt: "sockets (hw E) = length (vals tt)" using therm_okD(4) [OF 2(2)] 2(3) by (simp add: slot_ok_simps)
  let ?f = "\<lambda>j c. Option.bind (aget (vals tt) j) (\<lambda>t. Option.bind (aget (vals ts') c)
      (\<lambda>r. Some [sint (act_temp t (ts_readout r))]))"
  let ?v = "\<lambda>j c. [sint (act_temp (vals tt ! j) (ts_readout (vals ts' ! c)))]"
  have row: "?f j c = Some (?v j c)" if "c < coresPerSocket (hw E)" "j < sockets (hw E)" for j c
    using that core_in_machine [OF that] 3(3) tt by simp
  have "collect (?f j) (coresPerSocket (hw E)) = Some (concat (map (?v j) [0..<coresPerSocket (hw E)]))"
    if "j < sockets (hw E)" for j
    by (rule collect_Some) (rule row [OF _ that])
  from collect_Some [OF this] have "collect (\<lambda>j. collect (?f j) (coresPerSocket (hw E))) (sockets (hw E))
      = Some (concat (map (\<lambda>j. concat (map (?v j) [0..<coresPerSocket (hw E)])) [0..<sockets (hw E)]))" .
  with 0 1 2(1) 3 show ?thesis
    by (simp add: dump_therm_data_terse_def dump_therm_data_terse_label_def length_concat_upt)
qed

end
