(* ===== verification/Thermal_Props.thy ===== *)
theory Thermal_Props
  imports Thermal_Ok Sim_Window
begin

text \<open>
  What the setters of \<open>src/msr_thermal.c\<close> do to the registers: the codec of the package status,
  which round-trips, and the setters that do not.
\<close>

section \<open>Bits of the setters\<close>

named_theorems therm_defs \<open>decoders and encoders of the thermal registers\<close>

lemma ucast_back: "(ucast (ucast (v :: i32) :: u64) :: i32) = v"
  by (rule bit_word_eqI) (auto simp: bit_ucast_iff)

lemma put_flag_rest:
  "fits 1 v \<Longrightarrow> k < 31 \<Longrightarrow> bit m k \<Longrightarrow> put_int 1 k v x AND NOT m = x AND NOT m"
proof (rule bit_word_eqI)
  fix n assume *: "fits 1 v" "k < 31" "bit m k"
  show "bit (put_int 1 k v x AND NOT m) n = bit (x AND NOT m) n"
  proof (cases "n = k")
    case True
    with * show ?thesis by (simp add: bit_and_iff bit_not_iff)
  next
    case False
    then have "n < k \<or> k + 1 \<le> n" by linarith
    with * have "bit (put_int 1 k v x) n = bit x n" by (intro put_int_frame [of 1]) simp_all
    then show ?thesis by (simp add: bit_and_iff)
  qed
qed

lemma bit_clear_or:
  assumes "fits 1 v" "k \<le> 11"
  shows "bit (clear_or k v x) i \<longleftrightarrow> i \<noteq> k \<and> bit x i \<or> i = 1 \<and> v = 1"
proof -
  have v: "bit v j \<longleftrightarrow> j = 0 \<and> v = 1" for j
    using assms(1) unfolding fits_one_bit by (auto simp: bit_1_iff)
  have "i < 64" if "bit x i" using that by (auto dest: bit_imp_le_length)
  with assms(2) show ?thesis
    unfolding clear_or_def bit_or_iff bit_and_iff bit_scast64 bit_not_iff bit_push_bit_iff v
    by (auto simp: min_def bit_1_iff)
qed

section \<open>IA32_PACKAGE_THERM_STATUS\<close>

definition pkg_logs :: "pkg_therm_stat \<Rightarrow> i32 list" where
  "pkg_logs r = [ps_status_log r, PROCHOT_log r, ps_crit_temp_log r, ps_therm_thresh1_log r,
     ps_therm_thresh2_log r, ps_power_notification_log r]"

definition flags :: "i32 list \<Rightarrow> bool" where
  "flags vs \<longleftrightarrow> (\<forall>v\<in>set vs. v = 0 \<or> v = 1)"

lemma flags_fits: "flags vs \<Longrightarrow> v \<in> set vs \<Longrightarrow> fits 1 v"
  by (auto simp: flags_def fits_one_bit)

interpretation pkg_stat: reg_codec pkg_therm_stat_of set_pkg_therm_stat_bits "\<lambda>r. flags (pkg_logs r)" pkg_logs
    "\<lambda>x. x AND NOT 0xAAA"
proof
  fix r :: pkg_therm_stat and v :: u64
  assume "flags (pkg_logs r)"
  from flags_fits [OF this] have f: "fits 1 (ps_status_log r)" "fits 1 (PROCHOT_log r)" "fits 1 (ps_crit_temp_log r)"
    "fits 1 (ps_therm_thresh1_log r)" "fits 1 (ps_therm_thresh2_log r)" "fits 1 (ps_power_notification_log r)"
    by (simp_all add: pkg_logs_def)
  show "pkg_logs (pkg_therm_stat_of (set_pkg_therm_stat_bits r v)) = pkg_logs r"
    by (simp add: pkg_logs_def pkg_therm_stat_of_def set_pkg_therm_stat_bits_def field_def mask_simps f ucast_back
        del: One_nat_def)
  have rest: "set_pkg_therm_stat_bits r v AND NOT m = v AND NOT m" if "\<forall>k\<in>{1, 3, 5, 7, 9, 11}. bit m k" for m
    using f that by (simp add: set_pkg_therm_stat_bits_def put_flag_rest del: One_nat_def)
  show "set_pkg_therm_stat_bits r v AND NOT 0xAAA = v AND NOT 0xAAA"
    by (rule rest) simp
qed

text \<open>C17: the sticky log bits that \<open>set_pkg_therm_stat\<close> writes are what \<open>get_pkg_therm_stat\<close> reads
  back on every package, and every other bit of the registers is what it was.\<close>

theorem set_get_pkg_therm_stat:
  assumes "array_live E good drv rg PKG_THERM_STAT k (sockets (hw E)) ps s"
    and "\<And>i. i < sockets (hw E) \<Longrightarrow> flags (pkg_logs (vals ps ! i))"
  shows "\<exists>t vs u. set_pkg_therm_stat E ps s = Some t \<and> get_pkg_therm_stat E ps t = Some (ps\<lparr>vals := vs\<rparr>, u)
    \<and> (\<forall>i < sockets (hw E). pkg_logs (vs ! i) = pkg_logs (vals ps ! i)
          \<and> op_reg rg k u i AND NOT 0xAAA = op_reg rg k s i AND NOT 0xAAA)"
  using pkg_stat.set_get_array [OF assms] unfolding set_pkg_therm_stat_def get_pkg_therm_stat_def by blast

section \<open>IA32_THERM_STATUS\<close>

definition core_logs :: "therm_stat \<Rightarrow> i32 list" where
  "core_logs r = [ts_status_log r, PROCHOT_or_FORCEPR_log r, ts_crit_temp_log r, ts_therm_thresh1_log r,
     ts_therm_thresh2_log r, ts_power_notification_log r]"

lemma field_bit: "field x n n = (if bit x n then 1 else 0)"
  by (simp add: field_def MASK_VAL_bit)

lemma set_therm_stat_bits_logs:
  assumes "flags (core_logs r)"
  shows "core_logs (therm_stat_of (set_therm_stat_bits r v))
    = [if 1 \<in> set (core_logs r) then 1 else 0, 0, 0, 0, 0, 0]"
proof -
  from flags_fits [OF assms] have f: "fits 1 (ts_status_log r)" "fits 1 (PROCHOT_or_FORCEPR_log r)"
    "fits 1 (ts_crit_temp_log r)" "fits 1 (ts_therm_thresh1_log r)" "fits 1 (ts_therm_thresh2_log r)"
    "fits 1 (ts_power_notification_log r)"
    by (simp_all add: core_logs_def)
  show ?thesis
    by (simp add: core_logs_def therm_stat_of_def set_therm_stat_bits_def Let_def field_bit bit_clear_or f
        del: One_nat_def)
qed

text \<open>C18: \<open>set_therm_stat\<close> shifts every log bit by 1: whatever the caller asks for, the PROCHOT,
  critical temperature, threshold and power logs of every core read back as 0, and the
  thermal status log reads back as 1 as soon as any of the six was asked for.\<close>

theorem set_therm_stat_loses_logs:
  assumes "array_live E good drv rg THERM_STAT k (num_cores_of E) ts s"
    and "\<And>i. i < num_cores_of E \<Longrightarrow> flags (core_logs (vals ts ! i))"
  shows "\<exists>t vs u. set_therm_stat E ts s = Some t \<and> get_therm_stat E ts t = Some (ts\<lparr>vals := vs\<rparr>, u)
    \<and> (\<forall>i<num_cores_of E. core_logs (vs ! i)
          = [if 1 \<in> set (core_logs (vals ts ! i)) then 1 else 0, 0, 0, 0, 0, 0])"
proof -
  obtain t where t: "set_therm_stat E ts s = Some t" "array_live E good drv rg THERM_STAT k (num_cores_of E) ts t"
    "\<forall>i<num_cores_of E. op_reg rg k t i = set_therm_stat_bits (vals ts ! i) (op_reg rg k s i)"
    using set_reg_array_live [OF assms(1)] unfolding set_therm_stat_def by blast
  obtain vs u where "get_therm_stat E ts t = Some (ts\<lparr>vals := vs\<rparr>, u)"
    "\<forall>i<num_cores_of E. vs ! i = therm_stat_of (op_reg rg k t i)"
    using get_reg_array_live [OF t(2)] unfolding get_therm_stat_def by blast
  with t(1,3) assms(2) show ?thesis by (auto simp: set_therm_stat_bits_logs)
qed

section \<open>IA32_THERM_INTERRUPT\<close>

definition interrupt_flags :: "therm_interrupt \<Rightarrow> i32 list" where
  "interrupt_flags r = [ti_high_temp_enable r, ti_low_temp_enable r, ti_PROCHOT_enable r, FORCEPR_enable r,
     ti_crit_temp_enable r, ti_thresh1_enable r, ti_thresh2_enable r, ti_pwr_limit_notification_enable r]"

text \<open>The mask 7 clears only the three low bits of a seven-bit threshold.\<close>

lemma put_threshold:
  assumes "fits 7 v" "k + 7 \<le> 31" "h = k + 6"
  shows "MASK_VAL (put_int 7 k v x) h k = ucast v OR (MASK_VAL x h k AND 0x78)"
proof (rule bit_word_eqI)
  fix i assume i: "i < LENGTH(64)"
  have m: "(0x78 :: u64) = push_bit 3 (mask 4)" "(7 :: i32) = mask 3" by (simp_all add: mask_eq_exp_minus_1)
  show "bit (MASK_VAL (put_int 7 k v x) h k) i = bit (ucast v OR (MASK_VAL x h k AND 0x78)) i"
    using assms i unfolding m bit_or_iff bit_and_iff
    by (auto simp: bit_MASK_VAL bit_put_int bit_push_bit_iff bit_mask_iff bit_ucast_iff min_def
        dest: fits_lt bit_imp_le_length)
qed

lemma fits_7: "fits 7 (7 :: i32)"
  by (simp add: fits_def take_bit_eq_mod)

lemmas put_threshold_above = put_int_above [OF fits_7]

lemma set_therm_interrupt_bits_fields:
  assumes fl: "flags (interrupt_flags r)" and th: "fits 7 (ti_thresh1_val r)" "fits 7 (ti_thresh2_val r)"
  shows "interrupt_flags (therm_interrupt_of (set_therm_interrupt_bits r x)) = interrupt_flags r"
    and "ti_thresh1_val (therm_interrupt_of (set_therm_interrupt_bits r x))
      = ti_thresh1_val r OR (field x 14 8 AND 0x78)"
    and "ti_thresh2_val (therm_interrupt_of (set_therm_interrupt_bits r x))
      = ti_thresh2_val r OR (field x 22 16 AND 0x78)"
proof -
  from flags_fits [OF fl] have f: "fits 1 (ti_high_temp_enable r)" "fits 1 (ti_low_temp_enable r)"
    "fits 1 (ti_PROCHOT_enable r)" "fits 1 (FORCEPR_enable r)" "fits 1 (ti_crit_temp_enable r)"
    "fits 1 (ti_thresh1_enable r)" "fits 1 (ti_thresh2_enable r)" "fits 1 (ti_pwr_limit_notification_enable r)"
    by (simp_all add: interrupt_flags_def)
  note put = mask_simps f th put_threshold put_threshold_above put_int_below
  show "interrupt_flags (therm_interrupt_of (set_therm_interrupt_bits r x)) = interrupt_flags r"
    by (simp add: interrupt_flags_def therm_interrupt_of_def set_therm_interrupt_bits_def field_def put ucast_back
        del: One_nat_def)
  have u: "(ucast (ucast (v :: i32) OR (y AND 0x78) :: u64) :: i32) = v OR (ucast y AND 0x78)" for v y
    by (rule bit_word_eqI) (simp add: bit_ucast_iff bit_or_iff bit_and_iff)
  show "ti_thresh1_val (therm_interrupt_of (set_therm_interrupt_bits r x))
      = ti_thresh1_val r OR (field x 14 8 AND 0x78)"
    "ti_thresh2_val (therm_interrupt_of (set_therm_interrupt_bits r x))
      = ti_thresh2_val r OR (field x 22 16 AND 0x78)"
    by (simp_all add: therm_interrupt_of_def set_therm_interrupt_bits_def field_def put u
        del: One_nat_def)
qed

text \<open>\<open>set_therm_interrupt\<close> stores all the enable bits, but clears only three of the seven
  bits of a threshold: what reads back is the requested threshold with the upper four bits of
  the old one added.\<close>

theorem set_therm_interrupt_thresholds:
  assumes "array_live E good drv rg THERM_INTERR k (num_cores_of E) ti s"
    and "\<And>i. i < num_cores_of E \<Longrightarrow> flags (interrupt_flags (vals ti ! i))
       \<and> fits 7 (ti_thresh1_val (vals ti ! i)) \<and> fits 7 (ti_thresh2_val (vals ti ! i))"
  shows "\<exists>t vs u. set_therm_interrupt E ti s = Some t \<and> get_therm_interrupt E ti t = Some (ti\<lparr>vals := vs\<rparr>, u)
    \<and> (\<forall>i<num_cores_of E. interrupt_flags (vs ! i) = interrupt_flags (vals ti ! i)
         \<and> ti_thresh1_val (vs ! i) = ti_thresh1_val (vals ti ! i) OR (field (op_reg rg k s i) 14 8 AND 0x78)
         \<and> ti_thresh2_val (vs ! i) = ti_thresh2_val (vals ti ! i) OR (field (op_reg rg k s i) 22 16 AND 0x78))"
proof -
  obtain t where t: "set_therm_interrupt E ti s = Some t"
    "array_live E good drv rg THERM_INTERR k (num_cores_of E) ti t"
    "\<forall>i<num_cores_of E. op_reg rg k t i = set_therm_interrupt_bits (vals ti ! i) (op_reg rg k s i)"
    using set_reg_array_live [OF assms(1)] unfolding set_therm_interrupt_def by blast
  obtain vs u where "get_therm_interrupt E ti t = Some (ti\<lparr>vals := vs\<rparr>, u)"
    "\<forall>i<num_cores_of E. vs ! i = therm_interrupt_of (op_reg rg k t i)"
    using get_reg_array_live [OF t(2)] unfolding get_therm_interrupt_def by blast
  with t(1,3) assms(2) show ?thesis by (auto simp: set_therm_interrupt_bits_fields)
qed

section \<open>Storage\<close>

text \<open>C20: the first call of \<open>store_therm_stat\<close> allocates the structure and its batch so that the
  getter and the setter work on it, one register for each core of the machine; from then on
  it hands out the same structure and changes nothing.\<close>

theorem store_therm_stat_once:
  assumes "machine_ready E good drv rg s" "batch_fresh THERM_STAT s" "t_stat s = None" "cores_mapped E s"
  shows "\<exists>ts t. store_therm_stat E s = Some (ts, t)
    \<and> array_live E good drv rg THERM_STAT (length (blocks s)) (num_cores_of E) ts t
    \<and> store_therm_stat E t = Some (ts, t)"
proof -
  obtain ts t where t: "init_therm_stat E s = Some (ts, t)"
    "array_live E good drv rg THERM_STAT (length (blocks s)) (num_cores_of E) ts t"
    using init_core_array_live [OF assms(1,2), where ?v0.0 = "therm_stat_of (junk E)"]
      assms(4) unfolding init_therm_stat_def cores_mapped_def num_cores_of_def by metis
  then have "store_therm_stat E s = Some (ts, t\<lparr>t_stat := Some ts\<rparr>)"
    using assms(3) by (simp add: store_therm_stat_def)
  with t(2) show ?thesis by (simp add: store_therm_stat_def)
qed

section \<open>The terse dump\<close>

text \<open>the terse dump takes the readouts of all sockets from the cores of the first one: in the
  column of core \<open>c\<close> of socket \<open>j\<close> it prints the temperature target of \<open>j\<close> less the readout
  in the register of core \<open>c\<close> of the machine, whatever the socket is.\<close>

theorem terse_dump_first_socket:
  assumes "t_stat s = Some ts" "t_target s = Some tt" "target_init s" "sockets (hw E) \<le> length (vals tt)"
    and live: "array_live E good drv rg THERM_STAT k (num_cores_of E) ts s"
  shows "\<exists>s'. dump_therm_data_terse E s = Some
    (map (\<lambda>(j, c). sint (act_temp (vals tt ! j) (field (op_reg rg k s c) 22 16))) (dump_therm_data_terse_label E), s')"
proof -
  obtain vs t where t: "get_therm_stat E ts s = Some (ts\<lparr>vals := vs\<rparr>, t)" "length vs = length (vals ts)"
    "\<forall>i<num_cores_of E. vs ! i = therm_stat_of (op_reg rg k s i)"
    "array_live E good drv rg THERM_STAT k (num_cores_of E) (ts\<lparr>vals := vs\<rparr>) t"
    "batch_frame rg THERM_STAT k t = batch_frame rg THERM_STAT k s"
    using get_reg_array_live [OF live] unfolding get_therm_stat_def by blast
  let ?v = "\<lambda>j c. sint (act_temp (vals tt ! j) (field (op_reg rg k s c) 22 16))"
  have r: "Option.bind (aget vs c) (\<lambda>r. Some [sint (act_temp x (ts_readout r))])
      = Some [sint (act_temp x (field (op_reg rg k s c) 22 16))]"
    if "c < coresPerSocket (hw E)" "0 < sockets (hw E)" for c x
  proof -
    have "c < num_cores_of E"
      using that by (cases "sockets (hw E)") (simp_all add: num_cores_of_def trans_less_add1)
    with t(2,3) live show ?thesis by (simp add: array_live_def therm_stat_of_def)
  qed
  have row: "Option.bind (aget (vals tt) j) (\<lambda>x. Option.bind (aget vs c) (\<lambda>r. Some [sint (act_temp x (ts_readout r))]))
      = Some [?v j c]" if "j < sockets (hw E)" "c < coresPerSocket (hw E)" for j c
    using that assms(4) r [OF that(2)] by simp
  have "collect (\<lambda>c. Option.bind (aget (vals tt) j) (\<lambda>x. Option.bind (aget vs c)
        (\<lambda>r. Some [sint (act_temp x (ts_readout r))]))) (coresPerSocket (hw E))
      = Some (map (?v j) [0..<coresPerSocket (hw E)])" if "j < sockets (hw E)" for j
    using collect_Some [OF row [OF that]] by simp
  from collect_Some [OF this] have
    "collect (\<lambda>j. collect (\<lambda>c. Option.bind (aget (vals tt) j) (\<lambda>x. Option.bind (aget vs c)
        (\<lambda>r. Some [sint (act_temp x (ts_readout r))]))) (coresPerSocket (hw E))) (sockets (hw E))
      = Some (map (\<lambda>(j, c). ?v j c) (dump_therm_data_terse_label E))"
    by (simp add: dump_therm_data_terse_label_def List.product_concat_map map_concat comp_def)
  then show ?thesis
    using assms(1-3) t(1)
    by (auto simp: dump_therm_data_terse_def is_init_def store_temp_target_def store_therm_stat_def)
qed

section \<open>Instances\<close>

text \<open>One socket register and one core register on each of the two processors of the machine.\<close>

definition two_regs :: "u64 \<Rightarrow> (nat \<times> u64) list" where
  "two_regs a = [(0, a), (1, a)]"

lemma two_regs_live:
  "array_live (sim_env b) sim_good sim_drv sim_rg n 0 2 (sim_array 2 v) (sim_window n (two_regs a) z)"
  by (rule sim_array_live) (simp_all add: two_regs_def)

lemma sim_num_cores [simp]: "num_cores_of (sim_env b) = 2"
  by (simp add: num_cores_of_def)

lemma sim_array_nth [simp]: "i < l \<Longrightarrow> vals (sim_array l v) ! i = v" "length (vals (sim_array l v)) = l"
  by (simp_all add: sim_array_def)

theorem set_get_pkg_therm_stat_witness:
  "\<exists>t vs u. set_pkg_therm_stat (sim_env True) (sim_array 2 (pkg_therm_stat_of 0xAAA))
       (sim_window PKG_THERM_STAT (two_regs IA32_PACKAGE_THERM_STATUS) ()) = Some t
    \<and> get_pkg_therm_stat (sim_env True) (sim_array 2 (pkg_therm_stat_of 0xAAA)) t
       = Some ((sim_array 2 (pkg_therm_stat_of 0xAAA))\<lparr>vals := vs\<rparr>, u)
    \<and> pkg_logs (vs ! 1) = [1, 1, 1, 1, 1, 1]"
proof -
  have l: "pkg_logs (pkg_therm_stat_of 0xAAA) = [1, 1, 1, 1, 1, 1]"
    by (simp add: pkg_logs_def pkg_therm_stat_of_def field_bit)
  have "array_live (sim_env True) sim_good sim_drv sim_rg PKG_THERM_STAT 0 (sockets (hw (sim_env True)))
      (sim_array 2 (pkg_therm_stat_of 0xAAA)) (sim_window PKG_THERM_STAT (two_regs IA32_PACKAGE_THERM_STATUS) ())"
    using two_regs_live [of True PKG_THERM_STAT] by simp
  from set_get_pkg_therm_stat [OF this] show ?thesis by (fastforce simp: l flags_def)
qed

theorem set_therm_stat_loses_logs_witness:
  "\<exists>t vs u. set_therm_stat (sim_env True) (sim_array 2 (therm_stat_of 0x8))
       (sim_window THERM_STAT (two_regs IA32_THERM_STATUS) ()) = Some t
    \<and> get_therm_stat (sim_env True) (sim_array 2 (therm_stat_of 0x8)) t
       = Some ((sim_array 2 (therm_stat_of 0x8))\<lparr>vals := vs\<rparr>, u)
    \<and> core_logs (therm_stat_of 0x8) = [0, 1, 0, 0, 0, 0] \<and> core_logs (vs ! 1) = [1, 0, 0, 0, 0, 0]"
proof -
  have l: "core_logs (therm_stat_of 0x8) = [0, 1, 0, 0, 0, 0]"
    by (simp add: core_logs_def therm_stat_of_def field_bit)
  have "array_live (sim_env True) sim_good sim_drv sim_rg THERM_STAT 0 (num_cores_of (sim_env True))
      (sim_array 2 (therm_stat_of 0x8)) (sim_window THERM_STAT (two_regs IA32_THERM_STATUS) ())"
    using two_regs_live [of True THERM_STAT] by simp
  from set_therm_stat_loses_logs [OF this] show ?thesis by (fastforce simp: l flags_def)
qed

theorem set_therm_interrupt_thresholds_witness:
  "\<exists>t vs u. set_therm_interrupt (sim_env False) (sim_array 2 (therm_interrupt_of 0x2A00))
       (sim_window THERM_INTERR (two_regs IA32_THERM_INTERRUPT) ()) = Some t
    \<and> get_therm_interrupt (sim_env False) (sim_array 2 (therm_interrupt_of 0x2A00)) t
       = Some ((sim_array 2 (therm_interrupt_of 0x2A00))\<lparr>vals := vs\<rparr>, u)
    \<and> ti_thresh1_val (vs ! 0) = 0x2A"
proof -
  have l: "flags (interrupt_flags (therm_interrupt_of 0x2A00))" "ti_thresh1_val (therm_interrupt_of 0x2A00) = 0x2A"
    "ti_thresh2_val (therm_interrupt_of 0x2A00) = 0" "fits 7 (0x2A :: i32)"
    by (simp_all add: flags_def interrupt_flags_def therm_interrupt_of_def field_bit field_def MASK_VAL_def
        MASK_RANGE_def fits_def take_bit_eq_mod)
  have "array_live (sim_env False) sim_good sim_drv sim_rg THERM_INTERR 0 (num_cores_of (sim_env False))
      (sim_array 2 (therm_interrupt_of 0x2A00)) (sim_window THERM_INTERR (two_regs IA32_THERM_INTERRUPT) ())"
    using two_regs_live [of False THERM_INTERR] by simp
  from set_therm_interrupt_thresholds [OF this] show ?thesis
    by (fastforce simp: l sim_window_reg field_def MASK_VAL_def)
qed

lemma sim_mapped: "cores_mapped (sim_env b) (sim_lib z)" "sockets_mapped (sim_env b) (sim_lib z)"
  using sim_lib_thread [of _ z]
  by (auto simp: cores_mapped_def sockets_mapped_def intro!: exI)

text \<open>The statics of \<open>msr_thermal.c\<close> with a given target and status, the rest not initialised.\<close>

definition sim_therm :: "u64 reg_array option \<Rightarrow> therm_stat reg_array option \<Rightarrow> unit therm_lib_ext" where
  "sim_therm tt ts = therm_lib.fields tt ts None None None (tt \<noteq> None) None"

lemma sim_therm_simps [simp]:
  "t_target (sim_window n xs (sim_therm tt ts)) = tt" "t_stat (sim_window n xs (sim_therm tt ts)) = ts"
  "target_init (sim_window n xs (sim_therm tt ts)) = (tt \<noteq> None)"
  "t_target (sim_lib (sim_therm tt ts)) = tt" "t_stat (sim_lib (sim_therm tt ts)) = ts"
  "t_interrupt (sim_lib (sim_therm tt ts)) = None" "pkg_stat (sim_lib (sim_therm tt ts)) = None"
  "pkg_interrupt (sim_lib (sim_therm tt ts)) = None"
  by (simp_all add: sim_therm_def sim_window_def sim_lib_def therm_lib.defs)

theorem verbose_columns_witness:
  "\<exists>xs s'. dump_therm_data_verbose (sim_env True) (sim_lib (sim_therm None None)) = Some (xs, s')
     \<and> length xs = 2 * (25 + 28)"
proof -
  have "therm_ok (sim_env True) sim_good sim_drv sim_rg (sim_lib (sim_therm None None))"
    by (simp add: therm_ok_def sim_batches_ok sim_mapped slot_ok_simps sim_batch_fresh)
  from verbose_columns [OF this] show ?thesis
    by (simp add: verbose_label_length socket_labels_def core_labels_def) blast
qed

theorem store_therm_stat_once_witness:
  "\<exists>ts t. store_therm_stat (sim_env True) (sim_lib (sim_therm None None)) = Some (ts, t)
     \<and> store_therm_stat (sim_env True) t = Some (ts, t)"
  using store_therm_stat_once [OF sim_machine_ready [of True "sim_therm None None"] sim_batch_fresh _ sim_mapped(1)]
  by auto

theorem terse_dump_first_socket_witness:
  "\<exists>s'. dump_therm_data_terse (sim_env True)
      (sim_window THERM_STAT (two_regs IA32_THERM_STATUS)
         (sim_therm (Some (sim_array 2 100)) (Some (sim_array 2 (therm_stat_of 0))))) = Some ([100, 100], s')"
proof -
  let ?z = "sim_therm (Some (sim_array 2 100)) (Some (sim_array 2 (therm_stat_of 0)))"
  let ?s = "sim_window THERM_STAT (two_regs IA32_THERM_STATUS) ?z"
  have l: "array_live (sim_env True) sim_good sim_drv sim_rg THERM_STAT 0 (num_cores_of (sim_env True))
      (sim_array 2 (therm_stat_of 0)) ?s"
    using two_regs_live [of True THERM_STAT] by simp
  have "dump_therm_data_terse_label (sim_env True) = [(0, 0), (1, 0)]"
    by (simp add: dump_therm_data_terse_label_def numeral_2_eq_2)
  then show ?thesis
    using terse_dump_first_socket [OF _ _ _ _ l, of "sim_array 2 100"]
    by (simp add: sim_window_reg field_def MASK_VAL_def act_temp_def)
qed

theorem write_batch_stores_witness:
  "\<exists>s'. write_batch (sim_env False) THERM_STAT (sim_window THERM_STAT (two_regs IA32_THERM_STATUS) ()) = Some (0, s')
     \<and> sim_rg 10 IA32_TIME_STAMP_COUNTER (dev s') = 0"
proof -
  let ?s = "sim_window THERM_STAT (two_regs IA32_THERM_STATUS) ()"
  have "batch_live (sim_env False) sim_good sim_drv sim_rg THERM_STAT 0 ?s"
    by (rule sim_window_live) (simp_all add: two_regs_def)
  moreover have "(10, IA32_TIME_STAMP_COUNTER) \<notin> set (map (reg_key (fd_of ?s)) (ops_of THERM_STAT 0 ?s))"
    by (auto simp: sim_window_ops sim_window_fd two_regs_def window_op_def reg_key_def msr_addrs)
  moreover have "sim_rg 10 IA32_TIME_STAMP_COUNTER (dev ?s) = 0"
    by (simp add: sim_window_def sim_rg_def sim0_def)
  ultimately show ?thesis using write_batch_stores by metis
qed

end
