(* ===== verification/Msr_Counters.thy ===== *)
theory Msr_Counters
  imports Cpuid Platform Msr_Bits Reg_Group
begin

text \<open>
  \<open>src/msr_counters.c\<close>: the programmable counters of the threads, the counters of the uncore
  power control unit, and the fixed counters.
\<close>

section \<open>Data\<close>

text \<open>
  The members \<open>perf_evtsel0\<close> to \<open>perf_evtsel7\<close> of \<open>struct perfevtsel\<close>, the members \<open>pmc0\<close>
  to \<open>pmc7\<close> of \<open>struct pmc\<close>, and \<open>c0\<close> to \<open>c3\<close> of the uncore structures are one list each;
  a member that was not allocated is NULL, \<open>None\<close>.
\<close>

type_synonym member = "cell option list option"

text \<open>One entry of the arrays of \<open>struct fixed_counter\<close>; the pointers \<open>value\<close> are its \<open>raw\<close>.\<close>

record fixed_counter =
  enable :: u64
  ring_level :: u64
  anyThread :: u64
  pmi :: u64
  overflow :: u64

record 'd ctr_lib = "'d lib" +
  evtsel :: "member list option"
  pmc :: "member list option"
  unc_evtsel :: "member list option"
  unc_count :: "member list option"
  fixed :: "(fixed_counter reg_array \<times> fixed_counter reg_array \<times> fixed_counter reg_array) option"
  fixed_ctrl :: "(cell option list \<times> cell option list) option"

text \<open>\<open>*p = f(*p)\<close>.\<close>

definition cell_upd :: "cell \<Rightarrow> (u64 \<Rightarrow> u64) \<Rightarrow> ('d, 'z) lib_scheme \<Rightarrow> ('d, 'z) lib_scheme option" where
  "cell_upd p f s = do { v \<leftarrow> cell_get s p; cell_set p (f v) s }"

text \<open>The \<open>i\<close>-th pointer of member \<open>j\<close>.\<close>

definition member_ptr :: "member list \<Rightarrow> nat \<Rightarrow> nat \<Rightarrow> cell option" where
  "member_ptr ms j i = do { m \<leftarrow> aget ms j; vs \<leftarrow> m; ptr vs i }"

section \<open>Programmable counters\<close>

text \<open>The number of counters, a field of eight bits of CPUID.\<close>

definition avail_pmc :: "'d env \<Rightarrow> nat" where
  "avail_pmc E = unat (cpuid_num_pmc E)"

definition perfevtsel_regs :: "u64 list" where
  "perfevtsel_regs = [IA32_PERFEVTSEL0, IA32_PERFEVTSEL1, IA32_PERFEVTSEL2, IA32_PERFEVTSEL3,
     IA32_PERFEVTSEL4, IA32_PERFEVTSEL5, IA32_PERFEVTSEL6, IA32_PERFEVTSEL7]"

definition pmc_regs :: "u64 list" where
  "pmc_regs = [IA32_PMC0, IA32_PMC1, IA32_PMC2, IA32_PMC3, IA32_PMC4, IA32_PMC5, IA32_PMC6, IA32_PMC7]"

definition print_available_counters :: "'d env \<Rightarrow> (string \<times> nat option) list" where
  "print_available_counters E =
     map (\<lambda>n. (n, None)) [''IA32_FIXED_CTR_CTRL'', ''IA32_PERF_GLOBAL_CTRL'', ''IA32_PERF_GLOBAL_STATUS'',
       ''IA32_PERF_GLOBAL_OVF_CTRL'', ''IA32_FIXED_CTR0'', ''IA32_FIXED_CTR1'', ''IA32_FIXED_CTR2'']
     @ concat (map (\<lambda>i. [(''IA32_PMC'', Some i), (''IA32_PERFEVTSEL'', Some i)]) [0..<min 8 (avail_pmc E)])"

text \<open>
  The two \<open>switch\<close> statements fall through from the case of the number of counters down to
  case 1: members \<open>avail - 1\<close> to 0 are allocated and loaded in that order.  With more than
  eight counters no case applies.
\<close>

definition init_members ::
  "'d env \<Rightarrow> nat \<Rightarrow> u64 list \<Rightarrow> ('d, 'z) lib_scheme \<Rightarrow> (int \<times> member list \<times> ('d, 'z) lib_scheme) option" where
  "init_members E b regs s =
     (let avail = avail_pmc E in
      if avail < 1 then Some (-1, replicate 8 None, s)
      else if avail \<le> 8
      then do {
        (vs, s) \<leftarrow> alloc_group (load_thread_batch E) b (rev (take avail regs)) (NUM_DEVS (hw E)) s;
        Some (0, map Some (rev vs) @ replicate (8 - avail) None, s)
      }
      else do {
        (_, s) \<leftarrow> allocate_batch b (avail * NUM_DEVS (hw E)) s;
        Some (0, replicate 8 None, s)
      })"

definition init_perfevtsel ::
  "'d env \<Rightarrow> ('d, 'z) lib_scheme \<Rightarrow> (int \<times> member list \<times> ('d, 'z) lib_scheme) option" where
  "init_perfevtsel E s = init_members E COUNTERS_CTRL perfevtsel_regs s"

definition init_pmc ::
  "'d env \<Rightarrow> ('d, 'z) lib_scheme \<Rightarrow> (int \<times> member list \<times> ('d, 'z) lib_scheme) option" where
  "init_pmc E s = init_members E COUNTERS_DATA pmc_regs s"

definition perfevtsel_storage ::
  "'d env \<Rightarrow> ('d, 'z) ctr_lib_scheme \<Rightarrow> (member list \<times> ('d, 'z) ctr_lib_scheme) option" where
  "perfevtsel_storage E s =
     (case evtsel s of Some e \<Rightarrow> Some (e, s)
      | None \<Rightarrow> do { (_, e, s) \<leftarrow> init_perfevtsel E s; Some (e, s\<lparr>evtsel := Some e\<rparr>) })"

definition pmc_storage ::
  "'d env \<Rightarrow> ('d, 'z) ctr_lib_scheme \<Rightarrow> (member list \<times> ('d, 'z) ctr_lib_scheme) option" where
  "pmc_storage E s =
     (case pmc s of Some p \<Rightarrow> Some (p, s)
      | None \<Rightarrow> do { (_, p, s) \<leftarrow> init_pmc E s; Some (p, s\<lparr>pmc := Some p\<rparr>) })"

definition pmc_ctrl_value :: "u64 \<Rightarrow> u64 \<Rightarrow> u64 \<Rightarrow> u64 \<Rightarrow> u64" where
  "pmc_ctrl_value cmask flags umask eventsel =
     0 OR push_bit 24 cmask OR push_bit 16 flags OR push_bit 8 umask OR eventsel"

text \<open>\<open>pmcnum\<close> counts from 1; other numbers are ignored.\<close>

definition set_pmc_ctrl_flags ::
  "'d env \<Rightarrow> u64 \<Rightarrow> u64 \<Rightarrow> u64 \<Rightarrow> u64 \<Rightarrow> int \<Rightarrow> nat \<Rightarrow> ('d, 'z) ctr_lib_scheme \<Rightarrow> ('d, 'z) ctr_lib_scheme option" where
  "set_pmc_ctrl_flags E cmask flags umask eventsel pmcnum thread s =
     do {
       (evt, s) \<leftarrow> perfevtsel_storage E s;
       if 1 \<le> pmcnum \<and> pmcnum \<le> 8
       then do {
         p \<leftarrow> member_ptr evt (nat pmcnum - 1) thread;
         cell_set p (pmc_ctrl_value cmask flags umask eventsel) s
       }
       else Some s
     }"

definition set_all_pmc_ctrl ::
  "'d env \<Rightarrow> u64 \<Rightarrow> u64 \<Rightarrow> u64 \<Rightarrow> u64 \<Rightarrow> int \<Rightarrow> ('d, 'z) ctr_lib_scheme \<Rightarrow> ('d, 'z) ctr_lib_scheme option" where
  "set_all_pmc_ctrl E cmask flags umask eventsel pmcnum s =
     foldo (set_pmc_ctrl_flags E cmask flags umask eventsel pmcnum) [0..<NUM_DEVS (hw E)] s"

text \<open>
  A \<open>switch\<close> that falls through from case \<open>n\<close> down to case 1 and sets \<open>*p->pmc<j>[i]\<close> to 0
  in each case \<open>j + 1\<close>.
\<close>

definition clear_down :: "member list \<Rightarrow> nat \<Rightarrow> nat \<Rightarrow> ('d, 'z) lib_scheme \<Rightarrow> ('d, 'z) lib_scheme option" where
  "clear_down ms n i s =
     (if n \<le> 8 then foldo (\<lambda>j s. do { p \<leftarrow> member_ptr ms j i; cell_set p 0 s }) (rev [0..<n]) s else Some s)"

definition clear_all_pmc :: "'d env \<Rightarrow> ('d, 'z) ctr_lib_scheme \<Rightarrow> ('d, 'z) ctr_lib_scheme option" where
  "clear_all_pmc E s =
     do {
       (p, s) \<leftarrow> pmc_storage E s;
       s \<leftarrow> foldo (clear_down p (avail_pmc E)) [0..<NUM_DEVS (hw E)] s;
       (_, s) \<leftarrow> write_batch E COUNTERS_DATA s;
       Some s
     }"

definition enable_pmc :: "'d env \<Rightarrow> ('d, 'z) ctr_lib_scheme \<Rightarrow> (int \<times> ('d, 'z) ctr_lib_scheme) option" where
  "enable_pmc E s =
     (if avail_pmc E = 0 then Some (-1, s)
      else do {
        (_, s) \<leftarrow> perfevtsel_storage E s;
        (_, s) \<leftarrow> write_batch E COUNTERS_CTRL s;
        s \<leftarrow> clear_all_pmc E s;
        Some (0, s)
      })"

text \<open>The argument selects the case and indexes the threads.\<close>

definition clear_pmc :: "'d env \<Rightarrow> int \<Rightarrow> ('d, 'z) ctr_lib_scheme \<Rightarrow> (int \<times> ('d, 'z) ctr_lib_scheme) option" where
  "clear_pmc E idx s =
     do {
       (p, s) \<leftarrow> pmc_storage E s;
       if idx < int (avail_pmc E)
       then if 1 \<le> idx then do { s \<leftarrow> clear_down p (nat idx) (nat idx) s; Some (0, s) } else Some (0, s)
       else Some (-1, s)
     }"

text \<open>The printed counters of every thread, the highest number first.\<close>

definition dump_pmc_data_readable ::
  "'d env \<Rightarrow> ('d, 'z) ctr_lib_scheme \<Rightarrow> ((nat \<times> nat \<times> u64) list \<times> ('d, 'z) ctr_lib_scheme) option" where
  "dump_pmc_data_readable E s =
     do {
       (ms, s) \<leftarrow> pmc_storage E s;
       (_, s) \<leftarrow> read_batch E COUNTERS_DATA s;
       out \<leftarrow> collect (\<lambda>i.
           if avail_pmc E \<le> 8
           then foldo (\<lambda>j out. do { p \<leftarrow> member_ptr ms j i; v \<leftarrow> cell_get s p; Some (out @ [(i, j, v)]) })
                  (rev [0..<avail_pmc E]) []
           else Some []) (NUM_DEVS (hw E));
       Some (out, s)
     }"

section \<open>Uncore\<close>

definition init_unc_perfevtsel ::
  "'d env \<Rightarrow> ('d, 'z) lib_scheme \<Rightarrow> (member list \<times> ('d, 'z) lib_scheme) option" where
  "init_unc_perfevtsel E s =
     do {
       (vs, s) \<leftarrow> alloc_group (load_socket_batch E) UNCORE_EVTSEL
          [MSR_PCU_PMON_EVNTSEL0, MSR_PCU_PMON_EVNTSEL1, MSR_PCU_PMON_EVNTSEL2, MSR_PCU_PMON_EVNTSEL3]
          (sockets (hw E)) s;
       Some (map Some vs, s)
     }"

definition init_unc_counters ::
  "'d env \<Rightarrow> ('d, 'z) lib_scheme \<Rightarrow> (member list \<times> ('d, 'z) lib_scheme) option" where
  "init_unc_counters E s =
     do {
       (vs, s) \<leftarrow> alloc_group (load_socket_batch E) UNCORE_COUNT
          [MSR_PCU_PMON_CTR0, MSR_PCU_PMON_CTR1, MSR_PCU_PMON_CTR2, MSR_PCU_PMON_CTR3] (sockets (hw E)) s;
       Some (map Some vs, s)
     }"

definition unc_perfevtsel_storage ::
  "'d env \<Rightarrow> ('d, 'z) ctr_lib_scheme \<Rightarrow> (member list \<times> ('d, 'z) ctr_lib_scheme) option" where
  "unc_perfevtsel_storage E s =
     (case unc_evtsel s of Some e \<Rightarrow> Some (e, s)
      | None \<Rightarrow> do { (e, s) \<leftarrow> init_unc_perfevtsel E s; Some (e, s\<lparr>unc_evtsel := Some e\<rparr>) })"

definition unc_counters_storage ::
  "'d env \<Rightarrow> ('d, 'z) ctr_lib_scheme \<Rightarrow> (member list \<times> ('d, 'z) ctr_lib_scheme) option" where
  "unc_counters_storage E s =
     (case unc_count s of Some c \<Rightarrow> Some (c, s)
      | None \<Rightarrow> do { (c, s) \<leftarrow> init_unc_counters E s; Some (c, s\<lparr>unc_count := Some c\<rparr>) })"

definition pcu_ctrl_value :: "u64 \<Rightarrow> u64 \<Rightarrow> u64 \<Rightarrow> u64 \<Rightarrow> u64" where
  "pcu_ctrl_value flags reset occ eventsel =
     0 OR push_bit 18 (flags AND 0xDF7FFFFF) OR push_bit 17 reset OR push_bit 14 occ OR eventsel"

definition set_pcu_ctrl_flags ::
  "'d env \<Rightarrow> u64 \<Rightarrow> u64 \<Rightarrow> u64 \<Rightarrow> u64 \<Rightarrow> int \<Rightarrow> nat \<Rightarrow> ('d, 'z) ctr_lib_scheme \<Rightarrow> ('d, 'z) ctr_lib_scheme option" where
  "set_pcu_ctrl_flags E flags reset occ eventsel pcunum socket s =
     do {
       (uevt, s) \<leftarrow> unc_perfevtsel_storage E s;
       if 1 \<le> pcunum \<and> pcunum \<le> 4
       then do {
         p \<leftarrow> member_ptr uevt (nat pcunum - 1) socket;
         cell_set p (pcu_ctrl_value flags reset occ eventsel) s
       }
       else Some s
     }"

definition set_all_pcu_ctrl ::
  "'d env \<Rightarrow> u64 \<Rightarrow> u64 \<Rightarrow> u64 \<Rightarrow> u64 \<Rightarrow> int \<Rightarrow> ('d, 'z) ctr_lib_scheme \<Rightarrow> ('d, 'z) ctr_lib_scheme option" where
  "set_all_pcu_ctrl E flags reset occ eventsel pcunum s =
     foldo (set_pcu_ctrl_flags E flags reset occ eventsel pcunum) [0..<sockets (hw E)] s"

definition clear_all_pcu :: "'d env \<Rightarrow> ('d, 'z) ctr_lib_scheme \<Rightarrow> ('d, 'z) ctr_lib_scheme option" where
  "clear_all_pcu E s =
     do {
       (uc, s) \<leftarrow> unc_counters_storage E s;
       s \<leftarrow> foldo (\<lambda>i. foldo (\<lambda>j s. do { p \<leftarrow> member_ptr uc j i; cell_set p 0 s }) [0..<4])
              [0..<sockets (hw E)] s;
       (_, s) \<leftarrow> write_batch E UNCORE_COUNT s;
       Some s
     }"

definition enable_pcu :: "'d env \<Rightarrow> ('d, 'z) ctr_lib_scheme \<Rightarrow> ('d, 'z) ctr_lib_scheme option" where
  "enable_pcu E s =
     do {
       (_, s) \<leftarrow> unc_perfevtsel_storage E s;
       (_, s) \<leftarrow> write_batch E UNCORE_EVTSEL s;
       clear_all_pcu E s
     }"

text \<open>
  \<open>uc->c0[idx] = 0\<close> sets the pointer to NULL, not the counter.  A negative index is outside
  the array.
\<close>

definition clear_pcu :: "'d env \<Rightarrow> int \<Rightarrow> ('d, 'z) ctr_lib_scheme \<Rightarrow> (int \<times> ('d, 'z) ctr_lib_scheme) option" where
  "clear_pcu E idx s =
     do {
       (uc, s) \<leftarrow> unc_counters_storage E s;
       if idx < int (sockets (hw E))
       then if idx < 0 then None
            else do {
              m \<leftarrow> aget uc 0;
              c0 \<leftarrow> m;
              c0 \<leftarrow> aset c0 (nat idx) None;
              Some (0, s\<lparr>unc_count := Some (uc[0 := Some c0])\<rparr>)
            }
       else Some (-1, s)
     }"

text \<open>The dump does not read the batch first.\<close>

definition dump_unc_counter_data ::
  "'d env \<Rightarrow> ('d, 'z) ctr_lib_scheme \<Rightarrow> ((nat \<times> u64 list) list \<times> ('d, 'z) ctr_lib_scheme) option" where
  "dump_unc_counter_data E s =
     do {
       (uc, s) \<leftarrow> unc_counters_storage E s;
       out \<leftarrow> collect (\<lambda>i. do {
           vs \<leftarrow> collect (\<lambda>j. do { p \<leftarrow> member_ptr uc j i; v \<leftarrow> cell_get s p; Some [v] }) 4;
           Some [(i, vs)]
         }) (sockets (hw E));
       Some (out, s)
     }"

end
