(* ===== verification/Fixed_Counters.thy ===== *)
theory Fixed_Counters
  imports Msr_Counters
begin

text \<open>
  The fixed counters of \<open>src/msr_counters.c\<close>: three counters per thread, the two registers
  that control them, and the getter and setter of their configuration.
\<close>

section \<open>Storage\<close>

definition junk_counter :: "'d env \<Rightarrow> fixed_counter" where
  "junk_counter E = \<lparr>enable = junk E, ring_level = junk E, anyThread = junk E, pmi = junk E, overflow = junk E\<rparr>"

definition init_fixed_counter :: "'d env \<Rightarrow> fixed_counter reg_array" where
  "init_fixed_counter E = \<lparr>raw = replicate (NUM_DEVS (hw E)) None, vals = replicate (NUM_DEVS (hw E)) (junk_counter E)\<rparr>"

definition fixed_counter_storage ::
  "'d env \<Rightarrow> ('d, 'z) ctr_lib_scheme
   \<Rightarrow> ((fixed_counter reg_array \<times> fixed_counter reg_array \<times> fixed_counter reg_array) \<times> ('d, 'z) ctr_lib_scheme) option" where
  "fixed_counter_storage E s =
     (case fixed s of
        Some c \<Rightarrow> Some (c, s)
      | None \<Rightarrow> do {
          let c = init_fixed_counter E;
          (vs, s) \<leftarrow> alloc_group (load_thread_batch E) FIXED_COUNTERS_DATA
             [IA32_FIXED_CTR0, IA32_FIXED_CTR1, IA32_FIXED_CTR2] (NUM_DEVS (hw E)) s;
          let c = (c\<lparr>raw := vs ! 0\<rparr>, c\<lparr>raw := vs ! 1\<rparr>, c\<lparr>raw := vs ! 2\<rparr>);
          Some (c, s\<lparr>fixed := Some c\<rparr>)
        })"

definition fixed_counter_ctrl_storage ::
  "'d env \<Rightarrow> ('d, 'z) ctr_lib_scheme \<Rightarrow> ((cell option list \<times> cell option list) \<times> ('d, 'z) ctr_lib_scheme) option" where
  "fixed_counter_ctrl_storage E s =
     (case fixed_ctrl s of
        Some c \<Rightarrow> Some (c, s)
      | None \<Rightarrow> do {
          (vs, s) \<leftarrow> alloc_group (load_thread_batch E) FIXED_COUNTERS_CTR_DATA
             [IA32_PERF_GLOBAL_CTRL, IA32_FIXED_CTR_CTRL] (NUM_DEVS (hw E)) s;
          Some ((vs ! 0, vs ! 1), s\<lparr>fixed_ctrl := Some (vs ! 0, vs ! 1)\<rparr>)
        })"

section \<open>Configuration\<close>

text \<open>What the loop of the getter reads for counter \<open>j\<close> from the two control registers.\<close>

definition get_ctr :: "nat \<Rightarrow> u64 \<Rightarrow> u64 \<Rightarrow> fixed_counter \<Rightarrow> fixed_counter" where
  "get_ctr j pg fc c = c\<lparr>enable := MASK_VAL pg (32 + j) (32 + j), ring_level := MASK_VAL fc (4 * j + 1) (4 * j),
     anyThread := MASK_VAL fc (4 * j + 2) (4 * j + 2), pmi := MASK_VAL fc (4 * j + 3) (4 * j + 3)\<rparr>"

text \<open>A NULL argument is \<open>None\<close>, and is skipped.\<close>

definition get_one ::
  "nat \<Rightarrow> u64 \<Rightarrow> u64 \<Rightarrow> nat \<Rightarrow> fixed_counter reg_array option \<Rightarrow> fixed_counter reg_array option option" where
  "get_one j pg fc i ctr =
     (case ctr of
        None \<Rightarrow> Some None
      | Some c \<Rightarrow> do { x \<leftarrow> aget (vals c) i; vs \<leftarrow> aset (vals c) i (get_ctr j pg fc x); Some (Some (c\<lparr>vals := vs\<rparr>)) })"

definition get_fixed_ctr_ctrl ::
  "'d env \<Rightarrow> fixed_counter reg_array option \<Rightarrow> fixed_counter reg_array option \<Rightarrow> fixed_counter reg_array option
   \<Rightarrow> ('d, 'z) ctr_lib_scheme
   \<Rightarrow> (fixed_counter reg_array option \<times> fixed_counter reg_array option \<times> fixed_counter reg_array option
        \<times> ('d, 'z) ctr_lib_scheme) option" where
  "get_fixed_ctr_ctrl E ctr0 ctr1 ctr2 s =
     do {
       ((pgc, fcc), s) \<leftarrow> fixed_counter_ctrl_storage E s;
       (_, s) \<leftarrow> read_batch E FIXED_COUNTERS_CTR_DATA s;
       (c0, c1, c2) \<leftarrow> foldo (\<lambda>i (c0, c1, c2). do {
           p \<leftarrow> ptr pgc i; pg \<leftarrow> cell_get s p;
           q \<leftarrow> ptr fcc i; fc \<leftarrow> cell_get s q;
           c0 \<leftarrow> get_one 0 pg fc i c0;
           c1 \<leftarrow> get_one 1 pg fc i c1;
           c2 \<leftarrow> get_one 2 pg fc i c2;
           Some (c0, c1, c2)
         }) [0..<NUM_DEVS (hw E)] (ctr0, ctr1, ctr2);
       Some (c0, c1, c2, s)
     }"

text \<open>The assignments to \<open>*perf_global_ctrl[i]\<close> and to \<open>*fixed_ctr_ctrl[i]\<close>.\<close>

definition set_global_bits :: "fixed_counter \<Rightarrow> fixed_counter \<Rightarrow> fixed_counter \<Rightarrow> u64 \<Rightarrow> u64" where
  "set_global_bits c0 c1 c2 x =
     (let x = put_u64 1 32 (enable c0) x;
          x = put_u64 1 33 (enable c1) x
      in put_u64 1 34 (enable c2) x)"

definition set_ctr_bits :: "nat \<Rightarrow> fixed_counter \<Rightarrow> u64 \<Rightarrow> u64" where
  "set_ctr_bits k c x =
     (let x = put_u64 3 k (ring_level c) x;
          x = put_u64 1 (k + 2) (anyThread c) x
      in put_u64 1 (k + 3) (pmi c) x)"

definition set_fixed_bits :: "fixed_counter \<Rightarrow> fixed_counter \<Rightarrow> fixed_counter \<Rightarrow> u64 \<Rightarrow> u64" where
  "set_fixed_bits c0 c1 c2 x = set_ctr_bits 8 c2 (set_ctr_bits 4 c1 (set_ctr_bits 0 c0 x))"

text \<open>
  One iteration of the setter.  The assignments go to two registers in turn and read only the
  register they change, so each register is changed at once.
\<close>

definition set_fixed_thread ::
  "fixed_counter reg_array \<Rightarrow> fixed_counter reg_array \<Rightarrow> fixed_counter reg_array
   \<Rightarrow> cell option list \<Rightarrow> cell option list \<Rightarrow> nat \<Rightarrow> ('d, 'z) lib_scheme \<Rightarrow> ('d, 'z) lib_scheme option" where
  "set_fixed_thread ctr0 ctr1 ctr2 pgc fcc i s =
     do {
       p0 \<leftarrow> ptr (raw ctr0) i; s \<leftarrow> cell_set p0 0 s;
       p1 \<leftarrow> ptr (raw ctr1) i; s \<leftarrow> cell_set p1 0 s;
       p2 \<leftarrow> ptr (raw ctr2) i; s \<leftarrow> cell_set p2 0 s;
       c0 \<leftarrow> aget (vals ctr0) i; c1 \<leftarrow> aget (vals ctr1) i; c2 \<leftarrow> aget (vals ctr2) i;
       p \<leftarrow> ptr pgc i; s \<leftarrow> cell_upd p (set_global_bits c0 c1 c2) s;
       q \<leftarrow> ptr fcc i; cell_upd q (set_fixed_bits c0 c1 c2) s
     }"

definition set_fixed_counter_ctrl ::
  "'d env \<Rightarrow> fixed_counter reg_array \<Rightarrow> fixed_counter reg_array \<Rightarrow> fixed_counter reg_array
   \<Rightarrow> ('d, 'z) ctr_lib_scheme \<Rightarrow> ('d, 'z) ctr_lib_scheme option" where
  "set_fixed_counter_ctrl E ctr0 ctr1 ctr2 s =
     do {
       ((pgc, fcc), s) \<leftarrow> fixed_counter_ctrl_storage E s;
       (_, s) \<leftarrow> read_batch E FIXED_COUNTERS_CTR_DATA s;
       s \<leftarrow> foldo (set_fixed_thread ctr0 ctr1 ctr2 pgc fcc) [0..<NUM_DEVS (hw E)] s;
       (_, s) \<leftarrow> write_batch E FIXED_COUNTERS_CTR_DATA s;
       (_, s) \<leftarrow> write_batch E FIXED_COUNTERS_DATA s;
       Some s
     }"

definition get_fixed_counter_config :: "'d env \<Rightarrow> i32 \<times> i32" where
  "get_fixed_counter_config E = (cpuid_num_fixed_counters E, cpuid_width_fixed_counters E)"

text \<open>All threads of one counter: enabled or not, ring level 3, any thread, no interrupt.\<close>

definition switch_counter :: "u64 \<Rightarrow> nat \<Rightarrow> fixed_counter reg_array \<Rightarrow> fixed_counter reg_array option" where
  "switch_counter e n c =
     foldo (\<lambda>i c. do {
         x \<leftarrow> aget (vals c) i;
         vs \<leftarrow> aset (vals c) i (x\<lparr>enable := e, ring_level := 3, anyThread := 1, pmi := 0\<rparr>);
         Some (c\<lparr>vals := vs\<rparr>)
       }) [0..<n] c"

definition switch_fixed_counters :: "u64 \<Rightarrow> 'd env \<Rightarrow> ('d, 'z) ctr_lib_scheme \<Rightarrow> ('d, 'z) ctr_lib_scheme option" where
  "switch_fixed_counters e E s =
     do {
       ((c0, c1, c2), s) \<leftarrow> fixed_counter_storage E s;
       c0 \<leftarrow> switch_counter e (NUM_DEVS (hw E)) c0;
       c1 \<leftarrow> switch_counter e (NUM_DEVS (hw E)) c1;
       c2 \<leftarrow> switch_counter e (NUM_DEVS (hw E)) c2;
       set_fixed_counter_ctrl E c0 c1 c2 (s\<lparr>fixed := Some (c0, c1, c2)\<rparr>)
     }"

definition enable_fixed_counters :: "'d env \<Rightarrow> ('d, 'z) ctr_lib_scheme \<Rightarrow> ('d, 'z) ctr_lib_scheme option" where
  "enable_fixed_counters = switch_fixed_counters 1"

definition disable_fixed_counters :: "'d env \<Rightarrow> ('d, 'z) ctr_lib_scheme \<Rightarrow> ('d, 'z) ctr_lib_scheme option" where
  "disable_fixed_counters = switch_fixed_counters 0"

section \<open>Dumps\<close>

definition dump_fixed_counter_data_terse_label :: "'d env \<Rightarrow> (string \<times> nat) list" where
  "dump_fixed_counter_data_terse_label E =
     concat (map (\<lambda>i. [(''IR'', i), (''UCC'', i), (''URC'', i)]) [0..<NUM_DEVS (hw E)])"

definition dump_fixed_counter_data_terse ::
  "'d env \<Rightarrow> ('d, 'z) ctr_lib_scheme \<Rightarrow> (u64 list \<times> ('d, 'z) ctr_lib_scheme) option" where
  "dump_fixed_counter_data_terse E s =
     do {
       ((c0, c1, c2), s) \<leftarrow> fixed_counter_storage E s;
       (_, s) \<leftarrow> read_batch E FIXED_COUNTERS_DATA s;
       out \<leftarrow> collect (\<lambda>i. do {
           p0 \<leftarrow> ptr (raw c0) i; v0 \<leftarrow> cell_get s p0;
           p1 \<leftarrow> ptr (raw c1) i; v1 \<leftarrow> cell_get s p1;
           p2 \<leftarrow> ptr (raw c2) i; v2 \<leftarrow> cell_get s p2;
           Some [v0, v1, v2]
         }) (NUM_DEVS (hw E));
       Some (out, s)
     }"

text \<open>The same numbers, each with its label.\<close>

definition dump_fixed_counter_data_readable ::
  "'d env \<Rightarrow> ('d, 'z) ctr_lib_scheme \<Rightarrow> (((string \<times> nat) \<times> u64) list \<times> ('d, 'z) ctr_lib_scheme) option" where
  "dump_fixed_counter_data_readable E s =
     do {
       (out, s) \<leftarrow> dump_fixed_counter_data_terse E s;
       Some (zip (dump_fixed_counter_data_terse_label E) out, s)
     }"

end
