(* ===== verification/Counters_Props.thy ===== *)
theory Counters_Props
  imports Fixed_Counters Batch_View Sim_Window
begin

text \<open>
  What \<open>src/msr_counters.c\<close> does to the counters: the configuration of the fixed counters
  round-trips, and the two functions that clear a single counter clear something else.
\<close>

section \<open>The control registers of the fixed counters\<close>

definition config :: "fixed_counter \<Rightarrow> u64 \<times> u64 \<times> u64 \<times> u64" where
  "config c = (enable c, ring_level c, anyThread c, pmi c)"

definition config_fits :: "fixed_counter \<Rightarrow> bool" where
  "config_fits c \<longleftrightarrow> fits 1 (enable c) \<and> fits 2 (ring_level c) \<and> fits 1 (anyThread c) \<and> fits 1 (pmi c)"

lemma masks: "(1 :: u64) = mask 1" "(3 :: u64) = mask 2"
  by (simp_all add: mask_eq_exp_minus_1)

lemma fits_1_mask: "fits 1 1"
  unfolding masks(1) by simp

lemma put1: "fits 1 v \<Longrightarrow> k < 64 \<Longrightarrow> MASK_VAL (put_u64 1 k v x) k k = v"
  using put_u64_same [of 1 v k k x, folded masks(1)] by (simp del: One_nat_def add: Suc_le_eq)

lemma put1_other: "fits 1 v \<Longrightarrow> h < k \<or> k < n \<Longrightarrow> n \<le> h \<Longrightarrow> MASK_VAL (put_u64 1 k v x) h n = MASK_VAL x h n"
  by (rule put_u64_other [OF fits_1_mask]) auto

lemma put2: "fits 2 v \<Longrightarrow> k + 2 \<le> 64 \<Longrightarrow> h = Suc k \<Longrightarrow> MASK_VAL (put_u64 3 k v x) h k = v"
  using put_u64_same [of 2 v k h x] by (simp add: masks(2))

lemma put2_other:
  "fits 2 v \<Longrightarrow> h < k \<or> k + 1 < n \<Longrightarrow> n \<le> h \<Longrightarrow> MASK_VAL (put_u64 3 k v x) h n = MASK_VAL x h n"
  by (rule put_u64_other [of 2]) (auto simp: masks(2))

lemmas put_fixed = put1 put1_other put2 put2_other

lemma get_set_global:
  assumes "config_fits c0" "config_fits c1" "config_fits c2"
  shows "MASK_VAL (set_global_bits c0 c1 c2 x) 32 32 = enable c0"
    "MASK_VAL (set_global_bits c0 c1 c2 x) 33 33 = enable c1"
    "MASK_VAL (set_global_bits c0 c1 c2 x) 34 34 = enable c2"
  using assms by (simp_all add: set_global_bits_def config_fits_def put_fixed del: One_nat_def)

lemma get_set_ctr:
  assumes "config_fits c" "k + 4 \<le> 64"
  shows "MASK_VAL (set_ctr_bits k c x) (Suc k) k = ring_level c" "MASK_VAL (set_ctr_bits k c x) (k + 2) (k + 2) = anyThread c"
    "MASK_VAL (set_ctr_bits k c x) (k + 3) (k + 3) = pmi c"
    "h < k \<Longrightarrow> n \<le> h \<Longrightarrow> MASK_VAL (set_ctr_bits k c x) h n = MASK_VAL x h n"
    "k + 4 \<le> n \<Longrightarrow> n \<le> h \<Longrightarrow> MASK_VAL (set_ctr_bits k c x) h n = MASK_VAL x h n"
  using assms by (simp_all add: set_ctr_bits_def config_fits_def put_fixed del: One_nat_def)

lemma get_set_fixed:
  assumes "config_fits c0" "config_fits c1" "config_fits c2"
  shows "config (get_ctr 0 (set_global_bits c0 c1 c2 x) (set_fixed_bits c0 c1 c2 y) c) = config c0"
    "config (get_ctr 1 (set_global_bits c0 c1 c2 x) (set_fixed_bits c0 c1 c2 y) c) = config c1"
    "config (get_ctr 2 (set_global_bits c0 c1 c2 x) (set_fixed_bits c0 c1 c2 y) c) = config c2"
  using assms get_set_ctr [of c0 0] get_set_ctr [of c1 4] get_set_ctr [of c2 8]
  by (simp_all add: config_def get_ctr_def set_fixed_bits_def get_set_global)

lemma put_u64_rest:
  assumes "fits w m" "fits w v" "\<And>i. k \<le> i \<Longrightarrow> i < k + w \<Longrightarrow> i < 64 \<Longrightarrow> bit z i"
  shows "put_u64 m k v x AND NOT z = x AND NOT z"
proof (rule bit_word_eqI)
  fix i assume i: "i < LENGTH(64)"
  show "bit (put_u64 m k v x AND NOT z) i = bit (x AND NOT z) i"
  proof (cases "k \<le> i \<and> i < k + w")
    case True
    with assms(3) i show ?thesis by (simp add: bit_and_iff bit_not_iff)
  next
    case False
    then have "i < k \<or> k + w \<le> i" by linarith
    with put_u64_frame [OF assms(1,2) this] show ?thesis by (simp add: bit_and_iff)
  qed
qed

lemma set_global_rest:
  assumes "config_fits c0" "config_fits c1" "config_fits c2"
  shows "set_global_bits c0 c1 c2 x AND NOT (push_bit 32 7) = x AND NOT (push_bit 32 7)"
proof -
  have z: "(push_bit 32 7 :: u64) = push_bit 32 (mask 3)" by (simp add: mask_eq_exp_minus_1)
  have "put_u64 1 k v y AND NOT (push_bit 32 (mask 3)) = y AND NOT (push_bit 32 (mask 3))"
    if "fits 1 v" "32 \<le> k" "k \<le> 34" for k v and y :: u64
    by (rule put_u64_rest [of 1]) (use that in \<open>auto simp: bit_push_bit_iff bit_mask_iff\<close>)
  then show ?thesis unfolding z set_global_bits_def Let_def using assms by (simp add: config_fits_def)
qed

lemma set_fixed_rest:
  assumes "config_fits c0" "config_fits c1" "config_fits c2"
  shows "set_fixed_bits c0 c1 c2 x AND NOT 0xFFF = x AND NOT 0xFFF"
proof -
  have z: "(0xFFF :: u64) = mask 12" by (simp add: mask_eq_exp_minus_1)
  have p1: "put_u64 1 k v y AND NOT (mask 12) = y AND NOT (mask 12)" if "fits 1 v" "k < 12" for k v and y :: u64
    by (rule put_u64_rest [of 1]) (use that in \<open>auto simp: bit_mask_iff\<close>)
  have p2: "put_u64 3 k v y AND NOT (mask 12) = y AND NOT (mask 12)" if "fits 2 v" "k < 11" for k v and y :: u64
    by (rule put_u64_rest [of 2]) (use that in \<open>auto simp: bit_mask_iff masks(2)\<close>)
  show ?thesis unfolding z set_fixed_bits_def set_ctr_bits_def Let_def
    using assms by (simp add: config_fits_def p1 p2)
qed

section \<open>The configuration of all threads\<close>

definition fixed_live ::
  "'d env \<Rightarrow> (int \<Rightarrow> bool) \<Rightarrow> (int \<Rightarrow> bool) \<Rightarrow> (int \<Rightarrow> u64 \<Rightarrow> 'd \<Rightarrow> u64) \<Rightarrow> nat \<Rightarrow> nat
   \<Rightarrow> fixed_counter reg_array \<Rightarrow> fixed_counter reg_array \<Rightarrow> fixed_counter reg_array
   \<Rightarrow> ('d, 'z) ctr_lib_scheme \<Rightarrow> bool" where
  "fixed_live E good drv rg kc kd c0 c1 c2 s \<longleftrightarrow>
     batches_ok E good drv rg s \<and> kc \<noteq> kd
     \<and> batch_live E good drv rg FIXED_COUNTERS_CTR_DATA kc s \<and> batch_live E good drv rg FIXED_COUNTERS_DATA kd s
     \<and> keys FIXED_COUNTERS_CTR_DATA kc s = group_keys (fd_of s) (NUM_DEVS (hw E)) [IA32_PERF_GLOBAL_CTRL, IA32_FIXED_CTR_CTRL]
     \<and> keys FIXED_COUNTERS_DATA kd s = group_keys (fd_of s) (NUM_DEVS (hw E)) [IA32_FIXED_CTR0, IA32_FIXED_CTR1, IA32_FIXED_CTR2]
     \<and> (\<exists>pgc fcc. fixed_ctrl s = Some (pgc, fcc) \<and> wired kc 0 (NUM_DEVS (hw E)) pgc \<and> wired kc (NUM_DEVS (hw E)) (NUM_DEVS (hw E)) fcc)
     \<and> wired kd 0 (NUM_DEVS (hw E)) (raw c0) \<and> wired kd (NUM_DEVS (hw E)) (NUM_DEVS (hw E)) (raw c1)
     \<and> wired kd (2 * NUM_DEVS (hw E)) (NUM_DEVS (hw E)) (raw c2)
     \<and> NUM_DEVS (hw E) \<le> length (vals c0) \<and> NUM_DEVS (hw E) \<le> length (vals c1) \<and> NUM_DEVS (hw E) \<le> length (vals c2)"

text \<open>The cells after the loop of the setter, over the cells \<open>f\<close> before it.\<close>

definition set_cells ::
  "nat \<Rightarrow> nat \<Rightarrow> nat \<Rightarrow> (nat \<Rightarrow> u64 \<Rightarrow> u64) \<Rightarrow> (nat \<Rightarrow> u64 \<Rightarrow> u64) \<Rightarrow> nat \<Rightarrow> (cell \<Rightarrow> u64 option) \<Rightarrow> (cell \<Rightarrow> u64 option) \<Rightarrow> bool" where
  "set_cells n kc kd g h i f f' \<longleftrightarrow>
     (\<forall>j<n. f' (kc, j) = map_option (if j < i then g j else id) (f (kc, j))
         \<and> f' (kc, n + j) = map_option (if j < i then h j else id) (f (kc, n + j))
         \<and> (f' (kd, j) \<noteq> None) \<and> (f' (kd, n + j) \<noteq> None) \<and> (f' (kd, 2 * n + j) \<noteq> None)
         \<and> (j < i \<longrightarrow> f' (kd, j) = Some 0 \<and> f' (kd, n + j) = Some 0 \<and> f' (kd, 2 * n + j) = Some 0))"

lemma set_cells_step:
  assumes "set_cells n kc kd g h i f f'" "i < n" "kc \<noteq> kd" "f' (kc, i) = Some x" "f' (kc, n + i) = Some y"
  shows "set_cells n kc kd g h (Suc i) f
    (f'((kd, i) \<mapsto> 0, (kd, n + i) \<mapsto> 0, (kd, 2 * n + i) \<mapsto> 0, (kc, i) \<mapsto> g i x, (kc, n + i) \<mapsto> h i y))"
  unfolding set_cells_def
proof (intro allI impI)
  fix j assume j: "j < n"
  let ?f = "f'((kd, i) \<mapsto> 0, (kd, n + i) \<mapsto> 0, (kd, 2 * n + i) \<mapsto> 0, (kc, i) \<mapsto> g i x, (kc, n + i) \<mapsto> h i y)"
  from j assms(1) have o: "f' (kc, j) = map_option (if j < i then g j else id) (f (kc, j))"
    "f' (kc, n + j) = map_option (if j < i then h j else id) (f (kc, n + j))"
    "f' (kd, j) \<noteq> None" "f' (kd, n + j) \<noteq> None" "f' (kd, 2 * n + j) \<noteq> None"
    "j < i \<longrightarrow> f' (kd, j) = Some 0 \<and> f' (kd, n + j) = Some 0 \<and> f' (kd, 2 * n + j) = Some 0"
    unfolding set_cells_def by blast+
  show "?f (kc, j) = map_option (if j < Suc i then g j else id) (f (kc, j))
      \<and> ?f (kc, n + j) = map_option (if j < Suc i then h j else id) (f (kc, n + j))
      \<and> ?f (kd, j) \<noteq> None \<and> ?f (kd, n + j) \<noteq> None \<and> ?f (kd, 2 * n + j) \<noteq> None
      \<and> (j < Suc i \<longrightarrow> ?f (kd, j) = Some 0 \<and> ?f (kd, n + j) = Some 0 \<and> ?f (kd, 2 * n + j) = Some 0)"
  proof (cases "j = i")
    case True
    then have "f (kc, i) = Some x" "f (kc, n + i) = Some y" using o(1,2) assms(4,5) by (simp_all add: option.map_id)
    with assms(2,3) o True show ?thesis by auto
  next
    case False
    with assms(2,3) o j show ?thesis by (auto simp: less_Suc_eq)
  qed
qed

lemma set_fixed_thread_step:
  fixes s t :: "('d, 'z) ctr_lib_scheme"
  assumes sc: "set_cells n kc kd (\<lambda>j. set_global_bits (vals c0 ! j) (vals c1 ! j) (vals c2 ! j))
      (\<lambda>j. set_fixed_bits (vals c0 ! j) (vals c1 ! j) (vals c2 ! j)) i (cell_get s) (cell_get t)"
    and i: "i < n" "kc \<noteq> kd"
    and w: "wired kc 0 n pgc" "wired kc n n fcc" "wired kd 0 n (raw c0)" "wired kd n n (raw c1)" "wired kd (2 * n) n (raw c2)"
    and l: "n \<le> length (vals c0)" "n \<le> length (vals c1)" "n \<le> length (vals c2)"
    and f: "cell_get s (kc, i) \<noteq> None" "cell_get s (kc, n + i) \<noteq> None"
  shows "\<exists>u. set_fixed_thread c0 c1 c2 pgc fcc i t = Some u \<and> cells_only E good drv rg t u
    \<and> set_cells n kc kd (\<lambda>j. set_global_bits (vals c0 ! j) (vals c1 ! j) (vals c2 ! j))
      (\<lambda>j. set_fixed_bits (vals c0 ! j) (vals c1 ! j) (vals c2 ! j)) (Suc i) (cell_get s) (cell_get u)"
proof -
  from sc i(1) f have d: "cell_get t (kd, i) \<noteq> None" "cell_get t (kd, n + i) \<noteq> None" "cell_get t (kd, 2 * n + i) \<noteq> None"
    and "cell_get t (kc, i) \<noteq> None" "cell_get t (kc, n + i) \<noteq> None"
    by (auto simp: set_cells_def)
  then obtain x y where xy: "cell_get t (kc, i) = Some x" "cell_get t (kc, n + i) = Some y" by blast
  note nx = cell_set_next [where E = E and good = good and drv = drv and rg = rg]
  from nx [OF d(1), of 0] obtain u1 where u1: "cell_set (kd, i) 0 t = Some u1"
    "cell_get u1 = (cell_get t)((kd, i) \<mapsto> 0)" "cells_only E good drv rg t u1" by blast
  have "cell_get u1 (kd, n + i) \<noteq> None" using u1(2) d(2) by simp
  from nx [OF this, of 0] obtain u2 where u2: "cell_set (kd, n + i) 0 u1 = Some u2"
    "cell_get u2 = (cell_get u1)((kd, n + i) \<mapsto> 0)" "cells_only E good drv rg u1 u2" by blast
  have "cell_get u2 (kd, 2 * n + i) \<noteq> None" using u1(2) u2(2) d(3) by simp
  from nx [OF this, of 0] obtain u3 where u3: "cell_set (kd, 2 * n + i) 0 u2 = Some u3"
    "cell_get u3 = (cell_get u2)((kd, 2 * n + i) \<mapsto> 0)" "cells_only E good drv rg u2 u3" by blast
  let ?g = "set_global_bits (vals c0 ! i) (vals c1 ! i) (vals c2 ! i) x"
  let ?h = "set_fixed_bits (vals c0 ! i) (vals c1 ! i) (vals c2 ! i) y"
  have c3: "cell_get u3 (kc, i) = Some x" "cell_get u3 (kc, n + i) = Some y"
    using u1(2) u2(2) u3(2) xy i(2) by simp_all
  then have "cell_get u3 (kc, i) \<noteq> None" by simp
  from nx [OF this, of ?g] obtain u4 where u4: "cell_set (kc, i) ?g u3 = Some u4"
    "cell_get u4 = (cell_get u3)((kc, i) \<mapsto> ?g)" "cells_only E good drv rg u3 u4" by blast
  have c4: "cell_get u4 (kc, n + i) = Some y" using u4(2) c3(2) i by simp
  then have "cell_get u4 (kc, n + i) \<noteq> None" by simp
  from nx [OF this, of ?h] obtain u5 where u5: "cell_set (kc, n + i) ?h u4 = Some u5"
    "cell_get u5 = (cell_get u4)((kc, n + i) \<mapsto> ?h)" "cells_only E good drv rg u4 u5" by blast
  have "set_fixed_thread c0 c1 c2 pgc fcc i t = Some u5"
    using w i l u1(1) u2(1) u3(1) u4(1) u5(1) c3(1) c4
    by (simp add: set_fixed_thread_def ptr_wired cell_upd_def)
  moreover have "cells_only E good drv rg t u5"
    by (rule cells_only_trans [OF u1(3) cells_only_trans [OF u2(3) cells_only_trans [OF u3(3) cells_only_trans [OF u4(3) u5(3)]]]])
  moreover have "cell_get u5 = (cell_get t)((kd, i) \<mapsto> 0, (kd, n + i) \<mapsto> 0, (kd, 2 * n + i) \<mapsto> 0, (kc, i) \<mapsto> ?g, (kc, n + i) \<mapsto> ?h)"
    using u1(2) u2(2) u3(2) u4(2) u5(2) by simp
  ultimately show ?thesis using set_cells_step [OF sc i xy] by auto
qed

lemma set_fixed_loop:
  fixes s :: "('d, 'z) ctr_lib_scheme"
  assumes "kc \<noteq> kd" "wired kc 0 n pgc" "wired kc n n fcc" "wired kd 0 n (raw c0)" "wired kd n n (raw c1)" "wired kd (2 * n) n (raw c2)"
    "n \<le> length (vals c0)" "n \<le> length (vals c1)" "n \<le> length (vals c2)"
    "\<And>i. i < 2 * n \<Longrightarrow> cell_get s (kc, i) \<noteq> None" "\<And>i. i < 3 * n \<Longrightarrow> cell_get s (kd, i) \<noteq> None"
  shows "\<exists>t. foldo (set_fixed_thread c0 c1 c2 pgc fcc) [0..<n] s = Some t \<and> cells_only E good drv rg s t
    \<and> set_cells n kc kd (\<lambda>j. set_global_bits (vals c0 ! j) (vals c1 ! j) (vals c2 ! j))
      (\<lambda>j. set_fixed_bits (vals c0 ! j) (vals c1 ! j) (vals c2 ! j)) n (cell_get s) (cell_get t)"
proof -
  let ?P = "\<lambda>i t. cells_only E good drv rg s t
    \<and> set_cells n kc kd (\<lambda>j. set_global_bits (vals c0 ! j) (vals c1 ! j) (vals c2 ! j))
      (\<lambda>j. set_fixed_bits (vals c0 ! j) (vals c1 ! j) (vals c2 ! j)) i (cell_get s) (cell_get t)"
  have 0: "cells_only E good drv rg s s
    \<and> set_cells n kc kd (\<lambda>j. set_global_bits (vals c0 ! j) (vals c1 ! j) (vals c2 ! j))
      (\<lambda>j. set_fixed_bits (vals c0 ! j) (vals c1 ! j) (vals c2 ! j)) 0 (cell_get s) (cell_get s)"
    using assms(10,11) by (simp add: cells_only_refl set_cells_def option.map_id)
  have step: "\<exists>u. set_fixed_thread c0 c1 c2 pgc fcc i t = Some u \<and> ?P (Suc i) u" if i: "i < n" and P: "?P i t" for i t
  proof -
    have "cell_get s (kc, i) \<noteq> None" "cell_get s (kc, n + i) \<noteq> None"
      using assms(10) i by simp_all
    from set_fixed_thread_step [OF conjunct2 [OF P] i assms(1-9) this, of E good drv rg] obtain u where
      u: "set_fixed_thread c0 c1 c2 pgc fcc i t = Some u" "cells_only E good drv rg t u"
      "set_cells n kc kd (\<lambda>j. set_global_bits (vals c0 ! j) (vals c1 ! j) (vals c2 ! j))
        (\<lambda>j. set_fixed_bits (vals c0 ! j) (vals c1 ! j) (vals c2 ! j)) (Suc i) (cell_get s) (cell_get u)" by blast
    with cells_only_trans [OF conjunct1 [OF P] u(2)] show ?thesis by blast
  qed
  show ?thesis by (rule foldo_upt [of ?P]) (use 0 step in blast)+
qed

text \<open>The setter, over the registers.\<close>

lemma ctr_more: "lib.more t = lib.more s \<Longrightarrow> fixed_ctrl t = fixed_ctrl (s :: ('d, 'z) ctr_lib_scheme)"
  by (cases s; cases t) simp

lemma live_cells:
  assumes "batch_live E good drv rg n k s" "keys n k s = group_keys fd l regs" "i < length regs * l"
  shows "cell_get s (k, i) \<noteq> None" "i < numops (batch s ! n)"
proof -
  have "0 < numops (batch s ! n)" using assms(1) by (simp add: batch_live_def)
  from keys_nth(2) [OF assms(1) this] assms(2) have "numops (batch s ! n) = length regs * l"
    by (simp add: group_keys_nth(2))
  with assms(3) show i: "i < numops (batch s ! n)" by simp
  show "cell_get s (k, i) \<noteq> None" using cell_get_live [OF assms(1) i] by simp
qed

lemma fixed_keys:
  assumes "xs = group_keys fd n [IA32_PERF_GLOBAL_CTRL, IA32_FIXED_CTR_CTRL]" "i < n"
  shows "xs ! i = (fd i, IA32_PERF_GLOBAL_CTRL)" "xs ! (n + i) = (fd i, IA32_FIXED_CTR_CTRL)"
  using group_keys_nth(1) [of 0 _ i n fd] group_keys_nth(1) [of 1 "[IA32_PERF_GLOBAL_CTRL, IA32_FIXED_CTR_CTRL]" i n fd] assms
  by simp_all

lemma fixed_keys':
  assumes "xs = group_keys fd n [IA32_FIXED_CTR0, IA32_FIXED_CTR1, IA32_FIXED_CTR2]" "i < n"
  shows "xs ! i = (fd i, IA32_FIXED_CTR0)" "xs ! (n + i) = (fd i, IA32_FIXED_CTR1)" "xs ! (2 * n + i) = (fd i, IA32_FIXED_CTR2)"
    "(fd', IA32_PERF_GLOBAL_CTRL) \<notin> set xs" "(fd', IA32_FIXED_CTR_CTRL) \<notin> set xs"
  using group_keys_nth(1) [of 0 "[IA32_FIXED_CTR0, IA32_FIXED_CTR1, IA32_FIXED_CTR2]" i n fd]
    group_keys_nth(1) [of 1 "[IA32_FIXED_CTR0, IA32_FIXED_CTR1, IA32_FIXED_CTR2]" i n fd]
    group_keys_nth(1) [of 2 "[IA32_FIXED_CTR0, IA32_FIXED_CTR1, IA32_FIXED_CTR2]" i n fd] assms
  by (auto simp: group_keys_def msr_addrs)

lemma set_fixed_live:
  assumes live: "fixed_live E good drv rg kc kd c0 c1 c2 s"
  shows "\<exists>t. set_fixed_counter_ctrl E c0 c1 c2 s = Some t \<and> fixed_live E good drv rg kc kd c0 c1 c2 t \<and> fd_of t = fd_of s
    \<and> (\<forall>i < NUM_DEVS (hw E).
        at rg t (fd_of s i, IA32_PERF_GLOBAL_CTRL)
          = set_global_bits (vals c0 ! i) (vals c1 ! i) (vals c2 ! i) (at rg s (fd_of s i, IA32_PERF_GLOBAL_CTRL))
        \<and> at rg t (fd_of s i, IA32_FIXED_CTR_CTRL)
          = set_fixed_bits (vals c0 ! i) (vals c1 ! i) (vals c2 ! i) (at rg s (fd_of s i, IA32_FIXED_CTR_CTRL))
        \<and> at rg t (fd_of s i, IA32_FIXED_CTR0) = 0 \<and> at rg t (fd_of s i, IA32_FIXED_CTR1) = 0
        \<and> at rg t (fd_of s i, IA32_FIXED_CTR2) = 0)
    \<and> (\<forall>x. x \<notin> set (keys FIXED_COUNTERS_CTR_DATA kc s) \<union> set (keys FIXED_COUNTERS_DATA kd s) \<longrightarrow> at rg t x = at rg s x)"
proof -
  let ?n = "NUM_DEVS (hw E)" and ?C = FIXED_COUNTERS_CTR_DATA and ?D = FIXED_COUNTERS_DATA
  from live have ok: "batches_ok E good drv rg s" and kk: "kc \<noteq> kd"
    and lC: "batch_live E good drv rg ?C kc s" and lD: "batch_live E good drv rg ?D kd s"
    and kC: "keys ?C kc s = group_keys (fd_of s) ?n [IA32_PERF_GLOBAL_CTRL, IA32_FIXED_CTR_CTRL]"
    and kD: "keys ?D kd s = group_keys (fd_of s) ?n [IA32_FIXED_CTR0, IA32_FIXED_CTR1, IA32_FIXED_CTR2]"
    by (simp_all add: fixed_live_def)
  from live obtain pgc fcc where fc: "fixed_ctrl s = Some (pgc, fcc)" and w: "wired kc 0 ?n pgc" "wired kc ?n ?n fcc"
    by (auto simp: fixed_live_def)
  from live have wd: "wired kd 0 ?n (raw c0)" "wired kd ?n ?n (raw c1)" "wired kd (2 * ?n) ?n (raw c2)"
    "?n \<le> length (vals c0)" "?n \<le> length (vals c1)" "?n \<le> length (vals c2)"
    by (simp_all add: fixed_live_def)
  have ne: "?D \<noteq> ?C" by (simp add: FIXED_COUNTERS_DATA_def FIXED_COUNTERS_CTR_DATA_def)
  obtain s1 where s1: "read_batch E ?C s = Some (0, s1)" "batch_live E good drv rg ?C kc s1" "slot_step E good drv rg ?C s s1"
    "batch_frame rg ?C kc s1 = batch_frame rg ?C kc s"
    "\<forall>i<numops (batch s ! ?C). cell_get s1 (kc, i) = Some (at rg s (keys ?C kc s ! i))" "\<forall>x. at rg s1 x = at rg s x"
    using read_view [OF lC ok] by blast
  have l1: "batch_live E good drv rg ?D kd s1" "batches_ok E good drv rg s1" "lib.more s1 = lib.more s"
    using s1(3) lD ne unfolding slot_step_def by blast+
  have k1: "keys ?C kc s1 = keys ?C kc s" "keys ?D kd s1 = keys ?D kd s" "fd_of s1 = fd_of s"
    using frame_keys [OF s1(4)] kk batch_frameD(3) [OF s1(4)] by simp_all
  have cC: "cell_get s1 (kc, i) \<noteq> None" if "i < 2 * ?n" for i
    using live_cells(1) [OF s1(2), of "fd_of s" ?n] k1 kC that by simp
  have cD: "cell_get s1 (kd, i) \<noteq> None" if "i < 3 * ?n" for i
    using live_cells(1) [OF l1(1), of "fd_of s" ?n] k1 kD that by simp
  from set_fixed_loop [OF kk w wd cC cD, of E good drv rg] obtain s2 where
    s2: "foldo (set_fixed_thread c0 c1 c2 pgc fcc) [0..<?n] s1 = Some s2" "cells_only E good drv rg s1 s2"
    "set_cells ?n kc kd (\<lambda>j. set_global_bits (vals c0 ! j) (vals c1 ! j) (vals c2 ! j))
      (\<lambda>j. set_fixed_bits (vals c0 ! j) (vals c1 ! j) (vals c2 ! j)) ?n (cell_get s1) (cell_get s2)" by blast
  have l2: "batch_live E good drv rg ?C kc s2" "batch_live E good drv rg ?D kd s2" "batches_ok E good drv rg s2"
    "keys ?C kc s2 = keys ?C kc s" "keys ?D kd s2 = keys ?D kd s" "fd_of s2 = fd_of s" "at rg s2 = at rg s1" "lib.more s2 = lib.more s"
    using s2(2) s1(2) l1 k1 unfolding cells_only_def by simp_all
  obtain s3 where s3: "write_batch E ?C s2 = Some (0, s3)" "batch_live E good drv rg ?C kc s3" "slot_step E good drv rg ?C s2 s3"
    "batch_frame rg ?C kc s3 = batch_frame rg ?C kc s2"
    "\<forall>i<numops (batch s2 ! ?C). Some (at rg s3 (keys ?C kc s2 ! i)) = cell_get s2 (kc, i)"
    "\<forall>x. x \<notin> set (keys ?C kc s2) \<longrightarrow> at rg s3 x = at rg s2 x"
    using write_view [OF l2(1,3)] by blast
  have l3: "batch_live E good drv rg ?D kd s3" "batches_ok E good drv rg s3" "lib.more s3 = lib.more s"
    using s3(3) l2 ne unfolding slot_step_def by auto
  have k3: "keys ?C kc s3 = keys ?C kc s" "keys ?D kd s3 = keys ?D kd s" "fd_of s3 = fd_of s"
    using frame_keys [OF s3(4)] kk batch_frameD(3) [OF s3(4)] l2 by simp_all
  obtain s4 where s4: "write_batch E ?D s3 = Some (0, s4)" "batch_live E good drv rg ?D kd s4" "slot_step E good drv rg ?D s3 s4"
    "batch_frame rg ?D kd s4 = batch_frame rg ?D kd s3"
    "\<forall>i<numops (batch s3 ! ?D). Some (at rg s4 (keys ?D kd s3 ! i)) = cell_get s3 (kd, i)"
    "\<forall>x. x \<notin> set (keys ?D kd s3) \<longrightarrow> at rg s4 x = at rg s3 x"
    using write_view [OF l3(1,2)] by blast
  have l4: "batch_live E good drv rg ?C kc s4" "batches_ok E good drv rg s4" "lib.more s4 = lib.more s"
    using s4(3) s3(2) l3 ne unfolding slot_step_def by auto
  have k4: "keys ?C kc s4 = keys ?C kc s" "keys ?D kd s4 = keys ?D kd s" "fd_of s4 = fd_of s"
    using frame_keys [OF s4(4)] kk batch_frameD(3) [OF s4(4)] k3 by simp_all
  have "set_fixed_counter_ctrl E c0 c1 c2 s = Some s4"
    using fc s1(1) s2(1) s3(1) s4(1) by (simp add: set_fixed_counter_ctrl_def fixed_counter_ctrl_storage_def)
  moreover have "fixed_live E good drv rg kc kd c0 c1 c2 s4"
    using l4 s4(2) k4 kk kC kD ctr_more [OF l4(3)] fc w wd by (simp add: fixed_live_def)
  moreover have "at rg s4 (fd_of s i, IA32_PERF_GLOBAL_CTRL)
        = set_global_bits (vals c0 ! i) (vals c1 ! i) (vals c2 ! i) (at rg s (fd_of s i, IA32_PERF_GLOBAL_CTRL))
      \<and> at rg s4 (fd_of s i, IA32_FIXED_CTR_CTRL)
        = set_fixed_bits (vals c0 ! i) (vals c1 ! i) (vals c2 ! i) (at rg s (fd_of s i, IA32_FIXED_CTR_CTRL))
      \<and> at rg s4 (fd_of s i, IA32_FIXED_CTR0) = 0 \<and> at rg s4 (fd_of s i, IA32_FIXED_CTR1) = 0
      \<and> at rg s4 (fd_of s i, IA32_FIXED_CTR2) = 0" if i: "i < ?n" for i
  proof -
    note key = fixed_keys [OF kC i] fixed_keys' [OF kD i]
    have c1: "cell_get s1 (kc, j) = Some (at rg s (keys ?C kc s ! j))" if "j < 2 * ?n" for j
      using s1(5) live_cells(2) [OF lC kC] that by simp
    have c2: "Some (at rg s3 (keys ?C kc s ! j)) = cell_get s2 (kc, j)" if "j < 2 * ?n" for j
      using s3(5) live_cells(2) [OF l2(1), of "fd_of s" ?n] l2(4) kC that by simp
    have c3: "Some (at rg s4 (keys ?D kd s ! j)) = cell_get s2 (kd, j)" if "j < 3 * ?n" for j
      using s4(5) live_cells(2) [OF l3(1), of "fd_of s" ?n] k3 kD that frame_cells [OF s3(4), of "(kd, j)"] kk by simp
    have c4: "at rg s4 x = at rg s3 x" if "x \<notin> set (keys ?D kd s)" for x
      using s4(6) that unfolding k3(2) by blast
    from s2(3) i have "cell_get s2 (kc, i) = map_option (set_global_bits (vals c0 ! i) (vals c1 ! i) (vals c2 ! i)) (cell_get s1 (kc, i))"
      "cell_get s2 (kc, ?n + i) = map_option (set_fixed_bits (vals c0 ! i) (vals c1 ! i) (vals c2 ! i)) (cell_get s1 (kc, ?n + i))"
      "cell_get s2 (kd, i) = Some 0" "cell_get s2 (kd, ?n + i) = Some 0" "cell_get s2 (kd, 2 * ?n + i) = Some 0"
      by (simp_all add: set_cells_def)
    then show ?thesis
      using c1 [of i] c1 [of "?n + i"] c2 [of i] c2 [of "?n + i"] c3 [of i] c3 [of "?n + i"] c3 [of "2 * ?n + i"] c4 i key
      by simp
  qed
  moreover have "at rg s4 x = at rg s x" if "x \<notin> set (keys ?C kc s) \<union> set (keys ?D kd s)" for x
    using that s4(6) s3(6) s1(6) l2(4,7) k3(2) by (cases x) simp
  ultimately show ?thesis using k4(3) by blast
qed

text \<open>The getter.\<close>

definition got ::
  "nat \<Rightarrow> (nat \<Rightarrow> u64) \<Rightarrow> (nat \<Rightarrow> u64) \<Rightarrow> nat \<Rightarrow> fixed_counter reg_array \<Rightarrow> fixed_counter reg_array \<Rightarrow> bool" where
  "got j pg fc m d d' \<longleftrightarrow> raw d' = raw d \<and> length (vals d') = length (vals d)
     \<and> (\<forall>i < length (vals d). vals d' ! i = (if i < m then get_ctr j (pg i) (fc i) (vals d ! i) else vals d ! i))"

lemma got_step:
  assumes "got j pg fc m d d'" "m < length (vals d)"
  shows "\<exists>e. get_one j (pg m) (fc m) m (Some d') = Some (Some e) \<and> got j pg fc (Suc m) d e"
  using assms by (auto simp: got_def get_one_def nth_list_update less_Suc_eq)

lemma get_fixed_live:
  assumes live: "fixed_live E good drv rg kc kd c0 c1 c2 s"
    and len: "NUM_DEVS (hw E) \<le> length (vals d0)" "NUM_DEVS (hw E) \<le> length (vals d1)" "NUM_DEVS (hw E) \<le> length (vals d2)"
  shows "\<exists>e0 e1 e2 t. get_fixed_ctr_ctrl E (Some d0) (Some d1) (Some d2) s = Some (Some e0, Some e1, Some e2, t)
    \<and> at rg t = at rg s
    \<and> (\<forall>(j, d, e) \<in> {(0, d0, e0), (1, d1, e1), (2, d2, e2)}.
         got j (\<lambda>i. at rg s (fd_of s i, IA32_PERF_GLOBAL_CTRL)) (\<lambda>i. at rg s (fd_of s i, IA32_FIXED_CTR_CTRL))
           (NUM_DEVS (hw E)) d e)"
proof -
  let ?n = "NUM_DEVS (hw E)" and ?C = FIXED_COUNTERS_CTR_DATA
  let ?pg = "\<lambda>i. at rg s (fd_of s i, IA32_PERF_GLOBAL_CTRL)" and ?fc = "\<lambda>i. at rg s (fd_of s i, IA32_FIXED_CTR_CTRL)"
  from live have ok: "batches_ok E good drv rg s" and lC: "batch_live E good drv rg ?C kc s"
    and kC: "keys ?C kc s = group_keys (fd_of s) ?n [IA32_PERF_GLOBAL_CTRL, IA32_FIXED_CTR_CTRL]"
    by (simp_all add: fixed_live_def)
  from live obtain pgc fcc where fc: "fixed_ctrl s = Some (pgc, fcc)" and w: "wired kc 0 ?n pgc" "wired kc ?n ?n fcc"
    by (auto simp: fixed_live_def)
  obtain t where t: "read_batch E ?C s = Some (0, t)"
    "\<forall>i<numops (batch s ! ?C). cell_get t (kc, i) = Some (at rg s (keys ?C kc s ! i))" "\<forall>x. at rg t x = at rg s x"
    using read_view [OF lC ok] by blast
  have c: "cell_get t (kc, i) = Some (?pg i)" "cell_get t (kc, ?n + i) = Some (?fc i)" if "i < ?n" for i
    using t(2) live_cells(2) [OF lC kC, of i] live_cells(2) [OF lC kC, of "?n + i"] fixed_keys [OF kC that] that
    by simp_all
  let ?P = "\<lambda>m (e0, e1, e2). \<exists>x0 x1 x2. e0 = Some x0 \<and> e1 = Some x1 \<and> e2 = Some x2
    \<and> got 0 ?pg ?fc m d0 x0 \<and> got 1 ?pg ?fc m d1 x1 \<and> got 2 ?pg ?fc m d2 x2"
  let ?body = "\<lambda>i (c0, c1, c2). do {
           p \<leftarrow> ptr pgc i; pg \<leftarrow> cell_get t p;
           q \<leftarrow> ptr fcc i; fc \<leftarrow> cell_get t q;
           c0 \<leftarrow> get_one 0 pg fc i c0;
           c1 \<leftarrow> get_one 1 pg fc i c1;
           c2 \<leftarrow> get_one 2 pg fc i c2;
           Some (c0, c1, c2)
         }"
  have "\<exists>e. ?body i e0 = Some e \<and> ?P (Suc i) e" if i: "i < ?n" and P: "?P i e0" for i e0
  proof -
    from P obtain x0 x1 x2 where e: "e0 = (Some x0, Some x1, Some x2)"
      and g: "got 0 ?pg ?fc i d0 x0" "got 1 ?pg ?fc i d1 x1" "got 2 ?pg ?fc i d2 x2" by (cases e0) auto
    from got_step [OF g(1)] got_step [OF g(2)] got_step [OF g(3)] len i obtain y0 y1 y2 where
      y: "get_one 0 (?pg i) (?fc i) i (Some x0) = Some (Some y0)" "got 0 ?pg ?fc (Suc i) d0 y0"
        "get_one 1 (?pg i) (?fc i) i (Some x1) = Some (Some y1)" "got 1 ?pg ?fc (Suc i) d1 y1"
        "get_one 2 (?pg i) (?fc i) i (Some x2) = Some (Some y2)" "got 2 ?pg ?fc (Suc i) d2 y2"
      by (meson less_le_trans)
    have "?body i e0 = Some (Some y0, Some y1, Some y2)"
      using c [OF i] w i y e by (simp add: ptr_wired)
    with y show ?thesis by blast
  qed
  moreover have "?P 0 (Some d0, Some d1, Some d2)" by (simp add: got_def)
  ultimately obtain e where e: "foldo ?body [0..<?n] (Some d0, Some d1, Some d2) = Some e" "?P ?n e"
    using foldo_upt [of ?P "(Some d0, Some d1, Some d2)" ?n ?body] by blast
  from e(2) obtain e0 e1 e2 where e': "e = (Some e0, Some e1, Some e2)" "got 0 ?pg ?fc ?n d0 e0"
    "got 1 ?pg ?fc ?n d1 e1" "got 2 ?pg ?fc ?n d2 e2" by (cases e) auto
  have "get_fixed_ctr_ctrl E (Some d0) (Some d1) (Some d2) s = Some (Some e0, Some e1, Some e2, t)"
    using fc t(1) e(1) unfolding e'(1) by (simp add: get_fixed_ctr_ctrl_def fixed_counter_ctrl_storage_def)
  moreover have "at rg t = at rg s" using t(3) by blast
  ultimately show ?thesis using e' by blast
qed

text \<open>C21: what set_fixed_counter_ctrl stores for the three fixed counters of every thread (enable
  bit, ring level, any-thread bit, interrupt bit) is what get_fixed_ctr_ctrl then reads, the
  other bits of the two control registers stay, the three counters of every thread are 0, and
  no other register changes.
\<close>

theorem set_get_fixed_counters:
  assumes live: "fixed_live E good drv rg kc kd c0 c1 c2 s"
    and fit: "\<forall>i < NUM_DEVS (hw E). config_fits (vals c0 ! i) \<and> config_fits (vals c1 ! i) \<and> config_fits (vals c2 ! i)"
    and len: "NUM_DEVS (hw E) \<le> length (vals d0)" "NUM_DEVS (hw E) \<le> length (vals d1)" "NUM_DEVS (hw E) \<le> length (vals d2)"
  shows "\<exists>t e0 e1 e2 u. set_fixed_counter_ctrl E c0 c1 c2 s = Some t
    \<and> get_fixed_ctr_ctrl E (Some d0) (Some d1) (Some d2) t = Some (Some e0, Some e1, Some e2, u)
    \<and> (\<forall>i < NUM_DEVS (hw E).
         config (vals e0 ! i) = config (vals c0 ! i) \<and> config (vals e1 ! i) = config (vals c1 ! i)
         \<and> config (vals e2 ! i) = config (vals c2 ! i)
         \<and> at rg u (fd_of s i, IA32_PERF_GLOBAL_CTRL) AND NOT (push_bit 32 7)
             = at rg s (fd_of s i, IA32_PERF_GLOBAL_CTRL) AND NOT (push_bit 32 7)
         \<and> at rg u (fd_of s i, IA32_FIXED_CTR_CTRL) AND NOT 0xFFF
             = at rg s (fd_of s i, IA32_FIXED_CTR_CTRL) AND NOT 0xFFF
         \<and> at rg u (fd_of s i, IA32_FIXED_CTR0) = 0 \<and> at rg u (fd_of s i, IA32_FIXED_CTR1) = 0
         \<and> at rg u (fd_of s i, IA32_FIXED_CTR2) = 0)
    \<and> (\<forall>x. x \<notin> set (keys FIXED_COUNTERS_CTR_DATA kc s) \<union> set (keys FIXED_COUNTERS_DATA kd s) \<longrightarrow> at rg u x = at rg s x)"
proof -
  let ?n = "NUM_DEVS (hw E)"
  obtain t where t: "set_fixed_counter_ctrl E c0 c1 c2 s = Some t" "fixed_live E good drv rg kc kd c0 c1 c2 t" "fd_of t = fd_of s"
    and r: "\<And>i. i < ?n \<Longrightarrow> at rg t (fd_of s i, IA32_PERF_GLOBAL_CTRL)
          = set_global_bits (vals c0 ! i) (vals c1 ! i) (vals c2 ! i) (at rg s (fd_of s i, IA32_PERF_GLOBAL_CTRL))"
      "\<And>i. i < ?n \<Longrightarrow> at rg t (fd_of s i, IA32_FIXED_CTR_CTRL)
          = set_fixed_bits (vals c0 ! i) (vals c1 ! i) (vals c2 ! i) (at rg s (fd_of s i, IA32_FIXED_CTR_CTRL))"
      "\<And>i. i < ?n \<Longrightarrow> at rg t (fd_of s i, IA32_FIXED_CTR0) = 0 \<and> at rg t (fd_of s i, IA32_FIXED_CTR1) = 0
        \<and> at rg t (fd_of s i, IA32_FIXED_CTR2) = 0"
    and rest: "\<forall>x. x \<notin> set (keys FIXED_COUNTERS_CTR_DATA kc s) \<union> set (keys FIXED_COUNTERS_DATA kd s) \<longrightarrow> at rg t x = at rg s x"
    using set_fixed_live [OF live] by blast
  obtain e0 e1 e2 u where u: "get_fixed_ctr_ctrl E (Some d0) (Some d1) (Some d2) t = Some (Some e0, Some e1, Some e2, u)"
    "at rg u = at rg t"
    and g: "\<forall>(j, d, e) \<in> {(0, d0, e0), (1, d1, e1), (2, d2, e2)}.
         got j (\<lambda>i. at rg t (fd_of t i, IA32_PERF_GLOBAL_CTRL)) (\<lambda>i. at rg t (fd_of t i, IA32_FIXED_CTR_CTRL)) ?n d e"
    using get_fixed_live [OF t(2) len] by blast
  have "config (vals e0 ! i) = config (vals c0 ! i) \<and> config (vals e1 ! i) = config (vals c1 ! i)
      \<and> config (vals e2 ! i) = config (vals c2 ! i)" if i: "i < ?n" for i
  proof -
    have "i < length (vals d0)" "i < length (vals d1)" "i < length (vals d2)" using len i by simp_all
    with g i have "vals e0 ! i = get_ctr 0 (at rg t (fd_of s i, IA32_PERF_GLOBAL_CTRL)) (at rg t (fd_of s i, IA32_FIXED_CTR_CTRL)) (vals d0 ! i)"
      "vals e1 ! i = get_ctr 1 (at rg t (fd_of s i, IA32_PERF_GLOBAL_CTRL)) (at rg t (fd_of s i, IA32_FIXED_CTR_CTRL)) (vals d1 ! i)"
      "vals e2 ! i = get_ctr 2 (at rg t (fd_of s i, IA32_PERF_GLOBAL_CTRL)) (at rg t (fd_of s i, IA32_FIXED_CTR_CTRL)) (vals d2 ! i)"
      unfolding got_def t(3) by simp_all
    with r(1,2) [OF i] fit i show ?thesis by (simp add: get_set_fixed del: One_nat_def)
  qed
  moreover have "at rg t (fd_of s i, IA32_PERF_GLOBAL_CTRL) AND NOT (push_bit 32 7)
             = at rg s (fd_of s i, IA32_PERF_GLOBAL_CTRL) AND NOT (push_bit 32 7)"
    "at rg t (fd_of s i, IA32_FIXED_CTR_CTRL) AND NOT 0xFFF = at rg s (fd_of s i, IA32_FIXED_CTR_CTRL) AND NOT 0xFFF" if "i < ?n" for i
    unfolding r(1,2) [OF that] using fit that by (metis set_global_rest, metis set_fixed_rest)
  ultimately show ?thesis using t(1) u r(3) rest by simp
qed

section \<open>Making the structures\<close>

lemma kept_keys: "batch_kept m k s t \<Longrightarrow> fd_of t = fd_of s \<Longrightarrow> keys m k t = keys m k s"
  by (simp add: batch_kept_def keys_def ops_of_def)

lemma fixed_storages:
  fixes s :: "('d, 'z) ctr_lib_scheme"
  assumes ok: "batches_ok E good drv rg s" and n: "0 < NUM_DEVS (hw E)"
    and fresh: "batch_fresh FIXED_COUNTERS_DATA s" "batch_fresh FIXED_COUNTERS_CTR_DATA s"
    and none: "fixed s = None" "fixed_ctrl s = None"
  shows "\<exists>c0 c1 c2 s1 p t kc kd. fixed_counter_storage E s = Some ((c0, c1, c2), s1)
    \<and> fixed_counter_ctrl_storage E s1 = Some (p, t) \<and> fixed_live E good drv rg kc kd c0 c1 c2 t
    \<and> vals c0 = vals (init_fixed_counter E) \<and> vals c1 = vals c0 \<and> vals c2 = vals c0 \<and> dev t = dev s \<and> fd_of t = fd_of s"
proof -
  let ?n = "NUM_DEVS (hw E)" and ?C = FIXED_COUNTERS_CTR_DATA and ?D = FIXED_COUNTERS_DATA
  have ne: "?C \<noteq> ?D" by (simp add: FIXED_COUNTERS_DATA_def FIXED_COUNTERS_CTR_DATA_def)
  let ?rd = "[IA32_FIXED_CTR0, IA32_FIXED_CTR1, IA32_FIXED_CTR2]" and ?rc = "[IA32_PERF_GLOBAL_CTRL, IA32_FIXED_CTR_CTRL]"
  have rd: "?rd \<noteq> []" "distinct (map (\<lambda>a. ucast a :: u32) ?rd)" "\<forall>a\<in>set ?rd. ucast (ucast a :: u32) = a"
    and rc: "?rc \<noteq> []" "distinct (map (\<lambda>a. ucast a :: u32) ?rc)" "\<forall>a\<in>set ?rc. ucast (ucast a :: u32) = a"
    by (simp_all add: msr_addrs)
  obtain vd s1 where vd: "alloc_group (load_thread_batch E) ?D ?rd ?n s = Some (vd, s1)"
    "slot_step E good drv rg ?D s s1" "batch_live E good drv rg ?D (length (blocks s)) s1"
    "keys ?D (length (blocks s)) s1 = group_keys (fd_of s) ?n ?rd"
    "\<forall>j<length ?rd. wired (length (blocks s)) (j * ?n) ?n (vd ! j)"
    "dev s1 = dev s" "fd_of s1 = fd_of s" "length (blocks s) < length (blocks s1)"
    using thread_group_view [OF ok fresh(1) n rd] by blast
  let ?c = "init_fixed_counter E"
  let ?cs = "(?c\<lparr>raw := vd ! 0\<rparr>, ?c\<lparr>raw := vd ! 1\<rparr>, ?c\<lparr>raw := vd ! 2\<rparr>)"
  let ?t1 = "s1\<lparr>fixed := Some ?cs\<rparr>"
  have st1: "fixed_counter_storage E s = Some (?cs, ?t1)"
    using vd(1) none by (simp add: fixed_counter_storage_def Let_def)
  have e1: "same_lib ?t1 s1" by (simp add: same_lib_def)
  note v1 = same_lib_ok(1,3) [OF e1] same_lib_view [OF e1]
  from vd(2) ok fresh(2) ne have "batches_ok E good drv rg s1" "batch_fresh ?C s1" "lib.more s1 = lib.more s"
    unfolding slot_step_def by blast+
  then have ok1: "batches_ok E good drv rg ?t1" "batch_fresh ?C ?t1" and none1: "fixed_ctrl ?t1 = None"
    using v1 none(2) ctr_more [of s1 s] by simp_all
  let ?kd = "length (blocks s)" and ?kc = "length (blocks ?t1)"
  obtain vc s2 where vc: "alloc_group (load_thread_batch E) ?C ?rc ?n ?t1 = Some (vc, s2)"
    "slot_step E good drv rg ?C ?t1 s2" "batch_live E good drv rg ?C ?kc s2"
    "keys ?C ?kc s2 = group_keys (fd_of ?t1) ?n ?rc"
    "\<forall>j<length ?rc. wired ?kc (j * ?n) ?n (vc ! j)" "dev s2 = dev ?t1" "fd_of s2 = fd_of ?t1"
    and kept: "\<forall>m k. m \<noteq> ?C \<longrightarrow> batch_ready m k ?t1 \<longrightarrow> batch_kept m k ?t1 s2"
    using thread_group_view [OF ok1 n rc] by blast
  let ?t2 = "s2\<lparr>fixed_ctrl := Some (vc ! 0, vc ! 1)\<rparr>"
  have st2: "fixed_counter_ctrl_storage E ?t1 = Some ((vc ! 0, vc ! 1), ?t2)"
    using vc(1) none1 by (simp add: fixed_counter_ctrl_storage_def)
  have e2: "same_lib ?t2 s2" by (simp add: same_lib_def)
  note v2 = same_lib_ok(1,3) [OF e2] same_lib_view [OF e2]
  have lD1: "batch_live E good drv rg ?D ?kd ?t1" using vd(3) v1 by simp
  then have "batch_ready ?D ?kd ?t1" by (simp add: batch_live_def)
  with kept ne have "batch_kept ?D ?kd ?t1 s2" by metis
  from kept_keys [OF this vc(7)] have kD: "keys ?D ?kd s2 = group_keys (fd_of s) ?n ?rd"
    using vd(4) v1 by simp
  have "batches_ok E good drv rg s2" "batch_live E good drv rg ?D ?kd s2"
    using vc(2) lD1 ne unfolding slot_step_def by metis+
  moreover have fd: "fd_of ?t1 = fd_of s" "fd_of s2 = fd_of s" using vc(7) v1(5) vd(7) by simp_all
  moreover have "wired ?kd 0 ?n (vd ! 0)" "wired ?kd ?n ?n (vd ! 1)" "wired ?kd (2 * ?n) ?n (vd ! 2)"
    using vd(5) [rule_format, of 0] vd(5) [rule_format, of 1] vd(5) [rule_format, of 2] by simp_all
  moreover have "wired ?kc 0 ?n (vc ! 0)" "wired ?kc ?n ?n (vc ! 1)"
    using vc(5) [rule_format, of 0] vc(5) [rule_format, of 1] by simp_all
  moreover have "?kc \<noteq> ?kd" using vd(8) by simp
  moreover have "keys ?C ?kc s2 = group_keys (fd_of s) ?n ?rc" using vc(4) unfolding fd(1) .
  ultimately have "fixed_live E good drv rg ?kc ?kd (?c\<lparr>raw := vd ! 0\<rparr>) (?c\<lparr>raw := vd ! 1\<rparr>) (?c\<lparr>raw := vd ! 2\<rparr>) ?t2"
    using vc(3) kD unfolding fixed_live_def v2 by (simp add: init_fixed_counter_def)
  moreover have "dev ?t2 = dev s" "fd_of ?t2 = fd_of s" using vc(6) vd(6) fd v2(5) by simp_all
  ultimately show ?thesis using st1 st2 by fastforce
qed

section \<open>Clearing one counter\<close>

text \<open>clear_pcu reports success after it has set the pointer to the counter to NULL; the next
  clear_all_pcu or dump_unc_counter_data follows that pointer.
\<close>

theorem clear_pcu_undefined:
  assumes "clear_pcu E idx s = Some (0, t)"
  shows "clear_all_pcu E t = None \<and> dump_unc_counter_data E t = None"
proof -
  from assms obtain uc s1 c0 where uc: "unc_counters_storage E s = Some (uc, s1)" "idx < int (sockets (hw E))" "0 \<le> idx"
    "0 < length uc" "uc ! 0 = Some c0" "nat idx < length c0"
    and t: "t = s1\<lparr>unc_count := Some (uc[0 := Some (c0[nat idx := None])])\<rparr>"
    by (auto simp: clear_pcu_def array_simps split: bind_splits if_splits)
  let ?uc = "uc[0 := Some (c0[nat idx := None])]"
  have p: "member_ptr ?uc 0 (nat idx) = None" and i: "nat idx \<in> set [0..<sockets (hw E)]"
    using uc by (auto simp: member_ptr_def ptr_def)
  have st: "unc_counters_storage E t = Some (?uc, t)" by (simp add: unc_counters_storage_def t)
  let ?w = "\<lambda>i j s. Option.bind (member_ptr ?uc j i) (\<lambda>p. cell_set p 0 (s :: ('a, 'b) ctr_lib_scheme))"
  have "foldo (?w (nat idx)) [0..<4] s = None" for s
    by (rule foldo_None [of 0]) (simp_all add: p)
  then have "foldo (\<lambda>i. foldo (?w i) [0..<4]) [0..<sockets (hw E)] t = None"
    by (intro foldo_None [OF i])
  then have "clear_all_pcu E t = None" by (simp add: clear_all_pcu_def st)
  moreover have "collect (\<lambda>j. do { p \<leftarrow> member_ptr ?uc j (nat idx); v \<leftarrow> cell_get t p; Some [v] }) 4 = None"
    unfolding collect_def by (rule foldo_None [of 0]) (simp_all add: p)
  then have "collect (\<lambda>i. do {
           vs \<leftarrow> collect (\<lambda>j. do { p \<leftarrow> member_ptr ?uc j i; v \<leftarrow> cell_get t p; Some [v] }) 4;
           Some [(i, vs)]
         }) (sockets (hw E)) = None"
    unfolding collect_def [of _ "sockets (hw E)"] by (intro foldo_None [OF i]) simp
  then have "dump_unc_counter_data E t = None" by (simp add: dump_unc_counter_data_def st)
  ultimately show ?thesis by blast
qed

text \<open>Clear_pmc sets the counters 0 to idx - 1 of processor idx to 0 in the batch, and leaves
  the counters from number idx on, all counters of the other processors and the registers as
  they are.
\<close>

theorem clear_pmc_clears_lower:
  assumes "pmc s = Some ms" "1 \<le> idx" "idx < int (avail_pmc E)" "avail_pmc E \<le> 8"
    and c: "\<forall>j < nat idx. \<exists>p. member_ptr ms j (nat idx) = Some p \<and> cell_get s p \<noteq> None"
  shows "\<exists>t. clear_pmc E idx s = Some (0, t) \<and> dev t = dev s
    \<and> (\<forall>p. cell_get t p = (if \<exists>j < nat idx. member_ptr ms j (nat idx) = Some p then Some 0 else cell_get s p))"
proof -
  let ?i = "nat idx"
  let ?f = "\<lambda>j s. Option.bind (member_ptr ms j ?i) (\<lambda>p. cell_set p 0 (s :: ('a, 'b) ctr_lib_scheme))"
  let ?Q = "\<lambda>js t. dev t = dev s
      \<and> (\<forall>p. cell_get t p = (if \<exists>j\<in>js. member_ptr ms j ?i = Some p then Some 0 else cell_get s p))"
  have "set js \<subseteq> {..<?i} \<Longrightarrow> \<exists>t. foldo ?f js s = Some t \<and> ?Q (set js) t" for js
  proof (induction js rule: rev_induct)
    case Nil
    then show ?case by simp
  next
    case (snoc j js)
    then obtain t where t: "foldo ?f js s = Some t" "?Q (set js) t" by auto
    from snoc.prems c obtain p where p: "member_ptr ms j ?i = Some p" "cell_get s p \<noteq> None" by auto
    then have "cell_get t p \<noteq> None" using t(2) by (cases p) auto
    then obtain u where u: "cell_set p 0 t = Some u" using cell_set_iff by metis
    have "cell_get u = (cell_get t)(p \<mapsto> 0)" using cell_set_any(1) [OF u] .
    moreover have "dev u = dev t" using u by (auto simp: cell_set_def set_block_def split: bind_splits)
    ultimately have "?Q (set (js @ [j])) u" using t(2) p(1) by auto
    then show ?case using t(1) u p(1) by (simp add: foldo_snoc)
  qed
  from this [of "rev [0..<?i]"] obtain t where t: "foldo ?f (rev [0..<?i]) s = Some t" "?Q {..<?i} t"
    by (auto simp: atLeast0LessThan)
  have "?i \<le> 8" using assms(2-4) by linarith
  then have "clear_down ms ?i ?i s = Some t" using t(1) by (simp add: clear_down_def)
  then have "clear_pmc E idx s = Some (0, t)" using assms(1-3) by (simp add: clear_pmc_def pmc_storage_def)
  with t(2) show ?thesis by auto
qed

section \<open>Witnesses\<close>

definition sim_ctr :: "member list option \<Rightarrow> member list option \<Rightarrow> unit ctr_lib_ext" where
  "sim_ctr p u = ctr_lib.fields None p None u None None"

lemma sim_ctr_simps [simp]:
  "fixed (sim_lib (sim_ctr p u)) = None" "fixed_ctrl (sim_lib (sim_ctr p u)) = None"
  "unc_count (sim_lib (sim_ctr p u)) = u" "pmc (sim_window n xs (sim_ctr p u)) = p"
  by (simp_all add: sim_lib_def sim_window_def sim_ctr_def ctr_lib.fields_def ctr_lib.defs)

theorem set_get_fixed_counters_witness:
  "\<exists>c0 c1 c2 (s :: (sim, unit) ctr_lib_scheme) t e0 e1 e2 u. set_fixed_counter_ctrl (sim_env True) c0 c1 c2 s = Some t
    \<and> get_fixed_ctr_ctrl (sim_env True) (Some c0) (Some c1) (Some c2) t = Some (Some e0, Some e1, Some e2, u)
    \<and> config (vals e1 ! 2) = (1, 3, 1, 0)"
proof -
  let ?c = "\<lparr>enable = 1, ring_level = 3, anyThread = 1, pmi = 0, overflow = 0\<rparr> :: fixed_counter"
  obtain c0 c1 c2 kc kd and s :: "(sim, unit) ctr_lib_scheme" where
    "fixed_live (sim_env True) sim_good sim_drv sim_rg kc kd c0 c1 c2 s"
    using fixed_storages [OF sim_batches_ok [of True "sim_ctr None None"] _ sim_batch_fresh sim_batch_fresh] by auto
  then have l: "fixed_live (sim_env True) sim_good sim_drv sim_rg kc kd (c0\<lparr>vals := replicate 4 ?c\<rparr>)
      (c1\<lparr>vals := replicate 4 ?c\<rparr>) (c2\<lparr>vals := replicate 4 ?c\<rparr>) s"
    unfolding fixed_live_def by simp
  have "config_fits ?c" by (simp add: config_fits_def fits_def take_bit_Suc)
  then have "\<forall>i < NUM_DEVS (hw (sim_env True)). config_fits (vals (c0\<lparr>vals := replicate 4 ?c\<rparr>) ! i)
      \<and> config_fits (vals (c1\<lparr>vals := replicate 4 ?c\<rparr>) ! i) \<and> config_fits (vals (c2\<lparr>vals := replicate 4 ?c\<rparr>) ! i)"
    by simp
  from set_get_fixed_counters [OF l this, of "c0\<lparr>vals := replicate 4 ?c\<rparr>" "c1\<lparr>vals := replicate 4 ?c\<rparr>" "c2\<lparr>vals := replicate 4 ?c\<rparr>"]
  obtain t e0 e1 e2 u where t: "set_fixed_counter_ctrl (sim_env True) (c0\<lparr>vals := replicate 4 ?c\<rparr>)
      (c1\<lparr>vals := replicate 4 ?c\<rparr>) (c2\<lparr>vals := replicate 4 ?c\<rparr>) s = Some t"
    "get_fixed_ctr_ctrl (sim_env True) (Some (c0\<lparr>vals := replicate 4 ?c\<rparr>)) (Some (c1\<lparr>vals := replicate 4 ?c\<rparr>))
      (Some (c2\<lparr>vals := replicate 4 ?c\<rparr>)) t = Some (Some e0, Some e1, Some e2, u)"
    "\<forall>i<4. config (vals e1 ! i) = config (replicate 4 ?c ! i)"
    by auto
  from t(3) have "config (vals e1 ! 2) = (1, 3, 1, 0)" by (simp add: config_def)
  with t(1,2) show ?thesis by blast
qed

theorem clear_pcu_witness:
  "\<exists>t. clear_pcu (sim_env True) 1 (sim_lib (sim_ctr None (Some (replicate 4 (Some [Some (0, 0), Some (0, 1)]))))) = Some (0, t)
    \<and> clear_all_pcu (sim_env True) t = None"
proof -
  let ?s = "sim_lib (sim_ctr None (Some (replicate 4 (Some [Some (0, 0), Some (0, 1)]))))"
  obtain t where t: "clear_pcu (sim_env True) 1 ?s = Some (0, t)"
    by (simp add: clear_pcu_def unc_counters_storage_def)
  with clear_pcu_undefined [OF t] show ?thesis by blast
qed

text \<open>A processor with four programmable counters per thread.\<close>

definition four_counters :: "sim env" where
  "four_counters = (sim_env True)\<lparr>cpuid_insn := (\<lambda>leaf sub. (0x400, 0, 0, 0))\<rparr>"

theorem clear_pmc_witness:
  "\<exists>s t. clear_pmc four_counters 1 (s :: (sim, unit ctr_lib_ext) lib_scheme) = Some (0, t)
     \<and> cell_get t (0, 1) = Some 0"
proof -
  let ?ms = "replicate 8 (Some [Some (0, 0), Some (0, 1), Some (0, 2), Some (0, 3)])"
  let ?s = "sim_window COUNTERS_DATA [(0, IA32_PMC0), (1, IA32_PMC0), (2, IA32_PMC0), (3, IA32_PMC0)] (sim_ctr (Some ?ms) None)"
  have a: "avail_pmc four_counters = 4"
    by (simp add: avail_pmc_def four_counters_def cpuid_num_pmc_def cpuid_def MASK_VAL_def MASK_RANGE_def)
  have "\<forall>j < nat 1. \<exists>p. member_ptr ?ms j (nat 1) = Some p \<and> cell_get ?s p \<noteq> None"
    by (simp add: member_ptr_def ptr_def cell_get_def the_block_def sim_window_def)
  from clear_pmc_clears_lower [of ?s ?ms 1 four_counters, OF _ _ _ _ this] a obtain t where
    t: "clear_pmc four_counters 1 ?s = Some (0, t)"
    "\<forall>p. cell_get t p = (if \<exists>j < nat 1. member_ptr ?ms j (nat 1) = Some p then Some 0 else cell_get ?s p)" by auto
  have "\<exists>j < nat 1. member_ptr ?ms j (nat 1) = Some (0, 1)" by (simp add: member_ptr_def ptr_def)
  with t(2) have "cell_get t (0, 1) = Some 0" by presburger
  with t(1) show ?thesis by blast
qed

end
