(* ===== verification/Msr_Clocks.thy ===== *)
theory Msr_Clocks
  imports Platform Msr_Bits Batch_View Sim_Window
begin

text \<open>
  \<open>src/msr_clocks.c\<close>: the clocks of the threads (APERF, MPERF, time stamp counter), the
  performance state of the sockets, and the clock modulation of a core.
\<close>

section \<open>Data\<close>

text \<open>
  \<open>struct clock_mod\<close>, with the member \<open>raw\<close> as \<open>mod_raw\<close>; \<open>struct clocks_data\<close> is the triple
  of \<open>aperf\<close>, \<open>mperf\<close> and \<open>tsc\<close>, and \<open>struct perf_data\<close> the pair of \<open>perf_status\<close> and
  \<open>perf_ctl\<close>.
\<close>

record clock_mod =
  mod_raw :: u64
  duty_cycle_enable :: i32
  duty_cycle :: i32

record 'd clk_lib = "'d lib" +
  clocks :: "(cell option list \<times> cell option list \<times> cell option list) option"
  perf :: "(cell option list \<times> cell option list) option"

section \<open>Storage\<close>

definition clocks_storage ::
  "'d env \<Rightarrow> ('d, 'z) clk_lib_scheme
   \<Rightarrow> ((cell option list \<times> cell option list \<times> cell option list) \<times> ('d, 'z) clk_lib_scheme) option" where
  "clocks_storage E s =
     (case clocks s of
        Some c \<Rightarrow> Some (c, s)
      | None \<Rightarrow> do {
          (vs, s) \<leftarrow> alloc_group (load_thread_batch E) CLOCKS_DATA
             [IA32_APERF, IA32_MPERF, IA32_TIME_STAMP_COUNTER] (NUM_DEVS (hw E)) s;
          Some ((vs ! 0, vs ! 1, vs ! 2), s\<lparr>clocks := Some (vs ! 0, vs ! 1, vs ! 2)\<rparr>)
        })"

text \<open>
  The static counter \<open>procs\<close> marks the structure as made; on a machine without sockets it
  stays 0.
\<close>

definition perf_storage ::
  "'d env \<Rightarrow> ('d, 'z) clk_lib_scheme
   \<Rightarrow> ((cell option list \<times> cell option list) \<times> ('d, 'z) clk_lib_scheme) option" where
  "perf_storage E s =
     (case perf s of
        Some p \<Rightarrow> Some (p, s)
      | None \<Rightarrow> do {
          let n = sockets (hw E);
          (_, s) \<leftarrow> allocate_batch PERF_DATA (2 * n) s;
          (_, s) \<leftarrow> allocate_batch PERF_CTL (2 * n) s;
          (_, st, s) \<leftarrow> load_socket_batch E IA32_PERF_STATUS (Some (replicate n None)) PERF_DATA s;
          (_, ctl, s) \<leftarrow> load_socket_batch E IA32_PERF_CTL (Some (replicate n None)) PERF_CTL s;
          st \<leftarrow> st;
          ctl \<leftarrow> ctl;
          Some ((st, ctl), if n = 0 then s else s\<lparr>perf := Some (st, ctl)\<rparr>)
        })"

section \<open>Clocks\<close>

definition dump_clocks_data_terse_label :: "'d env \<Rightarrow> (string \<times> nat) list" where
  "dump_clocks_data_terse_label E =
     concat (map (\<lambda>i. [(''aperf'', i), (''mperf'', i), (''tsc'', i)]) [0..<NUM_DEVS (hw E)])"

definition dump_clocks_data_terse ::
  "'d env \<Rightarrow> ('d, 'z) clk_lib_scheme \<Rightarrow> (u64 list \<times> ('d, 'z) clk_lib_scheme) option" where
  "dump_clocks_data_terse E s =
     do {
       ((ap, mp, ts), s) \<leftarrow> clocks_storage E s;
       (_, s) \<leftarrow> read_batch E CLOCKS_DATA s;
       xs \<leftarrow> collect (\<lambda>i. do {
           p \<leftarrow> ptr ap i; a \<leftarrow> cell_get s p;
           p \<leftarrow> ptr mp i; m \<leftarrow> cell_get s p;
           p \<leftarrow> ptr ts i; t \<leftarrow> cell_get s p;
           Some [a, m, t]
         }) (NUM_DEVS (hw E));
       Some (xs, s)
     }"

text \<open>The same numbers, each with its label.\<close>

definition dump_clocks_data_readable ::
  "'d env \<Rightarrow> ('d, 'z) clk_lib_scheme \<Rightarrow> (((string \<times> nat) \<times> u64) list \<times> ('d, 'z) clk_lib_scheme) option" where
  "dump_clocks_data_readable E s =
     do {
       (xs, s) \<leftarrow> dump_clocks_data_terse E s;
       Some (zip (dump_clocks_data_terse_label E) xs, s)
     }"

section \<open>Performance states\<close>

text \<open>
  \<open>perf_state / 256\<close> is a division of integers: the upper byte of the low 16 bits, printed
  times 100.
\<close>

definition p_state_mhz :: "u64 \<Rightarrow> nat" where
  "p_state_mhz x = unat ((x AND 0xFFFF) div 256) * 100"

definition dump_p_state ::
  "'d env \<Rightarrow> ('d, 'z) clk_lib_scheme \<Rightarrow> ((nat \<times> u64 \<times> nat) list \<times> ('d, 'z) clk_lib_scheme) option" where
  "dump_p_state E s =
     do {
       ((st, ctl), s) \<leftarrow> perf_storage E s;
       (_, s) \<leftarrow> read_batch E PERF_DATA s;
       xs \<leftarrow> collect (\<lambda>i. do { p \<leftarrow> ptr st i; x \<leftarrow> cell_get s p; Some [(i, x, p_state_mhz x)] }) (sockets (hw E));
       Some (xs, s)
     }"

definition set_p_state ::
  "'d env \<Rightarrow> nat \<Rightarrow> u64 \<Rightarrow> ('d, 'z) clk_lib_scheme \<Rightarrow> ('d, 'z) clk_lib_scheme option" where
  "set_p_state E socket pstate s =
     do {
       ((st, ctl), s) \<leftarrow> perf_storage E s;
       p \<leftarrow> ptr ctl socket;
       s \<leftarrow> cell_set p pstate s;
       (_, s) \<leftarrow> write_batch E PERF_CTL s;
       Some s
     }"

section \<open>Clock modulation\<close>

text \<open>The printed percentage, in hundredths.\<close>

definition duty_percent :: "i32 \<Rightarrow> nat" where
  "duty_percent d =
     (if d = 0 then 625 else if d = 1 then 1250 else if d = 2 then 2500 else if d = 3 then 3750
      else if d = 4 then 5000 else if d = 5 then 6350 else if d = 6 then 7500
      else if d = 7 then 8750 else 0)"

definition dump_clock_mod :: "clock_mod \<Rightarrow> i32 \<times> nat \<times> i32" where
  "dump_clock_mod m = (duty_cycle m, duty_percent (duty_cycle m), duty_cycle_enable m)"

definition get_clock_mod ::
  "'d env \<Rightarrow> u32 \<Rightarrow> u32 \<Rightarrow> clock_mod \<Rightarrow> ('d, 'z) lib_scheme \<Rightarrow> (clock_mod \<times> ('d, 'z) lib_scheme) option" where
  "get_clock_mod E socket core m s =
     do {
       (_, r, s) \<leftarrow> read_msr_by_coord E socket core 0 IA32_CLOCK_MODULATION (mod_raw m) s;
       Some (m\<lparr>mod_raw := r, duty_cycle := ucast (MASK_VAL r 3 1), duty_cycle_enable := ucast (MASK_VAL r 4 4)\<rparr>, s)
     }"

text \<open>The register is read before the arguments are checked.\<close>

definition clock_mod_bits :: "clock_mod \<Rightarrow> u64 \<Rightarrow> u64" where
  "clock_mod_bits m x = put_int 1 4 (duty_cycle_enable m) (put_int 3 1 (duty_cycle m) x)"

definition set_clock_mod ::
  "'d env \<Rightarrow> u32 \<Rightarrow> u32 \<Rightarrow> clock_mod \<Rightarrow> ('d, 'z) lib_scheme \<Rightarrow> (int \<times> ('d, 'z) lib_scheme) option" where
  "set_clock_mod E socket core m s =
     do {
       (_, x, s) \<leftarrow> read_msr_by_coord E socket core 0 IA32_CLOCK_MODULATION (junk E) s;
       if \<not> (0 <s duty_cycle m \<and> duty_cycle m <s 8) then Some (-1, s)
       else if \<not> (duty_cycle_enable m = 0 \<or> duty_cycle_enable m = 1) then Some (-1, s)
       else do {
         (_, s) \<leftarrow> write_msr_by_coord E socket core 0 IA32_CLOCK_MODULATION (clock_mod_bits m x) s;
         Some (0, s)
       }
     }"

section \<open>Properties\<close>

subsection \<open>Clock modulation\<close>

lemma duty_fits:
  assumes "0 <s (d :: i32)" "d <s 8"
  shows "fits 3 d"
proof -
  from assms have *: "0 < sint d" "sint d < 8" by (simp_all add: word_sless_alt)
  have "uint (of_int (sint d) :: i32) = sint d mod 2 ^ 32" by (simp only: unsigned_of_int take_bit_eq_mod) simp
  with * have "uint d = sint d" by simp
  with * show ?thesis by (simp add: fits_unat unat_eq_nat_uint)
qed

lemma bit_clock_mod:
  assumes "fits 3 (duty_cycle m)" "fits 1 (duty_cycle_enable m)" "i < 64"
  shows "bit (clock_mod_bits m x) i \<longleftrightarrow>
    (if i = 4 then bit (duty_cycle_enable m) 0 else if i = 3 then bit x 3 \<or> bit (duty_cycle m) 2
     else if i = 1 \<or> i = 2 then bit (duty_cycle m) (i - 1) else bit x i)"
proof -
  have m3: "(3 :: i32) = mask 2" by (simp add: mask_eq_exp_minus_1)
  have "\<not> bit (duty_cycle m) 30" "\<not> bit (duty_cycle_enable m) 27"
    using fits_bit [OF assms(1), of 30] fits_bit [OF assms(2), of 27] by simp_all
  with assms show ?thesis unfolding clock_mod_bits_def m3
    by (auto simp: bit_put_int bit_mask_iff bit_1_iff min_def dest!: fits_lt)
qed

lemma clock_mod_read:
  assumes "0 <s duty_cycle m" "duty_cycle m <s 8" "duty_cycle_enable m = 0 \<or> duty_cycle_enable m = 1"
  shows "(ucast (MASK_VAL (clock_mod_bits m x) 3 1) :: i32) = duty_cycle m OR (4 AND ucast (MASK_VAL x 3 1))"
    "(ucast (MASK_VAL (clock_mod_bits m x) 4 4) :: i32) = duty_cycle_enable m"
    "clock_mod_bits m x AND NOT 0x1E = x AND NOT 0x1E"
proof -
  note d = duty_fits [OF assms(1,2)]
  have e: "fits 1 (duty_cycle_enable m)" using assms(3) by (simp add: fits_one_bit del: One_nat_def)
  note b = bit_clock_mod [OF d e]
  have four: "(4 :: i32) = push_bit 2 1" by simp
  show "(ucast (MASK_VAL (clock_mod_bits m x) 3 1) :: i32) = duty_cycle m OR (4 AND ucast (MASK_VAL x 3 1))"
    unfolding four
    by (rule bit_word_eqI) (use d in \<open>auto simp: bit_ucast_iff bit_MASK_VAL b bit_or_iff bit_and_iff bit_push_bit_iff bit_1_iff dest: fits_lt\<close>)
  show "(ucast (MASK_VAL (clock_mod_bits m x) 4 4) :: i32) = duty_cycle_enable m"
    by (rule bit_word_eqI) (use e in \<open>auto simp: bit_ucast_iff bit_MASK_VAL b dest: fits_lt\<close>)
  show "clock_mod_bits m x AND NOT 0x1E = x AND NOT 0x1E"
    by (rule bit_word_eqI) (auto simp: bit_and_iff bit_not_iff b)
qed


subsection \<open>Performance states\<close>

lemma clk_more: "lib.more t = lib.more s \<Longrightarrow> clocks t = clocks (s :: ('d, 'z) clk_lib_scheme) \<and> perf t = perf s"
  by (cases s; cases t) simp

text \<open>C23: set_p_state writes the control registers of all sockets: the socket it is called for gets
  the given state, every other socket whatever the batch holds for it, which set_p_state never
  reads from the registers before.
\<close>

theorem set_p_state_all_sockets:
  assumes "batches_ok E good drv rg s" "batch_live E good drv rg PERF_CTL k s" "numops (batch s ! PERF_CTL) = sockets (hw E)"
    and "perf s = Some (st, ctl)" "wired k 0 (sockets (hw E)) ctl" "i < sockets (hw E)"
  shows "\<exists>t. set_p_state E i v s = Some t
    \<and> (\<forall>j < sockets (hw E). Some (at rg t (keys PERF_CTL k s ! j)) = (if j = i then Some v else cell_get s (k, j)))
    \<and> (\<forall>x. x \<notin> set (keys PERF_CTL k s) \<longrightarrow> at rg t x = at rg s x)"
proof -
  have "cell_get s (k, i) \<noteq> None" using cell_get_live [OF assms(2), of i] assms(3,6) by simp
  then obtain s1 where s1: "cell_set (k, i) v s = Some s1" using cell_set_iff by metis
  note c = cell_set_any [OF s1]
  obtain t where t: "write_batch E PERF_CTL s1 = Some (0, t)"
    "\<forall>i<numops (batch s1 ! PERF_CTL). Some (at rg t (keys PERF_CTL k s1 ! i)) = cell_get s1 (k, i)"
    "\<forall>x. x \<notin> set (keys PERF_CTL k s1) \<longrightarrow> at rg t x = at rg s1 x"
    using write_view [OF c(4) [OF assms(2)] c(5) [OF assms(1)]] by blast
  have "set_p_state E i v s = Some t"
    using assms(4-6) s1 t(1) by (simp add: set_p_state_def perf_storage_def ptr_wired)
  moreover have "Some (at rg t (keys PERF_CTL k s ! j)) = (if j = i then Some v else cell_get s (k, j))"
    if "j < sockets (hw E)" for j
    using t(2) that assms(3) c(1,3,7) by simp
  moreover have "at rg t x = at rg s x" if "x \<notin> set (keys PERF_CTL k s)" for x
    using t(3) that unfolding c(2,3) by blast
  ultimately show ?thesis by blast
qed

subsection \<open>Clocks\<close>

text \<open>The batch after the first \<open>clocks_storage\<close>.\<close>

lemma clocks_storage_ready:
  fixes s :: "('d, 'z) clk_lib_scheme"
  assumes ok: "batches_ok E good drv rg s" and n: "0 < NUM_DEVS (hw E)" and fresh: "batch_fresh CLOCKS_DATA s" "clocks s = None"
  shows "\<exists>ap mp ts t k. clocks_storage E s = Some ((ap, mp, ts), t) \<and> batches_ok E good drv rg t
    \<and> batch_live E good drv rg CLOCKS_DATA k t \<and> at rg t = at rg s
    \<and> keys CLOCKS_DATA k t = group_keys (fd_of s) (NUM_DEVS (hw E)) [IA32_APERF, IA32_MPERF, IA32_TIME_STAMP_COUNTER]
    \<and> wired k 0 (NUM_DEVS (hw E)) ap \<and> wired k (NUM_DEVS (hw E)) (NUM_DEVS (hw E)) mp
    \<and> wired k (2 * NUM_DEVS (hw E)) (NUM_DEVS (hw E)) ts"
proof -
  let ?n = "NUM_DEVS (hw E)" and ?k = "length (blocks s)"
  let ?r = "[IA32_APERF, IA32_MPERF, IA32_TIME_STAMP_COUNTER]"
  have r: "?r \<noteq> []" "distinct (map (\<lambda>a. ucast a :: u32) ?r)" "\<forall>a\<in>set ?r. ucast (ucast a :: u32) = a"
    by (simp_all add: msr_addrs)
  obtain vs s1 where vs: "alloc_group (load_thread_batch E) CLOCKS_DATA ?r ?n s = Some (vs, s1)"
    "slot_step E good drv rg CLOCKS_DATA s s1" "batch_live E good drv rg CLOCKS_DATA ?k s1"
    "keys CLOCKS_DATA ?k s1 = group_keys (fd_of s) ?n ?r" "\<forall>j<length ?r. wired ?k (j * ?n) ?n (vs ! j)" "dev s1 = dev s"
    using thread_group_view [OF ok fresh(1) n r] by blast
  let ?t = "s1\<lparr>clocks := Some (vs ! 0, vs ! 1, vs ! 2)\<rparr>"
  have e: "same_lib ?t s1" by (simp add: same_lib_def)
  note v = same_lib_ok(1,3) [OF e] same_lib_view [OF e]
  have "clocks_storage E s = Some ((vs ! 0, vs ! 1, vs ! 2), ?t)" using vs(1) fresh(2) by (simp add: clocks_storage_def)
  moreover have "batch_live E good drv rg CLOCKS_DATA ?k ?t" "batches_ok E good drv rg ?t"
    using vs(2,3) v by (simp_all add: slot_step_def)
  moreover have "keys CLOCKS_DATA ?k ?t = group_keys (fd_of s) ?n ?r" using vs(4) v(3) by simp
  moreover have "at rg ?t = at rg s" using vs(6) v(6) by (simp add: at_def)
  moreover have "wired ?k 0 ?n (vs ! 0)" "wired ?k ?n ?n (vs ! 1)" "wired ?k (2 * ?n) ?n (vs ! 2)"
    using vs(5) [rule_format, of 0] vs(5) [rule_format, of 1] vs(5) [rule_format, of 2] by simp_all
  ultimately show ?thesis by blast
qed

text \<open>on a machine whose batches are not used yet, dump_clocks_data_terse prints APERF, MPERF
  and the time stamp counter of every processor, one number for each label, and changes no
  register.
\<close>

theorem dump_clocks_prints_registers:
  fixes s :: "('d, 'z) clk_lib_scheme"
  assumes ok: "batches_ok E good drv rg s" and n: "0 < NUM_DEVS (hw E)" and fresh: "batch_fresh CLOCKS_DATA s" "clocks s = None"
  shows "\<exists>t. dump_clocks_data_terse E s
      = Some (concat (map (\<lambda>i. [at rg s (fd_of s i, IA32_APERF), at rg s (fd_of s i, IA32_MPERF),
                                at rg s (fd_of s i, IA32_TIME_STAMP_COUNTER)]) [0..<NUM_DEVS (hw E)]), t)
    \<and> length (dump_clocks_data_terse_label E) = 3 * NUM_DEVS (hw E) \<and> (\<forall>x. at rg t x = at rg s x)"
proof -
  let ?n = "NUM_DEVS (hw E)" and ?r = "[IA32_APERF, IA32_MPERF, IA32_TIME_STAMP_COUNTER]"
  obtain ap mp ts s1 k where st: "clocks_storage E s = Some ((ap, mp, ts), s1)" "batches_ok E good drv rg s1"
    and l: "batch_live E good drv rg CLOCKS_DATA k s1" and at: "at rg s1 = at rg s"
    and ky: "keys CLOCKS_DATA k s1 = group_keys (fd_of s) ?n ?r"
    and w: "wired k 0 ?n ap" "wired k ?n ?n mp" "wired k (2 * ?n) ?n ts"
    using clocks_storage_ready [OF assms] by blast
  obtain t where t: "read_batch E CLOCKS_DATA s1 = Some (0, t)"
    "\<forall>i<numops (batch s1 ! CLOCKS_DATA). cell_get t (k, i) = Some (at rg s1 (keys CLOCKS_DATA k s1 ! i))"
    "\<forall>x. at rg t x = at rg s1 x"
    using read_view [OF l st(2)] by blast
  have num: "numops (batch s1 ! CLOCKS_DATA) = 3 * ?n"
    using keys_nth(2) [OF l, of 0] l ky by (simp add: batch_live_def group_keys_nth(2))
  have c: "cell_get t (k, j * ?n + i) = Some (at rg s (fd_of s i, ?r ! j))" if "j < 3" "i < ?n" for i j
  proof -
    have "j * ?n + i < 3 * ?n" using that by (rule block_index)
    with t(2) num ky at group_keys_nth(1) [of j ?r i ?n "fd_of s"] that show ?thesis by simp
  qed
  have "dump_clocks_data_terse E s = Some (concat (map (\<lambda>i. [at rg s (fd_of s i, IA32_APERF), at rg s (fd_of s i, IA32_MPERF),
                                at rg s (fd_of s i, IA32_TIME_STAMP_COUNTER)]) [0..<?n]), t)"
    using st(1) t(1) c [of 0] c [of 1] c [of 2] w by (simp add: dump_clocks_data_terse_def ptr_wired collect_Some)
  moreover have "length (dump_clocks_data_terse_label E) = 3 * ?n"
    by (simp add: dump_clocks_data_terse_label_def length_concat comp_def sum_list_triv)
  moreover have "at rg t x = at rg s x" for x using t(3) at by (cases x) simp
  ultimately show ?thesis by blast
qed

section \<open>Witnesses\<close>

definition sim_clk :: "(cell option list \<times> cell option list) option \<Rightarrow> unit clk_lib_ext" where
  "sim_clk p = clk_lib.fields None p"

lemma sim_clk_simps [simp]:
  "clocks (sim_lib (sim_clk p)) = None" "perf (sim_window n xs (sim_clk p)) = p"
  by (simp_all add: sim_lib_def sim_window_def sim_clk_def clk_lib.defs)


theorem set_p_state_witness:
  "\<exists>(s :: (sim, unit clk_lib_ext) lib_scheme) t. set_p_state (sim_env True) 0 0x1700 s = Some t \<and> sim_rg 10 IA32_PERF_CTL (dev t) = 0x1700
     \<and> sim_rg 12 IA32_PERF_CTL (dev t) = 0"
proof -
  let ?xs = "[(0, IA32_PERF_CTL), (2, IA32_PERF_CTL)]"
  let ?ptr = "map (\<lambda>i. Some (0, i)) [0..<2]"
  let ?s = "sim_window PERF_CTL ?xs (sim_clk (Some (?ptr, ?ptr)))"
  have l: "batch_live (sim_env True) sim_good sim_drv sim_rg PERF_CTL 0 ?s" by (rule sim_window_live) auto
  have p: "perf ?s = Some (?ptr, ?ptr)" by (rule sim_clk_simps)
  have w: "wired 0 0 (sockets (hw (sim_env True))) ?ptr" by (simp add: wired_def)
  from set_p_state_all_sockets [OF sim_window_batches_ok l _ p w, of 0 "0x1700"] obtain t where
    t: "set_p_state (sim_env True) 0 0x1700 ?s = Some t"
    "\<forall>j<2. Some (at sim_rg t (keys PERF_CTL 0 ?s ! j)) = (if j = 0 then Some 0x1700 else cell_get ?s (0, j))" by auto
  have "keys PERF_CTL 0 ?s = [(10, IA32_PERF_CTL), (12, IA32_PERF_CTL)]"
    unfolding keys_def sim_window_ops sim_window_fd
    by (simp add: reg_key_def window_op_def sim_fd_num msr_addrs)
  moreover have "cell_get ?s (0, 1) = Some 0"
    by (simp add: cell_get_def the_block_def sim_window_def window_op_def msr_batch_op0_def)
  ultimately have "sim_rg 10 IA32_PERF_CTL (dev t) = 0x1700 \<and> sim_rg 12 IA32_PERF_CTL (dev t) = 0"
    using t(2) [rule_format, of 0] t(2) [rule_format, of 1] by (simp add: at_def)
  with t(1) show ?thesis by blast
qed

theorem dump_clocks_witness:
  "\<exists>(t :: (sim, unit clk_lib_ext) lib_scheme). dump_clocks_data_terse (sim_env True) (sim_lib (sim_clk None)) = Some (replicate 12 0, t)"
proof -
  have "at sim_rg (sim_lib (sim_clk None)) x = 0" for x by (cases x) (simp add: at_def sim_rg_def sim0_def)
  with dump_clocks_prints_registers [OF sim_batches_ok [of True "sim_clk None"] _ sim_batch_fresh]
  show ?thesis by (auto simp: numeral_eq_Suc)
qed

end
