(* ===== verification/Msr_Misc.thy ===== *)
theory Msr_Misc
  imports Platform Msr_Bits Batch_View Sim_Window
begin

text \<open>
  \<open>src/msr_misc.c\<close>: the register IA32_MISC_ENABLE of a socket, and the residencies of sockets and
  cores in their C-states.
\<close>

section \<open>Data\<close>

text \<open>\<open>struct misc_enable\<close>; its member \<open>raw\<close> is \<open>misc_raw\<close>.\<close>

record misc_enable =
  misc_raw :: u64
  fast_string_enable :: u8
  auto_TCC_enable :: u8
  performance_monitoring :: u8
  branch_trace_storage_unavail :: u8
  precise_event_based_sampling_unavail :: u8
  TM2_enable :: u8
  enhanced_Intel_SpeedStep_Tech_enable :: u8
  enable_monitor_fsm :: u8
  limit_CPUID_maxval :: u8
  xTPR_message_disable :: u8
  XD_bit_disable :: u8
  turbo_mode_disable :: u8

text \<open>The members of \<open>struct pkg_cres\<close> and \<open>struct core_cres\<close> that the source allocates, in order.\<close>

record 'd misc_lib = "'d lib" +
  pkg_cres :: "cell option list list option"
  core_cres :: "cell option list list option"

section \<open>IA32_MISC_ENABLE\<close>

definition dump_misc_enable :: "misc_enable \<Rightarrow> (string \<times> u8) list" where
  "dump_misc_enable m =
     [(''fast_string_enable'', fast_string_enable m), (''auto_TCC_enable'', auto_TCC_enable m),
      (''performance_monitoring'', performance_monitoring m),
      (''branch_trace_storage_unavail'', branch_trace_storage_unavail m),
      (''precise_event_based_sampling_unavail'', precise_event_based_sampling_unavail m),
      (''TM2_enable'', TM2_enable m),
      (''enhanced_Intel_SpeedStep_Tech_enable'', enhanced_Intel_SpeedStep_Tech_enable m),
      (''enable_monitor_fsm'', enable_monitor_fsm m), (''limit_CPUID_maxval'', limit_CPUID_maxval m),
      (''xTPR_message_disable'', xTPR_message_disable m), (''XD_bit_disable'', XD_bit_disable m),
      (''turbo_mode_disable'', turbo_mode_disable m)]"

definition misc_of :: "u64 \<Rightarrow> misc_enable" where
  "misc_of x =
     \<lparr>misc_raw = x,
      fast_string_enable = ucast (MASK_VAL x 0 0),
      auto_TCC_enable = ucast (MASK_VAL x 3 3),
      performance_monitoring = ucast (MASK_VAL x 7 7),
      branch_trace_storage_unavail = ucast (MASK_VAL x 11 11),
      precise_event_based_sampling_unavail = ucast (MASK_VAL x 12 12),
      TM2_enable = ucast (MASK_VAL x 13 13),
      enhanced_Intel_SpeedStep_Tech_enable = ucast (MASK_VAL x 16 16),
      enable_monitor_fsm = ucast (MASK_VAL x 18 18),
      limit_CPUID_maxval = ucast (MASK_VAL x 22 22),
      xTPR_message_disable = ucast (MASK_VAL x 23 23),
      XD_bit_disable = ucast (MASK_VAL x 34 34),
      turbo_mode_disable = ucast (MASK_VAL x 38 38)\<rparr>"

text \<open>Every member is assigned; a failed read leaves the member \<open>raw\<close> of the caller.\<close>

definition get_misc_enable ::
  "'d env \<Rightarrow> u32 \<Rightarrow> misc_enable \<Rightarrow> ('d, 'z) lib_scheme \<Rightarrow> (misc_enable \<times> ('d, 'z) lib_scheme) option" where
  "get_misc_enable E socket m s =
     do {
       let (_, s) = sockets_assert E socket s;
       (_, r, s) \<leftarrow> read_msr_by_coord E socket 0 0 IA32_MISC_ENABLE (misc_raw m) s;
       Some (misc_of r, s)
     }"

text \<open>The first six assignments work on promoted ints, the last two on 64 bits.\<close>

definition set_misc_bits :: "misc_enable \<Rightarrow> u64 \<Rightarrow> u64" where
  "set_misc_bits m x =
     (let x = put_int 1 0 (ucast (fast_string_enable m)) x;
          x = put_int 1 3 (ucast (auto_TCC_enable m)) x;
          x = put_int 1 13 (ucast (TM2_enable m)) x;
          x = put_int 1 16 (ucast (enhanced_Intel_SpeedStep_Tech_enable m)) x;
          x = put_int 1 22 (ucast (limit_CPUID_maxval m)) x;
          x = put_int 1 23 (ucast (xTPR_message_disable m)) x;
          x = put_u64 1 34 (ucast (XD_bit_disable m)) x
      in put_u64 1 38 (ucast (turbo_mode_disable m)) x)"

definition set_misc_enable ::
  "'d env \<Rightarrow> u32 \<Rightarrow> misc_enable \<Rightarrow> ('d, 'z) lib_scheme \<Rightarrow> ('d, 'z) lib_scheme option" where
  "set_misc_enable E socket m s =
     do {
       let (_, s) = sockets_assert E socket s;
       (_, x, s) \<leftarrow> read_msr_by_coord E socket 0 0 IA32_MISC_ENABLE (junk E) s;
       (_, s) \<leftarrow> write_msr_by_coord E socket 0 0 IA32_MISC_ENABLE (set_misc_bits m x) s;
       Some s
     }"

section \<open>C-state residencies\<close>

definition init_pkg_cres ::
  "'d env \<Rightarrow> ('d, 'z) lib_scheme \<Rightarrow> (cell option list list \<times> ('d, 'z) lib_scheme) option" where
  "init_pkg_cres E s =
     alloc_group (load_socket_batch E) PKG_CRES
       [MSR_PKG_C2_RESIDENCY, MSR_PKG_C3_RESIDENCY, MSR_PKG_C6_RESIDENCY, MSR_PKG_C7_RESIDENCY] (sockets (hw E)) s"

definition init_core_cres ::
  "'d env \<Rightarrow> ('d, 'z) lib_scheme \<Rightarrow> (cell option list list \<times> ('d, 'z) lib_scheme) option" where
  "init_core_cres E s =
     alloc_group (load_core_batch E) CORE_CRES
       [MSR_CORE_C3_RESIDENCY, MSR_CORE_C6_RESIDENCY, MSR_CORE_C7_RESIDENCY]
       (sockets (hw E) * coresPerSocket (hw E)) s"

definition pkg_cres_storage ::
  "'d env \<Rightarrow> ('d, 'z) misc_lib_scheme \<Rightarrow> (cell option list list \<times> ('d, 'z) misc_lib_scheme) option" where
  "pkg_cres_storage E s =
     (case pkg_cres s of
        Some c \<Rightarrow> Some (c, s)
      | None \<Rightarrow> do { (c, s) \<leftarrow> init_pkg_cres E s; Some (c, s\<lparr>pkg_cres := Some c\<rparr>) })"

definition core_cres_storage ::
  "'d env \<Rightarrow> ('d, 'z) misc_lib_scheme \<Rightarrow> (cell option list list \<times> ('d, 'z) misc_lib_scheme) option" where
  "core_cres_storage E s =
     (case core_cres s of
        Some c \<Rightarrow> Some (c, s)
      | None \<Rightarrow> do { (c, s) \<leftarrow> init_core_cres E s; Some (c, s\<lparr>core_cres := Some c\<rparr>) })"

text \<open>One printed row: the \<open>i\<close>-th counter of each register.\<close>

definition cres_row :: "cell option list list \<Rightarrow> nat \<Rightarrow> ('d, 'z) lib_scheme \<Rightarrow> u64 list option" where
  "cres_row c i s = collect (\<lambda>j. do { v \<leftarrow> aget c j; p \<leftarrow> ptr v i; x \<leftarrow> cell_get s p; Some [x] }) (length c)"

definition dump_pkg_cres_label :: "string list" where
  "dump_pkg_cres_label = [''PKG:c2'', ''c3'', ''c6'', ''c7'']"

definition dump_pkg_cres ::
  "'d env \<Rightarrow> ('d, 'z) misc_lib_scheme \<Rightarrow> (u64 list list \<times> ('d, 'z) misc_lib_scheme) option" where
  "dump_pkg_cres E s =
     do {
       (c, s) \<leftarrow> pkg_cres_storage E s;
       (_, s) \<leftarrow> read_batch E PKG_CRES s;
       xs \<leftarrow> collect (\<lambda>i. do { r \<leftarrow> cres_row c i s; Some [r] }) (sockets (hw E));
       Some (xs, s)
     }"

definition dump_core_cres_label :: "string list" where
  "dump_core_cres_label = [''CORE:c3'', ''c6'', ''c7'']"

definition dump_core_cres ::
  "'d env \<Rightarrow> ('d, 'z) misc_lib_scheme \<Rightarrow> (u64 list list \<times> ('d, 'z) misc_lib_scheme) option" where
  "dump_core_cres E s =
     do {
       (c, s) \<leftarrow> core_cres_storage E s;
       (_, s) \<leftarrow> read_batch E CORE_CRES s;
       xs \<leftarrow> collect (\<lambda>i. do { r \<leftarrow> cres_row c i s; Some [r] }) (sockets (hw E) * coresPerSocket (hw E));
       Some (xs, s)
     }"

section \<open>Properties\<close>

definition misc_fits :: "misc_enable \<Rightarrow> bool" where
  "misc_fits m \<longleftrightarrow> fits 1 (fast_string_enable m) \<and> fits 1 (auto_TCC_enable m) \<and> fits 1 (TM2_enable m)
     \<and> fits 1 (enhanced_Intel_SpeedStep_Tech_enable m) \<and> fits 1 (limit_CPUID_maxval m)
     \<and> fits 1 (xTPR_message_disable m) \<and> fits 1 (XD_bit_disable m) \<and> fits 1 (turbo_mode_disable m)"

lemma bit_put_flag:
  "fits 1 v \<Longrightarrow> k < 31 \<Longrightarrow> bit (put_int 1 k v x) i \<longleftrightarrow> (if i = k then bit v 0 else bit x i)"
  "fits 1 w \<Longrightarrow> k < 64 \<Longrightarrow> bit (put_u64 1 k w x) i \<longleftrightarrow> (if i = k then bit w 0 else bit x i)"
proof -
  assume v: "fits 1 v" "k < 31"
  then have "\<not> bit v (31 - k)" using fits_bit [OF v(1), of "31 - k"] by simp
  with v show "bit (put_int 1 k v x) i \<longleftrightarrow> (if i = k then bit v 0 else bit x i)"
    by (auto simp: bit_put_int bit_1_iff min_def dest: fits_lt bit_imp_le_length)
next
  assume "fits 1 w" "k < 64"
  then show "bit (put_u64 1 k w x) i \<longleftrightarrow> (if i = k then bit w 0 else bit x i)"
    by (auto simp: bit_put_u64 bit_1_iff dest: fits_lt bit_imp_le_length)
qed

lemma bit_set_misc:
  assumes "misc_fits m"
  shows "bit (set_misc_bits m x) i \<longleftrightarrow>
    (if i = 0 then bit (fast_string_enable m) 0 else if i = 3 then bit (auto_TCC_enable m) 0
     else if i = 13 then bit (TM2_enable m) 0 else if i = 16 then bit (enhanced_Intel_SpeedStep_Tech_enable m) 0
     else if i = 22 then bit (limit_CPUID_maxval m) 0 else if i = 23 then bit (xTPR_message_disable m) 0
     else if i = 34 then bit (XD_bit_disable m) 0 else if i = 38 then bit (turbo_mode_disable m) 0 else bit x i)"
  using assms by (simp add: set_misc_bits_def misc_fits_def bit_put_flag fits_ucast bit_ucast_iff del: One_nat_def)

lemma ucast_flag: "fits 1 (v :: u8) \<Longrightarrow> ucast (if bit v 0 then 1 else 0 :: u64) = v"
  unfolding fits_one_bit by auto

lemma misc_of_set:
  assumes "misc_fits m"
  shows "misc_of (set_misc_bits m x) = m\<lparr>misc_raw := set_misc_bits m x,
      performance_monitoring := performance_monitoring (misc_of x),
      branch_trace_storage_unavail := branch_trace_storage_unavail (misc_of x),
      precise_event_based_sampling_unavail := precise_event_based_sampling_unavail (misc_of x),
      enable_monitor_fsm := enable_monitor_fsm (misc_of x)\<rparr>"
proof -
  let ?y = "set_misc_bits m x"
  have w: "bit ?y 0 = bit (fast_string_enable m) 0"
    "bit ?y 3 = bit (auto_TCC_enable m) 0"
    "bit ?y 13 = bit (TM2_enable m) 0"
    "bit ?y 16 = bit (enhanced_Intel_SpeedStep_Tech_enable m) 0"
    "bit ?y 22 = bit (limit_CPUID_maxval m) 0"
    "bit ?y 23 = bit (xTPR_message_disable m) 0"
    "bit ?y 34 = bit (XD_bit_disable m) 0"
    "bit ?y 38 = bit (turbo_mode_disable m) 0"
    and r: "bit ?y 7 = bit x 7" "bit ?y 11 = bit x 11" "bit ?y 12 = bit x 12" "bit ?y 18 = bit x 18"
    by (simp_all add: bit_set_misc [OF assms])
  have f: "ucast (if bit (fast_string_enable m) 0 then 1 else 0 :: u64) = fast_string_enable m"
    "ucast (if bit (auto_TCC_enable m) 0 then 1 else 0 :: u64) = auto_TCC_enable m"
    "ucast (if bit (TM2_enable m) 0 then 1 else 0 :: u64) = TM2_enable m"
    "ucast (if bit (enhanced_Intel_SpeedStep_Tech_enable m) 0 then 1 else 0 :: u64) = enhanced_Intel_SpeedStep_Tech_enable m"
    "ucast (if bit (limit_CPUID_maxval m) 0 then 1 else 0 :: u64) = limit_CPUID_maxval m"
    "ucast (if bit (xTPR_message_disable m) 0 then 1 else 0 :: u64) = xTPR_message_disable m"
    "ucast (if bit (XD_bit_disable m) 0 then 1 else 0 :: u64) = XD_bit_disable m"
    "ucast (if bit (turbo_mode_disable m) 0 then 1 else 0 :: u64) = turbo_mode_disable m"
    using assms unfolding misc_fits_def by (blast intro: ucast_flag)+
  show ?thesis
    unfolding misc_of_def MASK_VAL_bit w r f misc_enable.select_convs
    by (rule misc_enable.equality) simp_all
qed

text \<open>C24: set_misc_enable stores the eight writable flags of a socket: get_misc_enable reads them
  back, the four other flags are the ones of the register before, and every bit of the register
  outside the eight stays.
\<close>

theorem set_get_misc_enable:
  assumes "msr_files E good rg" "fds_ready E good s" "coord_ok E sk 0 0" "misc_fits m"
  shows "\<exists>t r. set_misc_enable E (of_nat sk) m s = Some t
    \<and> get_misc_enable E (of_nat sk) m' t = Some (m\<lparr>misc_raw := r,
      performance_monitoring := performance_monitoring (misc_of (reg_of E rg sk 0 0 IA32_MISC_ENABLE s)),
      branch_trace_storage_unavail := branch_trace_storage_unavail (misc_of (reg_of E rg sk 0 0 IA32_MISC_ENABLE s)),
      precise_event_based_sampling_unavail := precise_event_based_sampling_unavail (misc_of (reg_of E rg sk 0 0 IA32_MISC_ENABLE s)),
      enable_monitor_fsm := enable_monitor_fsm (misc_of (reg_of E rg sk 0 0 IA32_MISC_ENABLE s))\<rparr>, t)
    \<and> r = reg_of E rg sk 0 0 IA32_MISC_ENABLE t
    \<and> r AND NOT 0x4400C12009 = reg_of E rg sk 0 0 IA32_MISC_ENABLE s AND NOT 0x4400C12009"
proof -
  let ?a = IA32_MISC_ENABLE
  let ?v = "set_misc_bits m (reg_of E rg sk 0 0 ?a s)"
  let ?t = "written E sk 0 0 ?a ?v s"
  note w = write_coord_eq [OF assms(1-3)]
  have "NUM_DEVS (hw E) < 2 ^ 31" using assms(2) by (simp add: fds_ready_def)
  from coord_ok_small [OF assms(3) this] assms(3) have sa: "sockets_assert E (of_nat sk) u = (0, u)" for u :: "('a, 'c) lib_scheme"
    by (simp add: sockets_assert_def unat_of_nat_i32 coord_ok_def)
  have "set_misc_enable E (of_nat sk) m s = Some ?t"
    using read_coord_eq [OF assms(1-3), of ?a "junk E"] w(1) [of ?a ?v] by (simp add: set_misc_enable_def sa)
  moreover have r: "reg_of E rg sk 0 0 ?a ?t = ?v" using w(3) [of ?a ?a ?v] by simp
  with read_coord_eq [OF assms(1) w(2) assms(3), of ?a "misc_raw m'" ?a ?v]
  have "get_misc_enable E (of_nat sk) m' ?t = Some (misc_of ?v, ?t)" by (simp add: get_misc_enable_def sa)
  moreover have "?v AND NOT 0x4400C12009 = reg_of E rg sk 0 0 ?a s AND NOT 0x4400C12009"
    by (rule bit_word_eqI) (auto simp: bit_and_iff bit_not_iff bit_set_misc [OF assms(4)])
  ultimately show ?thesis unfolding misc_of_set [OF assms(4)] using r by metis
qed

theorem set_get_misc_enable_witness:
  "\<exists>t m. set_misc_enable (sim_env True) 1 ((misc_of 0)\<lparr>turbo_mode_disable := 1\<rparr>) (sim_lib ()) = Some t
     \<and> get_misc_enable (sim_env True) 1 (misc_of 0) t = Some (m, t) \<and> turbo_mode_disable m = 1 \<and> TM2_enable m = 0"
proof -
  have "misc_fits ((misc_of 0)\<lparr>turbo_mode_disable := 1\<rparr>)" by (simp add: misc_fits_def misc_of_def MASK_VAL_def)
  from set_get_misc_enable [OF sim_msr_files sim_fds_ready _ this, of True 1 "()" "misc_of 0"] show ?thesis
    by (force simp: coord_ok_def misc_of_def MASK_VAL_def)
qed

end
