(* ===== verification/Csr_Core.thy ===== *)
theory Csr_Core
  imports Msr_Batch_Props
begin

text \<open>
  \<open>src/csr_core.c\<close>: the uncore registers.  The module has a device file and batches of its own,
  built like the batches of \<open>msr_core.c\<close> but with other checks.
\<close>

section \<open>Data\<close>

text \<open>\<open>struct csr_batch_op\<close> and \<open>struct csr_batch_array\<close>.\<close>

record csr_batch_op =
  csr_bus :: u8
  csr_device :: u8
  csr_function :: u8
  csr_socket :: u8
  csr_offset :: u16
  csr_err :: i32
  csr_isread :: u8
  csr_csrdata :: u64
  csr_wmask :: u64
  csr_opsize :: u8

definition csr_batch_op0 :: csr_batch_op where
  "csr_batch_op0 = \<lparr>csr_bus = 0, csr_device = 0, csr_function = 0, csr_socket = 0, csr_offset = 0, csr_err = 0,
     csr_isread = 0, csr_csrdata = 0, csr_wmask = 0, csr_opsize = 0\<rparr>"

record csr_batch_array =
  csr_numops :: nat
  csr_ops :: "nat option"

definition csr_batch_array0 :: csr_batch_array where
  "csr_batch_array0 = \<lparr>csr_numops = 0, csr_ops = None\<rparr>"

text \<open>
  The static variables: the descriptor of \<open>csr_fd\<close>, the flag of \<open>init_csr\<close>, the descriptor that
  \<open>do_csr_batch_op\<close> keeps, and the arrays of \<open>csr_batch_storage\<close>; \<open>csr_blocks\<close> are the allocated
  arrays of operations.
\<close>

record 'd csr_lib = "'d lib" +
  csrsafe :: int
  csr_inited :: bool
  csr_batchfd :: int
  csr_null :: bool
  csr_arrsize :: nat
  csr_batch :: "csr_batch_array list"
  csr_bsize :: "nat list"
  csr_blocks :: "csr_batch_op list option list"

text \<open>
  The \<open>ioctl\<close> CSRSAFE_8086_BATCH of the module csr_safe: descriptor and operations to result and
  operations.
\<close>

type_synonym 'd csr_driver = "int \<Rightarrow> csr_batch_op list \<Rightarrow> 'd \<Rightarrow> int \<times> csr_batch_op list \<times> 'd"

section \<open>The device file\<close>

text \<open>
  The results of \<open>stat\<close> only decide which warnings are printed, and a failing \<open>open\<close> is not
  noticed.
\<close>

definition init_csr :: "'d env \<Rightarrow> ('d, 'z) csr_lib_scheme \<Rightarrow> int \<times> ('d, 'z) csr_lib_scheme" where
  "init_csr E s =
     (if \<not> csr_inited s
      then let (fd, d) = os_open E ''/dev/cpu/csr_safe'' (dev s)
           in (0, s\<lparr>csr_inited := True, csrsafe := fd, dev := d\<rparr>)
      else (-1, libmsr_error_handler LIBMSR_ERROR_MSR_MODULE s))"

definition finalize_csr :: "'d env \<Rightarrow> ('d, 'z) csr_lib_scheme \<Rightarrow> int \<times> ('d, 'z) csr_lib_scheme" where
  "finalize_csr E s =
     (let (err, d) = os_close E (csrsafe s) (dev s);
          s = s\<lparr>dev := d\<rparr>
      in if err \<noteq> 0 then (-1, libmsr_error_handler LIBMSR_ERROR_MSR_CLOSE s)
         else (0, s\<lparr>csrsafe := 0\<rparr>))"

section \<open>Batches\<close>

definition csr_batch_storage :: "nat \<Rightarrow> ('d, 'z) csr_lib_scheme \<Rightarrow> ('d, 'z) csr_lib_scheme" where
  "csr_batch_storage batchnum s =
     (let s = (if csr_null s
               then let n = (if batchnum + 1 > csr_arrsize s then batchnum + 1 else csr_arrsize s)
                    in s\<lparr>csr_null := False, csr_arrsize := n, csr_batch := replicate n csr_batch_array0,
                         csr_bsize := replicate n 8\<rparr>
               else s)
      in if batchnum + 1 > csr_arrsize s
      then s\<lparr>csr_arrsize := batchnum + 1,
             csr_batch := csr_batch s @ replicate (batchnum + 1 - csr_arrsize s) csr_batch_array0,
             csr_bsize := csr_bsize s @ replicate (batchnum + 1 - csr_arrsize s) 8\<rparr>
      else s)"

text \<open>
  The loop \<open>for (op = batch->ops; op < op + batch->numops; op++)\<close> compares \<open>op\<close> with itself: it
  does nothing for an empty batch, and for any other it runs past the end of the array.
\<close>

definition allocate_csr_batch :: "nat \<Rightarrow> nat \<Rightarrow> ('d, 'z) csr_lib_scheme \<Rightarrow> (int \<times> ('d, 'z) csr_lib_scheme) option" where
  "allocate_csr_batch batchnum sz s =
     do {
       let s = csr_batch_storage batchnum s;
       b \<leftarrow> aget (csr_batch s) batchnum;
       z \<leftarrow> aset (csr_bsize s) batchnum sz;
       let s = s\<lparr>csr_bsize := z\<rparr>;
       let s = (if csr_ops b \<noteq> None then libmsr_error_handler LIBMSR_ERROR_MSR_BATCH s else s);
       let s = s\<lparr>csr_batch := (csr_batch s)[batchnum := b\<lparr>csr_ops := Some (length (csr_blocks s))\<rparr>],
                 csr_blocks := csr_blocks s @ [Some (replicate sz csr_batch_op0)]\<rparr>;
       if csr_numops b > 0 then None else Some (0, s)
     }"

text \<open>As in \<open>free_batch\<close>, the pointers are advanced by \<open>batchnum\<close> twice.\<close>

definition free_csr_batch :: "nat \<Rightarrow> ('d, 'z) csr_lib_scheme \<Rightarrow> (int \<times> ('d, 'z) csr_lib_scheme) option" where
  "free_csr_batch batchnum s =
     do {
       let s = csr_batch_storage batchnum s;
       z \<leftarrow> aset (csr_bsize s) (batchnum + batchnum) 0;
       b \<leftarrow> aget (csr_batch s) (batchnum + batchnum);
       let s = s\<lparr>csr_bsize := z, csr_batch := (csr_batch s)[batchnum + batchnum := b\<lparr>csr_ops := None\<rparr>]\<rparr>;
       (case csr_ops b of
          None \<Rightarrow> Some (0, s)
        | Some k \<Rightarrow> Some (0, s\<lparr>csr_blocks := (csr_blocks s)[k := None]\<rparr>))
     }"

text \<open>The arguments of an operation: register, bus, device, function, socket, read flag and size.\<close>

record csr_op_args =
  a_csr :: u64
  a_bus :: u8
  a_device :: u8
  a_function :: u8
  a_socket :: u8
  a_isread :: u8
  a_opsize :: u64

definition csr_op_of :: "csr_op_args \<Rightarrow> csr_batch_op \<Rightarrow> csr_batch_op" where
  "csr_op_of a x = x\<lparr>csr_offset := ucast (a_csr a), csr_bus := a_bus a, csr_device := a_device a,
     csr_function := a_function a, csr_socket := a_socket a, csr_isread := a_isread a, csr_err := 0,
     csr_opsize := ucast (a_opsize a)\<rparr>"

definition create_csr_batch_op ::
  "csr_op_args \<Rightarrow> nat \<Rightarrow> ('d, 'z) csr_lib_scheme \<Rightarrow> (int \<times> cell option \<times> ('d, 'z) csr_lib_scheme) option" where
  "create_csr_batch_op a batchnum s =
     do {
       let s = csr_batch_storage batchnum s;
       b \<leftarrow> aget (csr_batch s) batchnum;
       sz \<leftarrow> aget (csr_bsize s) batchnum;
       if csr_numops b \<ge> sz then Some (-1, None, libmsr_error_handler LIBMSR_ERROR_MSR_BATCH s)
       else do {
         k \<leftarrow> csr_ops b;
         xs \<leftarrow> aget (csr_blocks s) k;
         xs \<leftarrow> xs;
         x \<leftarrow> aget xs (csr_numops b);
         Some (0, Some (k, csr_numops b),
           s\<lparr>csr_batch := (csr_batch s)[batchnum := b\<lparr>csr_numops := csr_numops b + 1\<rparr>],
             csr_blocks := (csr_blocks s)[k := Some (xs[csr_numops b := csr_op_of a x])]\<rparr>)
       }
     }"

text \<open>
  The loop over the operations after a failed \<open>ioctl\<close> only prints; its \<open>break\<close> ends it.  The result
  is 0 in that case too.
\<close>

definition do_csr_batch_op ::
  "'d csr_driver \<Rightarrow> nat \<Rightarrow> ('d, 'z) csr_lib_scheme \<Rightarrow> (int \<times> ('d, 'z) csr_lib_scheme) option" where
  "do_csr_batch_op drv batchnum s =
     do {
       let s = (if csr_batchfd s = 0 then s\<lparr>csr_batchfd := csrsafe s\<rparr> else s);
       let s = csr_batch_storage batchnum s;
       b \<leftarrow> aget (csr_batch s) batchnum;
       if csr_numops b \<le> 0 then Some (-1, libmsr_error_handler LIBMSR_ERROR_MSR_BATCH s)
       else do {
         k \<leftarrow> csr_ops b;
         xs \<leftarrow> aget (csr_blocks s) k;
         xs \<leftarrow> xs;
         let (res, ys, d) = drv (csr_batchfd s) (take (csr_numops b) xs) (dev s);
         let s = s\<lparr>dev := d, csr_blocks := (csr_blocks s)[k := Some (ys @ drop (csr_numops b) xs)]\<rparr>;
         Some (0, if res < 0 then libmsr_error_handler LIBMSR_ERROR_MSR_BATCH s else s)
       }
     }"

text \<open>\<open>*p\<close> and \<open>*p = v\<close> for a pointer to the data of an operation.\<close>

definition csr_get :: "('d, 'z) csr_lib_scheme \<Rightarrow> cell \<Rightarrow> u64 option" where
  "csr_get s p = do { xs \<leftarrow> aget (csr_blocks s) (fst p); xs \<leftarrow> xs; x \<leftarrow> aget xs (snd p); Some (csr_csrdata x) }"

definition csr_set :: "cell \<Rightarrow> u64 \<Rightarrow> ('d, 'z) csr_lib_scheme \<Rightarrow> ('d, 'z) csr_lib_scheme option" where
  "csr_set p v s =
     do {
       xs \<leftarrow> aget (csr_blocks s) (fst p);
       xs \<leftarrow> xs;
       x \<leftarrow> aget xs (snd p);
       Some (s\<lparr>csr_blocks := (csr_blocks s)[fst p := Some (xs[snd p := x\<lparr>csr_csrdata := v\<rparr>])]\<rparr>)
     }"

section \<open>A batch as a bounded buffer of operations\<close>

definition csr_ready :: "nat \<Rightarrow> nat \<Rightarrow> ('d, 'z) csr_lib_scheme \<Rightarrow> bool" where
  "csr_ready n k s \<longleftrightarrow>
     \<not> csr_null s \<and> length (csr_batch s) = csr_arrsize s \<and> length (csr_bsize s) = csr_arrsize s
     \<and> n < csr_arrsize s \<and> csr_ops (csr_batch s ! n) = Some k \<and> k < length (csr_blocks s)
     \<and> (\<exists>xs. csr_blocks s ! k = Some xs \<and> length xs = csr_bsize s ! n) \<and> csr_numops (csr_batch s ! n) \<le> csr_bsize s ! n"

definition csr_fresh :: "nat \<Rightarrow> ('d, 'z) csr_lib_scheme \<Rightarrow> bool" where
  "csr_fresh n s \<longleftrightarrow> csr_null s \<and> 0 < csr_arrsize s
     \<or> \<not> csr_null s \<and> length (csr_batch s) = csr_arrsize s \<and> length (csr_bsize s) = csr_arrsize s
       \<and> (n < csr_arrsize s \<longrightarrow> csr_batch s ! n = csr_batch_array0)"

definition csr_op_at :: "nat \<Rightarrow> ('d, 'z) csr_lib_scheme \<Rightarrow> nat \<Rightarrow> csr_batch_op" where
  "csr_op_at k s i = the (csr_blocks s ! k) ! i"

text \<open>What the addition of an operation to batch \<open>n\<close> in block \<open>k\<close> leaves alone.\<close>

definition csr_frame :: "nat \<Rightarrow> nat \<Rightarrow> ('d, 'z) csr_lib_scheme \<Rightarrow> ('d, 'z) csr_lib_scheme" where
  "csr_frame n k s = s\<lparr>csr_batch := (csr_batch s)[n := csr_batch_array0], csr_blocks := (csr_blocks s)[k := None]\<rparr>"

definition csr_args :: "csr_batch_op \<Rightarrow> csr_batch_op" where
  "csr_args x = x\<lparr>csr_csrdata := 0, csr_wmask := 0\<rparr>"

lemma csr_storage_ready: "csr_ready n k s \<Longrightarrow> csr_batch_storage n s = s"
  by (simp add: csr_batch_storage_def csr_ready_def Let_def)

lemma create_csr_ready:
  assumes r: "csr_ready n k s" and "csr_numops (csr_batch s ! n) < csr_bsize s ! n"
  shows "\<exists>t. create_csr_batch_op a n s = Some (0, Some (k, csr_numops (csr_batch s ! n)), t) \<and> csr_ready n k t
    \<and> csr_numops (csr_batch t ! n) = Suc (csr_numops (csr_batch s ! n)) \<and> csr_bsize t ! n = csr_bsize s ! n
    \<and> csr_frame n k t = csr_frame n k s
    \<and> csr_args (csr_op_at k t (csr_numops (csr_batch s ! n))) = csr_op_of a csr_batch_op0
    \<and> (\<forall>i < csr_numops (csr_batch s ! n). csr_args (csr_op_at k t i) = csr_args (csr_op_at k s i))"
proof -
  let ?b = "csr_batch s ! n"
  from r obtain xs where xs: "csr_blocks s ! k = Some xs" "length xs = csr_bsize s ! n"
    and k: "csr_ops ?b = Some k" "k < length (csr_blocks s)" "n < length (csr_batch s)" "n < length (csr_bsize s)"
    by (auto simp: csr_ready_def)
  let ?t = "s\<lparr>csr_batch := (csr_batch s)[n := ?b\<lparr>csr_numops := csr_numops ?b + 1\<rparr>],
     csr_blocks := (csr_blocks s)[k := Some (xs[csr_numops ?b := csr_op_of a (xs ! csr_numops ?b)])]\<rparr>"
  have "create_csr_batch_op a n s = Some (0, Some (k, csr_numops ?b), ?t)"
    using assms xs k by (simp add: create_csr_batch_op_def csr_storage_ready [OF r])
  moreover have "csr_ready n k ?t" using r assms(2) xs by (simp add: csr_ready_def)
  moreover have "csr_args (csr_op_of a x) = csr_op_of a csr_batch_op0" for x
    by (simp add: csr_args_def csr_op_of_def csr_batch_op0_def)
  ultimately show ?thesis using assms(2) xs k
    by (auto simp: csr_op_at_def csr_frame_def)
qed

interpretation csr_ops: op_buffer "csr_ready n k" "\<lambda>s. csr_numops (csr_batch s ! n)" "\<lambda>s. csr_bsize s ! n"
    "\<lambda>s i. csr_args (csr_op_at k s i)" "\<lambda>s i. (k, i)" "csr_frame n k"
    "\<lambda>a. csr_op_of a csr_batch_op0" "\<lambda>a. create_csr_batch_op a n"
  for n k
proof
  fix s :: "('a, 'b) csr_lib_scheme" and a :: csr_op_args
  assume r: "csr_ready n k s" "csr_numops (csr_batch s ! n) < csr_bsize s ! n"
  from create_csr_ready [OF r, of a] show
    "\<exists>s'. create_csr_batch_op a n s = Some (0, Some (k, csr_numops (csr_batch s ! n)), s')
       \<and> csr_ready n k s' \<and> csr_numops (csr_batch s' ! n) = Suc (csr_numops (csr_batch s ! n))
       \<and> csr_bsize s' ! n = csr_bsize s ! n \<and> csr_frame n k s' = csr_frame n k s \<and> (\<lambda>i. (k, i)) = (\<lambda>i. (k, i))
       \<and> csr_args (csr_op_at k s' (csr_numops (csr_batch s ! n))) = csr_op_of a csr_batch_op0
       \<and> (\<forall>i<csr_numops (csr_batch s ! n). csr_args (csr_op_at k s' i) = csr_args (csr_op_at k s i))"
    by blast
qed

section \<open>Properties\<close>

text \<open>on an allocated batch create_csr_batch_op always has a defined result; it refuses with -1
  exactly when the batch is full, and otherwise adds one operation with the given arguments and
  hands out a pointer to its data.
\<close>

theorem create_csr_bounded:
  assumes "csr_ready n k s"
  shows "if csr_numops (csr_batch s ! n) = csr_bsize s ! n
    then create_csr_batch_op a n s = Some (-1, None, libmsr_error_handler LIBMSR_ERROR_MSR_BATCH s)
    else \<exists>t. create_csr_batch_op a n s = Some (0, Some (k, csr_numops (csr_batch s ! n)), t) \<and> csr_ready n k t
      \<and> csr_args (csr_op_at k t (csr_numops (csr_batch s ! n))) = csr_op_of a csr_batch_op0"
proof (cases "csr_numops (csr_batch s ! n) = csr_bsize s ! n")
  case True
  with assms show ?thesis
    by (simp add: create_csr_batch_op_def csr_storage_ready) (simp add: csr_ready_def)
next
  case False
  with assms have "csr_numops (csr_batch s ! n) < csr_bsize s ! n" by (simp add: csr_ready_def)
  from create_csr_ready [OF assms this, of a] False show ?thesis by auto
qed

lemma csr_storage_fresh:
  assumes "csr_fresh n s" and t: "t = csr_batch_storage n s"
  shows "\<not> csr_null t" "length (csr_batch t) = csr_arrsize t" "length (csr_bsize t) = csr_arrsize t" "n < csr_arrsize t"
    "csr_fresh m s \<Longrightarrow> m < csr_arrsize t \<Longrightarrow> csr_batch t ! m = csr_batch_array0"
    "csr_ready m k s \<Longrightarrow> m < csr_arrsize t \<and> csr_batch t ! m = csr_batch s ! m \<and> csr_bsize t ! m = csr_bsize s ! m"
    "csr_blocks t = csr_blocks s" "lib.truncate t = lib.truncate s" "csrsafe t = csrsafe s" "csr_batchfd t = csr_batchfd s"
    "csr_inited t = csr_inited s" "csr_lib.more t = csr_lib.more s"
proof -
  from assms(1) show "\<not> csr_null t" "length (csr_batch t) = csr_arrsize t" "length (csr_bsize t) = csr_arrsize t" "n < csr_arrsize t"
    by (auto simp: t csr_batch_storage_def csr_fresh_def Let_def)
  show "csr_fresh m s \<Longrightarrow> m < csr_arrsize t \<Longrightarrow> csr_batch t ! m = csr_batch_array0"
    using assms(1) by (auto simp: t csr_batch_storage_def csr_fresh_def Let_def nth_append)
  show "csr_ready m k s \<Longrightarrow> m < csr_arrsize t \<and> csr_batch t ! m = csr_batch s ! m \<and> csr_bsize t ! m = csr_bsize s ! m"
    by (auto simp: t csr_batch_storage_def csr_ready_def Let_def nth_append)
  show "csr_blocks t = csr_blocks s" "lib.truncate t = lib.truncate s" "csrsafe t = csrsafe s" "csr_batchfd t = csr_batchfd s"
    "csr_inited t = csr_inited s" "csr_lib.more t = csr_lib.more s"
    by (simp_all add: t csr_batch_storage_def lib.truncate_def Let_def)
qed

lemma allocate_csr_fresh:
  assumes "csr_fresh n s"
  shows "\<exists>t. allocate_csr_batch n l s = Some (0, t) \<and> csr_ready n (length (csr_blocks s)) t
    \<and> csr_numops (csr_batch t ! n) = 0 \<and> csr_bsize t ! n = l \<and> lib.truncate t = lib.truncate s
    \<and> length (csr_blocks t) = Suc (length (csr_blocks s)) \<and> csrsafe t = csrsafe s \<and> csr_batchfd t = csr_batchfd s
    \<and> csr_inited t = csr_inited s \<and> csr_lib.more t = csr_lib.more s
    \<and> (\<forall>m k. m \<noteq> n \<longrightarrow> csr_ready m k s \<longrightarrow> csr_ready m k t \<and> csr_batch t ! m = csr_batch s ! m \<and> csr_blocks t ! k = csr_blocks s ! k
         \<and> csr_bsize t ! m = csr_bsize s ! m)
    \<and> (\<forall>m. m \<noteq> n \<longrightarrow> csr_fresh m s \<longrightarrow> csr_fresh m t)"
proof -
  define u where "u = csr_batch_storage n s"
  note f = csr_storage_fresh [OF assms u_def]
  have b: "csr_batch u ! n = csr_batch_array0" by (rule f(5) [OF assms f(4)])
  let ?t = "u\<lparr>csr_bsize := (csr_bsize u)[n := l],
     csr_batch := (csr_batch u)[n := csr_batch_array0\<lparr>csr_ops := Some (length (csr_blocks u))\<rparr>],
     csr_blocks := csr_blocks u @ [Some (replicate l csr_batch_op0)]\<rparr>"
  have "allocate_csr_batch n l s = Some (0, ?t)"
    using f(2-4) b by (simp add: allocate_csr_batch_def u_def [symmetric]) (simp add: csr_batch_array0_def)
  moreover have "csr_ready n (length (csr_blocks s)) ?t"
    using f(1-4,7) by (simp add: csr_ready_def csr_batch_array0_def nth_append)
  moreover have "csr_ready m k ?t \<and> csr_batch ?t ! m = csr_batch s ! m \<and> csr_blocks ?t ! k = csr_blocks s ! k
      \<and> csr_bsize ?t ! m = csr_bsize s ! m"
    if m: "m \<noteq> n" "csr_ready m k s" for m k
    using f(6) [OF m(2)] f(1-3,7) m by (auto simp: csr_ready_def nth_append)
  moreover have "csr_fresh m ?t" if "m \<noteq> n" "csr_fresh m s" for m
    using f(1-3) f(5) [OF that(2)] that(1) by (simp add: csr_fresh_def)
  ultimately show ?thesis using f(2-4,7-12) by (simp add: csr_batch_array0_def lib.truncate_def)
qed

text \<open>allocate_csr_batch works as long as a batch has no operation; once an operation was
  created in it, allocating the batch again, even after free_csr_batch, never gets past the loop
  over the operations.
\<close>

theorem allocate_csr_once:
  assumes "csr_ready n k s" "0 < csr_numops (csr_batch s ! n)"
  shows "allocate_csr_batch n l s = None
    \<and> (\<forall>r t. free_csr_batch n s = Some (r, t) \<longrightarrow> allocate_csr_batch n l t = None)"
proof -
  have "allocate_csr_batch n l t = None"
    if "csr_batch_storage n t = t" "n < length (csr_batch t)" "0 < csr_numops (csr_batch t ! n)" for t :: "('a, 'b) csr_lib_scheme"
    using that by (simp add: allocate_csr_batch_def split: bind_split)
  moreover have "csr_batch_storage n t = t \<and> n < length (csr_batch t) \<and> 0 < csr_numops (csr_batch t ! n)"
    if f: "free_csr_batch n s = Some (r, t)" for r t
  proof -
    let ?b = "csr_batch s ! (n + n)"
    from f have n2: "n + n < length (csr_bsize s)" "n + n < length (csr_batch s)"
      by (auto simp: free_csr_batch_def csr_storage_ready [OF assms(1)] Let_def array_simps split: bind_splits)
    let ?u = "s\<lparr>csr_bsize := (csr_bsize s)[n + n := 0], csr_batch := (csr_batch s)[n + n := ?b\<lparr>csr_ops := None\<rparr>]\<rparr>"
    from f n2 have "t = ?u \<or> (\<exists>k. t = ?u\<lparr>csr_blocks := (csr_blocks s)[k := None]\<rparr>)"
      by (auto simp: free_csr_batch_def csr_storage_ready [OF assms(1)] Let_def split: option.splits)
    then have t: "csr_batch t = (csr_batch s)[n + n := ?b\<lparr>csr_ops := None\<rparr>]" "csr_arrsize t = csr_arrsize s" "csr_null t = csr_null s"
      by auto
    then have "0 < csr_numops (csr_batch t ! n)" using assms n2
      by (cases "n = 0") (auto simp: nth_list_update)
    with t assms(1) show ?thesis by (simp add: csr_ready_def csr_batch_storage_def Let_def)
  qed
  ultimately show ?thesis using assms csr_storage_ready [OF assms(1)] by (simp add: csr_ready_def)
qed

text \<open>
  Do_csr_batch_op returns 0 for every batch with an operation, whether the driver fails or
  not; a failure shows only in the log.
\<close>

theorem do_csr_hides_failure:
  assumes "csr_ready n k s" "0 < csr_numops (csr_batch s ! n)"
  shows "\<exists>t. do_csr_batch_op drv n s = Some (0, t)
    \<and> stderr t = stderr s @ (if fst (drv (if csr_batchfd s = 0 then csrsafe s else csr_batchfd s)
          (take (csr_numops (csr_batch s ! n)) (the (csr_blocks s ! k))) (dev s)) < 0
        then [LIBMSR_ERROR_MSR_BATCH] else [])"
proof -
  let ?fd = "if csr_batchfd s = 0 then csrsafe s else csr_batchfd s"
  let ?s = "s\<lparr>csr_batchfd := ?fd\<rparr>"
  have s: "(if csr_batchfd s = 0 then s\<lparr>csr_batchfd := csrsafe s\<rparr> else s) = ?s" by simp
  have r: "csr_ready n k ?s" using assms(1) by (simp add: csr_ready_def)
  from assms(1) obtain xs where xs: "csr_blocks s ! k = Some xs" "k < length (csr_blocks s)" "n < length (csr_batch s)"
    "csr_ops (csr_batch s ! n) = Some k" by (auto simp: csr_ready_def)
  obtain res ys d where d: "drv ?fd (take (csr_numops (csr_batch s ! n)) xs) (dev s) = (res, ys, d)"
    by (cases "drv ?fd (take (csr_numops (csr_batch s ! n)) xs) (dev s)") auto
  let ?u = "?s\<lparr>dev := d, csr_blocks := (csr_blocks s)[k := Some (ys @ drop (csr_numops (csr_batch s ! n)) xs)]\<rparr>"
  have "do_csr_batch_op drv n s = Some (0, if res < 0 then libmsr_error_handler LIBMSR_ERROR_MSR_BATCH ?u else ?u)"
    using assms(2) xs d unfolding do_csr_batch_op_def s by (simp add: csr_storage_ready [OF r] Let_def)
  then show ?thesis using xs(1) d by (simp add: libmsr_error_handler_def)
qed

end
