(* ===== verification/Csr_Imc.thy ===== *)
theory Csr_Imc
  imports Csr_Core
begin

text \<open>
  \<open>src/csr_imc.c\<close>: the performance counters of the integrated memory controllers, over the uncore
  batches of \<open>Csr_Core\<close>.  The constants are those of \<open>platform_headers/Intel55.h\<close>, the platform
  header that has them.
\<close>

section \<open>Constants\<close>

definition NUMCTRS :: nat where "NUMCTRS = 8"

definition CSR_IMC_CTRS :: nat where "CSR_IMC_CTRS = 0"
definition CSR_IMC_EVTS :: nat where "CSR_IMC_EVTS = 1"
definition CSR_IMC_PMONUNITCTRL :: nat where "CSR_IMC_PMONUNITCTRL = 2"
definition CSR_IMC_PMONUNITSTAT :: nat where "CSR_IMC_PMONUNITSTAT = 3"

definition IMC0_DEV :: u8 where "IMC0_DEV = 20"
definition IMC1_DEV :: u8 where "IMC1_DEV = 23"
definition IMC_CH0_FUNC :: u8 where "IMC_CH0_FUNC = 0"
definition IMC_CH1_FUNC :: u8 where "IMC_CH1_FUNC = 1"
definition IMC_CH2_FUNC :: u8 where "IMC_CH2_FUNC = 0"
definition IMC_CH3_FUNC :: u8 where "IMC_CH3_FUNC = 1"

definition CSR_PMONCTRCFG :: "u64 list" where "CSR_PMONCTRCFG = [0xD8, 0xDC, 0xE0, 0xE8]"
definition CSR_PMONCTR :: "u64 list" where "CSR_PMONCTR = [0xA0, 0xA8, 0xB0, 0xB8]"
definition CSR_PMONUNITCTRL :: u64 where "CSR_PMONUNITCTRL = 0xF4"
definition CSR_PMONUNITSTAT :: u64 where "CSR_PMONUNITSTAT = 0xF8"

definition EVT_ACT_COUNT :: u8 where "EVT_ACT_COUNT = 1"
definition EVT_PRE_COUNT :: u8 where "EVT_PRE_COUNT = 2"
definition EVT_CAS_COUNT :: u8 where "EVT_CAS_COUNT = 4"
definition EVT_RPQ_INSERTS :: u8 where "EVT_RPQ_INSERTS = 0x10"
definition EVT_WPQ_INSERTS :: u8 where "EVT_WPQ_INSERTS = 0x20"
definition UMASK_CAS_RD :: u32 where "UMASK_CAS_RD = 3"
definition UMASK_CAS_WR :: u32 where "UMASK_CAS_WR = 0xC"
definition UMASK_CAS_ALL :: u32 where "UMASK_CAS_ALL = 0xF"
definition UMASK_PRE_PAGE_MISS :: u32 where "UMASK_PRE_PAGE_MISS = 1"

section \<open>Data\<close>

text \<open>The members \<open>ctr0\<close> to \<open>ctr4\<close> and \<open>ctrcfg0\<close> to \<open>ctrcfg4\<close> of \<open>struct pmonctrs_data\<close> are one list each.\<close>

record pmonctrs_data =
  ctr :: "cell option list list"
  ctrcfg :: "cell option list list"

record pmonctr_global =
  unitctrl :: "cell option list"
  unitstatus :: "cell option list"

record 'd imc_lib = "'d csr_lib" +
  pcd :: "pmonctrs_data option"
  pgd :: "pmonctr_global option"
  pmon_inited :: bool
  global_inited :: bool

section \<open>Storage\<close>

text \<open>The locations in the order of the calls: device, function and socket.\<close>

definition imc_places :: "(u8 \<times> u8 \<times> u8) list" where
  "imc_places =
     [(IMC0_DEV, IMC_CH0_FUNC, 0), (IMC0_DEV, IMC_CH1_FUNC, 0), (IMC0_DEV, IMC_CH2_FUNC, 0), (IMC0_DEV, IMC_CH3_FUNC, 0),
      (IMC1_DEV, IMC_CH0_FUNC, 0), (IMC1_DEV, IMC_CH1_FUNC, 0), (IMC1_DEV, IMC_CH2_FUNC, 0), (IMC1_DEV, IMC_CH3_FUNC, 0),
      (IMC0_DEV, IMC_CH0_FUNC, 1), (IMC0_DEV, IMC_CH1_FUNC, 1), (IMC0_DEV, IMC_CH2_FUNC, 1), (IMC0_DEV, IMC_CH3_FUNC, 1),
      (IMC1_DEV, IMC_CH0_FUNC, 1), (IMC1_DEV, IMC_CH1_FUNC, 1), (IMC1_DEV, IMC_CH2_FUNC, 1), (IMC1_DEV, IMC_CH3_FUNC, 1)]"

text \<open>
  The functions of channels 2 and 3 are those of channels 0 and 1, on the same device: the
  operations of two channels of every controller address the registers of the other two.
\<close>

lemma imc_channels_twice: "i < 16 \<Longrightarrow> i mod 4 < 2 \<Longrightarrow> imc_places ! (i + 2) = imc_places ! i"
proof -
  assume "i < 16" "i mod 4 < 2"
  then have "i = 0 \<or> i = 1 \<or> i = 4 \<or> i = 5 \<or> i = 8 \<or> i = 9 \<or> i = 12 \<or> i = 13" by presburger
  then show ?thesis
    by (elim disjE) (simp_all add: imc_places_def IMC_CH0_FUNC_def IMC_CH1_FUNC_def IMC_CH2_FUNC_def IMC_CH3_FUNC_def)
qed

definition imc_op :: "u64 \<Rightarrow> u8 \<Rightarrow> u64 \<Rightarrow> nat \<Rightarrow> csr_op_args" where
  "imc_op offt isread opsize i =
     (case imc_places ! i of (d, f, k) \<Rightarrow>
        \<lparr>a_csr = offt, a_bus = 1, a_device = d, a_function = f, a_socket = k, a_isread = isread, a_opsize = opsize\<rparr>)"

definition imc_count :: "'d env \<Rightarrow> nat" where
  "imc_count E = (if sockets (hw E) > 1 then 16 else 8)"

text \<open>The result is the last index, one less than the number of operations.\<close>

definition load_imc_batch_for_each ::
  "'d env \<Rightarrow> u64 \<Rightarrow> cell option list option \<Rightarrow> u8 \<Rightarrow> u64 \<Rightarrow> nat \<Rightarrow> ('d, 'z) csr_lib_scheme
   \<Rightarrow> (nat \<times> cell option list option \<times> ('d, 'z) csr_lib_scheme) option" where
  "load_imc_batch_for_each E offt loc isread opsize batchno s =
     (case loc of
        None \<Rightarrow> Some (0, None, libmsr_error_handler LIBMSR_ERROR_MSR_BATCH s)
      | Some loc \<Rightarrow> do {
          (loc, s) \<leftarrow> foldo (\<lambda>i (loc, s). do {
              (_, c, s) \<leftarrow> create_csr_batch_op (imc_op offt isread opsize i) batchno s;
              (case c of None \<Rightarrow> Some (loc, s) | Some p \<Rightarrow> do { loc \<leftarrow> aset loc i (Some p); Some (loc, s) })
            }) [0..<imc_count E] (loc, s);
          Some (imc_count E - 1, Some loc, s)
        })"

definition pmon_ctr_storage :: "'d env \<Rightarrow> ('d, 'z) imc_lib_scheme \<Rightarrow> pmonctrs_data \<times> ('d, 'z) imc_lib_scheme" where
  "pmon_ctr_storage E s =
     (case pcd s of
        Some p \<Rightarrow> (p, s)
      | None \<Rightarrow> let a = replicate (NUMCTRS * sockets (hw E)) None;
                    p = \<lparr>ctr = replicate 5 a, ctrcfg = replicate 5 a\<rparr>
                in (p, s\<lparr>pcd := Some p\<rparr>))"

definition pmonctr_global_storage :: "'d env \<Rightarrow> ('d, 'z) imc_lib_scheme \<Rightarrow> pmonctr_global \<times> ('d, 'z) imc_lib_scheme" where
  "pmonctr_global_storage E s =
     (case pgd s of
        Some p \<Rightarrow> (p, s)
      | None \<Rightarrow> let a = replicate (NUMCTRS * sockets (hw E)) None;
                    p = \<lparr>unitctrl = a, unitstatus = a\<rparr>
                in (p, s\<lparr>pgd := Some p\<rparr>))"

text \<open>Loading the registers \<open>regs\<close> into the first arrays of \<open>cs\<close>.\<close>

definition load_imc_regs ::
  "'d env \<Rightarrow> u64 list \<Rightarrow> u8 \<Rightarrow> u64 \<Rightarrow> nat \<Rightarrow> cell option list list \<Rightarrow> ('d, 'z) csr_lib_scheme
   \<Rightarrow> (cell option list list \<times> ('d, 'z) csr_lib_scheme) option" where
  "load_imc_regs E regs isread opsize batchno cs s =
     foldo (\<lambda>j (cs, s). do {
         (_, c, s) \<leftarrow> load_imc_batch_for_each E (regs ! j) (Some (cs ! j)) isread opsize batchno s;
         c \<leftarrow> c;
         Some (cs[j := c], s)
       }) [0..<length regs] (cs, s)"

definition init_pmon_ctrs :: "'d env \<Rightarrow> ('d, 'z) imc_lib_scheme \<Rightarrow> (int \<times> ('d, 'z) imc_lib_scheme) option" where
  "init_pmon_ctrs E s =
     (if pmon_inited s then Some (-1, s)
      else do {
        let s = s\<lparr>pmon_inited := True\<rparr>;
        let allocated = NUMCTRS * sockets (hw E);
        let (p, s) = pmon_ctr_storage E s;
        (_, s) \<leftarrow> allocate_csr_batch CSR_IMC_CTRS (allocated * 4) s;
        (_, s) \<leftarrow> allocate_csr_batch CSR_IMC_EVTS (allocated * 4) s;
        (cs, s) \<leftarrow> load_imc_regs E CSR_PMONCTR 1 8 CSR_IMC_CTRS (ctr p) s;
        (gs, s) \<leftarrow> load_imc_regs E CSR_PMONCTRCFG 0 4 CSR_IMC_EVTS (ctrcfg p) s;
        Some (int (10 * allocated), s\<lparr>pcd := Some \<lparr>ctr = cs, ctrcfg = gs\<rparr>\<rparr>)
      })"

definition init_pmonctr_global :: "'d env \<Rightarrow> ('d, 'z) imc_lib_scheme \<Rightarrow> (int \<times> ('d, 'z) imc_lib_scheme) option" where
  "init_pmonctr_global E s =
     (if global_inited s then Some (-1, s)
      else do {
        let s = s\<lparr>global_inited := True\<rparr>;
        let allocated = NUMCTRS * sockets (hw E);
        let (p, s) = pmonctr_global_storage E s;
        (_, s) \<leftarrow> allocate_csr_batch CSR_IMC_PMONUNITCTRL allocated s;
        (_, s) \<leftarrow> allocate_csr_batch CSR_IMC_PMONUNITSTAT allocated s;
        (_, c, s) \<leftarrow> load_imc_batch_for_each E CSR_PMONUNITCTRL (Some (unitctrl p)) 0 3 CSR_IMC_PMONUNITCTRL s;
        (_, d, s) \<leftarrow> load_imc_batch_for_each E CSR_PMONUNITSTAT (Some (unitstatus p)) 0 1 CSR_IMC_PMONUNITSTAT s;
        c \<leftarrow> c;
        d \<leftarrow> d;
        Some (int (2 * allocated), s\<lparr>pgd := Some \<lparr>unitctrl = c, unitstatus = d\<rparr>\<rparr>)
      })"

section \<open>Configuration\<close>

definition set_all_cells :: "'d env \<Rightarrow> u32 \<Rightarrow> cell option list \<Rightarrow> ('d, 'z) csr_lib_scheme \<Rightarrow> ('d, 'z) csr_lib_scheme option" where
  "set_all_cells E setting cfg =
     foldo (\<lambda>i s. do { p \<leftarrow> ptr cfg i; csr_set p (ucast setting) s }) [0..<NUMCTRS * sockets (hw E)]"

text \<open>\<open>!*cfg\<close> looks at the first pointer only.\<close>

definition set_pmon_config ::
  "'d env \<Rightarrow> u32 \<Rightarrow> cell option list \<Rightarrow> ('d, 'z) csr_lib_scheme \<Rightarrow> (int \<times> ('d, 'z) csr_lib_scheme) option" where
  "set_pmon_config E setting cfg s =
     do {
       p \<leftarrow> aget cfg 0;
       if p = None then Some (-1, libmsr_error_handler LIBMSR_ERROR_CSR_INIT s)
       else do { s \<leftarrow> set_all_cells E setting cfg s; Some (0, s) }
     }"

definition pmon_setting :: "u32 \<Rightarrow> u32 \<Rightarrow> u32 \<Rightarrow> u32 \<Rightarrow> u8 \<Rightarrow> u32" where
  "pmon_setting threshold ovf_en edge_det umask event =
     0 OR push_bit 24 threshold OR push_bit 22 1 OR push_bit 20 (ovf_en AND 1) OR push_bit 18 (edge_det AND 1)
     OR push_bit 17 1 OR push_bit 16 1 OR push_bit 8 umask OR ucast event"

definition pmon_config ::
  "'d env \<Rightarrow> 'd csr_driver \<Rightarrow> u32 \<Rightarrow> u32 \<Rightarrow> u32 \<Rightarrow> u32 \<Rightarrow> u8 \<Rightarrow> nat \<Rightarrow> ('d, 'z) imc_lib_scheme
   \<Rightarrow> (int \<times> ('d, 'z) imc_lib_scheme) option" where
  "pmon_config E drv threshold ovf_en edge_det umask event counter s =
     do {
       let (p, s) = pmon_ctr_storage E s;
       if counter \<le> 4
       then do {
         (ret0, s) \<leftarrow> set_pmon_config E (pmon_setting threshold ovf_en edge_det umask event) (ctrcfg p ! counter) s;
         (ret1, s) \<leftarrow> do_csr_batch_op drv CSR_IMC_EVTS s;
         Some (ret0 OR ret1, s)
       }
       else Some (-1, libmsr_error_handler LIBMSR_ERROR_CSR_COUNTERS s)
     }"

definition unit_setting :: "u32 \<Rightarrow> u16 \<Rightarrow> u16 \<Rightarrow> u16 \<Rightarrow> u8 \<Rightarrow> u32" where
  "unit_setting ovf_en freeze_en freeze reset reset_cfg =
     0 OR push_bit 17 ovf_en OR push_bit 16 (ucast freeze_en) OR push_bit 8 (ucast freeze)
     OR push_bit 1 (ucast reset) OR ucast reset_cfg"

definition set_pmon_unit_ctrl ::
  "'d env \<Rightarrow> 'd csr_driver \<Rightarrow> u32 \<Rightarrow> u16 \<Rightarrow> u16 \<Rightarrow> u16 \<Rightarrow> u8 \<Rightarrow> ('d, 'z) imc_lib_scheme
   \<Rightarrow> (int \<times> ('d, 'z) imc_lib_scheme) option" where
  "set_pmon_unit_ctrl E drv ovf_en freeze_en freeze reset reset_cfg s =
     do {
       let (p, s) = pmonctr_global_storage E s;
       s \<leftarrow> set_all_cells E (unit_setting ovf_en freeze_en freeze reset reset_cfg) (unitctrl p) s;
       do_csr_batch_op drv CSR_IMC_PMONUNITCTRL s
     }"

text \<open>The configurations of the measurements; counters 0 to 4 pass the checks.\<close>

definition mem_bw_on_ctr ::
  "'d env \<Rightarrow> 'd csr_driver \<Rightarrow> nat \<Rightarrow> int \<Rightarrow> ('d, 'z) imc_lib_scheme \<Rightarrow> (int \<times> ('d, 'z) imc_lib_scheme) option" where
  "mem_bw_on_ctr E drv counter type s =
     (if counter > 4 then Some (-1, libmsr_error_handler LIBMSR_ERROR_CSR_COUNTERS s)
      else if type = 0 then pmon_config E drv 0 0 0 UMASK_CAS_RD EVT_CAS_COUNT counter s
      else if type = 1 then pmon_config E drv 0 0 0 UMASK_CAS_WR EVT_CAS_COUNT counter s
      else if type = 2 then pmon_config E drv 0 0 0 UMASK_CAS_ALL EVT_CAS_COUNT counter s
      else Some (-1, libmsr_error_handler LIBMSR_ERROR_RUNTIME s))"

definition mem_pct_rw_on_ctr ::
  "'d env \<Rightarrow> 'd csr_driver \<Rightarrow> nat \<Rightarrow> nat \<Rightarrow> ('d, 'z) imc_lib_scheme \<Rightarrow> (int \<times> ('d, 'z) imc_lib_scheme) option" where
  "mem_pct_rw_on_ctr E drv rcounter wcounter s =
     (if rcounter > 4 \<or> wcounter > 4 then Some (-1, libmsr_error_handler LIBMSR_ERROR_CSR_COUNTERS s)
      else do {
        let s = (if rcounter = wcounter then libmsr_error_handler LIBMSR_ERROR_RUNTIME s else s);
        (r1, s) \<leftarrow> pmon_config E drv 0 0 0 0 EVT_RPQ_INSERTS rcounter s;
        (r2, s) \<leftarrow> pmon_config E drv 0 0 0 0 EVT_WPQ_INSERTS wcounter s;
        Some (0 OR r1 OR r2, s)
      })"

definition mem_page_empty_on_ctr ::
  "'d env \<Rightarrow> 'd csr_driver \<Rightarrow> nat \<Rightarrow> nat \<Rightarrow> nat \<Rightarrow> ('d, 'z) imc_lib_scheme \<Rightarrow> (int \<times> ('d, 'z) imc_lib_scheme) option" where
  "mem_page_empty_on_ctr E drv act_count pre_count cas_count s =
     (if act_count > 4 \<or> pre_count > 4 \<or> cas_count > 4 then Some (-1, libmsr_error_handler LIBMSR_ERROR_CSR_COUNTERS s)
      else do {
        let s = (if act_count = pre_count \<or> cas_count = pre_count \<or> cas_count = act_count
                 then libmsr_error_handler LIBMSR_ERROR_RUNTIME s else s);
        (r1, s) \<leftarrow> pmon_config E drv 0 0 0 UMASK_CAS_ALL EVT_CAS_COUNT cas_count s;
        (r2, s) \<leftarrow> pmon_config E drv 0 0 0 0xFF EVT_ACT_COUNT act_count s;
        (r3, s) \<leftarrow> pmon_config E drv 0 0 0 UMASK_PRE_PAGE_MISS EVT_PRE_COUNT pre_count s;
        Some (0 OR r1 OR r2 OR r3, s)
      })"

text \<open>The check names \<open>pre_count\<close> twice and \<open>cas_count\<close> never.\<close>

definition mem_page_miss_on_ctr ::
  "'d env \<Rightarrow> 'd csr_driver \<Rightarrow> nat \<Rightarrow> nat \<Rightarrow> ('d, 'z) imc_lib_scheme \<Rightarrow> (int \<times> ('d, 'z) imc_lib_scheme) option" where
  "mem_page_miss_on_ctr E drv pre_count cas_count s =
     (if pre_count > 4 \<or> pre_count > 4 then Some (-1, libmsr_error_handler LIBMSR_ERROR_CSR_COUNTERS s)
      else do {
        let s = (if pre_count = cas_count then libmsr_error_handler LIBMSR_ERROR_RUNTIME s else s);
        (r1, s) \<leftarrow> pmon_config E drv 0 0 0 UMASK_PRE_PAGE_MISS EVT_PRE_COUNT pre_count s;
        (r2, s) \<leftarrow> pmon_config E drv 0 0 0 UMASK_CAS_ALL EVT_CAS_COUNT cas_count s;
        Some (0 OR r1 OR r2, s)
      })"

section \<open>Measurements\<close>

definition read_imc_counter_batch ::
  "'d csr_driver \<Rightarrow> nat \<Rightarrow> ('d, 'z) csr_lib_scheme \<Rightarrow> (int \<times> ('d, 'z) csr_lib_scheme) option" where
  "read_imc_counter_batch drv counter s =
     (if counter \<le> 4 then do_csr_batch_op drv CSR_IMC_CTRS s
      else Some (-1, libmsr_error_handler LIBMSR_ERROR_CSR_COUNTERS s))"

text \<open>
  The loop that the printing functions share: the indices of device, function and socket go along,
  and each entry is printed with their names.
\<close>

definition print_channels ::
  "'d env \<Rightarrow> (nat \<Rightarrow> 'r option) \<Rightarrow> ((u8 \<times> u8 \<times> nat \<times> 'r) list) option" where
  "print_channels E g =
     map_option (\<lambda>(_, _, _, xs). xs)
       (foldo (\<lambda>i (devctr, func, sockctr, xs). do {
            let devctr = (if i > 0 \<and> i mod 4 = 0 then devctr + 1 else devctr) mod 2;
            let func = func mod 4;
            let sockctr = (if i > 0 \<and> i mod 8 = 0 then sockctr + 1 else sockctr);
            d \<leftarrow> aget [IMC0_DEV, IMC1_DEV] devctr;
            f \<leftarrow> aget [IMC_CH0_FUNC, IMC_CH1_FUNC, IMC_CH2_FUNC, IMC_CH3_FUNC] func;
            x \<leftarrow> g i;
            Some (devctr, func + 1, sockctr, xs @ [(d, f, sockctr, x)])
          }) [0..<NUMCTRS * sockets (hw E)] (0, 0, 0, []))"

text \<open>\<open>*c[i]\<close> for the counter number \<open>c\<close>; a number without a counter leaves the pointer NULL.\<close>

definition counter_at :: "pmonctrs_data \<Rightarrow> ('d, 'z) csr_lib_scheme \<Rightarrow> nat \<Rightarrow> nat \<Rightarrow> u64 option" where
  "counter_at p s c i = do { a \<leftarrow> aget (ctr p) c; q \<leftarrow> ptr a i; csr_get s q }"

text \<open>A quotient is printed as its two operands; a divisor of 0 is replaced by 1.\<close>

definition over :: "u64 \<Rightarrow> u64 \<Rightarrow> u64 \<times> u64" where
  "over a b = (a, if b \<noteq> 0 then b else 1)"

definition print_mem_bw_from_ctr ::
  "'d env \<Rightarrow> 'd csr_driver \<Rightarrow> nat \<Rightarrow> ('d, 'z) imc_lib_scheme
   \<Rightarrow> (int \<times> (u8 \<times> u8 \<times> nat \<times> u64) list \<times> ('d, 'z) imc_lib_scheme) option" where
  "print_mem_bw_from_ctr E drv counter s =
     do {
       let (p, s) = pmon_ctr_storage E s;
       (_, s) \<leftarrow> read_imc_counter_batch drv counter s;
       xs \<leftarrow> print_channels E (\<lambda>i. do { v \<leftarrow> counter_at p s counter i; Some (v * 64) });
       Some (0, xs, s)
     }"

definition print_mem_pct_rw_from_ctr ::
  "'d env \<Rightarrow> 'd csr_driver \<Rightarrow> nat \<Rightarrow> nat \<Rightarrow> int \<Rightarrow> ('d, 'z) imc_lib_scheme
   \<Rightarrow> (int \<times> (u8 \<times> u8 \<times> nat \<times> u64 \<times> u64) list \<times> ('d, 'z) imc_lib_scheme) option" where
  "print_mem_pct_rw_from_ctr E drv rcounter wcounter type s =
     do {
       let (p, s) = pmon_ctr_storage E s;
       (_, s) \<leftarrow> read_imc_counter_batch drv rcounter s;
       (_, s) \<leftarrow> read_imc_counter_batch drv wcounter s;
       xs \<leftarrow> print_channels E (\<lambda>i. do {
           r \<leftarrow> counter_at p s rcounter i;
           w \<leftarrow> counter_at p s wcounter i;
           Some (over (if type \<noteq> 0 then r else w) (r + w))
         });
       Some (0, xs, s)
     }"

definition print_mem_page_empty_from_ctr ::
  "'d env \<Rightarrow> 'd csr_driver \<Rightarrow> nat \<Rightarrow> nat \<Rightarrow> nat \<Rightarrow> ('d, 'z) imc_lib_scheme
   \<Rightarrow> (int \<times> (u8 \<times> u8 \<times> nat \<times> u64 \<times> u64) list \<times> ('d, 'z) imc_lib_scheme) option" where
  "print_mem_page_empty_from_ctr E drv act pre cas s =
     do {
       let (p, s) = pmon_ctr_storage E s;
       (_, s) \<leftarrow> read_imc_counter_batch drv act s;
       (_, s) \<leftarrow> read_imc_counter_batch drv pre s;
       (_, s) \<leftarrow> read_imc_counter_batch drv cas s;
       xs \<leftarrow> print_channels E (\<lambda>i. do {
           a \<leftarrow> counter_at p s act i;
           q \<leftarrow> counter_at p s pre i;
           c \<leftarrow> counter_at p s cas i;
           Some (over (a - q) c)
         });
       Some (0, xs, s)
     }"

definition print_mem_page_miss_from_ctr ::
  "'d env \<Rightarrow> 'd csr_driver \<Rightarrow> nat \<Rightarrow> nat \<Rightarrow> ('d, 'z) imc_lib_scheme
   \<Rightarrow> (int \<times> (u8 \<times> u8 \<times> nat \<times> u64 \<times> u64) list \<times> ('d, 'z) imc_lib_scheme) option" where
  "print_mem_page_miss_from_ctr E drv pre cas s =
     do {
       let (p, s) = pmon_ctr_storage E s;
       (_, s) \<leftarrow> read_imc_counter_batch drv pre s;
       (_, s) \<leftarrow> read_imc_counter_batch drv cas s;
       xs \<leftarrow> print_channels E (\<lambda>i. do {
           q \<leftarrow> counter_at p s pre i;
           c \<leftarrow> counter_at p s cas i;
           Some (over q c)
         });
       Some (0, xs, s)
     }"

text \<open>The check is on the result of the initialisation itself.\<close>

definition print_pmon_ctrs ::
  "'d env \<Rightarrow> 'd csr_driver \<Rightarrow> ('d, 'z) imc_lib_scheme
   \<Rightarrow> (int \<times> (u8 \<times> u8 \<times> nat \<times> u64 list) list \<times> ('d, 'z) imc_lib_scheme) option" where
  "print_pmon_ctrs E drv s =
     do {
       let (p, s) = pmon_ctr_storage E s;
       (r, s) \<leftarrow> init_pmon_ctrs E s;
       if r > 0 then Some (-1, [], libmsr_error_handler LIBMSR_ERROR_CSR_INIT s)
       else do {
         (_, s) \<leftarrow> do_csr_batch_op drv CSR_IMC_CTRS s;
         p \<leftarrow> pcd s;
         xs \<leftarrow> print_channels E (\<lambda>i. collect (\<lambda>c. do { v \<leftarrow> counter_at p s c i; Some [v] }) 5);
         Some (0, xs, s)
       }
     }"

end
