(* ===== verification/Csr_Props.thy ===== *)
theory Csr_Props
  imports Csr_Imc Sim_Window
begin

text \<open>
  The counters of the memory controllers: what the initialisation loads, and what that means for
  the functions that use it.  Witnesses for the uncore batches are here as well.
\<close>

section \<open>Loading\<close>

lemma imc_store:
  "(\<lambda>(loc, s). do {
       (_, c, s) \<leftarrow> create_csr_batch_op a b s;
       (case c of None \<Rightarrow> Some (loc, s) | Some p \<Rightarrow> do { loc \<leftarrow> aset loc i (Some p); Some (loc, s) })
     }) = csr_ops.store b a i"
  by (simp add: fun_eq_iff csr_ops.store_def)

lemma load_imc_ready:
  assumes "csr_ready b k s" "csr_numops (csr_batch s ! b) + imc_count E \<le> csr_bsize s ! b" "imc_count E \<le> length loc"
  shows "\<exists>loc' t. load_imc_batch_for_each E offt (Some loc) isread opsize b s = Some (imc_count E - 1, Some loc', t)
    \<and> csr_ops.stored b k (imc_op offt isread opsize) loc s (imc_count E) (loc', t)"
proof -
  have "\<exists>vs. foldo (\<lambda>i. csr_ops.store b (imc_op offt isread opsize i) i) [0..<imc_count E] (loc, s) = Some vs
      \<and> csr_ops.stored b k (imc_op offt isread opsize) loc s (imc_count E) vs"
    by (rule csr_ops.store_all [OF assms]) simp
  then show ?thesis by (fastforce simp: load_imc_batch_for_each_def imc_store)
qed

text \<open>The first \<open>q\<close> registers are loaded.\<close>

definition imc_loaded ::
  "nat \<Rightarrow> nat \<Rightarrow> nat \<Rightarrow> u64 list \<Rightarrow> u8 \<Rightarrow> u64 \<Rightarrow> cell option list list \<Rightarrow> nat \<Rightarrow> cell option list list
   \<Rightarrow> ('d, 'z) csr_lib_scheme \<Rightarrow> bool" where
  "imc_loaded b k m regs isread opsize cs0 q cs s \<longleftrightarrow>
     csr_ready b k s \<and> csr_numops (csr_batch s ! b) = q * m \<and> length cs = length cs0
     \<and> (\<forall>j<q. length (cs ! j) = length (cs0 ! j)
          \<and> (\<forall>i<m. cs ! j ! i = Some (k, j * m + i)
               \<and> csr_args (csr_op_at k s (j * m + i)) = csr_op_of (imc_op (regs ! j) isread opsize i) csr_batch_op0)
          \<and> (\<forall>i. m \<le> i \<longrightarrow> cs ! j ! i = cs0 ! j ! i))
     \<and> (\<forall>j. q \<le> j \<longrightarrow> cs ! j = cs0 ! j)"

lemma imc_loaded_step:
  assumes ld: "imc_loaded b k (imc_count E) regs isread opsize cs0 q cs s"
    and q: "q < length cs0" "imc_count E \<le> length (cs0 ! q)" "Suc q * imc_count E \<le> csr_bsize s ! b"
  shows "\<exists>c t. load_imc_batch_for_each E (regs ! q) (Some (cs ! q)) isread opsize b s = Some (imc_count E - 1, Some c, t)
    \<and> imc_loaded b k (imc_count E) regs isread opsize cs0 (Suc q) (cs[q := c]) t
    \<and> csr_frame b k t = csr_frame b k s \<and> csr_bsize t ! b = csr_bsize s ! b"
proof -
  let ?m = "imc_count E"
  have r: "csr_ready b k s" and n: "csr_numops (csr_batch s ! b) = q * ?m" and c0: "cs ! q = cs0 ! q" and lc: "length cs = length cs0"
    using ld by (simp_all add: imc_loaded_def)
  have "csr_numops (csr_batch s ! b) + ?m \<le> csr_bsize s ! b" "?m \<le> length (cs ! q)" using n q c0 by simp_all
  from load_imc_ready [OF r this, of "regs ! q" isread opsize] obtain c t where
    t: "load_imc_batch_for_each E (regs ! q) (Some (cs ! q)) isread opsize b s = Some (?m - 1, Some c, t)"
    and st: "csr_ops.stored b k (imc_op (regs ! q) isread opsize) (cs ! q) s ?m (c, t)" by blast
  from st have s1: "csr_ready b k t" "csr_numops (csr_batch t ! b) = Suc q * ?m" "csr_frame b k t = csr_frame b k s"
    "csr_bsize t ! b = csr_bsize s ! b" "length c = length (cs0 ! q)"
    "\<And>i. i < ?m \<Longrightarrow> c ! i = Some (k, q * ?m + i) \<and> csr_args (csr_op_at k t (q * ?m + i)) = csr_op_of (imc_op (regs ! q) isread opsize i) csr_batch_op0"
    "\<And>i. i < q * ?m \<Longrightarrow> csr_args (csr_op_at k t i) = csr_args (csr_op_at k s i)"
    "\<And>i. ?m \<le> i \<Longrightarrow> c ! i = cs0 ! q ! i"
    unfolding csr_ops.stored_def n c0 by auto
  have "imc_loaded b k ?m regs isread opsize cs0 (Suc q) (cs[q := c]) t"
    unfolding imc_loaded_def
  proof (intro conjI allI impI)
    fix j i assume j: "j < Suc q" and i: "i < ?m"
    show "cs[q := c] ! j ! i = Some (k, j * ?m + i)"
      using ld s1(6) [OF i] j i q(1) lc by (cases "j = q") (auto simp: imc_loaded_def)
    show "csr_args (csr_op_at k t (j * ?m + i)) = csr_op_of (imc_op (regs ! j) isread opsize i) csr_batch_op0"
      using ld s1(6) [OF i] s1(7) [OF block_index [of j q i ?m]] j i by (cases "j = q") (auto simp: imc_loaded_def)
  next
    fix j i assume "j < Suc q" "?m \<le> i"
    then show "cs[q := c] ! j ! i = cs0 ! j ! i"
      using ld s1(8) q(1) lc by (cases "j = q") (auto simp: imc_loaded_def)
  next
    fix j assume "j < Suc q"
    then show "length (cs[q := c] ! j) = length (cs0 ! j)"
      using ld s1(5) q(1) lc by (cases "j = q") (auto simp: imc_loaded_def)
  next
    fix j assume "Suc q \<le> j"
    then show "cs[q := c] ! j = cs0 ! j" using ld by (simp add: imc_loaded_def)
  qed (use s1 lc in simp_all)
  with t s1 show ?thesis by blast
qed

lemma load_imc_regs_ready:
  assumes "csr_ready b k s" "csr_numops (csr_batch s ! b) = 0" "length regs * imc_count E \<le> csr_bsize s ! b"
    and "length regs \<le> length cs0" "\<And>j. j < length regs \<Longrightarrow> imc_count E \<le> length (cs0 ! j)"
  shows "\<exists>cs t. load_imc_regs E regs isread opsize b cs0 s = Some (cs, t)
    \<and> imc_loaded b k (imc_count E) regs isread opsize cs0 (length regs) cs t \<and> csr_frame b k t = csr_frame b k s"
proof -
  let ?P = "\<lambda>q (cs, t). imc_loaded b k (imc_count E) regs isread opsize cs0 q cs t
    \<and> csr_frame b k t = csr_frame b k s \<and> csr_bsize t ! b = csr_bsize s ! b"
  let ?f = "\<lambda>j (cs, s). do {
         (_, c, s) \<leftarrow> load_imc_batch_for_each E (regs ! j) (Some (cs ! j)) isread opsize b s;
         c \<leftarrow> c;
         Some (cs[j := c], s)
       }"
  have "\<exists>v. ?f q u = Some v \<and> ?P (Suc q) v" if q: "q < length regs" and P: "?P q u" for q u
  proof -
    obtain cs t where u: "u = (cs, t)" by fastforce
    have "Suc q * imc_count E \<le> csr_bsize t ! b"
      using P u q assms(3) mult_le_mono1 [of "Suc q" "length regs" "imc_count E"] by simp
    with imc_loaded_step [of b k E regs isread opsize cs0 q cs t] P u q assms(4,5) show ?thesis by fastforce
  qed
  moreover have "?P 0 (cs0, s)" using assms(1,2) by (simp add: imc_loaded_def)
  ultimately obtain v where "foldo ?f [0..<length regs] (cs0, s) = Some v" "?P (length regs) v"
    using foldo_upt [of ?P "(cs0, s)" "length regs" ?f] by blast
  then show ?thesis by (cases v) (auto simp: load_imc_regs_def)
qed

section \<open>Initialisation\<close>

text \<open>The cells of an array of \<open>struct pmonctrs_data\<close> after the initialisation.\<close>

definition imc_wired :: "'d env \<Rightarrow> nat \<Rightarrow> nat \<Rightarrow> cell option list \<Rightarrow> bool" where
  "imc_wired E k j c \<longleftrightarrow> length c = NUMCTRS * sockets (hw E)
     \<and> (\<forall>i < NUMCTRS * sockets (hw E). c ! i = (if i < imc_count E then Some (k, j * imc_count E + i) else None))"

lemma csr_frameD:
  assumes "csr_frame n k t = csr_frame n k s" "csr_ready m l s" "m \<noteq> n" "l \<noteq> k"
  shows "csr_ready m l t" "csr_batch t ! m = csr_batch s ! m" "csr_blocks t ! l = csr_blocks s ! l" "csr_bsize t ! m = csr_bsize s ! m"
proof -
  have e: "csr_null t = csr_null s" "csr_arrsize t = csr_arrsize s" "csr_bsize t = csr_bsize s"
    and b: "(csr_batch t)[n := csr_batch_array0] = (csr_batch s)[n := csr_batch_array0]"
    and c: "(csr_blocks t)[k := None] = (csr_blocks s)[k := None]"
    using arg_cong [OF assms(1), of csr_null] arg_cong [OF assms(1), of csr_arrsize] arg_cong [OF assms(1), of csr_bsize]
      arg_cong [OF assms(1), of csr_batch] arg_cong [OF assms(1), of csr_blocks] by (simp_all add: csr_frame_def)
  show x: "csr_batch t ! m = csr_batch s ! m" using arg_cong [OF b, of "\<lambda>xs. xs ! m"] assms(3) by simp
  show y: "csr_blocks t ! l = csr_blocks s ! l" using arg_cong [OF c, of "\<lambda>xs. xs ! l"] assms(4) by simp
  have "length (csr_batch t) = length (csr_batch s)" "length (csr_blocks t) = length (csr_blocks s)"
    using arg_cong [OF b, of length] arg_cong [OF c, of length] by simp_all
  with e x y assms(2) show "csr_ready m l t" "csr_bsize t ! m = csr_bsize s ! m" by (simp_all add: csr_ready_def)
qed

lemma csr_frame_more:
  assumes "csr_frame n k t = csr_frame n k s" shows "csr_lib.more t = csr_lib.more s"
proof -
  have "csr_lib.more (csr_frame n k u) = csr_lib.more u" for u :: "('c, 'd) csr_lib_scheme"
    by (simp add: csr_frame_def)
  with assms show ?thesis by metis
qed

lemma allocate_csr_pair:
  assumes "csr_fresh n s" "csr_fresh n' s" "n \<noteq> n'"
  shows "\<exists>t u k k'. allocate_csr_batch n l s = Some (0, t) \<and> allocate_csr_batch n' l' t = Some (0, u)
    \<and> csr_lib.more u = csr_lib.more s
    \<and> csr_ready n k u \<and> csr_numops (csr_batch u ! n) = 0 \<and> csr_bsize u ! n = l
    \<and> csr_ready n' k' u \<and> csr_numops (csr_batch u ! n') = 0 \<and> csr_bsize u ! n' = l' \<and> k' \<noteq> k"
proof -
  obtain t where t: "allocate_csr_batch n l s = Some (0, t)" "csr_ready n (length (csr_blocks s)) t"
    "csr_numops (csr_batch t ! n) = 0" "csr_bsize t ! n = l" "csr_lib.more t = csr_lib.more s"
    "length (csr_blocks t) = Suc (length (csr_blocks s))" "csr_fresh n' t"
    using allocate_csr_fresh [OF assms(1), of l] assms(2,3) by metis
  obtain u where u: "allocate_csr_batch n' l' t = Some (0, u)" "csr_ready n' (length (csr_blocks t)) u"
    "csr_numops (csr_batch u ! n') = 0" "csr_bsize u ! n' = l'" "csr_lib.more u = csr_lib.more t"
    "csr_ready n (length (csr_blocks s)) u" "csr_batch u ! n = csr_batch t ! n" "csr_bsize u ! n = csr_bsize t ! n"
    using allocate_csr_fresh [OF t(7), of l'] t(2) assms(3) by metis
  have "length (csr_blocks t) \<noteq> length (csr_blocks s)" using t(6) by simp
  with t(1,3-5) u show ?thesis by metis
qed

lemma imc_lengths: "length CSR_PMONCTR = 4" "length CSR_PMONCTRCFG = 4"
  by (simp_all add: CSR_PMONCTR_def CSR_PMONCTRCFG_def)

text \<open>What the initialisation leaves: both batches hold the four registers of each place the code knows.\<close>

definition pmon_loaded :: "'d env \<Rightarrow> nat \<Rightarrow> nat \<Rightarrow> pmonctrs_data \<Rightarrow> ('d, 'z) imc_lib_scheme \<Rightarrow> bool" where
  "pmon_loaded E k l p t \<longleftrightarrow> pcd t = Some p \<and> pmon_inited t
    \<and> csr_ready CSR_IMC_CTRS k t \<and> csr_numops (csr_batch t ! CSR_IMC_CTRS) = 4 * imc_count E
    \<and> csr_ready CSR_IMC_EVTS l t \<and> csr_numops (csr_batch t ! CSR_IMC_EVTS) = 4 * imc_count E
    \<and> length (ctr p) = 5 \<and> length (ctrcfg p) = 5
    \<and> (\<forall>j<4. imc_wired E k j (ctr p ! j) \<and> imc_wired E l j (ctrcfg p ! j)
         \<and> (\<forall>i < imc_count E.
              csr_args (csr_op_at k t (j * imc_count E + i)) = csr_op_of (imc_op (CSR_PMONCTR ! j) 1 8 i) csr_batch_op0
              \<and> csr_args (csr_op_at l t (j * imc_count E + i)) = csr_op_of (imc_op (CSR_PMONCTRCFG ! j) 0 4 i) csr_batch_op0))
    \<and> ctr p ! 4 = replicate (NUMCTRS * sockets (hw E)) None \<and> ctrcfg p ! 4 = replicate (NUMCTRS * sockets (hw E)) None"

lemma init_pmon_ctrs_first:
  fixes s :: "('d, 'z) imc_lib_scheme"
  assumes fresh: "csr_fresh CSR_IMC_CTRS s" "csr_fresh CSR_IMC_EVTS s" and s: "\<not> pmon_inited s" "pcd s = None"
    and n: "0 < sockets (hw E)"
  shows "\<exists>t p k l. init_pmon_ctrs E s = Some (int (10 * (NUMCTRS * sockets (hw E))), t) \<and> pmon_loaded E k l p t"
proof -
  let ?a = "replicate (NUMCTRS * sockets (hw E)) None :: cell option list"
  let ?p = "\<lparr>ctr = replicate 5 ?a, ctrcfg = replicate 5 ?a\<rparr>"
  let ?s = "s\<lparr>pmon_inited := True, pcd := Some ?p\<rparr>"
  let ?C = CSR_IMC_CTRS and ?V = CSR_IMC_EVTS and ?m = "imc_count E" and ?N = "NUMCTRS * sockets (hw E)"
  have ne: "?V \<noteq> ?C" by (simp add: CSR_IMC_CTRS_def CSR_IMC_EVTS_def)
  have m: "?m \<le> ?N" using n by (auto simp: imc_count_def NUMCTRS_def)
  have fr: "csr_fresh ?C ?s" "csr_fresh ?V ?s" using fresh by (simp_all add: csr_fresh_def)
  obtain s1 s2 k l where s1: "allocate_csr_batch ?C (?N * 4) ?s = Some (0, s1)" and s2: "allocate_csr_batch ?V (?N * 4) s1 = Some (0, s2)"
    and more2: "csr_lib.more s2 = csr_lib.more ?s" and k2: "csr_ready ?C k s2" "csr_numops (csr_batch s2 ! ?C) = 0" "csr_bsize s2 ! ?C = ?N * 4"
    and l2: "csr_ready ?V l s2" "csr_numops (csr_batch s2 ! ?V) = 0" "csr_bsize s2 ! ?V = ?N * 4" and lk: "l \<noteq> k"
    using allocate_csr_pair [OF fr ne [symmetric], of "?N * 4" "?N * 4"] by blast
  have cap: "4 * ?m \<le> ?N * 4" using m by simp
  obtain cs s3 where s3: "load_imc_regs E CSR_PMONCTR 1 8 ?C (replicate 5 ?a) s2 = Some (cs, s3)"
    "imc_loaded ?C k ?m CSR_PMONCTR 1 8 (replicate 5 ?a) 4 cs s3" "csr_frame ?C k s3 = csr_frame ?C k s2"
    using load_imc_regs_ready [OF k2(1), of CSR_PMONCTR E "replicate 5 ?a" 1 8] k2(2,3) cap m
    unfolding imc_lengths by auto
  note f3 = csr_frameD [OF s3(3) l2(1) ne lk]
  obtain gs s4 where s4: "load_imc_regs E CSR_PMONCTRCFG 0 4 ?V (replicate 5 ?a) s3 = Some (gs, s4)"
    "imc_loaded ?V l ?m CSR_PMONCTRCFG 0 4 (replicate 5 ?a) 4 gs s4" "csr_frame ?V l s4 = csr_frame ?V l s3"
    using load_imc_regs_ready [OF f3(1), of CSR_PMONCTRCFG E "replicate 5 ?a" 0 4] f3(2,4) l2(2,3) cap m
    unfolding imc_lengths by auto
  have r3: "csr_ready ?C k s3" using s3(2) by (simp add: imc_loaded_def)
  note f4 = csr_frameD [OF s4(3) r3 ne [symmetric] lk [symmetric]]
  let ?t = "s4\<lparr>pcd := Some \<lparr>ctr = cs, ctrcfg = gs\<rparr>\<rparr>"
  have more: "csr_lib.more s4 = csr_lib.more ?s"
    using csr_frame_more [OF s3(3)] csr_frame_more [OF s4(3)] more2 by simp
  have "init_pmon_ctrs E s = Some (int (10 * ?N), ?t)"
    using s s1 s2 s3(1) s4(1) by (simp add: init_pmon_ctrs_def pmon_ctr_storage_def Let_def)
  moreover have "pmon_inited ?t" using more by (cases s4; cases s) simp
  moreover have "csr_ready ?C k ?t" "csr_ready ?V l ?t" "csr_numops (csr_batch ?t ! ?C) = 4 * ?m" "csr_numops (csr_batch ?t ! ?V) = 4 * ?m"
    using s3(2) s4(2) f4 by (simp_all add: imc_loaded_def csr_ready_def)
  moreover have "csr_op_at k ?t = csr_op_at k s3" "csr_op_at l ?t = csr_op_at l s4"
    using f4(3) by (simp_all add: csr_op_at_def fun_eq_iff)
  moreover have "length cs = 5" "length gs = 5" using s3(2) s4(2) by (simp_all add: imc_loaded_def)
  moreover have "imc_wired E k j (cs ! j) \<and> imc_wired E l j (gs ! j)" if "j < 4" for j
    using that s3(2) s4(2) by (simp add: imc_loaded_def imc_wired_def)
  moreover have "cs ! 4 = ?a" "gs ! 4 = ?a" using s3(2) s4(2) by (simp_all add: imc_loaded_def)
  ultimately show ?thesis
    using s3(2) s4(2) unfolding imc_loaded_def pmon_loaded_def
    by (intro exI [of _ ?t] exI [of _ "\<lparr>ctr = cs, ctrcfg = gs\<rparr>"] exI [of _ k] exI [of _ l]) simp
qed

text \<open>C25: the first init_pmon_ctrs on unused batches returns 10 * 8 * sockets and loads both batches
  with the four registers of each of the places it knows: eight per socket for the first two
  sockets.  The entries of further sockets, and the fifth counter of every place, stay NULL
  (\<open>pmon_loaded\<close>).  Every later call returns -1 and changes nothing.
\<close>

theorem init_pmon_ctrs_loads:
  assumes "csr_fresh CSR_IMC_CTRS s" "csr_fresh CSR_IMC_EVTS s" "\<not> pmon_inited s" "pcd s = None" "0 < sockets (hw E)"
  shows "\<exists>t p k l. init_pmon_ctrs E s = Some (int (10 * (NUMCTRS * sockets (hw E))), t) \<and> pmon_loaded E k l p t
    \<and> init_pmon_ctrs E t = Some (-1, t)"
proof -
  have "init_pmon_ctrs E t = Some (-1, t)" if "pmon_loaded E k l p t" for k l p t
    using that by (simp add: pmon_loaded_def init_pmon_ctrs_def)
  with init_pmon_ctrs_first [OF assms] show ?thesis by blast
qed

section \<open>Configuration\<close>

text \<open>The operations of the \<open>c\<close>-th register, with their data set to \<open>v\<close>.\<close>

definition data_set :: "nat \<Rightarrow> nat \<Rightarrow> u64 \<Rightarrow> csr_batch_op list \<Rightarrow> csr_batch_op list \<Rightarrow> bool" where
  "data_set b m v xs ys \<longleftrightarrow> length ys = length xs
     \<and> (\<forall>q < length xs. ys ! q = (if b \<le> q \<and> q < b + m then (xs ! q)\<lparr>csr_csrdata := v\<rparr> else xs ! q))"

lemma set_cells_loop:
  assumes "\<And>i. i < m \<Longrightarrow> ptr cfg i = Some (l, b + i)" "l < length (csr_blocks s)" "csr_blocks s ! l = Some xs" "b + m \<le> length xs"
  shows "\<exists>ys. foldo (\<lambda>i s. do { p \<leftarrow> ptr cfg i; csr_set p v s }) [0..<m] s
      = Some (s\<lparr>csr_blocks := (csr_blocks s)[l := Some ys]\<rparr>) \<and> data_set b m v xs ys"
proof -
  let ?P = "\<lambda>i t. \<exists>ys. t = s\<lparr>csr_blocks := (csr_blocks s)[l := Some ys]\<rparr> \<and> data_set b i v xs ys"
  have "(csr_blocks s)[l := Some xs] = csr_blocks s" using assms(2,3) by (simp add: list_update_same_conv)
  then have "s = s\<lparr>csr_blocks := (csr_blocks s)[l := Some xs]\<rparr>" by simp
  moreover have "data_set b 0 v xs xs" by (auto simp: data_set_def)
  ultimately have "?P 0 s" by blast
  moreover have "\<exists>u. (do { p \<leftarrow> ptr cfg i; csr_set p v t }) = Some u \<and> ?P (Suc i) u" if i: "i < m" and P: "?P i t" for i t
  proof -
    from P obtain ys where t: "t = s\<lparr>csr_blocks := (csr_blocks s)[l := Some ys]\<rparr>" and ys: "data_set b i v xs ys" by blast
    let ?zs = "ys[b + i := (ys ! (b + i))\<lparr>csr_csrdata := v\<rparr>]"
    have "b + i < length ys" using ys i assms(4) by (simp add: data_set_def)
    then have "(do { p \<leftarrow> ptr cfg i; csr_set p v t }) = Some (s\<lparr>csr_blocks := (csr_blocks s)[l := Some ?zs]\<rparr>)"
      using assms(1) [OF i] assms(2) by (simp add: csr_set_def t)
    moreover have "data_set b (Suc i) v xs ?zs"
      using ys i assms(4) by (auto simp: data_set_def nth_list_update)
    ultimately show ?thesis by blast
  qed
  ultimately show ?thesis
    using foldo_upt [of ?P s m "\<lambda>i s. do { p \<leftarrow> ptr cfg i; csr_set p v s }"] by blast
qed

lemma do_csr_run:
  assumes "csr_ready n k s" "0 < csr_numops (csr_batch s ! n)"
    and "drv (if csr_batchfd s = 0 then csrsafe s else csr_batchfd s) (take (csr_numops (csr_batch s ! n)) (the (csr_blocks s ! k))) (dev s)
      = (res, ys, d)"
  shows "\<exists>t. do_csr_batch_op drv n s = Some (0, t) \<and> dev t = d \<and> csr_lib.more t = csr_lib.more s"
proof -
  let ?fd = "if csr_batchfd s = 0 then csrsafe s else csr_batchfd s"
  let ?s = "s\<lparr>csr_batchfd := ?fd\<rparr>"
  have s: "(if csr_batchfd s = 0 then s\<lparr>csr_batchfd := csrsafe s\<rparr> else s) = ?s" by simp
  have r: "csr_ready n k ?s" using assms(1) by (simp add: csr_ready_def)
  from assms(1) obtain xs where xs: "csr_blocks s ! k = Some xs" "k < length (csr_blocks s)" "n < length (csr_batch s)"
    "csr_ops (csr_batch s ! n) = Some k" by (auto simp: csr_ready_def)
  then have d: "drv ?fd (take (csr_numops (csr_batch s ! n)) xs) (dev s) = (res, ys, d)" using assms(3) by simp
  let ?u = "?s\<lparr>dev := d, csr_blocks := (csr_blocks s)[k := Some (ys @ drop (csr_numops (csr_batch s ! n)) xs)]\<rparr>"
  have "do_csr_batch_op drv n s = Some (0, if res < 0 then libmsr_error_handler LIBMSR_ERROR_MSR_BATCH ?u else ?u)"
    using assms(2) xs d unfolding do_csr_batch_op_def s by (simp add: csr_storage_ready [OF r] Let_def)
  then show ?thesis by (simp add: libmsr_error_handler_def)
qed

text \<open>C26: on a machine with one or two sockets, pmon_config for one of the counters 0 to 3 hands the
  driver the whole batch of configurations with the setting in the registers of that counter and
  nothing else changed, and returns 0.
\<close>

theorem pmon_config_writes_setting:
  fixes s :: "('d, 'z) imc_lib_scheme"
  assumes r: "csr_ready CSR_IMC_EVTS l s" "csr_numops (csr_batch s ! CSR_IMC_EVTS) = 4 * imc_count E"
    and p: "pcd s = Some p" "imc_wired E l c (ctrcfg p ! c)" and c: "c < 4" and n: "0 < sockets (hw E)" "sockets (hw E) \<le> 2"
  shows "\<exists>ys t. pmon_config E drv threshold ovf_en edge_det umask event c s = Some (0, t)
    \<and> data_set (c * imc_count E) (imc_count E) (ucast (pmon_setting threshold ovf_en edge_det umask event))
        (take (4 * imc_count E) (the (csr_blocks s ! l))) ys
    \<and> dev t = snd (snd (drv (if csr_batchfd s = 0 then csrsafe s else csr_batchfd s) ys (dev s)))"
proof -
  let ?m = "imc_count E" and ?v = "pmon_setting threshold ovf_en edge_det umask event" and ?V = CSR_IMC_EVTS
  have m: "NUMCTRS * sockets (hw E) = ?m" "0 < ?m"
    using n by (auto simp: imc_count_def NUMCTRS_def)
  from r obtain xs where xs: "csr_blocks s ! l = Some xs" "l < length (csr_blocks s)" "4 * ?m \<le> length xs"
    by (auto simp: csr_ready_def)
  have q: "c * ?m + ?m \<le> 4 * ?m" using c mult_le_mono1 [of "Suc c" 4 ?m] by simp
  have w: "ptr (ctrcfg p ! c) i = Some (l, c * ?m + i)" if "i < ?m" for i
    using p(2) that m by (simp add: imc_wired_def ptr_def)
  obtain zs where zs: "foldo (\<lambda>i s. do { p \<leftarrow> ptr (ctrcfg p ! c) i; csr_set p (ucast ?v) s }) [0..<?m] s
      = Some (s\<lparr>csr_blocks := (csr_blocks s)[l := Some zs]\<rparr>)" "data_set (c * ?m) ?m (ucast ?v) xs zs"
    using set_cells_loop [of ?m "ctrcfg p ! c" l "c * ?m" s xs "ucast ?v"] w xs q by auto
  let ?s = "s\<lparr>csr_blocks := (csr_blocks s)[l := Some zs]\<rparr>"
  have set: "set_pmon_config E ?v (ctrcfg p ! c) s = Some (0, ?s)"
    using p(2) m w [of 0] zs(1) by (simp add: set_pmon_config_def set_all_cells_def imc_wired_def ptr_def)
  have len: "length zs = length xs" using zs(2) by (simp add: data_set_def)
  have r': "csr_ready ?V l ?s" "csr_numops (csr_batch ?s ! ?V) = 4 * ?m"
    using r xs len by (simp_all add: csr_ready_def)
  let ?ys = "take (4 * ?m) zs"
  obtain res ws d where drv: "drv (if csr_batchfd s = 0 then csrsafe s else csr_batchfd s) ?ys (dev s) = (res, ws, d)"
    by (cases "drv (if csr_batchfd s = 0 then csrsafe s else csr_batchfd s) ?ys (dev s)") auto
  have "drv (if csr_batchfd ?s = 0 then csrsafe ?s else csr_batchfd ?s) (take (csr_numops (csr_batch ?s ! ?V)) (the (csr_blocks ?s ! l))) (dev ?s)
      = (res, ws, d)"
    using drv r'(2) xs(2) by (cases "csr_batchfd s = 0") simp_all
  from do_csr_run [where drv = drv, OF r'(1) _ this] r'(2) m(2) have "\<exists>t. do_csr_batch_op drv ?V ?s = Some (0, t) \<and> dev t = d" by auto
  then obtain t where t: "do_csr_batch_op drv ?V ?s = Some (0, t)" "dev t = d" by blast
  have "pmon_config E drv threshold ovf_en edge_det umask event c s = Some (0, t)"
    using p(1) c set t(1) by (simp add: pmon_config_def pmon_ctr_storage_def)
  moreover have "data_set (c * ?m) ?m (ucast ?v) (take (4 * ?m) (the (csr_blocks s ! l))) ?ys"
    using zs(2) xs by (simp add: data_set_def)
  ultimately show ?thesis using t(2) drv by auto
qed

text \<open>on a machine with three sockets or more, configuring one of the counters 0 to 3 follows a
  NULL pointer: set_pmon_config checks the first pointer only, and the initialisation sets those
  of two sockets.
\<close>

theorem pmon_config_three_sockets:
  assumes "pcd s = Some p" "imc_wired E l c (ctrcfg p ! c)" "c < 4" "2 < sockets (hw E)"
  shows "pmon_config E drv threshold ovf_en edge_det umask event c s = None"
proof -
  have m: "imc_count E = 16" "16 < NUMCTRS * sockets (hw E)" using assms(4) by (simp_all add: imc_count_def NUMCTRS_def)
  have "ptr (ctrcfg p ! c) 16 = None" "aget (ctrcfg p ! c) 0 = Some (Some (l, c * imc_count E))"
  proof -
    have i: "ctrcfg p ! c ! i = (if i < 16 then Some (l, c * imc_count E + i) else None)" if "i < NUMCTRS * sockets (hw E)" for i
      using assms(2) that unfolding imc_wired_def m(1) by blast
    have "length (ctrcfg p ! c) = NUMCTRS * sockets (hw E)" using assms(2) by (simp add: imc_wired_def)
    moreover have "0 < NUMCTRS * sockets (hw E)" using m(2) by linarith
    ultimately show "ptr (ctrcfg p ! c) 16 = None" "aget (ctrcfg p ! c) 0 = Some (Some (l, c * imc_count E))"
      using i [of 0] i [of 16] m(2) by (simp_all add: ptr_def aget_def)
  qed
  moreover from this(1) have "set_all_cells E v (ctrcfg p ! c) s = None" for v
    unfolding set_all_cells_def by (intro foldo_None [of 16]) (use m in simp_all)
  ultimately show ?thesis using assms(1,3) by (simp add: pmon_config_def pmon_ctr_storage_def set_pmon_config_def)
qed

section \<open>Printing the counters\<close>

lemma csr_storage_more: "csr_lib.more (csr_batch_storage n s) = csr_lib.more s"
  by (simp add: csr_batch_storage_def Let_def)

lemma do_csr_more:
  assumes "do_csr_batch_op drv n s = Some (r, t)" shows "csr_lib.more t = csr_lib.more s"
  using assms
  by (auto simp: do_csr_batch_op_def Let_def libmsr_error_handler_def csr_storage_more split: bind_splits if_splits prod.splits)

text \<open>The printing of all five counters follows a NULL pointer where the fifth was never set.\<close>

lemma print_pmon_ctrs_undefined:
  assumes "pmon_inited s" "pcd s = Some p" "ctr p ! 4 = replicate (NUMCTRS * sockets (hw E)) None" "0 < sockets (hw E)"
  shows "print_pmon_ctrs E drv s = None"
proof -
  have "collect (\<lambda>c. do { v \<leftarrow> counter_at p u c 0; Some [v] }) 5 = None" for u :: "('a, 'b) imc_lib_scheme"
    unfolding collect_def by (rule foldo_None [of 4]) (use assms in \<open>auto simp: NUMCTRS_def counter_at_def ptr_def aget_def split: bind_splits\<close>)
  then have "print_channels E (\<lambda>i. collect (\<lambda>c. do { v \<leftarrow> counter_at p u c i; Some [v] }) 5) = None" for u :: "('a, 'b) imc_lib_scheme"
    unfolding print_channels_def using assms(4)
    by (subst foldo_None [of 0]) (auto simp: NUMCTRS_def Let_def aget_def split: bind_splits)
  moreover have "pcd u = Some p" if "do_csr_batch_op drv CSR_IMC_CTRS s = Some (r', u)" for r' u
    using do_csr_more [OF that] assms(2) by (cases u; cases s) simp
  ultimately show ?thesis using assms(1,2)
    by (auto simp: print_pmon_ctrs_def pmon_ctr_storage_def init_pmon_ctrs_def Let_def split: bind_splits)
qed


section \<open>Witnesses\<close>

text \<open>
  The library before any uncore register is used, on the machine of \<open>Msr_Sim\<close>; a driver that
  fails, and one that leaves the operations as they are.
\<close>

definition sim_csr :: "sim imc_lib" where
  "sim_csr = csr_lib.extend (sim_lib (csr_lib.fields 0 False 0 True 1 [] [] [])) (imc_lib.fields None None False False)"

definition bad_driver :: "sim csr_driver" where
  "bad_driver fd xs d = (-1, xs, d)"

definition still_driver :: "sim csr_driver" where
  "still_driver fd xs d = (0, xs, d)"

lemma sim_csr_simps [simp]:
  "csr_null sim_csr" "csr_arrsize sim_csr = 1" "csr_batch sim_csr = []" "csr_bsize sim_csr = []" "csr_blocks sim_csr = []"
  "csrsafe sim_csr = 0" "csr_batchfd sim_csr = 0" "pcd sim_csr = None" "pgd sim_csr = None" "\<not> pmon_inited sim_csr"
  "stderr sim_csr = []"
  by (simp_all add: sim_csr_def sim_lib_def csr_lib.defs imc_lib.defs)

lemma sim_csr_fresh: "csr_fresh n sim_csr"
  by (simp add: csr_fresh_def)

text \<open>Batch 0 with room for two operations, and one operation in it.\<close>

lemma sim_csr_one:
  "\<exists>s k. csr_ready 0 k (s :: sim imc_lib) \<and> csr_numops (csr_batch s ! 0) = 1 \<and> csr_bsize s ! 0 = 2 \<and> free_csr_batch 0 s \<noteq> None"
proof -
  obtain s k where s: "csr_ready 0 k (s :: sim imc_lib)" "csr_numops (csr_batch s ! 0) = 0" "csr_bsize s ! 0 = 2"
    using allocate_csr_fresh [OF sim_csr_fresh, of 0 2] by blast
  then obtain t :: "sim imc_lib" where t: "csr_ready 0 k t" "csr_numops (csr_batch t ! 0) = 1" "csr_bsize t ! 0 = 2"
    using create_csr_ready [OF s(1), of "imc_op 0 0 0 0"] by auto
  moreover have "free_csr_batch 0 t \<noteq> None"
    using t csr_storage_ready [OF t(1)] by (auto simp: free_csr_batch_def csr_ready_def Let_def split: option.splits)
  ultimately show ?thesis by blast
qed

theorem create_csr_bounded_witness:
  "\<exists>s k t. csr_ready 0 k (s :: sim imc_lib) \<and> create_csr_batch_op (imc_op 0xA0 1 8 0) 0 s = Some (0, Some (k, 1), t)"
proof -
  obtain s k where s: "csr_ready 0 k (s :: sim imc_lib)" "csr_numops (csr_batch s ! 0) = 1" "csr_bsize s ! 0 = 2"
    using sim_csr_one by blast
  from create_csr_bounded [OF s(1), of "imc_op 0xA0 1 8 0"] s(2,3) s(1) show ?thesis by auto
qed

theorem allocate_csr_once_witness:
  "\<exists>(s :: sim imc_lib) r t. free_csr_batch 0 s = Some (r, t) \<and> allocate_csr_batch 0 2 t = None"
proof -
  obtain s k where s: "csr_ready 0 k (s :: sim imc_lib)" "csr_numops (csr_batch s ! 0) = 1" "free_csr_batch 0 s \<noteq> None"
    using sim_csr_one by blast
  then obtain r t where "free_csr_batch 0 s = Some (r, t)" by auto
  with allocate_csr_once [OF s(1), of 2] s(2) show ?thesis by auto
qed

theorem do_csr_witness:
  "\<exists>(s :: sim imc_lib) t. do_csr_batch_op bad_driver 0 s = Some (0, t) \<and> stderr t = stderr s @ [LIBMSR_ERROR_MSR_BATCH]"
proof -
  obtain s k where s: "csr_ready 0 k (s :: sim imc_lib)" "csr_numops (csr_batch s ! 0) = 1"
    using sim_csr_one by blast
  with do_csr_hides_failure [OF s(1), of bad_driver] show ?thesis by (auto simp: bad_driver_def)
qed

theorem init_pmon_ctrs_witness:
  "\<exists>t. init_pmon_ctrs (sim_env True) sim_csr = Some (160, t) \<and> csr_numops (csr_batch t ! CSR_IMC_CTRS) = 64"
proof -
  have "imc_count (sim_env True) = 16" by (simp add: imc_count_def)
  with init_pmon_ctrs_loads [OF sim_csr_fresh sim_csr_fresh, of "sim_env True"] show ?thesis
    by (auto simp: NUMCTRS_def pmon_loaded_def)
qed

text \<open>After the initialisation on a machine with \<open>n\<close> sockets, as far as the configurations go.\<close>

definition sim_imc :: "nat \<Rightarrow> sim imc_lib" where
  "sim_imc n = sim_csr\<lparr>csr_null := False, csr_arrsize := 2, csr_batch := [csr_batch_array0, \<lparr>csr_numops = 64, csr_ops = Some 0\<rparr>],
     csr_bsize := [8, 8 * n * 4], csr_blocks := [Some (replicate (8 * n * 4) csr_batch_op0)],
     pcd := Some \<lparr>ctr = replicate 5 [None],
       ctrcfg = map (\<lambda>j. map (\<lambda>i. if i < 16 then Some (0, j * 16 + i) else None) [0..<8 * n]) [0..<5]\<rparr>\<rparr>"

definition sim_sockets :: "nat \<Rightarrow> sim env" where
  "sim_sockets n = (sim_env True)\<lparr>hw := sim_hw\<lparr>nb_sockets := int n\<rparr>\<rparr>"

lemma sim_sockets_num [simp]: "sockets (hw (sim_sockets n)) = n"
  by (simp add: sim_sockets_def sockets_def)

lemma sim_imc_wired:
  assumes "1 < n" "j < 5"
  shows "\<exists>p. pcd (sim_imc n) = Some p \<and> imc_wired (sim_sockets n) 0 j (ctrcfg p ! j)"
  using assms by (simp add: sim_imc_def imc_wired_def imc_count_def NUMCTRS_def)

theorem pmon_config_witness:
  "\<exists>ys t. pmon_config (sim_sockets 2) still_driver 0 0 0 UMASK_CAS_RD EVT_CAS_COUNT 1 (sim_imc 2) = Some (0, t)
     \<and> data_set 16 16 (ucast (pmon_setting 0 0 0 UMASK_CAS_RD EVT_CAS_COUNT)) (replicate 64 csr_batch_op0) ys"
proof -
  have c: "imc_count (sim_sockets 2) = 16" by (simp add: imc_count_def)
  obtain p where p: "pcd (sim_imc 2) = Some p" "imc_wired (sim_sockets 2) 0 1 (ctrcfg p ! 1)"
    using sim_imc_wired [of 2 1] by auto
  have r: "csr_ready CSR_IMC_EVTS 0 (sim_imc 2)" "csr_numops (csr_batch (sim_imc 2) ! CSR_IMC_EVTS) = 4 * imc_count (sim_sockets 2)"
    by (simp_all add: csr_ready_def sim_imc_def CSR_IMC_EVTS_def c)
  have b: "csr_blocks (sim_imc 2) ! 0 = Some (replicate 64 csr_batch_op0)" by (simp add: sim_imc_def)
  show ?thesis
    using pmon_config_writes_setting [OF r p, of still_driver 0 0 0 UMASK_CAS_RD EVT_CAS_COUNT] unfolding b c by auto
qed

theorem pmon_config_three_sockets_witness:
  "pmon_config (sim_sockets 3) still_driver 0 0 0 UMASK_CAS_RD EVT_CAS_COUNT 1 (sim_imc 3) = None"
proof -
  obtain p where p: "pcd (sim_imc 3) = Some p" "imc_wired (sim_sockets 3) 0 1 (ctrcfg p ! 1)"
    using sim_imc_wired [of 3 1] by auto
  show ?thesis by (rule pmon_config_three_sockets [OF p]) simp_all
qed


end
