(* ===== verification/Batch_Refine.thy ===== *)
theory Batch_Refine
  imports Batch_View Sim_Window
begin

text \<open>
  What the library promises about registers, and that it keeps the promise.  The specification
  knows the registers of the machine and one buffer per batch: fetching a batch fills its
  buffer with the registers the batch stands for, storing it writes the buffer back, a pointer
  into the batch reads and writes one entry of the buffer, and a single access goes to the
  register itself.  The library implements it with descriptors, operation arrays on the heap,
  and a driver or a loop of single accesses; any sequence of operations on any number of loaded
  batches gives the same results as the specification.
\<close>

section \<open>Refinement by simulation\<close>

fun spec_run :: "('c \<Rightarrow> 'a \<Rightarrow> 'o \<times> 'a) \<Rightarrow> 'c list \<Rightarrow> 'a \<Rightarrow> 'o list \<times> 'a" where
  "spec_run f [] a = ([], a)"
| "spec_run f (c # cs) a =
     (case f c a of (x, a) \<Rightarrow> case spec_run f cs a of (xs, a) \<Rightarrow> (x # xs, a))"

fun impl_run :: "('c \<Rightarrow> 's \<Rightarrow> ('o \<times> 's) option) \<Rightarrow> 'c list \<Rightarrow> 's \<Rightarrow> ('o list \<times> 's) option" where
  "impl_run f [] s = Some ([], s)"
| "impl_run f (c # cs) s = do { (x, s) \<leftarrow> f c s; (xs, s) \<leftarrow> impl_run f cs s; Some (x # xs, s) }"

locale simulation =
  fixes rel :: "'s \<Rightarrow> 'a \<Rightarrow> bool" and wf :: "'c \<Rightarrow> bool"
    and spec :: "'c \<Rightarrow> 'a \<Rightarrow> 'o \<times> 'a" and impl :: "'c \<Rightarrow> 's \<Rightarrow> ('o \<times> 's) option"
  assumes step_ok: "rel s a \<Longrightarrow> wf c \<Longrightarrow> \<exists>t. impl c s = Some (fst (spec c a), t) \<and> rel t (snd (spec c a))"
begin

lemma run_ok:
  "rel s a \<Longrightarrow> \<forall>c\<in>set cs. wf c \<Longrightarrow> \<exists>t. impl_run impl cs s = Some (fst (spec_run spec cs a), t) \<and> rel t (snd (spec_run spec cs a))"
proof (induction cs arbitrary: s a)
  case Nil
  then show ?case by simp
next
  case (Cons c cs)
  obtain t where t: "impl c s = Some (fst (spec c a), t)" "rel t (snd (spec c a))"
    using step_ok [OF Cons.prems(1)] Cons.prems(2) by auto
  from Cons.IH [OF this(2)] Cons.prems(2) obtain u where
    "impl_run impl cs t = Some (fst (spec_run spec cs (snd (spec c a))), u)" "rel u (snd (spec_run spec cs (snd (spec c a))))"
    by auto
  with t(1) show ?case by (simp add: split_beta)
qed

end

section \<open>The register machine\<close>

datatype reg_cmd = Fetch nat | Store nat | Poke nat nat u64 | Peek nat nat | Read nat u64 | Write nat u64 u64

record reg_spec =
  spec_reg :: "int \<times> u64 \<Rightarrow> u64"
  spec_buf :: "nat \<Rightarrow> u64 list"

definition store_all :: "(int \<times> u64) list \<Rightarrow> u64 list \<Rightarrow> (int \<times> u64 \<Rightarrow> u64) \<Rightarrow> int \<times> u64 \<Rightarrow> u64" where
  "store_all ks vs r = fold (\<lambda>(k, v) r. r(k := v)) (zip ks vs) r"

lemma store_all_nth:
  "distinct ks \<Longrightarrow> length vs = length ks \<Longrightarrow> i < length ks \<Longrightarrow> store_all ks vs r (ks ! i) = vs ! i"
  "x \<notin> set ks \<Longrightarrow> store_all ks vs r x = r x"
proof -
  show out: "store_all ks vs r x = r x" if "x \<notin> set ks" for ks vs r x
    using that
  proof (induction ks arbitrary: vs r)
    case (Cons k ks)
    then show ?case by (cases vs) (auto simp: store_all_def)
  qed (simp add: store_all_def)
  show "store_all ks vs r (ks ! i) = vs ! i" if "distinct ks" "length vs = length ks" "i < length ks"
    using that
  proof (induction ks arbitrary: vs r i)
    case (Cons k ks)
    obtain v ws where vs: "vs = v # ws" using Cons.prems(2) by (cases vs) auto
    have "store_all (k # ks) vs r = store_all ks ws (r(k := v))" by (simp add: store_all_def vs)
    with Cons vs out [of k ks ws "r(k := v)"] show ?case by (cases i) auto
  qed simp
qed

fun spec_step :: "(nat \<Rightarrow> int) \<Rightarrow> (nat \<Rightarrow> (int \<times> u64) list) \<Rightarrow> reg_cmd \<Rightarrow> reg_spec \<Rightarrow> (int \<times> u64) \<times> reg_spec" where
  "spec_step fd K (Fetch n) a = ((0, 0), a\<lparr>spec_buf := (spec_buf a)(n := map (spec_reg a) (K n))\<rparr>)"
| "spec_step fd K (Store n) a = ((0, 0), a\<lparr>spec_reg := store_all (K n) (spec_buf a n) (spec_reg a)\<rparr>)"
| "spec_step fd K (Poke n i v) a = ((0, 0), a\<lparr>spec_buf := (spec_buf a)(n := (spec_buf a n)[i := v])\<rparr>)"
| "spec_step fd K (Peek n i) a = ((0, spec_buf a n ! i), a)"
| "spec_step fd K (Read i r) a = ((0, spec_reg a (fd i, r)), a)"
| "spec_step fd K (Write i r v) a = ((0, 0), a\<lparr>spec_reg := (spec_reg a)((fd i, r) := v)\<rparr>)"

text \<open>The same commands run by the library; \<open>bl n\<close> is the block of batch \<open>n\<close>.\<close>

fun lib_step :: "'d env \<Rightarrow> (nat \<Rightarrow> nat) \<Rightarrow> reg_cmd \<Rightarrow> ('d, 'z) lib_scheme \<Rightarrow> ((int \<times> u64) \<times> ('d, 'z) lib_scheme) option" where
  "lib_step E bl (Fetch n) s = do { (r, s) \<leftarrow> read_batch E n s; Some ((r, 0), s) }"
| "lib_step E bl (Store n) s = do { (r, s) \<leftarrow> write_batch E n s; Some ((r, 0), s) }"
| "lib_step E bl (Poke n i v) s = do { s \<leftarrow> cell_set (bl n, i) v s; Some ((0, 0), s) }"
| "lib_step E bl (Peek n i) s = do { v \<leftarrow> cell_get s (bl n, i); Some ((0, v), s) }"
| "lib_step E bl (Read i r) s = do { (x, v, s) \<leftarrow> read_msr_by_idx E (of_nat i) r 0 s; Some ((x, v), s) }"
| "lib_step E bl (Write i r v) s = do { (x, s) \<leftarrow> write_msr_by_idx E (of_nat i) r v s; Some ((x, 0), s) }"

text \<open>Commands on the batches \<open>N\<close> and the existing processors.\<close>

fun cmd_ok :: "'d env \<Rightarrow> nat set \<Rightarrow> (nat \<Rightarrow> (int \<times> u64) list) \<Rightarrow> reg_cmd \<Rightarrow> bool" where
  "cmd_ok E N K (Fetch n) = (n \<in> N)"
| "cmd_ok E N K (Store n) = (n \<in> N)"
| "cmd_ok E N K (Poke n i v) = (n \<in> N \<and> i < length (K n))"
| "cmd_ok E N K (Peek n i) = (n \<in> N \<and> i < length (K n))"
| "cmd_ok E N K (Read i r) = (i < NUM_DEVS (hw E))"
| "cmd_ok E N K (Write i r v) = (i < NUM_DEVS (hw E))"

definition buf_rel :: "nat \<Rightarrow> (int \<times> u64) list \<Rightarrow> ('d, 'z) lib_scheme \<Rightarrow> u64 list \<Rightarrow> bool" where
  "buf_rel k ks s vs \<longleftrightarrow> length vs = length ks \<and> (\<forall>i<length ks. cell_get s (k, i) = Some (vs ! i))"

definition lib_rel ::
  "'d env \<Rightarrow> (int \<Rightarrow> bool) \<Rightarrow> (int \<Rightarrow> bool) \<Rightarrow> (int \<Rightarrow> u64 \<Rightarrow> 'd \<Rightarrow> u64) \<Rightarrow> nat set \<Rightarrow> (nat \<Rightarrow> nat) \<Rightarrow> (nat \<Rightarrow> int)
   \<Rightarrow> (nat \<Rightarrow> (int \<times> u64) list) \<Rightarrow> ('d, 'z) lib_scheme \<Rightarrow> reg_spec \<Rightarrow> bool" where
  "lib_rel E good drv rg N bl fd K s a \<longleftrightarrow>
     batches_ok E good drv rg s \<and> fd_of s = fd \<and> at rg s = spec_reg a
     \<and> (\<forall>n\<in>N. batch_live E good drv rg n (bl n) s \<and> keys n (bl n) s = K n \<and> buf_rel (bl n) (K n) s (spec_buf a n))"

lemma lib_relD:
  assumes "lib_rel E good drv rg N bl fd K s a"
  shows "batches_ok E good drv rg s" "fd_of s = fd" "spec_reg a = at rg s"
    "n \<in> N \<Longrightarrow> batch_live E good drv rg n (bl n) s" "n \<in> N \<Longrightarrow> keys n (bl n) s = K n"
    "n \<in> N \<Longrightarrow> buf_rel (bl n) (K n) s (spec_buf a n)"
  using assms by (simp_all add: lib_rel_def)

lemma bl_inj:
  assumes "lib_rel E good drv rg N bl fd K s a" "m \<in> N" "n \<in> N" "m \<noteq> n"
  shows "bl m \<noteq> bl n"
  using lib_relD(4) [OF assms(1,2)] lib_relD(4) [OF assms(1,3)] lib_relD(1) [OF assms(1)] assms(4)
    blocks_ownD [of s m "bl m" n] by (auto simp: batch_live_def batches_ok_def)

section \<open>Each command\<close>

text \<open>A run of batch \<open>n\<close> leaves the other batches and their buffers alone.\<close>

lemma lib_rel_run:
  assumes rel: "lib_rel E good drv rg N bl fd K s a" and n: "n \<in> N"
    and fr: "batch_frame rg n (bl n) t = batch_frame rg n (bl n) s"
    and st: "slot_step E good drv rg n s t" and live: "batch_live E good drv rg n (bl n) t"
    and buf: "buf_rel (bl n) (K n) t vs"
  shows "lib_rel E good drv rg N bl fd K t (a\<lparr>spec_reg := at rg t, spec_buf := (spec_buf a)(n := vs)\<rparr>)"
proof -
  have "batch_live E good drv rg m (bl m) t \<and> keys m (bl m) t = K m
      \<and> buf_rel (bl m) (K m) t (((spec_buf a)(n := vs)) m)" if m: "m \<in> N" for m
  proof (cases "m = n")
    case True
    with live buf frame_keys [OF fr, of "bl n" n] lib_relD(5) [OF rel n] show ?thesis by simp
  next
    case False
    note ne = bl_inj [OF rel m n False]
    have "batch_live E good drv rg m (bl m) t" using st lib_relD(4) [OF rel m] False by (simp add: slot_step_def)
    moreover have "keys m (bl m) t = K m" using frame_keys [OF fr, of "bl m" m] ne lib_relD(5) [OF rel m] by simp
    moreover have "cell_get t (bl m, i) = cell_get s (bl m, i)" for i by (rule frame_cells [OF fr]) (use ne in simp)
    ultimately show ?thesis using False lib_relD(6) [OF rel m] by (simp add: buf_rel_def)
  qed
  moreover have "batches_ok E good drv rg t" using st by (simp add: slot_step_def)
  moreover have "fd_of t = fd" using batch_frameD(3) [OF fr] lib_relD(2) [OF rel] by simp
  ultimately show ?thesis by (simp add: lib_rel_def)
qed

lemma refine_fetch:
  assumes rel: "lib_rel E good drv rg N bl fd K s a" and n: "n \<in> N"
  shows "\<exists>t. lib_step E bl (Fetch n) s = Some (fst (spec_step fd K (Fetch n) a), t)
    \<and> lib_rel E good drv rg N bl fd K t (snd (spec_step fd K (Fetch n) a))"
proof -
  note live = lib_relD(4) [OF rel n] and ky = lib_relD(5) [OF rel n]
  obtain t where t: "read_batch E n s = Some (0, t)" "batch_live E good drv rg n (bl n) t" "slot_step E good drv rg n s t"
    "batch_frame rg n (bl n) t = batch_frame rg n (bl n) s"
    and cells: "\<forall>i<numops (batch s ! n). cell_get t (bl n, i) = Some (at rg s (keys n (bl n) s ! i))"
    and reg: "\<forall>x. at rg t x = at rg s x"
    using read_view [OF live lib_relD(1) [OF rel]] by blast
  have "0 < numops (batch s ! n)" using live by (simp add: batch_live_def)
  then have len: "length (K n) = numops (batch s ! n)" using keys_nth(2) [OF live, of 0] ky by simp
  have "buf_rel (bl n) (K n) t (map (spec_reg a) (K n))"
    using cells lib_relD(3) [OF rel] by (simp add: buf_rel_def len ky)
  from lib_rel_run [OF rel n t(4,3,2) this] have
    "lib_rel E good drv rg N bl fd K t (a\<lparr>spec_reg := at rg t, spec_buf := (spec_buf a)(n := map (spec_reg a) (K n))\<rparr>)" .
  moreover have "at rg t = spec_reg a" using reg lib_relD(3) [OF rel] by auto
  ultimately show ?thesis using t(1) by simp
qed

lemma write_view_cells:
  assumes live: "batch_live E good drv rg n k s" and "write_batch E n s = Some (0, t)" "i < numops (batch s ! n)"
  shows "cell_get t (k, i) = cell_get s (k, i)"
proof -
  obtain t' where t': "write_batch E n s = Some (0, t')" "batch_live E good drv rg n k t'"
    "numops (batch t' ! n) = numops (batch s ! n)" "\<forall>i<numops (batch s ! n). op_data k t' i = op_data k s i"
    using window.wr_ok [OF live] by blast
  with assms(2) have "t' = t" by simp
  with t' assms(3) cell_get_live [OF live assms(3)] cell_get_live [OF t'(2), of i] show ?thesis by simp
qed

lemma refine_store:
  assumes rel: "lib_rel E good drv rg N bl fd K s a" and n: "n \<in> N"
  shows "\<exists>t. lib_step E bl (Store n) s = Some (fst (spec_step fd K (Store n) a), t)
    \<and> lib_rel E good drv rg N bl fd K t (snd (spec_step fd K (Store n) a))"
proof -
  note live = lib_relD(4) [OF rel n] and ky = lib_relD(5) [OF rel n] and buf = lib_relD(6) [OF rel n]
  obtain t where t: "write_batch E n s = Some (0, t)" "batch_live E good drv rg n (bl n) t" "slot_step E good drv rg n s t"
    "batch_frame rg n (bl n) t = batch_frame rg n (bl n) s"
    and own: "\<forall>i<numops (batch s ! n). Some (at rg t (keys n (bl n) s ! i)) = cell_get s (bl n, i)"
    and other: "\<forall>x. x \<notin> set (keys n (bl n) s) \<longrightarrow> at rg t x = at rg s x"
    using write_view [OF live lib_relD(1) [OF rel]] by blast
  have "0 < numops (batch s ! n)" using live by (simp add: batch_live_def)
  then have len: "length (K n) = numops (batch s ! n)" using keys_nth(2) [OF live, of 0] ky by simp
  have "buf_rel (bl n) (K n) t (spec_buf a n)"
    using buf write_view_cells [OF live t(1)] by (simp add: buf_rel_def len)
  note r = lib_rel_run [OF rel n t(4,3,2) this]
  have "at rg t x = store_all (K n) (spec_buf a n) (spec_reg a) x" for x
  proof (cases "x \<in> set (K n)")
    case True
    then obtain i where i: "i < length (K n)" "x = K n ! i" by (auto simp: in_set_conv_nth)
    then have "Some (at rg t x) = Some (spec_buf a n ! i)" using own buf ky len by (simp add: buf_rel_def)
    moreover have "distinct (K n)" using keys_distinct [OF live] ky by simp
    ultimately show ?thesis using store_all_nth(1) [of "K n" "spec_buf a n" i] buf i by (simp add: buf_rel_def)
  next
    case False
    with other ky store_all_nth(2) [OF False] lib_relD(3) [OF rel] show ?thesis by (cases x) simp
  qed
  then have "at rg t = store_all (K n) (spec_buf a n) (spec_reg a)" by auto
  with r t(1) show ?thesis by simp
qed

lemma refine_poke:
  assumes rel: "lib_rel E good drv rg N bl fd K s a" and n: "n \<in> N" "i < length (K n)"
  shows "\<exists>t. lib_step E bl (Poke n i v) s = Some (fst (spec_step fd K (Poke n i v) a), t)
    \<and> lib_rel E good drv rg N bl fd K t (snd (spec_step fd K (Poke n i v) a))"
proof -
  have "cell_get s (bl n, i) \<noteq> None" using lib_relD(6) [OF rel n(1)] n(2) by (simp add: buf_rel_def)
  then obtain t where t: "cell_set (bl n, i) v s = Some t" "cell_get t = (cell_get s)((bl n, i) \<mapsto> v)"
    "cells_only E good drv rg s t"
    using cell_set_next by blast
  have "buf_rel (bl m) (K m) t (((spec_buf a)(n := (spec_buf a n)[i := v])) m)" if m: "m \<in> N" for m
    using lib_relD(6) [OF rel m] bl_inj [OF rel m n(1)]
    by (cases "m = n") (auto simp: buf_rel_def t(2) nth_list_update)
  then show ?thesis using rel t(1,3) by (simp add: lib_rel_def cells_only_def)
qed

lemma refine_write:
  assumes rel: "lib_rel E good drv rg N bl fd K s a" and i: "i < NUM_DEVS (hw E)"
  shows "\<exists>t. lib_step E bl (Write i r v) s = Some (fst (spec_step fd K (Write i r v) a), t)
    \<and> lib_rel E good drv rg N bl fd K t (snd (spec_step fd K (Write i r v) a))"
proof -
  have m: "msr_files E good rg" "fds_ready E good s"
    using lib_relD(1) [OF rel] by (simp_all add: batches_ok_def machine_ready_def batch_env_def)
  let ?t = "s\<lparr>dev := snd (os_pwrite E (fd_of s i) r v (dev s))\<rparr>"
  have "at rg ?t = (at rg s)((fd_of s i, r) := v)"
    using m(1) fd_value_in [OF m(2) i] by (auto simp: at_def msr_files_def fun_eq_iff)
  moreover have "fd_of ?t = fd_of s" by (simp add: fd_of_def fun_eq_iff)
  moreover have "cell_get ?t = cell_get s" by (simp add: cell_get_def the_block_def fun_eq_iff)
  moreover have "keys m k ?t = keys m k s" "batch_live E good drv rg m k ?t = batch_live E good drv rg m k s"
    "batches_ok E good drv rg ?t = batches_ok E good drv rg s" for m k
    by (simp_all add: keys_def ops_of_def batch_live_def fds_ready_def batch_ready_def op_at_def batches_ok_def
        machine_ready_def map_ready_def blocks_own_def fd_of_def)
  ultimately have "lib_rel E good drv rg N bl fd K ?t (a\<lparr>spec_reg := (spec_reg a)((fd i, r) := v)\<rparr>)"
    using rel by (simp add: lib_rel_def buf_rel_def)
  then show ?thesis using write_idx_eq [OF m i] by auto
qed

text \<open>The library refines the register machine.\<close>

interpretation registers: simulation "lib_rel E good drv rg N bl fd K" "cmd_ok E N K" "spec_step fd K" "lib_step E bl"
  for E :: "'d env" and good drv rg N bl fd K
proof
  fix s a c assume rel: "lib_rel E good drv rg N bl fd K s a" and ok: "cmd_ok E N K c"
  show "\<exists>t. lib_step E bl c s = Some (fst (spec_step fd K c a), t) \<and> lib_rel E good drv rg N bl fd K t (snd (spec_step fd K c a))"
  proof (cases c)
    case (Fetch n)
    with refine_fetch [OF rel] ok show ?thesis by simp
  next
    case (Store n)
    with refine_store [OF rel] ok show ?thesis by simp
  next
    case (Poke n i v)
    with refine_poke [OF rel] ok show ?thesis by simp
  next
    case (Peek n i)
    with rel lib_relD(6) [OF rel] ok show ?thesis by (simp add: buf_rel_def)
  next
    case (Read i r)
    have m: "msr_files E good rg" "fds_ready E good s"
      using lib_relD(1) [OF rel] by (simp_all add: batches_ok_def machine_ready_def batch_env_def)
    from Read ok by_idx.rd_ok [of E good rg s i r 0] m rel lib_relD(2,3) [OF rel] show ?thesis
      by (simp add: at_def)
  next
    case (Write i r v)
    with refine_write [OF rel] ok show ?thesis by simp
  qed
qed

text \<open>C2: any sequence of operations on any number of loaded batches (fetching, storing, reading and
  writing through the pointers, reading and writing single registers), run by the library
  through descriptors, operation arrays and the driver or the compatibility loop, is defined,
  never fails, and returns what the register machine returns: registers, and one buffer per batch.
\<close>

theorem batches_refine_registers:
  assumes "lib_rel E good drv rg N bl fd K s a" "\<forall>c\<in>set cs. cmd_ok E N K c"
  shows "\<exists>t. impl_run (lib_step E bl) cs s = Some (fst (spec_run (spec_step fd K) cs a), t)
    \<and> lib_rel E good drv rg N bl fd K t (snd (spec_run (spec_step fd K) cs a))"
  using assms by (rule registers.run_ok)

text \<open>Two registers of two processors in one batch: stored through the batch, read singly.\<close>

theorem batches_refine_witness:
  "\<exists>t. impl_run (lib_step (sim_env True) (\<lambda>n. 0)) [Poke 3 1 7, Store 3, Write 0 0x10 5, Fetch 3, Peek 3 0, Read 2 0x20]
     (sim_window 3 [(0, 0x10), (2, 0x20)] () :: sim lib) = Some ([(0, 0), (0, 0), (0, 0), (0, 0), (0, 5), (0, 7)], t)"
proof -
  let ?s = "sim_window 3 [(0, 0x10), (2, 0x20)] () :: sim lib"
  let ?K = "\<lambda>n. [(sim_fd 0, 0x10), (sim_fd 2, 0x20)] :: (int \<times> u64) list"
  let ?a = "\<lparr>spec_reg = at sim_rg ?s, spec_buf = (\<lambda>n. [0, 0])\<rparr>"
  have "keys 3 0 ?s = ?K 3"
    by (simp add: keys_def sim_window_ops sim_window_fd reg_key_def window_op_def small_cpu)
  moreover have "buf_rel 0 (?K 3) ?s [0, 0]"
    by (auto simp: buf_rel_def cell_get_def the_block_def sim_window_def aget_def window_op_def msr_batch_op0_def less_Suc_eq)
  moreover have "batch_live (sim_env True) sim_good sim_drv sim_rg 3 0 ?s" by (rule sim_window_live) simp_all
  ultimately have "lib_rel (sim_env True) sim_good sim_drv sim_rg {3} (\<lambda>n. 0) sim_fd ?K ?s ?a"
    by (simp add: lib_rel_def sim_window_batches_ok sim_window_fd)
  from batches_refine_registers [OF this, of "[Poke 3 1 7, Store 3, Write 0 0x10 5, Fetch 3, Peek 3 0, Read 2 0x20]"]
  show ?thesis by (auto simp: store_all_def sim_fd_num)
qed

end
