(* ===== verification/Highlander.thy ===== *)
theory Highlander
  imports Libmsr_Prelude
begin

text \<open>
  The leader election of \<open>src/demoapps/powmon/highlander.c\<close>: of all power monitors started on a
  node one, the highlander, measures, and the others, its foes, only run their application.
  The processes share two named semaphores; a process is a position in
  \<open>highlander\<close>, \<open>highlander_wait\<close> or \<open>highlander_clean\<close> and the static variables
  of the file, and one step of a process is one call of the operating system.  A schedule is a
  list of process numbers.
\<close>

section \<open>Named semaphores\<close>

text \<open>The two names \<open>/power_wrapperK\<close> and \<open>/power_wrapperL\<close>.\<close>

datatype sem_name = K | L

text \<open>There are two of them, so that functions of names can be compared by evaluation.\<close>

instantiation sem_name :: enum
begin

definition "enum_sem_name = [K, L]"

definition "enum_all_sem_name P \<longleftrightarrow> P K \<and> P L"

definition "enum_ex_sem_name P \<longleftrightarrow> P K \<or> P L"

instance
proof
  have e: "P n" if "P K" "P L" for P and n :: sem_name using that by (cases n) simp_all
  show "UNIV = set (Enum.enum :: sem_name list)" by (auto simp: enum_sem_name_def intro: sem_name.exhaust)
  show "distinct (Enum.enum :: sem_name list)" by (simp add: enum_sem_name_def)
  show "Enum.enum_all P \<longleftrightarrow> Ball UNIV P" for P :: "sem_name \<Rightarrow> bool"
    using e [of P] by (auto simp: enum_all_sem_name_def)
  show "Enum.enum_ex P \<longleftrightarrow> Bex UNIV P" for P :: "sem_name \<Rightarrow> bool"
    using e [of "\<lambda>n. \<not> P n"] by (auto simp: enum_ex_sem_name_def)
qed

end

text \<open>
  A name stands for one of the semaphores created under it, or for none.  Removing a name leaves
  the semaphore to the processes that have it open.
\<close>

record sems =
  sem_names :: "sem_name \<Rightarrow> nat option"
  sem_vals :: "sem_name \<Rightarrow> nat list"

definition sem_create :: "sem_name \<Rightarrow> sems \<Rightarrow> nat \<times> sems" where
  "sem_create n w =
     (length (sem_vals w n),
      w\<lparr>sem_names := (sem_names w)(n \<mapsto> length (sem_vals w n)), sem_vals := (sem_vals w)(n := sem_vals w n @ [0])\<rparr>)"

text \<open>\<open>sem_open\<close> with \<open>O_CREAT | O_EXCL\<close>, and with \<open>O_CREAT\<close> alone.\<close>

definition sem_open_excl :: "sem_name \<Rightarrow> sems \<Rightarrow> (nat \<times> sems) option" where
  "sem_open_excl n w = (if sem_names w n = None then Some (sem_create n w) else None)"

definition sem_open :: "sem_name \<Rightarrow> sems \<Rightarrow> nat \<times> sems" where
  "sem_open n w = (case sem_names w n of Some k \<Rightarrow> (k, w) | None \<Rightarrow> sem_create n w)"

definition sem_getvalue :: "sem_name \<Rightarrow> nat \<Rightarrow> sems \<Rightarrow> nat" where
  "sem_getvalue n k w = sem_vals w n ! k"

definition sem_add :: "(nat \<Rightarrow> nat) \<Rightarrow> sem_name \<Rightarrow> nat \<Rightarrow> sems \<Rightarrow> sems" where
  "sem_add f n k w = w\<lparr>sem_vals := (sem_vals w)(n := (sem_vals w n)[k := f (sem_vals w n ! k)])\<rparr>"

definition sem_post :: "sem_name \<Rightarrow> nat \<Rightarrow> sems \<Rightarrow> sems" where
  "sem_post = sem_add Suc"

text \<open>No result: the caller is blocked.\<close>

definition sem_wait :: "sem_name \<Rightarrow> nat \<Rightarrow> sems \<Rightarrow> sems option" where
  "sem_wait n k w = (if sem_getvalue n k w = 0 then None else Some (sem_add (\<lambda>v. v - 1) n k w))"

definition sem_unlink :: "sem_name \<Rightarrow> sems \<Rightarrow> sems" where
  "sem_unlink n w = w\<lparr>sem_names := (sem_names w)(n := None)\<rparr>"

section \<open>Processes\<close>

text \<open>
  The next call of a process.  \<open>Application\<close> is the program between \<open>highlander\<close> and
  \<open>highlander_wait\<close>; \<open>Looping v\<close> is the loop of the highlander after it read \<open>v\<close>.
\<close>

datatype hl_pos =
    Call | Open_K | Open_L | Post_K | Open_L_first
  | Application
  | Looping nat | Close_both | Unlink_K | Unlink_L | Post_L | Close_foe
  | Clean_K | Clean_L
  | Done

record hl_proc =
  pos :: hl_pos
  amHighlander :: int
  semk :: "nat option"
  seml :: "nat option"

definition hl_proc0 :: hl_proc where
  "hl_proc0 = \<lparr>pos = Call, amHighlander = -1, semk = None, seml = None\<rparr>"

text \<open>\<open>highlander\<close>: its failing first call may overwrite \<open>semk\<close> with \<open>SEM_FAILED\<close>.\<close>

fun highlander_step :: "hl_proc \<Rightarrow> sems \<Rightarrow> (hl_proc \<times> sems) option" where
  "highlander_step x w =
     (case pos x of
        Call \<Rightarrow>
          if amHighlander x \<noteq> -1 then Some (x\<lparr>pos := Application\<rparr>, w)
          else (case sem_open_excl K w of
                  None \<Rightarrow> Some (x\<lparr>pos := Open_K, semk := None\<rparr>, w)
                | Some (k, w) \<Rightarrow> Some (x\<lparr>pos := Open_L_first, semk := Some k\<rparr>, w))
      | Open_K \<Rightarrow> (case sem_open K w of (k, w) \<Rightarrow> Some (x\<lparr>pos := Open_L, semk := Some k\<rparr>, w))
      | Open_L \<Rightarrow> (case sem_open L w of (k, w) \<Rightarrow> Some (x\<lparr>pos := Post_K, seml := Some k\<rparr>, w))
      | Post_K \<Rightarrow> do { k \<leftarrow> semk x; Some (x\<lparr>pos := Application, amHighlander := 0\<rparr>, sem_post K k w) }
      | Open_L_first \<Rightarrow>
          (case sem_open L w of (k, w) \<Rightarrow> Some (x\<lparr>pos := Application, amHighlander := 1, seml := Some k\<rparr>, w))
      | _ \<Rightarrow> None)"

text \<open>
  \<open>highlander_wait\<close>.  The loop \<open>while (v > 1) sem_wait(seml)\<close> never reads the value of
  the semaphore again.  Closing a semaphore leaves the variable that points to it.
\<close>

fun highlander_wait_step :: "hl_proc \<Rightarrow> sems \<Rightarrow> (hl_proc \<times> sems) option" where
  "highlander_wait_step x w =
     (case pos x of
        Application \<Rightarrow>
          if amHighlander x < 0 then Some (x\<lparr>pos := Done\<rparr>, w)
          else if amHighlander x \<noteq> 0
          then do { k \<leftarrow> semk x; Some (x\<lparr>pos := Looping (sem_getvalue K k w)\<rparr>, w) }
          else do { k \<leftarrow> semk x; w \<leftarrow> sem_wait K k w; Some (x\<lparr>pos := Post_L\<rparr>, w) }
      | Looping v \<Rightarrow>
          if v > 1 then do { k \<leftarrow> seml x; w \<leftarrow> sem_wait L k w; Some (x, w) }
          else Some (x\<lparr>pos := Close_both\<rparr>, w)
      | Close_both \<Rightarrow> Some (x\<lparr>pos := Unlink_K\<rparr>, w)
      | Unlink_K \<Rightarrow> Some (x\<lparr>pos := Unlink_L\<rparr>, sem_unlink K w)
      | Unlink_L \<Rightarrow> Some (x\<lparr>pos := Done\<rparr>, sem_unlink L w)
      | Post_L \<Rightarrow> do { k \<leftarrow> seml x; Some (x\<lparr>pos := Close_foe\<rparr>, sem_post L k w) }
      | Close_foe \<Rightarrow> Some (x\<lparr>pos := Done\<rparr>, w)
      | _ \<Rightarrow> None)"

fun highlander_clean_step :: "hl_proc \<Rightarrow> sems \<Rightarrow> (hl_proc \<times> sems) option" where
  "highlander_clean_step x w =
     (case pos x of
        Clean_K \<Rightarrow> Some (x\<lparr>pos := Clean_L\<rparr>, sem_unlink K w)
      | Clean_L \<Rightarrow> Some (x\<lparr>pos := Done\<rparr>, sem_unlink L w)
      | _ \<Rightarrow> None)"

text \<open>The three functions never have a step at the same position.\<close>

definition proc_step :: "hl_proc \<Rightarrow> sems \<Rightarrow> (hl_proc \<times> sems) option" where
  "proc_step x w =
     (case highlander_step x w of Some r \<Rightarrow> Some r
      | None \<Rightarrow> (case highlander_wait_step x w of Some r \<Rightarrow> Some r | None \<Rightarrow> highlander_clean_step x w))"

section \<open>Schedules\<close>

record hl_sys =
  hl_sems :: sems
  hl_procs :: "hl_proc list"

definition sys_step :: "nat \<Rightarrow> hl_sys \<Rightarrow> hl_sys option" where
  "sys_step p s =
     (if p < length (hl_procs s)
      then do {
        (x, w) \<leftarrow> proc_step (hl_procs s ! p) (hl_sems s);
        Some \<lparr>hl_sems = w, hl_procs = (hl_procs s)[p := x]\<rparr>
      }
      else None)"

text \<open>A process that is blocked or has ended lets its turn pass.\<close>

fun sys_run :: "nat list \<Rightarrow> hl_sys \<Rightarrow> hl_sys" where
  "sys_run [] s = s"
| "sys_run (p # ps) s = sys_run ps (case sys_step p s of None \<Rightarrow> s | Some t \<Rightarrow> t)"

definition hl_start :: "nat \<Rightarrow> hl_sys" where
  "hl_start n = \<lparr>hl_sems = \<lparr>sem_names = (\<lambda>_. None), sem_vals = (\<lambda>_. [])\<rparr>, hl_procs = replicate n hl_proc0\<rparr>"

inductive hl_reachable :: "hl_sys \<Rightarrow> bool" where
  start: "hl_reachable (hl_start n)"
| step: "hl_reachable s \<Longrightarrow> sys_step p s = Some t \<Longrightarrow> hl_reachable t"

lemma run_reachable: "hl_reachable s \<Longrightarrow> hl_reachable (sys_run ps s)"
  by (induction ps arbitrary: s) (auto split: option.split intro: hl_reachable.step)

text \<open>What every step keeps, every schedule keeps.\<close>

lemma sys_run_inv:
  assumes "I s" "\<And>p s t. I s \<Longrightarrow> sys_step p s = Some t \<Longrightarrow> I t"
  shows "I (sys_run ps s)"
  using assms(1) by (induction ps arbitrary: s) (auto split: option.split intro: assms(2))

lemma sys_step_cases:
  assumes "sys_step p s = Some t"
  obtains x w where "p < length (hl_procs s)" "proc_step (hl_procs s ! p) (hl_sems s) = Some (x, w)"
    "t = \<lparr>hl_sems = w, hl_procs = (hl_procs s)[p := x]\<rparr>"
  using assms by (auto simp: sys_step_def split: if_splits bind_splits)

lemma sys_stepD:
  "sys_step p s = Some t \<Longrightarrow> p < length (hl_procs s) \<and> length (hl_procs t) = length (hl_procs s)
     \<and> (\<forall>q. q \<noteq> p \<longrightarrow> hl_procs t ! q = hl_procs s ! q)"
  by (auto simp: sys_step_def split: if_splits bind_splits)

section \<open>There can be only one\<close>

text \<open>A highlander: from the creation of the first semaphore to the removal of its name.\<close>

definition holds :: "hl_proc \<Rightarrow> bool" where
  "holds x \<longleftrightarrow> pos x = Open_L_first \<or> amHighlander x = 1 \<and> (pos x \<in> {Application, Close_both, Unlink_K} \<or> (\<exists>v. pos x = Looping v))"

text \<open>A foe that has announced itself and not yet waited.\<close>

definition running_foe :: "nat \<Rightarrow> hl_proc \<Rightarrow> bool" where
  "running_foe k x \<longleftrightarrow> pos x = Application \<and> amHighlander x = 0 \<and> semk x = Some k"

definition foes :: "nat \<Rightarrow> hl_sys \<Rightarrow> nat" where
  "foes k s = length (filter (running_foe k) (hl_procs s))"

text \<open>What is true of one process, given the semaphores.\<close>

definition proc_ok :: "sems \<Rightarrow> hl_proc \<Rightarrow> bool" where
  "proc_ok w x \<longleftrightarrow>
     (case pos x of
        Call \<Rightarrow> amHighlander x = -1
      | Open_K \<Rightarrow> amHighlander x = -1
      | Open_L \<Rightarrow> amHighlander x = -1 \<and> (\<exists>k<length (sem_vals w K). semk x = Some k)
      | Post_K \<Rightarrow> amHighlander x = -1 \<and> (\<exists>k<length (sem_vals w K). semk x = Some k) \<and> (\<exists>k<length (sem_vals w L). seml x = Some k)
      | Open_L_first \<Rightarrow> amHighlander x = -1 \<and> (\<exists>k<length (sem_vals w K). semk x = Some k)
      | Application \<Rightarrow> amHighlander x \<in> {0, 1} \<and> (\<exists>k<length (sem_vals w K). semk x = Some k) \<and> (\<exists>k<length (sem_vals w L). seml x = Some k)
      | Post_L \<Rightarrow> amHighlander x = 0 \<and> (\<exists>k<length (sem_vals w L). seml x = Some k)
      | Close_foe \<Rightarrow> amHighlander x = 0
      | Looping v \<Rightarrow> amHighlander x = 1 \<and> (\<exists>k<length (sem_vals w L). seml x = Some k)
      | Clean_K \<Rightarrow> False
      | Clean_L \<Rightarrow> False
      | Done \<Rightarrow> True
      | _ \<Rightarrow> amHighlander x = 1)"

definition hl_inv :: "hl_sys \<Rightarrow> bool" where
  "hl_inv s \<longleftrightarrow>
     (\<forall>n k. sem_names (hl_sems s) n = Some k \<longrightarrow> k < length (sem_vals (hl_sems s) n))
     \<and> (\<forall>x\<in>set (hl_procs s). proc_ok (hl_sems s) x)
     \<and> (\<forall>x\<in>set (hl_procs s). holds x \<longrightarrow> sem_names (hl_sems s) K \<noteq> None \<and> semk x = sem_names (hl_sems s) K)
     \<and> length (filter holds (hl_procs s)) \<le> 1
     \<and> (\<forall>k<length (sem_vals (hl_sems s) K). sem_vals (hl_sems s) K ! k = foes k s)"

lemma proc_ok_mono:
  assumes "proc_ok w x" "\<And>n. length (sem_vals w n) \<le> length (sem_vals u n)"
  shows "proc_ok u x"
  using assms(1) less_le_trans [OF _ assms(2)] unfolding proc_ok_def by (cases "pos x") fastforce+

lemma proc_ok_foe: "proc_ok w x \<Longrightarrow> running_foe k x \<Longrightarrow> k < length (sem_vals w K)"
  by (auto simp: proc_ok_def running_foe_def)

text \<open>Counting the entries with a property after one entry has changed.\<close>

lemma length_filter_update:
  "i < length xs \<Longrightarrow> length (filter P (xs[i := x])) + (if P (xs ! i) then 1 else 0)
     = length (filter P xs) + (if P x then 1 else 0)"
proof (induction xs arbitrary: i)
  case Nil
  then show ?case by simp
next
  case (Cons y xs)
  then show ?case by (cases i) auto
qed

lemma two_holders:
  assumes "length (filter P xs) \<le> 1" "i < length xs" "j < length xs" "P (xs ! i)" "P (xs ! j)"
  shows "i = j"
proof (rule ccontr)
  assume ne: "i \<noteq> j"
  have "{i, j} \<subseteq> {k. k < length xs \<and> P (xs ! k)}" using assms by auto
  then have "card {i, j} \<le> length (filter P xs)"
    unfolding length_filter_conv_card by (rule card_mono [rotated]) simp
  with assms(1) ne show False by simp
qed

text \<open>What a step of process \<open>p\<close> has to provide for the invariant.\<close>

lemma hl_inv_update:
  assumes inv: "hl_inv s" and p: "p < length (hl_procs s)" and x: "x = hl_procs s ! p" and w: "w = hl_sems s"
    and a: "\<And>n k. sem_names u n = Some k \<Longrightarrow> k < length (sem_vals u n)"
    and b: "\<And>n. length (sem_vals w n) \<le> length (sem_vals u n)"
    and c: "proc_ok u y"
    and d: "holds y \<Longrightarrow> sem_names u K \<noteq> None \<and> semk y = sem_names u K"
    and e: "sem_names u K = sem_names w K \<or> sem_names w K = None \<or> holds x"
    and f: "holds y \<Longrightarrow> holds x \<or> sem_names w K = None"
    and g: "\<And>k. k < length (sem_vals u K) \<Longrightarrow>
      sem_vals u K ! k + (if running_foe k x then 1 else 0)
        = (if k < length (sem_vals w K) then sem_vals w K ! k else 0) + (if running_foe k y then 1 else 0)"
  shows "hl_inv \<lparr>hl_sems = u, hl_procs = (hl_procs s)[p := y]\<rparr>"
proof -
  note I = inv [unfolded hl_inv_def, folded w]
  have old: "\<And>z. z \<in> set (hl_procs s) \<Longrightarrow> proc_ok w z" "length (filter holds (hl_procs s)) \<le> 1"
    "\<And>z. z \<in> set (hl_procs s) \<Longrightarrow> holds z \<Longrightarrow> sem_names w K \<noteq> None \<and> semk z = sem_names w K"
    "\<And>k. k < length (sem_vals w K) \<Longrightarrow> sem_vals w K ! k = foes k s"
    using I by blast+
  have foes0: "foes k s = 0" if "\<not> k < length (sem_vals w K)" for k
    using that old(1) proc_ok_foe by (auto simp: foes_def filter_empty_conv)
  have hold: "sem_names u K \<noteq> None \<and> semk z = sem_names u K" if z: "z \<in> set ((hl_procs s)[p := y])" "holds z" for z
  proof (cases "z = y")
    case True
    with d z show ?thesis by simp
  next
    case False
    then obtain j where j: "j < length (hl_procs s)" "z = hl_procs s ! j" "j \<noteq> p"
      using z(1) p by (metis in_set_conv_nth length_list_update nth_list_update_eq nth_list_update_neq)
    then have "sem_names w K \<noteq> None \<and> semk z = sem_names w K" using old(3) [of z] z(2) nth_mem [OF j(1)] by simp
    moreover have "\<not> holds x" using two_holders [OF old(2) j(1) p] j z(2) x by auto
    ultimately show ?thesis using e by auto
  qed
  have one: "length (filter holds ((hl_procs s)[p := y])) \<le> 1"
  proof (cases "holds y \<and> \<not> holds x")
    case True
    then have "filter holds (hl_procs s) = []" using f old(3) by (auto simp: filter_empty_conv)
    with True length_filter_update [OF p, of holds y] x show ?thesis by simp
  next
    case False
    with length_filter_update [OF p, of holds y] old(2) x show ?thesis by (auto split: if_splits)
  qed
  have "sem_vals u K ! k = foes k \<lparr>hl_sems = u, hl_procs = (hl_procs s)[p := y]\<rparr>" if k: "k < length (sem_vals u K)" for k
    using g [OF k] length_filter_update [OF p, of "running_foe k" y] old(4) [of k] foes0 [of k] x
    by (simp add: foes_def split: if_splits)
  moreover have "proc_ok u z" if "z \<in> set ((hl_procs s)[p := y])" for z
    using that c proc_ok_mono [OF old(1) b] set_update_subset_insert [of "hl_procs s" p y] by blast
  ultimately show ?thesis using a hold one unfolding hl_inv_def by simp
qed

lemma sem_create_simps [simp]:
  "fst (sem_create n w) = length (sem_vals w n)"
  "sem_names (snd (sem_create n w)) = (sem_names w)(n \<mapsto> length (sem_vals w n))"
  "sem_vals (snd (sem_create n w)) = (sem_vals w)(n := sem_vals w n @ [0])"
  by (simp_all add: sem_create_def)

lemma sem_add_simps [simp]:
  "sem_names (sem_add f n k w) = sem_names w"
  "sem_vals (sem_add f n k w) = (sem_vals w)(n := (sem_vals w n)[k := f (sem_vals w n ! k)])"
  by (simp_all add: sem_add_def)

lemma sem_unlink_simps [simp]:
  "sem_names (sem_unlink n w) = (sem_names w)(n := None)" "sem_vals (sem_unlink n w) = sem_vals w"
  by (simp_all add: sem_unlink_def)

text \<open>The facts for a case analysis over the position of a step.\<close>

lemmas proc_step_defs = proc_step_def highlander_step.simps highlander_wait_step.simps highlander_clean_step.simps

lemmas step_defs = proc_step_defs sem_open_excl_def sem_open_def sem_create_def sem_post_def sem_wait_def sem_getvalue_def

lemmas step_splits = hl_pos.splits if_splits option.splits bind_splits prod.splits

text \<open>The steps, one rule per position.\<close>

lemma proc_step_simps:
  "pos x = Open_L_first \<Longrightarrow> proc_step x w = (case sem_open L w of (k, w) \<Rightarrow> Some (x\<lparr>pos := Application, amHighlander := 1, seml := Some k\<rparr>, w))"
  "pos x = Open_K \<Longrightarrow> proc_step x w = (case sem_open K w of (k, w) \<Rightarrow> Some (x\<lparr>pos := Open_L, semk := Some k\<rparr>, w))"
  "pos x = Open_L \<Longrightarrow> proc_step x w = (case sem_open L w of (k, w) \<Rightarrow> Some (x\<lparr>pos := Post_K, seml := Some k\<rparr>, w))"
  "pos x = Looping v \<Longrightarrow> v \<le> 1 \<Longrightarrow> proc_step x w = Some (x\<lparr>pos := Close_both\<rparr>, w)"
  "pos x = Close_both \<Longrightarrow> proc_step x w = Some (x\<lparr>pos := Unlink_K\<rparr>, w)"
  "pos x = Unlink_K \<Longrightarrow> proc_step x w = Some (x\<lparr>pos := Unlink_L\<rparr>, sem_unlink K w)"
  "pos x = Unlink_L \<Longrightarrow> proc_step x w = Some (x\<lparr>pos := Done\<rparr>, sem_unlink L w)"
  "pos x = Close_foe \<Longrightarrow> proc_step x w = Some (x\<lparr>pos := Done\<rparr>, w)"
  "pos x = Done \<Longrightarrow> proc_step x w = None"
  by (simp_all add: proc_step_defs split: prod.split)

lemma hl_inv_step:
  assumes inv: "hl_inv s" and st: "sys_step p s = Some t"
  shows "hl_inv t"
proof -
  obtain y u where p: "p < length (hl_procs s)" and y: "proc_step (hl_procs s ! p) (hl_sems s) = Some (y, u)"
    and t: "t = \<lparr>hl_sems = u, hl_procs = (hl_procs s)[p := y]\<rparr>"
    using sys_step_cases [OF st] by metis
  define x where "x = hl_procs s ! p"
  define w where "w = hl_sems s"
  note I = inv [unfolded hl_inv_def, folded w_def]
  have nm: "\<And>n k. sem_names w n = Some k \<Longrightarrow> k < length (sem_vals w n)" using I by blast
  have ok: "proc_ok w x" using I p by (simp add: x_def)
  have hold: "holds x \<Longrightarrow> sem_names w K \<noteq> None \<and> semk x = sem_names w K" using I nth_mem [OF p] unfolding x_def by blast
  note y = y [folded x_def w_def]
  show ?thesis
    unfolding t
  proof (rule hl_inv_update [OF inv p x_def w_def])
    show "k < length (sem_vals u n)" if "sem_names u n = Some k" for n k
      using y that nm ok
      by (auto simp: step_defs proc_ok_def split: step_splits)
    show "length (sem_vals w n) \<le> length (sem_vals u n)" for n
      using y
      by (auto simp: step_defs split: step_splits)
    show "proc_ok u y"
      using y nm ok
      by (auto simp: step_defs proc_ok_def split: step_splits)
    show "holds y \<Longrightarrow> sem_names u K \<noteq> None \<and> semk y = sem_names u K"
      using y hold ok
      by (auto simp: step_defs proc_ok_def holds_def split: step_splits)
    show "sem_names u K = sem_names w K \<or> sem_names w K = None \<or> holds x"
      using y ok
      by (auto simp: step_defs proc_ok_def holds_def split: step_splits)
    show "holds y \<Longrightarrow> holds x \<or> sem_names w K = None"
      using y ok
      by (auto simp: step_defs proc_ok_def holds_def split: step_splits)
    show "sem_vals u K ! k + (if running_foe k x then 1 else 0)
        = (if k < length (sem_vals w K) then sem_vals w K ! k else 0) + (if running_foe k y then 1 else 0)"
      if "k < length (sem_vals u K)" for k
      using y that ok
      by (auto simp: step_defs proc_ok_def running_foe_def nth_append nth_list_update split: step_splits)
  qed
qed

lemma hl_inv_reachable: "hl_reachable s \<Longrightarrow> hl_inv s"
proof (induction rule: hl_reachable.induct)
  case (start n)
  show ?case by (auto simp: hl_inv_def hl_start_def hl_proc0_def proc_ok_def holds_def foes_def)
next
  case (step s p t)
  then show ?case by (blast intro: hl_inv_step)
qed

text \<open>C28: there can be only one: whatever the schedule, at most one of the processes on a node is
  the highlander, from its creation of the first semaphore until it removes the name.
\<close>

theorem highlander_unique:
  assumes "hl_reachable s" "p < length (hl_procs s)" "q < length (hl_procs s)" "holds (hl_procs s ! p)" "holds (hl_procs s ! q)"
  shows "p = q"
  using hl_inv_reachable [OF assms(1)] assms(2-) two_holders [of holds "hl_procs s"] unfolding hl_inv_def by blast

section \<open>Waiting\<close>

text \<open>A process that will end, and the turns it still needs.\<close>

definition finishing :: "hl_proc \<Rightarrow> bool" where
  "finishing x \<longleftrightarrow> pos x \<in> {Close_both, Unlink_K, Unlink_L, Post_L, Close_foe, Done}
     \<or> pos x = Application \<and> amHighlander x = 0 \<or> (\<exists>v\<le>1. pos x = Looping v)"

definition turns :: "hl_proc \<Rightarrow> nat" where
  "turns x = (case pos x of Looping v \<Rightarrow> 4 | Close_both \<Rightarrow> 3 | Unlink_K \<Rightarrow> 2 | Unlink_L \<Rightarrow> 1
     | Application \<Rightarrow> 3 | Post_L \<Rightarrow> 2 | Close_foe \<Rightarrow> 1 | _ \<Rightarrow> 0)"

lemma foe_not_blocked:
  assumes "hl_inv s" "p < length (hl_procs s)" "running_foe k (hl_procs s ! p)"
  shows "0 < sem_getvalue K k (hl_sems s)"
proof -
  have "k < length (sem_vals (hl_sems s) K)"
    using assms proc_ok_foe [OF _ assms(3)] unfolding hl_inv_def by (meson nth_mem)
  then have "sem_getvalue K k (hl_sems s) = foes k s" using assms(1) unfolding hl_inv_def sem_getvalue_def by blast
  moreover have "hl_procs s ! p \<in> set (filter (running_foe k) (hl_procs s))" using assms(2,3) by simp
  ultimately show ?thesis unfolding foes_def by (metis length_pos_if_in_set)
qed

lemma finishing_turn:
  assumes inv: "hl_inv s" and p: "p < length (hl_procs s)" and fin: "finishing (hl_procs s ! p)"
  shows "case sys_step p s of
      None \<Rightarrow> turns (hl_procs s ! p) = 0
    | Some t \<Rightarrow> finishing (hl_procs t ! p) \<and> Suc (turns (hl_procs t ! p)) = turns (hl_procs s ! p)"
proof -
  have ok: "proc_ok (hl_sems s) (hl_procs s ! p)" using inv p unfolding hl_inv_def by simp
  show ?thesis
  proof (cases "pos (hl_procs s ! p) = Application")
    case True
    then obtain k where k: "running_foe k (hl_procs s ! p)" "semk (hl_procs s ! p) = Some k" "amHighlander (hl_procs s ! p) = 0"
      using fin ok by (auto simp: finishing_def running_foe_def proc_ok_def)
    with foe_not_blocked [OF inv p k(1)] True p show ?thesis
      by (simp add: sys_step_def proc_step_defs sem_wait_def finishing_def turns_def)
  next
    case False
    with fin ok p show ?thesis
      by (auto simp: finishing_def proc_ok_def sys_step_def proc_step_defs turns_def)
  qed
qed

lemma finishing_run:
  assumes "hl_inv s" "p < length (hl_procs s)" "finishing (hl_procs s ! p)"
  shows "finishing (hl_procs (sys_run ps s) ! p) \<and> turns (hl_procs (sys_run ps s) ! p) = turns (hl_procs s ! p) - count_list ps p"
  using assms
proof (induction ps arbitrary: s)
  case Nil
  then show ?case by simp
next
  case (Cons q ps)
  show ?case
  proof (cases "sys_step q s")
    case None
    with Cons finishing_turn [OF Cons.prems] show ?thesis by (cases "q = p") auto
  next
    case (Some t)
    then have t: "hl_inv t" "length (hl_procs t) = length (hl_procs s)"
      using hl_inv_step [OF Cons.prems(1)] sys_stepD [OF Some] by blast+
    show ?thesis
    proof (cases "q = p")
      case True
      with finishing_turn [OF Cons.prems] Some Cons.IH [OF t(1)] Cons.prems(2) t(2) show ?thesis by auto
    next
      case False
      with sys_stepD [OF Some] Cons.IH [OF t(1)] Cons.prems Some show ?thesis by auto
    qed
  qed
qed

lemma finishing_done: "finishing x \<Longrightarrow> pos x = Done \<longleftrightarrow> turns x = 0"
  by (auto simp: finishing_def turns_def)

lemma looping_forever:
  assumes "p < length (hl_procs s)" "pos (hl_procs s ! p) = Looping v" "1 < v"
  shows "pos (hl_procs (sys_run ps s) ! p) = Looping v"
proof -
  let ?I = "\<lambda>s. p < length (hl_procs s) \<and> pos (hl_procs s ! p) = Looping v"
  have "?I t" if "?I s" "sys_step q s = Some t" for q s t
  proof (cases "q = p")
    case True
    with that assms(3) show ?thesis
      by (auto simp: sys_step_def proc_step_defs split: if_splits bind_splits)
  next
    case False
    with that sys_stepD [OF that(2)] show ?thesis by simp
  qed
  then show ?thesis using sys_run_inv [of ?I s ps] assms(1,2) by blast
qed

text \<open>C29: the highlander does not wait for its foes.  It reads once how many are still running; if
  there is at most one it ends after four turns of its own, whether or not that foe has ended,
  and if there are more it never ends, not even when all of them have.
\<close>

theorem highlander_wait_outcome:
  assumes "hl_reachable s" "p < length (hl_procs s)" "pos (hl_procs s ! p) = Application"
    "amHighlander (hl_procs s ! p) = 1" "semk (hl_procs s ! p) = Some k"
  shows "\<exists>t. sys_step p s = Some t \<and> pos (hl_procs t ! p) = Looping (foes k s)
    \<and> (\<forall>ps. pos (hl_procs (sys_run ps t) ! p) = Done \<longleftrightarrow> foes k s \<le> 1 \<and> 4 \<le> count_list ps p)"
proof -
  note inv = hl_inv_reachable [OF assms(1)]
  have "proc_ok (hl_sems s) (hl_procs s ! p)" using inv assms(2) unfolding hl_inv_def by simp
  then have "sem_getvalue K k (hl_sems s) = foes k s"
    using inv assms(3,5) unfolding hl_inv_def by (simp add: proc_ok_def sem_getvalue_def)
  then obtain t where t: "sys_step p s = Some t" "pos (hl_procs t ! p) = Looping (foes k s)"
    using assms(2-5) by (simp add: sys_step_def proc_step_defs)
  note it = hl_inv_step [OF inv t(1)]
  have pt: "p < length (hl_procs t)" using sys_stepD [OF t(1)] assms(2) by simp
  have "pos (hl_procs (sys_run ps t) ! p) = Done \<longleftrightarrow> foes k s \<le> 1 \<and> 4 \<le> count_list ps p" for ps
  proof (cases "foes k s \<le> 1")
    case True
    then have "finishing (hl_procs t ! p)" "turns (hl_procs t ! p) = 4"
      using t(2) by (auto simp: finishing_def turns_def)
    with finishing_run [OF it pt, of ps] finishing_done True show ?thesis by auto
  next
    case False
    with looping_forever [OF pt t(2), of ps] show ?thesis by simp
  qed
  with t show ?thesis by blast
qed

text \<open>a foe is never blocked: whatever the other processes do, its highlander_wait returns once
  it has had three turns.
\<close>

theorem foe_wait_returns:
  assumes "hl_reachable s" "p < length (hl_procs s)" "pos (hl_procs s ! p) = Application" "amHighlander (hl_procs s ! p) = 0"
  shows "pos (hl_procs (sys_run ps s) ! p) = Done \<longleftrightarrow> 3 \<le> count_list ps p"
proof -
  have "finishing (hl_procs s ! p)" "turns (hl_procs s ! p) = 3"
    using assms(3,4) by (simp_all add: finishing_def turns_def)
  with finishing_run [OF hl_inv_reachable [OF assms(1)] assms(2), of ps] finishing_done show ?thesis by auto
qed

section \<open>Without a leader\<close>


section \<open>Witnesses\<close>

lemma hl_start_reachable: "hl_reachable (sys_run ps (hl_start n))"
  by (rule run_reachable) (rule hl_reachable.start)

lemmas run_eval = hl_start_def hl_proc0_def sys_step_def step_defs

text \<open>Two processes, the first is the highlander and the second its foe.\<close>

definition hl_pair :: hl_sys where
  "hl_pair = sys_run [0, 0, 1, 1, 1, 1] (hl_start 2)"

lemma hl_pair_eq:
  "hl_pair = \<lparr>hl_sems = \<lparr>sem_names = Map.empty(K \<mapsto> 0, L \<mapsto> 0), sem_vals = (\<lambda>_. [])(K := [1], L := [0])\<rparr>,
     hl_procs = [\<lparr>pos = Application, amHighlander = 1, semk = Some 0, seml = Some 0\<rparr>,
                 \<lparr>pos = Application, amHighlander = 0, semk = Some 0, seml = Some 0\<rparr>]\<rparr>"
  by (simp add: hl_pair_def run_eval numeral_2_eq_2 fun_upd_twist)

lemma hl_pair_reachable: "hl_reachable hl_pair"
  unfolding hl_pair_def by (rule hl_start_reachable)

theorem highlander_unique_witness:
  "holds (hl_procs hl_pair ! 0) \<and> \<not> holds (hl_procs hl_pair ! 1)"
proof -
  have "holds (hl_procs hl_pair ! 0)" by (simp add: hl_pair_eq holds_def)
  with highlander_unique [OF hl_pair_reachable, of 0 1] show ?thesis by (auto simp: hl_pair_eq)
qed

text \<open>The highlander ends before its foe; with two foes it never does.\<close>

theorem highlander_wait_witness:
  "\<exists>t. sys_step 0 hl_pair = Some t \<and> pos (hl_procs (sys_run [0, 0, 0, 0] t) ! 0) = Done"
  using highlander_wait_outcome [OF hl_pair_reachable, of 0 0]
  by (auto simp: hl_pair_eq foes_def running_foe_def simp del: sys_run.simps)

theorem foe_wait_witness: "pos (hl_procs (sys_run [1, 0, 1, 0, 1] hl_pair) ! 1) = Done"
  using foe_wait_returns [OF hl_pair_reachable, of 1 "[1, 0, 1, 0, 1]"] by (simp add: hl_pair_eq)

text \<open>
  The second process is between its two attempts to open the semaphore when the highlander
  removes it; a third one that comes later is a foe.
\<close>

definition hl_race :: hl_sys where
  "hl_race = sys_run [0, 0, 1, 0, 0, 0, 0, 0, 1] (hl_start 3)"

lemma hl_race_eq:
  "sem_names (hl_sems hl_race) K = Some 1 \<and> filter holds (hl_procs hl_race) = []"
  by (simp add: hl_race_def run_eval numeral_3_eq_3 holds_def)


text \<open>A process started with \<open>-c\<close> removes the name of a running highlander: then there are two.\<close>

lemma clean_two_highlanders:
  "filter holds (hl_procs (sys_run [0, 0, 1, 1, 2, 2]
      (hl_start 3\<lparr>hl_procs := [hl_proc0, hl_proc0\<lparr>pos := Clean_K\<rparr>, hl_proc0]\<rparr>)))
     = [\<lparr>pos = Application, amHighlander = 1, semk = Some 0, seml = Some 0\<rparr>,
        \<lparr>pos = Application, amHighlander = 1, semk = Some 1, seml = Some 1\<rparr>]"
  by (simp add: run_eval holds_def)

end
