(* ===== verification/C_Numbers.thy ===== *)
theory C_Numbers
  imports Msr_Core Complex_Main
begin

text \<open>
  The conversions of the C library that the command-line tool applies to its arguments,
  \<open>strtol\<close>, \<open>atoi\<close> and \<open>atof\<close>, \<open>getopt\<close>, and the formats \<open>%lx\<close> and \<open>%d\<close> of its
  output; with what becomes of a number that is printed and read again.
\<close>

section \<open>Digits\<close>

definition digit :: "char \<Rightarrow> nat" where
  "digit c =
     (let n = of_char c in
      if 48 \<le> n \<and> n \<le> 57 then n - 48 else if 97 \<le> n \<and> n \<le> 122 then n - 87
      else if 65 \<le> n \<and> n \<le> 90 then n - 55 else 36)"

text \<open>The digits at the front of a string: their value after \<open>a\<close>, their number after \<open>n\<close>, the rest.\<close>

fun digits :: "nat \<Rightarrow> nat \<Rightarrow> nat \<Rightarrow> string \<Rightarrow> nat \<times> nat \<times> string" where
  "digits b a n [] = (a, n, [])"
| "digits b a n (c # cs) = (if digit c < b then digits b (a * b + digit c) (Suc n) cs else (a, n, c # cs))"

definition is_space :: "char \<Rightarrow> bool" where
  "is_space c = (let n = (of_char c :: nat) in n = 32 \<or> 9 \<le> n \<and> n \<le> 13)"

definition sign :: "string \<Rightarrow> bool \<times> string" where
  "sign s =
     (case s of [] \<Rightarrow> (False, [])
      | c # cs \<Rightarrow> if c = CHR ''-'' then (True, cs) else if c = CHR ''+'' then (False, cs) else (False, c # cs))"

definition lower :: "char \<Rightarrow> char" where
  "lower c = (let n = (of_char c :: nat) in if 65 \<le> n \<and> n \<le> 90 then char_of (n + 32) else c)"

definition hex_prefix :: "string \<Rightarrow> bool" where
  "hex_prefix s \<longleftrightarrow> 2 < length s \<and> s ! 0 = CHR ''0'' \<and> s ! 1 \<in> {CHR ''x'', CHR ''X''} \<and> digit (s ! 2) < 16"

text \<open>\<open>strtol\<close> of a 64-bit \<open>long\<close>: a number out of range becomes the nearest one in range.\<close>

definition strtol :: "nat \<Rightarrow> string \<Rightarrow> int" where
  "strtol b s =
     (case sign (dropWhile is_space s) of (neg, s) \<Rightarrow>
      case digits b 0 0 (if b = 16 \<and> hex_prefix s then drop 2 s else s) of (n, _, _) \<Rightarrow>
        if neg then max (- int n) (- (2 ^ 63)) else min (int n) (2 ^ 63 - 1))"

definition strtol16 :: "string \<Rightarrow> u64" where
  "strtol16 s = of_int (strtol 16 s)"

definition atoi :: "string \<Rightarrow> u32" where
  "atoi s = of_int (strtol 10 s)"

text \<open>
  \<open>atof\<close> of a number in decimal notation.  Hexadecimal notation is left out, and infinity and NaN
  have no value here: every use converts the result, or a multiple of it, to an integer.
\<close>

definition atof :: "string \<Rightarrow> real option" where
  "atof s =
     (case sign (dropWhile is_space s) of (neg, s) \<Rightarrow>
      case digits 10 0 0 s of (i, n, t) \<Rightarrow>
      case (if t \<noteq> [] \<and> hd t = CHR ''.'' then digits 10 i 0 (tl t) else (i, 0, t)) of (m, k, u) \<Rightarrow>
        if hex_prefix s then None
        else if map lower (take 3 s) \<in> {''inf'', ''nan''} then None
        else if n + k = 0 then Some 0
        else
          let (eneg, x) = (if u \<noteq> [] \<and> hd u \<in> {CHR ''e'', CHR ''E''}
                           then case sign (tl u) of (eneg, w) \<Rightarrow> (eneg, fst (digits 10 0 0 w)) else (False, 0));
              v = real m / 10 ^ k * (if eneg then 1 / 10 ^ x else 10 ^ x)
          in Some (if neg then - v else v))"

text \<open>A floating-point number assigned to an \<open>int\<close>: the fraction is cut off; out of range it is undefined.\<close>

definition to_int :: "real \<Rightarrow> int option" where
  "to_int x =
     (let i = (if 0 \<le> x then \<lfloor>x\<rfloor> else \<lceil>x\<rceil>)
      in if - (2 ^ 31) \<le> i \<and> i < 2 ^ 31 then Some i else None)"

text \<open>\<open>strncmp(s, p, strlen(p)) == 0\<close>.\<close>

definition has_prefix :: "string \<Rightarrow> string \<Rightarrow> bool" where
  "has_prefix p s \<longleftrightarrow> take (length p) s = p"

section \<open>Options\<close>

datatype opt_arg = Opt char string | Bad char

text \<open>
  The results of calling \<open>getopt\<close> until it returns -1, for the options \<open>flags\<close> without and
  \<open>pars\<close> with a parameter.  Other arguments are skipped.
\<close>

fun getopt :: "string \<Rightarrow> string \<Rightarrow> string \<Rightarrow> string list \<Rightarrow> opt_arg list" where
  "getopt flags pars [] [] = []"
| "getopt flags pars [] (a # as) =
     (if a = ''--'' then []
      else if a \<noteq> [] \<and> hd a = CHR ''-'' \<and> tl a \<noteq> [] then getopt flags pars (tl a) as
      else getopt flags pars [] as)"
| "getopt flags pars (c # cs) as =
     (if c \<in> set flags then Opt c [] # getopt flags pars cs as
      else if c \<in> set pars
      then (if cs \<noteq> [] then Opt c cs # getopt flags pars [] as
            else case as of [] \<Rightarrow> [Bad c] | a # as \<Rightarrow> Opt c a # getopt flags pars [] as)
      else Bad c # getopt flags pars cs as)"

section \<open>Printing and reading again\<close>

definition digit_char :: "nat \<Rightarrow> char" where
  "digit_char d = char_of (if d < 10 then 48 + d else 87 + d)"

text \<open>\<open>%lx\<close>.\<close>

fun hex :: "nat \<Rightarrow> string" where
  "hex n = (if n < 16 then [digit_char n] else hex (n div 16) @ [digit_char (n mod 16)])"

declare hex.simps [simp del] decimal.simps [simp del]

lemma digit_digit_char: "d < 16 \<Longrightarrow> digit (digit_char d) = d"
  by (auto simp: digit_def digit_char_def)

lemma digits_append: "\<forall>c\<in>set s. digit c < b \<Longrightarrow> digits b a n (s @ t) = digits b (fst (digits b a n s)) (fst (snd (digits b a n s))) t"
  by (induction s arbitrary: a n) auto

lemma hex_digits: "\<forall>c\<in>set (hex n). digit c < 16"
proof (induction n rule: hex.induct)
  case (1 n)
  then show ?case by (subst hex.simps) (auto simp: digit_digit_char)
qed

lemma digits_hex: "fst (digits 16 0 0 (hex n)) = n"
proof (induction n rule: hex.induct)
  case (1 n)
  show ?case
  proof (cases "n < 16")
    case True
    then show ?thesis by (simp add: hex.simps [of n] digit_digit_char)
  next
    case False
    with 1 digits_append [OF hex_digits, of 0 0 "n div 16" "[digit_char (n mod 16)]"] show ?thesis
      by (simp add: hex.simps [of n] digit_digit_char)
  qed
qed

text \<open>A printed number begins with a digit, so it has no sign, no prefix, and is no option.\<close>

lemma hex_hd: "hex n \<noteq> []" "hd (hex n) \<noteq> CHR ''-'' \<and> hd (hex n) \<noteq> CHR ''+'' \<and> \<not> is_space (hd (hex n))"
proof -
  show ne: "hex n \<noteq> []" by (subst hex.simps) simp
  have "digit (hd (hex n)) < 16" using hex_digits [of n] hd_in_set [OF ne] by blast
  then show "hd (hex n) \<noteq> CHR ''-'' \<and> hd (hex n) \<noteq> CHR ''+'' \<and> \<not> is_space (hd (hex n))"
    by (auto simp: digit_def is_space_def Let_def split: if_splits)
qed

lemma no_hex_prefix: "\<forall>c\<in>set s. digit c < 16 \<Longrightarrow> \<not> hex_prefix s"
proof
  assume s: "\<forall>c\<in>set s. digit c < 16" "hex_prefix s"
  then have "digit (s ! 1) < 16" using nth_mem [of 1 s] by (simp add: hex_prefix_def)
  with s(2) show False by (auto simp: hex_prefix_def digit_def)
qed

lemma strtol_plain:
  assumes "s \<noteq> []" "hd s \<noteq> CHR ''-'' \<and> hd s \<noteq> CHR ''+'' \<and> \<not> is_space (hd s)" "b = 16 \<longrightarrow> \<not> hex_prefix s"
  shows "strtol b s = min (int (fst (digits b 0 0 s))) (2 ^ 63 - 1)"
proof -
  obtain c cs where "s = c # cs" using assms(1) by (cases s) auto
  with assms(2,3) show ?thesis by (auto simp: strtol_def sign_def split: prod.split)
qed

text \<open>What the tool prints for a register and what it makes of it as the value to write: everything
  from 2 ^ 63 on becomes 2 ^ 63 - 1.\<close>

lemma strtol16_hex: "strtol16 (hex (unat v)) = (if v < 2 ^ 63 then v else 2 ^ 63 - 1)"
proof -
  have s: "strtol 16 (hex (unat v)) = min (uint v) (2 ^ 63 - 1)"
    using strtol_plain [OF hex_hd, of 16 "unat v"] no_hex_prefix [OF hex_digits] digits_hex by simp
  have "v < 2 ^ 63 \<longleftrightarrow> uint v < 2 ^ 63" by (simp add: word_less_def)
  then show ?thesis unfolding strtol16_def s by (auto simp: min_def)
qed

lemma digit_decimal: "d < 10 \<Longrightarrow> digit (char_of (48 + d)) = d"
  by (simp add: digit_def Let_def)

lemma decimal_digits: "\<forall>c\<in>set (decimal n). digit c < 10"
proof (induction n rule: decimal.induct)
  case (1 n)
  then show ?case by (subst decimal.simps) (auto simp: digit_decimal)
qed

lemma digits_decimal: "fst (digits 10 0 0 (decimal n)) = n"
proof (induction n rule: decimal.induct)
  case (1 n)
  show ?case
  proof (cases "n < 10")
    case True
    then show ?thesis by (simp add: decimal.simps [of n] digit_decimal)
  next
    case False
    with 1 digits_append [OF decimal_digits, of 0 0 "n div 10" "[char_of (48 + n mod 10)]"] show ?thesis
      by (simp add: decimal.simps [of n] digit_decimal)
  qed
qed

lemma decimal_hd: "decimal n \<noteq> []" "hd (decimal n) \<noteq> CHR ''-'' \<and> hd (decimal n) \<noteq> CHR ''+'' \<and> \<not> is_space (hd (decimal n))"
proof -
  show ne: "decimal n \<noteq> []" by (subst decimal.simps) simp
  have "digit (hd (decimal n)) < 10" using decimal_digits [of n] hd_in_set [OF ne] by blast
  then show "hd (decimal n) \<noteq> CHR ''-'' \<and> hd (decimal n) \<noteq> CHR ''+'' \<and> \<not> is_space (hd (decimal n))"
    by (auto simp: digit_def is_space_def Let_def split: if_splits)
qed

lemma atoi_decimal: "n < 2 ^ 63 \<Longrightarrow> atoi (decimal n) = of_nat n"
proof -
  assume "n < 2 ^ 63"
  then have "strtol 10 (decimal n) = int n"
    using strtol_plain [OF decimal_hd, of 10] digits_decimal by (simp add: min_def)
  then show ?thesis by (simp add: atoi_def)
qed

end
