(* ===== verification/Msrmod.thy ===== *)
theory Msrmod
  imports C_Numbers Rapl_Witness Msr_Counters Msr_Core_Props
begin

text \<open>
  The command-line tool \<open>src/msrmod/msrmod.c\<close>: it prints the power limits and the available
  registers, reads or writes one register of one processor, and sets power limits.  Its options
  are handled in the order they come: \<open>-p\<close> and \<open>-l\<close> act at once, the others set variables
  that the end of \<open>main\<close> looks at.
\<close>

section \<open>Output\<close>

text \<open>What the tool prints; a limit is printed with its three members.\<close>

datatype mod_out =
    Usage | Not_interactive | Init_msr_failed | Init_rapl_failed | Unknown_type string
  | Unknown_parameter char | Read_or_write | Missing_value
  | Heading string nat | Setting_defaults | Limit rapl_limit
  | Available_rapl "string list" | Available_counters "(string \<times> nat option) list"
  | Power_info "(nat \<times> real list) list"
  | Reading u64 u32 u64 | Writing u64 u64 u32

text \<open>\<open>ISVERBOSE\<close> and the output, beside the state of the library.\<close>

record 'd mod_lib = "'d rapl_lib" +
  isverbose :: bool
  printed :: "mod_out list"

definition say :: "mod_out list \<Rightarrow> ('d, 'z) mod_lib_scheme \<Rightarrow> ('d, 'z) mod_lib_scheme" where
  "say xs s = s\<lparr>printed := printed s @ xs\<rparr>"

section \<open>Listing and printing\<close>

definition list_functions :: "'d env \<Rightarrow> string \<Rightarrow> ('d, 'z) mod_lib_scheme \<Rightarrow> (int \<times> ('d, 'z) mod_lib_scheme) option" where
  "list_functions E type s =
     do {
       (r, s) \<leftarrow> init_msr E s;
       if r \<noteq> 0 then Some (-1, say [Init_msr_failed] s)
       else if has_prefix ''rapl'' type
       then (case print_available_rapl E s of (_, xs, s) \<Rightarrow> Some (0, say [Heading ''RAPL MSRs'' 0, Available_rapl xs] s))
       else if has_prefix ''counters'' type
       then Some (0, say [Heading ''Counter MSRs'' 0, Available_counters (print_available_counters E)] s)
       else if has_prefix ''all'' type
       then (case print_available_rapl E s of (_, xs, s) \<Rightarrow>
               Some (0, say [Heading ''All MSRs'' 0, Heading ''RAPL MSRs'' 0, Available_rapl xs,
                             Heading ''Counter MSRs'' 0, Available_counters (print_available_counters E)] s))
       else Some (-1, say [Unknown_type type] s)
     }"

text \<open>The limits are locals without initial values; a failing call leaves them, and they are printed all the same.\<close>

definition get_rapl_stuff :: "'d env \<Rightarrow> ('d, 'z) mod_lib_scheme \<Rightarrow> ('d, 'z) mod_lib_scheme option" where
  "get_rapl_stuff E s =
     do {
       (_, l1, l2, s) \<leftarrow> get_pkg_rapl_limit E 0 (Some (junk_limit E)) (Some (junk_limit E)) s;
       let s = say [Heading ''Pkg Domain'' 0, Limit (the l1), Limit (the l2)] s;
       (_, l1, l2, s) \<leftarrow> get_pkg_rapl_limit E 1 l1 l2 s;
       let s = say [Heading ''Pkg Domain'' 1, Limit (the l1), Limit (the l2)] s;
       (_, l3, s) \<leftarrow> get_dram_rapl_limit E 0 (Some (junk_limit E)) s;
       let s = say [Heading ''DRAM Domain'' 0, Limit (the l3)] s;
       (_, l3, s) \<leftarrow> get_dram_rapl_limit E 1 l3 s;
       Some (say [Heading ''DRAM Domain'' 1, Limit (the l3)] s)
     }"

definition printing_functions :: "'d env \<Rightarrow> string \<Rightarrow> ('d, 'z) mod_lib_scheme \<Rightarrow> (int \<times> ('d, 'z) mod_lib_scheme) option" where
  "printing_functions E type s =
     do {
       (r, s) \<leftarrow> init_msr E s;
       if r \<noteq> 0 then Some (-1, say [Init_msr_failed] s)
       else do {
         (ret, s) \<leftarrow> rapl_init E s;
         if ret < 0 then Some (-1, say [Init_rapl_failed] s)
         else if has_prefix ''rapl'' type then do { s \<leftarrow> get_rapl_stuff E s; Some (0, s) }
         else if has_prefix ''info'' type
         then do { (_, xs, s) \<leftarrow> dump_rapl_power_info E s; Some (0, say [Power_info xs] s) }
         else Some (-1, say [Unknown_type type] s)
       }
     }"

section \<open>Setting limits\<close>

definition show_limits :: "nat \<Rightarrow> rapl_limit list \<Rightarrow> ('d, 'z) mod_lib_scheme \<Rightarrow> ('d, 'z) mod_lib_scheme" where
  "show_limits i ls s = (if isverbose s then say (Heading ''Socket'' i # map Limit ls) s else s)"

text \<open>
  One round of \<open>set_to_defaults\<close>.  \<open>get_rapl_power_info\<close> fills the members of the structure
  that the machine has registers for; the others are read without ever having been set.
\<close>

definition set_defaults_socket :: "'d env \<Rightarrow> nat \<Rightarrow> ('d, 'z) mod_lib_scheme \<Rightarrow> ('d, 'z) mod_lib_scheme option" where
  "set_defaults_socket E i s =
     do {
       (r, info, s) \<leftarrow> get_rapl_power_info E (of_nat i)
          \<lparr>msr_pkg_power_info = junk E, pkg_max_power = 0, pkg_min_power = 0, pkg_max_window = 0, pkg_therm_power = 0,
           msr_dram_power_info = junk E, dram_max_power = 0, dram_min_power = 0, dram_max_window = 0, dram_therm_power = 0\<rparr> s;
       if r \<noteq> 0 \<or> \<not> has PKG_POWER_INFO s \<or> \<not> has DRAM_POWER_INFO s then None
       else do {
         let lim1 = \<lparr>bits = 0, l_watts = pkg_therm_power info, l_seconds = 1\<rparr>;
         let lim2 = \<lparr>bits = 0, l_watts = pkg_therm_power info * 1.2, l_seconds = 3\<rparr>;
         let dram = \<lparr>bits = 0, l_watts = dram_max_power info, l_seconds = 1\<rparr>;
         let s = show_limits i [lim1, lim2, dram] s;
         (_, _, _, s) \<leftarrow> set_pkg_rapl_limit E (of_nat i) (Some lim1) (Some lim2) s;
         (_, _, s) \<leftarrow> set_dram_rapl_limit E (of_nat i) (Some dram) s;
         Some s
       }
     }"

definition set_to_defaults :: "'d env \<Rightarrow> ('d, 'z) mod_lib_scheme \<Rightarrow> ('d, 'z) mod_lib_scheme option" where
  "set_to_defaults E s = foldo (set_defaults_socket E) [0..<sockets (hw E)] (say [Setting_defaults] s)"

definition set_mem_limit :: "'d env \<Rightarrow> u32 \<Rightarrow> real \<Rightarrow> real \<Rightarrow> ('d, 'z) mod_lib_scheme \<Rightarrow> ('d, 'z) mod_lib_scheme option" where
  "set_mem_limit E sk w t s =
     do {
       let dram = \<lparr>bits = 0, l_watts = w, l_seconds = t\<rparr>;
       let s = show_limits (unat sk) [dram] s;
       (_, _, s) \<leftarrow> set_dram_rapl_limit E sk (Some dram) s;
       Some s
     }"

definition set_functions ::
  "'d env \<Rightarrow> string \<Rightarrow> u32 \<Rightarrow> real \<Rightarrow> real \<Rightarrow> real \<Rightarrow> real \<Rightarrow> ('d, 'z) mod_lib_scheme
   \<Rightarrow> (int \<times> ('d, 'z) mod_lib_scheme) option" where
  "set_functions E type sk w1 t1 w2 t2 s =
     do {
       (r, s) \<leftarrow> init_msr E s;
       if r \<noteq> 0 then Some (-1, say [Init_msr_failed] s)
       else if has_prefix ''default'' type then do { s \<leftarrow> set_to_defaults E s; Some (0, s) }
       else if has_prefix ''memory'' type then do { s \<leftarrow> set_mem_limit E sk w1 t1 s; Some (0, s) }
       else if has_prefix ''package'' type
       then do {
         let lim1 = \<lparr>bits = 0, l_watts = w1, l_seconds = t1\<rparr>;
         let lim2 = \<lparr>bits = 0, l_watts = w2, l_seconds = t2\<rparr>;
         let s = show_limits (unat sk) [lim1, lim2] s;
         (_, _, _, s) \<leftarrow> set_pkg_rapl_limit E sk (Some lim1) (Some lim2) s;
         Some (0, s)
       }
       else Some (-1, say [Unknown_type type] s)
     }"

section \<open>main\<close>

text \<open>The variables of \<open>main\<close> that the options set; the limits are of type \<open>int\<close>.\<close>

record mod_vars =
  set_msr_type :: string
  msr_data :: u64
  msr_num :: u64
  set_msr_data :: bool
  mod_thread :: u32
  mod_socket :: u32
  isread :: bool
  iswrite :: bool
  isset :: bool
  power_lim1 :: int
  power_lim2 :: int
  time_lim1 :: int
  time_lim2 :: int

definition mod_vars0 :: mod_vars where
  "mod_vars0 = \<lparr>set_msr_type = [], msr_data = 0, msr_num = 0, set_msr_data = False, mod_thread = 0, mod_socket = 0,
     isread = False, iswrite = False, isset = False, power_lim1 = 0, power_lim2 = 0, time_lim1 = 0, time_lim2 = 0\<rparr>"

text \<open>\<open>int x = atof(optarg)\<close>.\<close>

definition int_of_arg :: "string \<Rightarrow> int option" where
  "int_of_arg a = Option.bind (atof a) to_int"

text \<open>One option; \<open>Inl\<close> is the early return after an unknown one.\<close>

fun do_option ::
  "'d env \<Rightarrow> opt_arg \<Rightarrow> mod_vars \<times> ('d, 'z) mod_lib_scheme
   \<Rightarrow> (('d, 'z) mod_lib_scheme + mod_vars \<times> ('d, 'z) mod_lib_scheme) option" where
  "do_option E (Bad c) (v, s) = Some (Inl (say [Unknown_parameter c, Usage] s))"
| "do_option E (Opt c a) (v, s) =
     (if c = CHR ''v'' then Some (Inr (v, s\<lparr>isverbose := True\<rparr>))
      else if c = CHR ''i'' then Some (Inr (v, say [Not_interactive] s))
      else if c = CHR ''p'' then do { (_, s) \<leftarrow> printing_functions E a s; Some (Inr (v, s)) }
      else if c = CHR ''l'' then do { (_, s) \<leftarrow> list_functions E a s; Some (Inr (v, s)) }
      else if c = CHR ''r'' then Some (Inr (v\<lparr>isread := True, msr_num := strtol16 a\<rparr>, s))
      else if c = CHR ''w'' then Some (Inr (v\<lparr>iswrite := True, msr_num := strtol16 a\<rparr>, s))
      else if c = CHR ''s'' then Some (Inr (v\<lparr>set_msr_type := a, isset := True\<rparr>, s))
      else if c = CHR ''c'' then Some (Inr (v\<lparr>mod_socket := atoi a\<rparr>, s))
      else if c = CHR ''t'' then Some (Inr (v\<lparr>mod_thread := atoi a\<rparr>, s))
      else if c = CHR ''d'' then Some (Inr (v\<lparr>set_msr_data := True, msr_data := strtol16 a\<rparr>, s))
      else if c = CHR ''a'' then do { i \<leftarrow> int_of_arg a; Some (Inr (v\<lparr>power_lim1 := i\<rparr>, s)) }
      else if c = CHR ''b'' then do { i \<leftarrow> int_of_arg a; Some (Inr (v\<lparr>time_lim1 := i\<rparr>, s)) }
      else if c = CHR ''e'' then do { i \<leftarrow> int_of_arg a; Some (Inr (v\<lparr>power_lim2 := i\<rparr>, s)) }
      else do { i \<leftarrow> int_of_arg a; Some (Inr (v\<lparr>time_lim2 := i\<rparr>, s)) })"

fun do_options ::
  "'d env \<Rightarrow> opt_arg list \<Rightarrow> mod_vars \<times> ('d, 'z) mod_lib_scheme
   \<Rightarrow> (('d, 'z) mod_lib_scheme + mod_vars \<times> ('d, 'z) mod_lib_scheme) option" where
  "do_options E [] vs = Some (Inr vs)"
| "do_options E (x # xs) vs =
     (case do_option E x vs of None \<Rightarrow> None | Some (Inl s) \<Rightarrow> Some (Inl s) | Some (Inr vs) \<Rightarrow> do_options E xs vs)"

text \<open>The end of \<open>main\<close>.\<close>

definition do_command :: "'d env \<Rightarrow> mod_vars \<Rightarrow> ('d, 'z) mod_lib_scheme \<Rightarrow> (int \<times> ('d, 'z) mod_lib_scheme) option" where
  "do_command E v s =
     (if isread v \<and> iswrite v then Some (-1, say [Read_or_write, Usage] s)
      else if isread v
      then do {
        (r, s) \<leftarrow> init_msr E s;
        if r \<noteq> 0 then Some (-1, say [Init_msr_failed] s)
        else do {
          (_, d, s) \<leftarrow> read_msr_by_idx E (mod_thread v) (msr_num v) (msr_data v) s;
          Some (0, say [Reading (msr_num v) (mod_thread v) d] s)
        }
      }
      else if iswrite v \<and> set_msr_data v
      then do {
        (r, s) \<leftarrow> init_msr E s;
        if r \<noteq> 0 then Some (-1, say [Init_msr_failed] s)
        else do {
          (_, s) \<leftarrow> write_msr_by_idx E (mod_thread v) (msr_num v) (msr_data v) s;
          Some (0, say [Writing (msr_data v) (msr_num v) (mod_thread v)] s)
        }
      }
      else if iswrite v then Some (-1, say [Missing_value, Usage] s)
      else if isset v
      then do {
        (_, s) \<leftarrow> set_functions E (set_msr_type v) (mod_socket v) (real_of_int (power_lim1 v)) (real_of_int (time_lim1 v))
           (real_of_int (power_lim2 v)) (real_of_int (time_lim2 v)) s;
        Some (0, s)
      }
      else Some (0, s))"

text \<open>\<open>args\<close> is \<open>argv\<close> without the name of the program.\<close>

definition msrmod_main :: "'d env \<Rightarrow> string list \<Rightarrow> ('d, 'z) mod_lib_scheme \<Rightarrow> (int \<times> ('d, 'z) mod_lib_scheme) option" where
  "msrmod_main E args s =
     (if args = [] \<or> has_prefix ''--help'' (hd args) \<or> has_prefix ''-h'' (hd args) then Some (0, say [Usage] s)
      else do {
        r \<leftarrow> do_options E (getopt ''vi'' ''plrwsctdabef'' [] args) (mod_vars0, s\<lparr>isverbose := False\<rparr>);
        (case r of Inl s \<Rightarrow> Some (-1, s) | Inr (v, s) \<Rightarrow> do_command E v s)
      })"

section \<open>Reading and writing a register\<close>

declare decimal.simps [simp del]

lemma say_simps [simp]:
  "dev (say xs s) = dev s" "fd_of (say xs s) = fd_of s" "printed (say xs s) = printed s @ xs"
  "fds_ready E good (say xs s) = fds_ready E good s"
  by (simp_all add: say_def fds_ready_def fd_of_def fun_eq_iff)

text \<open>What \<open>strtol\<close> makes of a printed 64-bit number.\<close>

definition clamp63 :: "u64 \<Rightarrow> u64" where
  "clamp63 v = (if v < 2 ^ 63 then v else 2 ^ 63 - 1)"

lemma init_msr_fresh:
  assumes "hw_wf (hw E)" "0 < NUM_DEVS (hw E)" "\<not> msr_inited s" "\<not> fd_init s" "init_msr E s = Some (0, s1)"
  shows "fds_ready E (\<lambda>fd. fd \<noteq> -1) s1"
  using init_msr_ok [OF assms(1,3,4)] assms(1,2,5) table_upto_ready by (auto simp: hw_wf_def)

lemma quiet [simp]: "\<not> isverbose s \<Longrightarrow> s\<lparr>isverbose := False\<rparr> = s"
  by (cases s) simp

lemma getopt_write:
  "getopt ''vi'' ''plrwsctdabef'' [] [''-w'', a, ''-d'', v, ''-t'', i] = [Opt CHR ''w'' a, Opt CHR ''d'' v, Opt CHR ''t'' i]"
  "getopt ''vi'' ''plrwsctdabef'' [] [''-r'', a, ''-t'', i] = [Opt CHR ''r'' a, Opt CHR ''t'' i]"
  by simp_all

lemma main_write:
  assumes "\<not> isverbose s" "init_msr E s = Some (0, s1)" "i < 2 ^ 31"
  shows "msrmod_main E [''-w'', hex (unat a), ''-d'', hex (unat v), ''-t'', decimal i] s
    = map_option (\<lambda>(_, t). (0, say [Writing (clamp63 v) (clamp63 a) (of_nat i)] t))
        (write_msr_by_idx E (of_nat i) (clamp63 a) (clamp63 v) s1)"
proof -
  have "do_options E [Opt CHR ''w'' (hex (unat a)), Opt CHR ''d'' (hex (unat v)), Opt CHR ''t'' (decimal i)] (mod_vars0, s)
    = Some (Inr (mod_vars0\<lparr>iswrite := True, msr_num := clamp63 a, set_msr_data := True, msr_data := clamp63 v,
                   mod_thread := of_nat i\<rparr>, s))"
    using assms(3) by (simp add: strtol16_hex clamp63_def atoi_decimal)
  then show ?thesis
    using assms(1,2) by (cases "write_msr_by_idx E (of_nat i) (clamp63 a) (clamp63 v) s1")
      (auto simp: msrmod_main_def has_prefix_def getopt_write mod_vars0_def do_command_def simp del: getopt.simps do_options.simps)
qed

lemma main_read:
  assumes "\<not> isverbose s" "init_msr E s = Some (0, s1)" "i < 2 ^ 31"
  shows "msrmod_main E [''-r'', hex (unat a), ''-t'', decimal i] s
    = map_option (\<lambda>(_, d, t). (0, say [Reading (clamp63 a) (of_nat i) d] t)) (read_msr_by_idx E (of_nat i) (clamp63 a) 0 s1)"
proof -
  have "do_options E [Opt CHR ''r'' (hex (unat a)), Opt CHR ''t'' (decimal i)] (mod_vars0, s)
    = Some (Inr (mod_vars0\<lparr>isread := True, msr_num := clamp63 a, mod_thread := of_nat i\<rparr>, s))"
    using assms(3) by (simp add: strtol16_hex clamp63_def atoi_decimal)
  then show ?thesis
    using assms(1,2) by (cases "read_msr_by_idx E (of_nat i) (clamp63 a) 0 s1")
      (auto simp: msrmod_main_def has_prefix_def getopt_write mod_vars0_def do_command_def simp del: getopt.simps do_options.simps)
qed

text \<open>C31: when the devices can be opened, msrmod -r prints the register of the processor, and
  msrmod -w stores the value in it and in no other register.  But an address or a value of 2 ^ 63 or more
  becomes 2 ^ 63 - 1: a register with its uppermost bit set is not restored from what was printed.
\<close>

theorem msrmod_reads_and_writes:
  fixes s :: "('d, 'z) mod_lib_scheme"
  assumes hw: "hw_wf (hw E)" "i < NUM_DEVS (hw E)" and f: "msr_files E (\<lambda>fd. fd \<noteq> -1) rg"
    and s: "\<not> msr_inited s" "\<not> fd_init s" "\<not> isverbose s" and i: "init_msr E s = Some (0, s1)"
  shows "msrmod_main E [''-r'', hex (unat a), ''-t'', decimal i] s
      = Some (0, say [Reading (clamp63 a) (of_nat i) (rg (fd_of s1 i) (clamp63 a) (dev s1))] s1)
    \<and> (\<exists>t. msrmod_main E [''-w'', hex (unat a), ''-d'', hex (unat v), ''-t'', decimal i] s
          = Some (0, say [Writing (clamp63 v) (clamp63 a) (of_nat i)] t)
        \<and> (\<forall>fd b. rg fd b (dev t) = (if fd = fd_of s1 i \<and> b = clamp63 a then clamp63 v else rg fd b (dev s1))))"
proof
  have n: "0 < NUM_DEVS (hw E)" "i < 2 ^ 31" using hw by (auto simp: hw_wf_def)
  note r = init_msr_fresh [OF hw(1) n(1) s(1,2) i]
  show "msrmod_main E [''-r'', hex (unat a), ''-t'', decimal i] s
      = Some (0, say [Reading (clamp63 a) (of_nat i) (rg (fd_of s1 i) (clamp63 a) (dev s1))] s1)"
    using main_read [OF s(3) i n(2)] by_idx.rd_ok [of E "\<lambda>fd. fd \<noteq> -1" rg s1 i "clamp63 a" 0] f r hw(2) by simp
  let ?t = "s1\<lparr>dev := snd (os_pwrite E (fd_of s1 i) (clamp63 a) (clamp63 v) (dev s1))\<rparr>"
  have "rg fd b (dev ?t) = (if fd = fd_of s1 i \<and> b = clamp63 a then clamp63 v else rg fd b (dev s1))" for fd b
    using f fd_value_in [OF r hw(2)] by (auto simp: msr_files_def)
  then show "\<exists>t. msrmod_main E [''-w'', hex (unat a), ''-d'', hex (unat v), ''-t'', decimal i] s
          = Some (0, say [Writing (clamp63 v) (clamp63 a) (of_nat i)] t)
        \<and> (\<forall>fd b. rg fd b (dev t) = (if fd = fd_of s1 i \<and> b = clamp63 a then clamp63 v else rg fd b (dev s1)))"
    using main_write [OF s(3) i n(2)] write_idx_eq [OF f r hw(2)] by auto
qed

section \<open>Commands that are refused\<close>

text \<open>Options that only set variables.\<close>

fun plain :: "opt_arg \<Rightarrow> bool" where
  "plain (Bad c) = False"
| "plain (Opt c a) = (c \<noteq> CHR ''p'' \<and> c \<noteq> CHR ''l'')"

definition given :: "char \<Rightarrow> opt_arg list \<Rightarrow> bool" where
  "given c xs \<longleftrightarrow> (\<exists>a. Opt c a \<in> set xs)"

lemma plain_option:
  assumes "plain x" "do_option E x (v, s) = Some r"
  shows "\<exists>w t. r = Inr (w, t) \<and> dev t = dev s
    \<and> (isread w \<longleftrightarrow> isread v \<or> given CHR ''r'' [x]) \<and> (iswrite w \<longleftrightarrow> iswrite v \<or> given CHR ''w'' [x])
    \<and> (set_msr_data w \<longleftrightarrow> set_msr_data v \<or> given CHR ''d'' [x])"
proof (cases x)
  case (Opt c a)
  with assms show ?thesis by (auto simp: given_def split: if_splits bind_splits)
qed (use assms in simp)

lemma plain_options:
  assumes "\<forall>x\<in>set xs. plain x" "do_options E xs (v, s) = Some r"
  shows "\<exists>w t. r = Inr (w, t) \<and> dev t = dev s
    \<and> (isread w \<longleftrightarrow> isread v \<or> given CHR ''r'' xs) \<and> (iswrite w \<longleftrightarrow> iswrite v \<or> given CHR ''w'' xs)
    \<and> (set_msr_data w \<longleftrightarrow> set_msr_data v \<or> given CHR ''d'' xs)"
  using assms
proof (induction xs arbitrary: v s)
  case Nil
  then show ?case by (auto simp: given_def)
next
  case (Cons x xs)
  obtain r' where r': "do_option E x (v, s) = Some r'" using Cons.prems(2) by (auto split: option.splits)
  obtain w t where w: "r' = Inr (w, t)" "dev t = dev s" "isread w \<longleftrightarrow> isread v \<or> given CHR ''r'' [x]"
    "iswrite w \<longleftrightarrow> iswrite v \<or> given CHR ''w'' [x]" "set_msr_data w \<longleftrightarrow> set_msr_data v \<or> given CHR ''d'' [x]"
    using plain_option [OF _ r'] Cons.prems(1) by auto
  have "given c (x # xs) \<longleftrightarrow> given c [x] \<or> given c xs" for c by (auto simp: given_def)
  with Cons.IH [of w t] Cons.prems w r' show ?case by auto
qed


section \<open>Witnesses\<close>

definition sim_mod :: "sim mod_lib" where
  "sim_mod = rapl_lib.extend (lib.extend (lib0 sim0) (rapl_lib.fields False 0 rapl_data0 None None False False None))
     (mod_lib.fields False [])"

lemma sim_mod_simps [simp]:
  "\<not> msr_inited sim_mod" "\<not> fd_init sim_mod" "\<not> isverbose sim_mod" "dev sim_mod = sim0"
  by (simp_all add: sim_mod_def lib0_def lib.defs rapl_lib.defs mod_lib.defs)

lemma sim_mod_init: "map_option fst (init_msr (sim_env False) sim_mod) = Some 0"
  by code_simp

lemma sim_files: "msr_files (sim_env b) (\<lambda>fd. fd \<noteq> -1) sim_rg"
  using sim_msr_files [of b] by (simp add: sim_good_def [abs_def])

text \<open>The value 2 ^ 63 is given, 2 ^ 63 - 1 arrives.\<close>

theorem msrmod_reads_and_writes_witness:
  "\<exists>t fd. msrmod_main (sim_env False) [''-w'', hex (unat (0x10 :: u64)), ''-d'', hex (unat (0x8000000000000000 :: u64)), ''-t'', decimal 3] sim_mod
      = Some (0, say [Writing 0x7FFFFFFFFFFFFFFF 0x10 (of_nat 3)] t) \<and> sim_rg fd 0x10 (dev t) = 0x7FFFFFFFFFFFFFFF"
proof -
  obtain s1 where i: "init_msr (sim_env False) sim_mod = Some (0, s1)"
    using sim_mod_init by (cases "init_msr (sim_env False) sim_mod") auto
  have c: "clamp63 0x10 = 0x10" "clamp63 0x8000000000000000 = 0x7FFFFFFFFFFFFFFF" by (simp_all add: clamp63_def)
  have "hw_wf (hw (sim_env False))" "(3 :: nat) < NUM_DEVS (hw (sim_env False))" by (simp_all add: sim_hw_wf)
  note m = msrmod_reads_and_writes [OF this sim_files sim_mod_simps(1-3) i, of "0x10" "0x8000000000000000", unfolded c]
  obtain t where "msrmod_main (sim_env False) [''-w'', hex (unat (0x10 :: u64)), ''-d'', hex (unat (0x8000000000000000 :: u64)), ''-t'', decimal 3] sim_mod
      = Some (0, say [Writing 0x7FFFFFFFFFFFFFFF 0x10 (of_nat 3)] t)"
    "\<forall>fd b. sim_rg fd b (dev t) = (if fd = fd_of s1 3 \<and> b = 0x10 then 0x7FFFFFFFFFFFFFFF else sim_rg fd b (dev s1))"
    using conjunct2 [OF m] by (elim exE conjE) (rule that)
  moreover from this(2) have "sim_rg (fd_of s1 3) 0x10 (dev t) = 0x7FFFFFFFFFFFFFFF" by (simp only: simp_thms if_True)
  ultimately show ?thesis by blast
qed


end
