(* ===== verification/Power_Timer.thy ===== *)
theory Power_Timer
  imports Libmsr_Prelude
begin

text \<open>
  The timer of the power monitors, \<open>src/demoapps/powmon/ghighres.c\<close>: it fires every
  \<open>interval\<close> milliseconds after its start.  The multiple of the interval is computed with 32
  bits, the times with 64.
\<close>

section \<open>The timer\<close>

record mstimer =
  startms :: u64
  step_no :: u32
  interval :: u32
  nextms :: u64

definition now_ms :: "nat \<times> nat \<Rightarrow> u64" where
  "now_ms t = (case t of (sec, nsec) \<Rightarrow> of_nat sec * 1000 + of_nat ((nsec + 500000) div 1000000))"

definition deadline :: "mstimer \<Rightarrow> u64" where
  "deadline t = startms t + ucast (step_no t * interval t)"

definition init_sync_msTimer :: "u32 \<Rightarrow> u64 \<Rightarrow> mstimer" where
  "init_sync_msTimer ms start =
     (let t = \<lparr>startms = start, step_no = 1, interval = ms, nextms = 0\<rparr> in t\<lparr>nextms := deadline t\<rparr>)"

definition init_msTimer :: "u32 \<Rightarrow> nat \<times> nat \<Rightarrow> mstimer" where
  "init_msTimer ms clock = init_sync_msTimer ms (now_ms clock)"

definition next_step :: "mstimer \<Rightarrow> mstimer" where
  "next_step t = (let t = t\<lparr>step_no := step_no t + 1\<rparr> in t\<lparr>nextms := deadline t\<rparr>)"

text \<open>The loop of \<open>timer_sleep\<close>; no result means that it does not end or that the \<open>int\<close> \<open>cadd\<close> overflows.\<close>

partial_function (option) catch_up :: "u64 \<Rightarrow> nat \<Rightarrow> mstimer \<Rightarrow> (nat \<times> mstimer) option" where
  "catch_up now cadd t =
     (if nextms t \<le> now then (if cadd + 1 < 2 ^ 31 then catch_up now (cadd + 1) (next_step t) else None) else Some (cadd, t))"

text \<open>\<open>timer_sleep\<close>: the intervals that have passed, or the milliseconds it sleeps, and the timer.\<close>

definition timer_sleep :: "u64 \<Rightarrow> mstimer \<Rightarrow> ((nat + u64) \<times> mstimer) option" where
  "timer_sleep now t =
     (if nextms t \<le> now then map_option (\<lambda>(c, t). (Inl c, t)) (catch_up now 0 t)
      else Some (Inr (nextms t - now), next_step t))"

section \<open>When it fires\<close>

text \<open>A timer in use, whose next multiple has not passed 32 bits; the times stay within 64.\<close>

definition timer_ok :: "mstimer \<Rightarrow> bool" where
  "timer_ok t \<longleftrightarrow> 0 < interval t \<and> nextms t = deadline t \<and> unat (step_no t) * unat (interval t) < 2 ^ 32
     \<and> unat (startms t) + 2 ^ 32 \<le> 2 ^ 64"

lemma unat_widen: "unat (ucast (w :: u32) :: u64) = unat w"
proof -
  have "unat w < 2 ^ LENGTH(32)" by (rule unsigned_less)
  then show ?thesis by (simp add: unsigned_ucast_eq take_bit_nat_eq_self)
qed

lemma deadline_num:
  assumes "unat (step_no t) * unat (interval t) < 2 ^ 32" "unat (startms t) + 2 ^ 32 \<le> 2 ^ 64"
  shows "unat (deadline t) = unat (startms t) + unat (step_no t) * unat (interval t)"
proof -
  have m: "unat (step_no t * interval t) = unat (step_no t) * unat (interval t)"
    using assms(1) by (subst unat_mult_lem [THEN iffD1]) simp_all
  with unat_widen [of "step_no t * interval t"] assms show ?thesis unfolding deadline_def by (subst unat_add_lem [THEN iffD1]) simp_all
qed

lemma next_step_simps [simp]:
  "startms (next_step t) = startms t" "interval (next_step t) = interval t" "step_no (next_step t) = step_no t + 1"
  "nextms (next_step t) = deadline (next_step t)"
  by (simp_all add: next_step_def Let_def deadline_def)

lemma next_step_ok:
  assumes "timer_ok t" "Suc (unat (step_no t)) * unat (interval t) < 2 ^ 32"
  shows "timer_ok (next_step t)" "unat (step_no (next_step t)) = Suc (unat (step_no t))"
proof -
  have "0 < unat (interval t)" using assms(1) by (simp add: timer_ok_def unat_gt_0 word_gt_0)
  then have "Suc (unat (step_no t)) \<le> Suc (unat (step_no t)) * unat (interval t)"
    using mult_le_mono2 [of 1 "unat (interval t)" "Suc (unat (step_no t))"] by simp
  then have "Suc (unat (step_no t)) < 2 ^ 32" using assms(2) by linarith
  then show s: "unat (step_no (next_step t)) = Suc (unat (step_no t))" by (subst next_step_simps(3), subst unat_add_lem [THEN iffD1]) simp_all
  show "timer_ok (next_step t)" using assms unfolding timer_ok_def s by simp
qed

lemma catch_up_returns:
  assumes "timer_ok t" "unat (startms t) \<le> unat now" "unat now + unat (interval t) < unat (startms t) + 2 ^ 32"
    and "(unat (step_no t) - 1) * unat (interval t) \<le> unat now - unat (startms t)" "0 < step_no t"
    and "c + (Suc ((unat now - unat (startms t)) div unat (interval t)) - unat (step_no t)) < 2 ^ 31"
  shows "\<exists>u. catch_up now c t = Some (c + unat (step_no u) - unat (step_no t), u) \<and> timer_ok u
    \<and> startms u = startms t \<and> interval u = interval t \<and> step_no t \<le> step_no u
    \<and> unat (step_no u) = Suc ((unat now - unat (startms t)) div unat (interval t))"
  using assms
proof (induction "Suc ((unat now - unat (startms t)) div unat (interval t)) - unat (step_no t)" arbitrary: t c rule: less_induct)
  case less
  define n where "n = unat now - unat (startms t)"
  define i where "i = unat (interval t)"
  define k where "k = unat (step_no t)"
  have now: "unat now = unat (startms t) + n" using less.prems(2) by (simp add: n_def)
  have i: "0 < i" using less.prems(1) by (simp add: i_def timer_ok_def unat_gt_0 word_gt_0)
  have k: "0 < k" using less.prems(5) by (simp add: k_def unat_gt_0 word_gt_0)
  have d: "unat (nextms t) = unat (startms t) + k * i"
    using less.prems(1) deadline_num [of t] by (simp add: timer_ok_def k_def i_def)
  have lo: "(k - 1) * i \<le> n" using less.prems(4) by (simp add: k_def i_def n_def)
  show ?case
  proof (cases "nextms t \<le> now")
    case True
    then have kn: "k * i \<le> n" using d now by (simp add: word_le_nat_alt)
    have ni: "n + i < 2 ^ 32" using less.prems(3) now by (simp add: i_def)
    have "Suc k * i < 2 ^ 32" using kn ni by simp
    then have nx: "timer_ok (next_step t)" "unat (step_no (next_step t)) = Suc k"
      using next_step_ok [OF less.prems(1)] by (simp_all add: k_def i_def)
    have "k \<le> n div i" using kn i by (simp add: less_eq_div_iff_mult_less_eq)
    then have m: "Suc (n div i) - Suc k < Suc (n div i) - k" by simp
    have c: "c + (Suc (n div i) - k) < 2 ^ 31" using less.prems(6) by (simp add: n_def i_def k_def)
    with \<open>k \<le> n div i\<close> have c1: "c + 1 < 2 ^ 31" "c + 1 + (Suc (n div i) - Suc k) < 2 ^ 31" by linarith+
    have "0 < step_no (next_step t)" using nx(2) by (metis unat_gt_0 word_gt_0 zero_less_Suc)
    then obtain u where u: "catch_up now (c + 1) (next_step t) = Some (c + 1 + unat (step_no u) - Suc k, u)" "timer_ok u"
      "startms u = startms t" "interval u = interval t" "step_no (next_step t) \<le> step_no u" "unat (step_no u) = Suc (n div i)"
      using less.hyps [of "next_step t" "c + 1"] m nx kn c1(2) less.prems(2,3) unfolding n_def i_def k_def by auto
    then have "k \<le> unat (step_no u)" using \<open>k \<le> n div i\<close> by simp
    then have "step_no t \<le> step_no u" by (simp add: k_def word_le_nat_alt)
    moreover have "catch_up now c t = Some (c + unat (step_no u) - k, u)"
      using True u(1) c1(1) by (subst catch_up.simps) simp
    ultimately show ?thesis using u unfolding n_def i_def k_def by blast
  next
    case False
    then have "n < k * i" using d now by (simp add: word_le_nat_alt)
    then have "n div i = k - 1" using lo k i by (intro div_nat_eqI) (cases k; simp add: mult.commute)+
    with False less.prems(1) k show ?thesis
      by (intro exI [of _ t]) (subst catch_up.simps, simp add: k_def [symmetric] i_def [symmetric] n_def [symmetric])
  qed
qed

text \<open>From 2 ^ 32 milliseconds after the start on, no multiple computed with 32 bits is late enough.\<close>

lemma deadline_bound: "unat (startms t) + 2 ^ 32 \<le> 2 ^ 64 \<Longrightarrow> unat (deadline t) < unat (startms t) + 2 ^ 32"
proof -
  assume a: "unat (startms t) + 2 ^ 32 \<le> 2 ^ 64"
  have u: "unat (ucast (step_no t * interval t) :: u64) < 2 ^ LENGTH(32)"
    unfolding unat_widen by (rule unsigned_less)
  then have "unat (deadline t) = unat (startms t) + unat (ucast (step_no t * interval t) :: u64)"
    using a unfolding deadline_def by (subst unat_add_lem [THEN iffD1]) simp_all
  with u show ?thesis by simp
qed

lemma catch_up_never:
  assumes "catch_up now c t = Some r" "unat (startms t) + 2 ^ 32 \<le> 2 ^ 64" "unat (startms t) + 2 ^ 32 \<le> unat now" "nextms t \<le> now"
  shows False
  using assms
proof (induction rule: catch_up.raw_induct [rotated, consumes 1, case_names 1])
  case (1 catch_up now c t r)
  have "unat (deadline (next_step t)) < unat (startms t) + 2 ^ 32"
    using deadline_bound [of "next_step t"] 1(3) by simp
  then have "nextms (next_step t) \<le> now" using 1(4) by (simp add: word_le_nat_alt)
  with 1(1) [of now "c + 1" "next_step t" r] 1(2-) show ?case by (simp split: if_splits)
qed

text \<open>C33: a timer that is late skips to the first multiple of its interval after the present and
  reports how many it skipped.  But the multiple is computed with 32 bits: from 2 ^ 32
  milliseconds (49.7 days) after the start on, timer_sleep never returns.
\<close>

theorem timer_sleep_outcome:
  assumes "timer_ok t" "0 < step_no t"
  shows "(1 < interval t \<and> nextms t \<le> now \<and> unat now + unat (interval t) < unat (startms t) + 2 ^ 32 \<longrightarrow>
      (\<exists>u. timer_sleep now t = Some (Inl (unat (step_no u) - unat (step_no t)), u) \<and> timer_ok u
         \<and> startms u = startms t \<and> interval u = interval t
         \<and> unat now < unat (nextms u) \<and> unat (nextms u) \<le> unat now + unat (interval t)))
    \<and> (unat (startms t) + 2 ^ 32 \<le> unat now \<longrightarrow> timer_sleep now t = None)"
proof (intro conjI impI)
  assume n: "1 < interval t \<and> nextms t \<le> now \<and> unat now + unat (interval t) < unat (startms t) + 2 ^ 32"
  define i where "i = unat (interval t)"
  have i: "0 < i" using assms(1) by (simp add: i_def timer_ok_def unat_gt_0 word_gt_0)
  have d: "unat (nextms t) = unat (startms t) + unat (step_no t) * i"
    using assms(1) deadline_num [of t] by (simp add: timer_ok_def i_def)
  then have le: "unat (startms t) + unat (step_no t) * i \<le> unat now" using n by (simp add: word_le_nat_alt)
  have "(unat (step_no t) - 1) * i \<le> unat (step_no t) * i" by simp
  with le have lo: "(unat (step_no t) - 1) * i \<le> unat now - unat (startms t)" by linarith
  have "unat now - unat (startms t) < 2 ^ 32" "2 \<le> i" using n by (auto simp: i_def word_less_nat_alt)
  then have "(unat now - unat (startms t)) div i < 2 ^ 31"
    using div_le_mono2 [of 2 i "unat now - unat (startms t)"] by simp
  moreover have "0 < unat (step_no t)" using assms(2) by (simp add: unat_gt_0 word_gt_0)
  ultimately have "Suc ((unat now - unat (startms t)) div i) - unat (step_no t) < 2 ^ 31" by linarith
  with lo  obtain u where u: "catch_up now 0 t = Some (unat (step_no u) - unat (step_no t), u)" "timer_ok u"
    "startms u = startms t" "interval u = interval t" "unat (step_no u) = Suc ((unat now - unat (startms t)) div i)"
    using catch_up_returns [OF assms(1), of now 0] n le assms(2) unfolding i_def by auto
  have "unat (nextms u) = unat (startms t) + Suc ((unat now - unat (startms t)) div i) * i"
    using u(2-5) deadline_num [of u] by (simp add: timer_ok_def i_def)
  moreover have "(unat now - unat (startms t)) div i * i \<le> unat now - unat (startms t)"
    "unat now - unat (startms t) < Suc ((unat now - unat (startms t)) div i) * i"
    using i dividend_less_div_times [of i "unat now - unat (startms t)"] by (simp_all add: mult.commute)
  ultimately have "unat now < unat (nextms u)" "unat (nextms u) \<le> unat now + i"
    using le unfolding mult_Suc by linarith+
  with u n show "\<exists>u. timer_sleep now t = Some (Inl (unat (step_no u) - unat (step_no t)), u) \<and> timer_ok u
         \<and> startms u = startms t \<and> interval u = interval t
         \<and> unat now < unat (nextms u) \<and> unat (nextms u) \<le> unat now + unat (interval t)"
    by (intro exI [of _ u]) (simp add: timer_sleep_def i_def)
next
  assume n: "unat (startms t) + 2 ^ 32 \<le> unat now"
  have b: "unat (startms t) + 2 ^ 32 \<le> 2 ^ 64" using assms(1) by (simp add: timer_ok_def)
  have "nextms t \<le> now" using assms(1) deadline_bound [OF b] n by (simp add: timer_ok_def word_le_nat_alt)
  with catch_up_never [OF _ b n, of 0] show "timer_sleep now t = None"
    by (cases "catch_up now 0 t") (auto simp: timer_sleep_def)
qed

text \<open>A timer of 100 ms started at 1000: at 1350 three deadlines have passed; after 50 days it hangs.\<close>

theorem timer_sleep_witness:
  "(\<exists>u. timer_sleep 1350 (init_sync_msTimer 100 1000) = Some (Inl (unat (step_no u) - 1), u) \<and> 1350 < unat (nextms u))
   \<and> timer_sleep 4320000000 (init_sync_msTimer 100 1000) = None"
proof -
  have t: "timer_ok (init_sync_msTimer 100 1000)" "0 < step_no (init_sync_msTimer 100 1000)"
    by (simp_all add: timer_ok_def init_sync_msTimer_def deadline_def)
  from timer_sleep_outcome [OF t, of 1350] timer_sleep_outcome [OF t, of 4320000000] show ?thesis
    by (auto simp: init_sync_msTimer_def deadline_def)
qed

end
