(* ===== verification/Powmon.thy ===== *)
theory Powmon
  imports Rapl_Witness Msr_Core_Props C_Numbers Power_Timer
begin

text \<open>
  The power monitors of \<open>src/demoapps/powmon\<close>: reading energy and power and setting the
  limits of both sockets (\<open>rapl2.c\<close>), one measurement and the measuring thread
  (\<open>common.c\<close>), and the thread that moves the limit up and down below a cap
  (\<open>power_wrapper_dynamic.c\<close>).  A thread runs until \<open>main\<close> clears \<open>running\<close>: the list of
  clock readings has one entry for each turn it takes.
\<close>

section \<open>Numbers\<close>

text \<open>The quotient of two doubles; \<open>0 / 0\<close> is not a number and compares false with everything.\<close>

datatype quotient = Fin real | Pos_Inf | Neg_Inf | NaN

definition quot :: "real \<Rightarrow> real \<Rightarrow> quotient" where
  "quot a b = (if b \<noteq> 0 then Fin (a / b) else if 0 < a then Pos_Inf else if a < 0 then Neg_Inf else NaN)"

fun quot_less :: "quotient \<Rightarrow> quotient \<Rightarrow> bool" where
  "quot_less (Fin a) (Fin b) = (a < b)"
| "quot_less NaN b = False"
| "quot_less a NaN = False"
| "quot_less a Pos_Inf = (a \<noteq> Pos_Inf)"
| "quot_less a Neg_Inf = False"
| "quot_less Neg_Inf b = True"
| "quot_less Pos_Inf b = False"

section \<open>The state of a monitor\<close>

type_synonym rlims = "rapl_limit \<times> rapl_limit \<times> rapl_limit \<times> rapl_limit"

definition rlims0 :: rlims where
  "rlims0 = (let z = \<lparr>bits = 0, l_watts = 0, l_seconds = 0\<rparr> in (z, z, z, z))"

text \<open>What \<open>read_rapl_energy_and_power\<close> stores in its array, and a line of the log.\<close>

record power_sample =
  used :: "real \<times> real"
  allocated :: "real \<times> real"
  power :: "quotient \<times> quotient"
  limits :: "real \<times> real"
  dram_used :: "real \<times> real"

record log_line =
  log_ms :: u64
  log_joules :: "real \<times> real"
  log_limits :: "real \<times> real"
  log_dram :: "real \<times> real"

text \<open>
  The statics of the two files, beside the library: \<open>rdat_set\<close> says whether \<open>rdat\<close> and
  \<open>rflags\<close> point to what \<open>rapl_storage\<close> hands out, \<open>init_rlim\<close> and \<open>read_rlim\<close> are the
  arrays \<open>rlim\<close> of the first two functions of \<open>rapl2.c\<close>.
\<close>

record 'd monitor =
  mlib :: "'d rapl_lib"
  rdat_set :: bool
  init_rlim :: rlims
  read_rlim :: rlims
  total_joules :: real
  limit_joules :: real
  max_watts :: quotient
  min_watts :: quotient
  watt_cap :: real
  poll_dir :: int
  start_time :: u64
  mlog :: "log_line list"

definition monitor0 :: "'d rapl_lib \<Rightarrow> 'd monitor" where
  "monitor0 s = \<lparr>mlib = s, rdat_set = False, init_rlim = rlims0, read_rlim = rlims0, total_joules = 0, limit_joules = 0,
     max_watts = Fin 0, min_watts = Fin 1024, watt_cap = 0, poll_dir = 5, start_time = 0, mlog = []\<rparr>"

section \<open>Energy and power of both sockets\<close>

definition get_limits :: "'d env \<Rightarrow> rlims \<Rightarrow> 'd rapl_lib \<Rightarrow> (rlims \<times> 'd rapl_lib) option" where
  "get_limits E ls s =
     (case ls of (a, b, c, d) \<Rightarrow>
        do {
          (_, a, _, s) \<leftarrow> get_pkg_rapl_limit E 0 (Some a) None s;
          (_, b, _, s) \<leftarrow> get_pkg_rapl_limit E 1 (Some b) None s;
          (_, c, s) \<leftarrow> get_dram_rapl_limit E 0 (Some c) s;
          (_, d, s) \<leftarrow> get_dram_rapl_limit E 1 (Some d) s;
          Some ((the a, the b, the c, the d), s)
        })"

text \<open>When \<open>rapl_init\<close> fails it hands out no pointers, and \<open>rflags\<close> is followed nevertheless.\<close>

definition read_rapl_init :: "'d env \<Rightarrow> 'd monitor \<Rightarrow> 'd monitor option" where
  "read_rapl_init E m =
     do {
       (_, s) \<leftarrow> init_msr E (mlib m);
       let handed = (fst (rapl_storage E s) = 0);
       (_, s) \<leftarrow> rapl_init E s;
       if \<not> (rdat_set m \<or> handed) then None
       else do {
         (ls, s) \<leftarrow> get_limits E (init_rlim m) (clear_flag DRAM_PERF_STATUS s);
         Some (m\<lparr>mlib := s, rdat_set := True, init_rlim := ls\<rparr>)
       }
     }"

definition read_rapl_energy_and_power :: "'d env \<Rightarrow> 'd monitor \<Rightarrow> (power_sample \<times> 'd monitor) option" where
  "read_rapl_energy_and_power E m =
     do {
       (_, s) \<leftarrow> poll_rapl_data E (mlib m);
       ((a, b, c, d), s) \<leftarrow> get_limits E (read_rlim m) s;
       if \<not> rdat_set m then None
       else do {
         p0 \<leftarrow> oget (pkg_delta_joules (rapl s)) 0;
         p1 \<leftarrow> oget (pkg_delta_joules (rapl s)) 1;
         d0 \<leftarrow> oget (dram_delta_joules (rapl s)) 0;
         d1 \<leftarrow> oget (dram_delta_joules (rapl s)) 1;
         let e = elapsed (rapl s);
         Some (\<lparr>used = (p0, p1), allocated = (l_watts a * e, l_watts b * e), power = (quot p0 e, quot p1 e),
                limits = (l_watts a, l_watts b), dram_used = (d0, d1)\<rparr>,
               m\<lparr>mlib := s, read_rlim := (a, b, c, d)\<rparr>)
       }
     }"

definition set_rapl_power :: "'d env \<Rightarrow> real \<Rightarrow> real \<Rightarrow> 'd monitor \<Rightarrow> 'd monitor option" where
  "set_rapl_power E s0bound s1bound m =
     do {
       let a = \<lparr>bits = 0, l_watts = s0bound, l_seconds = 1\<rparr>;
       let b = \<lparr>bits = 0, l_watts = s1bound, l_seconds = 1\<rparr>;
       (_, a, b, s) \<leftarrow> set_pkg_rapl_limit E 0 (Some a) (Some b) (mlib m);
       (_, a, b, s) \<leftarrow> set_pkg_rapl_limit E 1 a b s;
       (_, a, _, s) \<leftarrow> get_pkg_rapl_limit E 0 a None s;
       (_, b, _, s) \<leftarrow> get_pkg_rapl_limit E 1 b None s;
       Some (m\<lparr>mlib := s\<rparr>)
     }"

section \<open>Measuring\<close>

definition raise_max :: "quotient \<Rightarrow> 'd monitor \<Rightarrow> 'd monitor" where
  "raise_max w m = (if quot_less (max_watts m) w then m\<lparr>max_watts := w\<rparr> else m)"

definition drop_min :: "quotient \<Rightarrow> 'd monitor \<Rightarrow> 'd monitor" where
  "drop_min w m = (if quot_less w (min_watts m) then m\<lparr>min_watts := w\<rparr> else m)"

text \<open>\<open>take_measurement\<close> at the time \<open>ms\<close>; the lock makes it one step of the threads.\<close>

definition take_measurement :: "'d env \<Rightarrow> u64 \<Rightarrow> 'd monitor \<Rightarrow> 'd monitor option" where
  "take_measurement E ms m =
     do {
       (r, m) \<leftarrow> read_rapl_energy_and_power E m;
       let m = m\<lparr>total_joules := total_joules m + (fst (used r) + snd (used r)),
                 limit_joules := limit_joules m + (fst (allocated r) + snd (allocated r))\<rparr>;
       let m = raise_max (snd (power r)) (raise_max (fst (power r)) m);
       let m = drop_min (snd (power r)) (drop_min (fst (power r)) m);
       Some (m\<lparr>mlog := mlog m @ [\<lparr>log_ms = ms, log_joules = used r, log_limits = limits r, log_dram = dram_used r\<rparr>]\<rparr>)
     }"

text \<open>A turn reads the clock for its line of the log and for the timer.\<close>

type_synonym clock_pair = "(nat \<times> nat) \<times> (nat \<times> nat)"

fun measure_loop :: "'d env \<Rightarrow> clock_pair list \<Rightarrow> mstimer \<times> 'd monitor \<Rightarrow> (mstimer \<times> 'd monitor) option" where
  "measure_loop E [] st = Some st"
| "measure_loop E ((a, b) # cs) (t, m) =
     do {
       m \<leftarrow> take_measurement E (now_ms a) m;
       (_, t) \<leftarrow> timer_sleep (now_ms b) t;
       measure_loop E cs (t, m)
     }"

definition power_measurement ::
  "'d env \<Rightarrow> nat \<times> nat \<Rightarrow> clock_pair \<Rightarrow> clock_pair list \<Rightarrow> 'd monitor \<Rightarrow> (mstimer \<times> 'd monitor) option" where
  "power_measurement E c0 c1 cs m =
     do {
       let t = init_msTimer 100 c0;
       m \<leftarrow> read_rapl_init E m;
       let m = m\<lparr>start_time := now_ms (fst c1)\<rparr>;
       (_, t) \<leftarrow> timer_sleep (now_ms (snd c1)) t;
       measure_loop E cs (t, m)
     }"

section \<open>The moving limit\<close>

text \<open>The start of both wrappers: \<open>strtod\<close> of the first argument is the cap.\<close>

definition set_cap :: "'d env \<Rightarrow> string \<Rightarrow> 'd monitor \<Rightarrow> 'd monitor option" where
  "set_cap E a m =
     do {
       m \<leftarrow> read_rapl_init E m;
       w \<leftarrow> atof a;
       set_rapl_power E w w (m\<lparr>watt_cap := w\<rparr>)
     }"

text \<open>The local \<open>poll_num\<close> and \<open>watts\<close> of the thread, its timer, and the monitor.\<close>

type_synonym 'd cap_state = "u64 \<times> real \<times> mstimer \<times> 'd monitor"

definition turn_direction :: "real \<Rightarrow> 'd monitor \<Rightarrow> 'd monitor" where
  "turn_direction w m =
     (let m = (if w \<ge> watt_cap m then m\<lparr>poll_dir := -5\<rparr> else m)
      in if w \<le> 30 then m\<lparr>poll_dir := 5\<rparr> else m)"

fun cap_loop :: "'d env \<Rightarrow> clock_pair list \<Rightarrow> 'd cap_state \<Rightarrow> 'd cap_state option" where
  "cap_loop E [] st = Some st"
| "cap_loop E ((a, b) # cs) (n, w, t, m) =
     do {
       m \<leftarrow> take_measurement E (now_ms a) m;
       (w, m) \<leftarrow>
         (if n mod 5 = 0
          then do {
            let m = turn_direction w m;
            let w = w + real_of_int (poll_dir m);
            m \<leftarrow> set_rapl_power E w w m;
            Some (w, m)
          }
          else Some (w, m));
       (_, t) \<leftarrow> timer_sleep (now_ms b) t;
       cap_loop E cs (n + 1, w, t, m)
     }"

definition power_set_measurement ::
  "'d env \<Rightarrow> nat \<times> nat \<Rightarrow> clock_pair \<Rightarrow> clock_pair list \<Rightarrow> 'd monitor \<Rightarrow> 'd cap_state option" where
  "power_set_measurement E c0 c1 cs m =
     do {
       m \<leftarrow> set_rapl_power E (watt_cap m) (watt_cap m) m;
       let w = watt_cap m;
       let t = init_msTimer 1500 c0;
       let m = m\<lparr>start_time := now_ms (fst c1)\<rparr>;
       (_, t) \<leftarrow> timer_sleep (now_ms (snd c1)) t;
       cap_loop E cs (1, w, t, m)
     }"

section \<open>Setting the limits of both sockets\<close>

lemma one_second_window:
  "unat (MASK_VAL x 19 16) < 16" "bits_to_seconds (decode_units x) (MASK_VAL x 19 16) = 1"
proof -
  let ?b = "MASK_VAL x 19 16"
  show k: "unat ?b < 16" using MASK_VAL_bound [of 16 19 x] by simp
  then have f: "fits 4 ?b" by (simp add: fits_unat)
  have m: "(0x1F :: u64) = mask 5" "(0x60 :: u64) = push_bit 5 (mask 2)" by (simp_all add: mask_eq_exp_minus_1)
  have "?b AND 0x1F = ?b" "drop_bit 5 (?b AND 0x60) = 0"
    unfolding m
    by (rule bit_word_eqI; auto simp: bit_and_iff bit_push_bit_iff bit_drop_bit_eq bit_mask_iff dest: fits_lt [OF f])+
  moreover have "seconds (decode_units x) = 2 ^ unat ?b" using k by (simp add: decode_units_def shl1_pow)
  ultimately show "bits_to_seconds (decode_units x) ?b = 1" by (simp add: bits_to_seconds_def dbl_def)
qed

lemma one_second: "seconds_to_bits (decode_units x) 1 = Some (MASK_VAL x 19 16)"
  using seconds_roundtrip [OF decode_units_pos(1), of "MASK_VAL x 19 16" x] one_second_window [of x] by simp

text \<open>
  A limit that asks for \<open>w\<close> watts and one second has bits 0 before it is encoded; afterwards its
  bits are \<open>B\<close>, and when they are not 0 they alone count.
\<close>

definition asks :: "u64 \<Rightarrow> real \<Rightarrow> rapl_limit \<Rightarrow> bool" where
  "asks B w l \<longleftrightarrow> (bits l = B \<and> B \<noteq> 0) \<or> (bits l = 0 \<and> l_watts l = w \<and> l_seconds l = 1)"

lemma asks_new: "asks B w \<lparr>bits = 0, l_watts = w, l_seconds = 1\<rparr>"
  by (simp add: asks_def)

lemma calc_one_lower:
  assumes "units_ready E sk u s" "to_u64 (w / watts u) = Some wb" "unat wb < 2 ^ 15" "seconds_to_bits u 1 = Some tb"
    "asks (push_bit 0 wb OR push_bit 17 tb) w l"
  shows "\<exists>l'. calc_one E sk l 0 s = Some (0, l', s) \<and> bits l' = push_bit 0 wb OR push_bit 17 tb
    \<and> asks (push_bit 0 wb OR push_bit 17 tb) w l'"
  using watts_fit [OF assms(3)] assms(2,4,5)
  by (auto simp: asks_def calc_one_def calc_rapl_bits_def calc_rapl_from_bits_def units_ready_socket [OF assms(1)]
      translate_ready [OF assms(1)])

lemma calc_one_upper:
  assumes "units_ready E sk u s" "to_u64 (w / watts u) = Some wb" "unat wb < 2 ^ 15" "to_u64 1 = Some tb"
    "asks (push_bit 32 wb OR push_bit 49 tb) w l"
  shows "\<exists>l'. calc_one E sk l 32 s = Some (0, l', s) \<and> bits l' = push_bit 32 wb OR push_bit 49 tb
    \<and> asks (push_bit 32 wb OR push_bit 49 tb) w l'"
  using watts_fit [OF assms(3)] assms(2,4,5)
  by (auto simp: asks_def calc_one_def calc_rapl_bits_def calc_rapl_from_bits_def units_ready_socket [OF assms(1)]
      translate_ready [OF assms(1)])

text \<open>The register with both limits enabled and clamped.\<close>

definition both_limits :: "u64 \<Rightarrow> u64 \<Rightarrow> u64 \<Rightarrow> u64" where
  "both_limits wa wb tb =
     (push_bit 0 wa OR push_bit 17 tb OR push_bit 15 1 OR push_bit 16 1)
     OR (push_bit 32 wb OR push_bit 49 1 OR push_bit 47 1 OR push_bit 48 1)"

lemma both_limits_fields:
  assumes "unat wa < 2 ^ 15" "unat wb < 2 ^ 15" "unat tb < 2 ^ 7"
  shows "MASK_VAL (both_limits wa wb tb) 14 0 = wa" "MASK_VAL (both_limits wa wb tb) 23 17 = tb"
    "MASK_VAL (both_limits wa wb tb) 46 32 = wb" "MASK_VAL (both_limits wa wb tb) 55 49 = 1"
    "bit (both_limits wa wb tb) 15" "bit (both_limits wa wb tb) 16"
    "bit (both_limits wa wb tb) 47" "bit (both_limits wa wb tb) 48"
proof -
  let ?v = "both_limits wa wb tb"
  have f: "fits 15 wa" "fits 15 wb" "fits 7 tb" using assms by (simp_all add: fits_unat)
  note out = fits_bit [OF f(1)] fits_bit [OF f(2)] fits_bit [OF f(3)]
  have b: "bit ?v i \<longleftrightarrow> bit wa i \<or> (17 \<le> i \<and> bit tb (i - 17)) \<or> i = 15 \<or> i = 16
      \<or> (32 \<le> i \<and> bit wb (i - 32)) \<or> i = 49 \<or> i = 47 \<or> i = 48" if "i < 64" for i
    using that unfolding both_limits_def bit_or_iff bit_push_bit_iff bit_1_iff by auto
  show "MASK_VAL ?v 14 0 = wa"
  proof (rule bit_word_eqI)
    fix i show "bit (MASK_VAL ?v 14 0) i = bit wa i" by (cases "i < 15") (auto simp: bit_MASK_VAL b out)
  qed
  show "MASK_VAL ?v 23 17 = tb"
  proof (rule bit_word_eqI)
    fix i show "bit (MASK_VAL ?v 23 17) i = bit tb i" by (cases "i < 7") (auto simp: bit_MASK_VAL b out)
  qed
  show "MASK_VAL ?v 46 32 = wb"
  proof (rule bit_word_eqI)
    fix i show "bit (MASK_VAL ?v 46 32) i = bit wb i" by (cases "i < 15") (auto simp: bit_MASK_VAL b out)
  qed
  show "MASK_VAL ?v 55 49 = 1"
  proof (rule bit_word_eqI)
    fix i show "bit (MASK_VAL ?v 55 49) i = bit 1 i" by (cases "i < 7") (auto simp: bit_MASK_VAL b out bit_1_iff)
  qed
  show "bit ?v 15" "bit ?v 16" "bit ?v 47" "bit ?v 48" by (simp_all add: b)
qed

lemma set_both:
  assumes "msr_files E good rg" "fds_ready E good s" "coord_ok E sk 0 0" "rapl_ready s" "has PKG_POWER_LIMIT s"
    and u: "units_ready E (of_nat sk) u s" "seconds_to_bits u 1 = Some tb"
    and w: "to_u64 (a / watts u) = Some wa" "unat wa < 2 ^ 15" "to_u64 (b / watts u) = Some wb" "unat wb < 2 ^ 15"
    and l: "asks (push_bit 0 wa OR push_bit 17 tb) a l1" "asks (push_bit 32 wb OR push_bit 49 1) b l2"
  shows "\<exists>l1' l2'. set_pkg_rapl_limit E (of_nat sk) (Some l1) (Some l2) s
      = Some (0, Some l1', Some l2', written E sk 0 0 MSR_PKG_POWER_LIMIT (both_limits wa wb tb) s)
    \<and> asks (push_bit 0 wa OR push_bit 17 tb) a l1' \<and> asks (push_bit 32 wb OR push_bit 49 1) b l2'"
proof -
  have one: "to_u64 1 = Some 1" by (simp add: to_u64_def)
  obtain l1' where 1: "calc_one E (of_nat sk) l1 0 s = Some (0, l1', s)" "bits l1' = push_bit 0 wa OR push_bit 17 tb"
    "asks (push_bit 0 wa OR push_bit 17 tb) a l1'"
    using calc_one_lower [OF u(1) w(1,2) u(2) l(1)] by blast
  obtain l2' where 2: "calc_one E (of_nat sk) l2 32 s = Some (0, l2', s)" "bits l2' = push_bit 32 wb OR push_bit 49 1"
    "asks (push_bit 32 wb OR push_bit 49 1) b l2'"
    using calc_one_upper [OF u(1) w(3,4) one l(2)] by blast
  show ?thesis
    using assms(4,5) write_coord_eq(1) [OF assms(1-3)] 1 2
    by (intro exI [of _ l1'] exI [of _ l2'])
      (simp add: set_pkg_rapl_limit_def calc_pkg_rapl_limit_def units_ready_socket [OF u(1)] rapl_storage_ready
        both_limits_def or.assoc)
qed

lemma written_files:
  assumes "msr_files E good rg" "fds_ready E good s" "coord_ok E sk c t"
  shows "rg fd b (dev (written E sk c t a v s)) = (if fd = fd_of s (coord_num E s sk c t) \<and> b = a then v else rg fd b (dev s))"
    and "fd_of (written E sk c t a v s) = fd_of s" "coord_num E (written E sk c t a v s) = coord_num E s"
proof -
  have "good (fd_of s (coord_num E s sk c t))" using fd_value_in [OF assms(2) coord_num_range [OF assms(3)]] by blast
  with assms(1) show "rg fd b (dev (written E sk c t a v s)) = (if fd = fd_of s (coord_num E s sk c t) \<and> b = a then v else rg fd b (dev s))"
    unfolding msr_files_def written_def by simp
qed (simp_all add: written_def)

text \<open>C38: set_rapl_power gives the package limit registers of both sockets the same value: the
  first argument as the lower limit, the second as the upper one, rounded down to the power unit,
  over one second (the window field of the upper limit is 1), enabled and clamped; it succeeds
  and changes no other register.
\<close>

theorem set_rapl_power_limits:
  fixes m :: "'d monitor"
  assumes f: "msr_files E good rg" "fds_ready E good (mlib m)" "coord_ok E 0 0 0" "coord_ok E 1 0 0"
    and p: "rapl_ready (mlib m)" "has PKG_POWER_LIMIT (mlib m)"
    and u: "units_ready E 0 u (mlib m)" "units_ready E 1 u (mlib m)" "u = decode_units x"
    and w: "0 \<le> a" "a / watts u < 2 ^ 15" "0 \<le> b" "b / watts u < 2 ^ 15"
  shows "\<exists>m' v. set_rapl_power E a b m = Some m'
    \<and> (\<forall>fd r. rg fd r (dev (mlib m')) =
         (if r = MSR_PKG_POWER_LIMIT \<and> (fd = fd_of (mlib m) (coord_num E (mlib m) 0 0 0) \<or> fd = fd_of (mlib m) (coord_num E (mlib m) 1 0 0))
          then v else rg fd r (dev (mlib m))))
    \<and> dbl (MASK_VAL v 14 0) = real_of_int \<lfloor>a / watts u\<rfloor> \<and> dbl (MASK_VAL v 46 32) = real_of_int \<lfloor>b / watts u\<rfloor>
    \<and> bits_to_seconds u (MASK_VAL v 23 17) = 1 \<and> MASK_VAL v 55 49 = 1
    \<and> bit v 15 \<and> bit v 16 \<and> bit v 47 \<and> bit v 48"
proof -
  define tb where "tb = MASK_VAL x 19 16"
  have t: "seconds_to_bits u 1 = Some tb" "unat tb < 2 ^ 7" "bits_to_seconds u tb = 1"
  proof -
    show "seconds_to_bits u 1 = Some tb" using one_second by (simp add: u(3) tb_def)
    show "unat tb < 2 ^ 7" "bits_to_seconds u tb = 1" using one_second_window [of x] by (simp_all add: u(3) tb_def)
  qed
  have pos: "0 < watts u" using decode_units_pos by (simp add: u(3))
  obtain wa wb where wa: "to_u64 (a / watts u) = Some wa" "unat wa < 2 ^ 15" "dbl wa = real_of_int \<lfloor>a / watts u\<rfloor>"
    and wb: "to_u64 (b / watts u) = Some wb" "unat wb < 2 ^ 15" "dbl wb = real_of_int \<lfloor>b / watts u\<rfloor>"
    using to_u64_nonneg [of "a / watts u" 15] to_u64_nonneg [of "b / watts u" 15] w pos by auto
  let ?v = "both_limits wa wb tb"
  let ?A = "push_bit 0 wa OR push_bit 17 tb" and ?B = "push_bit 32 wb OR push_bit 49 1"
  let ?s = "mlib m" let ?s1 = "written E 0 0 0 MSR_PKG_POWER_LIMIT ?v ?s"
  let ?s2 = "written E 1 0 0 MSR_PKG_POWER_LIMIT ?v ?s1"
  have u': "units_ready E (of_nat 0) u ?s" "units_ready E (of_nat 1) u ?s1" using u by simp_all
  have p1: "rapl_ready ?s1" "has PKG_POWER_LIMIT ?s1" using p by simp_all
  have r1: "fds_ready E good ?s1" using write_coord_eq(2) [OF f(1-3)] .
  have r2: "fds_ready E good ?s2" using write_coord_eq(2) [OF f(1) r1 f(4)] .
  obtain l1 l2 where s1: "set_pkg_rapl_limit E (of_nat 0) (Some \<lparr>bits = 0, l_watts = a, l_seconds = 1\<rparr>)
      (Some \<lparr>bits = 0, l_watts = b, l_seconds = 1\<rparr>) ?s = Some (0, Some l1, Some l2, ?s1)" "asks ?A a l1" "asks ?B b l2"
    using set_both [OF f(1-3) p u'(1) t(1) wa(1,2) wb(1,2) asks_new asks_new] by (elim exE conjE) (rule that)
  obtain l1' l2' where s2: "set_pkg_rapl_limit E (of_nat 1) (Some l1) (Some l2) ?s1 = Some (0, Some l1', Some l2', ?s2)"
    using set_both [OF f(1) r1 f(4) p1 u'(2) t(1) wa(1,2) wb(1,2) s1(2,3)] by (elim exE conjE) (rule that)
  note fields = both_limits_fields [OF wa(2) wb(2) t(2)]
  have all: "rg fd r (dev ?s2) = (if r = MSR_PKG_POWER_LIMIT \<and> (fd = fd_of ?s (coord_num E ?s 0 0 0)
      \<or> fd = fd_of ?s (coord_num E ?s 1 0 0)) then ?v else rg fd r (dev ?s))" for fd r
    using written_files [OF f(1) r1 f(4)] written_files [OF f(1-3)] by auto
  have g: "reg_of E rg sk 0 0 MSR_PKG_POWER_LIMIT ?s2 = ?v" if "sk = 0 \<or> sk = 1" for sk
    using that all written_files(2,3) [OF f(1) r1 f(4)] written_files(2,3) [OF f(1-3)] by (auto simp: reg_of_def)
  have v0: "?v \<noteq> 0" using fields(5) by auto
  have ug: "units_ready E (of_nat 0) u ?s2" "units_ready E (of_nat 1) u ?s2" using u by simp_all
  note g0 = get_lower [OF f(1) r2 f(3) _ _ ug(1) g v0] and g1 = get_lower [OF f(1) r2 f(4) _ _ ug(2) g v0]
  have "set_rapl_power E a b m = Some (m\<lparr>mlib := ?s2\<rparr>)"
    using s1(1) s2 g0 g1 p by (simp add: set_rapl_power_def)
  with all fields wa(3) wb(3) t(3) show ?thesis by (intro exI [of _ "m\<lparr>mlib := ?s2\<rparr>"] exI [of _ ?v]) simp
qed

section \<open>The log and the summary\<close>

lemma set_rapl_power_statics:
  assumes "set_rapl_power E a b m = Some m'"
  shows "watt_cap m' = watt_cap m" "poll_dir m' = poll_dir m" "mlog m' = mlog m" "total_joules m' = total_joules m"
  using assms by (auto simp: set_rapl_power_def split: bind_splits)

lemma extremes_statics [simp]:
  "watt_cap (raise_max w m) = watt_cap m" "poll_dir (raise_max w m) = poll_dir m" "mlog (raise_max w m) = mlog m"
  "total_joules (raise_max w m) = total_joules m" "limit_joules (raise_max w m) = limit_joules m"
  "watt_cap (drop_min w m) = watt_cap m" "poll_dir (drop_min w m) = poll_dir m" "mlog (drop_min w m) = mlog m"
  "total_joules (drop_min w m) = total_joules m" "limit_joules (drop_min w m) = limit_joules m"
  by (simp_all add: raise_max_def drop_min_def)

lemma read_rapl_statics:
  assumes "read_rapl_energy_and_power E m = Some (r, m')"
  shows "watt_cap m' = watt_cap m" "poll_dir m' = poll_dir m" "mlog m' = mlog m" "total_joules m' = total_joules m"
  using assms by (auto simp: read_rapl_energy_and_power_def Let_def split: bind_splits if_splits)

lemma take_measurement_statics:
  assumes "take_measurement E ms m = Some m'"
  shows "watt_cap m' = watt_cap m" "poll_dir m' = poll_dir m"
    "\<exists>l. mlog m' = mlog m @ [l] \<and> log_ms l = ms
       \<and> total_joules m' = total_joules m + (fst (log_joules l) + snd (log_joules l))"
  using assms by (auto simp: take_measurement_def Let_def read_rapl_statics split: bind_splits)

definition logged :: "'d monitor \<Rightarrow> real" where
  "logged m = sum_list (map (\<lambda>l. fst (log_joules l) + snd (log_joules l)) (mlog m))"

lemma measure_loop_log:
  assumes "measure_loop E cs (t, m) = Some (t', m')"
  shows "map log_ms (mlog m') = map log_ms (mlog m) @ map (now_ms \<circ> fst) cs
    \<and> total_joules m' - logged m' = total_joules m - logged m"
  using assms
proof (induction cs arbitrary: t m)
  case (Cons c cs)
  obtain a b where c: "c = (a, b)" by (cases c)
  obtain m1 where m1: "take_measurement E (now_ms a) m = Some m1" using Cons.prems c by (auto split: bind_splits)
  obtain l where "mlog m1 = mlog m @ [l]" "log_ms l = now_ms a"
    "total_joules m1 = total_joules m + (fst (log_joules l) + snd (log_joules l))"
    using take_measurement_statics(3) [OF m1] by blast
  with Cons c m1 show ?case by (auto simp: logged_def split: bind_splits)
qed simp

text \<open>the total of the summary is the sum of the energies in the log, which has one line for
  each turn of the measuring thread, at the time of its turn, and no others.
\<close>

theorem summary_totals:
  assumes "power_measurement E c0 c1 cs (monitor0 s) = Some (t, m)"
  shows "total_joules m = (\<Sum>l\<leftarrow>mlog m. fst (log_joules l) + snd (log_joules l))
    \<and> map log_ms (mlog m) = map (now_ms \<circ> fst) cs"
proof -
  obtain m1 t1 where m1: "read_rapl_init E (monitor0 s) = Some m1"
    and l: "measure_loop E cs (t1, m1\<lparr>start_time := now_ms (fst c1)\<rparr>) = Some (t, m)"
    using assms by (auto simp: power_measurement_def Let_def split: bind_splits)
  have "mlog m1 = []" "total_joules m1 = 0"
    using m1 by (auto simp: read_rapl_init_def Let_def monitor0_def split: bind_splits if_splits)
  with measure_loop_log [OF l] show ?thesis by (simp add: logged_def)
qed

section \<open>The walk of the limit\<close>

text \<open>Between turns; \<open>c\<close> is the cap, \<open>d\<close> the direction.\<close>

definition walk_ok :: "real \<Rightarrow> real \<Rightarrow> int \<Rightarrow> bool" where
  "walk_ok c w d \<longleftrightarrow> (d = 5 \<or> d = -5 \<or> w = c)
     \<and> (if 30 < c then 25 < w \<and> (\<exists>k :: nat. w = c - 5 * real k) else w \<le> 35 \<and> (\<exists>k :: nat. w = c + 5 * real k))"

lemma walk_step:
  assumes "walk_ok c w d" "d' = (if w \<le> 30 then 5 else if w \<ge> c then -5 else d)"
  shows "walk_ok c (w + real_of_int d') d'"
proof (cases "30 < c")
  case True
  then obtain k :: nat where k: "w = c - 5 * real k" "25 < w" "d = 5 \<or> d = -5 \<or> w = c"
    using assms(1) by (auto simp: walk_ok_def)
  have "\<exists>j :: nat. w + real_of_int d' = c - 5 * real j" if "d' = 5" "k \<noteq> 0"
    using k(1) that by (intro exI [of _ "k - 1"]) (simp add: of_nat_diff)
  moreover have "\<exists>j :: nat. w + real_of_int d' = c - 5 * real j" if "d' = -5"
    using k(1) that by (intro exI [of _ "Suc k"]) simp
  moreover have "d' = 5 \<and> k \<noteq> 0 \<or> d' = -5 \<and> 30 < w"
    using k True assms(2) by (cases "k = 0") auto
  ultimately show ?thesis using True k(2) by (auto simp: walk_ok_def)
next
  case False
  then obtain k :: nat where k: "w = c + 5 * real k" "w \<le> 35" using assms(1) by (auto simp: walk_ok_def)
  show ?thesis
  proof (cases "w \<le> 30")
    case True
    then show ?thesis using False k assms(2) by (auto simp: walk_ok_def intro: exI [of _ "Suc k"])
  next
    case w: False
    then have "k \<noteq> 0" using k(1) False by (cases k) auto
    then have "w + real_of_int d' = c + 5 * real (k - 1)" using w k(1) assms(2) False by (simp add: of_nat_diff)
    then show ?thesis using w False k(2) assms(2) by (auto simp: walk_ok_def simp del: of_nat_diff)
  qed
qed

lemma turn_direction_simps:
  "watt_cap (turn_direction w m) = watt_cap m"
  "poll_dir (turn_direction w m) = (if w \<le> 30 then 5 else if w \<ge> watt_cap m then -5 else poll_dir m)"
  by (simp_all add: turn_direction_def Let_def)

text \<open>One turn of the loop.\<close>

lemma cap_turn:
  assumes "cap_loop E ((a, b) # cs) (n, w, t, m) = Some r"
  shows "\<exists>w' t' m'. cap_loop E cs (n + 1, w', t', m') = Some r \<and> watt_cap m' = watt_cap m
    \<and> (if n mod 5 = 0
       then poll_dir m' = (if w \<le> 30 then 5 else if w \<ge> watt_cap m then -5 else poll_dir m)
          \<and> w' = w + real_of_int (poll_dir m')
       else poll_dir m' = poll_dir m \<and> w' = w)"
proof -
  obtain m1 where m1: "take_measurement E (now_ms a) m = Some m1" using assms by (auto split: bind_splits)
  note s1 = take_measurement_statics(1,2) [OF m1]
  show ?thesis
  proof (cases "n mod 5 = 0")
    case True
    let ?m = "turn_direction w m1"
    obtain m2 t2 where m2: "set_rapl_power E (w + real_of_int (poll_dir ?m)) (w + real_of_int (poll_dir ?m)) ?m = Some m2"
      and l: "cap_loop E cs (n + 1, w + real_of_int (poll_dir ?m), t2, m2) = Some r"
      using assms m1 True by (auto simp: Let_def split: bind_splits)
    from True l s1 set_rapl_power_statics(1,2) [OF m2] show ?thesis
      by (intro exI [of _ "w + real_of_int (poll_dir ?m)"] exI [of _ t2] exI [of _ m2]) (simp add: turn_direction_simps)
  next
    case False
    with assms m1 s1 show ?thesis by (auto split: bind_splits)
  qed
qed

lemma cap_loop_walk:
  assumes "cap_loop E cs (n, w, t, m) = Some (n', w', t', m')" "walk_ok (watt_cap m) w (poll_dir m)"
  shows "walk_ok (watt_cap m) w' (poll_dir m') \<and> watt_cap m' = watt_cap m"
  using assms
proof (induction cs arbitrary: n w t m)
  case (Cons c cs)
  obtain a b where c: "c = (a, b)" by (cases c)
  obtain w1 t1 m1 where l: "cap_loop E cs (n + 1, w1, t1, m1) = Some (n', w', t', m')" "watt_cap m1 = watt_cap m"
    and d: "if n mod 5 = 0
       then poll_dir m1 = (if w \<le> 30 then 5 else if w \<ge> watt_cap m then -5 else poll_dir m)
          \<and> w1 = w + real_of_int (poll_dir m1)
       else poll_dir m1 = poll_dir m \<and> w1 = w"
    using cap_turn [OF Cons.prems(1) [unfolded c]] by blast
  have "walk_ok (watt_cap m) w1 (poll_dir m1)"
    using d walk_step [OF Cons.prems(2), of "poll_dir m1"] Cons.prems(2) by (cases "n mod 5 = 0") auto
  with Cons.IH [OF l(1)] l(2) show ?case by simp
qed simp

lemma cap_five_turns:
  assumes "cap_loop E cs (1, w, t, m) = Some (n', w', t', m')" "length cs = 5" "w \<le> 30"
  shows "w' = w + 5"
proof -
  obtain c1 c2 c3 c4 c5 where cs: "cs = [c1, c2, c3, c4, c5]"
    using assms(2) by (auto simp: length_Suc_conv numeral_eq_Suc)
  obtain w1 t1 m1 where 1: "cap_loop E [c2, c3, c4, c5] (2, w1, t1, m1) = Some (n', w', t', m')" "w1 = w"
    using assms(1) cap_turn [of E "fst c1" "snd c1" "[c2, c3, c4, c5]" 1] unfolding cs by fastforce
  obtain w2 t2 m2 where 2: "cap_loop E [c3, c4, c5] (3, w2, t2, m2) = Some (n', w', t', m')" "w2 = w"
    using 1 cap_turn [of E "fst c2" "snd c2" "[c3, c4, c5]" 2] by fastforce
  obtain w3 t3 m3 where 3: "cap_loop E [c4, c5] (4, w3, t3, m3) = Some (n', w', t', m')" "w3 = w"
    using 2 cap_turn [of E "fst c3" "snd c3" "[c4, c5]" 3] by fastforce
  obtain w4 t4 m4 where 4: "cap_loop E [c5] (5, w4, t4, m4) = Some (n', w', t', m')" "w4 = w"
    using 3 cap_turn [of E "fst c4" "snd c4" "[c5]" 4] by fastforce
  show ?thesis
    using 4 assms(3) cap_turn [of E "fst c5" "snd c5" "[]" 5] by fastforce
qed


end
