(* ===== verification/Powmon_Sim.thy ===== *)
theory Powmon_Sim
  imports Powmon
begin

text \<open>
  The power monitors on concrete machines: the limits on the machine of \<open>Rapl_Witness\<close>, and
  whole runs of both threads on a processor whose flags name no power register, where every
  call of the library fails and the energies keep the values they have.
\<close>

section \<open>A processor without power registers\<close>

definition plain_lib :: "sim rapl_lib \<Rightarrow> bool" where
  "plain_lib s \<longleftrightarrow> rapl_ready s \<and> rapl_flags s = 0 \<and> read_init s \<and> delta_init s \<and> \<not> batch_null s \<and> batchfd s = 3 \<and> arrsize s = 1 \<and> batch s = [batch_array0] \<and> bsize s = [0] \<and> msr_inited s \<and> fd_init s
     \<and> pkg_delta_joules (rapl s) = Some [3, 4] \<and> dram_delta_joules (rapl s) = Some [0, 0]
     \<and> (\<exists>a b. pkg_watts (rapl s) = Some [a, b])"

lemma plain_error [simp]: "plain_lib (libmsr_error_handler e s) = plain_lib s"
  by (simp add: plain_lib_def libmsr_error_handler_def)

lemma plain_read: "plain_lib s \<Longrightarrow> \<exists>s' r. read_batch (sim_env False) RAPL_DATA s = Some (r, s') \<and> plain_lib s'"
  by (auto simp: read_batch_def do_batch_op_def batch_storage_def plain_lib_def libmsr_error_handler_def open_batch_def ioctl_batch_def RAPL_DATA_def batch_array0_def)

lemma plain_steps:
  "plain_lib s \<Longrightarrow> save_old i s = Some s" "plain_lib s \<Longrightarrow> convert_joules E i s = Some s"
  "plain_lib s \<Longrightarrow> plain_lib (measure_elapsed (stamp E s))"
  by (auto simp: save_old_def convert_joules_def has_def plain_lib_def stamp_def measure_elapsed_def Let_def libmsr_error_handler_def split: prod.splits)

lemma plain_delta: "plain_lib s \<Longrightarrow> i < 2 \<Longrightarrow> \<exists>s'. delta_socket E i s = Some s' \<and> plain_lib s'"
  by (auto simp: plain_lib_def delta_socket_def has_def set_pkg_watts_def less_2_cases_iff oset_def)

lemma plain_foldo: 
  assumes "plain_lib s" "\<And>i s. plain_lib s \<Longrightarrow> i < n \<Longrightarrow> \<exists>s'. f i s = Some s' \<and> plain_lib s'"
  shows "\<exists>s'. foldo f [0..<n] s = Some s' \<and> plain_lib s'"
  using foldo_upt[of "\<lambda>_. plain_lib" s n f] assms by blast

lemma plain_poll:
  assumes "plain_lib s"
  shows "\<exists>s'. poll_rapl_data (sim_env False) s = Some (0, s') \<and> plain_lib s'"
proof -
  let ?E = "sim_env False"
  have st: "rapl_storage ?E t = (0, t)" "read_init t" "delta_init t" if "plain_lib t" for t using that by (simp_all add: plain_lib_def rapl_storage_def)
  obtain s1 where 1: "foldo save_old [0..<2] (measure_elapsed (stamp ?E s)) = Some s1" "plain_lib s1"
    using plain_foldo [of "measure_elapsed (stamp ?E s)" 2 save_old] plain_steps assms by blast
  obtain s2 r where 2: "read_batch ?E RAPL_DATA s1 = Some (r, s2)" "plain_lib s2" using plain_read [OF 1(2)] by blast
  obtain s3 where 3: "foldo (convert_joules ?E) [0..<2] s2 = Some s3" "plain_lib s3"
    using plain_foldo [of s2 2 "convert_joules ?E"] plain_steps 2(2) by blast
  have u: "s3\<lparr>read_init := True\<rparr> = s3" using st(2) [OF 3(2)] by simp
  obtain s4 where 4: "foldo (delta_socket ?E) [0..<2] s3 = Some s4" "plain_lib s4"
    using plain_foldo [of s3 2 "delta_socket ?E"] plain_delta 3(2) by blast
  show ?thesis using 1 2 3 4 assms st [OF assms] st [OF 3(2)]
    by (intro exI [of _ s4]) (simp add: u poll_rapl_data_def read_rapl_data_def delta_rapl_data_def)
qed

lemma plain_sockets:
  assumes "plain_lib s"
  obtains r t where "sockets_assert E sk s = (r, t)" "plain_lib t" "rapl_storage E t = (0, t)" "\<And>f. \<not> has f t"
proof -
  obtain r t where t: "sockets_assert E sk s = (r, t)" by (cases "sockets_assert E sk s")
  with assms have "plain_lib t" by (auto simp: sockets_assert_def split: if_splits)
  then show ?thesis using t by (intro that [of r t]) (simp_all add: plain_lib_def rapl_storage_def has_def)
qed

lemma plain_limit:
  assumes "plain_lib s"
  shows "\<exists>s'. get_pkg_rapl_limit E sk a b s = Some (-1, a, b, s') \<and> plain_lib s'"
    and "\<exists>s'. set_pkg_rapl_limit E sk a b s = Some (-1, a, b, s') \<and> plain_lib s'"
    and "\<exists>s'. get_dram_rapl_limit E sk (Some l) s = Some (-1, Some l, s') \<and> plain_lib s'"
  by (rule plain_sockets [OF assms, of E sk],
      simp add: get_pkg_rapl_limit_def set_pkg_rapl_limit_def get_dram_rapl_limit_def Let_def)+

lemma plain_limits:
  assumes "plain_lib s"
  shows "\<exists>s'. get_limits E ls s = Some (ls, s') \<and> plain_lib s'"
proof -
  obtain a b c d where ls: "ls = (a, b, c, d)" by (cases ls)
  obtain s1 where 1: "get_pkg_rapl_limit E 0 (Some a) None s = Some (-1, Some a, None, s1)" "plain_lib s1"
    using plain_limit(1) [OF assms] by blast
  obtain s2 where 2: "get_pkg_rapl_limit E 1 (Some b) None s1 = Some (-1, Some b, None, s2)" "plain_lib s2"
    using plain_limit(1) [OF 1(2)] by blast
  obtain s3 where 3: "get_dram_rapl_limit E 0 (Some c) s2 = Some (-1, Some c, s3)" "plain_lib s3"
    using plain_limit(3) [OF 2(2)] by blast
  obtain s4 where 4: "get_dram_rapl_limit E 1 (Some d) s3 = Some (-1, Some d, s4)" "plain_lib s4"
    using plain_limit(3) [OF 3(2)] by blast
  from 1 2 3 4 show ?thesis by (simp add: get_limits_def ls)
qed

definition plain_monitor :: "sim monitor \<Rightarrow> bool" where
  "plain_monitor m \<longleftrightarrow> plain_lib (mlib m) \<and> rdat_set m"

lemma plain_set:
  assumes "plain_monitor m"
  shows "\<exists>m'. set_rapl_power E a b m = Some m' \<and> plain_monitor m'"
proof -
  let ?l = "\<lambda>w. Some \<lparr>bits = 0, l_watts = w, l_seconds = 1\<rparr>"
  have p: "plain_lib (mlib m)" using assms by (simp add: plain_monitor_def)
  obtain s1 where 1: "set_pkg_rapl_limit E 0 (?l a) (?l b) (mlib m) = Some (-1, ?l a, ?l b, s1)" "plain_lib s1"
    using plain_limit(2) [OF p] by blast
  obtain s2 where 2: "set_pkg_rapl_limit E 1 (?l a) (?l b) s1 = Some (-1, ?l a, ?l b, s2)" "plain_lib s2"
    using plain_limit(2) [OF 1(2)] by blast
  obtain s3 where 3: "get_pkg_rapl_limit E 0 (?l a) None s2 = Some (-1, ?l a, None, s3)" "plain_lib s3"
    using plain_limit(1) [OF 2(2)] by blast
  obtain s4 where 4: "get_pkg_rapl_limit E 1 (?l b) None s3 = Some (-1, ?l b, None, s4)" "plain_lib s4"
    using plain_limit(1) [OF 3(2)] by blast
  from 1 2 3 4 assms show ?thesis by (simp add: set_rapl_power_def Let_def plain_monitor_def)
qed

lemma plain_take:
  assumes "plain_monitor m"
  shows "\<exists>m'. take_measurement (sim_env False) ms m = Some m' \<and> plain_monitor m'"
proof -
  obtain s1 where 1: "poll_rapl_data (sim_env False) (mlib m) = Some (0, s1)" "plain_lib s1"
    using plain_poll assms unfolding plain_monitor_def by blast
  obtain s2 where 2: "get_limits (sim_env False) (read_rlim m) s1 = Some (read_rlim m, s2)" "plain_lib s2"
    using plain_limits [OF 1(2)] by blast
  obtain a b c d where ls: "read_rlim m = (a, b, c, d)" by (cases "read_rlim m")
  obtain r m1 where r: "read_rapl_energy_and_power (sim_env False) m = Some (r, m1)" "plain_monitor m1"
    using 1 2 assms ls by (auto simp: read_rapl_energy_and_power_def Let_def plain_monitor_def plain_lib_def)
  have [simp]: "mlib (raise_max w m) = mlib m" "rdat_set (raise_max w m) = rdat_set m"
    "mlib (drop_min w m) = mlib m" "rdat_set (drop_min w m) = rdat_set m" for w and m :: "sim monitor"
    by (simp_all add: raise_max_def drop_min_def)
  from r show ?thesis by (simp add: take_measurement_def Let_def plain_monitor_def)
qed

text \<open>The timer returns in every turn.\<close>

fun sleeps :: "clock_pair list \<Rightarrow> mstimer \<Rightarrow> bool" where
  "sleeps [] t = True"
| "sleeps ((a, b) # cs) t = (case timer_sleep (now_ms b) t of None \<Rightarrow> False | Some (_, t) \<Rightarrow> sleeps cs t)"

lemma plain_measure_loop:
  "sleeps cs t \<Longrightarrow> plain_monitor m \<Longrightarrow> \<exists>t' m'. measure_loop (sim_env False) cs (t, m) = Some (t', m') \<and> plain_monitor m'"
proof (induction cs arbitrary: t m)
  case (Cons c cs)
  then show ?case using plain_take [OF Cons.prems(2), of "now_ms (fst c)"] by (cases c) (auto split: option.splits)
qed simp

lemma plain_cap_loop:
  "sleeps cs t \<Longrightarrow> plain_monitor m \<Longrightarrow> \<exists>r. cap_loop (sim_env False) cs (n, w, t, m) = Some r"
proof (induction cs arbitrary: n w t m)
  case (Cons c cs)
  obtain m1 where m1: "take_measurement (sim_env False) (now_ms (fst c)) m = Some m1" "plain_monitor m1"
    using plain_take [OF Cons.prems(2)] by blast
  have "plain_monitor (turn_direction w m1)"
    using m1(2) by (simp add: plain_monitor_def turn_direction_def)
  then obtain m2 where "set_rapl_power (sim_env False) (w + real_of_int (poll_dir (turn_direction w m1)))
      (w + real_of_int (poll_dir (turn_direction w m1))) (turn_direction w m1) = Some m2" "plain_monitor m2"
    using plain_set by blast
  with Cons m1 show ?case by (cases c) (auto simp: Let_def split: option.splits)
qed simp

definition sim_plain :: "sim rapl_lib" where
  "sim_plain = (sim_rapl 0 (rapl_data0\<lparr>pkg_delta_joules := Some [3, 4], dram_delta_joules := Some [0, 0], pkg_watts := Some [0, 0]\<rparr>))
     \<lparr>read_init := True, delta_init := True, batch_null := False, batchfd := 3, batch := [batch_array0], bsize := [0]\<rparr>"

lemma sim_plain: "plain_lib sim_plain"
  by (simp add: plain_lib_def sim_plain_def sim_rapl_def sim_lib_def rapl_lib.defs)

definition turns5 :: "clock_pair list" where
  "turns5 = map (\<lambda>i. ((i, 0), (i, 0))) [2, 4, 5, 7, 8]"

lemma sim_sleeps:
  "timer_sleep (now_ms (0, 0)) (init_msTimer 1500 (0, 0)) = Some (Inr 1500, next_step (init_msTimer 1500 (0, 0)))"
  "sleeps turns5 (next_step (init_msTimer 1500 (0, 0)))"
  "timer_sleep (now_ms (0, 0)) (init_msTimer 100 (0, 0)) = Some (Inr 100, next_step (init_msTimer 100 (0, 0)))"
  by (simp_all add: turns5_def timer_sleep_def now_ms_def init_msTimer_def init_sync_msTimer_def deadline_def next_step_def Let_def)

lemma plain_locks:
  assumes "plain_lib s"
  shows "\<exists>r s'. rapl_init E s = Some (r, s') \<and> plain_lib s'"
proof -
  let ?P = "\<lambda>_ st. plain_lib (snd (snd (snd (snd st))))"
  have "\<exists>st'. check_locks_socket E i st = Some st' \<and> ?P (Suc i) st'" if p: "?P i st" for i st
  proof -
    obtain k a b c t where st: "st = (k, a, b, c, t)" by (cases st)
    have h: "\<not> has f t" "\<not> has f (clear_flag g t)" "plain_lib (clear_flag g t)" for f g
      using p by (auto simp: st plain_lib_def has_def clear_flag_def)
    show ?thesis using h p by (auto simp: st check_locks_socket_def check_dram_lock_def check_turbo_lock_def Let_def)
  qed
  then obtain st where "foldo (check_locks_socket E) [0..<sockets (hw E)]
      (0, junk_limit E, junk_limit E, \<lparr>tar_bits = junk E, max_non_turbo_ratio = 0\<rparr>, s) = Some st" "?P 0 st"
    using foldo_upt [of ?P "(0, junk_limit E, junk_limit E, \<lparr>tar_bits = junk E, max_non_turbo_ratio = 0\<rparr>, s)"
        "sockets (hw E)" "check_locks_socket E"] assms by auto
  then show ?thesis using assms
    by (cases st) (auto simp: rapl_init_def check_for_locks_def rapl_storage_def plain_lib_def)
qed

lemma plain_init:
  assumes "plain_lib (mlib m)" "hw_wf (hw E)"
  shows "\<exists>m'. read_rapl_init E m = Some m' \<and> plain_monitor m'"
proof -
  obtain g where "find_cpu_top (hw E) (g_topo_list (mlib m)) = Some (1, g)" using find_cpu_top_ok [OF assms(2)] by blast
  then obtain s0 where i: "init_msr E (mlib m) = Some (0, s0)" and s0: "plain_lib s0"
    using assms(1) by (simp add: plain_lib_def init_msr_def Let_def)
  have st: "fst (rapl_storage E s0) = 0" using s0 by (simp add: plain_lib_def rapl_storage_def)
  obtain r s1 where 1: "rapl_init E s0 = Some (r, s1)" "plain_lib s1" using plain_locks [OF s0] by blast
  have "plain_lib (clear_flag DRAM_PERF_STATUS s1)" using 1(2) by (auto simp: plain_lib_def clear_flag_def)
  then obtain s2 where "get_limits E (init_rlim m) (clear_flag DRAM_PERF_STATUS s1) = Some (init_rlim m, s2)" "plain_lib s2"
    using plain_limits by blast
  with i st 1 show ?thesis by (simp add: read_rapl_init_def Let_def plain_monitor_def)
qed

section \<open>Runs of both threads\<close>

definition turns2 :: "clock_pair list" where
  "turns2 = [((0, 1000000), (0, 0)), ((0, 2000000), (0, 0))]"

lemma sim_measures:
  assumes "plain_lib (mlib m)"
  shows "\<exists>t m'. power_measurement (sim_env False) (0, 0) ((0, 0), (0, 0)) turns2 m = Some (t, m') \<and> plain_monitor m'"
proof -
  obtain m1 where m1: "read_rapl_init (sim_env False) m = Some m1" "plain_monitor m1"
    using plain_init [OF assms, of "sim_env False"] sim_hw_wf by auto
  then have p: "plain_monitor (m1\<lparr>start_time := 0\<rparr>)" by (simp add: plain_monitor_def)
  have "sleeps turns2 (next_step (init_msTimer 100 (0, 0)))"
    by (simp add: turns2_def timer_sleep_def now_ms_def init_msTimer_def init_sync_msTimer_def deadline_def next_step_def Let_def)
  then obtain t m' where "measure_loop (sim_env False) turns2 (next_step (init_msTimer 100 (0, 0)), m1\<lparr>start_time := 0\<rparr>) = Some (t, m')"
    "plain_monitor m'"
    using plain_measure_loop [OF _ p] by blast
  then show ?thesis using m1(1) sim_sleeps(3) by (simp add: power_measurement_def Let_def now_ms_def)
qed

lemma sim_caps:
  assumes "plain_monitor m"
  shows "\<exists>n w t m'. power_set_measurement (sim_env False) (0, 0) ((0, 0), (0, 0)) turns5 m = Some (n, w, t, m')"
proof -
  obtain m1 where m1: "set_rapl_power (sim_env False) (watt_cap m) (watt_cap m) m = Some m1" "plain_monitor m1"
    using plain_set [OF assms] by blast
  then have "plain_monitor (m1\<lparr>start_time := 0\<rparr>)" by (simp add: plain_monitor_def)
  then obtain n w t m' where "cap_loop (sim_env False) turns5
      (1, watt_cap m1, next_step (init_msTimer 1500 (0, 0)), m1\<lparr>start_time := 0\<rparr>) = Some (n, w, t, m')"
    using plain_cap_loop [OF sim_sleeps(2)] by (metis prod_cases4)
  then show ?thesis using m1(1) sim_sleeps(1) by (simp add: power_set_measurement_def Let_def now_ms_def)
qed

section \<open>Witnesses\<close>

theorem set_rapl_power_witness:
  "\<exists>m'. set_rapl_power (sim_env False) 50.3 60 (monitor0 (sim_rapl 0x177 rapl_data0)) = Some m'
     \<and> dbl (MASK_VAL (sim_rg 11 MSR_PKG_POWER_LIMIT (dev (mlib m'))) 14 0) = 402
     \<and> dbl (MASK_VAL (sim_rg 11 MSR_PKG_POWER_LIMIT (dev (mlib m'))) 46 32) = 480"
proof -
  let ?s = "sim_rapl 0x177 rapl_data0"
  let ?m = "monitor0 ?s"
  have m: "mlib ?m = ?s" by (simp add: monitor0_def)
  have p: "rapl_ready (mlib ?m)" "has PKG_POWER_LIMIT (mlib ?m)" by (simp_all add: m has_def PKG_POWER_LIMIT_def)
  have r: "fds_ready (sim_env False) sim_good (mlib ?m)" unfolding m by (rule sim_rapl_ready)
  have c: "coord_ok (sim_env False) 0 0 0" by (simp add: coord_ok_def)
  have u: "units_ready (sim_env False) 0 sim_units (mlib ?m)" "units_ready (sim_env False) 1 sim_units (mlib ?m)"
    unfolding m using sim_units_ready [of 0 False] sim_units_ready [of 1 False] by simp_all
  have w: "(0 :: real) \<le> 50.3" "50.3 / watts sim_units < 2 ^ 15" "(0 :: real) \<le> 60" "60 / watts sim_units < 2 ^ 15"
    by (simp_all add: sim_units_values)
  have fl: "\<lfloor>50.3 / watts sim_units\<rfloor> = (402 :: int)" "\<lfloor>60 / watts sim_units\<rfloor> = (480 :: int)"
    by (simp_all add: sim_units_values floor_eq_iff)
  have fd: "fd_of (mlib ?m) (coord_num (sim_env False) (mlib ?m) 1 0 0) = 11"
    unfolding m by (simp add: sim_rapl_def coord_num_def fd_of_def cont_idx_def)
  obtain m' v where m': "set_rapl_power (sim_env False) 50.3 60 ?m = Some m'"
    "\<forall>fd r. sim_rg fd r (dev (mlib m')) =
         (if r = MSR_PKG_POWER_LIMIT \<and> (fd = fd_of (mlib ?m) (coord_num (sim_env False) (mlib ?m) 0 0 0) \<or> fd = 11)
          then v else sim_rg fd r (dev (mlib ?m)))"
    "dbl (MASK_VAL v 14 0) = 402" "dbl (MASK_VAL v 46 32) = 480"
    using set_rapl_power_limits [OF sim_msr_files r c sim_coord p u sim_units_def w, unfolded fl fd]
    by (elim exE conjE) (rule that, simp_all)
  from m'(2) have "sim_rg 11 MSR_PKG_POWER_LIMIT (dev (mlib m')) = v" by simp
  with m' show ?thesis by blast
qed


theorem summary_totals_witness:
  "\<exists>t m. power_measurement (sim_env False) (0, 0) ((0, 0), (0, 0)) turns2 (monitor0 sim_plain) = Some (t, m)
      \<and> map log_ms (mlog m) = [1, 2] \<and> total_joules m = (\<Sum>l\<leftarrow>mlog m. fst (log_joules l) + snd (log_joules l))"
proof -
  have "plain_lib (mlib (monitor0 sim_plain))" by (simp add: monitor0_def sim_plain)
  then obtain t m where r: "power_measurement (sim_env False) (0, 0) ((0, 0), (0, 0)) turns2 (monitor0 sim_plain) = Some (t, m)"
    using sim_measures by blast
  show ?thesis using r summary_totals [OF r] by (simp add: turns2_def now_ms_def)
qed

end
