(* ===== verification/Powmon_Main.thy ===== *)
theory Powmon_Main
  imports Powmon_Sim Highlander
begin

text \<open>
  The programs of \<open>src/demoapps/powmon\<close> as they run: the main thread (\<open>main\<close> of \<open>powmon.c\<close>,
  \<open>power_wrapper_static.c\<close> and \<open>power_wrapper_dynamic.c\<close>) and the measuring thread it starts,
  interleaved.  A step is one action on what the threads share: the monitor of Powmon, the lock
  \<open>mlock\<close>, the flag \<open>running\<close> and the log.  The operating system and the other processes answer
  through \<open>answers\<close>; starting and waiting for the application is one step.
\<close>

section \<open>Options\<close>

datatype program = Powmon_Tool | Static_Wrapper | Dynamic_Wrapper

text \<open>
  The arguments of \<open>powmon\<close>: the exit code, if it ends at once, and whether it removes the
  semaphores.
\<close>

definition powmon_options :: "string list \<Rightarrow> (int \<times> bool) option" where
  "powmon_options args =
     (if args = [] \<or> has_prefix ''--help'' (hd args) \<or> has_prefix ''-h'' (hd args) then Some (0, False)
      else case getopt ''c'' '''' [] args of
             [] \<Rightarrow> None
           | Opt _ _ # _ \<Rightarrow> Some (0, True)
           | Bad _ # _ \<Rightarrow> Some (-1, False))"

section \<open>The state\<close>

datatype main_pos =
    Begin | Electing | Opening | Capping | Creating | Running_app | Awaiting | Stopping
  | Locking | Measuring | Unlocking | Ending | Opening_summary | Writing | Closing | Detaching
  | Foe_app | Foe_awaiting
  | Exited int

datatype meas_pos =
    Not_started | Setup | Attach | Stamp | Sleeping | Checking | M_locking | M_measuring | M_unlocking | Adjusting
  | Ended

datatype pm_thread = Main | Meas

text \<open>What the outside decides: the election, and whether the two files can be created.\<close>

record answers =
  elected :: bool
  log_opens :: bool
  summary_opens :: bool

record summary =
  s_total :: real
  s_allocated :: real
  s_max :: quotient
  s_min :: quotient
  s_start :: u64
  s_end :: u64

text \<open>
  \<open>awaited\<close> says whether \<open>highlander_wait\<close> has been called; \<open>mtimer\<close>, \<open>mturn\<close> and
  \<open>mwatts\<close> are the locals \<open>timer\<close>, \<open>poll_num\<close> and \<open>watts\<close> of the measuring thread.
\<close>

record 'd pm =
  mon :: "'d monitor"
  going :: bool
  mlock :: "pm_thread option"
  log_open :: bool
  main_at :: main_pos
  meas_at :: meas_pos
  mtimer :: mstimer
  mturn :: u64
  mwatts :: real
  end_ms :: u64
  printed_summary :: "summary option"
  awaited :: bool
  cleaned :: bool

definition pm0 :: "'d monitor \<Rightarrow> 'd pm" where
  "pm0 m = \<lparr>mon = m, going = True, mlock = None, log_open = False, main_at = Begin, meas_at = Not_started,
     mtimer = init_msTimer 100 (0, 0), mturn = 0, mwatts = 0, end_ms = 0, printed_summary = None, awaited = False,
     cleaned = False\<rparr>"

text \<open>A step leads on, or its behaviour is undefined; a thread without a step is blocked or has ended.\<close>

datatype 'd outcome = Undefined | Next "'d pm"

definition onto :: "'d monitor option \<Rightarrow> ('d monitor \<Rightarrow> 'd pm) \<Rightarrow> 'd outcome option" where
  "onto r f = (case r of None \<Rightarrow> Some Undefined | Some m \<Rightarrow> Some (Next (f m)))"

section \<open>Steps\<close>

text \<open>The lock of \<open>take_measurement\<close>.\<close>

definition lock_step :: "pm_thread \<Rightarrow> ('d pm \<Rightarrow> 'd pm) \<Rightarrow> 'd pm \<Rightarrow> 'd outcome option" where
  "lock_step t f s = (if mlock s = None then Some (Next (f (s\<lparr>mlock := Some t\<rparr>))) else None)"

text \<open>Its body: the line goes to the log, which must be open.\<close>

definition measure_step :: "'d env \<Rightarrow> u64 \<Rightarrow> ('d pm \<Rightarrow> 'd pm) \<Rightarrow> 'd pm \<Rightarrow> 'd outcome option" where
  "measure_step E ms f s =
     (if log_open s then onto (take_measurement E ms (mon s)) (\<lambda>m. f (s\<lparr>mon := m\<rparr>)) else Some Undefined)"

definition summary_of :: "'d pm \<Rightarrow> summary" where
  "summary_of s = \<lparr>s_total = total_joules (mon s), s_allocated = limit_joules (mon s), s_max = max_watts (mon s),
     s_min = min_watts (mon s), s_start = start_time (mon s), s_end = end_ms s\<rparr>"

text \<open>\<open>main\<close> of \<open>powmon.c\<close>.\<close>

definition powmon_main :: "'d env \<Rightarrow> string list \<Rightarrow> answers \<Rightarrow> nat \<times> nat \<Rightarrow> 'd pm \<Rightarrow> 'd outcome option" where
  "powmon_main E args a c s =
     (case main_at s of
        Begin \<Rightarrow>
          Some (Next (case powmon_options args of
                        Some (code, cl) \<Rightarrow> s\<lparr>main_at := Exited code, cleaned := cl\<rparr>
                      | None \<Rightarrow> s\<lparr>main_at := Electing\<rparr>))
      | Electing \<Rightarrow> Some (Next (s\<lparr>main_at := if elected a then Opening else Foe_app\<rparr>))
      | Opening \<Rightarrow>
          Some (Next (if log_opens a then s\<lparr>log_open := True, main_at := Creating\<rparr> else s\<lparr>main_at := Exited 1\<rparr>))
      | Creating \<Rightarrow> Some (Next (s\<lparr>meas_at := Setup, main_at := Running_app\<rparr>))
      | Running_app \<Rightarrow> Some (Next (s\<lparr>main_at := Awaiting\<rparr>))
      | Awaiting \<Rightarrow> Some (Next (s\<lparr>awaited := True, main_at := Stopping\<rparr>))
      | Stopping \<Rightarrow> Some (Next (s\<lparr>going := False, main_at := Locking\<rparr>))
      | Locking \<Rightarrow> lock_step Main (\<lambda>s. s\<lparr>main_at := Measuring\<rparr>) s
      | Measuring \<Rightarrow> measure_step E (now_ms c) (\<lambda>s. s\<lparr>main_at := Unlocking\<rparr>) s
      | Unlocking \<Rightarrow> Some (Next (s\<lparr>mlock := None, main_at := Ending\<rparr>))
      | Ending \<Rightarrow> Some (Next (s\<lparr>end_ms := now_ms c, main_at := Opening_summary\<rparr>))
      | Opening_summary \<Rightarrow> Some (Next (s\<lparr>main_at := if summary_opens a then Writing else Exited 1\<rparr>))
      | Writing \<Rightarrow> Some (Next (s\<lparr>printed_summary := Some (summary_of s), main_at := Closing\<rparr>))
      | Closing \<Rightarrow> Some (Next (s\<lparr>main_at := Detaching\<rparr>))
      | Detaching \<Rightarrow> Some (Next (s\<lparr>main_at := Exited 0\<rparr>))
      | Foe_app \<Rightarrow> Some (Next (s\<lparr>main_at := Foe_awaiting\<rparr>))
      | Foe_awaiting \<Rightarrow> Some (Next (s\<lparr>awaited := True, main_at := Exited 0\<rparr>))
      | _ \<Rightarrow> None)"

text \<open>
  \<open>main\<close> of the two wrappers, which is the same but for the function of the measuring thread:
  it sets the cap before it starts the thread, and writes the summary to the log, which it closes.
\<close>

definition wrapper_main :: "'d env \<Rightarrow> string list \<Rightarrow> answers \<Rightarrow> nat \<times> nat \<Rightarrow> 'd pm \<Rightarrow> 'd outcome option" where
  "wrapper_main E args a c s =
     (case main_at s of
        Begin \<Rightarrow> Some (Next (s\<lparr>main_at := if length args < 2 then Exited 1 else Electing\<rparr>))
      | Electing \<Rightarrow> Some (Next (s\<lparr>main_at := if elected a then Opening else Foe_app\<rparr>))
      | Opening \<Rightarrow>
          Some (Next (if log_opens a then s\<lparr>log_open := True, main_at := Capping\<rparr> else s\<lparr>main_at := Exited 1\<rparr>))
      | Capping \<Rightarrow> onto (set_cap E (hd args) (mon s)) (\<lambda>m. s\<lparr>mon := m, main_at := Creating\<rparr>)
      | Creating \<Rightarrow> Some (Next (s\<lparr>meas_at := Setup, main_at := Running_app\<rparr>))
      | Running_app \<Rightarrow> Some (Next (s\<lparr>main_at := Awaiting\<rparr>))
      | Awaiting \<Rightarrow> Some (Next (s\<lparr>awaited := True, main_at := Stopping\<rparr>))
      | Stopping \<Rightarrow> Some (Next (s\<lparr>going := False, main_at := Locking\<rparr>))
      | Locking \<Rightarrow> lock_step Main (\<lambda>s. s\<lparr>main_at := Measuring\<rparr>) s
      | Measuring \<Rightarrow> measure_step E (now_ms c) (\<lambda>s. s\<lparr>main_at := Unlocking\<rparr>) s
      | Unlocking \<Rightarrow> Some (Next (s\<lparr>mlock := None, main_at := Ending\<rparr>))
      | Ending \<Rightarrow> Some (Next (s\<lparr>end_ms := now_ms c, main_at := Writing\<rparr>))
      | Writing \<Rightarrow> Some (Next (s\<lparr>printed_summary := Some (summary_of s), main_at := Closing\<rparr>))
      | Closing \<Rightarrow> Some (Next (s\<lparr>log_open := False, main_at := Detaching\<rparr>))
      | Detaching \<Rightarrow> Some (Next (s\<lparr>main_at := Exited 0\<rparr>))
      | Foe_app \<Rightarrow> Some (Next (s\<lparr>main_at := Foe_awaiting\<rparr>))
      | Foe_awaiting \<Rightarrow> Some (Next (s\<lparr>awaited := True, main_at := Exited 0\<rparr>))
      | _ \<Rightarrow> None)"

definition main_step :: "'d env \<Rightarrow> program \<Rightarrow> string list \<Rightarrow> answers \<Rightarrow> nat \<times> nat \<Rightarrow> 'd pm \<Rightarrow> 'd outcome option" where
  "main_step E p args a c s = (if p = Powmon_Tool then powmon_main E args a c s else wrapper_main E args a c s)"

text \<open>
  The measuring thread: \<open>power_measurement\<close>, or \<open>power_set_measurement\<close> in the dynamic
  wrapper.  It ends with the process.
\<close>

definition setup_step :: "'d env \<Rightarrow> program \<Rightarrow> nat \<times> nat \<Rightarrow> 'd pm \<Rightarrow> 'd outcome option" where
  "setup_step E p c s =
     (if p = Dynamic_Wrapper
      then onto (set_rapl_power E (watt_cap (mon s)) (watt_cap (mon s)) (mon s))
             (\<lambda>m. s\<lparr>mon := m, mwatts := watt_cap m, meas_at := Attach\<rparr>)
      else Some (Next (s\<lparr>mtimer := init_msTimer 100 c, meas_at := Attach\<rparr>)))"

definition attach_step :: "'d env \<Rightarrow> program \<Rightarrow> nat \<times> nat \<Rightarrow> 'd pm \<Rightarrow> 'd outcome option" where
  "attach_step E p c s =
     (if p = Dynamic_Wrapper then Some (Next (s\<lparr>mtimer := init_msTimer 1500 c, meas_at := Stamp\<rparr>))
      else onto (read_rapl_init E (mon s)) (\<lambda>m. s\<lparr>mon := m, meas_at := Stamp\<rparr>))"

definition adjust_step :: "'d env \<Rightarrow> 'd pm \<Rightarrow> 'd outcome option" where
  "adjust_step E s =
     (if mturn s mod 5 = 0
      then let m = turn_direction (mwatts s) (mon s);
               w = mwatts s + real_of_int (poll_dir m)
           in onto (set_rapl_power E w w m)
                (\<lambda>m. s\<lparr>mon := m, mwatts := w, mturn := mturn s + 1, meas_at := Sleeping\<rparr>)
      else Some (Next (s\<lparr>mturn := mturn s + 1, meas_at := Sleeping\<rparr>)))"

definition meas_go :: "'d env \<Rightarrow> program \<Rightarrow> nat \<times> nat \<Rightarrow> 'd pm \<Rightarrow> 'd outcome option" where
  "meas_go E p c s =
     (case meas_at s of
        Setup \<Rightarrow> setup_step E p c s
      | Attach \<Rightarrow> attach_step E p c s
      | Stamp \<Rightarrow> Some (Next (s\<lparr>mon := (mon s)\<lparr>start_time := now_ms c\<rparr>,
                                mturn := if p = Dynamic_Wrapper then mturn s + 1 else mturn s, meas_at := Sleeping\<rparr>))
      | Sleeping \<Rightarrow> map_option (\<lambda>(_, t). Next (s\<lparr>mtimer := t, meas_at := Checking\<rparr>)) (timer_sleep (now_ms c) (mtimer s))
      | Checking \<Rightarrow> Some (Next (s\<lparr>meas_at := if going s then M_locking else Ended\<rparr>))
      | M_locking \<Rightarrow> lock_step Meas (\<lambda>s. s\<lparr>meas_at := M_measuring\<rparr>) s
      | M_measuring \<Rightarrow> measure_step E (now_ms c) (\<lambda>s. s\<lparr>meas_at := M_unlocking\<rparr>) s
      | M_unlocking \<Rightarrow> Some (Next (s\<lparr>mlock := None, meas_at := if p = Dynamic_Wrapper then Adjusting else Sleeping\<rparr>))
      | Adjusting \<Rightarrow> adjust_step E s
      | _ \<Rightarrow> None)"

definition meas_step :: "'d env \<Rightarrow> program \<Rightarrow> nat \<times> nat \<Rightarrow> 'd pm \<Rightarrow> 'd outcome option" where
  "meas_step E p c s = (case main_at s of Exited _ \<Rightarrow> None | _ \<Rightarrow> meas_go E p c s)"

section \<open>Schedules\<close>

text \<open>A run of one program; a schedule names the thread of each step, and the time.\<close>

type_synonym 'd invocation = "'d env \<times> program \<times> string list \<times> answers"

fun pm_step :: "'d invocation \<Rightarrow> pm_thread \<times> nat \<times> nat \<Rightarrow> 'd pm \<Rightarrow> 'd outcome option" where
  "pm_step (E, p, args, a) (Main, c) s = main_step E p args a c s"
| "pm_step (E, p, args, a) (Meas, c) s = meas_step E p c s"

fun pm_run :: "'d invocation \<Rightarrow> (pm_thread \<times> nat \<times> nat) list \<Rightarrow> 'd pm \<Rightarrow> 'd outcome" where
  "pm_run W [] s = Next s"
| "pm_run W (x # xs) s =
     (case pm_step W x s of None \<Rightarrow> pm_run W xs s | Some Undefined \<Rightarrow> Undefined | Some (Next t) \<Rightarrow> pm_run W xs t)"

inductive pm_reachable :: "'d invocation \<Rightarrow> 'd monitor \<Rightarrow> 'd pm \<Rightarrow> bool" for W m where
  start: "pm_reachable W m (pm0 m)"
| step: "pm_reachable W m s \<Longrightarrow> pm_step W x s = Some (Next t) \<Longrightarrow> pm_reachable W m t"

lemma pm_run_append:
  "pm_run W (xs @ ys) s = (case pm_run W xs s of Undefined \<Rightarrow> Undefined | Next t \<Rightarrow> pm_run W ys t)"
  by (induction xs arbitrary: s) (auto split: option.split outcome.split)

lemma pm_run_reachable: "pm_reachable W m s \<Longrightarrow> pm_run W xs s = Next t \<Longrightarrow> pm_reachable W m t"
  by (induction xs arbitrary: s) (auto split: option.splits outcome.splits intro: pm_reachable.step)

text \<open>A step in detail.\<close>

lemmas main_step_defs = main_step_def powmon_main_def wrapper_main_def

lemmas pm_step_defs = lock_step_def measure_step_def setup_step_def attach_step_def adjust_step_def onto_def Let_def

lemma meas_stepD: "meas_step E p c s = Some r \<Longrightarrow> meas_go E p c s = Some r \<and> (\<forall>k. main_at s \<noteq> Exited k)"
  by (simp add: meas_step_def split: main_pos.splits)

lemma pm_step_cases [consumes 1, case_names main meas]:
  assumes "pm_step W x s = Some r"
  obtains E p args a c where "W = (E, p, args, a)" "main_step E p args a c s = Some r"
    | E p args a c where "W = (E, p, args, a)" "meas_go E p c s = Some r" "\<forall>k. main_at s \<noteq> Exited k"
  using assms by (cases "(W, x, s)" rule: pm_step.cases) (auto dest: meas_stepD)

section \<open>The invariants\<close>

text \<open>Before the measuring thread is started, and after it has been told to stop.\<close>

definition early :: "main_pos \<Rightarrow> bool" where
  "early q = (case q of Begin \<Rightarrow> True | Electing \<Rightarrow> True | Opening \<Rightarrow> True | Capping \<Rightarrow> True | Creating \<Rightarrow> True
     | Foe_app \<Rightarrow> True | Foe_awaiting \<Rightarrow> True | _ \<Rightarrow> False)"

definition stopped :: "main_pos \<Rightarrow> bool" where
  "stopped q = (case q of Locking \<Rightarrow> True | Measuring \<Rightarrow> True | Unlocking \<Rightarrow> True | Ending \<Rightarrow> True | Opening_summary \<Rightarrow> True
     | Writing \<Rightarrow> True | Closing \<Rightarrow> True | Detaching \<Rightarrow> True | _ \<Rightarrow> False)"

definition main_holds :: "main_pos \<Rightarrow> bool" where
  "main_holds q = (case q of Measuring \<Rightarrow> True | Unlocking \<Rightarrow> True | _ \<Rightarrow> False)"

definition meas_holds :: "meas_pos \<Rightarrow> bool" where
  "meas_holds q = (case q of M_measuring \<Rightarrow> True | M_unlocking \<Rightarrow> True | _ \<Rightarrow> False)"

definition summed :: "main_pos \<Rightarrow> bool" where
  "summed q = (case q of Closing \<Rightarrow> True | Detaching \<Rightarrow> True | Exited k \<Rightarrow> k = 0 | _ \<Rightarrow> False)"

lemmas phase_defs = early_def stopped_def main_holds_def meas_holds_def summed_def

definition pm_inv :: "'d pm \<Rightarrow> bool" where
  "pm_inv s \<longleftrightarrow> (mlock s = Some Main \<longleftrightarrow> main_holds (main_at s)) \<and> (mlock s = Some Meas \<longleftrightarrow> meas_holds (meas_at s))
     \<and> (early (main_at s) \<longrightarrow> meas_at s = Not_started) \<and> (stopped (main_at s) \<longrightarrow> \<not> going s)
     \<and> (printed_summary s \<noteq> None \<longrightarrow> \<not> going s \<and> summed (main_at s))"

lemma pm_inv_step:
  assumes "pm_step W x s = Some (Next t)" "pm_inv s"
  shows "pm_inv t"
  using assms(1)
proof (cases rule: pm_step_cases)
  case (main E p args a c)
  from main(2) assms(2) show ?thesis
    by (cases "main_at s"; simp add: main_step_defs pm_step_defs split: if_splits option.splits; hypsubst;
        auto simp: pm_inv_def phase_defs)
next
  case (meas E p args a c)
  from meas(2) assms(2) show ?thesis
    by (cases "meas_at s"; simp add: meas_go_def pm_step_defs split: if_splits option.splits; hypsubst?;
        auto simp: pm_inv_def meas_holds_def)
qed

text \<open>
  The monitor: the total is what the log adds up to, and a printed total lacks at most one line,
  which the measuring thread may still be about to write.
\<close>

definition line_joules :: "log_line \<Rightarrow> real" where
  "line_joules l = fst (log_joules l) + snd (log_joules l)"

definition log_total :: "log_line list \<Rightarrow> real" where
  "log_total ls = (\<Sum>l\<leftarrow>ls. line_joules l)"

definition sum_ok :: "'d monitor \<Rightarrow> summary option \<Rightarrow> nat \<Rightarrow> bool" where
  "sum_ok m pr n \<longleftrightarrow> total_joules m = log_total (mlog m)
     \<and> (\<forall>q. pr = Some q \<longrightarrow> (\<exists>k \<le> length (mlog m). s_total q = log_total (take k (mlog m)) \<and> length (mlog m) + n \<le> k + 1))"

lemma sum_ok_same:
  "mlog m' = mlog m \<and> total_joules m' = total_joules m \<Longrightarrow> sum_ok m pr n \<Longrightarrow> sum_ok m' pr n"
  "sum_ok m pr n \<Longrightarrow> n' \<le> n \<Longrightarrow> sum_ok m pr n'"
  "sum_ok m None n \<longleftrightarrow> total_joules m = log_total (mlog m)"
  by (auto simp: sum_ok_def) (metis (no_types, lifting) nat_add_left_cancel_le order_trans)

lemma sum_ok_take:
  assumes "sum_ok m pr n" "take_measurement E ms m = Some m'" "pr = None \<or> n = 1"
  shows "sum_ok m' pr 0"
proof -
  obtain l where "mlog m' = mlog m @ [l]" "total_joules m' = total_joules m + line_joules l"
    using take_measurement_statics(3) [OF assms(2)] by (auto simp: line_joules_def)
  with assms(1,3) show ?thesis
    by (auto simp: sum_ok_def log_total_def) (rule exI [of _ "length (mlog m)"], simp)
qed

lemma take_total:
  "take_measurement E ms m = Some m' \<Longrightarrow> total_joules m = log_total (mlog m) \<Longrightarrow> total_joules m' = log_total (mlog m')"
  using sum_ok_take [of m None 0 E ms m'] by (simp add: sum_ok_same(3))

definition pending :: "meas_pos \<Rightarrow> nat" where
  "pending q = (case q of M_locking \<Rightarrow> 1 | M_measuring \<Rightarrow> 1 | _ \<Rightarrow> 0)"

lemma pending_le: "pending q \<le> 1"
  by (simp add: pending_def split: meas_pos.splits)

definition sum_inv :: "'d pm \<Rightarrow> bool" where
  "sum_inv s \<longleftrightarrow> sum_ok (mon s) (printed_summary s) (pending (meas_at s))"

lemma same_log:
  "read_rapl_init E m = Some m' \<Longrightarrow> mlog m' = mlog m \<and> total_joules m' = total_joules m"
  "set_cap E r m = Some m' \<Longrightarrow> mlog m' = mlog m \<and> total_joules m' = total_joules m"
  "set_rapl_power E a b m = Some m' \<Longrightarrow> mlog m' = mlog m \<and> total_joules m' = total_joules m"
  "set_rapl_power E a b (turn_direction w m) = Some m' \<Longrightarrow> mlog m' = mlog m \<and> total_joules m' = total_joules m"
  "mlog (m\<lparr>start_time := x\<rparr>) = mlog m \<and> total_joules (m\<lparr>start_time := x\<rparr>) = total_joules m"
  by (auto simp: read_rapl_init_def set_cap_def turn_direction_def Let_def set_rapl_power_statics split: bind_splits if_splits)

lemma sum_ok_print: "total_joules (mon s) = log_total (mlog (mon s)) \<Longrightarrow> n \<le> 1 \<Longrightarrow> sum_ok (mon s) (Some (summary_of s)) n"
  by (auto simp: sum_ok_def summary_of_def)

text \<open>The calls of the measuring thread; the result of the call comes first, it names the old monitor.\<close>

lemmas sum_ok_keep = same_log [THEN sum_ok_same(1)] sum_ok_take [OF _ _ disjI2 [OF refl], rotated]

lemma sum_inv_step:
  assumes "pm_step W x s = Some (Next t)" "pm_inv s" "sum_inv s"
  shows "sum_inv t"
  using assms(1)
proof (cases rule: pm_step_cases)
  case (main E p args a c)
  have none: "\<not> summed (main_at s) \<Longrightarrow> printed_summary s = None" using assms(2) by (auto simp: pm_inv_def)
  have early: "early (main_at s) \<Longrightarrow> meas_at s = Not_started" using assms(2) by (simp add: pm_inv_def)
  from main(2) assms(3) none early show ?thesis
    by (cases "main_at s"; simp add: main_step_defs pm_step_defs split: if_splits option.splits; hypsubst;
        simp add: sum_inv_def phase_defs sum_ok_same(3);
        auto simp: sum_ok_same(3) same_log(2) take_total intro: sum_ok_print [OF _ pending_le] split: prod.splits)
next
  case (meas E p args a c)
  have stop: "going s \<Longrightarrow> printed_summary s = None" using assms(2) by (auto simp: pm_inv_def)
  from meas(2) assms(3) stop show ?thesis
    by (cases "meas_at s"; simp add: meas_go_def pm_step_defs split: if_splits option.splits; hypsubst?;
        auto simp: sum_inv_def pending_def sum_ok_same(3) intro: sum_ok_keep)
qed

text \<open>The log: it is closed by \<open>main\<close> only, after everything else, and never by \<open>powmon\<close>.\<close>

definition log_needed :: "main_pos \<Rightarrow> bool" where
  "log_needed q = (case q of Capping \<Rightarrow> True | Creating \<Rightarrow> True | Running_app \<Rightarrow> True | Awaiting \<Rightarrow> True | Stopping \<Rightarrow> True
     | Closing \<Rightarrow> True | Detaching \<Rightarrow> False | _ \<Rightarrow> stopped q)"

definition log_inv :: "program \<Rightarrow> 'd pm \<Rightarrow> bool" where
  "log_inv p s \<longleftrightarrow> (log_needed (main_at s) \<longrightarrow> log_open s) \<and> (p = Powmon_Tool \<and> meas_at s \<noteq> Not_started \<longrightarrow> log_open s)"

lemma log_inv_step:
  assumes "pm_step (E, p, args, a) x s = Some (Next t)" "log_inv p s"
  shows "log_inv p t"
  using assms(1)
proof (cases rule: pm_step_cases)
  case (main E p args a c)
  from main assms(2) show ?thesis
    by (cases "main_at s"; simp add: main_step_defs pm_step_defs split: if_splits option.splits; hypsubst;
        auto simp: log_inv_def log_needed_def stopped_def split: prod.splits)
next
  case (meas E p args a c)
  from meas assms(2) show ?thesis
    by (cases "meas_at s"; simp add: meas_go_def pm_step_defs split: if_splits option.splits; hypsubst?;
        auto simp: log_inv_def)
qed

lemma reachable_inv:
  assumes "pm_reachable (E, p, args, a) m s"
  shows "pm_inv s" "log_inv p s" "total_joules m = log_total (mlog m) \<Longrightarrow> sum_inv s"
proof -
  have "pm_inv s \<and> log_inv p s \<and> (total_joules m = log_total (mlog m) \<longrightarrow> sum_inv s)"
    using assms
  proof (induction rule: pm_reachable.induct)
    case start
    then show ?case by (simp add: pm0_def pm_inv_def log_inv_def sum_inv_def phase_defs log_needed_def sum_ok_same(3))
  next
    case (step s x t)
    then show ?case using pm_inv_step log_inv_step sum_inv_step by blast
  qed
  then show "pm_inv s" "log_inv p s" "total_joules m = log_total (mlog m) \<Longrightarrow> sum_inv s" by blast+
qed

section \<open>The measuring thread by itself\<close>

text \<open>One turn of the loop in steps: the look at \<open>running\<close>, the lock, the measurement, the lock again, the timer.\<close>

definition turn_steps :: "clock_pair \<Rightarrow> (pm_thread \<times> nat \<times> nat) list" where
  "turn_steps x = (case x of (a, b) \<Rightarrow> [(Meas, a), (Meas, a), (Meas, a), (Meas, a), (Meas, b)])"

definition free_to_run :: "'d pm \<Rightarrow> bool" where
  "free_to_run s \<longleftrightarrow> going s \<and> log_open s \<and> mlock s = None \<and> (\<forall>k. main_at s \<noteq> Exited k)"

lemma meas_step_go: "\<forall>k. main_at s \<noteq> Exited k \<Longrightarrow> meas_step E p c s = meas_go E p c s"
  by (simp add: meas_step_def split: main_pos.splits)

lemma measure_loop_steps:
  assumes "p \<noteq> Dynamic_Wrapper" "measure_loop E cs (mtimer s, mon s) = Some (t, m)" "free_to_run s" "meas_at s = Checking"
  shows "pm_run (E, p, args, a) (concat (map turn_steps cs)) s = Next (s\<lparr>mon := m, mtimer := t, mlock := None, meas_at := Checking\<rparr>)"
  using assms(2-4)
proof (induction cs arbitrary: s)
  case Nil
  then show ?case by (cases s) (simp add: free_to_run_def)
next
  case (Cons x cs)
  obtain b c where x: "x = (b, c)" by (cases x)
  obtain m1 r t1 where m1: "take_measurement E (now_ms b) (mon s) = Some m1" and t1: "timer_sleep (now_ms c) (mtimer s) = Some (r, t1)"
    and l: "measure_loop E cs (t1, m1) = Some (t, m)"
    using Cons.prems(1) by (auto simp: x split: bind_splits)
  let ?s = "s\<lparr>mon := m1, mlock := None, mtimer := t1, meas_at := Checking\<rparr>"
  have "pm_run (E, p, args, a) (turn_steps x @ ys) s = pm_run (E, p, args, a) ys ?s" for ys
    using Cons.prems(2,3) m1 t1 assms(1)
    by (simp add: turn_steps_def x meas_step_go meas_go_def pm_step_defs free_to_run_def)
  with Cons.IH [of ?s] l Cons.prems(2) show ?case by (simp add: free_to_run_def)
qed

lemma cap_loop_steps:
  assumes "cap_loop E cs (mturn s, mwatts s, mtimer s, mon s) = Some (n, w, t, m)" "free_to_run s" "meas_at s = Checking"
  shows "pm_run (E, Dynamic_Wrapper, args, a) (concat (map (\<lambda>(b, c). turn_steps (b, b) @ [(Meas, c)]) cs)) s
    = Next (s\<lparr>mon := m, mtimer := t, mturn := n, mwatts := w, mlock := None, meas_at := Checking\<rparr>)"
  using assms
proof (induction cs arbitrary: s)
  case Nil
  then show ?case by (cases s) (simp add: free_to_run_def)
next
  case (Cons x cs)
  obtain b c where x: "x = (b, c)" by (cases x)
  obtain m1 where m1: "take_measurement E (now_ms b) (mon s) = Some m1" using Cons.prems(1) by (auto simp: x split: bind_splits)
  let ?d = "turn_direction (mwatts s) m1"
  let ?w = "mwatts s + real_of_int (poll_dir ?d)"
  obtain w1 m2 r t1 where m2: "if mturn s mod 5 = 0 then w1 = ?w \<and> set_rapl_power E ?w ?w ?d = Some m2 else w1 = mwatts s \<and> m2 = m1"
    and t1: "timer_sleep (now_ms c) (mtimer s) = Some (r, t1)" and l: "cap_loop E cs (mturn s + 1, w1, t1, m2) = Some (n, w, t, m)"
    using Cons.prems(1) m1 by (auto simp: x Let_def split: bind_splits if_splits)
  let ?s = "s\<lparr>mon := m2, mlock := None, mtimer := t1, mturn := mturn s + 1, mwatts := w1, meas_at := Checking\<rparr>"
  have "pm_run (E, Dynamic_Wrapper, args, a) (turn_steps (b, b) @ (Meas, c) # ys) s = pm_run (E, Dynamic_Wrapper, args, a) ys ?s" for ys
    using Cons.prems(2,3) m1 t1 m2
    by (cases s) (simp add: turn_steps_def meas_step_go meas_go_def pm_step_defs free_to_run_def split: if_splits)
  with Cons.IH [of ?s] l Cons.prems(2) show ?case by (simp add: free_to_run_def x)
qed

section \<open>Properties of the programs\<close>


text \<open>C35: \<open>main\<close> never waits for the measuring thread.  In \<open>powmon\<close> this costs nothing, its log stays
  open; but when a wrapper stops while the thread has just seen \<open>running\<close>, the thread may write
  to the log that \<open>main\<close> has closed.
\<close>

theorem late_measurement:
  assumes "pm_reachable (E, p, args, a) m s"
  shows "(p = Powmon_Tool \<and> meas_holds (meas_at s) \<longrightarrow> log_open s)
    \<and> (p \<noteq> Powmon_Tool \<and> main_at s = Stopping \<and> meas_at s = M_locking \<and> take_measurement E (now_ms c) (mon s) \<noteq> None
       \<longrightarrow> pm_run (E, p, args, a) (replicate 7 (Main, c) @ replicate 2 (Meas, c)) s = Undefined)"
proof -
  have inv: "pm_inv s" "log_inv p s" using reachable_inv [OF assms] by blast+
  have "pm_run (E, p, args, a) (replicate 7 (Main, c) @ replicate 2 (Meas, c)) s = Undefined"
    if w: "p \<noteq> Powmon_Tool" "main_at s = Stopping" "meas_at s = M_locking" "take_measurement E (now_ms c) (mon s) = Some m1" for m1
  proof -
    have "mlock s \<noteq> Some Main" "mlock s \<noteq> Some Meas" "log_open s"
      using inv w(2,3) by (simp_all add: pm_inv_def log_inv_def main_holds_def meas_holds_def log_needed_def)
    then have "mlock s = None" "log_open s" by (metis not_Some_eq pm_thread.exhaust)+
    then show ?thesis
      using w by (simp add: main_step_defs meas_step_def meas_go_def pm_step_defs numeral_eq_Suc)
  qed
  moreover have "p = Powmon_Tool \<and> meas_holds (meas_at s) \<longrightarrow> log_open s"
    using inv(2) by (auto simp: log_inv_def meas_holds_def)
  ultimately show ?thesis by blast
qed


text \<open>What a process that takes no step anymore leaves behind.\<close>

lemma sys_run_others:
  "p \<notin> set ps \<Longrightarrow> hl_procs (sys_run ps h) ! p = hl_procs h ! p \<and> length (hl_procs (sys_run ps h)) = length (hl_procs h)"
  by (induction ps arbitrary: h) (auto split: option.split dest: sys_stepD)


text \<open>
  \<open>getopt\<close> looks at all arguments: the options of the application count as options of
  \<open>powmon\<close>, which refuses them or, for \<open>-c\<close>, removes the semaphores instead of measuring.
\<close>

theorem powmon_takes_options:
  assumes "name \<noteq> []" "hd name \<noteq> CHR ''-''" "x \<noteq> CHR ''-''"
  shows "powmon_options (name # (CHR ''-'' # x # xs) # args) = Some (if x = CHR ''c'' then (0, True) else (-1, False))"
  using assms by (cases name) (auto simp: powmon_options_def has_prefix_def)

section \<open>A wrapper on a concrete machine\<close>

definition sim_run :: "sim invocation" where
  "sim_run = (sim_env False, Static_Wrapper, [''50'', ''app''], \<lparr>elected = True, log_opens = True, summary_opens = True\<rparr>)"

definition sim_steps :: "(pm_thread \<times> nat \<times> nat) list" where
  "sim_steps = replicate 7 (Main, (0, 0)) @ replicate 5 (Meas, (0, 0))"

lemma sim_stopping:
  "\<exists>s. pm_run sim_run sim_steps (pm0 (monitor0 sim_plain)) = Next s \<and> main_at s = Stopping \<and> meas_at s = M_locking
     \<and> plain_monitor (mon s) \<and> printed_summary s = None \<and> mlock s = None \<and> log_open s"
proof -
  let ?E = "sim_env False"
  have "plain_lib (mlib (monitor0 sim_plain))" by (simp add: monitor0_def sim_plain)
  then obtain m1 where m1: "read_rapl_init ?E (monitor0 sim_plain) = Some m1" "plain_monitor m1"
    using plain_init [of _ ?E] sim_hw_wf by auto
  have a: "atof ''50'' = Some 50" by (simp add: atof_def is_space_def sign_def hex_prefix_def digit_def lower_def)
  have "plain_monitor (m1\<lparr>watt_cap := 50\<rparr>)" using m1(2) by (simp add: plain_monitor_def)
  then obtain m2 where m2: "set_rapl_power ?E 50 50 (m1\<lparr>watt_cap := 50\<rparr>) = Some m2" "plain_monitor m2" using plain_set by blast
  then have c: "set_cap ?E ''50'' (monitor0 sim_plain) = Some m2" using m1(1) a by (simp add: set_cap_def)
  have "plain_lib (mlib m2)" using m2(2) by (simp add: plain_monitor_def)
  then obtain m3 where m3: "read_rapl_init ?E m2 = Some m3" "plain_monitor m3" using plain_init [of m2 ?E] sim_hw_wf by auto
  then have "plain_monitor (m3\<lparr>start_time := now_ms (0, 0)\<rparr>)" by (simp add: plain_monitor_def)
  with c m3 sim_sleeps(3) show ?thesis
    by (simp add: sim_run_def sim_steps_def pm0_def main_step_defs meas_step_def meas_go_def pm_step_defs numeral_eq_Suc)
qed


theorem late_measurement_witness:
  "pm_run sim_run (sim_steps @ replicate 7 (Main, (0, 0)) @ replicate 2 (Meas, (0, 0))) (pm0 (monitor0 sim_plain)) = Undefined"
proof -
  obtain s where s: "pm_run sim_run sim_steps (pm0 (monitor0 sim_plain)) = Next s" "main_at s = Stopping" "meas_at s = M_locking"
    "plain_monitor (mon s)"
    using sim_stopping by blast
  obtain m1 where "take_measurement (sim_env False) (now_ms (0, 0)) (mon s) = Some m1" using plain_take [OF s(4)] by blast
  moreover have "pm_reachable sim_run (monitor0 sim_plain) s" using s(1) by (blast intro: pm_run_reachable pm_reachable.start)
  note late_measurement [OF this [unfolded sim_run_def], of "(0, 0)", folded sim_run_def]
  ultimately show ?thesis using s by (simp add: pm_run_append)
qed



end
