(* ===== verification/Autoconf.thy ===== *)
theory Autoconf
  imports Cpuid C_Numbers
begin

text \<open>
  The program \<open>src/autoconf.c\<close> that the build runs: it writes \<open>include/master.h\<close>, the
  addresses of the registers, as a copy of the header of the processor model.  \<open>files\<close> are
  the files that can be read, \<open>writable\<close> says whether \<open>master.h\<close> can be opened.
\<close>

definition detect_arch :: "'d env \<Rightarrow> u64" where
  "detect_arch E =
     (case cpuid_insn E 1 0 of
        (rax, _, _, _) \<Rightarrow> (drop_bit 4 rax AND 0xF) OR (drop_bit 12 rax AND 0xF0))"

definition upper :: "char \<Rightarrow> char" where
  "upper c = (let n = of_char c :: nat in if 97 \<le> n \<and> n \<le> 122 then char_of (n - 32) else c)"

definition FNAME_SIZE :: nat where
  "FNAME_SIZE = 128"

text \<open>The name of the header; \<open>snprintf\<close> cuts it to the size of its buffer.\<close>

definition header_name :: "'d env \<Rightarrow> string option \<Rightarrow> string" where
  "header_name E a =
     take (FNAME_SIZE - 1)
       (''platform_headers/Intel'' @ (case a of Some a \<Rightarrow> a | None \<Rightarrow> map upper (hex (unat (detect_arch E)))) @ ''.h'')"

text \<open>\<open>Inl\<close> is the argument of \<open>exit\<close>.\<close>

definition open_header :: "'d env \<Rightarrow> (string \<Rightarrow> string option) \<Rightarrow> string option \<Rightarrow> int + string" where
  "open_header E files a = (case files (header_name E a) of None \<Rightarrow> Inl (-1) | Some c \<Rightarrow> Inr c)"

text \<open>\<open>getline\<close>: the lines of a file with their ends; \<open>fprintf\<close> prints a line up to its first NUL.\<close>

fun lines_of :: "string \<Rightarrow> string list" where
  "lines_of [] = []"
| "lines_of (c # s) =
     (if c = CHR 0x0A then [c] # lines_of s
      else (case lines_of s of [] \<Rightarrow> [[c]] | l # ls \<Rightarrow> (c # l) # ls))"

definition banner :: string where
  "banner = ''// This file was generated automatically by autoconf.c'' @ [CHR 0x0A]
     @ ''// You should not modify it unless you really know what you'' @ [CHR 0x27]
     @ ''re doing.'' @ [CHR 0x0A]"

text \<open>\<open>copy\<close>, with \<open>open_master\<close>: the new content of \<open>master.h\<close>.\<close>

definition copy_header :: "'d env \<Rightarrow> (string \<Rightarrow> string option) \<Rightarrow> bool \<Rightarrow> string option \<Rightarrow> int + string" where
  "copy_header E files writable a =
     (case open_header E files a of
        Inl e \<Rightarrow> Inl e
      | Inr c \<Rightarrow> if \<not> writable then Inl (-2)
                 else Inr (banner @ concat (map (takeWhile (\<lambda>c. c \<noteq> CHR 0x00)) (lines_of c))))"

text \<open>
  The options.  The results are the value of \<open>main\<close> or the argument of \<open>exit\<close>, and the content
  of \<open>master.h\<close>, \<open>None\<close> if nothing was written.
\<close>

fun autoconf_options ::
  "'d env \<Rightarrow> (string \<Rightarrow> string option) \<Rightarrow> bool \<Rightarrow> opt_arg list \<Rightarrow> string option \<Rightarrow> int \<times> string option" where
  "autoconf_options E files writable [] m = (0, m)"
| "autoconf_options E files writable (Bad c # xs) m = (1, m)"
| "autoconf_options E files writable (Opt c a # xs) m =
     (case copy_header E files writable (Some a) of
        Inl e \<Rightarrow> (e, m) | Inr t \<Rightarrow> autoconf_options E files writable xs (Some t))"

definition autoconf_main ::
  "'d env \<Rightarrow> (string \<Rightarrow> string option) \<Rightarrow> bool \<Rightarrow> string list \<Rightarrow> int \<times> string option" where
  "autoconf_main E files writable args =
     (if args \<noteq> [] \<and> (has_prefix ''--help'' (hd args) \<or> has_prefix ''-h'' (hd args)) then (0, None)
      else if length args > 2 then (1, None)
      else if args = []
      then (case copy_header E files writable None of Inl e \<Rightarrow> (e, None) | Inr t \<Rightarrow> (0, Some t))
      else autoconf_options E files writable (getopt '''' ''f'' [] args) None)"

section \<open>The header that is copied\<close>

text \<open>The build and the running library agree on the model of the processor.\<close>

lemma detect_arch_model: "detect_arch E = cpuid_get_model E"
  by (simp add: detect_arch_def cpuid_get_model_def)

lemma concat_lines [simp]: "concat (lines_of s) = s"
  by (induction s) (auto split: list.split)

lemma lines_subset: "l \<in> set (lines_of s) \<Longrightarrow> set l \<subseteq> set s"
  by (metis concat_lines set_concat UN_upper)

lemma copy_header_text:
  assumes "files (header_name E a) = Some c" "CHR 0x00 \<notin> set c" "writable"
  shows "copy_header E files writable a = Inr (banner @ c)"
proof -
  have "takeWhile (\<lambda>c. c \<noteq> CHR 0x00) l = l" if "l \<in> set (lines_of c)" for l
    using lines_subset [OF that] assms(2) by (auto simp: takeWhile_eq_all_conv)
  then have "map (takeWhile (\<lambda>c. c \<noteq> CHR 0x00)) (lines_of c) = lines_of c" by (rule map_idI)
  with assms(1,3) show ?thesis by (simp add: copy_header_def open_header_def)
qed

text \<open>
  Without arguments the header named after the model of the processor is copied below the
  banner, with \<open>-f\<close> the one that is named; a word that is not an option is ignored, and the
  program reports success without having written anything.
\<close>

theorem autoconf_copies:
  assumes "writable" "CHR 0x00 \<notin> set c"
  shows "files (header_name E None) = Some c \<Longrightarrow> autoconf_main E files writable [] = (0, Some (banner @ c))"
    and "files (header_name E (Some a)) = Some c \<Longrightarrow> autoconf_main E files writable [''-f'', a] = (0, Some (banner @ c))"
    and "autoconf_main E files writable [''55''] = (0, None)"
  using copy_header_text [OF _ assms(2,1), of files E] by (simp_all add: autoconf_main_def has_prefix_def)

text \<open>The names for the six models that have a header, for example a Haswell server.\<close>

theorem autoconf_witness:
  "autoconf_main (E\<lparr>cpuid_insn := (\<lambda>_ _. (0x306F2, 0, 0, 0))\<rparr>)
     (\<lambda>f. if f = ''platform_headers/Intel3F.h'' then Some ''x'' else None) True [] = (0, Some (banner @ ''x''))"
proof -
  have "header_name (E\<lparr>cpuid_insn := (\<lambda>_ _. (0x306F2, 0, 0, 0))\<rparr>) None = ''platform_headers/Intel3F.h''"
    by (simp add: header_name_def detect_arch_def FNAME_SIZE_def upper_def hex.simps digit_char_def char_of_def bit_nat_def)
  then show ?thesis by (intro autoconf_copies(1)) simp_all
qed

end
