(* ===== verification/Platform_Headers.thy ===== *)
theory Platform_Headers
  imports Platform Csr_Imc
begin

text \<open>
  The six headers of \<open>platform_headers/\<close>, of which \<open>autoconf.c\<close> installs one as \<open>master.h\<close>: the
  macros of every section in the order of the file, with their values.  The constants of the
  theories Platform and Csr_Imc are compared with them, which says on which processors the theorems
  of this development hold, and what changes on the others.
\<close>

type_synonym macro = "string \<times> int"

named_theorems header_defs \<open>the tables of the headers\<close>

section \<open>Intel2D.h\<close>

definition arch_2D :: "macro list" where [header_defs]:
  "arch_2D = [
   (''COMPILED_VEND'', 0x8086), (''COMPILED_ARCH'', 0x2D), (''IS_ARCH_2D'', 1)]"

definition clocks_2D :: "macro list" where [header_defs]:
  "clocks_2D = [
   (''IA32_MPERF'', 0xE7), (''IA32_APERF'', 0xE8), (''IA32_TIME_STAMP_COUNTER'', 0x10),
   (''IA32_CLOCK_MODULATION'', 0x19A), (''IA32_PERF_STATUS'', 0x198), (''IA32_PERF_CTL'', 0x199)]"

definition counters_2D :: "macro list" where [header_defs]:
  "counters_2D = [
   (''IA32_FIXED_CTR_CTRL'', 0x38D), (''IA32_PERF_GLOBAL_CTRL'', 0x38F), (''IA32_PERF_GLOBAL_STATUS'', 0x38E),
   (''IA32_PERF_GLOBAL_OVF_CTRL'', 0x390), (''IA32_FIXED_CTR0'', 0x309), (''IA32_FIXED_CTR1'', 0x30A),
   (''IA32_FIXED_CTR2'', 0x30B), (''IA32_PMC0'', 0xC1), (''IA32_PMC1'', 0xC2), (''IA32_PMC2'', 0xC3),
   (''IA32_PMC3'', 0xC4), (''IA32_PMC4'', 0xC5), (''IA32_PMC5'', 0xC6), (''IA32_PMC6'', 0xC7), (''IA32_PMC7'', 0xC8),
   (''IA32_PERFEVTSEL0'', 0x186), (''IA32_PERFEVTSEL1'', 0x187), (''IA32_PERFEVTSEL2'', 0x188),
   (''IA32_PERFEVTSEL3'', 0x189), (''IA32_PERFEVTSEL4'', 0x18A), (''IA32_PERFEVTSEL5'', 0x18B),
   (''IA32_PERFEVTSEL6'', 0x18C), (''IA32_PERFEVTSEL7'', 0x18D), (''MSR_PCU_PMON_EVNTSEL0'', 0xC30),
   (''MSR_PCU_PMON_EVNTSEL1'', 0xC31), (''MSR_PCU_PMON_EVNTSEL2'', 0xC32), (''MSR_PCU_PMON_EVNTSEL3'', 0xC33),
   (''MSR_PCU_PMON_CTR0'', 0xC36), (''MSR_PCU_PMON_CTR1'', 0xC37), (''MSR_PCU_PMON_CTR2'', 0xC38),
   (''MSR_PCU_PMON_CTR3'', 0xC39)]"

definition boxes_2D :: "macro list" where [header_defs]:
  "boxes_2D = [
   (''MSR_C0_PMON_BOX_CTL'', 0xD04), (''MSR_C0_PMON_EVNTSEL0'', 0xD10), (''MSR_C0_PMON_EVNTSEL1'', 0xD11),
   (''MSR_C0_PMON_EVNTSEL2'', 0xD12), (''MSR_C0_PMON_EVNTSEL3'', 0xD13), (''MSR_C0_BOX_FILTER'', 0xD14),
   (''MSR_C0_PMON_CTR0'', 0xD16), (''MSR_C0_PMON_CTR1'', 0xD17), (''MSR_C0_PMON_CTR2'', 0xD18),
   (''MSR_C0_PMON_CTR3'', 0xD19), (''MSR_C1_PMON_BOX_CTL'', 0xD24), (''MSR_C1_PMON_EVNTSEL0'', 0xD30),
   (''MSR_C1_PMON_EVNTSEL1'', 0xD31), (''MSR_C1_PMON_EVNTSEL2'', 0xD32), (''MSR_C1_PMON_EVNTSEL3'', 0xD33),
   (''MSR_C1_BOX_FILTER'', 0xD34), (''MSR_C1_PMON_CTR0'', 0xD36), (''MSR_C1_PMON_CTR1'', 0xD37),
   (''MSR_C1_PMON_CTR2'', 0xD38), (''MSR_C1_PMON_CTR3'', 0xD39), (''MSR_C2_PMON_BOX_CTL'', 0xD44),
   (''MSR_C2_PMON_EVNTSEL0'', 0xD50), (''MSR_C2_PMON_EVNTSEL1'', 0xD51), (''MSR_C2_PMON_EVNTSEL2'', 0xD52),
   (''MSR_C2_PMON_EVNTSEL3'', 0xD53), (''MSR_C2_BOX_FILTER'', 0xD54), (''MSR_C2_PMON_CTR0'', 0xD56),
   (''MSR_C2_PMON_CTR1'', 0xD57), (''MSR_C2_PMON_CTR2'', 0xD58), (''MSR_C2_PMON_CTR3'', 0xD59),
   (''MSR_C3_PMON_BOX_CTL'', 0xD64), (''MSR_C3_PMON_EVNTSEL0'', 0xD70), (''MSR_C3_PMON_EVNTSEL1'', 0xD71),
   (''MSR_C3_PMON_EVNTSEL2'', 0xD72), (''MSR_C3_PMON_EVNTSEL3'', 0xD73), (''MSR_C3_BOX_FILTER'', 0xD74),
   (''MSR_C3_PMON_CTR0'', 0xD76), (''MSR_C3_PMON_CTR1'', 0xD77), (''MSR_C3_PMON_CTR2'', 0xD78),
   (''MSR_C3_PMON_CTR3'', 0xD79), (''MSR_C4_PMON_BOX_CTL'', 0xD84), (''MSR_C4_PMON_EVNTSEL0'', 0xD90),
   (''MSR_C4_PMON_EVNTSEL1'', 0xD91), (''MSR_C4_PMON_EVNTSEL2'', 0xD92), (''MSR_C4_PMON_EVNTSEL3'', 0xD93),
   (''MSR_C4_BOX_FILTER'', 0xD94), (''MSR_C4_PMON_CTR0'', 0xD96), (''MSR_C4_PMON_CTR1'', 0xD97),
   (''MSR_C4_PMON_CTR2'', 0xD98), (''MSR_C4_PMON_CTR3'', 0xD99), (''MSR_C5_PMON_BOX_CTL'', 0xDA4),
   (''MSR_C5_PMON_EVNTSEL0'', 0xDB0), (''MSR_C5_PMON_EVNTSEL1'', 0xDB1), (''MSR_C5_PMON_EVNTSEL2'', 0xDB2),
   (''MSR_C5_PMON_EVNTSEL3'', 0xDB3), (''MSR_C5_BOX_FILTER'', 0xDB4), (''MSR_C5_PMON_CTR0'', 0xDB6),
   (''MSR_C5_PMON_CTR1'', 0xDB7), (''MSR_C5_PMON_CTR2'', 0xDB8), (''MSR_C5_PMON_CTR3'', 0xDB9),
   (''MSR_C6_PMON_BOX_CTL'', 0xDC4), (''MSR_C6_PMON_EVNTSEL0'', 0xDD0), (''MSR_C6_PMON_EVNTSEL1'', 0xDD1),
   (''MSR_C6_PMON_EVNTSEL2'', 0xDD2), (''MSR_C6_PMON_EVNTSEL3'', 0xDD3), (''MSR_C6_BOX_FILTER'', 0xDD4),
   (''MSR_C6_PMON_CTR0'', 0xDD6), (''MSR_C6_PMON_CTR1'', 0xDD7), (''MSR_C6_PMON_CTR2'', 0xDD8),
   (''MSR_C6_PMON_CTR3'', 0xDD9), (''MSR_C7_PMON_BOX_CTL'', 0xDE4), (''MSR_C7_PMON_EVNTSEL0'', 0xDF0),
   (''MSR_C7_PMON_EVNTSEL1'', 0xDF1), (''MSR_C7_PMON_EVNTSEL2'', 0xDF2), (''MSR_C7_PMON_EVNTSEL3'', 0xDF3),
   (''MSR_C7_BOX_FILTER'', 0xDF4), (''MSR_C7_PMON_CTR0'', 0xDF6), (''MSR_C7_PMON_CTR1'', 0xDF7),
   (''MSR_C7_PMON_CTR2'', 0xDF8), (''MSR_C7_PMON_CTR3'', 0xDF9)]"

definition misc_2D :: "macro list" where [header_defs]:
  "misc_2D = [
   (''IA32_MISC_ENABLE'', 0x1A0), (''MSR_PKG_C2_RESIDENCY'', 0x60D), (''MSR_PKG_C3_RESIDENCY'', 0x3F8),
   (''MSR_PKG_C6_RESIDENCY'', 0x3F9), (''MSR_PKG_C7_RESIDENCY'', 0x3FA), (''MSR_CORE_C3_RESIDENCY'', 0x3FC),
   (''MSR_CORE_C6_RESIDENCY'', 0x3FD), (''MSR_CORE_C7_RESIDENCY'', 0x3FE)]"

definition rapl_2D :: "macro list" where [header_defs]:
  "rapl_2D = [
   (''MSR_RAPL_POWER_UNIT'', 0x606), (''MSR_PKG_POWER_LIMIT'', 0x610), (''MSR_PKG_ENERGY_STATUS'', 0x611),
   (''MSR_PKG_POWER_INFO'', 0x614), (''MSR_PKG_PERF_STATUS'', 0x613), (''MSR_DRAM_POWER_LIMIT'', 0x618),
   (''MSR_DRAM_ENERGY_STATUS'', 0x619), (''MSR_DRAM_PERF_STATUS'', 0x61B), (''MSR_DRAM_POWER_INFO'', 0x61C)]"

definition thermal_2D :: "macro list" where [header_defs]:
  "thermal_2D = [
   (''IA32_THERM_STATUS'', 0x19C), (''MSR_THERM2_CTL'', 0x19D), (''IA32_THERM_INTERRUPT'', 0x19B),
   (''IA32_PACKAGE_THERM_STATUS'', 0x1B1), (''IA32_PACKAGE_THERM_INTERRUPT'', 0x1B2),
   (''MSR_TEMPERATURE_TARGET'', 0x1A2)]"

definition turbo_2D :: "macro list" where [header_defs]:
  "turbo_2D = [
   (''IA32_MISC_ENABLE'', 0x1A0), (''IA32_PERF_CTL'', 0x199)]"

definition imc_2D :: "macro list" where [header_defs]:
  "imc_2D = [
   (''IMC0_DEV'', 16), (''IMC1_DEV'', 0), (''IMC_CH0_FUNC'', 0), (''IMC_CH1_FUNC'', 1), (''IMC_CH2_FUNC'', 4),
   (''IMC_CH3_FUNC'', 5), (''CSR_PMONCTRCFG0'', 0xD8), (''CSR_PMONCTRCFG1'', 0xDC), (''CSR_PMONCTRCFG2'', 0xE0),
   (''CSR_PMONCTRCFG3'', 0xE4), (''CSR_PMONCTR0'', 0xA0), (''CSR_PMONCTR1'', 0xA8), (''CSR_PMONCTR2'', 0xB0),
   (''CSR_PMONCTR3'', 0xB8), (''CSR_PMONUNITCTRL'', 0xF4), (''CSR_PMONUNITSTAT'', 0xF8)]"

definition events_2D :: "macro list" where [header_defs]:
  "events_2D = [
   (''EVT_DCLOCKTICKS'', 0x00), (''EVT_ACT_COUNT'', 0x01), (''EVT_PRE_COUNT'', 0x02), (''EVT_CAS_COUNT'', 0x04),
   (''EVT_DRAM_REFRESH'', 0x05), (''EVT_DRAM_PRE_ALL'', 0x06), (''EVT_MAJOR_MODES'', 0x07),
   (''EVT_PREEMPTION'', 0x08), (''EVT_ECC_CORRECTABLE_ERRORS'', 0x09), (''EVT_RPQ_INSERTS'', 0x10),
   (''EVT_RPQ_CYCLES_NE'', 0x11), (''EVT_WPQ_INSERTS'', 0x20), (''EVT_WPQ_CYCLES_NE'', 0x21),
   (''EVT_WPQ_CYCLES_FULL'', 0x22), (''EVT_WPQ_READ_HIT'', 0x23), (''EVT_WPQ_WRITE_HIT'', 0x24),
   (''EVT_POWER_THROTTLE_CYCLES'', 0x41), (''EVT_POWER_PCU_THROTTLING'', 0x42), (''EVT_POWER_SELF_REFRESH'', 0x43),
   (''EVT_POWER_CKE_CYCLES'', 0x83), (''EVT_POWER_CHANNEL_DLLOFF'', 0x84), (''EVT_POWER_CHANNEL_PD'', 0x85),
   (''EVT_POWER_CRITICAL_THROTTLE_CYCLES'', 0x86), (''UMASK_CAS_RD_REG'', 0x1), (''UMASK_CAS_RD_UNDERFILL'', 0x2),
   (''UMASK_CAS_RD'', 0x3), (''UMASK_CAS_WR_WMM'', 0x4), (''UMASK_CAS_WR_RMM'', 0x8), (''UMASK_CAS_WR'', 0xC),
   (''UMASK_CAS_ALL'', 0xF), (''UMASK_ACT_COUNT_RD'', 0x1), (''UMASK_ACT_COUNT_WR'', 0x2),
   (''UMASK_ACT_COUNT_BYP'', 0x8), (''UMASK_BYP_CMDS_ACT'', 0x1), (''UMASK_BYP_CMDS_CAS'', 0x2),
   (''UMASK_BYP_CMDS_PRE'', 0x4), (''UMASK_PRE_PAGE_MISS'', 0x1), (''UMASK_PRE_PAGE_CLOSE'', 0x2),
   (''UMASK_PRE_RD'', 0x4), (''UMASK_PRE_WR'', 0x8), (''UMASK_PRE_BYP'', 0x16)]"

definition Intel2D :: "macro list" where [header_defs]:
  "Intel2D = arch_2D @ clocks_2D @ counters_2D @ boxes_2D @ misc_2D @ rapl_2D @ thermal_2D @ turbo_2D @ imc_2D @ events_2D"

section \<open>Intel3E.h\<close>

definition arch_3E :: "macro list" where [header_defs]:
  "arch_3E = [
   (''COMPILED_VEND'', 0x8086), (''COMPILED_ARCH'', 0x3E)]"

definition clocks_3E :: "macro list" where [header_defs]:
  "clocks_3E = [
   (''IA32_MPERF'', 0xE7), (''IA32_APERF'', 0xE8), (''IA32_TIME_STAMP_COUNTER'', 0x10),
   (''IA32_CLOCK_MODULATION'', 0x19A), (''IA32_PERF_STATUS'', 0x198), (''IA32_PERF_CTL'', 0x199)]"

definition counters_3E :: "macro list" where [header_defs]:
  "counters_3E = [
   (''IA32_FIXED_CTR_CTRL'', 0x38D), (''IA32_PERF_GLOBAL_CTRL'', 0x38F), (''IA32_PERF_GLOBAL_STATUS'', 0x38E),
   (''IA32_PERF_GLOBAL_OVF_CTRL'', 0x390), (''IA32_FIXED_CTR0'', 0x309), (''IA32_FIXED_CTR1'', 0x30A),
   (''IA32_FIXED_CTR2'', 0x30B), (''IA32_PMC0'', 0xC1), (''IA32_PMC1'', 0xC2), (''IA32_PMC2'', 0xC3),
   (''IA32_PMC3'', 0xC4), (''IA32_PMC4'', 0xC5), (''IA32_PMC5'', 0xC6), (''IA32_PMC6'', 0xC7), (''IA32_PMC7'', 0xC8),
   (''IA32_PERFEVTSEL0'', 0x186), (''IA32_PERFEVTSEL1'', 0x187), (''IA32_PERFEVTSEL2'', 0x188),
   (''IA32_PERFEVTSEL3'', 0x189), (''IA32_PERFEVTSEL4'', 0x18A), (''IA32_PERFEVTSEL5'', 0x18B),
   (''IA32_PERFEVTSEL6'', 0x18C), (''IA32_PERFEVTSEL7'', 0x18D), (''MSR_PCU_PMON_EVNTSEL0'', 0xC30),
   (''MSR_PCU_PMON_EVNTSEL1'', 0xC31), (''MSR_PCU_PMON_EVNTSEL2'', 0xC32), (''MSR_PCU_PMON_EVNTSEL3'', 0xC33),
   (''MSR_PCU_PMON_CTR0'', 0xC36), (''MSR_PCU_PMON_CTR1'', 0xC37), (''MSR_PCU_PMON_CTR2'', 0xC38),
   (''MSR_PCU_PMON_CTR3'', 0xC39)]"

definition boxes_3E :: "macro list" where [header_defs]:
  "boxes_3E = [
   (''MSR_C0_PMON_BOX_CTL'', 0xD04), (''MSR_C0_PMON_EVNTSEL0'', 0xD10), (''MSR_C0_PMON_EVNTSEL1'', 0xD11),
   (''MSR_C0_PMON_EVNTSEL2'', 0xD12), (''MSR_C0_PMON_EVNTSEL3'', 0xD13), (''MSR_C0_BOX_FILTER'', 0xD14),
   (''MSR_C0_PMON_CTR0'', 0xD16), (''MSR_C0_PMON_CTR1'', 0xD17), (''MSR_C0_PMON_CTR2'', 0xD18),
   (''MSR_C0_PMON_CTR3'', 0xD19), (''MSR_C0_BOX_FILTER1'', 0xD1A), (''MSR_C1_PMON_BOX_CTL'', 0xD24),
   (''MSR_C1_PMON_EVNTSEL0'', 0xD30), (''MSR_C1_PMON_EVNTSEL1'', 0xD31), (''MSR_C1_PMON_EVNTSEL2'', 0xD32),
   (''MSR_C1_PMON_EVNTSEL3'', 0xD33), (''MSR_C1_BOX_FILTER'', 0xD34), (''MSR_C1_PMON_CTR0'', 0xD36),
   (''MSR_C1_PMON_CTR1'', 0xD37), (''MSR_C1_PMON_CTR2'', 0xD38), (''MSR_C1_PMON_CTR3'', 0xD39),
   (''MSR_C1_BOX_FILTER1'', 0xD3A), (''MSR_C2_PMON_BOX_CTL'', 0xD44), (''MSR_C2_PMON_EVNTSEL0'', 0xD50),
   (''MSR_C2_PMON_EVNTSEL1'', 0xD51), (''MSR_C2_PMON_EVNTSEL2'', 0xD52), (''MSR_C2_PMON_EVNTSEL3'', 0xD53),
   (''MSR_C2_BOX_FILTER'', 0xD54), (''MSR_C2_PMON_CTR0'', 0xD56), (''MSR_C2_PMON_CTR1'', 0xD57),
   (''MSR_C2_PMON_CTR2'', 0xD58), (''MSR_C2_PMON_CTR3'', 0xD59), (''MSR_C2_BOX_FILTER1'', 0xD5A),
   (''MSR_C3_PMON_BOX_CTL'', 0xD64), (''MSR_C3_PMON_EVNTSEL0'', 0xD70), (''MSR_C3_PMON_EVNTSEL1'', 0xD71),
   (''MSR_C3_PMON_EVNTSEL2'', 0xD72), (''MSR_C3_PMON_EVNTSEL3'', 0xD73), (''MSR_C3_BOX_FILTER'', 0xD74),
   (''MSR_C3_PMON_CTR0'', 0xD76), (''MSR_C3_PMON_CTR1'', 0xD77), (''MSR_C3_PMON_CTR2'', 0xD78),
   (''MSR_C3_PMON_CTR3'', 0xD79), (''MSR_C3_BOX_FILTER1'', 0xD7A), (''MSR_C4_PMON_BOX_CTL'', 0xD84),
   (''MSR_C4_PMON_EVNTSEL0'', 0xD90), (''MSR_C4_PMON_EVNTSEL1'', 0xD91), (''MSR_C4_PMON_EVNTSEL2'', 0xD92),
   (''MSR_C4_PMON_EVNTSEL3'', 0xD93), (''MSR_C4_BOX_FILTER'', 0xD94), (''MSR_C4_PMON_CTR0'', 0xD96),
   (''MSR_C4_PMON_CTR1'', 0xD97), (''MSR_C4_PMON_CTR2'', 0xD98), (''MSR_C4_PMON_CTR3'', 0xD99),
   (''MSR_C4_BOX_FILTER1'', 0xD9A), (''MSR_C5_PMON_BOX_CTL'', 0xDA4), (''MSR_C5_PMON_EVNTSEL0'', 0xDB0),
   (''MSR_C5_PMON_EVNTSEL1'', 0xDB1), (''MSR_C5_PMON_EVNTSEL2'', 0xDB2), (''MSR_C5_PMON_EVNTSEL3'', 0xDB3),
   (''MSR_C5_BOX_FILTER'', 0xDB4), (''MSR_C5_PMON_CTR0'', 0xDB6), (''MSR_C5_PMON_CTR1'', 0xDB7),
   (''MSR_C5_PMON_CTR2'', 0xDB8), (''MSR_C5_PMON_CTR3'', 0xDB9), (''MSR_C5_BOX_FILTER1'', 0xDBA),
   (''MSR_C6_PMON_BOX_CTL'', 0xDC4), (''MSR_C6_PMON_EVNTSEL0'', 0xDD0), (''MSR_C6_PMON_EVNTSEL1'', 0xDD1),
   (''MSR_C6_PMON_EVNTSEL2'', 0xDD2), (''MSR_C6_PMON_EVNTSEL3'', 0xDD3), (''MSR_C6_BOX_FILTER'', 0xDD4),
   (''MSR_C6_PMON_CTR0'', 0xDD6), (''MSR_C6_PMON_CTR1'', 0xDD7), (''MSR_C6_PMON_CTR2'', 0xDD8),
   (''MSR_C6_PMON_CTR3'', 0xDD9), (''MSR_C6_BOX_FILTER1'', 0xDDA), (''MSR_C7_PMON_BOX_CTL'', 0xDE4),
   (''MSR_C7_PMON_EVNTSEL0'', 0xDF0), (''MSR_C7_PMON_EVNTSEL1'', 0xDF1), (''MSR_C7_PMON_EVNTSEL2'', 0xDF2),
   (''MSR_C7_PMON_EVNTSEL3'', 0xDF3), (''MSR_C7_BOX_FILTER'', 0xDF4), (''MSR_C7_PMON_CTR0'', 0xDF6),
   (''MSR_C7_PMON_CTR1'', 0xDF7), (''MSR_C7_PMON_CTR2'', 0xDF8), (''MSR_C7_PMON_CTR3'', 0xDF9),
   (''MSR_C7_BOX_FILTER1'', 0xDFA), (''MSR_C8_PMON_BOX_CTL'', 0xE04), (''MSR_C8_PMON_EVNTSEL0'', 0xE10),
   (''MSR_C8_PMON_EVNTSEL1'', 0xE11), (''MSR_C8_PMON_EVNTSEL2'', 0xE12), (''MSR_C8_PMON_EVNTSEL3'', 0xE13),
   (''MSR_C8_BOX_FILTER'', 0xE14), (''MSR_C8_PMON_CTR0'', 0xE16), (''MSR_C8_PMON_CTR1'', 0xE17),
   (''MSR_C8_PMON_CTR2'', 0xE18), (''MSR_C8_PMON_CTR3'', 0xE19), (''MSR_C8_BOX_FILTER1'', 0xE1A),
   (''MSR_C9_PMON_BOX_CTL'', 0xE24), (''MSR_C9_PMON_EVNTSEL0'', 0xE30), (''MSR_C9_PMON_EVNTSEL1'', 0xE31),
   (''MSR_C9_PMON_EVNTSEL2'', 0xE32), (''MSR_C9_PMON_EVNTSEL3'', 0xE33), (''MSR_C9_BOX_FILTER'', 0xE34),
   (''MSR_C9_PMON_CTR0'', 0xE36), (''MSR_C9_PMON_CTR1'', 0xE37), (''MSR_C9_PMON_CTR2'', 0xE38),
   (''MSR_C9_PMON_CTR3'', 0xE39), (''MSR_C9_BOX_FILTER1'', 0xE3A), (''MSR_C10_PMON_BOX_CTL'', 0xE44),
   (''MSR_C10_PMON_EVNTSEL0'', 0xE50), (''MSR_C10_PMON_EVNTSEL1'', 0xE51), (''MSR_C10_PMON_EVNTSEL2'', 0xE52),
   (''MSR_C10_PMON_EVNTSEL3'', 0xE53), (''MSR_C10_BOX_FILTER'', 0xE54), (''MSR_C10_PMON_CTR0'', 0xE56),
   (''MSR_C10_PMON_CTR1'', 0xE57), (''MSR_C10_PMON_CTR2'', 0xE58), (''MSR_C10_PMON_CTR3'', 0xE59),
   (''MSR_C10_BOX_FILTER1'', 0xE5A), (''MSR_C11_PMON_BOX_CTL'', 0xE64), (''MSR_C11_PMON_EVNTSEL0'', 0xE70),
   (''MSR_C11_PMON_EVNTSEL1'', 0xE71), (''MSR_C11_PMON_EVNTSEL2'', 0xE72), (''MSR_C11_PMON_EVNTSEL3'', 0xE73),
   (''MSR_C11_BOX_FILTER'', 0xE74), (''MSR_C11_PMON_CTR0'', 0xE76), (''MSR_C11_PMON_CTR1'', 0xE77),
   (''MSR_C11_PMON_CTR2'', 0xE78), (''MSR_C11_PMON_CTR3'', 0xE79), (''MSR_C11_BOX_FILTER1'', 0xE7A),
   (''MSR_C12_PMON_BOX_CTL'', 0xE84), (''MSR_C12_PMON_EVNTSEL0'', 0xE90), (''MSR_C12_PMON_EVNTSEL1'', 0xE91),
   (''MSR_C12_PMON_EVNTSEL2'', 0xE92), (''MSR_C12_PMON_EVNTSEL3'', 0xE93), (''MSR_C12_BOX_FILTER'', 0xE94),
   (''MSR_C12_PMON_CTR0'', 0xE96), (''MSR_C12_PMON_CTR1'', 0xE97), (''MSR_C12_PMON_CTR2'', 0xE98),
   (''MSR_C12_PMON_CTR3'', 0xE99), (''MSR_C12_BOX_FILTER1'', 0xE9A), (''MSR_C13_PMON_BOX_CTL'', 0xEA4),
   (''MSR_C13_PMON_EVNTSEL0'', 0xEB0), (''MSR_C13_PMON_EVNTSEL1'', 0xEB1), (''MSR_C13_PMON_EVNTSEL2'', 0xEB2),
   (''MSR_C13_PMON_EVNTSEL3'', 0xEB3), (''MSR_C13_BOX_FILTER'', 0xEB4), (''MSR_C13_PMON_CTR0'', 0xEB6),
   (''MSR_C13_PMON_CTR1'', 0xEB7), (''MSR_C13_PMON_CTR2'', 0xEB8), (''MSR_C13_PMON_CTR3'', 0xEB9),
   (''MSR_C13_BOX_FILTER1'', 0xEBA), (''MSR_C14_PMON_BOX_CTL'', 0xEC4), (''MSR_C14_PMON_EVNTSEL0'', 0xED0),
   (''MSR_C14_PMON_EVNTSEL1'', 0xED1), (''MSR_C14_PMON_EVNTSEL2'', 0xED2), (''MSR_C14_PMON_EVNTSEL3'', 0xED3),
   (''MSR_C14_BOX_FILTER'', 0xED4), (''MSR_C14_PMON_CTR0'', 0xED6), (''MSR_C14_PMON_CTR1'', 0xED7),
   (''MSR_C14_PMON_CTR2'', 0xED8), (''MSR_C14_PMON_CTR3'', 0xED9), (''MSR_C14_BOX_FILTER1'', 0xEDA)]"

definition misc_3E :: "macro list" where [header_defs]:
  "misc_3E = [
   (''IA32_MISC_ENABLE'', 0x1A0), (''MSR_PKG_C2_RESIDENCY'', 0x60D), (''MSR_PKG_C3_RESIDENCY'', 0x3F8),
   (''MSR_PKG_C6_RESIDENCY'', 0x3F9), (''MSR_PKG_C7_RESIDENCY'', 0x3FA), (''MSR_CORE_C3_RESIDENCY'', 0x3FC),
   (''MSR_CORE_C6_RESIDENCY'', 0x3FD), (''MSR_CORE_C7_RESIDENCY'', 0x3FE)]"

definition rapl_3E :: "macro list" where [header_defs]:
  "rapl_3E = [
   (''MSR_RAPL_POWER_UNIT'', 0x606), (''MSR_PKG_POWER_LIMIT'', 0x610), (''MSR_PKG_ENERGY_STATUS'', 0x611),
   (''MSR_PKG_POWER_INFO'', 0x614), (''MSR_PKG_PERF_STATUS'', 0x613), (''MSR_DRAM_POWER_LIMIT'', 0x618),
   (''MSR_DRAM_ENERGY_STATUS'', 0x619), (''MSR_DRAM_PERF_STATUS'', 0x61B), (''MSR_DRAM_POWER_INFO'', 0x61C)]"

definition thermal_3E :: "macro list" where [header_defs]:
  "thermal_3E = [
   (''IA32_THERM_STATUS'', 0x19C), (''MSR_THERM2_CTL'', 0x19D), (''IA32_THERM_INTERRUPT'', 0x19B),
   (''IA32_PACKAGE_THERM_STATUS'', 0x1B1), (''IA32_PACKAGE_THERM_INTERRUPT'', 0x1B2),
   (''MSR_TEMPERATURE_TARGET'', 0x1A2)]"

definition turbo_3E :: "macro list" where [header_defs]:
  "turbo_3E = [
   (''IA32_MISC_ENABLE'', 0x1A0), (''IA32_PERF_CTL'', 0x199), (''MSR_TURBO_ACTIVATION_RATIO'', 0x64C),
   (''MSR_TURBO_RATIO_LIMIT'', 0x1AD), (''MSR_TURBO_RATIO_LIMIT1'', 0x1AE)]"

definition imc_3E :: "macro list" where [header_defs]:
  "imc_3E = [
   (''IMC0_DEV'', 16), (''IMC1_DEV'', 30), (''IMC_CH0_FUNC'', 4), (''IMC_CH1_FUNC'', 5), (''IMC_CH2_FUNC'', 0),
   (''IMC_CH3_FUNC'', 1), (''CSR_PMONCTRCFG0'', 0xD8), (''CSR_PMONCTRCFG1'', 0xDC), (''CSR_PMONCTRCFG2'', 0xE0),
   (''CSR_PMONCTRCFG3'', 0xE8), (''CSR_PMONCTR0'', 0xA0), (''CSR_PMONCTR1'', 0xA8), (''CSR_PMONCTR2'', 0xB0),
   (''CSR_PMONCTR3'', 0xB8), (''CSR_PMONUNITCTRL'', 0xF4), (''CSR_PMONUNITSTAT'', 0xF8)]"

definition events_3E :: "macro list" where [header_defs]:
  "events_3E = [
   (''EVT_DCLOCKTICKS'', 0x00), (''EVT_ACT_COUNT'', 0x01), (''EVT_PRE_COUNT'', 0x02), (''EVT_CAS_COUNT'', 0x04),
   (''EVT_DRAM_REFRESH'', 0x05), (''EVT_DRAM_PRE_ALL'', 0x06), (''EVT_MAJOR_MODES'', 0x07),
   (''EVT_PREEMPTION'', 0x08), (''EVT_ECC_CORRECTABLE_ERRORS'', 0x09), (''EVT_RPQ_INSERTS'', 0x10),
   (''EVT_RPQ_CYCLES_NE'', 0x11), (''EVT_WPQ_INSERTS'', 0x20), (''EVT_WPQ_CYCLES_NE'', 0x21),
   (''EVT_WPQ_CYCLES_FULL'', 0x22), (''EVT_WPQ_READ_HIT'', 0x23), (''EVT_WPQ_WRITE_HIT'', 0x24),
   (''EVT_POWER_THROTTLE_CYCLES'', 0x41), (''EVT_POWER_PCU_THROTTLING'', 0x42), (''EVT_POWER_SELF_REFRESH'', 0x43),
   (''EVT_POWER_CKE_CYCLES'', 0x83), (''EVT_POWER_CHANNEL_DLLOFF'', 0x84), (''EVT_POWER_CHANNEL_PD'', 0x85),
   (''EVT_POWER_CRITICAL_THROTTLE_CYCLES'', 0x86), (''EVT_VMSE_WR_PUSH'', 0x90),
   (''EVT_VMSE_MXB_WR_OCCUPANCY'', 0x91), (''EVT_RD_CAS_PRIO'', 0xA0), (''EVT_BYP_CMDS'', 0xA1),
   (''EVT_RD_CAS_RANK0'', 0xB0), (''EVT_RD_CAS_RANK1'', 0xB1), (''EVT_RD_CAS_RANK2'', 0xB2),
   (''EVT_RD_CAS_RANK3'', 0xB3), (''EVT_RD_CAS_RANK4'', 0xB4), (''EVT_RD_CAS_RANK5'', 0xB5),
   (''EVT_RD_CAS_RANK6'', 0xB6), (''EVT_RD_CAS_RANK7'', 0xB7), (''EVT_WR_CAS_RANK0'', 0xB8),
   (''EVT_WR_CAS_RANK1'', 0xB9), (''EVT_WR_CAS_RANK2'', 0xBA), (''EVT_WR_CAS_RANK3'', 0xBB),
   (''EVT_WR_CAS_RANK4'', 0xBC), (''EVT_WR_CAS_RANK5'', 0xBD), (''EVT_WR_CAS_RANK6'', 0xBE),
   (''EVT_WR_CAS_RANK7'', 0xBF), (''EVT_WMM_TO_RMM'', 0xC0), (''EVT_WRONG_MM'', 0xC1), (''UMASK_CAS_RD_REG'', 0x1),
   (''UMASK_CAS_RD_UNDERFILL'', 0x2), (''UMASK_CAS_RD'', 0x3), (''UMASK_CAS_WR_WMM'', 0x4),
   (''UMASK_CAS_WR_RMM'', 0x8), (''UMASK_CAS_WR'', 0xC), (''UMASK_CAS_ALL'', 0xF), (''UMASK_CAS_RD_WMM'', 0x16),
   (''UMASK_CAS_RD_RMM'', 0x32), (''UMASK_ACT_COUNT_RD'', 0x1), (''UMASK_ACT_COUNT_WR'', 0x2),
   (''UMASK_ACT_COUNT_BYP'', 0x8), (''UMASK_BYP_CMDS_ACT'', 0x1), (''UMASK_BYP_CMDS_CAS'', 0x2),
   (''UMASK_BYP_CMDS_PRE'', 0x4), (''UMASK_PRE_PAGE_MISS'', 0x1), (''UMASK_PRE_PAGE_CLOSE'', 0x2),
   (''UMASK_PRE_RD'', 0x4), (''UMASK_PRE_WR'', 0x8), (''UMASK_PRE_BYP'', 0x16)]"

definition Intel3E :: "macro list" where [header_defs]:
  "Intel3E = arch_3E @ clocks_3E @ counters_3E @ boxes_3E @ misc_3E @ rapl_3E @ thermal_3E @ turbo_3E @ imc_3E @ events_3E"

section \<open>Intel3F.h\<close>

definition arch_3F :: "macro list" where [header_defs]:
  "arch_3F = [
   (''COMPILED_VEND'', 0x8086), (''COMPILED_ARCH'', 0x3F)]"

definition clocks_3F :: "macro list" where [header_defs]:
  "clocks_3F = [
   (''IA32_MPERF'', 0xE7), (''IA32_APERF'', 0xE8), (''IA32_TIME_STAMP_COUNTER'', 0x10),
   (''IA32_CLOCK_MODULATION'', 0x19A), (''IA32_PERF_STATUS'', 0x198), (''IA32_PERF_CTL'', 0x199)]"

definition counters_3F :: "macro list" where [header_defs]:
  "counters_3F = [
   (''IA32_FIXED_CTR_CTRL'', 0x38D), (''IA32_PERF_GLOBAL_CTRL'', 0x38F), (''IA32_PERF_GLOBAL_STATUS'', 0x38E),
   (''IA32_PERF_GLOBAL_OVF_CTRL'', 0x390), (''IA32_FIXED_CTR0'', 0x309), (''IA32_FIXED_CTR1'', 0x30A),
   (''IA32_FIXED_CTR2'', 0x30B), (''IA32_PMC0'', 0xC1), (''IA32_PMC1'', 0xC2), (''IA32_PMC2'', 0xC3),
   (''IA32_PMC3'', 0xC4), (''IA32_PMC4'', 0xC5), (''IA32_PMC5'', 0xC6), (''IA32_PMC6'', 0xC7), (''IA32_PMC7'', 0xC8),
   (''IA32_PERFEVTSEL0'', 0x186), (''IA32_PERFEVTSEL1'', 0x187), (''IA32_PERFEVTSEL2'', 0x188),
   (''IA32_PERFEVTSEL3'', 0x189), (''IA32_PERFEVTSEL4'', 0x18A), (''IA32_PERFEVTSEL5'', 0x18B),
   (''IA32_PERFEVTSEL6'', 0x18C), (''IA32_PERFEVTSEL7'', 0x18D), (''MSR_PCU_PMON_EVNTSEL0'', 0x711),
   (''MSR_PCU_PMON_EVNTSEL1'', 0x712), (''MSR_PCU_PMON_EVNTSEL2'', 0x713), (''MSR_PCU_PMON_EVNTSEL3'', 0x714),
   (''MSR_PCU_PMON_CTR0'', 0x717), (''MSR_PCU_PMON_CTR1'', 0x718), (''MSR_PCU_PMON_CTR2'', 0x719),
   (''MSR_PCU_PMON_CTR3'', 0x71A)]"

definition boxes_3F :: "macro list" where [header_defs]:
  "boxes_3F = [
   (''MSR_C0_PMON_BOX_CTL'', 0xE00), (''MSR_C0_PMON_EVNTSEL0'', 0xE01), (''MSR_C0_PMON_EVNTSEL1'', 0xE02),
   (''MSR_C0_PMON_EVNTSEL2'', 0xE03), (''MSR_C0_PMON_EVNTSEL3'', 0xE04), (''MSR_C0_BOX_FILTER'', 0xE05),
   (''MSR_C0_BOX_FILTER1'', 0xE06), (''MSR_C0_BOX_STATUS'', 0xE07), (''MSR_C0_PMON_CTR0'', 0xE08),
   (''MSR_C0_PMON_CTR1'', 0xE09), (''MSR_C0_PMON_CTR2'', 0xE0A), (''MSR_C0_PMON_CTR3'', 0xE0B),
   (''MSR_C1_PMON_BOX_CTL'', 0xE10), (''MSR_C1_PMON_EVNTSEL0'', 0xE11), (''MSR_C1_PMON_EVNTSEL1'', 0xE12),
   (''MSR_C1_PMON_EVNTSEL2'', 0xE13), (''MSR_C1_PMON_EVNTSEL3'', 0xE14), (''MSR_C1_BOX_FILTER'', 0xE15),
   (''MSR_C1_BOX_FILTER1'', 0xE16), (''MSR_C1_BOX_STATUS'', 0xE17), (''MSR_C1_PMON_CTR0'', 0xE18),
   (''MSR_C1_PMON_CTR1'', 0xE19), (''MSR_C1_PMON_CTR2'', 0xE1A), (''MSR_C1_PMON_CTR3'', 0xE1B),
   (''MSR_C2_PMON_BOX_CTL'', 0xE20), (''MSR_C2_PMON_EVNTSEL0'', 0xE21), (''MSR_C2_PMON_EVNTSEL1'', 0xE22),
   (''MSR_C2_PMON_EVNTSEL2'', 0xE23), (''MSR_C2_PMON_EVNTSEL3'', 0xE24), (''MSR_C2_BOX_FILTER'', 0xE25),
   (''MSR_C2_BOX_FILTER1'', 0xE26), (''MSR_C2_BOX_STATUS'', 0xE27), (''MSR_C2_PMON_CTR0'', 0xE28),
   (''MSR_C2_PMON_CTR1'', 0xE29), (''MSR_C2_PMON_CTR2'', 0xE2A), (''MSR_C2_PMON_CTR3'', 0xE2B),
   (''MSR_C3_PMON_BOX_CTL'', 0xE30), (''MSR_C3_PMON_EVNTSEL0'', 0xE31), (''MSR_C3_PMON_EVNTSEL1'', 0xE32),
   (''MSR_C3_PMON_EVNTSEL2'', 0xE33), (''MSR_C3_PMON_EVNTSEL3'', 0xE34), (''MSR_C3_BOX_FILTER'', 0xE35),
   (''MSR_C3_BOX_FILTER1'', 0xE36), (''MSR_C3_BOX_STATUS'', 0xE37), (''MSR_C3_PMON_CTR0'', 0xE38),
   (''MSR_C3_PMON_CTR1'', 0xE39), (''MSR_C3_PMON_CTR2'', 0xE3A), (''MSR_C3_PMON_CTR3'', 0xE3B),
   (''MSR_C4_PMON_BOX_CTL'', 0xE40), (''MSR_C4_PMON_EVNTSEL0'', 0xE41), (''MSR_C4_PMON_EVNTSEL1'', 0xE42),
   (''MSR_C4_PMON_EVNTSEL2'', 0xE43), (''MSR_C4_PMON_EVNTSEL3'', 0xE44), (''MSR_C4_BOX_FILTER'', 0xE45),
   (''MSR_C4_BOX_FILTER1'', 0xE46), (''MSR_C4_BOX_STATU'', 0xE47), (''MSR_C4_PMON_CTR0'', 0xE48),
   (''MSR_C4_PMON_CTR1'', 0xE49), (''MSR_C4_PMON_CTR2'', 0xE4A), (''MSR_C4_PMON_CTR3'', 0xE4B),
   (''MSR_C5_PMON_BOX_CTL'', 0xE50), (''MSR_C5_PMON_EVNTSEL0'', 0xE51), (''MSR_C5_PMON_EVNTSEL1'', 0xE52),
   (''MSR_C5_PMON_EVNTSEL2'', 0xE53), (''MSR_C5_PMON_EVNTSEL3'', 0xE54), (''MSR_C5_BOX_FILTER'', 0xE55),
   (''MSR_C5_BOX_FILTER1'', 0xE56), (''MSR_C5_BOX_STATU'', 0xE57), (''MSR_C5_PMON_CTR0'', 0xE58),
   (''MSR_C5_PMON_CTR1'', 0xE59), (''MSR_C5_PMON_CTR2'', 0xE5A), (''MSR_C5_PMON_CTR3'', 0xE5B),
   (''MSR_C6_PMON_BOX_CTL'', 0xE60), (''MSR_C6_PMON_EVNTSEL0'', 0xE61), (''MSR_C6_PMON_EVNTSEL1'', 0xE62),
   (''MSR_C6_PMON_EVNTSEL2'', 0xE63), (''MSR_C6_PMON_EVNTSEL3'', 0xE64), (''MSR_C6_BOX_FILTER'', 0xE65),
   (''MSR_C6_BOX_FILTER1'', 0xE66), (''MSR_C6_BOX_STATU'', 0xE67), (''MSR_C6_PMON_CTR0'', 0xE68),
   (''MSR_C6_PMON_CTR1'', 0xE69), (''MSR_C6_PMON_CTR2'', 0xE6A), (''MSR_C6_PMON_CTR3'', 0xE6B),
   (''MSR_C7_PMON_BOX_CTL'', 0xE70), (''MSR_C7_PMON_EVNTSEL0'', 0xE71), (''MSR_C7_PMON_EVNTSEL1'', 0xE72),
   (''MSR_C7_PMON_EVNTSEL2'', 0xE73), (''MSR_C7_PMON_EVNTSEL3'', 0xE74), (''MSR_C7_BOX_FILTER'', 0xE75),
   (''MSR_C7_BOX_FILTER1'', 0xE76), (''MSR_C7_BOX_STATU'', 0xE77), (''MSR_C7_PMON_CTR0'', 0xE78),
   (''MSR_C7_PMON_CTR1'', 0xE79), (''MSR_C7_PMON_CTR2'', 0xE7A), (''MSR_C7_PMON_CTR3'', 0xE7B),
   (''MSR_C8_PMON_BOX_CTL'', 0xE80), (''MSR_C8_PMON_EVNTSEL0'', 0xE81), (''MSR_C8_PMON_EVNTSEL1'', 0xE82),
   (''MSR_C8_PMON_EVNTSEL2'', 0xE83), (''MSR_C8_PMON_EVNTSEL3'', 0xE84), (''MSR_C8_BOX_FILTER'', 0xE85),
   (''MSR_C8_BOX_FILTER1'', 0xE86), (''MSR_C8_BOX_STATU'', 0xE87), (''MSR_C8_PMON_CTR0'', 0xE88),
   (''MSR_C8_PMON_CTR1'', 0xE89), (''MSR_C8_PMON_CTR2'', 0xE8A), (''MSR_C8_PMON_CTR3'', 0xE8B),
   (''MSR_C9_PMON_BOX_CTL'', 0xE90), (''MSR_C9_PMON_EVNTSEL0'', 0xE91), (''MSR_C9_PMON_EVNTSEL1'', 0xE92),
   (''MSR_C9_PMON_EVNTSEL2'', 0xE93), (''MSR_C9_PMON_EVNTSEL3'', 0xE94), (''MSR_C9_BOX_FILTER'', 0xE95),
   (''MSR_C9_BOX_FILTER1'', 0xE96), (''MSR_C9_BOX_STATU'', 0xE97), (''MSR_C9_PMON_CTR0'', 0xE98),
   (''MSR_C9_PMON_CTR1'', 0xE99), (''MSR_C9_PMON_CTR2'', 0xE9A), (''MSR_C9_PMON_CTR3'', 0xE9B),
   (''MSR_C10_PMON_BOX_CTL'', 0xEA0), (''MSR_C10_PMON_EVNTSEL0'', 0xEA1), (''MSR_C10_PMON_EVNTSEL1'', 0xEA2),
   (''MSR_C10_PMON_EVNTSEL2'', 0xEA3), (''MSR_C10_PMON_EVNTSEL3'', 0xEA4), (''MSR_C10_BOX_FILTER'', 0xEA5),
   (''MSR_C10_BOX_FILTER1'', 0xEA6), (''MSR_C10_BOX_STATU'', 0xEA7), (''MSR_C10_PMON_CTR0'', 0xEA8),
   (''MSR_C10_PMON_CTR1'', 0xEA9), (''MSR_C10_PMON_CTR2'', 0xEAA), (''MSR_C10_PMON_CTR3'', 0xEAB),
   (''MSR_C11_PMON_BOX_CTL'', 0xEB0), (''MSR_C11_PMON_EVNTSEL0'', 0xEB1), (''MSR_C11_PMON_EVNTSEL1'', 0xEB2),
   (''MSR_C11_PMON_EVNTSEL2'', 0xEB3), (''MSR_C11_PMON_EVNTSEL3'', 0xEB4), (''MSR_C11_BOX_FILTER'', 0xEB5),
   (''MSR_C11_BOX_FILTER1'', 0xEB6), (''MSR_C11_BOX_STATUS'', 0xEB7), (''MSR_C11_PMON_CTR0'', 0xEB8),
   (''MSR_C11_PMON_CTR1'', 0xEB9), (''MSR_C11_PMON_CTR2'', 0xEBA), (''MSR_C11_PMON_CTR3'', 0xEBB),
   (''MSR_C12_PMON_BOX_CTL'', 0xEC0), (''MSR_C12_PMON_EVNTSEL0'', 0xEC1), (''MSR_C12_PMON_EVNTSEL1'', 0xEC2),
   (''MSR_C12_PMON_EVNTSEL2'', 0xEC3), (''MSR_C12_PMON_EVNTSEL3'', 0xEC4), (''MSR_C12_BOX_FILTER'', 0xEC5),
   (''MSR_C12_BOX_FILTER1'', 0xEC6), (''MSR_C12_BOX_STATUS'', 0xEC7), (''MSR_C12_PMON_CTR0'', 0xEC8),
   (''MSR_C12_PMON_CTR1'', 0xEC9), (''MSR_C12_PMON_CTR2'', 0xECA), (''MSR_C12_PMON_CTR3'', 0xECB),
   (''MSR_C13_PMON_BOX_CTL'', 0xED0), (''MSR_C13_PMON_EVNTSEL0'', 0xED1), (''MSR_C13_PMON_EVNTSEL1'', 0xED2),
   (''MSR_C13_PMON_EVNTSEL2'', 0xED3), (''MSR_C13_PMON_EVNTSEL3'', 0xED4), (''MSR_C13_BOX_FILTER'', 0xED5),
   (''MSR_C13_BOX_FILTER1'', 0xED6), (''MSR_C13_BOX_STATUS'', 0xED7), (''MSR_C13_PMON_CTR0'', 0xED8),
   (''MSR_C13_PMON_CTR1'', 0xED9), (''MSR_C13_PMON_CTR2'', 0xEDA), (''MSR_C13_PMON_CTR3'', 0xEDB),
   (''MSR_C14_PMON_BOX_CTL'', 0xEE0), (''MSR_C14_PMON_EVNTSEL0'', 0xEE1), (''MSR_C14_PMON_EVNTSEL1'', 0xEE2),
   (''MSR_C14_PMON_EVNTSEL2'', 0xEE3), (''MSR_C14_PMON_EVNTSEL3'', 0xEE4), (''MSR_C14_BOX_FILTER'', 0xEE5),
   (''MSR_C14_BOX_FILTER1'', 0xEE6), (''MSR_C14_BOX_STATUS'', 0xEE7), (''MSR_C14_PMON_CTR0'', 0xEE8),
   (''MSR_C14_PMON_CTR1'', 0xEE9), (''MSR_C14_PMON_CTR2'', 0xEEA), (''MSR_C14_PMON_CTR3'', 0xEEB),
   (''MSR_C15_PMON_BOX_CTL'', 0xEF0), (''MSR_C15_PMON_EVNTSEL0'', 0xEF1), (''MSR_C15_PMON_EVNTSEL1'', 0xEF2),
   (''MSR_C15_PMON_EVNTSEL2'', 0xEF3), (''MSR_C15_PMON_EVNTSEL3'', 0xEF4), (''MSR_C15_BOX_FILTER'', 0xEF5),
   (''MSR_C15_BOX_FILTER1'', 0xEF6), (''MSR_C15_BOX_STATUS'', 0xEF7), (''MSR_C15_PMON_CTR0'', 0xEF8),
   (''MSR_C15_PMON_CTR1'', 0xEF9), (''MSR_C15_PMON_CTR2'', 0xEFA), (''MSR_C15_PMON_CTR3'', 0xEFB),
   (''MSR_C16_PMON_BOX_CTL'', 0xF00), (''MSR_C16_PMON_EVNTSEL0'', 0xF01), (''MSR_C16_PMON_EVNTSEL1'', 0xF02),
   (''MSR_C16_PMON_EVNTSEL2'', 0xF03), (''MSR_C16_PMON_EVNTSEL3'', 0xF04), (''MSR_C16_BOX_FILTER'', 0xF05),
   (''MSR_C16_BOX_FILTER1'', 0xF06), (''MSR_C16_BOX_STATUS'', 0xF07), (''MSR_C16_PMON_CTR0'', 0xF08),
   (''MSR_C16_PMON_CTR1'', 0xF09), (''MSR_C16_PMON_CTR2'', 0xF0A), (''MSR_C16_PMON_CTR3'', 0xF0B),
   (''MSR_C17_PMON_BOX_CTL'', 0xF10), (''MSR_C17_PMON_EVNTSEL0'', 0xF11), (''MSR_C17_PMON_EVNTSEL1'', 0xF12),
   (''MSR_C17_PMON_EVNTSEL2'', 0xF13), (''MSR_C17_PMON_EVNTSEL3'', 0xF14), (''MSR_C17_BOX_FILTER'', 0xF15),
   (''MSR_C17_BOX_FILTER1'', 0xF16), (''MSR_C17_BOX_STATUS'', 0xF17), (''MSR_C17_PMON_CTR0'', 0xF18),
   (''MSR_C17_PMON_CTR1'', 0xF19), (''MSR_C17_PMON_CTR2'', 0xF1A), (''MSR_C17_PMON_CTR3'', 0xF1B)]"

definition misc_3F :: "macro list" where [header_defs]:
  "misc_3F = [
   (''IA32_MISC_ENABLE'', 0x1A0), (''MSR_PKG_C2_RESIDENCY'', 0x60D), (''MSR_PKG_C3_RESIDENCY'', 0x3F8),
   (''MSR_PKG_C6_RESIDENCY'', 0x3F9), (''MSR_PKG_C7_RESIDENCY'', 0x3FA), (''MSR_CORE_C3_RESIDENCY'', 0x3FC),
   (''MSR_CORE_C6_RESIDENCY'', 0x3FD), (''MSR_CORE_C7_RESIDENCY'', 0x3FE)]"

definition rapl_3F :: "macro list" where [header_defs]:
  "rapl_3F = [
   (''MSR_RAPL_POWER_UNIT'', 0x606), (''MSR_PKG_POWER_LIMIT'', 0x610), (''MSR_PKG_ENERGY_STATUS'', 0x611),
   (''MSR_PKG_POWER_INFO'', 0x614), (''MSR_PKG_PERF_STATUS'', 0x613), (''MSR_DRAM_POWER_LIMIT'', 0x618),
   (''MSR_DRAM_ENERGY_STATUS'', 0x619), (''MSR_DRAM_PERF_STATUS'', 0x61B), (''MSR_DRAM_POWER_INFO'', 0x61C)]"

definition thermal_3F :: "macro list" where [header_defs]:
  "thermal_3F = [
   (''IA32_THERM_STATUS'', 0x19C), (''MSR_THERM2_CTL'', 0x19D), (''IA32_THERM_INTERRUPT'', 0x19B),
   (''IA32_PACKAGE_THERM_STATUS'', 0x1B1), (''IA32_PACKAGE_THERM_INTERRUPT'', 0x1B2),
   (''MSR_TEMPERATURE_TARGET'', 0x1A2)]"

definition turbo_3F :: "macro list" where [header_defs]:
  "turbo_3F = [
   (''IA32_MISC_ENABLE'', 0x1A0), (''IA32_PERF_CTL'', 0x199), (''MSR_TURBO_ACTIVATION_RATIO'', 0x64C),
   (''MSR_TURBO_RATIO_LIMIT'', 0x1AD), (''MSR_TURBO_RATIO_LIMIT1'', 0x1AE)]"

definition imc_3F :: "macro list" where [header_defs]:
  "imc_3F = [
   (''IMC0_DEV'', 20), (''IMC0_2_DEV'', 20 + 1), (''IMC1_DEV'', 23), (''IMC1_2_DEV'', 23 + 1), (''IMC_CH0_FUNC'', 0),
   (''IMC_CH1_FUNC'', 1), (''IMC_CH2_FUNC'', 0), (''IMC_CH3_FUNC'', 1), (''CSR_PMONCTRCFG0'', 0xD8),
   (''CSR_PMONCTRCFG1'', 0xDC), (''CSR_PMONCTRCFG2'', 0xE0), (''CSR_PMONCTRCFG3'', 0xE8), (''CSR_PMONCTR0'', 0xA0),
   (''CSR_PMONCTR1'', 0xA8), (''CSR_PMONCTR2'', 0xB0), (''CSR_PMONCTR3'', 0xB8), (''CSR_PMONUNITCTRL'', 0xF4),
   (''CSR_PMONUNITSTAT'', 0xF8)]"

definition events_3F :: "macro list" where [header_defs]:
  "events_3F = [
   (''EVT_DCLOCKTICKS'', 0x00), (''EVT_ACT_COUNT'', 0x01), (''EVT_PRE_COUNT'', 0x02), (''EVT_CAS_COUNT'', 0x04),
   (''EVT_DRAM_REFRESH'', 0x05), (''EVT_DRAM_PRE_ALL'', 0x06), (''EVT_MAJOR_MODES'', 0x07),
   (''EVT_PREEMPTION'', 0x08), (''EVT_ECC_CORRECTABLE_ERRORS'', 0x09), (''EVT_RPQ_INSERTS'', 0x10),
   (''EVT_RPQ_CYCLES_NE'', 0x11), (''EVT_WPQ_INSERTS'', 0x20), (''EVT_WPQ_CYCLES_NE'', 0x21),
   (''EVT_WPQ_CYCLES_FULL'', 0x22), (''EVT_WPQ_READ_HIT'', 0x23), (''EVT_WPQ_WRITE_HIT'', 0x24),
   (''EVT_POWER_THROTTLE_CYCLES'', 0x41), (''EVT_POWER_PCU_THROTTLING'', 0x42), (''EVT_POWER_SELF_REFRESH'', 0x43),
   (''EVT_POWER_CKE_CYCLES'', 0x83), (''EVT_POWER_CHANNEL_DLLOFF'', 0x84), (''EVT_POWER_CHANNEL_PD'', 0x85),
   (''EVT_POWER_CRITICAL_THROTTLE_CYCLES'', 0x86), (''EVT_VMSE_WR_PUSH'', 0x90),
   (''EVT_VMSE_MXB_WR_OCCUPANCY'', 0x91), (''EVT_RD_CAS_PRIO'', 0xA0), (''EVT_BYP_CMDS'', 0xA1),
   (''EVT_RD_CAS_RANK0'', 0xB0), (''EVT_RD_CAS_RANK1'', 0xB1), (''EVT_RD_CAS_RANK2'', 0xB2),
   (''EVT_RD_CAS_RANK3'', 0xB3), (''EVT_RD_CAS_RANK4'', 0xB4), (''EVT_RD_CAS_RANK5'', 0xB5),
   (''EVT_RD_CAS_RANK6'', 0xB6), (''EVT_RD_CAS_RANK7'', 0xB7), (''EVT_WR_CAS_RANK0'', 0xB8),
   (''EVT_WR_CAS_RANK1'', 0xB9), (''EVT_WR_CAS_RANK2'', 0xBA), (''EVT_WR_CAS_RANK3'', 0xBB),
   (''EVT_WR_CAS_RANK4'', 0xBC), (''EVT_WR_CAS_RANK5'', 0xBD), (''EVT_WR_CAS_RANK6'', 0xBE),
   (''EVT_WR_CAS_RANK7'', 0xBF), (''EVT_WMM_TO_RMM'', 0xC0), (''EVT_WRONG_MM'', 0xC1), (''UMASK_CAS_RD_REG'', 0x1),
   (''UMASK_CAS_RD_UNDERFILL'', 0x2), (''UMASK_CAS_RD'', 0x3), (''UMASK_CAS_WR_WMM'', 0x4),
   (''UMASK_CAS_WR_RMM'', 0x8), (''UMASK_CAS_WR'', 0xC), (''UMASK_CAS_ALL'', 0xF), (''UMASK_CAS_RD_WMM'', 0x16),
   (''UMASK_CAS_RD_RMM'', 0x32), (''UMASK_ACT_COUNT_RD'', 0x1), (''UMASK_ACT_COUNT_WR'', 0x2),
   (''UMASK_ACT_COUNT_BYP'', 0x8), (''UMASK_BYP_CMDS_ACT'', 0x1), (''UMASK_BYP_CMDS_CAS'', 0x2),
   (''UMASK_BYP_CMDS_PRE'', 0x4), (''UMASK_PRE_PAGE_MISS'', 0x1), (''UMASK_PRE_PAGE_CLOSE'', 0x2),
   (''UMASK_PRE_RD'', 0x4), (''UMASK_PRE_WR'', 0x8), (''UMASK_PRE_BYP'', 0x16)]"

definition Intel3F :: "macro list" where [header_defs]:
  "Intel3F = arch_3F @ clocks_3F @ counters_3F @ boxes_3F @ misc_3F @ rapl_3F @ thermal_3F @ turbo_3F @ imc_3F @ events_3F"

section \<open>Intel4F.h\<close>

definition arch_4F :: "macro list" where [header_defs]:
  "arch_4F = [
   (''COMPILED_VEND'', 0x8086), (''COMPILED_ARCH'', 0x4F)]"

definition clocks_4F :: "macro list" where [header_defs]:
  "clocks_4F = [
   (''IA32_MPERF'', 0xE7), (''IA32_APERF'', 0xE8), (''IA32_TIME_STAMP_COUNTER'', 0x10),
   (''IA32_CLOCK_MODULATION'', 0x19A), (''IA32_PERF_STATUS'', 0x198), (''IA32_PERF_CTL'', 0x199)]"

definition counters_4F :: "macro list" where [header_defs]:
  "counters_4F = [
   (''IA32_FIXED_CTR_CTRL'', 0x38D), (''IA32_PERF_GLOBAL_CTRL'', 0x38F), (''IA32_PERF_GLOBAL_STATUS'', 0x38E),
   (''IA32_PERF_GLOBAL_OVF_CTRL'', 0x390), (''IA32_FIXED_CTR0'', 0x309), (''IA32_FIXED_CTR1'', 0x30A),
   (''IA32_FIXED_CTR2'', 0x30B), (''IA32_PMC0'', 0xC1), (''IA32_PMC1'', 0xC2), (''IA32_PMC2'', 0xC3),
   (''IA32_PMC3'', 0xC4), (''IA32_PMC4'', 0xC5), (''IA32_PMC5'', 0xC6), (''IA32_PMC6'', 0xC7), (''IA32_PMC7'', 0xC8),
   (''IA32_PERFEVTSEL0'', 0x186), (''IA32_PERFEVTSEL1'', 0x187), (''IA32_PERFEVTSEL2'', 0x188),
   (''IA32_PERFEVTSEL3'', 0x189), (''IA32_PERFEVTSEL4'', 0x18A), (''IA32_PERFEVTSEL5'', 0x18B),
   (''IA32_PERFEVTSEL6'', 0x18C), (''IA32_PERFEVTSEL7'', 0x18D), (''MSR_PCU_PMON_EVNTSEL0'', 0x711),
   (''MSR_PCU_PMON_EVNTSEL1'', 0x712), (''MSR_PCU_PMON_EVNTSEL2'', 0x713), (''MSR_PCU_PMON_EVNTSEL3'', 0x714),
   (''MSR_PCU_PMON_CTR0'', 0x717), (''MSR_PCU_PMON_CTR1'', 0x718), (''MSR_PCU_PMON_CTR2'', 0x719),
   (''MSR_PCU_PMON_CTR3'', 0x71A)]"

definition boxes_4F :: "macro list" where [header_defs]:
  "boxes_4F = [
   (''MSR_C0_PMON_BOX_CTL'', 0xE00), (''MSR_C0_PMON_EVNTSEL0'', 0xE01), (''MSR_C0_PMON_EVNTSEL1'', 0xE02),
   (''MSR_C0_PMON_EVNTSEL2'', 0xE03), (''MSR_C0_PMON_EVNTSEL3'', 0xE04), (''MSR_C0_BOX_FILTER'', 0xE05),
   (''MSR_C0_BOX_FILTER1'', 0xE06), (''MSR_C0_BOX_STATUS'', 0xE07), (''MSR_C0_PMON_CTR0'', 0xE08),
   (''MSR_C0_PMON_CTR1'', 0xE09), (''MSR_C0_PMON_CTR2'', 0xE0A), (''MSR_C0_PMON_CTR3'', 0xE0B),
   (''MSR_C1_PMON_BOX_CTL'', 0xE10), (''MSR_C1_PMON_EVNTSEL0'', 0xE11), (''MSR_C1_PMON_EVNTSEL1'', 0xE12),
   (''MSR_C1_PMON_EVNTSEL2'', 0xE13), (''MSR_C1_PMON_EVNTSEL3'', 0xE14), (''MSR_C1_BOX_FILTER'', 0xE15),
   (''MSR_C1_BOX_FILTER1'', 0xE16), (''MSR_C1_BOX_STATUS'', 0xE17), (''MSR_C1_PMON_CTR0'', 0xE18),
   (''MSR_C1_PMON_CTR1'', 0xE19), (''MSR_C1_PMON_CTR2'', 0xE1A), (''MSR_C1_PMON_CTR3'', 0xE1B),
   (''MSR_C2_PMON_BOX_CTL'', 0xE20), (''MSR_C2_PMON_EVNTSEL0'', 0xE21), (''MSR_C2_PMON_EVNTSEL1'', 0xE22),
   (''MSR_C2_PMON_EVNTSEL2'', 0xE23), (''MSR_C2_PMON_EVNTSEL3'', 0xE24), (''MSR_C2_BOX_FILTER'', 0xE25),
   (''MSR_C2_BOX_FILTER1'', 0xE26), (''MSR_C2_BOX_STATUS'', 0xE27), (''MSR_C2_PMON_CTR0'', 0xE28),
   (''MSR_C2_PMON_CTR1'', 0xE29), (''MSR_C2_PMON_CTR2'', 0xE2A), (''MSR_C2_PMON_CTR3'', 0xE2B),
   (''MSR_C3_PMON_BOX_CTL'', 0xE30), (''MSR_C3_PMON_EVNTSEL0'', 0xE31), (''MSR_C3_PMON_EVNTSEL1'', 0xE32),
   (''MSR_C3_PMON_EVNTSEL2'', 0xE33), (''MSR_C3_PMON_EVNTSEL3'', 0xE34), (''MSR_C3_BOX_FILTER'', 0xE35),
   (''MSR_C3_BOX_FILTER1'', 0xE36), (''MSR_C3_BOX_STATUS'', 0xE37), (''MSR_C3_PMON_CTR0'', 0xE38),
   (''MSR_C3_PMON_CTR1'', 0xE39), (''MSR_C3_PMON_CTR2'', 0xE3A), (''MSR_C3_PMON_CTR3'', 0xE3B),
   (''MSR_C4_PMON_BOX_CTL'', 0xE40), (''MSR_C4_PMON_EVNTSEL0'', 0xE41), (''MSR_C4_PMON_EVNTSEL1'', 0xE42),
   (''MSR_C4_PMON_EVNTSEL2'', 0xE43), (''MSR_C4_PMON_EVNTSEL3'', 0xE44), (''MSR_C4_BOX_FILTER'', 0xE45),
   (''MSR_C4_BOX_FILTER1'', 0xE46), (''MSR_C4_BOX_STATU'', 0xE47), (''MSR_C4_PMON_CTR0'', 0xE48),
   (''MSR_C4_PMON_CTR1'', 0xE49), (''MSR_C4_PMON_CTR2'', 0xE4A), (''MSR_C4_PMON_CTR3'', 0xE4B),
   (''MSR_C5_PMON_BOX_CTL'', 0xE50), (''MSR_C5_PMON_EVNTSEL0'', 0xE51), (''MSR_C5_PMON_EVNTSEL1'', 0xE52),
   (''MSR_C5_PMON_EVNTSEL2'', 0xE53), (''MSR_C5_PMON_EVNTSEL3'', 0xE54), (''MSR_C5_BOX_FILTER'', 0xE55),
   (''MSR_C5_BOX_FILTER1'', 0xE56), (''MSR_C5_BOX_STATU'', 0xE57), (''MSR_C5_PMON_CTR0'', 0xE58),
   (''MSR_C5_PMON_CTR1'', 0xE59), (''MSR_C5_PMON_CTR2'', 0xE5A), (''MSR_C5_PMON_CTR3'', 0xE5B),
   (''MSR_C6_PMON_BOX_CTL'', 0xE60), (''MSR_C6_PMON_EVNTSEL0'', 0xE61), (''MSR_C6_PMON_EVNTSEL1'', 0xE62),
   (''MSR_C6_PMON_EVNTSEL2'', 0xE63), (''MSR_C6_PMON_EVNTSEL3'', 0xE64), (''MSR_C6_BOX_FILTER'', 0xE65),
   (''MSR_C6_BOX_FILTER1'', 0xE66), (''MSR_C6_BOX_STATU'', 0xE67), (''MSR_C6_PMON_CTR0'', 0xE68),
   (''MSR_C6_PMON_CTR1'', 0xE69), (''MSR_C6_PMON_CTR2'', 0xE6A), (''MSR_C6_PMON_CTR3'', 0xE6B),
   (''MSR_C7_PMON_BOX_CTL'', 0xE70), (''MSR_C7_PMON_EVNTSEL0'', 0xE71), (''MSR_C7_PMON_EVNTSEL1'', 0xE72),
   (''MSR_C7_PMON_EVNTSEL2'', 0xE73), (''MSR_C7_PMON_EVNTSEL3'', 0xE74), (''MSR_C7_BOX_FILTER'', 0xE75),
   (''MSR_C7_BOX_FILTER1'', 0xE76), (''MSR_C7_BOX_STATU'', 0xE77), (''MSR_C7_PMON_CTR0'', 0xE78),
   (''MSR_C7_PMON_CTR1'', 0xE79), (''MSR_C7_PMON_CTR2'', 0xE7A), (''MSR_C7_PMON_CTR3'', 0xE7B),
   (''MSR_C8_PMON_BOX_CTL'', 0xE80), (''MSR_C8_PMON_EVNTSEL0'', 0xE81), (''MSR_C8_PMON_EVNTSEL1'', 0xE82),
   (''MSR_C8_PMON_EVNTSEL2'', 0xE83), (''MSR_C8_PMON_EVNTSEL3'', 0xE84), (''MSR_C8_BOX_FILTER'', 0xE85),
   (''MSR_C8_BOX_FILTER1'', 0xE86), (''MSR_C8_BOX_STATU'', 0xE87), (''MSR_C8_PMON_CTR0'', 0xE88),
   (''MSR_C8_PMON_CTR1'', 0xE89), (''MSR_C8_PMON_CTR2'', 0xE8A), (''MSR_C8_PMON_CTR3'', 0xE8B),
   (''MSR_C9_PMON_BOX_CTL'', 0xE90), (''MSR_C9_PMON_EVNTSEL0'', 0xE91), (''MSR_C9_PMON_EVNTSEL1'', 0xE92),
   (''MSR_C9_PMON_EVNTSEL2'', 0xE93), (''MSR_C9_PMON_EVNTSEL3'', 0xE94), (''MSR_C9_BOX_FILTER'', 0xE95),
   (''MSR_C9_BOX_FILTER1'', 0xE96), (''MSR_C9_BOX_STATU'', 0xE97), (''MSR_C9_PMON_CTR0'', 0xE98),
   (''MSR_C9_PMON_CTR1'', 0xE99), (''MSR_C9_PMON_CTR2'', 0xE9A), (''MSR_C9_PMON_CTR3'', 0xE9B),
   (''MSR_C10_PMON_BOX_CTL'', 0xEA0), (''MSR_C10_PMON_EVNTSEL0'', 0xEA1), (''MSR_C10_PMON_EVNTSEL1'', 0xEA2),
   (''MSR_C10_PMON_EVNTSEL2'', 0xEA3), (''MSR_C10_PMON_EVNTSEL3'', 0xEA4), (''MSR_C10_BOX_FILTER'', 0xEA5),
   (''MSR_C10_BOX_FILTER1'', 0xEA6), (''MSR_C10_BOX_STATU'', 0xEA7), (''MSR_C10_PMON_CTR0'', 0xEA8),
   (''MSR_C10_PMON_CTR1'', 0xEA9), (''MSR_C10_PMON_CTR2'', 0xEAA), (''MSR_C10_PMON_CTR3'', 0xEAB),
   (''MSR_C11_PMON_BOX_CTL'', 0xEB0), (''MSR_C11_PMON_EVNTSEL0'', 0xEB1), (''MSR_C11_PMON_EVNTSEL1'', 0xEB2),
   (''MSR_C11_PMON_EVNTSEL2'', 0xEB3), (''MSR_C11_PMON_EVNTSEL3'', 0xEB4), (''MSR_C11_BOX_FILTER'', 0xEB5),
   (''MSR_C11_BOX_FILTER1'', 0xEB6), (''MSR_C11_BOX_STATUS'', 0xEB7), (''MSR_C11_PMON_CTR0'', 0xEB8),
   (''MSR_C11_PMON_CTR1'', 0xEB9), (''MSR_C11_PMON_CTR2'', 0xEBA), (''MSR_C11_PMON_CTR3'', 0xEBB),
   (''MSR_C12_PMON_BOX_CTL'', 0xEC0), (''MSR_C12_PMON_EVNTSEL0'', 0xEC1), (''MSR_C12_PMON_EVNTSEL1'', 0xEC2),
   (''MSR_C12_PMON_EVNTSEL2'', 0xEC3), (''MSR_C12_PMON_EVNTSEL3'', 0xEC4), (''MSR_C12_BOX_FILTER'', 0xEC5),
   (''MSR_C12_BOX_FILTER1'', 0xEC6), (''MSR_C12_BOX_STATUS'', 0xEC7), (''MSR_C12_PMON_CTR0'', 0xEC8),
   (''MSR_C12_PMON_CTR1'', 0xEC9), (''MSR_C12_PMON_CTR2'', 0xECA), (''MSR_C12_PMON_CTR3'', 0xECB),
   (''MSR_C13_PMON_BOX_CTL'', 0xED0), (''MSR_C13_PMON_EVNTSEL0'', 0xED1), (''MSR_C13_PMON_EVNTSEL1'', 0xED2),
   (''MSR_C13_PMON_EVNTSEL2'', 0xED3), (''MSR_C13_PMON_EVNTSEL3'', 0xED4), (''MSR_C13_BOX_FILTER'', 0xED5),
   (''MSR_C13_BOX_FILTER1'', 0xED6), (''MSR_C13_BOX_STATUS'', 0xED7), (''MSR_C13_PMON_CTR0'', 0xED8),
   (''MSR_C13_PMON_CTR1'', 0xED9), (''MSR_C13_PMON_CTR2'', 0xEDA), (''MSR_C13_PMON_CTR3'', 0xEDB),
   (''MSR_C14_PMON_BOX_CTL'', 0xEE0), (''MSR_C14_PMON_EVNTSEL0'', 0xEE1), (''MSR_C14_PMON_EVNTSEL1'', 0xEE2),
   (''MSR_C14_PMON_EVNTSEL2'', 0xEE3), (''MSR_C14_PMON_EVNTSEL3'', 0xEE4), (''MSR_C14_BOX_FILTER'', 0xEE5),
   (''MSR_C14_BOX_FILTER1'', 0xEE6), (''MSR_C14_BOX_STATUS'', 0xEE7), (''MSR_C14_PMON_CTR0'', 0xEE8),
   (''MSR_C14_PMON_CTR1'', 0xEE9), (''MSR_C14_PMON_CTR2'', 0xEEA), (''MSR_C14_PMON_CTR3'', 0xEEB),
   (''MSR_C15_PMON_BOX_CTL'', 0xEF0), (''MSR_C15_PMON_EVNTSEL0'', 0xEF1), (''MSR_C15_PMON_EVNTSEL1'', 0xEF2),
   (''MSR_C15_PMON_EVNTSEL2'', 0xEF3), (''MSR_C15_PMON_EVNTSEL3'', 0xEF4), (''MSR_C15_BOX_FILTER'', 0xEF5),
   (''MSR_C15_BOX_FILTER1'', 0xEF6), (''MSR_C15_BOX_STATUS'', 0xEF7), (''MSR_C15_PMON_CTR0'', 0xEF8),
   (''MSR_C15_PMON_CTR1'', 0xEF9), (''MSR_C15_PMON_CTR2'', 0xEFA), (''MSR_C15_PMON_CTR3'', 0xEFB),
   (''MSR_C16_PMON_BOX_CTL'', 0xF00), (''MSR_C16_PMON_EVNTSEL0'', 0xF01), (''MSR_C16_PMON_EVNTSEL1'', 0xF02),
   (''MSR_C16_PMON_EVNTSEL2'', 0xF03), (''MSR_C16_PMON_EVNTSEL3'', 0xF04), (''MSR_C16_BOX_FILTER'', 0xF05),
   (''MSR_C16_BOX_FILTER1'', 0xF06), (''MSR_C16_BOX_STATUS'', 0xF07), (''MSR_C16_PMON_CTR0'', 0xF08),
   (''MSR_C16_PMON_CTR1'', 0xF09), (''MSR_C16_PMON_CTR2'', 0xF0A), (''MSR_C16_PMON_CTR3'', 0xF0B),
   (''MSR_C17_PMON_BOX_CTL'', 0xF10), (''MSR_C17_PMON_EVNTSEL0'', 0xF11), (''MSR_C17_PMON_EVNTSEL1'', 0xF12),
   (''MSR_C17_PMON_EVNTSEL2'', 0xF13), (''MSR_C17_PMON_EVNTSEL3'', 0xF14), (''MSR_C17_BOX_FILTER'', 0xF15),
   (''MSR_C17_BOX_FILTER1'', 0xF16), (''MSR_C17_BOX_STATUS'', 0xF17), (''MSR_C17_PMON_CTR0'', 0xF18),
   (''MSR_C17_PMON_CTR1'', 0xF19), (''MSR_C17_PMON_CTR2'', 0xF1A), (''MSR_C17_PMON_CTR3'', 0xF1B)]"

definition misc_4F :: "macro list" where [header_defs]:
  "misc_4F = [
   (''IA32_MISC_ENABLE'', 0x1A0), (''MSR_PKG_C2_RESIDENCY'', 0x60D), (''MSR_PKG_C3_RESIDENCY'', 0x3F8),
   (''MSR_PKG_C6_RESIDENCY'', 0x3F9), (''MSR_PKG_C7_RESIDENCY'', 0x3FA), (''MSR_CORE_C3_RESIDENCY'', 0x3FC),
   (''MSR_CORE_C6_RESIDENCY'', 0x3FD), (''MSR_CORE_C7_RESIDENCY'', 0x3FE)]"

definition rapl_4F :: "macro list" where [header_defs]:
  "rapl_4F = [
   (''MSR_RAPL_POWER_UNIT'', 0x606), (''MSR_PKG_POWER_LIMIT'', 0x610), (''MSR_PKG_ENERGY_STATUS'', 0x611),
   (''MSR_PKG_POWER_INFO'', 0x614), (''MSR_PKG_PERF_STATUS'', 0x613), (''MSR_DRAM_POWER_LIMIT'', 0x618),
   (''MSR_DRAM_ENERGY_STATUS'', 0x619), (''MSR_DRAM_PERF_STATUS'', 0x61B), (''MSR_DRAM_POWER_INFO'', 0x61C)]"

definition thermal_4F :: "macro list" where [header_defs]:
  "thermal_4F = [
   (''IA32_THERM_STATUS'', 0x19C), (''MSR_THERM2_CTL'', 0x19D), (''IA32_THERM_INTERRUPT'', 0x19B),
   (''IA32_PACKAGE_THERM_STATUS'', 0x1B1), (''IA32_PACKAGE_THERM_INTERRUPT'', 0x1B2),
   (''MSR_TEMPERATURE_TARGET'', 0x1A2)]"

definition turbo_4F :: "macro list" where [header_defs]:
  "turbo_4F = [
   (''IA32_MISC_ENABLE'', 0x1A0), (''IA32_PERF_CTL'', 0x199), (''MSR_TURBO_ACTIVATION_RATIO'', 0x64C),
   (''MSR_TURBO_RATIO_LIMIT'', 0x1AD), (''MSR_TURBO_RATIO_LIMIT1'', 0x1AE)]"

definition imc_4F :: "macro list" where [header_defs]:
  "imc_4F = [
   (''IMC0_DEV'', 20), (''IMC0_2_DEV'', 20 + 1), (''IMC1_DEV'', 23), (''IMC1_2_DEV'', 23 + 1), (''IMC_CH0_FUNC'', 0),
   (''IMC_CH1_FUNC'', 1), (''IMC_CH2_FUNC'', 0), (''IMC_CH3_FUNC'', 1), (''CSR_PMONCTRCFG0'', 0xD8),
   (''CSR_PMONCTRCFG1'', 0xDC), (''CSR_PMONCTRCFG2'', 0xE0), (''CSR_PMONCTRCFG3'', 0xE8), (''CSR_PMONCTR0'', 0xA0),
   (''CSR_PMONCTR1'', 0xA8), (''CSR_PMONCTR2'', 0xB0), (''CSR_PMONCTR3'', 0xB8), (''CSR_PMONUNITCTRL'', 0xF4),
   (''CSR_PMONUNITSTAT'', 0xF8)]"

definition events_4F :: "macro list" where [header_defs]:
  "events_4F = [
   (''EVT_DCLOCKTICKS'', 0x00), (''EVT_ACT_COUNT'', 0x01), (''EVT_PRE_COUNT'', 0x02), (''EVT_CAS_COUNT'', 0x04),
   (''EVT_DRAM_REFRESH'', 0x05), (''EVT_DRAM_PRE_ALL'', 0x06), (''EVT_MAJOR_MODES'', 0x07),
   (''EVT_PREEMPTION'', 0x08), (''EVT_ECC_CORRECTABLE_ERRORS'', 0x09), (''EVT_RPQ_INSERTS'', 0x10),
   (''EVT_RPQ_CYCLES_NE'', 0x11), (''EVT_WPQ_INSERTS'', 0x20), (''EVT_WPQ_CYCLES_NE'', 0x21),
   (''EVT_WPQ_CYCLES_FULL'', 0x22), (''EVT_WPQ_READ_HIT'', 0x23), (''EVT_WPQ_WRITE_HIT'', 0x24),
   (''EVT_POWER_THROTTLE_CYCLES'', 0x41), (''EVT_POWER_PCU_THROTTLING'', 0x42), (''EVT_POWER_SELF_REFRESH'', 0x43),
   (''EVT_POWER_CKE_CYCLES'', 0x83), (''EVT_POWER_CHANNEL_DLLOFF'', 0x84), (''EVT_POWER_CHANNEL_PD'', 0x85),
   (''EVT_POWER_CRITICAL_THROTTLE_CYCLES'', 0x86), (''EVT_VMSE_WR_PUSH'', 0x90),
   (''EVT_VMSE_MXB_WR_OCCUPANCY'', 0x91), (''EVT_RD_CAS_PRIO'', 0xA0), (''EVT_BYP_CMDS'', 0xA1),
   (''EVT_RD_CAS_RANK0'', 0xB0), (''EVT_RD_CAS_RANK1'', 0xB1), (''EVT_RD_CAS_RANK2'', 0xB2),
   (''EVT_RD_CAS_RANK3'', 0xB3), (''EVT_RD_CAS_RANK4'', 0xB4), (''EVT_RD_CAS_RANK5'', 0xB5),
   (''EVT_RD_CAS_RANK6'', 0xB6), (''EVT_RD_CAS_RANK7'', 0xB7), (''EVT_WR_CAS_RANK0'', 0xB8),
   (''EVT_WR_CAS_RANK1'', 0xB9), (''EVT_WR_CAS_RANK2'', 0xBA), (''EVT_WR_CAS_RANK3'', 0xBB),
   (''EVT_WR_CAS_RANK4'', 0xBC), (''EVT_WR_CAS_RANK5'', 0xBD), (''EVT_WR_CAS_RANK6'', 0xBE),
   (''EVT_WR_CAS_RANK7'', 0xBF), (''EVT_WMM_TO_RMM'', 0xC0), (''EVT_WRONG_MM'', 0xC1), (''UMASK_CAS_RD_REG'', 0x1),
   (''UMASK_CAS_RD_UNDERFILL'', 0x2), (''UMASK_CAS_RD'', 0x3), (''UMASK_CAS_WR_WMM'', 0x4),
   (''UMASK_CAS_WR_RMM'', 0x8), (''UMASK_CAS_WR'', 0xC), (''UMASK_CAS_ALL'', 0xF), (''UMASK_CAS_RD_WMM'', 0x16),
   (''UMASK_CAS_RD_RMM'', 0x32), (''UMASK_ACT_COUNT_RD'', 0x1), (''UMASK_ACT_COUNT_WR'', 0x2),
   (''UMASK_ACT_COUNT_BYP'', 0x8), (''UMASK_BYP_CMDS_ACT'', 0x1), (''UMASK_BYP_CMDS_CAS'', 0x2),
   (''UMASK_BYP_CMDS_PRE'', 0x4), (''UMASK_PRE_PAGE_MISS'', 0x1), (''UMASK_PRE_PAGE_CLOSE'', 0x2),
   (''UMASK_PRE_RD'', 0x4), (''UMASK_PRE_WR'', 0x8), (''UMASK_PRE_BYP'', 0x16)]"

definition Intel4F :: "macro list" where [header_defs]:
  "Intel4F = arch_4F @ clocks_4F @ counters_4F @ boxes_4F @ misc_4F @ rapl_4F @ thermal_4F @ turbo_4F @ imc_4F @ events_4F"

section \<open>Intel55.h\<close>

definition arch_55 :: "macro list" where [header_defs]:
  "arch_55 = [
   (''COMPILED_VEND'', 0x8086), (''COMPILED_ARCH'', 0x55)]"

definition clocks_55 :: "macro list" where [header_defs]:
  "clocks_55 = [
   (''IA32_MPERF'', 0xE7), (''IA32_APERF'', 0xE8), (''IA32_TIME_STAMP_COUNTER'', 0x10),
   (''IA32_CLOCK_MODULATION'', 0x19A), (''IA32_PERF_STATUS'', 0x198), (''IA32_PERF_CTL'', 0x199)]"

definition counters_55 :: "macro list" where [header_defs]:
  "counters_55 = [
   (''IA32_FIXED_CTR_CTRL'', 0x38D), (''IA32_PERF_GLOBAL_CTRL'', 0x38F), (''IA32_PERF_GLOBAL_STATUS'', 0x38E),
   (''IA32_PERF_GLOBAL_OVF_CTRL'', 0x390), (''IA32_FIXED_CTR0'', 0x309), (''IA32_FIXED_CTR1'', 0x30A),
   (''IA32_FIXED_CTR2'', 0x30B), (''IA32_PMC0'', 0xC1), (''IA32_PMC1'', 0xC2), (''IA32_PMC2'', 0xC3),
   (''IA32_PMC3'', 0xC4), (''IA32_PMC4'', 0xC5), (''IA32_PMC5'', 0xC6), (''IA32_PMC6'', 0xC7), (''IA32_PMC7'', 0xC8),
   (''IA32_PERFEVTSEL0'', 0x186), (''IA32_PERFEVTSEL1'', 0x187), (''IA32_PERFEVTSEL2'', 0x188),
   (''IA32_PERFEVTSEL3'', 0x189), (''IA32_PERFEVTSEL4'', 0x18A), (''IA32_PERFEVTSEL5'', 0x18B),
   (''IA32_PERFEVTSEL6'', 0x18C), (''IA32_PERFEVTSEL7'', 0x18D), (''MSR_PCU_PMON_EVNTSEL0'', 0x711),
   (''MSR_PCU_PMON_EVNTSEL1'', 0x712), (''MSR_PCU_PMON_EVNTSEL2'', 0x713), (''MSR_PCU_PMON_EVNTSEL3'', 0x714),
   (''MSR_PCU_PMON_CTR0'', 0x717), (''MSR_PCU_PMON_CTR1'', 0x718), (''MSR_PCU_PMON_CTR2'', 0x719),
   (''MSR_PCU_PMON_CTR3'', 0x71A)]"

definition boxes_55 :: "macro list" where [header_defs]:
  "boxes_55 = [
   (''MSR_C0_PMON_BOX_CTL'', 0xE00), (''MSR_C0_PMON_EVNTSEL0'', 0xE01), (''MSR_C0_PMON_EVNTSEL1'', 0xE02),
   (''MSR_C0_PMON_EVNTSEL2'', 0xE03), (''MSR_C0_PMON_EVNTSEL3'', 0xE04), (''MSR_C0_BOX_FILTER'', 0xE05),
   (''MSR_C0_BOX_FILTER1'', 0xE06), (''MSR_C0_BOX_STATUS'', 0xE07), (''MSR_C0_PMON_CTR0'', 0xE08),
   (''MSR_C0_PMON_CTR1'', 0xE09), (''MSR_C0_PMON_CTR2'', 0xE0A), (''MSR_C0_PMON_CTR3'', 0xE0B),
   (''MSR_C1_PMON_BOX_CTL'', 0xE10), (''MSR_C1_PMON_EVNTSEL0'', 0xE11), (''MSR_C1_PMON_EVNTSEL1'', 0xE12),
   (''MSR_C1_PMON_EVNTSEL2'', 0xE13), (''MSR_C1_PMON_EVNTSEL3'', 0xE14), (''MSR_C1_BOX_FILTER'', 0xE15),
   (''MSR_C1_BOX_FILTER1'', 0xE16), (''MSR_C1_BOX_STATUS'', 0xE17), (''MSR_C1_PMON_CTR0'', 0xE18),
   (''MSR_C1_PMON_CTR1'', 0xE19), (''MSR_C1_PMON_CTR2'', 0xE1A), (''MSR_C1_PMON_CTR3'', 0xE1B),
   (''MSR_C2_PMON_BOX_CTL'', 0xE20), (''MSR_C2_PMON_EVNTSEL0'', 0xE21), (''MSR_C2_PMON_EVNTSEL1'', 0xE22),
   (''MSR_C2_PMON_EVNTSEL2'', 0xE23), (''MSR_C2_PMON_EVNTSEL3'', 0xE24), (''MSR_C2_BOX_FILTER'', 0xE25),
   (''MSR_C2_BOX_FILTER1'', 0xE26), (''MSR_C2_BOX_STATUS'', 0xE27), (''MSR_C2_PMON_CTR0'', 0xE28),
   (''MSR_C2_PMON_CTR1'', 0xE29), (''MSR_C2_PMON_CTR2'', 0xE2A), (''MSR_C2_PMON_CTR3'', 0xE2B),
   (''MSR_C3_PMON_BOX_CTL'', 0xE30), (''MSR_C3_PMON_EVNTSEL0'', 0xE31), (''MSR_C3_PMON_EVNTSEL1'', 0xE32),
   (''MSR_C3_PMON_EVNTSEL2'', 0xE33), (''MSR_C3_PMON_EVNTSEL3'', 0xE34), (''MSR_C3_BOX_FILTER'', 0xE35),
   (''MSR_C3_BOX_FILTER1'', 0xE36), (''MSR_C3_BOX_STATUS'', 0xE37), (''MSR_C3_PMON_CTR0'', 0xE38),
   (''MSR_C3_PMON_CTR1'', 0xE39), (''MSR_C3_PMON_CTR2'', 0xE3A), (''MSR_C3_PMON_CTR3'', 0xE3B),
   (''MSR_C4_PMON_BOX_CTL'', 0xE40), (''MSR_C4_PMON_EVNTSEL0'', 0xE41), (''MSR_C4_PMON_EVNTSEL1'', 0xE42),
   (''MSR_C4_PMON_EVNTSEL2'', 0xE43), (''MSR_C4_PMON_EVNTSEL3'', 0xE44), (''MSR_C4_BOX_FILTER'', 0xE45),
   (''MSR_C4_BOX_FILTER1'', 0xE46), (''MSR_C4_BOX_STATU'', 0xE47), (''MSR_C4_PMON_CTR0'', 0xE48),
   (''MSR_C4_PMON_CTR1'', 0xE49), (''MSR_C4_PMON_CTR2'', 0xE4A), (''MSR_C4_PMON_CTR3'', 0xE4B),
   (''MSR_C5_PMON_BOX_CTL'', 0xE50), (''MSR_C5_PMON_EVNTSEL0'', 0xE51), (''MSR_C5_PMON_EVNTSEL1'', 0xE52),
   (''MSR_C5_PMON_EVNTSEL2'', 0xE53), (''MSR_C5_PMON_EVNTSEL3'', 0xE54), (''MSR_C5_BOX_FILTER'', 0xE55),
   (''MSR_C5_BOX_FILTER1'', 0xE56), (''MSR_C5_BOX_STATU'', 0xE57), (''MSR_C5_PMON_CTR0'', 0xE58),
   (''MSR_C5_PMON_CTR1'', 0xE59), (''MSR_C5_PMON_CTR2'', 0xE5A), (''MSR_C5_PMON_CTR3'', 0xE5B),
   (''MSR_C6_PMON_BOX_CTL'', 0xE60), (''MSR_C6_PMON_EVNTSEL0'', 0xE61), (''MSR_C6_PMON_EVNTSEL1'', 0xE62),
   (''MSR_C6_PMON_EVNTSEL2'', 0xE63), (''MSR_C6_PMON_EVNTSEL3'', 0xE64), (''MSR_C6_BOX_FILTER'', 0xE65),
   (''MSR_C6_BOX_FILTER1'', 0xE66), (''MSR_C6_BOX_STATU'', 0xE67), (''MSR_C6_PMON_CTR0'', 0xE68),
   (''MSR_C6_PMON_CTR1'', 0xE69), (''MSR_C6_PMON_CTR2'', 0xE6A), (''MSR_C6_PMON_CTR3'', 0xE6B),
   (''MSR_C7_PMON_BOX_CTL'', 0xE70), (''MSR_C7_PMON_EVNTSEL0'', 0xE71), (''MSR_C7_PMON_EVNTSEL1'', 0xE72),
   (''MSR_C7_PMON_EVNTSEL2'', 0xE73), (''MSR_C7_PMON_EVNTSEL3'', 0xE74), (''MSR_C7_BOX_FILTER'', 0xE75),
   (''MSR_C7_BOX_FILTER1'', 0xE76), (''MSR_C7_BOX_STATU'', 0xE77), (''MSR_C7_PMON_CTR0'', 0xE78),
   (''MSR_C7_PMON_CTR1'', 0xE79), (''MSR_C7_PMON_CTR2'', 0xE7A), (''MSR_C7_PMON_CTR3'', 0xE7B),
   (''MSR_C8_PMON_BOX_CTL'', 0xE80), (''MSR_C8_PMON_EVNTSEL0'', 0xE81), (''MSR_C8_PMON_EVNTSEL1'', 0xE82),
   (''MSR_C8_PMON_EVNTSEL2'', 0xE83), (''MSR_C8_PMON_EVNTSEL3'', 0xE84), (''MSR_C8_BOX_FILTER'', 0xE85),
   (''MSR_C8_BOX_FILTER1'', 0xE86), (''MSR_C8_BOX_STATU'', 0xE87), (''MSR_C8_PMON_CTR0'', 0xE88),
   (''MSR_C8_PMON_CTR1'', 0xE89), (''MSR_C8_PMON_CTR2'', 0xE8A), (''MSR_C8_PMON_CTR3'', 0xE8B),
   (''MSR_C9_PMON_BOX_CTL'', 0xE90), (''MSR_C9_PMON_EVNTSEL0'', 0xE91), (''MSR_C9_PMON_EVNTSEL1'', 0xE92),
   (''MSR_C9_PMON_EVNTSEL2'', 0xE93), (''MSR_C9_PMON_EVNTSEL3'', 0xE94), (''MSR_C9_BOX_FILTER'', 0xE95),
   (''MSR_C9_BOX_FILTER1'', 0xE96), (''MSR_C9_BOX_STATU'', 0xE97), (''MSR_C9_PMON_CTR0'', 0xE98),
   (''MSR_C9_PMON_CTR1'', 0xE99), (''MSR_C9_PMON_CTR2'', 0xE9A), (''MSR_C9_PMON_CTR3'', 0xE9B),
   (''MSR_C10_PMON_BOX_CTL'', 0xEA0), (''MSR_C10_PMON_EVNTSEL0'', 0xEA1), (''MSR_C10_PMON_EVNTSEL1'', 0xEA2),
   (''MSR_C10_PMON_EVNTSEL2'', 0xEA3), (''MSR_C10_PMON_EVNTSEL3'', 0xEA4), (''MSR_C10_BOX_FILTER'', 0xEA5),
   (''MSR_C10_BOX_FILTER1'', 0xEA6), (''MSR_C10_BOX_STATU'', 0xEA7), (''MSR_C10_PMON_CTR0'', 0xEA8),
   (''MSR_C10_PMON_CTR1'', 0xEA9), (''MSR_C10_PMON_CTR2'', 0xEAA), (''MSR_C10_PMON_CTR3'', 0xEAB),
   (''MSR_C11_PMON_BOX_CTL'', 0xEB0), (''MSR_C11_PMON_EVNTSEL0'', 0xEB1), (''MSR_C11_PMON_EVNTSEL1'', 0xEB2),
   (''MSR_C11_PMON_EVNTSEL2'', 0xEB3), (''MSR_C11_PMON_EVNTSEL3'', 0xEB4), (''MSR_C11_BOX_FILTER'', 0xEB5),
   (''MSR_C11_BOX_FILTER1'', 0xEB6), (''MSR_C11_BOX_STATUS'', 0xEB7), (''MSR_C11_PMON_CTR0'', 0xEB8),
   (''MSR_C11_PMON_CTR1'', 0xEB9), (''MSR_C11_PMON_CTR2'', 0xEBA), (''MSR_C11_PMON_CTR3'', 0xEBB),
   (''MSR_C12_PMON_BOX_CTL'', 0xEC0), (''MSR_C12_PMON_EVNTSEL0'', 0xEC1), (''MSR_C12_PMON_EVNTSEL1'', 0xEC2),
   (''MSR_C12_PMON_EVNTSEL2'', 0xEC3), (''MSR_C12_PMON_EVNTSEL3'', 0xEC4), (''MSR_C12_BOX_FILTER'', 0xEC5),
   (''MSR_C12_BOX_FILTER1'', 0xEC6), (''MSR_C12_BOX_STATUS'', 0xEC7), (''MSR_C12_PMON_CTR0'', 0xEC8),
   (''MSR_C12_PMON_CTR1'', 0xEC9), (''MSR_C12_PMON_CTR2'', 0xECA), (''MSR_C12_PMON_CTR3'', 0xECB),
   (''MSR_C13_PMON_BOX_CTL'', 0xED0), (''MSR_C13_PMON_EVNTSEL0'', 0xED1), (''MSR_C13_PMON_EVNTSEL1'', 0xED2),
   (''MSR_C13_PMON_EVNTSEL2'', 0xED3), (''MSR_C13_PMON_EVNTSEL3'', 0xED4), (''MSR_C13_BOX_FILTER'', 0xED5),
   (''MSR_C13_BOX_FILTER1'', 0xED6), (''MSR_C13_BOX_STATUS'', 0xED7), (''MSR_C13_PMON_CTR0'', 0xED8),
   (''MSR_C13_PMON_CTR1'', 0xED9), (''MSR_C13_PMON_CTR2'', 0xEDA), (''MSR_C13_PMON_CTR3'', 0xEDB),
   (''MSR_C14_PMON_BOX_CTL'', 0xEE0), (''MSR_C14_PMON_EVNTSEL0'', 0xEE1), (''MSR_C14_PMON_EVNTSEL1'', 0xEE2),
   (''MSR_C14_PMON_EVNTSEL2'', 0xEE3), (''MSR_C14_PMON_EVNTSEL3'', 0xEE4), (''MSR_C14_BOX_FILTER'', 0xEE5),
   (''MSR_C14_BOX_FILTER1'', 0xEE6), (''MSR_C14_BOX_STATUS'', 0xEE7), (''MSR_C14_PMON_CTR0'', 0xEE8),
   (''MSR_C14_PMON_CTR1'', 0xEE9), (''MSR_C14_PMON_CTR2'', 0xEEA), (''MSR_C14_PMON_CTR3'', 0xEEB),
   (''MSR_C15_PMON_BOX_CTL'', 0xEF0), (''MSR_C15_PMON_EVNTSEL0'', 0xEF1), (''MSR_C15_PMON_EVNTSEL1'', 0xEF2),
   (''MSR_C15_PMON_EVNTSEL2'', 0xEF3), (''MSR_C15_PMON_EVNTSEL3'', 0xEF4), (''MSR_C15_BOX_FILTER'', 0xEF5),
   (''MSR_C15_BOX_FILTER1'', 0xEF6), (''MSR_C15_BOX_STATUS'', 0xEF7), (''MSR_C15_PMON_CTR0'', 0xEF8),
   (''MSR_C15_PMON_CTR1'', 0xEF9), (''MSR_C15_PMON_CTR2'', 0xEFA), (''MSR_C15_PMON_CTR3'', 0xEFB),
   (''MSR_C16_PMON_BOX_CTL'', 0xF00), (''MSR_C16_PMON_EVNTSEL0'', 0xF01), (''MSR_C16_PMON_EVNTSEL1'', 0xF02),
   (''MSR_C16_PMON_EVNTSEL2'', 0xF03), (''MSR_C16_PMON_EVNTSEL3'', 0xF04), (''MSR_C16_BOX_FILTER'', 0xF05),
   (''MSR_C16_BOX_FILTER1'', 0xF06), (''MSR_C16_BOX_STATUS'', 0xF07), (''MSR_C16_PMON_CTR0'', 0xF08),
   (''MSR_C16_PMON_CTR1'', 0xF09), (''MSR_C16_PMON_CTR2'', 0xF0A), (''MSR_C16_PMON_CTR3'', 0xF0B),
   (''MSR_C17_PMON_BOX_CTL'', 0xF10), (''MSR_C17_PMON_EVNTSEL0'', 0xF11), (''MSR_C17_PMON_EVNTSEL1'', 0xF12),
   (''MSR_C17_PMON_EVNTSEL2'', 0xF13), (''MSR_C17_PMON_EVNTSEL3'', 0xF14), (''MSR_C17_BOX_FILTER'', 0xF15),
   (''MSR_C17_BOX_FILTER1'', 0xF16), (''MSR_C17_BOX_STATUS'', 0xF17), (''MSR_C17_PMON_CTR0'', 0xF18),
   (''MSR_C17_PMON_CTR1'', 0xF19), (''MSR_C17_PMON_CTR2'', 0xF1A), (''MSR_C17_PMON_CTR3'', 0xF1B)]"

definition misc_55 :: "macro list" where [header_defs]:
  "misc_55 = [
   (''IA32_MISC_ENABLE'', 0x1A0), (''MSR_PKG_C2_RESIDENCY'', 0x60D), (''MSR_PKG_C3_RESIDENCY'', 0x3F8),
   (''MSR_PKG_C6_RESIDENCY'', 0x3F9), (''MSR_PKG_C7_RESIDENCY'', 0x3FA), (''MSR_CORE_C3_RESIDENCY'', 0x3FC),
   (''MSR_CORE_C6_RESIDENCY'', 0x3FD), (''MSR_CORE_C7_RESIDENCY'', 0x3FE)]"

definition rapl_55 :: "macro list" where [header_defs]:
  "rapl_55 = [
   (''MSR_RAPL_POWER_UNIT'', 0x606), (''MSR_PKG_POWER_LIMIT'', 0x610), (''MSR_PKG_ENERGY_STATUS'', 0x611),
   (''MSR_PKG_POWER_INFO'', 0x614), (''MSR_PKG_PERF_STATUS'', 0x613), (''MSR_DRAM_POWER_LIMIT'', 0x618),
   (''MSR_DRAM_ENERGY_STATUS'', 0x619), (''MSR_DRAM_PERF_STATUS'', 0x61B), (''MSR_DRAM_POWER_INFO'', 0x61C)]"

definition thermal_55 :: "macro list" where [header_defs]:
  "thermal_55 = [
   (''IA32_THERM_STATUS'', 0x19C), (''MSR_THERM2_CTL'', 0x19D), (''IA32_THERM_INTERRUPT'', 0x19B),
   (''IA32_PACKAGE_THERM_STATUS'', 0x1B1), (''IA32_PACKAGE_THERM_INTERRUPT'', 0x1B2),
   (''MSR_TEMPERATURE_TARGET'', 0x1A2)]"

definition turbo_55 :: "macro list" where [header_defs]:
  "turbo_55 = [
   (''IA32_MISC_ENABLE'', 0x1A0), (''IA32_PERF_CTL'', 0x199), (''MSR_TURBO_ACTIVATION_RATIO'', 0x64C),
   (''MSR_TURBO_RATIO_LIMIT'', 0x1AD), (''MSR_TURBO_RATIO_LIMIT1'', 0x1AE)]"

definition imc_55 :: "macro list" where [header_defs]:
  "imc_55 = [
   (''IMC0_DEV'', 20), (''IMC0_2_DEV'', 20 + 1), (''IMC1_DEV'', 23), (''IMC1_2_DEV'', 23 + 1), (''IMC_CH0_FUNC'', 0),
   (''IMC_CH1_FUNC'', 1), (''IMC_CH2_FUNC'', 0), (''IMC_CH3_FUNC'', 1), (''CSR_PMONCTRCFG0'', 0xD8),
   (''CSR_PMONCTRCFG1'', 0xDC), (''CSR_PMONCTRCFG2'', 0xE0), (''CSR_PMONCTRCFG3'', 0xE8), (''CSR_PMONCTR0'', 0xA0),
   (''CSR_PMONCTR1'', 0xA8), (''CSR_PMONCTR2'', 0xB0), (''CSR_PMONCTR3'', 0xB8), (''CSR_PMONUNITCTRL'', 0xF4),
   (''CSR_PMONUNITSTAT'', 0xF8)]"

definition events_55 :: "macro list" where [header_defs]:
  "events_55 = [
   (''EVT_DCLOCKTICKS'', 0x00), (''EVT_ACT_COUNT'', 0x01), (''EVT_PRE_COUNT'', 0x02), (''EVT_CAS_COUNT'', 0x04),
   (''EVT_DRAM_REFRESH'', 0x05), (''EVT_DRAM_PRE_ALL'', 0x06), (''EVT_MAJOR_MODES'', 0x07),
   (''EVT_PREEMPTION'', 0x08), (''EVT_ECC_CORRECTABLE_ERRORS'', 0x09), (''EVT_RPQ_INSERTS'', 0x10),
   (''EVT_RPQ_CYCLES_NE'', 0x11), (''EVT_WPQ_INSERTS'', 0x20), (''EVT_WPQ_CYCLES_NE'', 0x21),
   (''EVT_WPQ_CYCLES_FULL'', 0x22), (''EVT_WPQ_READ_HIT'', 0x23), (''EVT_WPQ_WRITE_HIT'', 0x24),
   (''EVT_POWER_THROTTLE_CYCLES'', 0x41), (''EVT_POWER_PCU_THROTTLING'', 0x42), (''EVT_POWER_SELF_REFRESH'', 0x43),
   (''EVT_POWER_CKE_CYCLES'', 0x83), (''EVT_POWER_CHANNEL_DLLOFF'', 0x84), (''EVT_POWER_CHANNEL_PD'', 0x85),
   (''EVT_POWER_CRITICAL_THROTTLE_CYCLES'', 0x86), (''EVT_VMSE_WR_PUSH'', 0x90),
   (''EVT_VMSE_MXB_WR_OCCUPANCY'', 0x91), (''EVT_RD_CAS_PRIO'', 0xA0), (''EVT_BYP_CMDS'', 0xA1),
   (''EVT_RD_CAS_RANK0'', 0xB0), (''EVT_RD_CAS_RANK1'', 0xB1), (''EVT_RD_CAS_RANK2'', 0xB2),
   (''EVT_RD_CAS_RANK3'', 0xB3), (''EVT_RD_CAS_RANK4'', 0xB4), (''EVT_RD_CAS_RANK5'', 0xB5),
   (''EVT_RD_CAS_RANK6'', 0xB6), (''EVT_RD_CAS_RANK7'', 0xB7), (''EVT_WR_CAS_RANK0'', 0xB8),
   (''EVT_WR_CAS_RANK1'', 0xB9), (''EVT_WR_CAS_RANK2'', 0xBA), (''EVT_WR_CAS_RANK3'', 0xBB),
   (''EVT_WR_CAS_RANK4'', 0xBC), (''EVT_WR_CAS_RANK5'', 0xBD), (''EVT_WR_CAS_RANK6'', 0xBE),
   (''EVT_WR_CAS_RANK7'', 0xBF), (''EVT_WMM_TO_RMM'', 0xC0), (''EVT_WRONG_MM'', 0xC1), (''UMASK_CAS_RD_REG'', 0x1),
   (''UMASK_CAS_RD_UNDERFILL'', 0x2), (''UMASK_CAS_RD'', 0x3), (''UMASK_CAS_WR_WMM'', 0x4),
   (''UMASK_CAS_WR_RMM'', 0x8), (''UMASK_CAS_WR'', 0xC), (''UMASK_CAS_ALL'', 0xF), (''UMASK_CAS_RD_WMM'', 0x16),
   (''UMASK_CAS_RD_RMM'', 0x32), (''UMASK_ACT_COUNT_RD'', 0x1), (''UMASK_ACT_COUNT_WR'', 0x2),
   (''UMASK_ACT_COUNT_BYP'', 0x8), (''UMASK_BYP_CMDS_ACT'', 0x1), (''UMASK_BYP_CMDS_CAS'', 0x2),
   (''UMASK_BYP_CMDS_PRE'', 0x4), (''UMASK_PRE_PAGE_MISS'', 0x1), (''UMASK_PRE_PAGE_CLOSE'', 0x2),
   (''UMASK_PRE_RD'', 0x4), (''UMASK_PRE_WR'', 0x8), (''UMASK_PRE_BYP'', 0x16)]"

definition Intel55 :: "macro list" where [header_defs]:
  "Intel55 = arch_55 @ clocks_55 @ counters_55 @ boxes_55 @ misc_55 @ rapl_55 @ thermal_55 @ turbo_55 @ imc_55 @ events_55"

section \<open>Intel57.h\<close>

definition arch_57 :: "macro list" where [header_defs]:
  "arch_57 = [
   (''COMPILED_VEND'', 0x8086), (''COMPILED_ARCH'', 0x57)]"

definition clocks_57 :: "macro list" where [header_defs]:
  "clocks_57 = [
   (''IA32_MPERF'', 0xE7), (''IA32_APERF'', 0xE8), (''IA32_TIME_STAMP_COUNTER'', 0x10),
   (''IA32_CLOCK_MODULATION'', 0x19A), (''IA32_PERF_STATUS'', 0x198), (''IA32_PERF_CTL'', 0x199)]"

definition counters_57 :: "macro list" where [header_defs]:
  "counters_57 = [
   (''IA32_FIXED_CTR_CTRL'', 0x38D), (''IA32_PERF_GLOBAL_STATUS'', 0x38E), (''IA32_PERF_GLOBAL_CTRL'', 0x38F),
   (''IA32_PERF_GLOBAL_OVF_CTRL'', 0x390), (''IA32_FIXED_CTR0'', 0x309), (''IA32_FIXED_CTR1'', 0x30A),
   (''IA32_FIXED_CTR2'', 0x30B), (''IA32_PMC0'', 0xC1), (''IA32_PMC1'', 0xC2), (''IA32_PERFEVTSEL0'', 0x186),
   (''IA32_PERFEVTSEL1'', 0x187)]"

definition boxes_57 :: "macro list" where [header_defs]:
  "boxes_57 = [
   (''MSR_C0_PMON_BOX_CTL'', 0xE00), (''MSR_C0_PMON_EVNTSEL0'', 0xE01), (''MSR_C0_PMON_EVNTSEL1'', 0xE02),
   (''MSR_C0_PMON_EVNTSEL2'', 0xE03), (''MSR_C0_PMON_EVNTSEL3'', 0xE04), (''MSR_C0_BOX_FILTER'', 0xE05),
   (''MSR_C0_BOX_FILTER1'', 0xE06), (''MSR_C0_BOX_STATUS'', 0xE07), (''MSR_C0_PMON_CTR0'', 0xE08),
   (''MSR_C0_PMON_CTR1'', 0xE09), (''MSR_C0_PMON_CTR2'', 0xE0A), (''MSR_C0_PMON_CTR3'', 0xE0B),
   (''MSR_C1_PMON_BOX_CTL'', 0xE0C), (''MSR_C1_PMON_EVNTSEL0'', 0xE0D), (''MSR_C1_PMON_EVNTSEL1'', 0xE0E),
   (''MSR_C1_PMON_EVNTSEL2'', 0xE0F), (''MSR_C1_PMON_EVNTSEL3'', 0xE10), (''MSR_C1_BOX_FILTER'', 0xE11),
   (''MSR_C1_BOX_FILTER1'', 0xE12), (''MSR_C1_BOX_STATUS'', 0xE13), (''MSR_C1_PMON_CTR0'', 0xE14),
   (''MSR_C1_PMON_CTR1'', 0xE15), (''MSR_C1_PMON_CTR2'', 0xE16), (''MSR_C1_PMON_CTR3'', 0xE17),
   (''MSR_C2_PMON_BOX_CTL'', 0xE18), (''MSR_C2_PMON_EVNTSEL0'', 0xE19), (''MSR_C2_PMON_EVNTSEL1'', 0xE1A),
   (''MSR_C2_PMON_EVNTSEL2'', 0xE1B), (''MSR_C2_PMON_EVNTSEL3'', 0xE1C), (''MSR_C2_BOX_FILTER'', 0xE1D),
   (''MSR_C2_BOX_FILTER1'', 0xE1E), (''MSR_C2_BOX_STATUS'', 0xE1F), (''MSR_C2_PMON_CTR0'', 0xE20),
   (''MSR_C2_PMON_CTR1'', 0xE21), (''MSR_C2_PMON_CTR2'', 0xE22), (''MSR_C2_PMON_CTR3'', 0xE23),
   (''MSR_C3_PMON_BOX_CTL'', 0xE24), (''MSR_C3_PMON_EVNTSEL0'', 0xE25), (''MSR_C3_PMON_EVNTSEL1'', 0xE26),
   (''MSR_C3_PMON_EVNTSEL2'', 0xE27), (''MSR_C3_PMON_EVNTSEL3'', 0xE28), (''MSR_C3_BOX_FILTER'', 0xE29),
   (''MSR_C3_BOX_FILTER1'', 0xE2A), (''MSR_C3_BOX_STATUS'', 0xE2B), (''MSR_C3_PMON_CTR0'', 0xE2C),
   (''MSR_C3_PMON_CTR1'', 0xE2D), (''MSR_C3_PMON_CTR2'', 0xE2E), (''MSR_C3_PMON_CTR3'', 0xE2F),
   (''MSR_C4_PMON_BOX_CTL'', 0xE30), (''MSR_C4_PMON_EVNTSEL0'', 0xE31), (''MSR_C4_PMON_EVNTSEL1'', 0xE32),
   (''MSR_C4_PMON_EVNTSEL2'', 0xE33), (''MSR_C4_PMON_EVNTSEL3'', 0xE34), (''MSR_C4_BOX_FILTER'', 0xE35),
   (''MSR_C4_BOX_FILTER1'', 0xE36), (''MSR_C4_BOX_STATU'', 0xE37), (''MSR_C4_PMON_CTR0'', 0xE38),
   (''MSR_C4_PMON_CTR1'', 0xE39), (''MSR_C4_PMON_CTR2'', 0xE3A), (''MSR_C4_PMON_CTR3'', 0xE3B),
   (''MSR_C5_PMON_BOX_CTL'', 0xE3C), (''MSR_C5_PMON_EVNTSEL0'', 0xE3D), (''MSR_C5_PMON_EVNTSEL1'', 0xE3E),
   (''MSR_C5_PMON_EVNTSEL2'', 0xE3F), (''MSR_C5_PMON_EVNTSEL3'', 0xE40), (''MSR_C5_BOX_FILTER'', 0xE41),
   (''MSR_C5_BOX_FILTER1'', 0xE42), (''MSR_C5_BOX_STATU'', 0xE43), (''MSR_C5_PMON_CTR0'', 0xE44),
   (''MSR_C5_PMON_CTR1'', 0xE45), (''MSR_C5_PMON_CTR2'', 0xE46), (''MSR_C5_PMON_CTR3'', 0xE47),
   (''MSR_C6_PMON_BOX_CTL'', 0xE48), (''MSR_C6_PMON_EVNTSEL0'', 0xE49), (''MSR_C6_PMON_EVNTSEL1'', 0xE4A),
   (''MSR_C6_PMON_EVNTSEL2'', 0xE4B), (''MSR_C6_PMON_EVNTSEL3'', 0xE4C), (''MSR_C6_BOX_FILTER'', 0xE4D),
   (''MSR_C6_BOX_FILTER1'', 0xE4E), (''MSR_C6_BOX_STATU'', 0xE4F), (''MSR_C6_PMON_CTR0'', 0xE50),
   (''MSR_C6_PMON_CTR1'', 0xE51), (''MSR_C6_PMON_CTR2'', 0xE52), (''MSR_C6_PMON_CTR3'', 0xE53),
   (''MSR_C7_PMON_BOX_CTL'', 0xE54), (''MSR_C7_PMON_EVNTSEL0'', 0xE55), (''MSR_C7_PMON_EVNTSEL1'', 0xE56),
   (''MSR_C7_PMON_EVNTSEL2'', 0xE57), (''MSR_C7_PMON_EVNTSEL3'', 0xE58), (''MSR_C7_BOX_FILTER'', 0xE59),
   (''MSR_C7_BOX_FILTER1'', 0xE5A), (''MSR_C7_BOX_STATU'', 0xE5B), (''MSR_C7_PMON_CTR0'', 0xE5C),
   (''MSR_C7_PMON_CTR1'', 0xE5D), (''MSR_C7_PMON_CTR2'', 0xE5E), (''MSR_C7_PMON_CTR3'', 0xE5F),
   (''MSR_C8_PMON_BOX_CTL'', 0xE60), (''MSR_C8_PMON_EVNTSEL0'', 0xE61), (''MSR_C8_PMON_EVNTSEL1'', 0xE62),
   (''MSR_C8_PMON_EVNTSEL2'', 0xE63), (''MSR_C8_PMON_EVNTSEL3'', 0xE64), (''MSR_C8_BOX_FILTER'', 0xE65),
   (''MSR_C8_BOX_FILTER1'', 0xE66), (''MSR_C8_BOX_STATU'', 0xE67), (''MSR_C8_PMON_CTR0'', 0xE68),
   (''MSR_C8_PMON_CTR1'', 0xE69), (''MSR_C8_PMON_CTR2'', 0xE6A), (''MSR_C8_PMON_CTR3'', 0xE6B),
   (''MSR_C9_PMON_BOX_CTL'', 0xE6C), (''MSR_C9_PMON_EVNTSEL0'', 0xE6D), (''MSR_C9_PMON_EVNTSEL1'', 0xE6E),
   (''MSR_C9_PMON_EVNTSEL2'', 0xE6F), (''MSR_C9_PMON_EVNTSEL3'', 0xE70), (''MSR_C9_BOX_FILTER'', 0xE71),
   (''MSR_C9_BOX_FILTER1'', 0xE72), (''MSR_C9_BOX_STATU'', 0xE73), (''MSR_C9_PMON_CTR0'', 0xE74),
   (''MSR_C9_PMON_CTR1'', 0xE75), (''MSR_C9_PMON_CTR2'', 0xE76), (''MSR_C9_PMON_CTR3'', 0xE77),
   (''MSR_C10_PMON_BOX_CTL'', 0xE78), (''MSR_C10_PMON_EVNTSEL0'', 0xE79), (''MSR_C10_PMON_EVNTSEL1'', 0xE7A),
   (''MSR_C10_PMON_EVNTSEL2'', 0xE7B), (''MSR_C10_PMON_EVNTSEL3'', 0xE7C), (''MSR_C10_BOX_FILTER'', 0xE7D),
   (''MSR_C10_BOX_FILTER1'', 0xE7E), (''MSR_C10_BOX_STATU'', 0xE7F), (''MSR_C10_PMON_CTR0'', 0xE80),
   (''MSR_C10_PMON_CTR1'', 0xE81), (''MSR_C10_PMON_CTR2'', 0xE82), (''MSR_C10_PMON_CTR3'', 0xE83),
   (''MSR_C11_PMON_BOX_CTL'', 0xE84), (''MSR_C11_PMON_EVNTSEL0'', 0xE85), (''MSR_C11_PMON_EVNTSEL1'', 0xE86),
   (''MSR_C11_PMON_EVNTSEL2'', 0xE87), (''MSR_C11_PMON_EVNTSEL3'', 0xE88), (''MSR_C11_BOX_FILTER'', 0xE89),
   (''MSR_C11_BOX_FILTER1'', 0xE8A), (''MSR_C11_BOX_STATUS'', 0xE8B), (''MSR_C11_PMON_CTR0'', 0xE8C),
   (''MSR_C11_PMON_CTR1'', 0xE8D), (''MSR_C11_PMON_CTR2'', 0xE8E), (''MSR_C11_PMON_CTR3'', 0xE8F),
   (''MSR_C12_PMON_BOX_CTL'', 0xE90), (''MSR_C12_PMON_EVNTSEL0'', 0xE91), (''MSR_C12_PMON_EVNTSEL1'', 0xE92),
   (''MSR_C12_PMON_EVNTSEL2'', 0xE93), (''MSR_C12_PMON_EVNTSEL3'', 0xE94), (''MSR_C12_BOX_FILTER'', 0xE95),
   (''MSR_C12_BOX_FILTER1'', 0xE96), (''MSR_C12_BOX_STATUS'', 0xE97), (''MSR_C12_PMON_CTR0'', 0xE98),
   (''MSR_C12_PMON_CTR1'', 0xE99), (''MSR_C12_PMON_CTR2'', 0xE9A), (''MSR_C12_PMON_CTR3'', 0xE9B),
   (''MSR_C13_PMON_BOX_CTL'', 0xE9C), (''MSR_C13_PMON_EVNTSEL0'', 0xE9D), (''MSR_C13_PMON_EVNTSEL1'', 0xE9E),
   (''MSR_C13_PMON_EVNTSEL2'', 0xE9F), (''MSR_C13_PMON_EVNTSEL3'', 0xEA0), (''MSR_C13_BOX_FILTER'', 0xEA1),
   (''MSR_C13_BOX_FILTER1'', 0xEA2), (''MSR_C13_BOX_STATUS'', 0xEA3), (''MSR_C13_PMON_CTR0'', 0xEA4),
   (''MSR_C13_PMON_CTR1'', 0xEA5), (''MSR_C13_PMON_CTR2'', 0xEA6), (''MSR_C13_PMON_CTR3'', 0xEA7),
   (''MSR_C14_PMON_BOX_CTL'', 0xEA8), (''MSR_C14_PMON_EVNTSEL0'', 0xEA9), (''MSR_C14_PMON_EVNTSEL1'', 0xEAA),
   (''MSR_C14_PMON_EVNTSEL2'', 0xEAB), (''MSR_C14_PMON_EVNTSEL3'', 0xEAC), (''MSR_C14_BOX_FILTER'', 0xEAD),
   (''MSR_C14_BOX_FILTER1'', 0xEAE), (''MSR_C14_BOX_STATUS'', 0xEAF), (''MSR_C14_PMON_CTR0'', 0xEB0),
   (''MSR_C14_PMON_CTR1'', 0xEB1), (''MSR_C14_PMON_CTR2'', 0xEB2), (''MSR_C14_PMON_CTR3'', 0xEB3),
   (''MSR_C15_PMON_BOX_CTL'', 0xEB4), (''MSR_C15_PMON_EVNTSEL0'', 0xEB5), (''MSR_C15_PMON_EVNTSEL1'', 0xEB6),
   (''MSR_C15_PMON_EVNTSEL2'', 0xEB7), (''MSR_C15_PMON_EVNTSEL3'', 0xEB8), (''MSR_C15_BOX_FILTER'', 0xEB9),
   (''MSR_C15_BOX_FILTER1'', 0xEBA), (''MSR_C15_BOX_STATUS'', 0xEBB), (''MSR_C15_PMON_CTR0'', 0xEBC),
   (''MSR_C15_PMON_CTR1'', 0xEBD), (''MSR_C15_PMON_CTR2'', 0xEBE), (''MSR_C15_PMON_CTR3'', 0xEBF),
   (''MSR_C16_PMON_BOX_CTL'', 0xEC0), (''MSR_C16_PMON_EVNTSEL0'', 0xEC1), (''MSR_C16_PMON_EVNTSEL1'', 0xEC2),
   (''MSR_C16_PMON_EVNTSEL2'', 0xEC3), (''MSR_C16_PMON_EVNTSEL3'', 0xEC4), (''MSR_C16_BOX_FILTER'', 0xEC5),
   (''MSR_C16_BOX_FILTER1'', 0xEC6), (''MSR_C16_BOX_STATUS'', 0xEC7), (''MSR_C16_PMON_CTR0'', 0xEC8),
   (''MSR_C16_PMON_CTR1'', 0xEC9), (''MSR_C16_PMON_CTR2'', 0xECA), (''MSR_C16_PMON_CTR3'', 0xECB),
   (''MSR_C17_PMON_BOX_CTL'', 0xECC), (''MSR_C17_PMON_EVNTSEL0'', 0xECD), (''MSR_C17_PMON_EVNTSEL1'', 0xECE),
   (''MSR_C17_PMON_EVNTSEL2'', 0xECF), (''MSR_C17_PMON_EVNTSEL3'', 0xED0), (''MSR_C17_BOX_FILTER'', 0xED1),
   (''MSR_C17_BOX_FILTER1'', 0xED2), (''MSR_C17_BOX_STATUS'', 0xED3), (''MSR_C17_PMON_CTR0'', 0xED4),
   (''MSR_C17_PMON_CTR1'', 0xED5), (''MSR_C17_PMON_CTR2'', 0xED6), (''MSR_C17_PMON_CTR3'', 0xED7)]"

definition rapl_57 :: "macro list" where [header_defs]:
  "rapl_57 = [
   (''MSR_RAPL_POWER_UNIT'', 0x606), (''MSR_PKG_POWER_LIMIT'', 0x610), (''MSR_PKG_ENERGY_STATUS'', 0x611),
   (''MSR_PKG_POWER_INFO'', 0x614), (''MSR_PKG_PERF_STATUS'', 0x613), (''MSR_DRAM_POWER_LIMIT'', 0x618),
   (''MSR_DRAM_ENERGY_STATUS'', 0x619), (''MSR_DRAM_PERF_STATUS'', 0x61B), (''MSR_DRAM_POWER_INFO'', 0x61C)]"

definition thermal_57 :: "macro list" where [header_defs]:
  "thermal_57 = [
   (''IA32_THERM_INTERRUPT'', 0x19B), (''IA32_THERM_STATUS'', 0x19C), (''MSR_THERM2_CTL'', 0x19D),
   (''IA32_PACKAGE_THERM_STATUS'', 0x1B1), (''IA32_PACKAGE_THERM_INTERRUPT'', 0x1B2),
   (''MSR_TEMPERATURE_TARGET'', 0x1A2)]"

definition turbo_57 :: "macro list" where [header_defs]:
  "turbo_57 = [
   (''IA32_MISC_ENABLE'', 0x1A0), (''IA32_PERF_CTL'', 0x199), (''MSR_TURBO_ACTIVATION_RATIO'', 0x64C),
   (''MSR_TURBO_RATIO_LIMIT'', 0x1AD), (''MSR_TURBO_RATIO_LIMIT1'', 0x1AE)]"

definition Intel57 :: "macro list" where [header_defs]:
  "Intel57 = arch_57 @ clocks_57 @ counters_57 @ boxes_57 @ rapl_57 @ thermal_57 @ turbo_57"

section \<open>The macros the model uses\<close>

text \<open>The registers of clocks, counters, power, temperature and \<open>IA32_MISC_ENABLE\<close>.\<close>

definition model_common :: "macro list" where
  "model_common = [
   (''IA32_MPERF'', uint IA32_MPERF), (''IA32_APERF'', uint IA32_APERF),
   (''IA32_TIME_STAMP_COUNTER'', uint IA32_TIME_STAMP_COUNTER),
   (''IA32_CLOCK_MODULATION'', uint IA32_CLOCK_MODULATION), (''IA32_PERF_STATUS'', uint IA32_PERF_STATUS),
   (''IA32_PERF_CTL'', uint IA32_PERF_CTL), (''IA32_FIXED_CTR_CTRL'', uint IA32_FIXED_CTR_CTRL),
   (''IA32_PERF_GLOBAL_CTRL'', uint IA32_PERF_GLOBAL_CTRL),
   (''IA32_PERF_GLOBAL_OVF_CTRL'', uint IA32_PERF_GLOBAL_OVF_CTRL), (''IA32_FIXED_CTR0'', uint IA32_FIXED_CTR0),
   (''IA32_FIXED_CTR1'', uint IA32_FIXED_CTR1), (''IA32_FIXED_CTR2'', uint IA32_FIXED_CTR2),
   (''IA32_PMC0'', uint IA32_PMC0), (''IA32_PMC1'', uint IA32_PMC1), (''IA32_PERFEVTSEL0'', uint IA32_PERFEVTSEL0),
   (''IA32_PERFEVTSEL1'', uint IA32_PERFEVTSEL1), (''IA32_MISC_ENABLE'', uint IA32_MISC_ENABLE),
   (''MSR_RAPL_POWER_UNIT'', uint MSR_RAPL_POWER_UNIT), (''MSR_PKG_POWER_LIMIT'', uint MSR_PKG_POWER_LIMIT),
   (''MSR_PKG_ENERGY_STATUS'', uint MSR_PKG_ENERGY_STATUS), (''MSR_PKG_POWER_INFO'', uint MSR_PKG_POWER_INFO),
   (''MSR_PKG_PERF_STATUS'', uint MSR_PKG_PERF_STATUS), (''MSR_DRAM_POWER_LIMIT'', uint MSR_DRAM_POWER_LIMIT),
   (''MSR_DRAM_ENERGY_STATUS'', uint MSR_DRAM_ENERGY_STATUS), (''MSR_DRAM_PERF_STATUS'', uint MSR_DRAM_PERF_STATUS),
   (''MSR_DRAM_POWER_INFO'', uint MSR_DRAM_POWER_INFO), (''IA32_THERM_STATUS'', uint IA32_THERM_STATUS),
   (''MSR_THERM2_CTL'', uint MSR_THERM2_CTL), (''IA32_THERM_INTERRUPT'', uint IA32_THERM_INTERRUPT),
   (''IA32_PACKAGE_THERM_STATUS'', uint IA32_PACKAGE_THERM_STATUS),
   (''IA32_PACKAGE_THERM_INTERRUPT'', uint IA32_PACKAGE_THERM_INTERRUPT),
   (''MSR_TEMPERATURE_TARGET'', uint MSR_TEMPERATURE_TARGET)]"

text \<open>The performance counters from the third on.\<close>

definition model_pmc :: "macro list" where
  "model_pmc = [
   (''IA32_PMC2'', uint IA32_PMC2), (''IA32_PMC3'', uint IA32_PMC3), (''IA32_PMC4'', uint IA32_PMC4),
   (''IA32_PMC5'', uint IA32_PMC5), (''IA32_PMC6'', uint IA32_PMC6), (''IA32_PMC7'', uint IA32_PMC7),
   (''IA32_PERFEVTSEL2'', uint IA32_PERFEVTSEL2), (''IA32_PERFEVTSEL3'', uint IA32_PERFEVTSEL3),
   (''IA32_PERFEVTSEL4'', uint IA32_PERFEVTSEL4), (''IA32_PERFEVTSEL5'', uint IA32_PERFEVTSEL5),
   (''IA32_PERFEVTSEL6'', uint IA32_PERFEVTSEL6), (''IA32_PERFEVTSEL7'', uint IA32_PERFEVTSEL7)]"

text \<open>The counters of the power control unit.\<close>

definition model_pcu :: "macro list" where
  "model_pcu = [
   (''MSR_PCU_PMON_EVNTSEL0'', uint MSR_PCU_PMON_EVNTSEL0), (''MSR_PCU_PMON_EVNTSEL1'', uint MSR_PCU_PMON_EVNTSEL1),
   (''MSR_PCU_PMON_EVNTSEL2'', uint MSR_PCU_PMON_EVNTSEL2), (''MSR_PCU_PMON_EVNTSEL3'', uint MSR_PCU_PMON_EVNTSEL3),
   (''MSR_PCU_PMON_CTR0'', uint MSR_PCU_PMON_CTR0), (''MSR_PCU_PMON_CTR1'', uint MSR_PCU_PMON_CTR1),
   (''MSR_PCU_PMON_CTR2'', uint MSR_PCU_PMON_CTR2), (''MSR_PCU_PMON_CTR3'', uint MSR_PCU_PMON_CTR3)]"

text \<open>The residencies of the C-states.\<close>

definition model_cres :: "macro list" where
  "model_cres = [
   (''MSR_PKG_C2_RESIDENCY'', uint MSR_PKG_C2_RESIDENCY), (''MSR_PKG_C3_RESIDENCY'', uint MSR_PKG_C3_RESIDENCY),
   (''MSR_PKG_C6_RESIDENCY'', uint MSR_PKG_C6_RESIDENCY), (''MSR_PKG_C7_RESIDENCY'', uint MSR_PKG_C7_RESIDENCY),
   (''MSR_CORE_C3_RESIDENCY'', uint MSR_CORE_C3_RESIDENCY), (''MSR_CORE_C6_RESIDENCY'', uint MSR_CORE_C6_RESIDENCY),
   (''MSR_CORE_C7_RESIDENCY'', uint MSR_CORE_C7_RESIDENCY)]"

text \<open>The turbo registers.\<close>

definition model_turbo :: "macro list" where
  "model_turbo = [
   (''MSR_TURBO_ACTIVATION_RATIO'', uint MSR_TURBO_ACTIVATION_RATIO),
   (''MSR_TURBO_RATIO_LIMIT'', uint MSR_TURBO_RATIO_LIMIT), (''MSR_TURBO_RATIO_LIMIT1'', uint MSR_TURBO_RATIO_LIMIT1)]"

text \<open>The devices and functions of the memory controllers.\<close>

definition model_imc_dev :: "macro list" where
  "model_imc_dev = [
   (''IMC0_DEV'', uint IMC0_DEV), (''IMC1_DEV'', uint IMC1_DEV), (''IMC_CH0_FUNC'', uint IMC_CH0_FUNC),
   (''IMC_CH1_FUNC'', uint IMC_CH1_FUNC), (''IMC_CH2_FUNC'', uint IMC_CH2_FUNC), (''IMC_CH3_FUNC'', uint IMC_CH3_FUNC)]"

text \<open>The registers and events of the memory controllers, less the configuration registers and counters, which are lists in Csr_Imc.\<close>

definition model_imc :: "macro list" where
  "model_imc = [
   (''CSR_PMONUNITCTRL'', uint CSR_PMONUNITCTRL), (''CSR_PMONUNITSTAT'', uint CSR_PMONUNITSTAT),
   (''EVT_ACT_COUNT'', uint EVT_ACT_COUNT), (''EVT_PRE_COUNT'', uint EVT_PRE_COUNT),
   (''EVT_CAS_COUNT'', uint EVT_CAS_COUNT), (''EVT_RPQ_INSERTS'', uint EVT_RPQ_INSERTS),
   (''EVT_WPQ_INSERTS'', uint EVT_WPQ_INSERTS), (''UMASK_CAS_RD'', uint UMASK_CAS_RD),
   (''UMASK_CAS_WR'', uint UMASK_CAS_WR), (''UMASK_CAS_ALL'', uint UMASK_CAS_ALL),
   (''UMASK_PRE_PAGE_MISS'', uint UMASK_PRE_PAGE_MISS)]"


text \<open>The configuration registers and counters of the memory controllers.\<close>

definition model_imc_regs :: "macro list" where
  "model_imc_regs = zip [''CSR_PMONCTRCFG0'', ''CSR_PMONCTRCFG1'', ''CSR_PMONCTRCFG2'', ''CSR_PMONCTRCFG3'']
       (map uint CSR_PMONCTRCFG) @
     zip [''CSR_PMONCTR0'', ''CSR_PMONCTR1'', ''CSR_PMONCTR2'', ''CSR_PMONCTR3''] (map uint CSR_PMONCTR)"

definition model_macros :: "macro list" where
  "model_macros = model_common @ model_pmc @ model_pcu @ model_cres @ model_turbo @ model_imc_dev @ model_imc @ model_imc_regs"

text \<open>A header has no name for the values of the macros.\<close>

definition unknown_to :: "macro list \<Rightarrow> macro list \<Rightarrow> bool" where
  "unknown_to h ms \<longleftrightarrow> list_all (\<lambda>v. v \<notin> set (map snd h)) (map snd ms)"

section \<open>The headers against the model\<close>

text \<open>The headers of the later models differ in the number of the processor only.\<close>

lemma later_equal:
  "Intel4F = arch_4F @ drop 2 Intel3F" "Intel55 = arch_55 @ drop 2 Intel3F"
  by (simp_all only: header_defs append.simps drop_Suc_Cons drop_0 numeral_2_eq_2 One_nat_def)

lemmas macro_values = msr_addrs IMC0_DEV_def IMC1_DEV_def IMC_CH0_FUNC_def IMC_CH1_FUNC_def IMC_CH2_FUNC_def IMC_CH3_FUNC_def
  CSR_PMONUNITCTRL_def CSR_PMONUNITSTAT_def EVT_ACT_COUNT_def EVT_PRE_COUNT_def EVT_CAS_COUNT_def EVT_RPQ_INSERTS_def
  EVT_WPQ_INSERTS_def UMASK_CAS_RD_def UMASK_CAS_WR_def UMASK_CAS_ALL_def UMASK_PRE_PAGE_MISS_def

lemma common_2D: "set model_common \<subseteq> set Intel2D"
proof -
  have "set model_common \<subseteq> set (clocks_2D @ counters_2D @ misc_2D @ rapl_2D @ thermal_2D)"
    by (simp add: model_common_def clocks_2D_def counters_2D_def misc_2D_def rapl_2D_def thermal_2D_def macro_values)
  then show ?thesis by (auto simp: Intel2D_def)
qed

lemma pmc_2D: "set model_pmc \<subseteq> set Intel2D"
proof -
  have "set model_pmc \<subseteq> set (counters_2D)"
    by (simp add: model_pmc_def counters_2D_def macro_values)
  then show ?thesis by (auto simp: Intel2D_def)
qed

lemma cres_2D: "set model_cres \<subseteq> set Intel2D"
proof -
  have "set model_cres \<subseteq> set (misc_2D)"
    by (simp add: model_cres_def misc_2D_def macro_values)
  then show ?thesis by (auto simp: Intel2D_def)
qed

lemma imc_2D: "set model_imc \<subseteq> set Intel2D"
proof -
  have "set model_imc \<subseteq> set (imc_2D @ events_2D)"
    by (simp add: model_imc_def imc_2D_def events_2D_def macro_values)
  then show ?thesis by (auto simp: Intel2D_def)
qed

lemma common_3E: "set model_common \<subseteq> set Intel3E"
proof -
  have "set model_common \<subseteq> set (clocks_3E @ counters_3E @ misc_3E @ rapl_3E @ thermal_3E)"
    by (simp add: model_common_def clocks_3E_def counters_3E_def misc_3E_def rapl_3E_def thermal_3E_def macro_values)
  then show ?thesis by (auto simp: Intel3E_def)
qed

lemma pmc_3E: "set model_pmc \<subseteq> set Intel3E"
proof -
  have "set model_pmc \<subseteq> set (counters_3E)"
    by (simp add: model_pmc_def counters_3E_def macro_values)
  then show ?thesis by (auto simp: Intel3E_def)
qed

lemma cres_3E: "set model_cres \<subseteq> set Intel3E"
proof -
  have "set model_cres \<subseteq> set (misc_3E)"
    by (simp add: model_cres_def misc_3E_def macro_values)
  then show ?thesis by (auto simp: Intel3E_def)
qed

lemma imc_3E: "set model_imc \<subseteq> set Intel3E"
proof -
  have "set model_imc \<subseteq> set (imc_3E @ events_3E)"
    by (simp add: model_imc_def imc_3E_def events_3E_def macro_values)
  then show ?thesis by (auto simp: Intel3E_def)
qed

lemma turbo_3E: "set model_turbo \<subseteq> set Intel3E"
proof -
  have "set model_turbo \<subseteq> set (turbo_3E)"
    by (simp add: model_turbo_def turbo_3E_def macro_values)
  then show ?thesis by (auto simp: Intel3E_def)
qed

lemma imc_regs_3E: "set model_imc_regs \<subseteq> set Intel3E"
proof -
  have "set model_imc_regs \<subseteq> set (imc_3E)"
    by (simp add: model_imc_regs_def CSR_PMONCTRCFG_def CSR_PMONCTR_def imc_3E_def macro_values)
  then show ?thesis by (auto simp: Intel3E_def)
qed

lemma common_3F: "set model_common \<subseteq> set Intel3F"
proof -
  have "set model_common \<subseteq> set (clocks_3F @ counters_3F @ misc_3F @ rapl_3F @ thermal_3F)"
    by (simp add: model_common_def clocks_3F_def counters_3F_def misc_3F_def rapl_3F_def thermal_3F_def macro_values)
  then show ?thesis by (auto simp: Intel3F_def)
qed

lemma pmc_3F: "set model_pmc \<subseteq> set Intel3F"
proof -
  have "set model_pmc \<subseteq> set (counters_3F)"
    by (simp add: model_pmc_def counters_3F_def macro_values)
  then show ?thesis by (auto simp: Intel3F_def)
qed

lemma cres_3F: "set model_cres \<subseteq> set Intel3F"
proof -
  have "set model_cres \<subseteq> set (misc_3F)"
    by (simp add: model_cres_def misc_3F_def macro_values)
  then show ?thesis by (auto simp: Intel3F_def)
qed

lemma imc_3F: "set model_imc \<subseteq> set Intel3F"
proof -
  have "set model_imc \<subseteq> set (imc_3F @ events_3F)"
    by (simp add: model_imc_def imc_3F_def events_3F_def macro_values)
  then show ?thesis by (auto simp: Intel3F_def)
qed

lemma turbo_3F: "set model_turbo \<subseteq> set Intel3F"
proof -
  have "set model_turbo \<subseteq> set (turbo_3F)"
    by (simp add: model_turbo_def turbo_3F_def macro_values)
  then show ?thesis by (auto simp: Intel3F_def)
qed

lemma imc_regs_3F: "set model_imc_regs \<subseteq> set Intel3F"
proof -
  have "set model_imc_regs \<subseteq> set (imc_3F)"
    by (simp add: model_imc_regs_def CSR_PMONCTRCFG_def CSR_PMONCTR_def imc_3F_def macro_values)
  then show ?thesis by (auto simp: Intel3F_def)
qed

lemma pcu_3F: "set model_pcu \<subseteq> set Intel3F"
proof -
  have "set model_pcu \<subseteq> set (counters_3F)"
    by (simp add: model_pcu_def counters_3F_def macro_values)
  then show ?thesis by (auto simp: Intel3F_def)
qed

lemma imc_dev_3F: "set model_imc_dev \<subseteq> set Intel3F"
proof -
  have "set model_imc_dev \<subseteq> set (imc_3F)"
    by (simp add: model_imc_dev_def imc_3F_def macro_values)
  then show ?thesis by (auto simp: Intel3F_def)
qed

lemma common_57: "set model_common \<subseteq> set Intel57"
proof -
  have "set model_common \<subseteq> set (clocks_57 @ counters_57 @ rapl_57 @ thermal_57 @ turbo_57)"
    by (simp add: model_common_def clocks_57_def counters_57_def rapl_57_def thermal_57_def turbo_57_def macro_values)
  then show ?thesis by (auto simp: Intel57_def)
qed

lemma turbo_57: "set model_turbo \<subseteq> set Intel57"
proof -
  have "set model_turbo \<subseteq> set (turbo_57)"
    by (simp add: model_turbo_def turbo_57_def macro_values)
  then show ?thesis by (auto simp: Intel57_def)
qed

lemma pcu_unknown: "unknown_to Intel3E model_pcu" "unknown_to Intel2D model_pcu"
  by (simp_all add: unknown_to_def header_defs model_pcu_def macro_values)

lemma turbo_unknown: "unknown_to Intel2D model_turbo"
  by (simp add: unknown_to_def header_defs model_turbo_def macro_values)

lemma unknown_57: "unknown_to Intel57 (model_pmc @ model_pcu @ model_cres)"
  by (simp add: unknown_to_def header_defs model_pmc_def model_pcu_def model_cres_def macro_values)

section \<open>One name for every address\<close>

text \<open>
  The model-specific registers of a header.  Two macros of the same address are the same macro, so
  what the library writes under one name is never read under another.
\<close>

definition msrs_2D :: "macro list" where
  "msrs_2D = clocks_2D @ counters_2D @ boxes_2D @ misc_2D @ rapl_2D @ thermal_2D @ turbo_2D"

definition msrs_3E :: "macro list" where
  "msrs_3E = clocks_3E @ counters_3E @ boxes_3E @ misc_3E @ rapl_3E @ thermal_3E @ turbo_3E"

definition msrs_3F :: "macro list" where
  "msrs_3F = clocks_3F @ counters_3F @ boxes_3F @ misc_3F @ rapl_3F @ thermal_3F @ turbo_3F"

definition msrs_57 :: "macro list" where
  "msrs_57 = clocks_57 @ counters_57 @ boxes_57 @ rapl_57 @ thermal_57 @ turbo_57"

definition one_name :: "macro list \<Rightarrow> bool" where
  "one_name h \<longleftrightarrow> (\<forall>p \<in> set h. \<forall>q \<in> set h. snd p = snd q \<longrightarrow> p = q)"

lemma one_nameI: "set h = set g \<Longrightarrow> distinct (map snd g) \<Longrightarrow> one_name h"
  by (auto simp: one_name_def distinct_map inj_on_def)

lemma repeated:
  "set (take 2 turbo_3F) \<subseteq> set (clocks_3F @ misc_3F)" "set (take 2 turbo_3E) \<subseteq> set (clocks_3E @ misc_3E)"
  "set (take 2 turbo_2D) \<subseteq> set (clocks_2D @ misc_2D)"
  by (simp_all add: header_defs)

lemma distinct_3F:
  "distinct (map snd (clocks_3F @ counters_3F @ boxes_3F @ misc_3F @ rapl_3F @ thermal_3F @ drop 2 turbo_3F))"
  by (simp add: header_defs)

lemma distinct_3E:
  "distinct (map snd (clocks_3E @ counters_3E @ boxes_3E @ misc_3E @ rapl_3E @ thermal_3E @ drop 2 turbo_3E))"
  by (simp add: header_defs)

lemma distinct_2D:
  "distinct (map snd (clocks_2D @ counters_2D @ boxes_2D @ misc_2D @ rapl_2D @ thermal_2D @ drop 2 turbo_2D))"
  by (simp add: header_defs)

lemma distinct_57:
  "distinct (map snd (clocks_57 @ counters_57 @ boxes_57 @ rapl_57 @ thermal_57 @ take 1 turbo_57 @ drop 2 turbo_57))"
  "turbo_57 ! 1 \<in> set clocks_57" "turbo_57 = take 1 turbo_57 @ turbo_57 ! 1 # drop 2 turbo_57"
  by (simp_all add: header_defs)

lemma set_take_drop: "set xs = set (take n xs) \<union> set (drop n xs)"
  by (simp flip: set_append)

lemma one_name_msrs: "one_name msrs_3F" "one_name msrs_3E" "one_name msrs_2D" "one_name msrs_57"
proof -
  note t = set_take_drop [of turbo_3F 2] set_take_drop [of turbo_3E 2] set_take_drop [of turbo_2D 2]
    arg_cong [OF distinct_57(3), of set, unfolded set_append list.set]
  show "one_name msrs_3F" by (rule one_nameI [OF _ distinct_3F]) (use repeated(1) in \<open>auto simp: msrs_3F_def t(1)\<close>)
  show "one_name msrs_3E" by (rule one_nameI [OF _ distinct_3E]) (use repeated(2) in \<open>auto simp: msrs_3E_def t(2)\<close>)
  show "one_name msrs_2D" by (rule one_nameI [OF _ distinct_2D]) (use repeated(3) in \<open>auto simp: msrs_2D_def t(3)\<close>)
  show "one_name msrs_57" by (rule one_nameI [OF _ distinct_57(1)]) (use distinct_57(2) in \<open>auto simp: msrs_57_def t(4)\<close>)
qed


end
