(* ===== verification/Spec2Isabelle.thy ===== *)
theory Spec2Isabelle
  imports Libmsr_Error Memhdlr Cpuid Msr_Core_Props Msr_Batch_Props Rapl_Dump Thermal_Props Counters_Props Msr_Clocks Msr_Misc Csr_Props Batch_Refine Highlander Msrmod Powmon_Main Autoconf Platform_Headers
begin

text \<open>
  libmsr lets programs read and write the model-specific registers of Intel processors: power
  limits and energy counters (RAPL), thermal status, performance counters, clocks, and the uncore
  registers of the memory controllers.  This development models the library, its command-line tool,
  the power monitors under \<open>src/demoapps/powmon\<close> and the program that selects the platform header,
  and proves what they do to the registers.

  \<^bold>\<open>The program.\<close>  \<open>msr_core.c\<close> is the ground: it finds the topology of the machine (through
  hwloc), opens one descriptor per logical processor, reads and writes single registers, and runs
  \<^emph>\<open>batches\<close>, arrays of register operations that a kernel driver, or a loop of single accesses,
  carries out at once.  Every other component loads its registers into a batch, keeps pointers to
  the data fields of the operations, calls \<open>read_batch\<close> and looks through the pointers, or
  writes through them and calls \<open>write_batch\<close>.  Most functions keep their state in static
  variables that are initialised by the first call.  \<open>memhdlr.c\<close> tracks all allocations for
  \<open>finalize_msr\<close>.  \<open>csr_core.c\<close> is a second batch interface, for uncore registers.  The monitors
  elect one process per node (\<open>highlander.c\<close>), which polls RAPL in a thread of its own.

  \<^bold>\<open>How it is modelled.\<close>  A function of the library is a function from the state of the library
  to \<open>Some (result, state)\<close>, or to \<open>None\<close> where the C program has no defined result (a null,
  dangling or unset pointer, an index outside of an array, a conversion out of range).  The static
  variables of each file are the fields of a record that extends the record of the files it calls
  (\<open>lib\<close>, \<open>rapl_lib\<close>, \<open>mod_lib\<close>; \<open>monitor\<close> and \<open>pm\<close> for the monitors).  A pointer into a
  batch is a cell, the block of the batch and an index.  Machine integers are words of their width.
  The machine and the operating system are parameters in the record \<open>env\<close> (descriptors, \<open>pread\<close>,
  \<open>pwrite\<close>, \<open>ioctl\<close>, clock, the CPUID instruction, the answers of hwloc); what the documentation
  promises of them is stated as hypotheses (\<open>msr_files\<close>, \<open>batch_driver\<close>, \<open>hw_wf\<close>,
  \<open>clock_only\<close>), which the concrete machine of Msr_Sim meets.  All witnesses run on it.  A
  \<open>double\<close> is a real number.  Loops are recursions over lists or \<open>foldo\<close> over ranges of indices.
  \<open>init_loop\<close> steps back and starts again; it ends by a lexicographic measure.  \<open>catch_up\<close> may
  run forever and is a \<open>partial_function (option)\<close>, whose \<open>None\<close> is that it never returns; theorem
  \<open>timer_sleep_outcome\<close> says exactly when.  There is no fuel.

  \<^bold>\<open>Theories.\<close>
  \<^item> Libmsr_Prelude: words, checked arrays, \<open>foldo\<close>.  Msr_Bits: the macros of \<open>cpuid.h\<close> and
    the read-modify-write idiom of all setters.  Platform: the register addresses and batch numbers.
    C_Numbers: \<open>strtol\<close>, \<open>atof\<close>, \<open>getopt\<close> and number formats.
  \<^item> Libmsr_Error, Memhdlr, Cpuid: \<open>libmsr_error.c\<close>, \<open>memhdlr.c\<close>, \<open>cpuid.c\<close>.
  \<^item> Msr_Topology, Msr_Core, Msr_Batch: \<open>msr_core.c\<close>.  Msr_Access has the interface \<open>reg_io\<close>
    (single registers), Msr_Batch_Props the interface \<open>op_buffer\<close> (a bounded array of operations)
    and what loading and reading a batch does, Msr_Batch_IO the interface \<open>batch_regs\<close> (a batch
    as a window on registers) and \<open>reg_codec\<close> (a setter and getter of fields).  Msr_Core_Props has
    the theorems about the descriptor table, the numbering and single accesses; Msr_Frame says what
    these operations leave alone.  Batch_View and Batch_Refine state the promise of the library as
    an abstract machine of registers and buffers and prove, by the locale \<open>simulation\<close>, that any
    sequence of operations on any number of batches refines it.
  \<^item> Rapl_Flags, Rapl_Units, Rapl_Limits, Rapl_Data, Msr_Turbo: \<open>msr_rapl.c\<close> and \<open>msr_turbo.c\<close>.
    Rapl_Limits_Props and Rapl_Data_Props have the theorems on limits and on single samples,
    Rapl_Poll on a whole poll and on the energy over any number of polls, Rapl_Witness the
    instances; Rapl_Dump has the remaining print-outs.
  \<^item> Reg_Array, Reg_Slots, Reg_Group: the structures the register components share.  Msr_Thermal,
    Thermal_Dump, Thermal_Ok, Thermal_Props: \<open>msr_thermal.c\<close>.  Msr_Counters, Fixed_Counters,
    Counters_Props: \<open>msr_counters.c\<close>.  Msr_Clocks: \<open>msr_clocks.c\<close>.  Msr_Misc: \<open>msr_misc.c\<close>.
    Sim_Window: loaded batches on the concrete machine.
  \<^item> Csr_Core, Csr_Imc, Csr_Props: \<open>csr_core.c\<close> and \<open>csr_imc.c\<close>.
  \<^item> Msrmod: \<open>msrmod.c\<close>.  Autoconf: \<open>autoconf.c\<close>.  Platform_Headers: the six headers of
    \<open>platform_headers/\<close>, and on which of them the constants of Platform and Csr_Imc hold.
  \<^item> Highlander: \<open>highlander.c\<close>, processes and semaphores under arbitrary schedules.
    Power_Timer: \<open>ghighres.c\<close>.  Powmon: \<open>rapl2.c\<close>, \<open>common.c\<close> and the loops of the measuring
    threads.  Powmon_Main: the three \<open>main\<close> functions and their threads, interleaved.  Powmon_Sim:
    their runs on a concrete machine.

  \<^bold>\<open>What the theorems show.\<close>  For the core: \<open>init_msr\<close> returns and opens every device, the
  numbering of processors is one to one, a write changes one register of one processor, a batch read
  fetches and a batch write stores exactly the registers of its operations, the allocator frees
  every block once.  For RAPL: units and time windows round-trip, setting a limit keeps the other
  half of the register, a poll computes energy and power of every socket and keeps the library ready
  for the next, and the reported energies of any run add up.  For the register components: getters
  return what setters wrote and the rest of the registers stays, dumps print what the registers hold.
  For the monitors: at most one highlander in every reachable state, when its wait ends, mutual
  exclusion of the two threads, the totals of the summary, the range of the moving limit, and that
  the threads refine the loops of Powmon.  Where the code does not do what it is meant to, the theorem
  says what it does: the off-by-one of \<open>create_batch_op\<close>, the lost unit per counter wrap, the masks
  of \<open>set_therm_stat\<close>, \<open>print_pmon_ctrs\<close>, which never succeeds, the wait of the highlander, which
  misses the last foe and never ends with two, the measuring thread that outlives the log.

  \<^bold>\<open>Bounds.\<close>  The properties hold for every number of sockets, cores and threads the hypotheses
  allow (\<open>hw_wf\<close>: counts that fit the 32-bit arithmetic of the code); the witnesses use two sockets
  with one core of two threads.  The energy theorems assume that a counter makes less than one full
  turn, \<open>2 ^ 32\<close> units, between two polls, which the code cannot notice.

  \<^bold>\<open>Not modelled.\<close>  Rounding of doubles.  Layout of printed text: an output is the list of the
  printed values or labels.  The debug macros of \<open>libmsr_debug.h\<close>, which print in
  debugging builds.  The programs under \<open>src/test\<close>, sequences of library calls with printing.  Of
  the monitors: the application they start (one step), the copying of strings into file names, and
  weak memory, the accesses to \<open>running\<close> and the totals are atomic.  Hexadecimal arguments of
  \<open>atof\<close> and \<open>strtod\<close>.  The hardware itself: what a register means to the processor is not part of
  any statement.
\<close>

end
